(* ===== verification/Prelude.thy ===== *)
theory Prelude
  imports Main "HOL-Library.Word" "HOL-Library.Multiset"
begin

section \<open>Shared types, automation and lemmas\<close>

text \<open>
  What every component uses: the machine types of the Rust code, the error monad of the
  question-mark operator, decimal printing and parsing of integers (\<open>to_string\<close> and
  \<open>i32::from_str\<close> of the Rust standard library), and the generic machinery for invariants of
  step functions.
  \<^item> Bytes are \<open>8 word\<close>s, message ids and clocks \<open>64 word\<close>s; ids of users, which the code
    only compares and prints, are \<open>int\<close>.
  \<^item> A \<open>Result\<close> is a sum, \<open>Inl\<close> the error and \<open>Inr\<close> the value.
\<close>

named_theorems codec \<open>encode/decode laws, composed field by field\<close>
named_theorems frame \<open>what an operation leaves unchanged\<close>
named_theorems preserves \<open>an operation preserves an invariant\<close>

type_synonym u8 = "8 word"
type_synonym u32 = "32 word"
type_synonym u64 = "64 word"
type_synonym bytes = "u8 list"
type_synonym i64 = int

subsection \<open>Results\<close>

definition res_bind :: "'e + 'a \<Rightarrow> ('a \<Rightarrow> 'e + 'b) \<Rightarrow> 'e + 'b" where
  "res_bind r f = (case r of Inl e \<Rightarrow> Inl e | Inr x \<Rightarrow> f x)"

lemma res_bind_simps [simp]:
  "res_bind (Inl e) f = Inl e"
  "res_bind (Inr x) f = f x"
  by (simp_all add: res_bind_def)

lemma res_bind_InrE:
  assumes "res_bind r f = Inr y"
  obtains x where "r = Inr x" and "f x = Inr y"
  using assms by (cases r) auto

definition res_map_err :: "('e \<Rightarrow> 'f) \<Rightarrow> 'e + 'a \<Rightarrow> 'f + 'a" where
  "res_map_err h r = (case r of Inl e \<Rightarrow> Inl (h e) | Inr x \<Rightarrow> Inr x)"

lemma res_map_err_simps [simp]:
  "res_map_err h (Inl e) = Inl (h e)"
  "res_map_err h (Inr x) = Inr x"
  by (simp_all add: res_map_err_def)

abbreviation is_ok :: "'e + 'a \<Rightarrow> bool" where
  "is_ok r \<equiv> \<not> isl r"

subsection \<open>Decimal integers\<close>

fun show_nat :: "nat \<Rightarrow> string" where
  "show_nat n =
     (if n < 10 then [char_of (48 + n)] else show_nat (n div 10) @ [char_of (48 + n mod 10)])"

declare show_nat.simps [simp del]

definition show_int :: "int \<Rightarrow> string" where
  "show_int i = (if i < 0 then CHR ''-'' # show_nat (nat (- i)) else show_nat (nat i))"

definition digit_val :: "char \<Rightarrow> nat option" where
  "digit_val c = (let k = of_char c :: nat in if 48 \<le> k \<and> k \<le> 57 then Some (k - 48) else None)"

fun parse_digits :: "nat \<Rightarrow> string \<Rightarrow> nat option" where
  "parse_digits acc [] = Some acc"
| "parse_digits acc (c # cs) =
     (case digit_val c of None \<Rightarrow> None | Some d \<Rightarrow> parse_digits (10 * acc + d) cs)"

text \<open>
  \<open>i32::from_str\<close>: an optional sign, at least one digit, digits only, and the value in range.
\<close>

definition in_i32 :: "int \<Rightarrow> bool" where
  "in_i32 i \<longleftrightarrow> - (2 ^ 31) \<le> i \<and> i < 2 ^ 31"

definition parse_i32 :: "string \<Rightarrow> int option" where
  "parse_i32 s =
     (let neg = (case s of c # _ \<Rightarrow> c = CHR ''-'' | [] \<Rightarrow> False);
          sign = (case s of c # _ \<Rightarrow> c = CHR ''-'' \<or> c = CHR ''+'' | [] \<Rightarrow> False);
          ds = (if sign then tl s else s)
      in if ds = [] then None
         else case parse_digits 0 ds of
                None \<Rightarrow> None
              | Some n \<Rightarrow> let i = (if neg then - int n else int n) in if in_i32 i then Some i else None)"

lemma digit_val_char_of: "d < 10 \<Longrightarrow> digit_val (char_of (48 + d)) = Some d"
  by (simp add: digit_val_def Let_def)

lemma parse_digits_snoc:
  "parse_digits acc (xs @ [c]) =
     (case parse_digits acc xs of
        None \<Rightarrow> None
      | Some v \<Rightarrow> (case digit_val c of None \<Rightarrow> None | Some d \<Rightarrow> Some (10 * v + d)))"
  by (induction acc xs rule: parse_digits.induct) (auto split: option.splits)

lemma parse_digits_show_nat [simp]: "parse_digits 0 (show_nat n) = Some n"
proof (induction n rule: show_nat.induct)
  case (1 n)
  show ?case
  proof (cases "n < 10")
    case True
    then show ?thesis by (simp add: show_nat.simps [of n] digit_val_char_of)
  next
    case False
    with 1 have "parse_digits 0 (show_nat (n div 10)) = Some (n div 10)" by simp
    with False show ?thesis
      by (simp add: show_nat.simps [of n] parse_digits_snoc digit_val_char_of)
  qed
qed

lemma show_nat_digits: "c \<in> set (show_nat n) \<Longrightarrow> \<exists>d::nat. d < 10 \<and> c = char_of (48 + d)"
proof (induction n rule: show_nat.induct)
  case (1 n)
  show ?case
  proof (cases "n < 10")
    case True
    with "1.prems" show ?thesis by (auto simp: show_nat.simps [of n])
  next
    case False
    with "1.prems" consider "c \<in> set (show_nat (n div 10))" | "c = char_of (48 + n mod 10)"
      by (auto simp: show_nat.simps [of n])
    then show ?thesis
    proof cases
      case 1
      with False "1.IH" show ?thesis by simp
    next
      case 2
      then show ?thesis by (intro exI [of _ "n mod 10"]) simp
    qed
  qed
qed

lemma show_nat_nonempty [simp]: "show_nat n \<noteq> []"
  by (subst show_nat.simps) simp

lemma show_nat_char:
  assumes "c \<in> set (show_nat n)" and "(of_char c :: nat) < 48 \<or> 57 < (of_char c :: nat)"
  shows False
proof -
  from show_nat_digits [OF assms(1)] obtain d :: nat where d: "d < 10" and c: "c = char_of (48 + d)"
    by blast
  from d have "(of_char c :: nat) = 48 + d" by (simp add: c)
  with d assms(2) show False by linarith
qed

lemma show_nat_hd_not_sign:
  "hd (show_nat n) \<noteq> CHR ''-''" "hd (show_nat n) \<noteq> CHR ''+''"
  using show_nat_char [of "hd (show_nat n)" n] hd_in_set [OF show_nat_nonempty, of n] by auto

lemma show_nat_no_colon [simp]: "CHR '':'' \<notin> set (show_nat n)"
  using show_nat_char [of "CHR '':''" n] by auto

lemma show_int_no_colon [simp]: "CHR '':'' \<notin> set (show_int i)"
  by (simp add: show_int_def)

lemma show_int_nonempty [simp]: "show_int i \<noteq> []"
  by (simp add: show_int_def)

lemma parse_i32_show_int [simp]: "in_i32 i \<Longrightarrow> parse_i32 (show_int i) = Some i"
proof (cases "i < 0")
  case True
  moreover assume "in_i32 i"
  ultimately show ?thesis by (simp add: parse_i32_def show_int_def Let_def)
next
  case False
  moreover assume "in_i32 i"
  moreover obtain c cs where "show_nat (nat i) = c # cs" by (cases "show_nat (nat i)") auto
  moreover from this have "parse_digits 0 (c # cs) = Some (nat i)"
    by (metis parse_digits_show_nat)
  ultimately show ?thesis
    using show_nat_hd_not_sign [of "nat i"]
    by (simp add: parse_i32_def show_int_def Let_def del: parse_digits.simps)
qed

lemma inj_show_nat: "show_nat m = show_nat n \<Longrightarrow> m = n"
  by (metis option.inject parse_digits_show_nat)

lemma show_int_sign: "hd (show_int i) = CHR ''-'' \<longleftrightarrow> i < 0"
  using show_nat_hd_not_sign [of "nat i"] by (simp add: show_int_def)

lemma show_int_inject [simp]: "show_int i = show_int j \<longleftrightarrow> i = j"
proof
  assume eq: "show_int i = show_int j"
  then have "i < 0 \<longleftrightarrow> j < 0" by (metis show_int_sign)
  with eq show "i = j"
    by (auto simp: show_int_def dest: inj_show_nat split: if_splits)
qed simp

subsection \<open>Runs of a step function\<close>

text \<open>
  \<open>run step s es\<close> is the state after the events \<open>es\<close>; \<open>admissible ok step s es\<close> says that
  every event is admitted in the state it meets.
\<close>

fun run :: "('s \<Rightarrow> 'e \<Rightarrow> 's) \<Rightarrow> 's \<Rightarrow> 'e list \<Rightarrow> 's" where
  "run step s [] = s"
| "run step s (e # es) = run step (step s e) es"

fun admissible :: "('s \<Rightarrow> 'e \<Rightarrow> bool) \<Rightarrow> ('s \<Rightarrow> 'e \<Rightarrow> 's) \<Rightarrow> 's \<Rightarrow> 'e list \<Rightarrow> bool" where
  "admissible ok step s [] = True"
| "admissible ok step s (e # es) = (ok s e \<and> admissible ok step (step s e) es)"

lemma run_append: "run step s (xs @ ys) = run step (run step s xs) ys"
  by (induction xs arbitrary: s) auto

lemma admissible_True [simp]: "admissible (\<lambda>_ _. True) step s es"
  by (induction es arbitrary: s) auto

text \<open>
  The interface of a component whose steps keep an invariant. Every stateful component
  interprets it on its own step function, and rests its properties of runs on \<open>run_inv\<close>.
\<close>

locale step_invariant =
  fixes step :: "'s \<Rightarrow> 'e \<Rightarrow> 's"
    and ok :: "'s \<Rightarrow> 'e \<Rightarrow> bool"
    and good :: "'s \<Rightarrow> bool"
  assumes step_inv: "good s \<Longrightarrow> ok s e \<Longrightarrow> good (step s e)"
begin

lemma run_inv: "good s \<Longrightarrow> admissible ok step s es \<Longrightarrow> good (run step s es)"
  by (induction es arbitrary: s) (auto intro: step_inv)

end

text \<open>
  A component whose steps carry out those of an abstract specification: \<open>abs\<close> is what the
  specification sees of a state.
\<close>

locale simulation = step_invariant step ok good
  for step :: "'s \<Rightarrow> 'e \<Rightarrow> 's" and ok :: "'s \<Rightarrow> 'e \<Rightarrow> bool" and good :: "'s \<Rightarrow> bool" +
  fixes abs :: "'s \<Rightarrow> 'a" and spec :: "'a \<Rightarrow> 'e \<Rightarrow> 'a"
  assumes abs_step: "good s \<Longrightarrow> ok s e \<Longrightarrow> abs (step s e) = spec (abs s) e"
begin

lemma abs_run: "good s \<Longrightarrow> admissible ok step s es \<Longrightarrow> abs (run step s es) = run spec (abs s) es"
  by (induction es arbitrary: s) (auto simp: abs_step step_inv)

end

subsection \<open>Lists and maps\<close>

lemma append_colon_inject:
  assumes "xs @ CHR '':'' # ys = xs' @ CHR '':'' # ys'"
    and "CHR '':'' \<notin> set xs" and "CHR '':'' \<notin> set xs'"
  shows "xs = xs' \<and> ys = ys'"
  using assms
proof (induction xs arbitrary: xs')
  case Nil
  then show ?case by (cases xs') auto
next
  case (Cons x xs)
  then show ?case by (cases xs') auto
qed

lemma append_colon_inject_last:
  assumes "xs @ CHR '':'' # ys = xs' @ CHR '':'' # ys'"
    and "CHR '':'' \<notin> set ys" and "CHR '':'' \<notin> set ys'"
  shows "xs = xs' \<and> ys = ys'"
proof -
  from assms(1) have "rev ys @ CHR '':'' # rev xs = rev ys' @ CHR '':'' # rev xs'"
    by (metis append_Cons append_Nil append_assoc rev.simps(2) rev_append)
  from append_colon_inject [OF this] assms(2,3) show ?thesis by simp
qed

end
