(* ===== verification/AppErrors.thy ===== *)
theory AppErrors
  imports Prelude
begin

section \<open>Application errors\<close>

text \<open>
  \<open>libs/app_error/src/lib.rs\<close> and \<open>libs/app_error/src/gotrue.rs\<close>: the error type every server
  operation returns, its wire codes, and the conversions into it. Errors of third-party crates
  are represented by their rendered message; a \<open>reqwest::Error\<close> is what its predicates answer.
\<close>

datatype error_code =
    EcOk | EcUnhandled | EcRecordNotFound | EcRecordAlreadyExists | EcInvalidEmail
  | EcInvalidPassword | EcOAuthError | EcMissingPayload | EcDBError | EcOpenError | EcInvalidUrl
  | EcInvalidRequest | EcInvalidOAuthProvider | EcNotLoggedIn | EcNotEnoughPermissions | EcS3Error
  | EcStorageSpaceNotEnough | EcPayloadTooLarge | EcInternal | EcUuidError | EcIOError | EcSqlxError
  | EcS3ResponseError | EcSerdeError | EcNetworkError | EcUserUnAuthorized

fun error_code_value :: "error_code \<Rightarrow> int" where
  "error_code_value EcOk = 0"
| "error_code_value EcUnhandled = -1"
| "error_code_value EcRecordNotFound = -2"
| "error_code_value EcRecordAlreadyExists = -3"
| "error_code_value EcInvalidEmail = 1001"
| "error_code_value EcInvalidPassword = 1002"
| "error_code_value EcOAuthError = 1003"
| "error_code_value EcMissingPayload = 1004"
| "error_code_value EcDBError = 1005"
| "error_code_value EcOpenError = 1006"
| "error_code_value EcInvalidUrl = 1007"
| "error_code_value EcInvalidRequest = 1008"
| "error_code_value EcInvalidOAuthProvider = 1009"
| "error_code_value EcNotLoggedIn = 1011"
| "error_code_value EcNotEnoughPermissions = 1012"
| "error_code_value EcS3Error = 1014"
| "error_code_value EcStorageSpaceNotEnough = 1015"
| "error_code_value EcPayloadTooLarge = 1016"
| "error_code_value EcInternal = 1017"
| "error_code_value EcUuidError = 1018"
| "error_code_value EcIOError = 1019"
| "error_code_value EcSqlxError = 1020"
| "error_code_value EcS3ResponseError = 1021"
| "error_code_value EcSerdeError = 1022"
| "error_code_value EcNetworkError = 1023"
| "error_code_value EcUserUnAuthorized = 1024"

datatype app_error =
    OkError
  | Internal string
  | Unhandled string
  | RecordNotFound string
  | RecordAlreadyExists string
  | InvalidEmail string
  | InvalidPassword string
  | OAuthError string
  | UserUnAuthorized string
  | UserAlreadyRegistered string
  | MissingPayload string
  | DBError string
  | OpenError string
  | InvalidRequest string
  | InvalidOAuthProvider string
  | NotLoggedIn string
  | NotEnoughPermissions string
  | S3Error string
  | S3ResponseError string
  | StorageSpaceNotEnough
  | PayloadTooLarge string
  | UuidError string
  | IOError string
  | SqlxError string
  | ValidatorError "string list"
  | UrlError string
  | SerdeError string
  | Connect string
  | RequestTimeout string
  | TokioJoinError string
  | BincodeError string

fun is_not_enough_permissions :: "app_error \<Rightarrow> bool" where
  "is_not_enough_permissions (NotEnoughPermissions _) = True"
| "is_not_enough_permissions _ = False"

fun is_record_not_found :: "app_error \<Rightarrow> bool" where
  "is_record_not_found (RecordNotFound _) = True"
| "is_record_not_found _ = False"

fun is_network_error :: "app_error \<Rightarrow> bool" where
  "is_network_error (Connect _) = True"
| "is_network_error (RequestTimeout _) = True"
| "is_network_error _ = False"

fun is_unauthorized :: "app_error \<Rightarrow> bool" where
  "is_unauthorized (UserUnAuthorized _) = True"
| "is_unauthorized _ = False"

fun app_error_code :: "app_error \<Rightarrow> error_code" where
  "app_error_code OkError = EcOk"
| "app_error_code (Unhandled _) = EcUnhandled"
| "app_error_code (RecordNotFound _) = EcRecordNotFound"
| "app_error_code (RecordAlreadyExists _) = EcRecordAlreadyExists"
| "app_error_code (InvalidEmail _) = EcInvalidEmail"
| "app_error_code (InvalidPassword _) = EcInvalidPassword"
| "app_error_code (OAuthError _) = EcOAuthError"
| "app_error_code (UserUnAuthorized _) = EcUserUnAuthorized"
| "app_error_code (UserAlreadyRegistered _) = EcRecordAlreadyExists"
| "app_error_code (MissingPayload _) = EcMissingPayload"
| "app_error_code (DBError _) = EcDBError"
| "app_error_code (OpenError _) = EcOpenError"
| "app_error_code (InvalidOAuthProvider _) = EcInvalidOAuthProvider"
| "app_error_code (InvalidRequest _) = EcInvalidRequest"
| "app_error_code (NotLoggedIn _) = EcNotLoggedIn"
| "app_error_code (NotEnoughPermissions _) = EcNotEnoughPermissions"
| "app_error_code (S3Error _) = EcS3Error"
| "app_error_code StorageSpaceNotEnough = EcStorageSpaceNotEnough"
| "app_error_code (PayloadTooLarge _) = EcPayloadTooLarge"
| "app_error_code (Internal _) = EcInternal"
| "app_error_code (UuidError _) = EcUuidError"
| "app_error_code (IOError _) = EcIOError"
| "app_error_code (SqlxError _) = EcSqlxError"
| "app_error_code (ValidatorError _) = EcInvalidRequest"
| "app_error_code (S3ResponseError _) = EcS3ResponseError"
| "app_error_code (UrlError _) = EcInvalidUrl"
| "app_error_code (SerdeError _) = EcSerdeError"
| "app_error_code (Connect _) = EcNetworkError"
| "app_error_code (RequestTimeout _) = EcNetworkError"
| "app_error_code (TokioJoinError _) = EcInternal"
| "app_error_code (BincodeError _) = EcInternal"

text \<open>
  \<open>Display\<close>. The text of validation errors belongs to the \<open>validator\<close> crate and is the
  parameter \<open>vd\<close>; the other transparent variants carry the text of the inner error.
\<close>

fun display_app_error :: "(string list \<Rightarrow> string) \<Rightarrow> app_error \<Rightarrow> string" where
  "display_app_error vd OkError = ''Operation completed successfully.''"
| "display_app_error vd (Internal m) = m"
| "display_app_error vd (Unhandled m) = ''An unhandled error occurred:'' @ m"
| "display_app_error vd (RecordNotFound m) = ''Record not found:'' @ m"
| "display_app_error vd (RecordAlreadyExists m) = ''Record already exist:'' @ m"
| "display_app_error vd (InvalidEmail m) = ''Invalid email format:'' @ m"
| "display_app_error vd (InvalidPassword m) = ''Invalid password:'' @ m"
| "display_app_error vd (OAuthError m) = m"
| "display_app_error vd (UserUnAuthorized m) = m"
| "display_app_error vd (UserAlreadyRegistered m) = m"
| "display_app_error vd (MissingPayload m) = ''Missing Payload:'' @ m"
| "display_app_error vd (DBError m) = ''Database error:'' @ m"
| "display_app_error vd (OpenError m) = ''Open Error:'' @ m"
| "display_app_error vd (InvalidRequest m) = ''Invalid request:'' @ m"
| "display_app_error vd (InvalidOAuthProvider m) = ''Invalid OAuth Provider:'' @ m"
| "display_app_error vd (NotLoggedIn m) = ''Not Logged In:'' @ m"
| "display_app_error vd (NotEnoughPermissions m) = ''Not Enough Permissions:'' @ m"
| "display_app_error vd (S3Error m) = m"
| "display_app_error vd (S3ResponseError m) = ''s3 response error:'' @ m"
| "display_app_error vd StorageSpaceNotEnough = ''Storage space not enough''"
| "display_app_error vd (PayloadTooLarge m) = ''Payload too large:'' @ m"
| "display_app_error vd (UuidError m) = m"
| "display_app_error vd (IOError m) = m"
| "display_app_error vd (SqlxError m) = m"
| "display_app_error vd (ValidatorError fs) = vd fs"
| "display_app_error vd (UrlError m) = m"
| "display_app_error vd (SerdeError m) = m"
| "display_app_error vd (Connect m) = m"
| "display_app_error vd (RequestTimeout m) = m"
| "display_app_error vd (TokioJoinError m) = m"
| "display_app_error vd (BincodeError m) = m"

subsection \<open>GoTrue errors\<close>

record gotrue_error_serde =
  gts_code :: int
  gts_msg :: string
  gts_error_id :: "string option"

record gotrue_client_error =
  gtc_error :: string
  gtc_error_description :: "string option"

datatype gotrue_error =
    GtConnect string
  | GtRequestTimeout string
  | GtInvalidRequest string
  | GtClientError gotrue_client_error
  | GtInternal gotrue_error_serde
  | GtNotLoggedIn string
  | GtAuth string
  | GtUnhandled string

fun gotrue_is_network_error :: "gotrue_error \<Rightarrow> bool" where
  "gotrue_is_network_error (GtConnect _) = True"
| "gotrue_is_network_error (GtRequestTimeout _) = True"
| "gotrue_is_network_error _ = False"

text \<open>Rust's \<open>{:?}\<close> of an optional string without characters to escape.\<close>

definition debug_opt_string :: "string option \<Rightarrow> string" where
  "debug_opt_string o' =
     (case o' of None \<Rightarrow> ''None'' | Some s \<Rightarrow> ''Some('' @ [CHR 0x22] @ s @ [CHR 0x22] @ '')'')"

definition display_gotrue_error_serde :: "gotrue_error_serde \<Rightarrow> string" where
  "display_gotrue_error_serde e =
     ''code: '' @ show_int (gts_code e) @ '', msg:'' @ gts_msg e @ '', error_id: '' @
     debug_opt_string (gts_error_id e)"

definition display_gotrue_client_error :: "gotrue_client_error \<Rightarrow> string" where
  "display_gotrue_client_error e =
     ''error: '' @ gtc_error e @ '', description: '' @ debug_opt_string (gtc_error_description e)"

definition starts_with :: "string \<Rightarrow> string \<Rightarrow> bool" where
  "starts_with s p \<longleftrightarrow> take (length p) s = p"

fun app_error_of_gotrue :: "gotrue_error \<Rightarrow> app_error" where
  "app_error_of_gotrue (GtConnect msg) = Connect msg"
| "app_error_of_gotrue (GtRequestTimeout msg) = RequestTimeout msg"
| "app_error_of_gotrue (GtInvalidRequest msg) = InvalidRequest msg"
| "app_error_of_gotrue (GtClientError e) = OAuthError (display_gotrue_client_error e)"
| "app_error_of_gotrue (GtAuth e) = UserUnAuthorized e"
| "app_error_of_gotrue (GtInternal e) =
     (if gts_code e = 400 \<and> starts_with (gts_msg e) ''oauth error'' then OAuthError (gts_msg e)
      else if gts_code e = 400 \<and> starts_with (gts_msg e) ''User already registered''
      then UserAlreadyRegistered (gts_msg e)
      else if gts_code e = 401
      then UserUnAuthorized (show_int (gts_code e) @ '':'' @ gts_msg e)
      else if gts_code e = 422 then InvalidRequest (gts_msg e)
      else OAuthError (display_gotrue_error_serde e))"
| "app_error_of_gotrue (GtUnhandled e) = Internal e"
| "app_error_of_gotrue (GtNotLoggedIn msg) = NotLoggedIn msg"

subsection \<open>HTTP client and database errors\<close>

record reqwest_error =
  rq_is_connect :: bool
  rq_is_timeout :: bool
  rq_is_request :: bool
  rq_status :: "nat option"
  rq_text :: string

text \<open>The flag \<open>wasm\<close> is \<open>cfg(target_arch = "wasm32")\<close>, under which \<open>is_connect\<close> is not asked.\<close>

definition app_error_of_reqwest :: "bool \<Rightarrow> reqwest_error \<Rightarrow> app_error" where
  "app_error_of_reqwest wasm e =
     (if \<not> wasm \<and> rq_is_connect e then Connect (rq_text e)
      else if rq_is_timeout e then RequestTimeout (rq_text e)
      else if rq_is_request e then InvalidRequest (rq_text e)
      else Unhandled (rq_text e))"

definition gotrue_error_of_reqwest :: "bool \<Rightarrow> reqwest_error \<Rightarrow> gotrue_error" where
  "gotrue_error_of_reqwest wasm e =
     (if \<not> wasm \<and> rq_is_connect e then GtConnect (rq_text e)
      else if rq_is_timeout e then GtRequestTimeout (rq_text e)
      else if rq_is_request e then GtInvalidRequest (rq_text e)
      else if rq_status e = Some 401 then GtAuth (rq_text e)
      else GtUnhandled (rq_text e))"

datatype sqlx_error = SqlRowNotFound | SqlPoolTimedOut | SqlOther string

fun display_sqlx_error :: "sqlx_error \<Rightarrow> string" where
  "display_sqlx_error SqlRowNotFound =
     ''no rows returned by a query that expected to return at least one row''"
| "display_sqlx_error SqlPoolTimedOut =
     ''pool timed out while waiting for an open connection''"
| "display_sqlx_error (SqlOther m) = m"

fun app_error_of_sqlx :: "sqlx_error \<Rightarrow> app_error" where
  "app_error_of_sqlx SqlRowNotFound =
     RecordNotFound (''Record not exist in db. '' @ display_sqlx_error SqlRowNotFound @ '')'')"
| "app_error_of_sqlx e = SqlxError (display_sqlx_error e)"

subsection \<open>Properties\<close>

lemma is_record_not_found_code: "is_record_not_found e \<longleftrightarrow> app_error_code e = EcRecordNotFound"
  by (cases e) auto

lemma app_error_of_sqlx_not_found [simp]:
  "is_record_not_found (app_error_of_sqlx e) \<longleftrightarrow> e = SqlRowNotFound"
  by (cases e) auto

lemma error_code_value_inject:
  "error_code_value c = error_code_value d \<longleftrightarrow> c = d"
  by (cases c; cases d) simp_all

lemma gotrue_network_error [simp]:
  "is_network_error (app_error_of_gotrue e) = gotrue_is_network_error e"
  by (cases e) auto

end
