(* ===== verification/Dto.thy ===== *)
theory Dto
  imports AppErrors
begin

section \<open>Data transfer objects\<close>

text \<open>
  \<open>libs/database-entity/src/dto.rs\<close>: roles and access levels with their integer and string
  codes, the parameter records of the collab operations and their validation. \<open>collab_type\<close>
  lists the variants of \<open>collab_entity::CollabType\<close> the code matches on; the partition key of a
  variant (\<open>CollabType::value\<close>) belongs to that crate and is a parameter where it is used.
\<close>

datatype af_role = Owner | Member | Guest

definition can_create_collab :: "af_role \<Rightarrow> bool" where
  "can_create_collab r \<longleftrightarrow> (case r of Owner \<Rightarrow> True | Member \<Rightarrow> True | Guest \<Rightarrow> False)"

definition role_of_i32 :: "int \<Rightarrow> af_role" where
  "role_of_i32 v = (if v = 1 then Owner else if v = 2 then Member else if v = 3 then Guest else Guest)"

fun i32_of_role :: "af_role \<Rightarrow> int" where
  "i32_of_role Owner = 1"
| "i32_of_role Member = 2"
| "i32_of_role Guest = 3"

definition role_of_str :: "string \<Rightarrow> af_role" where
  "role_of_str s = (case parse_i32 s of Some v \<Rightarrow> role_of_i32 v | None \<Rightarrow> Guest)"

datatype af_access_level = ReadOnly | ReadAndComment | ReadAndWrite | FullAccess

fun can_write :: "af_access_level \<Rightarrow> bool" where
  "can_write ReadOnly = False"
| "can_write ReadAndComment = False"
| "can_write ReadAndWrite = True"
| "can_write FullAccess = True"

fun can_delete :: "af_access_level \<Rightarrow> bool" where
  "can_delete ReadOnly = False"
| "can_delete ReadAndComment = False"
| "can_delete ReadAndWrite = False"
| "can_delete FullAccess = True"

definition level_of_i32 :: "int \<Rightarrow> af_access_level" where
  "level_of_i32 v =
     (if v = 10 then ReadOnly else if v = 20 then ReadAndComment else if v = 30 then ReadAndWrite
      else if v = 50 then FullAccess else ReadOnly)"

definition level_of_str :: "string \<Rightarrow> af_access_level" where
  "level_of_str s = (case parse_i32 s of Some v \<Rightarrow> level_of_i32 v | None \<Rightarrow> ReadOnly)"

fun i32_of_level :: "af_access_level \<Rightarrow> int" where
  "i32_of_level ReadOnly = 10"
| "i32_of_level ReadAndComment = 20"
| "i32_of_level ReadAndWrite = 30"
| "i32_of_level FullAccess = 50"

record af_permission =
  perm_id :: int
  perm_name :: string
  perm_access_level :: af_access_level
  perm_description :: string

record af_collab_member =
  acm_uid :: i64
  acm_oid :: string
  acm_permission :: af_permission

subsection \<open>Parameters and validation\<close>

datatype collab_type = Document | Database | WorkspaceDatabase | Folder | DatabaseRow | UserAwareness

record collab_params =
  cp_object_id :: string
  cp_encoded_collab_v1 :: bytes
  cp_collab_type :: collab_type
  cp_override_if_exist :: bool

record create_collab_params =
  ccp_workspace_id :: string
  ccp_object_id :: string
  ccp_encoded_collab_v1 :: bytes
  ccp_collab_type :: collab_type
  ccp_override_if_exist :: bool

record query_collab =
  qc_object_id :: string
  qc_collab_type :: collab_type

record query_collab_params =
  qcp_workspace_id :: string
  qcp_inner :: query_collab

record insert_snapshot_params =
  isp_object_id :: string
  isp_encoded_collab_v1 :: bytes
  isp_workspace_id :: string

record insert_collab_member_params =
  icm_uid :: i64
  icm_workspace_id :: string
  icm_object_id :: string
  icm_access_level :: af_access_level

record collab_member_identify =
  cmi_uid :: i64
  cmi_workspace_id :: string
  cmi_object_id :: string

datatype query_collab_result = QSuccess bytes | QFailed string

definition create_params_of :: "string \<Rightarrow> collab_params \<Rightarrow> create_collab_params" where
  "create_params_of w p =
     \<lparr>ccp_workspace_id = w, ccp_object_id = cp_object_id p,
      ccp_encoded_collab_v1 = cp_encoded_collab_v1 p, ccp_collab_type = cp_collab_type p,
      ccp_override_if_exist = cp_override_if_exist p\<rparr>"

definition split_create_params :: "create_collab_params \<Rightarrow> collab_params \<times> string" where
  "split_create_params p =
     (\<lparr>cp_object_id = ccp_object_id p, cp_encoded_collab_v1 = ccp_encoded_collab_v1 p,
       cp_collab_type = ccp_collab_type p, cp_override_if_exist = ccp_override_if_exist p\<rparr>,
      ccp_workspace_id p)"

definition validate_not_empty_str :: "string \<Rightarrow> string + unit" where
  "validate_not_empty_str s = (if s = [] then Inl ''should not be empty string'' else Inr ())"

definition validate_not_empty_payload :: "bytes \<Rightarrow> string + unit" where
  "validate_not_empty_payload p = (if p = [] then Inl ''should not be empty payload'' else Inr ())"

text \<open>
  \<open>#[derive(Validate)]\<close> runs the named function on every annotated field and collects the
  fields that fail; the result is an error when some field fails.
\<close>

fun collect_errors :: "(string \<times> (string + unit)) list \<Rightarrow> app_error + unit" where
  "collect_errors checks =
     (let bad = [f. (f, r) \<leftarrow> checks, isl r] in if bad = [] then Inr () else Inl (ValidatorError bad))"

definition validate_collab_params :: "collab_params \<Rightarrow> app_error + unit" where
  "validate_collab_params p = collect_errors
     [(''object_id'', validate_not_empty_str (cp_object_id p)),
      (''encoded_collab_v1'', validate_not_empty_payload (cp_encoded_collab_v1 p))]"

definition validate_query_collab :: "query_collab \<Rightarrow> app_error + unit" where
  "validate_query_collab q =
     collect_errors [(''object_id'', validate_not_empty_str (qc_object_id q))]"

definition validate_query_collab_params :: "query_collab_params \<Rightarrow> app_error + unit" where
  "validate_query_collab_params p = collect_errors
     [(''workspace_id'', validate_not_empty_str (qcp_workspace_id p)),
      (''object_id'', validate_not_empty_str (qc_object_id (qcp_inner p)))]"

definition validate_insert_snapshot_params :: "insert_snapshot_params \<Rightarrow> app_error + unit" where
  "validate_insert_snapshot_params p = collect_errors
     [(''object_id'', validate_not_empty_str (isp_object_id p)),
      (''encoded_collab_v1'', validate_not_empty_payload (isp_encoded_collab_v1 p)),
      (''workspace_id'', validate_not_empty_str (isp_workspace_id p))]"

definition validate_insert_collab_member_params ::
    "insert_collab_member_params \<Rightarrow> app_error + unit" where
  "validate_insert_collab_member_params p = collect_errors
     [(''workspace_id'', validate_not_empty_str (icm_workspace_id p)),
      (''object_id'', validate_not_empty_str (icm_object_id p))]"

definition validate_collab_member_identify :: "collab_member_identify \<Rightarrow> app_error + unit" where
  "validate_collab_member_identify p = collect_errors
     [(''workspace_id'', validate_not_empty_str (cmi_workspace_id p)),
      (''object_id'', validate_not_empty_str (cmi_object_id p))]"

subsection \<open>Properties\<close>

lemma in_i32_level [simp]: "in_i32 (i32_of_level l)"
  by (cases l) (simp_all add: in_i32_def)

lemma in_i32_role [simp]: "in_i32 (i32_of_role r)"
  by (cases r) (simp_all add: in_i32_def)

lemma level_of_i32_of_level [simp]: "level_of_i32 (i32_of_level l) = l"
  by (cases l) (simp_all add: level_of_i32_def)

lemma role_of_i32_of_role [simp]: "role_of_i32 (i32_of_role r) = r"
  by (cases r) (simp_all add: role_of_i32_def)

lemma level_of_str_show [simp]: "level_of_str (show_int (i32_of_level l)) = l"
  by (simp add: level_of_str_def)

lemma role_of_str_show [simp]: "role_of_str (show_int (i32_of_role r)) = r"
  by (simp add: role_of_str_def)

lemma split_create_params_of [simp]: "split_create_params (create_params_of w p) = (p, w)"
  by (simp add: split_create_params_def create_params_of_def)

lemma create_params_of_split:
  "create_params_of (snd (split_create_params p)) (fst (split_create_params p)) = p"
  by (simp add: split_create_params_def create_params_of_def)

lemma validate_simps [simp]:
  "is_ok (validate_not_empty_str s) \<longleftrightarrow> s \<noteq> []"
  "is_ok (validate_not_empty_payload b) \<longleftrightarrow> b \<noteq> []"
  by (simp_all add: validate_not_empty_str_def validate_not_empty_payload_def)

lemma validate_collab_params_ok:
  "validate_collab_params p = Inr () \<longleftrightarrow> cp_object_id p \<noteq> [] \<and> cp_encoded_collab_v1 p \<noteq> []"
  by (auto simp: validate_collab_params_def validate_not_empty_str_def
      validate_not_empty_payload_def)

lemma validate_query_collab_params_ok:
  "validate_query_collab_params p = Inr () \<longleftrightarrow>
     qcp_workspace_id p \<noteq> [] \<and> qc_object_id (qcp_inner p) \<noteq> []"
  by (auto simp: validate_query_collab_params_def validate_not_empty_str_def)

end
