(* ===== verification/Snowflake.thy ===== *)
theory Snowflake
  imports Prelude
begin

unbundle bit_operations_syntax

section \<open>Snowflake identifiers\<close>

text \<open>
  \<open>libs/snowflake/src/lib.rs\<close>: the generator of user ids. Time is 64-bit milliseconds; the
  clock is the list of readings it will give (\<open>SystemTime::now\<close> is the environment), so a
  call consumes the readings it makes. A panic and a clock list that ends inside
  \<open>wait_next_millis\<close> are different outcomes.
\<close>

definition EPOCH :: u64 where "EPOCH = 1637806706000"
definition NODE_ID_BITS :: nat where "NODE_ID_BITS = 10"
definition SEQUENCE_BITS :: nat where "SEQUENCE_BITS = 12"
definition NODE_ID_SHIFT :: nat where "NODE_ID_SHIFT = SEQUENCE_BITS"
definition TIMESTAMP_SHIFT :: nat where "TIMESTAMP_SHIFT = NODE_ID_BITS + SEQUENCE_BITS"
definition SEQUENCE_MASK :: u64 where "SEQUENCE_MASK = push_bit SEQUENCE_BITS 1 - 1"

lemmas snowflake_consts =
  EPOCH_def NODE_ID_BITS_def SEQUENCE_BITS_def NODE_ID_SHIFT_def TIMESTAMP_SHIFT_def
  SEQUENCE_MASK_def

record snowflake =
  sf_node_id :: u64
  sf_sequence :: u64
  sf_last_timestamp :: u64

definition snowflake_new :: "u64 \<Rightarrow> snowflake" where
  "snowflake_new n = \<lparr>sf_node_id = n, sf_sequence = 0, sf_last_timestamp = 0\<rparr>"

datatype outcome = Panic | Blocked

text \<open>\<open>wait_next_millis\<close> reads the clock until it differs from the last timestamp.\<close>

fun wait_next_millis :: "snowflake \<Rightarrow> u64 list \<Rightarrow> outcome + u64 list" where
  "wait_next_millis s [] = Inl Blocked"
| "wait_next_millis s (t # ts) =
     (if t = sf_last_timestamp s then wait_next_millis s ts else Inr ts)"

definition make_id :: "u64 \<Rightarrow> u64 \<Rightarrow> u64 \<Rightarrow> u64" where
  "make_id ts node sq =
     push_bit TIMESTAMP_SHIFT (ts - EPOCH) OR push_bit NODE_ID_SHIFT node OR sq"

text \<open>
  \<open>next_id\<close>. The subtraction \<open>timestamp - EPOCH\<close> is the wrapping one of a release build; the
  readings of a clock after 2021 are above \<open>EPOCH\<close>.
\<close>

definition next_id :: "snowflake \<Rightarrow> u64 list \<Rightarrow> outcome + (u64 \<times> snowflake \<times> u64 list)" where
  "next_id s clk =
     (case clk of
        [] \<Rightarrow> Inl Blocked
      | timestamp # clk1 \<Rightarrow>
          if timestamp < sf_last_timestamp s then Inl Panic
          else
            res_bind
              (if timestamp = sf_last_timestamp s then
                 (let s1 = s\<lparr>sf_sequence := (sf_sequence s + 1) AND SEQUENCE_MASK\<rparr>
                  in if sf_sequence s1 = 0
                     then res_bind (wait_next_millis s1 clk1) (\<lambda>clk2. Inr (s1, clk2))
                     else Inr (s1, clk1))
               else Inr (s\<lparr>sf_sequence := 0\<rparr>, clk1))
              (\<lambda>(s1, clk2).
                 let s2 = s1\<lparr>sf_last_timestamp := timestamp\<rparr>
                 in Inr (make_id timestamp (sf_node_id s2) (sf_sequence s2), s2, clk2)))"

text \<open>A run of \<open>n\<close> calls on one generator.\<close>

fun next_ids :: "nat \<Rightarrow> snowflake \<Rightarrow> u64 list \<Rightarrow> outcome + (u64 list \<times> snowflake \<times> u64 list)" where
  "next_ids 0 s clk = Inr ([], s, clk)"
| "next_ids (Suc n) s clk =
     res_bind (next_id s clk) (\<lambda>(i, s1, clk1).
       res_bind (next_ids n s1 clk1) (\<lambda>(is, s2, clk2). Inr (i # is, s2, clk2)))"

subsection \<open>Arithmetic of the identifier\<close>

lemma push_bit_or_nat:
  fixes x y :: nat assumes "y < 2 ^ k"
  shows "push_bit k x OR y = x * 2 ^ k + y"
proof -
  have "push_bit k x AND y = 0"
  proof (rule bit_eqI)
    fix n
    from assms have "take_bit k y = y" by (simp add: take_bit_nat_eq_self)
    then have "bit y n \<Longrightarrow> n < k" by (metis bit_take_bit_iff)
    then show "bit (push_bit k x AND y) n = bit 0 n"
      by (auto simp: bit_and_iff bit_push_bit_iff)
  qed
  then have "push_bit k x + y = push_bit k x OR y" by (rule disjunctive_add_eq_or)
  then show ?thesis by (simp add: push_bit_eq_mult)
qed

lemma unat_push_bit_small:
  fixes w :: u64 assumes "unat w * 2 ^ k < 2 ^ 64"
  shows "unat (push_bit k w) = push_bit k (unat w)"
  by (subst unsigned_push_bit_eq) (use assms in \<open>simp add: take_bit_nat_eq_self push_bit_eq_mult\<close>)

lemma unat_make_id:
  assumes ts: "EPOCH \<le> ts" "unat (ts - EPOCH) < 2 ^ 41" and node: "unat node < 2 ^ 10"
    and sq: "unat sq < 2 ^ 12"
  shows "unat (make_id ts node sq) = unat (ts - EPOCH) * 2 ^ 22 + unat node * 2 ^ 12 + unat sq"
proof -
  let ?d = "unat (ts - EPOCH)"
  have p1: "unat (push_bit 22 (ts - EPOCH)) = push_bit 22 ?d"
    by (rule unat_push_bit_small) (use ts in simp)
  have p2: "unat (push_bit 12 node) = push_bit 12 (unat node)"
    by (rule unat_push_bit_small) (use node in simp)
  have small: "unat node * 2 ^ 12 + unat sq < 2 ^ 22" using node sq by simp
  have "unat (make_id ts node sq) = push_bit 22 ?d OR (push_bit 12 (unat node) OR unat sq)"
    by (simp add: make_id_def TIMESTAMP_SHIFT_def NODE_ID_SHIFT_def NODE_ID_BITS_def
        SEQUENCE_BITS_def unsigned_or_eq p1 p2 or.assoc)
  also have "\<dots> = push_bit 22 ?d OR (unat node * 2 ^ 12 + unat sq)"
    by (subst push_bit_or_nat [OF sq]) (rule refl)
  also have "\<dots> = ?d * 2 ^ 22 + (unat node * 2 ^ 12 + unat sq)"
    by (rule push_bit_or_nat [OF small])
  finally show ?thesis by simp
qed

lemma make_id_less:
  assumes "EPOCH \<le> t" "EPOCH \<le> t'" "unat (t - EPOCH) < 2 ^ 41" "unat (t' - EPOCH) < 2 ^ 41"
    and "unat node < 2 ^ 10" "unat q < 2 ^ 12" "unat q' < 2 ^ 12"
    and lex: "unat (t - EPOCH) < unat (t' - EPOCH) \<or> t = t' \<and> unat q < unat q'"
  shows "make_id t node q < make_id t' node q'"
proof -
  have "unat (make_id t node q) < unat (make_id t' node q')"
    using assms by (auto simp: unat_make_id)
  then show ?thesis by (simp add: word_less_nat_alt)
qed

lemma and_sequence_mask:
  "unat (w AND SEQUENCE_MASK) = unat w mod 4096"
proof -
  have "SEQUENCE_MASK = mask 12"
    by (simp add: snowflake_consts mask_eq_exp_minus_1)
  then have "w AND SEQUENCE_MASK = take_bit 12 w"
    by (simp add: take_bit_eq_mask)
  then show ?thesis
    by (simp only: unsigned_take_bit_eq) (simp add: take_bit_eq_mod)
qed

lemma next_sequence:
  assumes "unat q < 4095"
  shows "(q + 1) AND SEQUENCE_MASK = q + 1" and "q + 1 \<noteq> (0::u64)" and "unat (q + 1) = unat q + 1"
proof -
  from assms show u: "unat (q + 1) = unat q + 1"
    by (simp add: unat_word_ariths)
  then show "q + 1 \<noteq> 0" by auto
  have "unat ((q + 1) AND SEQUENCE_MASK) = unat (q + 1)"
    using assms by (subst and_sequence_mask) (simp add: u)
  then show "(q + 1) AND SEQUENCE_MASK = q + 1" by (simp add: word_unat_eq_iff)
qed

lemma next_id_new_millis:
  assumes "sf_last_timestamp s < t"
  shows "next_id s (t # clk) =
    Inr (make_id t (sf_node_id s) 0, s\<lparr>sf_sequence := 0, sf_last_timestamp := t\<rparr>, clk)"
  using assms by (auto simp: next_id_def)

lemma next_id_same_millis:
  assumes "unat (sf_sequence s) < 4095"
  shows "next_id s (sf_last_timestamp s # clk) =
    Inr (make_id (sf_last_timestamp s) (sf_node_id s) (sf_sequence s + 1),
         s\<lparr>sf_sequence := sf_sequence s + 1\<rparr>, clk)"
  using next_sequence [OF assms] by (simp add: next_id_def Let_def)

lemma next_id_wraps:
  assumes "unat (sf_sequence s) = 4095" and "t' \<noteq> sf_last_timestamp s"
  shows "next_id s (sf_last_timestamp s # t' # clk) =
    Inr (make_id (sf_last_timestamp s) (sf_node_id s) 0, s\<lparr>sf_sequence := 0\<rparr>, clk)"
proof -
  have "unat ((sf_sequence s + 1) AND SEQUENCE_MASK) = 0"
    by (subst and_sequence_mask) (use assms(1) in \<open>simp add: unat_word_ariths\<close>)
  then have "(sf_sequence s + 1) AND SEQUENCE_MASK = 0" by (simp add: unat_eq_0)
  with assms(2) show ?thesis by (simp add: next_id_def Let_def)
qed

lemma next_ids_add:
  "next_ids (m + n) s clk =
     res_bind (next_ids m s clk) (\<lambda>(is, s1, clk1).
       res_bind (next_ids n s1 clk1) (\<lambda>(js, s2, clk2). Inr (is @ js, s2, clk2)))"
proof (induction m arbitrary: s clk)
  case 0
  show ?case by (cases "next_ids n s clk") auto
next
  case (Suc m)
  then show ?case
    by (auto simp: res_bind_def split: sum.splits)
qed

text \<open>Within one millisecond the sequence counts up to its mask.\<close>

lemma next_ids_same_millis:
  assumes "unat (sf_sequence s) + n \<le> 4095"
  shows "\<exists>is. next_ids n s (replicate n (sf_last_timestamp s) @ clk) =
    Inr (is, s\<lparr>sf_sequence := sf_sequence s + of_nat n\<rparr>, clk) \<and> length is = n"
  using assms
proof (induction n arbitrary: s)
  case 0
  then show ?case by simp
next
  case (Suc n)
  let ?s = "s\<lparr>sf_sequence := sf_sequence s + 1\<rparr>"
  from Suc.prems have lt: "unat (sf_sequence s) < 4095" by simp
  from Suc.IH [of ?s] Suc.prems next_sequence(3) [OF lt]
  obtain "is" where "next_ids n ?s (replicate n (sf_last_timestamp ?s) @ clk) =
      Inr (is, ?s\<lparr>sf_sequence := sf_sequence ?s + of_nat n\<rparr>, clk)" "length is = n"
    by auto
  with next_id_same_millis [OF lt] show ?case
    by (simp add: algebra_simps)
qed

definition clock_fits :: "snowflake \<Rightarrow> u64 list \<Rightarrow> bool" where
  "clock_fits s clk \<longleftrightarrow>
     sorted (sf_last_timestamp s # clk) \<and>
     (\<forall>t \<in> set clk. EPOCH \<le> t \<and> unat (t - EPOCH) < 2 ^ 41) \<and>
     unat (sf_sequence s) + count_list clk (sf_last_timestamp s) \<le> 4095 \<and>
     (\<forall>t. t \<noteq> sf_last_timestamp s \<longrightarrow> count_list clk t \<le> 4096)"

lemma next_id_step:
  assumes fits: "clock_fits s (t # clk)"
  obtains q where "next_id s (t # clk) =
      Inr (make_id t (sf_node_id s) q, s\<lparr>sf_sequence := q, sf_last_timestamp := t\<rparr>, clk)"
    and "clock_fits (s\<lparr>sf_sequence := q, sf_last_timestamp := t\<rparr>) clk"
    and "unat q < 2 ^ 12"
    and "sf_last_timestamp s < t \<or> sf_last_timestamp s = t \<and> unat (sf_sequence s) < unat q"
proof (cases "t = sf_last_timestamp s")
  case True
  with fits have lt: "unat (sf_sequence s) < 4095"
    by (auto simp: clock_fits_def)
  show thesis
  proof (rule that [of "sf_sequence s + 1"])
    show "next_id s (t # clk) = Inr (make_id t (sf_node_id s) (sf_sequence s + 1),
        s\<lparr>sf_sequence := sf_sequence s + 1, sf_last_timestamp := t\<rparr>, clk)"
      using next_id_same_millis [OF lt] True by simp
    show "clock_fits (s\<lparr>sf_sequence := sf_sequence s + 1, sf_last_timestamp := t\<rparr>) clk"
      using fits True next_sequence(3) [OF lt] by (auto simp: clock_fits_def)
  qed (use True lt next_sequence(3) [OF lt] in auto)
next
  case False
  with fits have lt: "sf_last_timestamp s < t"
    by (auto simp: clock_fits_def)
  show thesis
  proof (rule that [of 0])
    show "next_id s (t # clk) = Inr (make_id t (sf_node_id s) 0,
        s\<lparr>sf_sequence := 0, sf_last_timestamp := t\<rparr>, clk)"
      by (rule next_id_new_millis [OF lt])
    show "clock_fits (s\<lparr>sf_sequence := 0, sf_last_timestamp := t\<rparr>) clk"
      using fits False lt by (auto simp: clock_fits_def split: if_splits)
  qed (use lt in auto)
qed

lemma clock_fits_timestamp:
  assumes "clock_fits s (t # clk)"
  shows "EPOCH \<le> t" and "unat (t - EPOCH) < 2 ^ 41"
  using assms by (auto simp: clock_fits_def)

lemma unat_minus_mono:
  assumes "EPOCH \<le> t" and "t < t'"
  shows "unat (t - EPOCH) < unat (t' - EPOCH)"
  using assms by (simp add: unat_sub word_le_nat_alt word_less_nat_alt diff_less_mono)

lemma next_ids_increasing:
  assumes "clock_fits s clk" and "n \<le> length clk" and "unat (sf_node_id s) < 2 ^ 10"
  shows "\<exists>is s'. next_ids n s clk = Inr (is, s', drop n clk) \<and> length is = n \<and>
    sorted_wrt (<) is \<and> (\<forall>i \<in> set is. unat i < 2 ^ 63) \<and>
    (EPOCH \<le> sf_last_timestamp s \<longrightarrow> unat (sf_last_timestamp s - EPOCH) < 2 ^ 41 \<longrightarrow>
      unat (sf_sequence s) < 2 ^ 12 \<longrightarrow>
      (\<forall>i \<in> set is. make_id (sf_last_timestamp s) (sf_node_id s) (sf_sequence s) < i))"
  using assms
proof (induction n arbitrary: s clk)
  case 0
  then show ?case by simp
next
  case (Suc n)
  then obtain t clk1 where clk: "clk = t # clk1" by (cases clk) auto
  from Suc.prems(1) clk obtain q where
      nx: "next_id s clk = Inr (make_id t (sf_node_id s) q, s\<lparr>sf_sequence := q, sf_last_timestamp := t\<rparr>, clk1)"
    and fits: "clock_fits (s\<lparr>sf_sequence := q, sf_last_timestamp := t\<rparr>) clk1"
    and q: "unat q < 2 ^ 12"
    and lex: "sf_last_timestamp s < t \<or> sf_last_timestamp s = t \<and> unat (sf_sequence s) < unat q"
    by (auto elim: next_id_step)
  note t = clock_fits_timestamp [OF Suc.prems(1) [unfolded clk]]
  let ?s = "s\<lparr>sf_sequence := q, sf_last_timestamp := t\<rparr>" and ?i = "make_id t (sf_node_id s) q"
  from Suc.IH [OF fits] Suc.prems(2,3) clk t q obtain "is" s' where
      rest: "next_ids n ?s clk1 = Inr (is, s', drop n clk1)" "length is = n" "sorted_wrt (<) is"
        "\<forall>i \<in> set is. unat i < 2 ^ 63" and above: "\<forall>i \<in> set is. ?i < i"
    by auto
  have small: "unat ?i < 2 ^ 63"
    using t q Suc.prems(3) by (simp add: unat_make_id)
  have prev: "make_id (sf_last_timestamp s) (sf_node_id s) (sf_sequence s) < ?i"
    if "EPOCH \<le> sf_last_timestamp s" "unat (sf_last_timestamp s - EPOCH) < 2 ^ 41"
      "unat (sf_sequence s) < 2 ^ 12"
    using that lex t q Suc.prems(3) unat_minus_mono [OF that(1)] by (intro make_id_less) auto
  show ?case
    using nx rest above small prev clk by (auto intro: less_trans)
qed

lemma sint_nonneg:
  fixes w :: u64 assumes "unat w < 2 ^ 63"
  shows "0 \<le> sint w"
proof -
  from assms have "take_bit 63 (unat w) = unat w" by (simp add: take_bit_nat_eq_self)
  then have "\<not> bit (unat w) 63" by (metis bit_take_bit_iff less_irrefl)
  then have "\<not> bit w 63" by (simp add: bit_unsigned_iff)
  then show ?thesis using bit_last_iff [of w] by (simp add: not_less)
qed

lemma next_ids_wrap:
  assumes "sf_last_timestamp s < t" and "t' \<noteq> t"
  shows "\<exists>is. next_ids 4097 s (replicate 4097 t @ t' # clk) =
      Inr (make_id t (sf_node_id s) 0 # is @ [make_id t (sf_node_id s) 0],
           s\<lparr>sf_sequence := 0, sf_last_timestamp := t\<rparr>, clk) \<and> length is = 4095"
proof -
  let ?s = "s\<lparr>sf_sequence := 0, sf_last_timestamp := t\<rparr>"
  let ?s' = "?s\<lparr>sf_sequence := of_nat 4095\<rparr>"
  from next_ids_same_millis [of ?s 4095 "t # t' # clk"] obtain "is" where
    mid: "next_ids 4095 ?s (replicate 4095 t @ t # t' # clk) = Inr (is, ?s', t # t' # clk)"
    and len: "length is = 4095"
    by auto
  have last: "next_id ?s' (t # t' # clk) = Inr (make_id t (sf_node_id s) 0, ?s, clk)"
    using next_id_wraps [of ?s' t' clk] assms(2) by simp
  have clk: "replicate 4097 t @ t' # clk = t # (replicate 4095 t @ t # t' # clk)"
    by (simp add: numeral_eq_Suc replicate_app_Cons_same)
  have "next_ids (Suc (4095 + Suc 0)) s (replicate 4097 t @ t' # clk) =
      Inr (make_id t (sf_node_id s) 0 # is @ [make_id t (sf_node_id s) 0], ?s, clk)"
    unfolding clk next_ids.simps(2) next_ids_add
    by (simp only: next_id_new_millis [OF assms(1)] mid res_bind_simps prod.case last next_ids.simps)
  moreover have "Suc (4095 + Suc 0) = 4097" by simp
  ultimately show ?thesis using len by (metis append_Cons)
qed


subsection \<open>Properties\<close>

text \<open>C37: As long as no millisecond is read more than 4096 times from a clock that does not go
  back, a fresh generator returns strictly increasing identifiers, non-negative as \<open>i64\<close>, one per
  clock reading, and never panics or blocks.\<close>

theorem next_ids_unique:
  assumes "sorted clk" and "\<forall>t \<in> set clk. EPOCH \<le> t \<and> unat (t - EPOCH) < 2 ^ 41"
    and "\<forall>t. count_list clk t \<le> 4096" and "n \<le> length clk" and "unat node < 2 ^ 10"
  shows "\<exists>is s'. next_ids n (snowflake_new node) clk = Inr (is, s', drop n clk) \<and>
    length is = n \<and> sorted_wrt (<) is \<and> (\<forall>i \<in> set is. 0 \<le> sint i)"
proof -
  have "0 \<notin> set clk" using assms(2) by (auto simp: EPOCH_def)
  then have "clock_fits (snowflake_new node) clk"
    using assms by (auto simp: clock_fits_def snowflake_new_def count_list_0_iff)
  from next_ids_increasing [OF this assms(4)] assms(5) show ?thesis
    by (fastforce simp: snowflake_new_def intro: sint_nonneg)
qed

theorem next_ids_unique_witness:
  "\<exists>is s'. next_ids 3 (snowflake_new 1) [1637806706001, 1637806706001, 1637806706002] =
      Inr (is, s', []) \<and> length is = 3 \<and> sorted_wrt (<) is \<and> (\<forall>i \<in> set is. 0 \<le> sint i)"
  using next_ids_unique [of "[1637806706001, 1637806706001, 1637806706002]" 3 1]
  by (simp add: EPOCH_def)

text \<open>The 4097th identifier drawn in one millisecond repeats the first: when the sequence
  wraps, \<open>wait_next_millis\<close> waits for the next millisecond, but the identifier is still built from
  the timestamp read before the wait.\<close>

theorem sequence_wrap_repeats_id:
  assumes "sf_last_timestamp s < t" and "t' \<noteq> t"
  shows "\<exists>is s'. next_ids 4097 s (replicate 4097 t @ t' # clk) = Inr (is, s', clk) \<and>
    length is = 4097 \<and> is ! 4096 = is ! 0 \<and> \<not> distinct is"
proof -
  from next_ids_wrap [OF assms] obtain "is" where
    "next_ids 4097 s (replicate 4097 t @ t' # clk) =
      Inr (make_id t (sf_node_id s) 0 # is @ [make_id t (sf_node_id s) 0],
           s\<lparr>sf_sequence := 0, sf_last_timestamp := t\<rparr>, clk)" and "length is = 4095"
    by blast
  then show ?thesis by (auto simp: nth_append)
qed

theorem sequence_wrap_repeats_id_witness:
  "\<exists>is s'. next_ids 4097 (snowflake_new 1) (replicate 4097 1637806706001 @ 1637806706002 # []) =
      Inr (is, s', []) \<and> length is = 4097 \<and> is ! 4096 = is ! 0 \<and> \<not> distinct is"
  by (rule sequence_wrap_repeats_id) (simp_all add: snowflake_new_def)

end
