(* ===== verification/SyncMessage.thy ===== *)
theory SyncMessage
  imports Prelude
begin

section \<open>The sync protocol's messages\<close>

text \<open>
  \<open>libs/realtime-protocol/src/message.rs\<close>: the tagged messages two replicas of a document
  exchange, their encoding and decoding, and the reader that takes them one by one from a buffer.
  The primitive encodings (\<open>write_var\<close>, \<open>write_buf\<close>, \<open>write_string\<close>, state vectors, awareness
  updates) belong to the \<open>yrs\<close> crate and the integer encoding of \<open>SyncMeta\<close> to \<open>bincode\<close>: they are
  the fields of the parameter \<open>y\<close>, and what the code relies on is the hypothesis \<open>yrs_laws\<close>.
\<close>

definition MSG_SYNC :: u8 where "MSG_SYNC = 0"
definition MSG_AWARENESS :: u8 where "MSG_AWARENESS = 1"
definition MSG_AUTH :: u8 where "MSG_AUTH = 2"
definition MSG_CUSTOM :: u8 where "MSG_CUSTOM = 3"
definition PERMISSION_DENIED :: u8 where "PERMISSION_DENIED = 0"
definition PERMISSION_GRANTED :: u8 where "PERMISSION_GRANTED = 1"
definition MSG_CUSTOM_START_SYNC :: u8 where "MSG_CUSTOM_START_SYNC = 0"
definition MSG_SYNC_STEP_1 :: u8 where "MSG_SYNC_STEP_1 = 0"
definition MSG_SYNC_STEP_2 :: u8 where "MSG_SYNC_STEP_2 = 1"
definition MSG_SYNC_UPDATE :: u8 where "MSG_SYNC_UPDATE = 2"

lemmas tag_defs =
  MSG_SYNC_def MSG_AWARENESS_def MSG_AUTH_def MSG_CUSTOM_def PERMISSION_DENIED_def
  PERMISSION_GRANTED_def MSG_CUSTOM_START_SYNC_def MSG_SYNC_STEP_1_def MSG_SYNC_STEP_2_def
  MSG_SYNC_UPDATE_def

datatype read_error = EndOfBuffer nat | UnexpectedValue | OtherReadError string

record ('sv, 'aw) yrs_codec =
  y_write_var :: "u8 \<Rightarrow> bytes"
  y_read_var :: "bytes \<Rightarrow> read_error + (u8 \<times> bytes)"
  y_write_buf :: "bytes \<Rightarrow> bytes"
  y_read_buf :: "bytes \<Rightarrow> read_error + (bytes \<times> bytes)"
  y_write_string :: "string \<Rightarrow> bytes"
  y_read_string :: "bytes \<Rightarrow> read_error + (string \<times> bytes)"
  y_encode_sv :: "'sv \<Rightarrow> bytes"
  y_decode_sv :: "bytes \<Rightarrow> read_error + 'sv"
  y_encode_aw :: "'aw \<Rightarrow> bytes"
  y_decode_aw :: "bytes \<Rightarrow> read_error + 'aw"
  y_serialize_i64 :: "i64 \<Rightarrow> bytes"
  y_deserialize_i64 :: "bytes \<Rightarrow> unit + i64"

datatype 'sv sync_message = SyncStep1 'sv | SyncStep2 bytes | SyncUpdate bytes

record sync_meta =
  sm_last_sync_at :: i64

datatype custom_message = SyncCheck sync_meta

datatype ('sv, 'aw) message =
    SyncMsg "'sv sync_message"
  | AuthMsg "string option"
  | AwarenessMsg 'aw
  | CustomMsg custom_message

subsection \<open>Encoding\<close>

fun encode_sync :: "('sv, 'aw) yrs_codec \<Rightarrow> 'sv sync_message \<Rightarrow> bytes" where
  "encode_sync y (SyncStep1 sv) = y_write_var y MSG_SYNC_STEP_1 @ y_write_buf y (y_encode_sv y sv)"
| "encode_sync y (SyncStep2 u) = y_write_var y MSG_SYNC_STEP_2 @ y_write_buf y u"
| "encode_sync y (SyncUpdate u) = y_write_var y MSG_SYNC_UPDATE @ y_write_buf y u"

definition sync_meta_to_vec :: "('sv, 'aw) yrs_codec \<Rightarrow> sync_meta \<Rightarrow> bytes" where
  "sync_meta_to_vec y m = y_serialize_i64 y (sm_last_sync_at m)"

fun encode_custom :: "('sv, 'aw) yrs_codec \<Rightarrow> custom_message \<Rightarrow> bytes" where
  "encode_custom y (SyncCheck m) =
     y_write_var y MSG_CUSTOM_START_SYNC @ y_write_buf y (sync_meta_to_vec y m)"

fun encode_message :: "('sv, 'aw) yrs_codec \<Rightarrow> ('sv, 'aw) message \<Rightarrow> bytes" where
  "encode_message y (SyncMsg m) = y_write_var y MSG_SYNC @ encode_sync y m"
| "encode_message y (AuthMsg reason) =
     y_write_var y MSG_AUTH @
     (case reason of
        Some r \<Rightarrow> y_write_var y PERMISSION_DENIED @ y_write_string y r
      | None \<Rightarrow> y_write_var y PERMISSION_GRANTED)"
| "encode_message y (AwarenessMsg a) =
     y_write_var y MSG_AWARENESS @ y_write_buf y (y_encode_aw y a)"
| "encode_message y (CustomMsg m) = y_write_var y MSG_CUSTOM @ encode_custom y m"

subsection \<open>Decoding\<close>

definition decode_sync ::
    "('sv, 'aw) yrs_codec \<Rightarrow> bytes \<Rightarrow> read_error + ('sv sync_message \<times> bytes)" where
  "decode_sync y b =
     res_bind (y_read_var y b) (\<lambda>(tag, b1).
       if tag = MSG_SYNC_STEP_1 then
         res_bind (y_read_buf y b1) (\<lambda>(buf, b2).
           res_bind (y_decode_sv y buf) (\<lambda>sv. Inr (SyncStep1 sv, b2)))
       else if tag = MSG_SYNC_STEP_2 then
         res_bind (y_read_buf y b1) (\<lambda>(buf, b2). Inr (SyncStep2 buf, b2))
       else if tag = MSG_SYNC_UPDATE then
         res_bind (y_read_buf y b1) (\<lambda>(buf, b2). Inr (SyncUpdate buf, b2))
       else Inl UnexpectedValue)"

definition sync_meta_from_vec :: "('sv, 'aw) yrs_codec \<Rightarrow> bytes \<Rightarrow> read_error + sync_meta" where
  "sync_meta_from_vec y b =
     (case y_deserialize_i64 y b of
        Inl _ \<Rightarrow> Inl UnexpectedValue
      | Inr t \<Rightarrow> Inr \<lparr>sm_last_sync_at = t\<rparr>)"

definition decode_custom ::
    "('sv, 'aw) yrs_codec \<Rightarrow> bytes \<Rightarrow> read_error + (custom_message \<times> bytes)" where
  "decode_custom y b =
     res_bind (y_read_var y b) (\<lambda>(tag, b1).
       if tag = MSG_CUSTOM_START_SYNC then
         res_bind (y_read_buf y b1) (\<lambda>(buf, b2).
           res_bind (sync_meta_from_vec y buf) (\<lambda>m. Inr (SyncCheck m, b2)))
       else Inl UnexpectedValue)"

definition decode_message ::
    "('sv, 'aw) yrs_codec \<Rightarrow> bytes \<Rightarrow> read_error + (('sv, 'aw) message \<times> bytes)" where
  "decode_message y b =
     res_bind (y_read_var y b) (\<lambda>(tag, b1).
       if tag = MSG_SYNC then
         res_bind (decode_sync y b1) (\<lambda>(m, b2). Inr (SyncMsg m, b2))
       else if tag = MSG_AWARENESS then
         res_bind (y_read_buf y b1) (\<lambda>(buf, b2).
           res_bind (y_decode_aw y buf) (\<lambda>a. Inr (AwarenessMsg a, b2)))
       else if tag = MSG_AUTH then
         res_bind (y_read_var y b1) (\<lambda>(perm, b2).
           if perm = PERMISSION_DENIED
           then res_bind (y_read_string y b2) (\<lambda>(r, b3). Inr (AuthMsg (Some r), b3))
           else Inr (AuthMsg None, b2))
       else if tag = MSG_CUSTOM then
         res_bind (decode_custom y b1) (\<lambda>(m, b2). Inr (CustomMsg m, b2))
       else Inl UnexpectedValue)"

text \<open>
  One call of \<open>MessageReader::next\<close>: the end of the buffer, wherever it is met, ends the iteration.
\<close>

definition reader_next ::
    "('sv, 'aw) yrs_codec \<Rightarrow> bytes \<Rightarrow> (read_error + (('sv, 'aw) message \<times> bytes)) option" where
  "reader_next y b =
     (case decode_message y b of
        Inr (m, b1) \<Rightarrow> Some (Inr (m, b1))
      | Inl (EndOfBuffer _) \<Rightarrow> None
      | Inl e \<Rightarrow> Some (Inl e))"

text \<open>
  The loop of both users of the reader (\<open>SyncStream::process_payload\<close> and
  \<open>handle_user_collab_message\<close>): the messages up to the end of the buffer or to the first error,
  with that error. \<open>fuel\<close> bounds the iterations, \<open>None\<close> is running out of it.
\<close>

fun read_messages ::
    "nat \<Rightarrow> ('sv, 'aw) yrs_codec \<Rightarrow> bytes \<Rightarrow> (('sv, 'aw) message list \<times> read_error option) option" where
  "read_messages 0 y b = None"
| "read_messages (Suc fuel) y b =
     (case reader_next y b of
        None \<Rightarrow> Some ([], None)
      | Some (Inl e) \<Rightarrow> Some ([], Some e)
      | Some (Inr (m, b1)) \<Rightarrow> map_option (\<lambda>(ms, e). (m # ms, e)) (read_messages fuel y b1))"

definition read_all ::
    "('sv, 'aw) yrs_codec \<Rightarrow> bytes \<Rightarrow> (('sv, 'aw) message list \<times> read_error option) option" where
  "read_all y b = read_messages (Suc (length b)) y b"

subsection \<open>What the code relies on\<close>

text \<open>
  The documented behaviour of the primitives: each read takes back what the matching write
  produced and leaves the rest of the buffer, nothing is read from an empty buffer, and a
  successful read consumes.
\<close>

definition in_i64 :: "int \<Rightarrow> bool" where
  "in_i64 i \<longleftrightarrow> - (2 ^ 63) \<le> i \<and> i < 2 ^ 63"

definition yrs_roundtrip :: "('sv, 'aw) yrs_codec \<Rightarrow> bool" where
  "yrs_roundtrip y \<longleftrightarrow>
     (\<forall>t r. y_read_var y (y_write_var y t @ r) = Inr (t, r)) \<and>
     (\<forall>b r. y_read_buf y (y_write_buf y b @ r) = Inr (b, r)) \<and>
     (\<forall>s r. y_read_string y (y_write_string y s @ r) = Inr (s, r)) \<and>
     (\<forall>sv. y_decode_sv y (y_encode_sv y sv) = Inr sv) \<and>
     (\<forall>a. y_decode_aw y (y_encode_aw y a) = Inr a) \<and>
     (\<forall>i. in_i64 i \<longrightarrow> y_deserialize_i64 y (y_serialize_i64 y i) = Inr i)"

definition yrs_consumes :: "('sv, 'aw) yrs_codec \<Rightarrow> bool" where
  "yrs_consumes y \<longleftrightarrow>
     (\<exists>n. y_read_var y [] = Inl (EndOfBuffer n)) \<and>
     (\<forall>b t r. y_read_var y b = Inr (t, r) \<longrightarrow> length r < length b) \<and>
     (\<forall>b x r. y_read_buf y b = Inr (x, r) \<longrightarrow> length r \<le> length b) \<and>
     (\<forall>b x r. y_read_string y b = Inr (x, r) \<longrightarrow> length r \<le> length b)"

definition yrs_laws :: "('sv, 'aw) yrs_codec \<Rightarrow> bool" where
  "yrs_laws y \<longleftrightarrow> yrs_roundtrip y \<and> yrs_consumes y"

fun message_in_range :: "('sv, 'aw) message \<Rightarrow> bool" where
  "message_in_range (CustomMsg (SyncCheck m)) = in_i64 (sm_last_sync_at m)"
| "message_in_range _ = True"

lemma yrs_codecD [codec]:
  assumes "yrs_roundtrip y"
  shows "y_read_var y (y_write_var y t @ r) = Inr (t, r)"
    and "y_read_buf y (y_write_buf y b @ r) = Inr (b, r)"
    and "y_read_string y (y_write_string y s @ r) = Inr (s, r)"
    and "y_decode_sv y (y_encode_sv y sv) = Inr sv"
    and "y_decode_aw y (y_encode_aw y a) = Inr a"
    and "in_i64 i \<Longrightarrow> y_deserialize_i64 y (y_serialize_i64 y i) = Inr i"
  using assms by (auto simp: yrs_roundtrip_def)

lemma decode_encode_sync [codec]:
  assumes "yrs_roundtrip y"
  shows "decode_sync y (encode_sync y m @ r) = Inr (m, r)"
  by (cases m) (simp_all add: decode_sync_def codec [OF assms] tag_defs)

lemma decode_encode_custom [codec]:
  assumes "yrs_roundtrip y" and "in_i64 (sm_last_sync_at (case m of SyncCheck x \<Rightarrow> x))"
  shows "decode_custom y (encode_custom y m @ r) = Inr (m, r)"
  using assms(2)
  by (cases m) (simp add: decode_custom_def sync_meta_to_vec_def sync_meta_from_vec_def
      yrs_codecD [OF assms(1)] tag_defs)

lemma decode_encode_message [codec]:
  assumes "yrs_roundtrip y" and "message_in_range m"
  shows "decode_message y (encode_message y m @ r) = Inr (m, r)"
proof (cases m)
  case (CustomMsg c)
  with assms(2) show ?thesis
    by (cases c) (simp add: decode_message_def yrs_codecD [OF assms(1)]
        decode_encode_custom [OF assms(1)] tag_defs del: encode_custom.simps)
next
  case (SyncMsg s)
  then show ?thesis
    by (simp add: decode_message_def yrs_codecD [OF assms(1)] decode_encode_sync [OF assms(1)]
        tag_defs)
qed (simp_all add: decode_message_def yrs_codecD [OF assms(1)] tag_defs split: option.splits)

subsection \<open>The reader loop\<close>

lemma decode_sync_consumes:
  "yrs_consumes y \<Longrightarrow> decode_sync y b = Inr (m, r) \<Longrightarrow> length r < length b"
  unfolding yrs_consumes_def decode_sync_def
  by (auto elim!: res_bind_InrE split: if_splits) (meson le_less_trans)+

lemma decode_custom_consumes:
  "yrs_consumes y \<Longrightarrow> decode_custom y b = Inr (m, r) \<Longrightarrow> length r < length b"
  unfolding yrs_consumes_def decode_custom_def
  by (auto elim!: res_bind_InrE split: if_splits) (meson le_less_trans)+

lemma decode_message_consumes:
  assumes y: "yrs_consumes y" and d: "decode_message y b = Inr (m, r)"
  shows "length r < length b"
proof -
  from d obtain tag b1 where "y_read_var y b = Inr (tag, b1)"
    by (auto simp: decode_message_def elim!: res_bind_InrE)
  moreover from this y have "length b1 < length b" by (auto simp: yrs_consumes_def)
  moreover have "length r \<le> length b1"
    using y d \<open>y_read_var y b = Inr (tag, b1)\<close>
    unfolding yrs_consumes_def
    by (auto simp: decode_message_def elim!: res_bind_InrE split: if_splits
        dest: decode_sync_consumes [OF y] decode_custom_consumes [OF y])
      (meson less_imp_le le_trans)+
  ultimately show ?thesis by simp
qed

lemma reader_next_consumes:
  "yrs_consumes y \<Longrightarrow> reader_next y b = Some (Inr (m, r)) \<Longrightarrow> length r < length b"
  by (auto simp: reader_next_def dest: decode_message_consumes
      split: sum.splits read_error.splits)

lemma read_messages_enough:
  assumes "yrs_consumes y" and "length b < fuel"
  shows "\<exists>r. read_messages fuel y b = Some r"
  using assms(2)
proof (induction fuel arbitrary: b)
  case 0
  then show ?case by simp
next
  case (Suc fuel)
  have "\<exists>r. read_messages fuel y b1 = Some r" if "reader_next y b = Some (Inr (m, b1))" for m b1
    using Suc.IH Suc.prems reader_next_consumes [OF assms(1) that] by simp
  then show ?case
    by (fastforce split: option.splits sum.splits)
qed

lemma read_messages_encoded:
  assumes y: "yrs_laws y" and "\<forall>m \<in> set ms. message_in_range m" and "length ms < fuel"
  shows "read_messages fuel y (concat (map (encode_message y) ms)) = Some (ms, None)"
  using assms(2,3)
proof (induction ms arbitrary: fuel)
  case Nil
  then obtain f where "fuel = Suc f" by (cases fuel) auto
  moreover from y have "reader_next y [] = None"
    by (auto simp: yrs_laws_def yrs_consumes_def reader_next_def decode_message_def)
  ultimately show ?case by simp
next
  case (Cons m ms)
  then obtain f where f: "fuel = Suc f" by (cases fuel) auto
  from y have "yrs_roundtrip y" by (simp add: yrs_laws_def)
  with Cons.prems have "reader_next y (encode_message y m @ concat (map (encode_message y) ms)) =
      Some (Inr (m, concat (map (encode_message y) ms)))"
    by (simp add: reader_next_def decode_encode_message)
  with Cons f show ?case by simp
qed

lemma encode_message_nonempty:
  assumes y: "yrs_laws y"
  shows "encode_message y m \<noteq> []"
proof
  assume e: "encode_message y m = []"
  obtain t r where "encode_message y m = y_write_var y t @ r"
    by (cases m) auto
  with e have "y_write_var y t @ [] = []" by simp
  with y have "y_read_var y [] = Inr (t, [])" by (metis yrs_codecD(1) yrs_laws_def)
  with y show False by (auto simp: yrs_laws_def yrs_consumes_def)
qed

lemma read_all_encoded:
  assumes y: "yrs_laws y" and "\<forall>m \<in> set ms. message_in_range m"
  shows "read_all y (concat (map (encode_message y) ms)) = Some (ms, None)"
proof -
  have "length ms \<le> length (concat (map (encode_message y) ms))"
  proof (induction ms)
    case (Cons m ms)
    then show ?case using encode_message_nonempty [OF y, of m] by (cases "encode_message y m") auto
  qed simp
  with assms show ?thesis by (simp add: read_all_def read_messages_encoded del: read_messages.simps)
qed

subsection \<open>An instance of the primitives\<close>

text \<open>
  A concrete codec that satisfies the laws, for the witnesses: one byte per tag, buffers as
  marked bytes with an end mark.
\<close>

fun unmark :: "bytes \<Rightarrow> read_error + (bytes \<times> bytes)" where
  "unmark [] = Inl (EndOfBuffer 1)"
| "unmark [b] = (if b = 0 then Inr ([], []) else Inl (EndOfBuffer 1))"
| "unmark (b # x # r) =
     (if b = 0 then Inr ([], x # r) else res_bind (unmark r) (\<lambda>(xs, r'). Inr (x # xs, r')))"

definition mark :: "bytes \<Rightarrow> bytes" where
  "mark b = concat (map (\<lambda>x. [1, x]) b) @ [0]"

definition sample_yrs :: "(bytes, bytes) yrs_codec" where
  "sample_yrs =
     \<lparr>y_write_var = (\<lambda>t. [t]),
      y_read_var = (\<lambda>b. case b of [] \<Rightarrow> Inl (EndOfBuffer 1) | t # r \<Rightarrow> Inr (t, r)),
      y_write_buf = mark,
      y_read_buf = unmark,
      y_write_string = (\<lambda>s. mark (map (\<lambda>c. word_of_nat (of_char c)) s)),
      y_read_string = (\<lambda>b. res_bind (unmark b) (\<lambda>(x, r). Inr (map (\<lambda>w. char_of (unat w)) x, r))),
      y_encode_sv = (\<lambda>x. x), y_decode_sv = Inr,
      y_encode_aw = (\<lambda>x. x), y_decode_aw = Inr,
      y_serialize_i64 = (\<lambda>i. (if i < 0 then 1 else 0) # replicate (nat \<bar>i\<bar>) 0),
      y_deserialize_i64 =
        (\<lambda>b. case b of [] \<Rightarrow> Inl () | g # r \<Rightarrow> Inr (if g = 1 then - int (length r) else int (length r)))\<rparr>"

lemma unmark_mark [simp]: "unmark (mark b @ r) = Inr (b, r)"
proof (induction b)
  case Nil
  then show ?case by (cases r) (simp_all add: mark_def)
next
  case (Cons x b)
  then show ?case by (simp add: mark_def)
qed

lemma unmark_length: "unmark b = Inr (x, r) \<Longrightarrow> length r \<le> length b"
  by (induction b arbitrary: x r rule: unmark.induct)
    (fastforce elim!: res_bind_InrE split: if_splits)+

lemma sample_yrs_laws: "yrs_laws sample_yrs"
proof -
  have "unat (word_of_nat (of_char c) :: u8) = of_char c" for c
    by (simp add: unat_of_nat)
  then have "yrs_roundtrip sample_yrs"
    by (auto simp: yrs_roundtrip_def sample_yrs_def comp_def)
  moreover have "yrs_consumes sample_yrs"
    by (auto simp: yrs_consumes_def sample_yrs_def elim!: res_bind_InrE dest: unmark_length
        split: list.splits)
  ultimately show ?thesis by (simp add: yrs_laws_def)
qed

subsection \<open>Properties\<close>

text \<open>C32: The reader takes back, in order and without an error, exactly the messages whose
  encodings were concatenated into a buffer.\<close>

theorem message_stream_roundtrip:
  assumes "yrs_laws y" and "\<forall>m \<in> set ms. message_in_range m"
  shows "read_all y (concat (map (encode_message y) ms)) = Some (ms, None)"
  by (rule read_all_encoded [OF assms])

theorem message_stream_roundtrip_witness:
  "read_all sample_yrs (concat (map (encode_message sample_yrs)
      [SyncMsg (SyncStep1 [1, 2]), AwarenessMsg [7], AuthMsg (Some ''no''), CustomMsg (SyncCheck \<lparr>sm_last_sync_at = -3\<rparr>)])) =
    Some ([SyncMsg (SyncStep1 [1, 2]), AwarenessMsg [7], AuthMsg (Some ''no''),
      CustomMsg (SyncCheck \<lparr>sm_last_sync_at = -3\<rparr>)], None)"
  by (rule message_stream_roundtrip [OF sample_yrs_laws]) (simp add: in_i64_def)

text \<open>C38: The reader loop ends on every buffer, well-formed or not: one more iteration than the
  buffer has bytes is enough fuel.\<close>

theorem read_all_total:
  assumes "yrs_consumes y"
  shows "\<exists>ms e. read_all y b = Some (ms, e)"
  using read_messages_enough [OF assms, of b "Suc (length b)"] by (auto simp: read_all_def)

theorem read_all_total_witness:
  "\<exists>ms e. read_all sample_yrs [9, 9, 9] = Some (ms, e)"
  using read_all_total [of sample_yrs] sample_yrs_laws by (simp add: yrs_laws_def)

end
