(* ===== verification/SyncProtocol.thy ===== *)
theory SyncProtocol
  imports SyncMessage
begin

section \<open>The sync protocol\<close>

text \<open>
  \<open>libs/realtime-protocol/src/protocol.rs\<close> and
  \<open>libs/realtime/src/collaborate/sync_protocol.rs\<close>: how a replica answers each message, on the
  client (the default methods of the trait \<open>CollabSyncProtocol\<close>) and on the server. The document
  itself is a \<open>yrs\<close> document: the operations the code calls on it are the fields of the parameter
  \<open>d\<close>. Every branch of \<open>handle_collab_message\<close> first takes the document's lock within 400 ms; the
  argument \<open>locked\<close> says whether it gets it.
\<close>

datatype collab_origin = OriginClient i64 string | OriginServer | OriginEmpty

record ('doc, 'sv, 'aw, 'upd) yrs_doc =
  yd_try_transact :: "'doc \<Rightarrow> string + unit"
  yd_encode_diff :: "'doc \<Rightarrow> 'sv \<Rightarrow> bytes"
  yd_state_vector :: "'doc \<Rightarrow> 'sv"
  yd_decode_update :: "bytes \<Rightarrow> read_error + 'upd"
  yd_try_write_txn :: "'doc \<Rightarrow> collab_origin option \<Rightarrow> string + unit"
  yd_apply_update :: "'doc \<Rightarrow> collab_origin option \<Rightarrow> 'upd \<Rightarrow> 'doc \<times> (string + unit)"
  yd_awareness :: "'doc \<Rightarrow> string + 'aw"
  yd_apply_awareness :: "'doc \<Rightarrow> 'aw \<Rightarrow> 'doc \<times> (string + unit)"

datatype sync_error =
    DecodingError read_error
  | AwarenessEncoding string
  | PermissionDenied string
  | Unsupported u8
  | YrsTransaction string
  | BinCodeSerde string
  | SyncInternal string

type_synonym reply = "sync_error + bytes option"

datatype protocol = ClientSyncProtocol | ServerSyncProtocol

subsection \<open>The handlers\<close>

text \<open>\<open>start\<close>: the first message of a replica, its state vector and its awareness state.\<close>

definition protocol_start ::
    "('sv, 'aw) yrs_codec \<Rightarrow> ('doc, 'sv, 'aw, 'upd) yrs_doc \<Rightarrow> 'doc \<Rightarrow> sync_error + bytes" where
  "protocol_start y d doc =
     res_bind (res_map_err AwarenessEncoding (yd_awareness d doc)) (\<lambda>aw.
       Inr (encode_message y (SyncMsg (SyncStep1 (yd_state_vector d doc))) @
            encode_message y (AwarenessMsg aw)))"

text \<open>\<open>check\<close>: the client writes a \<open>SyncCheck\<close>, the default writes nothing.\<close>

fun protocol_check :: "('sv, 'aw) yrs_codec \<Rightarrow> protocol \<Rightarrow> i64 \<Rightarrow> bytes" where
  "protocol_check y ClientSyncProtocol t = encode_message y (CustomMsg (SyncCheck \<lparr>sm_last_sync_at = t\<rparr>))"
| "protocol_check y ServerSyncProtocol t = []"

definition default_handle_sync_step1 ::
    "('sv, 'aw) yrs_codec \<Rightarrow> ('doc, 'sv, 'aw, 'upd) yrs_doc \<Rightarrow> 'doc \<Rightarrow> 'sv \<Rightarrow> reply" where
  "default_handle_sync_step1 y d doc sv =
     res_bind
       (res_map_err (\<lambda>err. YrsTransaction (''fail to handle sync step1. error: '' @ err))
         (yd_try_transact d doc))
       (\<lambda>_. Inr (Some (encode_message y (SyncMsg (SyncStep2 (yd_encode_diff d doc sv))))))"

definition server_handle_sync_step1 ::
    "('sv, 'aw) yrs_codec \<Rightarrow> ('doc, 'sv, 'aw, 'upd) yrs_doc \<Rightarrow> 'doc \<Rightarrow> 'sv \<Rightarrow> reply" where
  "server_handle_sync_step1 y d doc sv =
     Inr (Some (encode_message y (SyncMsg (SyncStep2 (yd_encode_diff d doc sv))) @
                encode_message y (SyncMsg (SyncStep1 (yd_state_vector d doc)))))"

fun handle_sync_step1 ::
    "protocol \<Rightarrow> ('sv, 'aw) yrs_codec \<Rightarrow> ('doc, 'sv, 'aw, 'upd) yrs_doc \<Rightarrow> 'doc \<Rightarrow> 'sv \<Rightarrow> reply" where
  "handle_sync_step1 ClientSyncProtocol y d doc sv = default_handle_sync_step1 y d doc sv"
| "handle_sync_step1 ServerSyncProtocol y d doc sv = server_handle_sync_step1 y d doc sv"

definition handle_sync_step2 ::
    "('doc, 'sv, 'aw, 'upd) yrs_doc \<Rightarrow> collab_origin option \<Rightarrow> 'doc \<Rightarrow> 'upd \<Rightarrow> 'doc \<times> reply" where
  "handle_sync_step2 d origin doc update =
     (case yd_try_write_txn d doc origin of
        Inl err \<Rightarrow> (doc, Inl (YrsTransaction (''sync step2 transaction acquire: '' @ err)))
      | Inr _ \<Rightarrow>
          (case yd_apply_update d doc origin update of
             (doc', Inl err) \<Rightarrow> (doc', Inl (YrsTransaction (''sync step2 apply update: '' @ err)))
           | (doc', Inr _) \<Rightarrow> (doc', Inr None)))"

definition handle_update ::
    "('doc, 'sv, 'aw, 'upd) yrs_doc \<Rightarrow> collab_origin option \<Rightarrow> 'doc \<Rightarrow> 'upd \<Rightarrow> 'doc \<times> reply" where
  "handle_update d origin doc update = handle_sync_step2 d origin doc update"

definition handle_auth :: "string option \<Rightarrow> reply" where
  "handle_auth deny_reason =
     (case deny_reason of Some reason \<Rightarrow> Inl (PermissionDenied reason) | None \<Rightarrow> Inr None)"

definition handle_awareness_update ::
    "('doc, 'sv, 'aw, 'upd) yrs_doc \<Rightarrow> 'doc \<Rightarrow> 'aw \<Rightarrow> 'doc \<times> reply" where
  "handle_awareness_update d doc aw =
     (case yd_apply_awareness d doc aw of
        (doc', Inl err) \<Rightarrow> (doc', Inl (AwarenessEncoding err))
      | (doc', Inr _) \<Rightarrow> (doc', Inr None))"

definition handle_custom_message :: "custom_message \<Rightarrow> reply" where
  "handle_custom_message m = Inr None"

definition lock_timeout :: sync_error where
  "lock_timeout = SyncInternal ''Timeout while trying to acquire lock''"

fun handle_collab_message ::
    "protocol \<Rightarrow> ('sv, 'aw) yrs_codec \<Rightarrow> ('doc, 'sv, 'aw, 'upd) yrs_doc \<Rightarrow> collab_origin option \<Rightarrow>
     bool \<Rightarrow> 'doc \<Rightarrow> ('sv, 'aw) message \<Rightarrow> 'doc \<times> reply" where
  "handle_collab_message p y d origin locked doc (SyncMsg (SyncStep1 sv)) =
     (if \<not> locked then (doc, Inl lock_timeout) else (doc, handle_sync_step1 p y d doc sv))"
| "handle_collab_message p y d origin locked doc (SyncMsg (SyncStep2 update)) =
     (if \<not> locked then (doc, Inl lock_timeout)
      else case yd_decode_update d update of
             Inl e \<Rightarrow> (doc, Inl (DecodingError e))
           | Inr u \<Rightarrow> handle_sync_step2 d origin doc u)"
| "handle_collab_message p y d origin locked doc (SyncMsg (SyncUpdate update)) =
     (if \<not> locked then (doc, Inl lock_timeout)
      else case yd_decode_update d update of
             Inl e \<Rightarrow> (doc, Inl (DecodingError e))
           | Inr u \<Rightarrow> handle_update d origin doc u)"
| "handle_collab_message p y d origin locked doc (AuthMsg reason) =
     (if \<not> locked then (doc, Inl lock_timeout) else (doc, handle_auth reason))"
| "handle_collab_message p y d origin locked doc (AwarenessMsg update) =
     (if \<not> locked then (doc, Inl lock_timeout) else handle_awareness_update d doc update)"
| "handle_collab_message p y d origin locked doc (CustomMsg m) =
     (if \<not> locked then (doc, Inl lock_timeout) else (doc, handle_custom_message m))"

subsection \<open>What a protocol promises\<close>

text \<open>
  The contract of the trait towards \<open>handle_collab_message\<close>'s callers: answering a state vector
  starts with the missing updates, and nothing but an update or an awareness message touches the
  document.
\<close>

locale sync_protocol =
  fixes step1 :: "('sv, 'aw) yrs_codec \<Rightarrow> ('doc, 'sv, 'aw, 'upd) yrs_doc \<Rightarrow> 'doc \<Rightarrow> 'sv \<Rightarrow> reply"
  assumes step1_diff: "step1 y d doc sv = Inr r \<Longrightarrow>
      \<exists>more. r = Some (encode_message y (SyncMsg (SyncStep2 (yd_encode_diff d doc sv))) @ more)"
    and step1_total: "yd_try_transact d doc = Inr () \<Longrightarrow> \<exists>r. step1 y d doc sv = Inr r"
begin

lemma step1_first_message:
  assumes "yrs_roundtrip y" and "step1 y d doc sv = Inr r"
  shows "\<exists>b more. r = Some b \<and>
    decode_message y b = Inr (SyncMsg (SyncStep2 (yd_encode_diff d doc sv)), more)"
  using step1_diff [OF assms(2)] decode_encode_message [OF assms(1)]
  by (metis message_in_range.simps(2))

end

interpretation client_protocol: sync_protocol default_handle_sync_step1
  by unfold_locales (auto simp: default_handle_sync_step1_def elim!: res_bind_InrE)

interpretation server_protocol: sync_protocol server_handle_sync_step1
  by unfold_locales (auto simp: server_handle_sync_step1_def)

lemma handle_reads_keep_document [frame]:
  "fst (handle_collab_message p y d origin locked doc (SyncMsg (SyncStep1 sv))) = doc"
  "fst (handle_collab_message p y d origin locked doc (AuthMsg reason)) = doc"
  "fst (handle_collab_message p y d origin locked doc (CustomMsg c)) = doc"
  "\<not> locked \<Longrightarrow> handle_collab_message p y d origin locked doc m = (doc, Inl lock_timeout)"
proof -
  assume "\<not> locked"
  then show "handle_collab_message p y d origin locked doc m = (doc, Inl lock_timeout)"
    by (cases "(p, y, d, origin, locked, doc, m)" rule: handle_collab_message.cases) auto
qed simp_all

subsection \<open>The handshake\<close>

text \<open>
  A replica that handles the messages of a payload in order, with its lock free, up to the first
  error, and the concatenation of its replies. The client's \<open>process_payload\<close> does so, each reply
  leaving in a message of its own; the server's loop differs only after an error, and the
  handshake meets none.
\<close>

fun handle_messages ::
    "protocol \<Rightarrow> ('sv, 'aw) yrs_codec \<Rightarrow> ('doc, 'sv, 'aw, 'upd) yrs_doc \<Rightarrow> collab_origin option \<Rightarrow>
     'doc \<Rightarrow> ('sv, 'aw) message list \<Rightarrow> 'doc \<times> (sync_error + bytes)" where
  "handle_messages p y d origin doc [] = (doc, Inr [])"
| "handle_messages p y d origin doc (m # ms) =
     (case handle_collab_message p y d origin True doc m of
        (doc1, Inl e) \<Rightarrow> (doc1, Inl e)
      | (doc1, Inr r) \<Rightarrow>
          (case handle_messages p y d origin doc1 ms of
             (doc2, Inl e) \<Rightarrow> (doc2, Inl e)
           | (doc2, Inr out) \<Rightarrow> (doc2, Inr ((case r of None \<Rightarrow> [] | Some b \<Rightarrow> b) @ out))))"

definition receive ::
    "protocol \<Rightarrow> ('sv, 'aw) yrs_codec \<Rightarrow> ('doc, 'sv, 'aw, 'upd) yrs_doc \<Rightarrow> collab_origin option \<Rightarrow>
     'doc \<Rightarrow> bytes \<Rightarrow> 'doc \<times> bytes" where
  "receive p y d origin doc payload =
     (case read_all y payload of
        Some (ms, _) \<Rightarrow>
          (case handle_messages p y d origin doc ms of
             (doc', Inr out) \<Rightarrow> (doc', out)
           | (doc', Inl _) \<Rightarrow> (doc', []))
      | None \<Rightarrow> (doc, []))"

text \<open>
  The exchange drawn in the comment of the source: the client's first message, the server's
  answer, the client's answer to that.
\<close>

definition handshake ::
    "('sv, 'aw) yrs_codec \<Rightarrow> ('doc, 'sv, 'aw, 'upd) yrs_doc \<Rightarrow> collab_origin \<Rightarrow> 'doc \<Rightarrow> 'doc \<Rightarrow>
     sync_error + ('doc \<times> 'doc)" where
  "handshake y d origin client server =
     res_bind (protocol_start y d client) (\<lambda>hello.
       let (server1, answer) = receive ServerSyncProtocol y d (Some origin) server hello;
           (client1, back) = receive ClientSyncProtocol y d (Some origin) client answer;
           (server2, _) = receive ServerSyncProtocol y d (Some origin) server1 back
       in Inr (client1, server2))"

text \<open>
  What the code relies on of a \<open>yrs\<close> document, with \<open>ops\<close> the set of operations a document has
  integrated: applying the difference to a state vector adds the operations of the sender that
  the owner of the state vector lacks; awareness does not change operations; transactions are
  available to the one task that holds the document's lock.
\<close>

definition crdt_laws ::
    "('doc, 'sv, 'aw, 'upd) yrs_doc \<Rightarrow> ('doc \<Rightarrow> 'op set) \<Rightarrow> bool" where
  "crdt_laws d ops \<longleftrightarrow>
     (\<forall>doc. yd_try_transact d doc = Inr ()) \<and>
     (\<forall>doc origin. yd_try_write_txn d doc origin = Inr ()) \<and>
     (\<forall>doc. \<exists>aw. yd_awareness d doc = Inr aw) \<and>
     (\<forall>doc aw. \<exists>doc'. yd_apply_awareness d doc aw = (doc', Inr ()) \<and> ops doc' = ops doc) \<and>
     (\<forall>src other origin doc. ops other \<subseteq> ops doc \<longrightarrow>
        (\<exists>u doc'. yd_decode_update d (yd_encode_diff d src (yd_state_vector d other)) = Inr u \<and>
           yd_apply_update d doc origin u = (doc', Inr ()) \<and> ops doc' = ops doc \<union> ops src))"

lemma crdt_awareness:
  assumes "crdt_laws d ops"
  obtains doc' where "yd_apply_awareness d doc aw = (doc', Inr ())" "ops doc' = ops doc"
  using assms unfolding crdt_laws_def by blast

lemma crdt_apply_diff:
  assumes "crdt_laws d ops" and "ops other \<subseteq> ops doc"
  obtains u doc' where "yd_decode_update d (yd_encode_diff d src (yd_state_vector d other)) = Inr u"
    and "yd_try_write_txn d doc origin = Inr ()"
    and "yd_apply_update d doc origin u = (doc', Inr ())" and "ops doc' = ops doc \<union> ops src"
  using assms unfolding crdt_laws_def by blast

lemma receive_encoded:
  assumes "yrs_laws y" and "\<forall>m \<in> set ms. message_in_range m"
    and "handle_messages p y d origin doc ms = (doc', Inr out)"
  shows "receive p y d origin doc (concat (map (encode_message y) ms)) = (doc', out)"
  using assms by (simp add: receive_def read_all_encoded)

lemma server_answers_hello:
  assumes y: "yrs_laws y" and c: "crdt_laws d ops"
  obtains server1 where "receive ServerSyncProtocol y d origin server
      (encode_message y (SyncMsg (SyncStep1 sv)) @ encode_message y (AwarenessMsg aw)) =
        (server1, encode_message y (SyncMsg (SyncStep2 (yd_encode_diff d server sv))) @
                  encode_message y (SyncMsg (SyncStep1 (yd_state_vector d server))))"
    and "ops server1 = ops server"
proof -
  obtain server1 where s1: "yd_apply_awareness d server aw = (server1, Inr ())"
    "ops server1 = ops server"
    using crdt_awareness [OF c] by blast
  then have "handle_messages ServerSyncProtocol y d origin server
      [SyncMsg (SyncStep1 sv), AwarenessMsg aw] =
      (server1, Inr (encode_message y (SyncMsg (SyncStep2 (yd_encode_diff d server sv))) @
                  encode_message y (SyncMsg (SyncStep1 (yd_state_vector d server)))))"
    by (simp add: server_handle_sync_step1_def handle_awareness_update_def)
  from receive_encoded [OF y _ this] s1(2) that show thesis by simp
qed

lemma client_answers_server:
  assumes y: "yrs_laws y" and c: "crdt_laws d ops"
  obtains client1 where "receive ClientSyncProtocol y d origin client
      (encode_message y (SyncMsg (SyncStep2 (yd_encode_diff d server (yd_state_vector d client)))) @
       encode_message y (SyncMsg (SyncStep1 sv))) =
        (client1, encode_message y (SyncMsg (SyncStep2 (yd_encode_diff d client1 sv))))"
    and "ops client1 = ops client \<union> ops server"
proof -
  obtain u client1 where
    u: "yd_decode_update d (yd_encode_diff d server (yd_state_vector d client)) = Inr u"
      "yd_try_write_txn d client origin = Inr ()" "yd_apply_update d client origin u = (client1, Inr ())"
    and eq: "ops client1 = ops client \<union> ops server"
    using crdt_apply_diff [OF c subset_refl] by blast
  have "yd_try_transact d client1 = Inr ()" using c by (simp add: crdt_laws_def)
  with u have "handle_messages ClientSyncProtocol y d origin client
      [SyncMsg (SyncStep2 (yd_encode_diff d server (yd_state_vector d client))), SyncMsg (SyncStep1 sv)] =
      (client1, Inr (encode_message y (SyncMsg (SyncStep2 (yd_encode_diff d client1 sv)))))"
    by (simp add: handle_sync_step2_def default_handle_sync_step1_def)
  from receive_encoded [OF y _ this] eq that show thesis by simp
qed

lemma server_takes_back:
  assumes y: "yrs_laws y" and c: "crdt_laws d ops" and "ops server = ops server1"
  obtains server2 where "receive ServerSyncProtocol y d origin server1
      (encode_message y (SyncMsg (SyncStep2 (yd_encode_diff d client1 (yd_state_vector d server))))) =
        (server2, [])"
    and "ops server2 = ops server \<union> ops client1"
proof -
  obtain u server2 where
    u: "yd_decode_update d (yd_encode_diff d client1 (yd_state_vector d server)) = Inr u"
      "yd_try_write_txn d server1 origin = Inr ()" "yd_apply_update d server1 origin u = (server2, Inr ())"
    and eq: "ops server2 = ops server1 \<union> ops client1"
    using crdt_apply_diff [OF c, of server server1] assms(3) by blast
  from u have "handle_messages ServerSyncProtocol y d origin server1
      [SyncMsg (SyncStep2 (yd_encode_diff d client1 (yd_state_vector d server)))] = (server2, Inr [])"
    by (simp add: handle_sync_step2_def)
  from receive_encoded [OF y _ this] eq assms(3) that show thesis by simp
qed

subsection \<open>An instance of the document\<close>

text \<open>
  For the witnesses: a document is the list of its operations, a state vector the same list.
\<close>

definition sample_doc :: "(bytes, bytes, bytes, bytes) yrs_doc" where
  "sample_doc =
     \<lparr>yd_try_transact = (\<lambda>_. Inr ()),
      yd_encode_diff = (\<lambda>doc sv. filter (\<lambda>x. x \<notin> set sv) doc),
      yd_state_vector = (\<lambda>doc. doc),
      yd_decode_update = Inr,
      yd_try_write_txn = (\<lambda>_ _. Inr ()),
      yd_apply_update = (\<lambda>doc _ u. (doc @ u, Inr ())),
      yd_awareness = (\<lambda>_. Inr []),
      yd_apply_awareness = (\<lambda>doc _. (doc, Inr ()))\<rparr>"

lemma sample_doc_laws: "crdt_laws sample_doc set"
  by (auto simp: crdt_laws_def sample_doc_def)

subsection \<open>Properties\<close>

text \<open>C2: The three-message handshake brings both replicas to the same operations: with \<open>yrs\<close>
  behaving as documented, after it the client and the server both hold the union of what they
  held before.\<close>

theorem handshake_converges:
  assumes y: "yrs_laws y" and c: "crdt_laws d ops"
  shows "\<exists>client' server'. handshake y d origin client server = Inr (client', server') \<and>
    ops client' = ops client \<union> ops server \<and> ops server' = ops client \<union> ops server"
proof -
  obtain aw where aw: "yd_awareness d client = Inr aw"
    using c unfolding crdt_laws_def by blast
  obtain server1 where s1: "receive ServerSyncProtocol y d (Some origin) server
      (encode_message y (SyncMsg (SyncStep1 (yd_state_vector d client))) @ encode_message y (AwarenessMsg aw)) =
        (server1, encode_message y (SyncMsg (SyncStep2 (yd_encode_diff d server (yd_state_vector d client)))) @
                  encode_message y (SyncMsg (SyncStep1 (yd_state_vector d server))))"
    and os: "ops server1 = ops server"
    by (rule server_answers_hello [OF y c])
  obtain client1 where c1: "receive ClientSyncProtocol y d (Some origin) client
      (encode_message y (SyncMsg (SyncStep2 (yd_encode_diff d server (yd_state_vector d client)))) @
       encode_message y (SyncMsg (SyncStep1 (yd_state_vector d server)))) =
        (client1, encode_message y (SyncMsg (SyncStep2 (yd_encode_diff d client1 (yd_state_vector d server)))))"
    and oc: "ops client1 = ops client \<union> ops server"
    by (rule client_answers_server [OF y c])
  obtain server2 where s2: "receive ServerSyncProtocol y d (Some origin) server1
      (encode_message y (SyncMsg (SyncStep2 (yd_encode_diff d client1 (yd_state_vector d server))))) =
        (server2, [])"
    and os2: "ops server2 = ops server \<union> ops client1"
    by (rule server_takes_back [OF y c os [symmetric]])
  have "handshake y d origin client server = Inr (client1, server2)"
    by (simp add: handshake_def protocol_start_def aw s1 c1 s2 del: encode_message.simps)
  with oc os2 show ?thesis by auto
qed

theorem handshake_converges_witness:
  "\<exists>client' server'. handshake sample_yrs sample_doc OriginServer [1, 2] [2, 3] = Inr (client', server') \<and>
    set client' = {1, 2, 3} \<and> set server' = {1, 2, 3}"
  using handshake_converges [OF sample_yrs_laws sample_doc_laws, of OriginServer "[1, 2]" "[2, 3]"]
  by (simp add: insert_commute)

text \<open>The server answers a state vector with two messages, readable in this order: the
  updates the client lacks, and the server's own state vector, which asks for the client's; the
  document is unchanged.\<close>

theorem server_step1_reply:
  assumes "yrs_laws y"
  shows "\<exists>b. handle_collab_message ServerSyncProtocol y d origin True doc (SyncMsg (SyncStep1 sv)) =
      (doc, Inr (Some b)) \<and>
    read_all y b = Some ([SyncMsg (SyncStep2 (yd_encode_diff d doc sv)),
                          SyncMsg (SyncStep1 (yd_state_vector d doc))], None)"
  using read_all_encoded [OF assms, of "[SyncMsg (SyncStep2 (yd_encode_diff d doc sv)),
                          SyncMsg (SyncStep1 (yd_state_vector d doc))]"]
  by (simp add: server_handle_sync_step1_def)

theorem server_step1_reply_witness:
  "\<exists>b. handle_collab_message ServerSyncProtocol sample_yrs sample_doc None True [4, 5] (SyncMsg (SyncStep1 [5])) =
      ([4, 5], Inr (Some b)) \<and>
    read_all sample_yrs b = Some ([SyncMsg (SyncStep2 [4]), SyncMsg (SyncStep1 [4, 5])], None)"
  using server_step1_reply [OF sample_yrs_laws, of sample_doc None "[4, 5]" "[5]"]
  by (simp add: sample_doc_def)

end
