(* ===== verification/CollabMsg.thy ===== *)
theory CollabMsg
  imports SyncProtocol Dto
begin

section \<open>Collab messages\<close>

text \<open>
  \<open>libs/realtime-entity/src/collab_msg.rs\<close>: the messages of the realtime channel, their order
  (which is the sending priority of the client's queue) and the merging of updates.
  \<open>merge_updates_v1\<close> is a function of \<open>yrs\<close>, the parameter \<open>mu\<close>.
\<close>

type_synonym msg_id = u64

record init_sync =
  is_origin :: collab_origin
  is_object_id :: string
  is_collab_type :: collab_type
  is_workspace_id :: string
  is_msg_id :: msg_id
  is_payload :: bytes

record server_init =
  si_origin :: collab_origin
  si_object_id :: string
  si_msg_id :: msg_id
  si_payload :: bytes

record update_sync =
  us_origin :: collab_origin
  us_object_id :: string
  us_msg_id :: msg_id
  us_payload :: bytes

record ack_source =
  as_sync_verbose :: string
  as_msg_id :: msg_id

record collab_ack =
  ca_origin :: collab_origin
  ca_object_id :: string
  ca_source :: ack_source
  ca_payload :: bytes

record collab_awareness =
  cw_object_id :: string
  cw_payload :: bytes

record collab_broadcast_data =
  cb_origin :: collab_origin
  cb_object_id :: string
  cb_payload :: bytes

datatype collab_message =
    ClientInitSync init_sync
  | ClientUpdateSync update_sync
  | ClientAck collab_ack
  | ServerInitSync server_init
  | AwarenessSync collab_awareness
  | ServerBroadcast collab_broadcast_data

subsection \<open>Constructors and accessors\<close>

definition init_sync_new ::
    "collab_origin \<Rightarrow> string \<Rightarrow> collab_type \<Rightarrow> string \<Rightarrow> msg_id \<Rightarrow> bytes \<Rightarrow> init_sync" where
  "init_sync_new origin oid ct wid mid payload =
     \<lparr>is_origin = origin, is_object_id = oid, is_collab_type = ct, is_workspace_id = wid,
      is_msg_id = mid, is_payload = payload\<rparr>"

definition server_init_new :: "collab_origin \<Rightarrow> string \<Rightarrow> bytes \<Rightarrow> msg_id \<Rightarrow> server_init" where
  "server_init_new origin oid payload mid =
     \<lparr>si_origin = origin, si_object_id = oid, si_msg_id = mid, si_payload = payload\<rparr>"

definition update_sync_new :: "collab_origin \<Rightarrow> string \<Rightarrow> bytes \<Rightarrow> msg_id \<Rightarrow> update_sync" where
  "update_sync_new origin oid payload mid =
     \<lparr>us_origin = origin, us_object_id = oid, us_msg_id = mid, us_payload = payload\<rparr>"

definition collab_ack_new ::
    "collab_origin \<Rightarrow> string \<Rightarrow> bytes \<Rightarrow> msg_id \<Rightarrow> string \<Rightarrow> collab_ack" where
  "collab_ack_new origin oid payload mid verbose =
     \<lparr>ca_origin = origin, ca_object_id = oid,
      ca_source = \<lparr>as_sync_verbose = verbose, as_msg_id = mid\<rparr>, ca_payload = payload\<rparr>"

fun is_client_init :: "collab_message \<Rightarrow> bool" where
  "is_client_init (ClientInitSync _) = True"
| "is_client_init _ = False"

fun is_server_init :: "collab_message \<Rightarrow> bool" where
  "is_server_init (ServerInitSync _) = True"
| "is_server_init _ = False"

fun type_str :: "collab_message \<Rightarrow> string" where
  "type_str (ClientInitSync _) = ''ClientInitSync''"
| "type_str (ClientUpdateSync _) = ''UpdateSync''"
| "type_str (ClientAck _) = ''ClientAck''"
| "type_str (ServerInitSync _) = ''ServerInitSync''"
| "type_str (ServerBroadcast _) = ''Broadcast''"
| "type_str (AwarenessSync _) = ''Awareness''"

fun cm_msg_id :: "collab_message \<Rightarrow> msg_id option" where
  "cm_msg_id (ClientInitSync v) = Some (is_msg_id v)"
| "cm_msg_id (ClientUpdateSync v) = Some (us_msg_id v)"
| "cm_msg_id (ClientAck v) = Some (as_msg_id (ca_source v))"
| "cm_msg_id (ServerInitSync v) = Some (si_msg_id v)"
| "cm_msg_id (ServerBroadcast _) = None"
| "cm_msg_id (AwarenessSync _) = None"

fun cm_payload :: "collab_message \<Rightarrow> bytes option" where
  "cm_payload (ClientInitSync v) = Some (is_payload v)"
| "cm_payload (ClientUpdateSync v) = Some (us_payload v)"
| "cm_payload (ClientAck v) = Some (ca_payload v)"
| "cm_payload (ServerInitSync v) = Some (si_payload v)"
| "cm_payload (ServerBroadcast v) = Some (cb_payload v)"
| "cm_payload (AwarenessSync v) = Some (cw_payload v)"

definition cm_len :: "collab_message \<Rightarrow> nat" where
  "cm_len m = (case cm_payload m of Some p \<Rightarrow> length p | None \<Rightarrow> 0)"

definition cm_is_empty :: "collab_message \<Rightarrow> bool" where
  "cm_is_empty m \<longleftrightarrow> cm_len m = 0"

fun cm_origin :: "collab_message \<Rightarrow> collab_origin option" where
  "cm_origin (ClientInitSync v) = Some (is_origin v)"
| "cm_origin (ClientUpdateSync v) = Some (us_origin v)"
| "cm_origin (ClientAck v) = Some (ca_origin v)"
| "cm_origin (ServerInitSync v) = Some (si_origin v)"
| "cm_origin (ServerBroadcast v) = Some (cb_origin v)"
| "cm_origin (AwarenessSync _) = None"

fun cm_object_id :: "collab_message \<Rightarrow> string" where
  "cm_object_id (ClientInitSync v) = is_object_id v"
| "cm_object_id (ClientUpdateSync v) = us_object_id v"
| "cm_object_id (ClientAck v) = ca_object_id v"
| "cm_object_id (ServerInitSync v) = si_object_id v"
| "cm_object_id (ServerBroadcast v) = cb_object_id v"
| "cm_object_id (AwarenessSync v) = cw_object_id v"

definition cm_device_id :: "collab_message \<Rightarrow> string option" where
  "cm_device_id m =
     (case cm_origin m of Some (OriginClient _ dev) \<Rightarrow> Some dev | _ \<Rightarrow> None)"

subsection \<open>The order of messages\<close>

datatype ordering = OLess | OEqual | OGreater

fun ord_reverse :: "ordering \<Rightarrow> ordering" where
  "ord_reverse OLess = OGreater"
| "ord_reverse OEqual = OEqual"
| "ord_reverse OGreater = OLess"

text \<open>\<open>Ord\<close> of \<open>Option<u64>\<close>: \<open>None\<close> is below every \<open>Some\<close>.\<close>

fun cmp_opt_id :: "msg_id option \<Rightarrow> msg_id option \<Rightarrow> ordering" where
  "cmp_opt_id None None = OEqual"
| "cmp_opt_id None (Some _) = OLess"
| "cmp_opt_id (Some _) None = OGreater"
| "cmp_opt_id (Some a) (Some b) = (if a < b then OLess else if a = b then OEqual else OGreater)"

fun cmp_msg :: "collab_message \<Rightarrow> collab_message \<Rightarrow> ordering" where
  "cmp_msg (ClientInitSync _) (ClientInitSync _) = OEqual"
| "cmp_msg (ClientInitSync _) _ = OGreater"
| "cmp_msg _ (ClientInitSync _) = OLess"
| "cmp_msg (ServerInitSync _) (ServerInitSync _) = OEqual"
| "cmp_msg (ServerInitSync _) _ = OGreater"
| "cmp_msg _ (ServerInitSync _) = OLess"
| "cmp_msg a b = ord_reverse (cmp_opt_id (cm_msg_id a) (cm_msg_id b))"

text \<open>\<open>PartialEq\<close>: two messages are equal when their ids are.\<close>

definition eq_msg :: "collab_message \<Rightarrow> collab_message \<Rightarrow> bool" where
  "eq_msg a b \<longleftrightarrow> cm_msg_id a = cm_msg_id b"

subsection \<open>Merging\<close>

fun can_merge :: "collab_message \<Rightarrow> bool" where
  "can_merge (ClientUpdateSync _) = True"
| "can_merge _ = False"

definition is_init_msg :: "collab_message \<Rightarrow> bool" where
  "is_init_msg m \<longleftrightarrow> is_client_init m"

text \<open>\<open>as_update\<close>: the first message of the payload, if it can be read.\<close>

definition as_update :: "('sv, 'aw) yrs_codec \<Rightarrow> update_sync \<Rightarrow> ('sv, 'aw) message option" where
  "as_update y u =
     (case reader_next y (us_payload u) of
        Some (Inr (m, _)) \<Rightarrow> Some m
      | _ \<Rightarrow> None)"

text \<open>
  \<open>merge_payload\<close> changes the receiver in place, so the result pairs the receiver afterwards with
  the \<open>Result<bool>\<close>.
\<close>

definition merge_payload ::
    "('sv, 'aw) yrs_codec \<Rightarrow> (bytes \<Rightarrow> bytes \<Rightarrow> string + bytes) \<Rightarrow> update_sync \<Rightarrow> update_sync \<Rightarrow>
     update_sync \<times> (string + bool)" where
  "merge_payload y mu a b =
     (case (as_update y a, as_update y b) of
        (Some (SyncMsg (SyncUpdate left)), Some (SyncMsg (SyncUpdate right))) \<Rightarrow>
          (case mu left right of
             Inl e \<Rightarrow> (a, Inl e)
           | Inr update \<Rightarrow>
               (a\<lparr>us_payload := encode_message y (SyncMsg (SyncUpdate update))\<rparr>, Inr True))
      | _ \<Rightarrow> (a, Inr False))"

fun merge_msg ::
    "('sv, 'aw) yrs_codec \<Rightarrow> (bytes \<Rightarrow> bytes \<Rightarrow> string + bytes) \<Rightarrow> nat \<Rightarrow> collab_message \<Rightarrow>
     collab_message \<Rightarrow> collab_message \<times> (string + bool)" where
  "merge_msg y mu maximum (ClientUpdateSync v) (ClientUpdateSync other) =
     (if maximum < length (us_payload v) then (ClientUpdateSync v, Inr False)
      else let (v', r) = merge_payload y mu v other in (ClientUpdateSync v', r))"
| "merge_msg y mu maximum a b = (a, Inr False)"

lemma as_update_encoded [codec]:
  assumes y: "yrs_laws y" and p: "us_payload a = encode_message y m" and m: "message_in_range m"
  shows "as_update y a = Some m"
proof -
  from y m have "decode_message y (encode_message y m @ []) = Inr (m, [])"
    by (intro decode_encode_message) (simp_all add: yrs_laws_def)
  then show ?thesis by (simp add: as_update_def reader_next_def p)
qed

subsection \<open>The order is a total preorder\<close>

text \<open>
  What a priority queue needs of the \<open>Ord\<close> of its elements. \<open>Equal\<close> does not mean identical:
  all init messages are equal to each other.
\<close>

locale message_order =
  fixes cmp :: "'m \<Rightarrow> 'm \<Rightarrow> ordering"
  assumes cmp_reverse: "cmp b a = ord_reverse (cmp a b)"
    and cmp_trans: "cmp a b \<noteq> OLess \<Longrightarrow> cmp b c \<noteq> OLess \<Longrightarrow> cmp a c \<noteq> OLess"
begin

lemma cmp_refl: "cmp a a = OEqual"
  using cmp_reverse [of a a] by (cases "cmp a a") auto

lemma cmp_not_greater: "cmp a b \<noteq> OGreater \<longleftrightarrow> cmp b a \<noteq> OLess"
  using cmp_reverse [of b a] by (cases "cmp a b"; cases "cmp b a") auto

lemma cmp_total: "cmp a b \<noteq> OLess \<or> cmp b a \<noteq> OLess"
  using cmp_reverse [of b a] by (cases "cmp a b") auto

end

text \<open>
  The order in one number: client inits above server inits above messages without id above the
  rest, and among these the smaller id first.
\<close>

definition priority :: "collab_message \<Rightarrow> int" where
  "priority m =
     (case m of
        ClientInitSync _ \<Rightarrow> 3
      | ServerInitSync _ \<Rightarrow> 2
      | _ \<Rightarrow> (case cm_msg_id m of None \<Rightarrow> 1 | Some i \<Rightarrow> - uint i))"

definition cmp_int :: "int \<Rightarrow> int \<Rightarrow> ordering" where
  "cmp_int a b = (if a < b then OLess else if a = b then OEqual else OGreater)"

lemma word_of_uint_inject [simp]: "uint (a :: u64) = uint b \<longleftrightarrow> a = b"
  by (simp add: word_uint_eq_iff)

lemma uint_not_negative [simp]:
  "uint (a :: u64) \<noteq> - 1" "- 1 < uint a" "- 2 < uint a" "- 3 < uint a"
  "uint a \<noteq> - 2" "uint a \<noteq> - 3" "\<not> uint a < - 1" "\<not> uint a < - 2" "\<not> uint a < - 3"
  using uint_ge_0 [of a] by linarith+

lemma cmp_msg_priority: "cmp_msg a b = cmp_int (priority a) (priority b)"
  by (cases a; cases b)
    (auto simp: priority_def cmp_int_def word_less_def minus_equation_iff [of "uint _"]
      equation_minus_iff [of _ "uint _"] minus_less_iff [of "uint _"]
      less_minus_iff [of _ "uint _"] split: option.splits)

interpretation msg_order: message_order cmp_msg
  by unfold_locales (auto simp: cmp_msg_priority cmp_int_def split: if_splits)

subsection \<open>Properties\<close>

text \<open>The order of messages is a total preorder in which a client init stands above everything
  else, then a server init, then the messages without an id, then the others with the smaller
  (older) id first: a message is at least as urgent as another exactly in these cases.\<close>

theorem message_priority_order:
  "cmp_msg b a = ord_reverse (cmp_msg a b) \<and>
   (cmp_msg a b \<noteq> OLess) =
     (if is_client_init a then True
      else if is_client_init b then False
      else if is_server_init a then True
      else if is_server_init b then False
      else case (cm_msg_id a, cm_msg_id b) of
             (None, _) \<Rightarrow> True
           | (Some _, None) \<Rightarrow> False
           | (Some i, Some j) \<Rightarrow> i \<le> j)"
  using msg_order.cmp_reverse [of b a] by (cases a; cases b) auto

text \<open>Merging two update messages replaces the payload of the first by the encoding of the
  merged update, keeps its id, origin and object, reports that merging may go on, and the result
  reads back as the merged update; an update over the size limit is left as it is.\<close>

theorem merge_two_updates:
  assumes "yrs_laws y"
    and "us_payload a = encode_message y (SyncMsg (SyncUpdate l))"
    and "us_payload b = encode_message y (SyncMsg (SyncUpdate r))"
    and "mu l r = Inr u"
  shows "merge_msg y mu maximum (ClientUpdateSync a) (ClientUpdateSync b) =
     (if maximum < length (us_payload a) then (ClientUpdateSync a, Inr False)
      else (ClientUpdateSync (a\<lparr>us_payload := encode_message y (SyncMsg (SyncUpdate u))\<rparr>), Inr True)) \<and>
     as_update y (a\<lparr>us_payload := encode_message y (SyncMsg (SyncUpdate u))\<rparr>) = Some (SyncMsg (SyncUpdate u))"
proof -
  note e = as_update_encoded [OF assms(1)]
  have "as_update y a = Some (SyncMsg (SyncUpdate l))" by (rule e [OF assms(2)]) simp
  moreover have "as_update y b = Some (SyncMsg (SyncUpdate r))" by (rule e [OF assms(3)]) simp
  moreover have "as_update y (a\<lparr>us_payload := encode_message y (SyncMsg (SyncUpdate u))\<rparr>) =
      Some (SyncMsg (SyncUpdate u))" by (rule e) simp_all
  ultimately show ?thesis using assms(4) by (simp add: merge_payload_def del: encode_message.simps)
qed

theorem merge_two_updates_witness:
  "\<exists>a b. merge_msg sample_yrs (\<lambda>l r. Inr (l @ r)) 65536 (ClientUpdateSync a) (ClientUpdateSync b) =
     (ClientUpdateSync (a\<lparr>us_payload := encode_message sample_yrs (SyncMsg (SyncUpdate [1, 2]))\<rparr>), Inr True)"
proof -
  let ?u = "\<lambda>i p. update_sync_new OriginServer ''doc'' (encode_message sample_yrs (SyncMsg (SyncUpdate p))) i"
  show ?thesis
    using merge_two_updates [OF sample_yrs_laws, of "?u 0 [1]" "[1]" "?u 1 [2]" "[2]"
        "\<lambda>l r. Inr (l @ r)" "[1, 2]" 65536]
    by (intro exI [of _ "?u 0 [1]"] exI [of _ "?u 1 [2]"])
      (simp add: update_sync_new_def sample_yrs_def mark_def)
qed

end
