(* ===== verification/PendingQueue.thy ===== *)
theory PendingQueue
  imports CollabMsg "HOL-Library.Multiset"
begin

section \<open>The queue of pending messages\<close>

text \<open>
  \<open>libs/client-api/src/collab_sync/pending_msg.rs\<close>: a message waiting to be sent or acknowledged,
  and the \<open>BinaryHeap\<close> that orders them by the \<open>Ord\<close> of the message. The heap is the list of its
  elements from the greatest down; elements that compare equal leave it in the order they came in
  (the standard library leaves that order open, and no property below depends on it).

  A \<open>oneshot\<close> channel is a number: \<open>pm_tx = Some c\<close> holds the sender of channel \<open>c\<close>.
\<close>

datatype message_state = Pending | Processing | Done | Timeout

fun state_is_done :: "message_state \<Rightarrow> bool" where
  "state_is_done Done = True"
| "state_is_done _ = False"

fun state_is_processing :: "message_state \<Rightarrow> bool" where
  "state_is_processing Processing = True"
| "state_is_processing _ = False"

record pending_message =
  pm_msg :: collab_message
  pm_msg_id :: msg_id
  pm_state :: message_state
  pm_tx :: "nat option"

definition pending_message_new :: "collab_message \<Rightarrow> msg_id \<Rightarrow> pending_message" where
  "pending_message_new m i = \<lparr>pm_msg = m, pm_msg_id = i, pm_state = Pending, pm_tx = None\<rparr>"

text \<open>
  \<open>set_state\<close>: the message afterwards, the value returned, and the channel on which the id was
  sent. \<open>alive c\<close> says that the receiver of channel \<open>c\<close> still exists; the sender is taken out of
  the message whether or not the sending succeeds.
\<close>

definition set_state ::
    "(nat \<Rightarrow> bool) \<Rightarrow> message_state \<Rightarrow> pending_message \<Rightarrow> pending_message \<times> bool \<times> nat option" where
  "set_state alive new p =
     (let p1 = (if pm_state p \<noteq> new then p\<lparr>pm_state := new\<rparr> else p) in
      if state_is_done (pm_state p1) then
        (case pm_tx p1 of
           None \<Rightarrow> (p1, False, None)
         | Some c \<Rightarrow>
             if alive c then (p1\<lparr>pm_tx := None\<rparr>, True, Some c)
             else (p1\<lparr>pm_tx := None\<rparr>, False, None))
      else (p1, False, None))"

definition set_ret :: "nat \<Rightarrow> pending_message \<Rightarrow> pending_message" where
  "set_ret c p = p\<lparr>pm_tx := Some c\<rparr>"

definition pm_merge ::
    "('sv, 'aw) yrs_codec \<Rightarrow> (bytes \<Rightarrow> bytes \<Rightarrow> string + bytes) \<Rightarrow> nat \<Rightarrow> pending_message \<Rightarrow>
     pending_message \<Rightarrow> pending_message \<times> (string + bool)" where
  "pm_merge y mu maximum p other =
     (let (m, r) = merge_msg y mu maximum (pm_msg p) (pm_msg other) in (p\<lparr>pm_msg := m\<rparr>, r))"

definition cmp_pending :: "pending_message \<Rightarrow> pending_message \<Rightarrow> ordering" where
  "cmp_pending a b = cmp_msg (pm_msg a) (pm_msg b)"

subsection \<open>The heap\<close>

type_synonym heap = "pending_message list"

fun heap_push :: "pending_message \<Rightarrow> heap \<Rightarrow> heap" where
  "heap_push p [] = [p]"
| "heap_push p (q # qs) = (if cmp_pending p q = OGreater then p # q # qs else q # heap_push p qs)"

fun heap_pop :: "heap \<Rightarrow> pending_message option \<times> heap" where
  "heap_pop [] = (None, [])"
| "heap_pop (p # ps) = (Some p, ps)"

fun heap_peek :: "heap \<Rightarrow> pending_message option" where
  "heap_peek [] = None"
| "heap_peek (p # ps) = Some p"

definition push_msg :: "msg_id \<Rightarrow> collab_message \<Rightarrow> heap \<Rightarrow> heap" where
  "push_msg i m q = heap_push (pending_message_new m i) q"

subsection \<open>The contract of the heap\<close>

text \<open>
  What \<open>BinaryHeap\<close> promises its client: pushing adds one element, popping takes one away that no
  other element beats, and only the empty heap has nothing to pop.
\<close>

locale max_heap =
  fixes push :: "'m \<Rightarrow> 'h \<Rightarrow> 'h"
    and pop :: "'h \<Rightarrow> 'm option \<times> 'h"
    and elems :: "'h \<Rightarrow> 'm multiset"
    and good :: "'h \<Rightarrow> bool"
    and rank :: "'m \<Rightarrow> int"
  assumes elems_push: "elems (push m h) = add_mset m (elems h)"
    and good_push: "good h \<Longrightarrow> good (push m h)"
    and pop_None: "pop h = (None, h') \<Longrightarrow> elems h = {#} \<and> elems h' = {#}"
    and pop_Some: "pop h = (Some m, h') \<Longrightarrow> elems h = add_mset m (elems h')"
    and pop_good: "good h \<Longrightarrow> pop h = (r, h') \<Longrightarrow> good h'"
    and pop_max: "good h \<Longrightarrow> pop h = (Some m, h') \<Longrightarrow> x \<in># elems h' \<Longrightarrow> rank x \<le> rank m"
begin

fun push_all :: "'m list \<Rightarrow> 'h \<Rightarrow> 'h" where
  "push_all [] h = h"
| "push_all (m # ms) h = push_all ms (push m h)"

fun pop_n :: "nat \<Rightarrow> 'h \<Rightarrow> 'm list" where
  "pop_n 0 h = []"
| "pop_n (Suc n) h = (case pop h of (None, _) \<Rightarrow> [] | (Some m, h') \<Rightarrow> m # pop_n n h')"

lemma elems_push_all: "elems (push_all ms h) = mset ms + elems h"
  by (induction ms arbitrary: h) (auto simp: elems_push)

lemma good_push_all: "good h \<Longrightarrow> good (push_all ms h)"
  by (induction ms arbitrary: h) (auto simp: good_push)

lemma mset_pop_n: "n = size (elems h) \<Longrightarrow> mset (pop_n n h) = elems h"
proof (induction n arbitrary: h)
  case (Suc n)
  show ?case
  proof (cases "pop h")
    case (Pair r h')
    with Suc pop_None [of h h'] pop_Some [of h _ h'] show ?thesis by (cases r) auto
  qed
qed simp

lemma sorted_pop_n: "good h \<Longrightarrow> sorted_wrt (\<lambda>a b. rank b \<le> rank a) (pop_n n h)"
proof (induction n arbitrary: h)
  case (Suc n)
  show ?case
  proof (cases "pop h")
    case (Pair r h')
    show ?thesis
    proof (cases r)
      case (Some m)
      have sub: "mset (pop_n k g) \<subseteq># elems g" for k g
      proof (induction k arbitrary: g)
        case (Suc k)
        then show ?case
          using pop_Some [of g] by (auto split: prod.splits option.splits)
      qed simp
      from Some Pair Suc.prems have "\<forall>x \<in># elems h'. rank x \<le> rank m" and g: "good h'"
        by (auto intro: pop_max pop_good)
      with sub [of n h'] have "\<forall>x \<in> set (pop_n n h'). rank x \<le> rank m"
        by (metis mset_subset_eqD set_mset_mset)
      with Some Pair Suc.IH [OF g] show ?thesis by simp
    qed (simp add: Pair)
  qed
qed simp

end

definition pm_rank :: "pending_message \<Rightarrow> int" where
  "pm_rank p = priority (pm_msg p)"

definition heap_sorted :: "heap \<Rightarrow> bool" where
  "heap_sorted h \<longleftrightarrow> sorted_wrt (\<lambda>a b. pm_rank b \<le> pm_rank a) h"

lemma cmp_pending_greater: "cmp_pending a b = OGreater \<longleftrightarrow> pm_rank b < pm_rank a"
  by (auto simp: cmp_pending_def cmp_msg_priority cmp_int_def pm_rank_def)

lemma mset_heap_push [simp]: "mset (heap_push p h) = add_mset p (mset h)"
  by (induction h) auto

lemma set_heap_push [simp]: "set (heap_push p h) = insert p (set h)"
  by (induction h) auto

lemma length_heap_push [simp]: "length (heap_push p h) = Suc (length h)"
  by (induction h) auto

lemma heap_push_not_Nil [simp]: "heap_push p h \<noteq> []"
  by (cases h) auto

lemma heap_sorted_push [preserves]: "heap_sorted h \<Longrightarrow> heap_sorted (heap_push p h)"
  by (induction h) (auto simp: heap_sorted_def cmp_pending_greater)

lemma heap_push_greatest: "\<forall>q \<in> set h. pm_rank q < pm_rank p \<Longrightarrow> heap_push p h = p # h"
  by (cases h) (auto simp: cmp_pending_greater)

interpretation pending_heap: max_heap heap_push heap_pop mset heap_sorted pm_rank
proof
  show "mset (heap_push m h) = add_mset m (mset h)" for m h by simp
  show "heap_sorted h \<Longrightarrow> heap_sorted (heap_push m h)" for m h by (rule heap_sorted_push)
  show "heap_pop h = (None, h') \<Longrightarrow> mset h = {#} \<and> mset h' = {#}" for h h' by (cases h) auto
  show "heap_pop h = (Some m, h') \<Longrightarrow> mset h = add_mset m (mset h')" for h m h' by (cases h) auto
  show "heap_sorted h \<Longrightarrow> heap_pop h = (r, h') \<Longrightarrow> heap_sorted h'" for h r h'
    by (cases h) (auto simp: heap_sorted_def)
  show "heap_sorted h \<Longrightarrow> heap_pop h = (Some m, h') \<Longrightarrow> x \<in># mset h' \<Longrightarrow> pm_rank x \<le> pm_rank m"
    for h m h' x by (cases h) (auto simp: heap_sorted_def)
qed

lemma set_state_keeps [simp]:
  "pm_msg (fst (set_state alive new p)) = pm_msg p"
  "pm_msg_id (fst (set_state alive new p)) = pm_msg_id p"
  "pm_state (fst (set_state alive new p)) = new"
  by (auto simp: set_state_def Let_def split: option.splits)

lemma set_state_tx:
  "pm_tx (fst (set_state alive new p)) = (if new = Done then None else pm_tx p)"
  by (cases new) (auto simp: set_state_def Let_def split: option.splits)

lemma fold_heap_push: "fold heap_push ps h = pending_heap.push_all ps h"
  by (induction ps arbitrary: h) auto

text \<open>Popping \<open>n\<close> times, the way the sender meets the messages.\<close>

fun drain :: "nat \<Rightarrow> heap \<Rightarrow> pending_message list" where
  "drain 0 h = []"
| "drain (Suc n) h = (case heap_pop h of (None, _) \<Rightarrow> [] | (Some p, h') \<Rightarrow> p # drain n h')"

lemma drain_pop_n: "drain n h = pending_heap.pop_n n h"
  by (induction n arbitrary: h) (auto split: option.splits prod.splits)

subsection \<open>Properties\<close>

text \<open>Draining a queue into which messages were pushed in any order returns each of them exactly
  once and in order of priority.\<close>

theorem pending_queue_drains_in_order:
  "mset (drain (length ps) (fold heap_push ps [])) = mset ps \<and>
   sorted_wrt (\<lambda>a b. cmp_pending a b \<noteq> OLess) (drain (length ps) (fold heap_push ps []))"
proof
  let ?h = "fold heap_push ps []"
  have e: "mset ?h = mset ps" by (simp add: fold_heap_push pending_heap.elems_push_all)
  then show "mset (drain (length ps) ?h) = mset ps"
    unfolding drain_pop_n by (metis pending_heap.mset_pop_n size_mset)
  have "heap_sorted ?h"
    unfolding fold_heap_push by (rule pending_heap.good_push_all) (simp add: heap_sorted_def)
  from pending_heap.sorted_pop_n [OF this]
  show "sorted_wrt (\<lambda>a b. cmp_pending a b \<noteq> OLess) (drain (length ps) ?h)"
    unfolding drain_pop_n by (rule sorted_wrt_mono_rel [rotated])
      (auto simp: cmp_pending_def cmp_msg_priority cmp_int_def pm_rank_def split: if_splits)
qed

end
