(* ===== verification/CollabSink.thy ===== *)
theory CollabSink
  imports PendingQueue
begin

section \<open>The client's sink\<close>

text \<open>
  \<open>libs/client-api/src/collab_sync/sink.rs\<close>: the queue, the counter of message ids, and the task
  (\<open>CollabSinkRunner\<close>) that sends one message at a time and waits for its acknowledgement.

  \<open>try_send_msg_immediately\<close> suspends twice, while the message is handed to the sender and while it
  waits for the acknowledgement; other tasks change the queue in between. It is therefore three
  operations: \<open>prepare_send\<close> up to the first suspension, \<open>send_result\<close> up to the second, and then
  \<open>wait_result\<close> (the receiver resolved) or \<open>wait_timeout\<close>. \<open>sk_runner\<close> is the point the task has
  reached. A \<open>try_lock\<close> is a flag of the operation that says whether the lock was free. Time is in
  milliseconds.
\<close>

datatype sink_state = SinkInit | Syncing | Finished | Paused

datatype sink_strategy = ASAP | FixInterval nat

record sink_config =
  sc_send_timeout :: nat
  sc_maximum_payload_size :: nat
  sc_strategy :: sink_strategy

definition DEFAULT_SYNC_TIMEOUT :: nat where "DEFAULT_SYNC_TIMEOUT = 4"

definition default_sink_config :: sink_config where
  "default_sink_config =
     \<lparr>sc_send_timeout = DEFAULT_SYNC_TIMEOUT * 1000, sc_maximum_payload_size = 1024 * 64,
      sc_strategy = ASAP\<rparr>"

definition with_send_timeout :: "nat \<Rightarrow> sink_config \<Rightarrow> sink_config" where
  "with_send_timeout secs c = c\<lparr>sc_send_timeout := secs * 1000\<rparr>"

definition with_max_payload_size :: "nat \<Rightarrow> sink_config \<Rightarrow> sink_config" where
  "with_max_payload_size n c = c\<lparr>sc_maximum_payload_size := n\<rparr>"

definition with_strategy :: "sink_strategy \<Rightarrow> sink_config \<Rightarrow> sink_config" where
  "with_strategy s c = c\<lparr>sc_strategy := s\<rparr>"

fun is_fix_interval :: "sink_strategy \<Rightarrow> bool" where
  "is_fix_interval (FixInterval _) = True"
| "is_fix_interval ASAP = False"

definition calculate_timeout :: "nat \<Rightarrow> nat \<Rightarrow> nat" where
  "calculate_timeout payload_len default_timeout =
     (if payload_len \<le> 40959 then default_timeout
      else if payload_len \<le> 1048576 then 10000
      else if payload_len \<le> 2097152 then 20000
      else if payload_len \<le> 4194304 then 50000
      else 160000)"

text \<open>\<open>RunnerSending c m\<close>: handing over \<open>m\<close>; \<open>RunnerWaiting c t\<close>: waiting on channel \<open>c\<close> for \<open>t\<close>.\<close>

datatype runner =
    RunnerIdle
  | RunnerSending nat collab_message
  | RunnerWaiting nat nat

record sink =
  sk_queue :: heap
  sk_counter :: u64
  sk_notified :: bool
  sk_retries :: nat
  sk_instant :: nat
  sk_state :: sink_state
  sk_pause :: bool
  sk_runner :: runner
  sk_next_chan :: nat
  sk_got_ack :: bool
  sk_sent :: "collab_message list"

definition sink_new :: "bool \<Rightarrow> nat \<Rightarrow> sink" where
  "sink_new pause now =
     \<lparr>sk_queue = [], sk_counter = 0, sk_notified = False, sk_retries = 0, sk_instant = now,
      sk_state = SinkInit, sk_pause = pause, sk_runner = RunnerIdle, sk_next_chan = 0,
      sk_got_ack = False, sk_sent = []\<rparr>"

fun runner_chan :: "runner \<Rightarrow> nat option" where
  "runner_chan RunnerIdle = None"
| "runner_chan (RunnerSending c _) = Some c"
| "runner_chan (RunnerWaiting c _) = Some c"

definition rx_alive :: "sink \<Rightarrow> nat \<Rightarrow> bool" where
  "rx_alive s c \<longleftrightarrow> runner_chan (sk_runner s) = Some c"

definition notify :: "sink \<Rightarrow> sink" where
  "notify s = s\<lparr>sk_notified := True\<rparr>"

definition retry_later :: "sink \<Rightarrow> sink" where
  "retry_later s = s\<lparr>sk_retries := Suc (sk_retries s)\<rparr>"

definition retry_fires :: "sink \<Rightarrow> sink" where
  "retry_fires s =
     (case sk_retries s of 0 \<Rightarrow> s | Suc n \<Rightarrow> notify (s\<lparr>sk_retries := n\<rparr>))"

subsection \<open>Operations of the owner\<close>

definition counter_next :: "sink \<Rightarrow> msg_id \<times> sink" where
  "counter_next s = (sk_counter s, s\<lparr>sk_counter := sk_counter s + 1\<rparr>)"

definition queue_msg :: "(msg_id \<Rightarrow> collab_message) \<Rightarrow> sink \<Rightarrow> sink" where
  "queue_msg f s =
     (let (i, s1) = counter_next s in
      notify (s1\<lparr>sk_queue := push_msg i (f i) (sk_queue s1)\<rparr>))"

definition queue_init_sync :: "(msg_id \<Rightarrow> collab_message) \<Rightarrow> sink \<Rightarrow> sink" where
  "queue_init_sync f s =
     (let s1 = s\<lparr>sk_queue := []\<rparr>; (i, s2) = counter_next s1 in
      notify (s2\<lparr>sk_queue := push_msg i (f i) (sk_queue s2)\<rparr>))"

definition sink_clear :: "sink \<Rightarrow> sink" where
  "sink_clear s = s\<lparr>sk_queue := []\<rparr>"

definition sink_pause :: "sink \<Rightarrow> sink" where
  "sink_pause s = s\<lparr>sk_pause := True, sk_state := Paused\<rparr>"

definition sink_resume :: "sink \<Rightarrow> sink" where
  "sink_resume s = notify (s\<lparr>sk_pause := False\<rparr>)"

definition ack_msg :: "msg_id \<Rightarrow> sink \<Rightarrow> sink \<times> bool" where
  "ack_msg i s =
     (case sk_queue s of
        [] \<Rightarrow> (s, False)
      | p # q \<Rightarrow>
          if pm_msg_id p \<noteq> i then (s, False)
          else
            let (p', is_done, sent) = set_state (rx_alive s) Done p;
                s1 = s\<lparr>sk_queue := p' # q, sk_got_ack := sk_got_ack s \<or> sent \<noteq> None\<rparr> in
            (if is_done then notify s1 else s1, is_done))"

subsection \<open>Operations of the runner\<close>

text \<open>
  The merge loop of \<open>try_send_msg_immediately\<close>: the message with what was merged into it, the queue
  that is left, and the ids of \<open>merged_msg\<close>. The message for which \<open>merge\<close> answers \<open>Ok(false)\<close> is
  not pushed back.
\<close>

fun merge_loop ::
    "('sv, 'aw) yrs_codec \<Rightarrow> (bytes \<Rightarrow> bytes \<Rightarrow> string + bytes) \<Rightarrow> nat \<Rightarrow> pending_message \<Rightarrow> heap \<Rightarrow>
     pending_message \<times> heap \<times> msg_id list" where
  "merge_loop y mu maximum p [] = (p, [], [])"
| "merge_loop y mu maximum p (o' # q) =
     (case pm_merge y mu maximum p o' of
        (p', Inr True) \<Rightarrow>
          (let (p2, q2, ids) = merge_loop y mu maximum p' q in (p2, q2, pm_msg_id o' # ids))
      | (p', Inr False) \<Rightarrow> (p', q, [pm_msg_id o'])
      | (p', Inl _) \<Rightarrow> (p', heap_push o' q, []))"

definition prepare_send ::
    "('sv, 'aw) yrs_codec \<Rightarrow> (bytes \<Rightarrow> bytes \<Rightarrow> string + bytes) \<Rightarrow> sink_config \<Rightarrow> bool \<Rightarrow> sink \<Rightarrow> sink" where
  "prepare_send y mu cfg lock_free s0 =
     (let c = sk_next_chan s0; s = s0\<lparr>sk_next_chan := Suc c\<rparr> in
      if \<not> lock_free then retry_later s
      else case heap_pop (sk_queue s) of
        (None, _) \<Rightarrow> s
      | (Some p, q) \<Rightarrow>
          if state_is_done (pm_state p) then notify (s\<lparr>sk_queue := q\<rparr>)
          else if state_is_processing (pm_state p) then s\<lparr>sk_queue := q\<rparr>
          else
            let (p1, q1, merged) =
                  (if can_merge (pm_msg p)
                   then merge_loop y mu (sc_maximum_payload_size cfg) p q else (p, q, []));
                p2 = fst (set_state (rx_alive s) Processing (set_ret c p1)) in
            s\<lparr>sk_queue := heap_push p2 q1, sk_state := Syncing,
              sk_runner := RunnerSending c (pm_msg p2), sk_got_ack := False\<rparr>)"

datatype send_outcome = SendOk | SendFailed | SenderLocked

fun send_result :: "sink_config \<Rightarrow> send_outcome \<Rightarrow> sink \<Rightarrow> sink" where
  "send_result cfg r s =
     (case sk_runner s of
        RunnerSending c m \<Rightarrow>
          (case r of
             SendOk \<Rightarrow> s\<lparr>sk_sent := sk_sent s @ [m],
                         sk_runner := RunnerWaiting c (calculate_timeout (cm_len m) (sc_send_timeout cfg))\<rparr>
           | SendFailed \<Rightarrow> s\<lparr>sk_runner := RunnerIdle, sk_got_ack := False\<rparr>
           | SenderLocked \<Rightarrow> retry_later (s\<lparr>sk_runner := RunnerIdle, sk_got_ack := False\<rparr>))
      | _ \<Rightarrow> s)"

text \<open>
  The receiver resolves once the id was sent on it (\<open>Ok\<close>) or its sender is gone from the queue
  (\<open>Err\<close>). Then the runner goes on: after \<open>Ok\<close> it pops whatever message is on top.
\<close>

definition rx_closed :: "nat \<Rightarrow> sink \<Rightarrow> bool" where
  "rx_closed c s \<longleftrightarrow> (\<forall>p \<in> set (sk_queue s). pm_tx p \<noteq> Some c)"

definition wait_result :: "bool \<Rightarrow> sink \<Rightarrow> sink" where
  "wait_result lock_free s =
     (case sk_runner s of
        RunnerWaiting c _ \<Rightarrow>
          if sk_got_ack s then
            let s1 = s\<lparr>sk_runner := RunnerIdle, sk_got_ack := False\<rparr>;
                s2 = (if \<not> lock_free then s1
                      else
                        let s3 = s1\<lparr>sk_queue := snd (heap_pop (sk_queue s1))\<rparr> in
                        if sk_queue s3 = [] then s3\<lparr>sk_state := Finished\<rparr> else s3) in
            notify s2
          else if rx_closed c s then notify (s\<lparr>sk_runner := RunnerIdle\<rparr>)
          else s
      | _ \<Rightarrow> s)"

definition wait_timeout :: "sink \<Rightarrow> sink" where
  "wait_timeout s =
     (case sk_runner s of
        RunnerWaiting c _ \<Rightarrow>
          if sk_got_ack s \<or> rx_closed c s then s
          else
            notify (s\<lparr>sk_runner := RunnerIdle,
                      sk_queue := (case sk_queue s of
                                     [] \<Rightarrow> []
                                   | p # q \<Rightarrow> fst (set_state (rx_alive s) Timeout p) # q)\<rparr>)
      | _ \<Rightarrow> s)"

definition process_next_msg ::
    "('sv, 'aw) yrs_codec \<Rightarrow> (bytes \<Rightarrow> bytes \<Rightarrow> string + bytes) \<Rightarrow> sink_config \<Rightarrow>
     bool \<Rightarrow> bool \<Rightarrow> bool \<Rightarrow> nat \<Rightarrow> sink \<Rightarrow> sink" where
  "process_next_msg y mu cfg lock1 lock2 lock3 now s =
     (if sk_pause s then s
      else
        let deferrable =
              (if lock1 then
                 (case heap_peek (sk_queue s) of Some p \<Rightarrow> \<not> is_init_msg (pm_msg p) | None \<Rightarrow> True)
               else True) in
        if \<not> deferrable then prepare_send y mu cfg lock3 s
        else
          let is_prev_msg_done =
                (if lock2 then
                   (case heap_peek (sk_queue s) of Some p \<Rightarrow> state_is_done (pm_state p) | None \<Rightarrow> False)
                 else False) in
          if is_prev_msg_done then prepare_send y mu cfg lock3 s
          else
            case sc_strategy cfg of
              FixInterval d \<Rightarrow>
                if now - sk_instant s < d then s
                else prepare_send y mu cfg lock3 (s\<lparr>sk_instant := now\<rparr>)
            | ASAP \<Rightarrow> prepare_send y mu cfg lock3 s)"

text \<open>
  One iteration of \<open>CollabSinkRunner::run\<close>: it takes a pending notification and calls
  \<open>process_next_msg\<close>; it does not come back for the next one before that call has returned.
\<close>

definition runner_step ::
    "('sv, 'aw) yrs_codec \<Rightarrow> (bytes \<Rightarrow> bytes \<Rightarrow> string + bytes) \<Rightarrow> sink_config \<Rightarrow>
     bool \<Rightarrow> bool \<Rightarrow> bool \<Rightarrow> nat \<Rightarrow> sink \<Rightarrow> sink" where
  "runner_step y mu cfg l1 l2 l3 now s =
     (if sk_runner s = RunnerIdle \<and> sk_notified s
      then process_next_msg y mu cfg l1 l2 l3 now (s\<lparr>sk_notified := False\<rparr>) else s)"

datatype sink_event =
    QueueMsg "msg_id \<Rightarrow> collab_message"
  | QueueInit "msg_id \<Rightarrow> collab_message"
  | Clear
  | Pause
  | Resume
  | Ack msg_id
  | RunnerStep bool bool bool nat
  | SendResult send_outcome
  | WaitResult bool
  | WaitTimeout
  | RetryFires

fun sink_step ::
    "('sv, 'aw) yrs_codec \<Rightarrow> (bytes \<Rightarrow> bytes \<Rightarrow> string + bytes) \<Rightarrow> sink_config \<Rightarrow> sink \<Rightarrow>
     sink_event \<Rightarrow> sink" where
  "sink_step y mu cfg s (QueueMsg f) = queue_msg f s"
| "sink_step y mu cfg s (QueueInit f) = queue_init_sync f s"
| "sink_step y mu cfg s Clear = sink_clear s"
| "sink_step y mu cfg s Pause = sink_pause s"
| "sink_step y mu cfg s Resume = sink_resume s"
| "sink_step y mu cfg s (Ack i) = fst (ack_msg i s)"
| "sink_step y mu cfg s (RunnerStep l1 l2 l3 now) = runner_step y mu cfg l1 l2 l3 now s"
| "sink_step y mu cfg s (SendResult r) = send_result cfg r s"
| "sink_step y mu cfg s (WaitResult l) = wait_result l s"
| "sink_step y mu cfg s WaitTimeout = wait_timeout s"
| "sink_step y mu cfg s RetryFires = retry_fires s"

end
