(* ===== verification/SinkDelivery.thy ===== *)
theory SinkDelivery
  imports CollabSink
begin

section \<open>Delivery of the client's updates\<close>

text \<open>
  What the sink promises its user: an update that was queued is in the queue until a message that
  contains it was handed to the sender. An update is a set of changes (\<open>content\<close>), merging unites
  them. The runs considered queue updates (what \<open>receive_local_update\<close> does), never refuse a merge
  and never fail to send; the theorems at the end of this theory show that the last two are needed.
\<close>

definition update_message :: "('sv, 'aw) yrs_codec \<Rightarrow> collab_origin \<Rightarrow> string \<Rightarrow> bytes \<Rightarrow> msg_id \<Rightarrow> collab_message" where
  "update_message y origin oid u i =
     ClientUpdateSync (update_sync_new origin oid (encode_message y (SyncMsg (SyncUpdate u))) i)"

fun msg_content :: "('sv, 'aw) yrs_codec \<Rightarrow> (bytes \<Rightarrow> 'c set) \<Rightarrow> collab_message \<Rightarrow> 'c set" where
  "msg_content y content (ClientUpdateSync v) =
     (case as_update y v of Some (SyncMsg (SyncUpdate u)) \<Rightarrow> content u | _ \<Rightarrow> {})"
| "msg_content y content _ = {}"

definition merge_law :: "(bytes \<Rightarrow> bytes \<Rightarrow> string + bytes) \<Rightarrow> (bytes \<Rightarrow> 'c set) \<Rightarrow> bool" where
  "merge_law mu content \<longleftrightarrow> (\<forall>l r u. mu l r = Inr u \<longrightarrow> content u = content l \<union> content r)"

fun sending :: "runner \<Rightarrow> collab_message list" where
  "sending (RunnerSending _ m) = [m]"
| "sending _ = []"

definition handed_over :: "sink \<Rightarrow> collab_message list" where
  "handed_over s = sk_sent s @ sending (sk_runner s)"

definition sent_content :: "('sv, 'aw) yrs_codec \<Rightarrow> (bytes \<Rightarrow> 'c set) \<Rightarrow> sink \<Rightarrow> 'c set" where
  "sent_content y content s = (\<Union>m \<in> set (handed_over s). msg_content y content m)"

definition queue_content :: "('sv, 'aw) yrs_codec \<Rightarrow> (bytes \<Rightarrow> 'c set) \<Rightarrow> heap \<Rightarrow> 'c set" where
  "queue_content y content q = (\<Union>p \<in> set q. msg_content y content (pm_msg p))"

definition sink_content :: "('sv, 'aw) yrs_codec \<Rightarrow> (bytes \<Rightarrow> 'c set) \<Rightarrow> sink \<Rightarrow> 'c set" where
  "sink_content y content s = queue_content y content (sk_queue s) \<union> sent_content y content s"

subsection \<open>Queued updates\<close>

definition upd_pending :: "('sv, 'aw) yrs_codec \<Rightarrow> pending_message \<Rightarrow> bool" where
  "upd_pending y p \<longleftrightarrow>
     (\<exists>v u. pm_msg p = ClientUpdateSync v \<and> us_msg_id v = pm_msg_id p \<and>
            us_payload v = encode_message y (SyncMsg (SyncUpdate u)))"

lemma upd_pending_update [simp]: "upd_pending y (p\<lparr>pm_state := st\<rparr>) = upd_pending y p"
  "upd_pending y (p\<lparr>pm_tx := tx\<rparr>) = upd_pending y p"
  by (simp_all add: upd_pending_def)

lemma upd_pending_set_state [simp]: "upd_pending y (fst (set_state alive st p)) = upd_pending y p"
  by (simp add: upd_pending_def)

lemma upd_pending_new: "upd_pending y (pending_message_new (update_message y og oid u i) i)"
  by (auto simp: upd_pending_def pending_message_new_def update_message_def update_sync_new_def)

lemma upd_pending_id: "upd_pending y p \<Longrightarrow> cm_msg_id (pm_msg p) = Some (pm_msg_id p)"
  by (auto simp: upd_pending_def)

lemma upd_pending_merges: "upd_pending y p \<Longrightarrow> can_merge (pm_msg p)"
  by (auto simp: upd_pending_def)

lemma upd_pending_not_init: "upd_pending y p \<Longrightarrow> \<not> is_init_msg (pm_msg p)"
  by (auto simp: upd_pending_def is_init_msg_def)

lemma cmp_upd_pending:
  "upd_pending y a \<Longrightarrow> upd_pending y b \<Longrightarrow>
    cmp_pending a b = OGreater \<longleftrightarrow> pm_msg_id a < pm_msg_id b"
  by (auto simp: upd_pending_def cmp_pending_def split: if_splits)

lemma heap_push_last:
  assumes "upd_pending y p" "\<forall>q \<in> set h. upd_pending y q \<and> pm_msg_id q < pm_msg_id p"
  shows "heap_push p h = h @ [p]"
  using assms by (induction h) (auto simp: cmp_upd_pending)

lemma heap_push_first:
  assumes "upd_pending y p" "\<forall>q \<in> set h. upd_pending y q \<and> pm_msg_id p < pm_msg_id q"
  shows "heap_push p h = p # h"
  using assms by (cases h) (auto simp: cmp_upd_pending)

subsection \<open>Merging\<close>

text \<open>Whether the merge loop meets the answer \<open>Ok(false)\<close>.\<close>

fun merge_refused ::
    "('sv, 'aw) yrs_codec \<Rightarrow> (bytes \<Rightarrow> bytes \<Rightarrow> string + bytes) \<Rightarrow> nat \<Rightarrow> pending_message \<Rightarrow> heap \<Rightarrow> bool" where
  "merge_refused y mu maximum p [] = False"
| "merge_refused y mu maximum p (o' # q) =
     (case pm_merge y mu maximum p o' of
        (p', Inr True) \<Rightarrow> merge_refused y mu maximum p' q
      | (p', Inr False) \<Rightarrow> True
      | (p', Inl _) \<Rightarrow> False)"

lemma pm_merge_upd:
  assumes y: "yrs_laws y" and law: "merge_law mu content"
    and p: "upd_pending y p" and q: "upd_pending y q"
  shows "pm_merge y mu maximum p q = (p, Inr False) \<or>
     (\<exists>e. pm_merge y mu maximum p q = (p, Inl e)) \<or>
     (\<exists>p'. pm_merge y mu maximum p q = (p', Inr True) \<and> upd_pending y p' \<and>
        pm_msg_id p' = pm_msg_id p \<and>
        msg_content y content (pm_msg p') =
          msg_content y content (pm_msg p) \<union> msg_content y content (pm_msg q))"
proof -
  from p obtain v l where v: "pm_msg p = ClientUpdateSync v" "us_msg_id v = pm_msg_id p"
    "us_payload v = encode_message y (SyncMsg (SyncUpdate l))" by (auto simp: upd_pending_def)
  from q obtain w r where w: "pm_msg q = ClientUpdateSync w"
    "us_payload w = encode_message y (SyncMsg (SyncUpdate r))" by (auto simp: upd_pending_def)
  have av: "as_update y v = Some (SyncMsg (SyncUpdate l))" by (rule as_update_encoded [OF y v(3)]) simp
  have aw: "as_update y w = Some (SyncMsg (SyncUpdate r))" by (rule as_update_encoded [OF y w(2)]) simp
  show ?thesis
  proof (cases "maximum < length (us_payload v)")
    case True
    with v(1) w(1) show ?thesis by (simp add: pm_merge_def)
  next
    case False
    show ?thesis
    proof (cases "mu l r")
      case (Inl e)
      with False v(1) w(1) av aw show ?thesis by (simp add: pm_merge_def merge_payload_def)
    next
      case (Inr u)
      let ?v = "v\<lparr>us_payload := encode_message y (SyncMsg (SyncUpdate u))\<rparr>"
      have au: "as_update y ?v = Some (SyncMsg (SyncUpdate u))"
        by (rule as_update_encoded [OF y]) simp_all
      have "pm_merge y mu maximum p q = (p\<lparr>pm_msg := ClientUpdateSync ?v\<rparr>, Inr True)"
        using False v(1) w(1) av aw Inr
        by (simp add: pm_merge_def merge_payload_def del: encode_message.simps)
      moreover have "upd_pending y (p\<lparr>pm_msg := ClientUpdateSync ?v\<rparr>)"
        using v(2) by (auto simp: upd_pending_def)
      moreover have "content u = content l \<union> content r"
        using law Inr by (auto simp: merge_law_def)
      ultimately show ?thesis
        using v(1) w(1) av aw au by (auto simp del: encode_message.simps)
    qed
  qed
qed

lemma merge_loop_upd:
  assumes y: "yrs_laws y" and law: "merge_law mu content"
  shows "upd_pending y p \<Longrightarrow> \<forall>o' \<in> set q. upd_pending y o' \<Longrightarrow>
    sorted_wrt (\<lambda>a b. pm_msg_id a < pm_msg_id b) q \<Longrightarrow>
    \<not> merge_refused y mu maximum p q \<Longrightarrow> merge_loop y mu maximum p q = (p2, q2, ids) \<Longrightarrow>
    upd_pending y p2 \<and> pm_msg_id p2 = pm_msg_id p \<and> (\<exists>k. q2 = drop k q) \<and>
    msg_content y content (pm_msg p2) \<union> queue_content y content q2 =
      msg_content y content (pm_msg p) \<union> queue_content y content q"
proof (induction q arbitrary: p p2 q2 ids)
  case Nil
  then show ?case by simp
next
  case (Cons o' q)
  from Cons.prems have u: "upd_pending y p" "upd_pending y o'" by auto
  from pm_merge_upd [OF y law u, of maximum] Cons.prems(4)
  consider e where "pm_merge y mu maximum p o' = (p, Inl e)"
    | p' where "pm_merge y mu maximum p o' = (p', Inr True)" "upd_pending y p'"
      "pm_msg_id p' = pm_msg_id p"
      "msg_content y content (pm_msg p') =
        msg_content y content (pm_msg p) \<union> msg_content y content (pm_msg o')"
    by auto
  then show ?case
  proof cases
    case 1
    from Cons.prems have "heap_push o' q = o' # q" by (intro heap_push_first) auto
    with 1 Cons.prems show ?thesis by (auto intro: exI [of _ 0])
  next
    case 2
    obtain p3 q3 ids3 where l: "merge_loop y mu maximum p' q = (p3, q3, ids3)"
      by (cases "merge_loop y mu maximum p' q")
    from Cons.IH [OF 2(2) _ _ _ l] Cons.prems 2(1)
    have "upd_pending y p3 \<and> pm_msg_id p3 = pm_msg_id p' \<and> (\<exists>k. q3 = drop k q) \<and>
      msg_content y content (pm_msg p3) \<union> queue_content y content q3 =
        msg_content y content (pm_msg p') \<union> queue_content y content q" by simp
    moreover have "\<exists>k. q3 = drop k q \<Longrightarrow> \<exists>k. q3 = drop k (o' # q)" by (metis drop_Suc_Cons)
    ultimately show ?thesis using 2 l Cons.prems(5) by (auto simp: queue_content_def)
  qed
qed

subsection \<open>The invariant of the sink\<close>

definition queue_ok :: "('sv, 'aw) yrs_codec \<Rightarrow> sink \<Rightarrow> bool" where
  "queue_ok y s \<longleftrightarrow>
     (\<forall>p \<in> set (sk_queue s). upd_pending y p \<and> pm_msg_id p < sk_counter s) \<and>
     sorted_wrt (\<lambda>a b. pm_msg_id a < pm_msg_id b) (sk_queue s) \<and>
     (\<forall>m \<in> set (handed_over s). \<exists>i < sk_counter s. cm_msg_id m = Some i)"

text \<open>A pending message was never handed over; any other one is contained in what was.\<close>

definition states_ok :: "('sv, 'aw) yrs_codec \<Rightarrow> (bytes \<Rightarrow> 'c set) \<Rightarrow> sink \<Rightarrow> bool" where
  "states_ok y content s \<longleftrightarrow>
     (\<forall>p \<in> set (sk_queue s).
        if pm_state p = Pending then Some (pm_msg_id p) \<notin> cm_msg_id ` set (handed_over s)
        else msg_content y content (pm_msg p) \<subseteq> sent_content y content s)"

definition runner_ok :: "sink \<Rightarrow> bool" where
  "runner_ok s \<longleftrightarrow>
     (case runner_chan (sk_runner s) of
        None \<Rightarrow> \<not> sk_got_ack s \<and> (\<forall>p \<in> set (sk_queue s). pm_state p \<noteq> Processing)
      | Some c \<Rightarrow>
          sk_queue s \<noteq> [] \<and>
          (let p = hd (sk_queue s) in
             if sk_got_ack s then pm_state p = Done else pm_state p = Processing \<and> pm_tx p = Some c) \<and>
          (\<forall>p \<in> set (tl (sk_queue s)). pm_state p \<noteq> Processing))"

definition sink_ok :: "('sv, 'aw) yrs_codec \<Rightarrow> (bytes \<Rightarrow> 'c set) \<Rightarrow> sink \<Rightarrow> bool" where
  "sink_ok y content s \<longleftrightarrow> queue_ok y s \<and> states_ok y content s \<and> runner_ok s"

lemmas sink_ok_defs = sink_ok_def queue_ok_def states_ok_def runner_ok_def

lemma sink_ok_new: "sink_ok y content (sink_new pause now)"
  by (simp add: sink_ok_defs sink_new_def handed_over_def)

lemma sink_ok_cong:
  assumes "sk_queue s' = sk_queue s" "sk_counter s' = sk_counter s" "sk_runner s' = sk_runner s"
    "sk_got_ack s' = sk_got_ack s" "sk_sent s' = sk_sent s"
  shows "sink_ok y content s' = sink_ok y content s" "sink_content y content s' = sink_content y content s"
    "handed_over s' = handed_over s"
  unfolding sink_ok_defs handed_over_def sent_content_def sink_content_def assms by (rule refl)+

lemma sink_frame [simp]:
  fixes b :: bool and n :: nat
  shows "sink_ok y content (s\<lparr>sk_notified := b\<rparr>) = sink_ok y content s"
    "sink_ok y content (s\<lparr>sk_retries := n\<rparr>) = sink_ok y content s"
    "sink_ok y content (s\<lparr>sk_instant := n\<rparr>) = sink_ok y content s"
    "sink_ok y content (s\<lparr>sk_next_chan := n\<rparr>) = sink_ok y content s"
    "sink_ok y content (s\<lparr>sk_pause := b\<rparr>) = sink_ok y content s"
    "sink_ok y content (s\<lparr>sk_state := st\<rparr>) = sink_ok y content s"
    "sink_content y content (s\<lparr>sk_notified := b\<rparr>) = sink_content y content s"
    "sink_content y content (s\<lparr>sk_retries := n\<rparr>) = sink_content y content s"
    "sink_content y content (s\<lparr>sk_instant := n\<rparr>) = sink_content y content s"
    "sink_content y content (s\<lparr>sk_next_chan := n\<rparr>) = sink_content y content s"
    "sink_content y content (s\<lparr>sk_pause := b\<rparr>) = sink_content y content s"
    "sink_content y content (s\<lparr>sk_state := st\<rparr>) = sink_content y content s"
  by (rule sink_ok_cong; simp)+

lemma sink_frame_ops [simp]:
  "sink_ok y content (notify s) = sink_ok y content s"
  "sink_ok y content (retry_later s) = sink_ok y content s"
  "sink_ok y content (retry_fires s) = sink_ok y content s"
  "sink_content y content (notify s) = sink_content y content s"
  "sink_content y content (retry_later s) = sink_content y content s"
  "sink_content y content (retry_fires s) = sink_content y content s"
  by (simp_all add: notify_def retry_later_def retry_fires_def split: nat.splits)

lemma word_less_self_succ: "c \<noteq> - 1 \<Longrightarrow> (c :: u64) < c + 1"
proof -
  assume "c \<noteq> - 1"
  then have "unat c \<noteq> unat (- 1 :: u64)" by (metis word_unat_eq_iff)
  moreover have "unat (- 1 :: u64) = 2 ^ 64 - 1"
    by (simp add: unsigned_minus_1_eq_mask mask_eq_exp_minus_1)
  moreover have "unat c < 2 ^ 64" using unsigned_less [where w = c and ?'a = nat] by simp
  ultimately have "unat c + 1 < 2 ^ 64" by linarith
  then have "unat (c + 1) = unat c + 1" by (simp add: unat_word_ariths)
  then show ?thesis by (simp add: word_less_nat_alt)
qed

lemma word_less_succ: "i < c \<Longrightarrow> c \<noteq> - 1 \<Longrightarrow> (i :: u64) < c + 1"
  by (metis word_less_self_succ less_trans)

lemma queue_msg_update:
  assumes ok: "sink_ok y content s" and c: "sk_counter s \<noteq> - 1"
  shows "sk_queue (queue_msg (update_message y og oid u) s) =
    sk_queue s @ [pending_message_new (update_message y og oid u (sk_counter s)) (sk_counter s)]"
proof -
  let ?p = "pending_message_new (update_message y og oid u (sk_counter s)) (sk_counter s)"
  have "pm_msg_id ?p = sk_counter s" by (simp add: pending_message_new_def)
  with ok have "heap_push ?p (sk_queue s) = sk_queue s @ [?p]"
    by (intro heap_push_last [of y]) (auto simp: upd_pending_new sink_ok_defs)
  then show ?thesis by (simp add: queue_msg_def counter_next_def push_msg_def notify_def)
qed

subsection \<open>The operations keep the invariant\<close>

lemma content_update_message [simp]:
  assumes "yrs_laws y"
  shows "msg_content y content (update_message y og oid u i) = content u"
proof -
  have "as_update y (update_sync_new og oid (encode_message y (SyncMsg (SyncUpdate u))) i) =
      Some (SyncMsg (SyncUpdate u))"
    by (rule as_update_encoded [OF assms]) (simp_all add: update_sync_new_def)
  then show ?thesis by (simp add: update_message_def)
qed

lemma queue_msg_fields [simp]:
  "sk_counter (queue_msg f s) = sk_counter s + 1" "sk_runner (queue_msg f s) = sk_runner s"
  "sk_got_ack (queue_msg f s) = sk_got_ack s" "sk_sent (queue_msg f s) = sk_sent s"
  "handed_over (queue_msg f s) = handed_over s"
  by (simp_all add: queue_msg_def counter_next_def notify_def handed_over_def)

lemma sink_ok_queue_msg [preserves]:
  assumes y: "yrs_laws y" and ok: "sink_ok y content s" and c: "sk_counter s \<noteq> - 1"
  shows "sink_ok y content (queue_msg (update_message y og oid u) s)"
    and "sink_content y content (queue_msg (update_message y og oid u) s) =
      sink_content y content s \<union> content u"
proof -
  let ?f = "update_message y og oid u"
  let ?c = "sk_counter s"
  let ?p = "pending_message_new (?f ?c) ?c"
  let ?s = "queue_msg ?f s"
  have q: "sk_queue ?s = sk_queue s @ [?p]" by (rule queue_msg_update [OF ok c])
  have p: "pm_msg_id ?p = ?c" "pm_state ?p = Pending" "pm_tx ?p = None" "pm_msg ?p = ?f ?c"
    by (simp_all add: pending_message_new_def)
  have sent: "sent_content y content ?s = sent_content y content s" by (simp add: sent_content_def)
  from ok have o: "queue_ok y s" "states_ok y content s" "runner_ok s" by (auto simp: sink_ok_def)
  have "queue_ok y ?s"
    using o(1) c word_less_self_succ [OF c] word_less_succ [OF _ c]
    by (auto simp: queue_ok_def q p upd_pending_new sorted_wrt_append)
  moreover have "states_ok y content ?s"
    using o(1,2) by (auto simp: states_ok_def queue_ok_def q p sent)
  moreover have "runner_ok ?s"
    using o(3) by (auto simp: runner_ok_def q p Let_def split: option.splits)
  ultimately show "sink_ok y content ?s" by (simp add: sink_ok_def)
  show "sink_content y content ?s = sink_content y content s \<union> content u"
    using y by (auto simp: sink_content_def sent queue_content_def q p)
qed

text \<open>Replacing the state of the message on top, and removing a message that was handed over.\<close>

lemma queue_content_set_state [simp]:
  "queue_content y content (fst (set_state alive st p) # q) = queue_content y content (p # q)"
  by (simp add: queue_content_def)

lemma ack_msg_cases:
  obtains "ack_msg i s = (s, False)"
  | p q where "sk_queue s = p # q" "pm_msg_id p = i"
      "sk_queue (fst (ack_msg i s)) = fst (set_state (rx_alive s) Done p) # q"
      "sk_got_ack (fst (ack_msg i s)) \<longleftrightarrow>
        sk_got_ack s \<or> (\<exists>c. pm_tx p = Some c \<and> rx_alive s c)"
      "snd (ack_msg i s) \<longleftrightarrow> (\<exists>c. pm_tx p = Some c \<and> rx_alive s c)"
      "sk_runner (fst (ack_msg i s)) = sk_runner s" "sk_sent (fst (ack_msg i s)) = sk_sent s"
      "sk_counter (fst (ack_msg i s)) = sk_counter s"
proof (cases "sk_queue s")
  case Nil
  then show thesis by (intro that(1)) (simp add: ack_msg_def)
next
  case (Cons p q)
  show thesis
  proof (cases "pm_msg_id p = i")
    case True
    show thesis
      by (rule that(2) [OF Cons True])
        (auto simp: ack_msg_def Cons True set_state_def notify_def split: option.splits)
  next
    case False
    with Cons show thesis by (intro that(1)) (simp add: ack_msg_def)
  qed
qed

lemma sink_ok_ack [preserves]:
  assumes ok: "sink_ok y content s"
    and sent: "Some i \<in> cm_msg_id ` set (sk_sent s)"
  shows "sink_ok y content (fst (ack_msg i s))"
    and "sink_content y content (fst (ack_msg i s)) = sink_content y content s"
proof -
  have "sink_ok y content (fst (ack_msg i s)) \<and>
    sink_content y content (fst (ack_msg i s)) = sink_content y content s"
  proof (cases rule: ack_msg_cases [of i s])
    case 1
    with ok show ?thesis by simp
  next
    case (2 p q)
    let ?s = "fst (ack_msg i s)"
    have h: "handed_over ?s = handed_over s" and sc: "sent_content y content ?s = sent_content y content s"
      using 2 by (simp_all add: handed_over_def sent_content_def)
    from sent have "Some i \<in> cm_msg_id ` set (handed_over s)" by (auto simp: handed_over_def)
    with ok 2 have np: "pm_state p \<noteq> Pending" by (auto simp: sink_ok_defs)
    have "queue_ok y ?s" using ok 2 by (auto simp: sink_ok_defs h)
    moreover have "states_ok y content ?s" using ok 2 np by (auto simp: sink_ok_defs h sc)
    moreover have "runner_ok ?s"
      using ok 2 by (auto simp: sink_ok_defs rx_alive_def Let_def split: option.splits)
    ultimately show ?thesis
      using 2 by (simp add: sink_ok_def sink_content_def sc)
  qed
  then show "sink_ok y content (fst (ack_msg i s))"
    "sink_content y content (fst (ack_msg i s)) = sink_content y content s" by auto
qed

lemma sink_ok_pop_top:
  assumes ok: "sink_ok y content s" and idle: "sk_runner s = RunnerIdle"
    and q: "sk_queue s = p # q" and st: "pm_state p \<noteq> Pending"
  shows "sink_ok y content (s\<lparr>sk_queue := q\<rparr>)"
    and "sink_content y content (s\<lparr>sk_queue := q\<rparr>) = sink_content y content s"
proof -
  have h: "handed_over (s\<lparr>sk_queue := q\<rparr>) = handed_over s"
    and sc: "sent_content y content (s\<lparr>sk_queue := q\<rparr>) = sent_content y content s"
    by (simp_all add: handed_over_def sent_content_def)
  from ok q idle show "sink_ok y content (s\<lparr>sk_queue := q\<rparr>)"
    by (auto simp: sink_ok_defs h sc)
  from ok q st have "msg_content y content (pm_msg p) \<subseteq> sent_content y content s"
    by (auto simp: sink_ok_defs)
  with q show "sink_content y content (s\<lparr>sk_queue := q\<rparr>) = sink_content y content s"
    by (auto simp: sink_content_def sc queue_content_def)
qed

definition no_refusal ::
    "('sv, 'aw) yrs_codec \<Rightarrow> (bytes \<Rightarrow> bytes \<Rightarrow> string + bytes) \<Rightarrow> sink_config \<Rightarrow> sink \<Rightarrow> bool" where
  "no_refusal y mu cfg s \<longleftrightarrow>
     (case sk_queue s of
        [] \<Rightarrow> True
      | p # q \<Rightarrow> \<not> merge_refused y mu (sc_maximum_payload_size cfg) p q)"

lemma no_refusal_cong: "sk_queue s' = sk_queue s \<Longrightarrow> no_refusal y mu cfg s' = no_refusal y mu cfg s"
  by (simp add: no_refusal_def)

lemma prepare_send_fresh:
  assumes "yrs_laws y" and "merge_law mu content" and ok: "sink_ok y content s"
    and idle: "sk_runner s = RunnerIdle" and nr: "no_refusal y mu cfg s"
    and q: "sk_queue s = p # q" and st: "pm_state p \<noteq> Done" "pm_state p \<noteq> Processing"
  obtains p2 q2 k where "upd_pending y p2" "pm_msg_id p2 = pm_msg_id p" "q2 = drop k q"
    "msg_content y content (pm_msg p2) \<union> queue_content y content q2 =
       msg_content y content (pm_msg p) \<union> queue_content y content q"
    "pm_state p2 = Processing" "pm_tx p2 = Some (sk_next_chan s)"
    "prepare_send y mu cfg True s =
       s\<lparr>sk_next_chan := Suc (sk_next_chan s), sk_queue := p2 # q2, sk_state := Syncing,
         sk_runner := RunnerSending (sk_next_chan s) (pm_msg p2), sk_got_ack := False\<rparr>"
proof -
  have u: "upd_pending y p" "\<forall>o' \<in> set q. upd_pending y o'"
    "\<forall>o' \<in> set q. pm_msg_id p < pm_msg_id o'" "sorted_wrt (\<lambda>a b. pm_msg_id a < pm_msg_id b) q"
    using ok q by (auto simp: sink_ok_defs)
  obtain p1 q1 ids where l: "merge_loop y mu (sc_maximum_payload_size cfg) p q = (p1, q1, ids)"
    by (cases "merge_loop y mu (sc_maximum_payload_size cfg) p q")
  from nr q have "\<not> merge_refused y mu (sc_maximum_payload_size cfg) p q"
    by (simp add: no_refusal_def)
  from merge_loop_upd [OF assms(1,2) u(1,2,4) this l] obtain k where
    k: "upd_pending y p1" "pm_msg_id p1 = pm_msg_id p" "q1 = drop k q"
      "msg_content y content (pm_msg p1) \<union> queue_content y content q1 =
        msg_content y content (pm_msg p) \<union> queue_content y content q" by auto
  let ?s = "s\<lparr>sk_next_chan := Suc (sk_next_chan s)\<rparr>"
  let ?p2 = "fst (set_state (rx_alive ?s) Processing (set_ret (sk_next_chan s) p1))"
  have p2: "upd_pending y ?p2" "pm_msg_id ?p2 = pm_msg_id p" "pm_msg ?p2 = pm_msg p1"
    "pm_state ?p2 = Processing" "pm_tx ?p2 = Some (sk_next_chan s)"
    using k by (simp_all add: set_ret_def set_state_tx)
  have "heap_push ?p2 q1 = ?p2 # q1"
    using p2 u k(3) by (intro heap_push_first [of y]) (auto dest: in_set_dropD)
  with q st l u(1) have "prepare_send y mu cfg True s =
       s\<lparr>sk_next_chan := Suc (sk_next_chan s), sk_queue := ?p2 # q1, sk_state := Syncing,
         sk_runner := RunnerSending (sk_next_chan s) (pm_msg ?p2), sk_got_ack := False\<rparr>"
    by (cases "pm_state p") (simp_all add: prepare_send_def Let_def upd_pending_merges)
  with p2 k(3,4) show thesis by (intro that [of ?p2 q1 k]) simp_all
qed

lemma sink_ok_prepare [preserves]:
  assumes "yrs_laws y" and "merge_law mu content" and ok: "sink_ok y content s"
    and idle: "sk_runner s = RunnerIdle" and nr: "no_refusal y mu cfg s"
  shows "sink_ok y content (prepare_send y mu cfg l s) \<and>
    sink_content y content (prepare_send y mu cfg l s) = sink_content y content s"
proof (cases "l \<and> sk_queue s \<noteq> []")
  case False
  with ok show ?thesis by (cases "sk_queue s") (auto simp: prepare_send_def Let_def)
next
  case True
  then obtain p q where q: "sk_queue s = p # q" by (cases "sk_queue s") auto
  show ?thesis
  proof (cases "pm_state p = Done")
    case True
    with sink_ok_pop_top [of y content "s\<lparr>sk_next_chan := Suc (sk_next_chan s)\<rparr>" p q]
      ok idle q \<open>l \<and> _\<close> show ?thesis
      by (simp add: prepare_send_def Let_def)
  next
    case False
    moreover have np: "\<forall>p' \<in> set (p # q). pm_state p' \<noteq> Processing"
      using ok idle q by (auto simp: sink_ok_defs)
    ultimately obtain p2 q2 k where p2: "upd_pending y p2" "pm_msg_id p2 = pm_msg_id p" "q2 = drop k q"
      "msg_content y content (pm_msg p2) \<union> queue_content y content q2 =
         msg_content y content (pm_msg p) \<union> queue_content y content q"
      "pm_state p2 = Processing" "pm_tx p2 = Some (sk_next_chan s)"
      and e: "prepare_send y mu cfg True s =
         s\<lparr>sk_next_chan := Suc (sk_next_chan s), sk_queue := p2 # q2, sk_state := Syncing,
           sk_runner := RunnerSending (sk_next_chan s) (pm_msg p2), sk_got_ack := False\<rparr>"
      using prepare_send_fresh [OF assms q] by auto
    let ?s = "prepare_send y mu cfg True s"
    have h: "handed_over ?s = handed_over s @ [pm_msg p2]"
      and sc: "sent_content y content ?s = sent_content y content s \<union> msg_content y content (pm_msg p2)"
      using idle by (auto simp: handed_over_def sent_content_def e)
    have sub: "set q2 \<subseteq> set q" using p2(3) by (auto dest: in_set_dropD)
    have "sorted_wrt (\<lambda>a b. pm_msg_id a < pm_msg_id b) q"
      using ok q by (simp add: sink_ok_defs)
    then have sq: "sorted_wrt (\<lambda>a b. pm_msg_id a < pm_msg_id b) q2"
      unfolding p2(3) by (rule sorted_wrt_drop)
    have all: "\<forall>p' \<in> set q2. upd_pending y p' \<and> pm_msg_id p' < sk_counter s \<and> pm_msg_id p < pm_msg_id p'"
      using ok q sub by (auto simp: sink_ok_defs)
    have "\<forall>m \<in> set (handed_over s). \<exists>i < sk_counter s. cm_msg_id m = Some i" "pm_msg_id p < sk_counter s"
      using ok q by (simp_all add: sink_ok_defs)
    with p2(1,2) sq all upd_pending_id [OF p2(1)] have qo: "queue_ok y ?s"
      unfolding queue_ok_def h unfolding e by simp
    have "states_ok y content ?s" unfolding states_ok_def h sc
    proof
      fix p' assume "p' \<in> set (sk_queue ?s)"
      then consider "p' = p2" | "p' \<in> set q2" by (auto simp: e)
      then show "if pm_state p' = Pending then Some (pm_msg_id p') \<notin> cm_msg_id ` set (handed_over s @ [pm_msg p2])
          else msg_content y content (pm_msg p') \<subseteq> sent_content y content s \<union> msg_content y content (pm_msg p2)"
      proof cases
        case 2
        with sub q have "p' \<in> set (sk_queue s)" by auto
        with ok have "if pm_state p' = Pending then Some (pm_msg_id p') \<notin> cm_msg_id ` set (handed_over s)
            else msg_content y content (pm_msg p') \<subseteq> sent_content y content s"
          unfolding sink_ok_def states_ok_def by blast
        moreover from 2 all have "pm_msg_id p' \<noteq> pm_msg_id p" by auto
        ultimately show ?thesis
          using upd_pending_id [OF p2(1)] p2(2) by (auto split: if_splits)
      qed (simp add: p2(5))
    qed
    moreover have "runner_ok ?s"
      using np sub p2(5,6) by (auto simp: runner_ok_def e)
    ultimately have "sink_ok y content ?s" using qo by (simp add: sink_ok_def)
    moreover have "sink_content y content ?s = sink_content y content s"
      using p2(4) q by (auto simp: sink_content_def sc [unfolded e] e queue_content_def)
    ultimately show ?thesis using \<open>l \<and> _\<close> by simp
  qed
qed

lemma sink_ok_send_result [preserves]:
  assumes ok: "sink_ok y content s"
  shows "sink_ok y content (send_result cfg SendOk s) \<and>
    sink_content y content (send_result cfg SendOk s) = sink_content y content s"
proof (cases "sk_runner s")
  case (RunnerSending c m)
  let ?s = "send_result cfg SendOk s"
  have h: "handed_over ?s = handed_over s" by (simp add: handed_over_def RunnerSending)
  then have sc: "sent_content y content ?s = sent_content y content s" by (simp add: sent_content_def)
  have f: "sk_queue ?s = sk_queue s" "sk_counter ?s = sk_counter s" "sk_got_ack ?s = sk_got_ack s"
    "runner_chan (sk_runner ?s) = runner_chan (sk_runner s)"
    by (simp_all add: RunnerSending)
  from ok have "sink_ok y content ?s" unfolding sink_ok_defs h sc f .
  then show ?thesis by (simp only: sink_content_def sc f simp_thms)
qed (use ok in simp_all)

lemma wait_result_keeps [preserves]:
  assumes ok: "sink_ok y content s"
  shows "sink_ok y content (wait_result l s) \<and>
    sink_content y content (wait_result l s) = sink_content y content s"
proof (cases "\<exists>c t. sk_runner s = RunnerWaiting c t")
  case False
  then show ?thesis using ok by (cases "sk_runner s") (simp_all add: wait_result_def)
next
  case True
  then obtain c t where r: "sk_runner s = RunnerWaiting c t" by auto
  with ok obtain p q where q: "sk_queue s = p # q"
    by (cases "sk_queue s") (auto simp: sink_ok_defs)
  show ?thesis
  proof (cases "sk_got_ack s")
    case False
    with ok r q have "\<not> rx_closed c s" by (auto simp: sink_ok_defs rx_closed_def)
    with False ok r show ?thesis by (simp add: wait_result_def)
  next
    case True
    let ?i = "s\<lparr>sk_runner := RunnerIdle, sk_got_ack := False\<rparr>"
    from ok r q True have d: "pm_state p = Done" and np: "\<forall>p' \<in> set q. pm_state p' \<noteq> Processing"
      by (auto simp: sink_ok_defs)
    have h: "handed_over ?i = handed_over s" by (simp add: handed_over_def r)
    then have sc: "sent_content y content ?i = sent_content y content s" by (simp add: sent_content_def)
    have i: "sink_ok y content ?i"
      using ok d np q by (simp add: sink_ok_defs h sc)
    have ic: "sink_content y content ?i = sink_content y content s"
      by (simp add: sink_content_def sc)
    have "sink_ok y content (?i\<lparr>sk_queue := q\<rparr>)"
      "sink_content y content (?i\<lparr>sk_queue := q\<rparr>) = sink_content y content ?i"
      using sink_ok_pop_top [OF i, of p q] q d by auto
    then show ?thesis
      using True r q i ic by (cases q) (simp_all add: wait_result_def Let_def)
  qed
qed

lemma wait_timeout_keeps [preserves]:
  assumes ok: "sink_ok y content s"
  shows "sink_ok y content (wait_timeout s) \<and>
    sink_content y content (wait_timeout s) = sink_content y content s"
proof (cases "\<exists>c t. sk_runner s = RunnerWaiting c t \<and> \<not> sk_got_ack s \<and> \<not> rx_closed c s")
  case False
  then show ?thesis using ok by (cases "sk_runner s") (auto simp: wait_timeout_def)
next
  case True
  then obtain c t where r: "sk_runner s = RunnerWaiting c t" "\<not> sk_got_ack s" "\<not> rx_closed c s" by auto
  with ok obtain p q where q: "sk_queue s = p # q"
    by (cases "sk_queue s") (auto simp: sink_ok_defs)
  let ?s = "s\<lparr>sk_runner := RunnerIdle, sk_queue := fst (set_state (rx_alive s) Timeout p) # q\<rparr>"
  have h: "handed_over ?s = handed_over s" by (simp add: handed_over_def r)
  then have sc: "sent_content y content ?s = sent_content y content s" by (simp add: sent_content_def)
  have "sink_ok y content ?s" using ok q r by (auto simp: sink_ok_defs h sc)
  moreover have "sink_content y content ?s = sink_content y content s"
    using q by (simp add: sink_content_def sc)
  moreover have "wait_timeout s = notify ?s" using r q by (simp add: wait_timeout_def)
  ultimately show ?thesis by simp
qed

lemma process_next_cases:
  "process_next_msg y mu cfg l1 l2 l3 now s \<in>
     {s, prepare_send y mu cfg l3 s, prepare_send y mu cfg l3 (s\<lparr>sk_instant := now\<rparr>)}"
  by (auto simp: process_next_msg_def Let_def split: sink_strategy.splits)

lemma runner_step_keeps [preserves]:
  assumes "yrs_laws y" and "merge_law mu content" and ok: "sink_ok y content s"
    and nr: "no_refusal y mu cfg s"
  shows "sink_ok y content (runner_step y mu cfg l1 l2 l3 now s) \<and>
    sink_content y content (runner_step y mu cfg l1 l2 l3 now s) = sink_content y content s"
proof (cases "sk_runner s = RunnerIdle \<and> sk_notified s")
  case True
  let ?s = "s\<lparr>sk_notified := False\<rparr>"
  have "sink_ok y content ?s" "sink_ok y content (?s\<lparr>sk_instant := now\<rparr>)" using ok by simp_all
  with True nr process_next_cases [of y mu cfg l1 l2 l3 now ?s]
    sink_ok_prepare [OF assms(1,2), of ?s cfg l3]
    sink_ok_prepare [OF assms(1,2), of "?s\<lparr>sk_instant := now\<rparr>" cfg l3]
  show ?thesis by (auto simp: runner_step_def no_refusal_def)
qed (use ok in \<open>auto simp: runner_step_def\<close>)

subsection \<open>Runs\<close>

text \<open>The changes an event brings in, and the events of the runs that are considered.\<close>

fun event_content :: "('sv, 'aw) yrs_codec \<Rightarrow> (bytes \<Rightarrow> 'c set) \<Rightarrow> sink_event \<Rightarrow> 'c set" where
  "event_content y content (QueueMsg f) = msg_content y content (f 0)"
| "event_content y content _ = {}"

fun delivery_event ::
    "('sv, 'aw) yrs_codec \<Rightarrow> (bytes \<Rightarrow> bytes \<Rightarrow> string + bytes) \<Rightarrow> sink_config \<Rightarrow> sink \<Rightarrow>
     sink_event \<Rightarrow> bool" where
  "delivery_event y mu cfg s (QueueMsg f) =
     ((\<exists>og oid u. f = update_message y og oid u) \<and> sk_counter s \<noteq> - 1)"
| "delivery_event y mu cfg s (QueueInit f) = False"
| "delivery_event y mu cfg s Clear = False"
| "delivery_event y mu cfg s (Ack i) = (Some i \<in> cm_msg_id ` set (sk_sent s))"
| "delivery_event y mu cfg s (RunnerStep l1 l2 l3 now) = no_refusal y mu cfg s"
| "delivery_event y mu cfg s (SendResult r) = (r = SendOk)"
| "delivery_event y mu cfg s _ = True"

lemma sink_step_keeps:
  assumes y: "yrs_laws y" and mu: "merge_law mu content" and ok: "sink_ok y content s"
    and e: "delivery_event y mu cfg s e"
  shows "sink_ok y content (sink_step y mu cfg s e) \<and>
    sink_content y content (sink_step y mu cfg s e) =
      sink_content y content s \<union> event_content y content e"
proof (cases e)
  case (QueueMsg f)
  with e obtain og oid u where f: "f = update_message y og oid u" and c: "sk_counter s \<noteq> - 1" by auto
  with QueueMsg sink_ok_queue_msg [OF y ok c, of og oid u] y show ?thesis by simp
qed (use e ok sink_ok_ack [OF ok] sink_ok_send_result [OF ok] wait_result_keeps [OF ok]
    wait_timeout_keeps [OF ok] runner_step_keeps [OF y mu ok] in
    \<open>auto simp: sink_pause_def sink_resume_def\<close>)

text \<open>The state of a run together with the changes that came in.\<close>

definition delivery_step ::
    "('sv, 'aw) yrs_codec \<Rightarrow> (bytes \<Rightarrow> bytes \<Rightarrow> string + bytes) \<Rightarrow> (bytes \<Rightarrow> 'c set) \<Rightarrow> sink_config \<Rightarrow>
     sink \<times> 'c set \<Rightarrow> sink_event \<Rightarrow> sink \<times> 'c set" where
  "delivery_step y mu content cfg st e =
     (sink_step y mu cfg (fst st) e, snd st \<union> event_content y content e)"

interpretation delivery: step_invariant
  "delivery_step y mu content cfg"
  "\<lambda>st e. yrs_laws y \<and> merge_law mu content \<and> delivery_event y mu cfg (fst st) e"
  "\<lambda>st. sink_ok y content (fst st) \<and> snd st \<subseteq> sink_content y content (fst st)"
  for y :: "('sv, 'aw) yrs_codec" and mu and content :: "bytes \<Rightarrow> 'c set" and cfg
  using sink_step_keeps [of y mu content]
  by unfold_locales (force simp: delivery_step_def)

lemma run_delivery_step:
  "run (delivery_step y mu content cfg) (s, C) es =
     (run (sink_step y mu cfg) s es, C \<union> (\<Union>e \<in> set es. event_content y content e))"
  by (induction es arbitrary: s C) (auto simp: delivery_step_def)

lemma admissible_delivery_step:
  assumes "yrs_laws y" and "merge_law mu content"
  shows "admissible (delivery_event y mu cfg) (sink_step y mu cfg) s es \<Longrightarrow>
    admissible (\<lambda>st e. yrs_laws y \<and> merge_law mu content \<and> delivery_event y mu cfg (fst st) e)
      (delivery_step y mu content cfg) (s, C) es"
  using assms by (induction es arbitrary: s C) (auto simp: delivery_step_def)

lemma sink_run_keeps:
  assumes y: "yrs_laws y" and mu: "merge_law mu content" and ok: "sink_ok y content s"
    and a: "admissible (delivery_event y mu cfg) (sink_step y mu cfg) s es"
  shows "sink_ok y content (run (sink_step y mu cfg) s es) \<and>
    (\<Union>e \<in> set es. event_content y content e) \<subseteq>
      sink_content y content (run (sink_step y mu cfg) s es)"
  using delivery.run_inv [of y content "(s, {})" mu cfg es]
    admissible_delivery_step [OF y mu a, of "{}"] ok
  by (simp add: run_delivery_step)

text \<open>One round of the runner: step, hand over, acknowledgement of the message, wait.\<close>

definition acked_round :: "msg_id \<Rightarrow> nat \<Rightarrow> sink_event list" where
  "acked_round i now = [RunnerStep True True True now, SendResult SendOk, Ack i, WaitResult True]"

lemma run_acked_round:
  assumes "yrs_laws y" and "merge_law mu content" and ok: "sink_ok y content s"
    and idle: "sk_runner s = RunnerIdle" "sk_notified s" "\<not> sk_pause s"
    and cfg: "sc_strategy cfg = ASAP" and nr: "no_refusal y mu cfg s"
    and q: "sk_queue s = p # q" and st: "pm_state p \<noteq> Done"
  obtains k s' where "run (sink_step y mu cfg) s (acked_round (pm_msg_id p) now) = s'"
    "sk_queue s' = drop k q" "sk_runner s' = RunnerIdle" "sk_notified s'"
    "drop k q = [] \<longrightarrow> sk_state s' = Finished"
proof -
  let ?s = "s\<lparr>sk_notified := False\<rparr>"
  have st2: "pm_state p \<noteq> Processing" using ok idle q by (auto simp: sink_ok_defs)
  have "upd_pending y p" using ok q by (simp add: sink_ok_defs)
  then have "\<not> is_init_msg (pm_msg p)" by (rule upd_pending_not_init)
  then have pn: "process_next_msg y mu cfg True True True now ?s = prepare_send y mu cfg True ?s"
    using cfg idle q st by (cases "pm_state p") (auto simp: process_next_msg_def)
  have ok': "sink_ok y content ?s" and idle': "sk_runner ?s = RunnerIdle"
    and nr': "no_refusal y mu cfg ?s" and q': "sk_queue ?s = p # q"
    using ok idle nr q by (simp_all add: no_refusal_def)
  obtain p2 q2 k where p2: "pm_msg_id p2 = pm_msg_id p" "q2 = drop k q"
    "pm_state p2 = Processing" "pm_tx p2 = Some (sk_next_chan ?s)"
    and e: "prepare_send y mu cfg True ?s =
       ?s\<lparr>sk_next_chan := Suc (sk_next_chan ?s), sk_queue := p2 # q2, sk_state := Syncing,
         sk_runner := RunnerSending (sk_next_chan ?s) (pm_msg p2), sk_got_ack := False\<rparr>"
    by (rule prepare_send_fresh [OF assms(1,2) ok' idle' nr' q' st st2])
  show thesis
    by (rule that [OF refl, of k])
      (use idle p2 in \<open>auto simp: acked_round_def runner_step_def pn e ack_msg_def set_state_def
        rx_alive_def notify_def wait_result_def Let_def\<close>)
qed

subsection \<open>An instance\<close>

text \<open>Updates that are lists of changes, merged by appending them.\<close>

abbreviation append_updates :: "bytes \<Rightarrow> bytes \<Rightarrow> string + bytes" where
  "append_updates \<equiv> \<lambda>l r. Inr (l @ r)"

abbreviation sample_update :: "bytes \<Rightarrow> msg_id \<Rightarrow> collab_message" where
  "sample_update \<equiv> update_message sample_yrs OriginServer ''doc''"

lemma is_update_message [simp]: "\<exists>og' oid' u'. update_message y og oid u = update_message y og' oid' u'"
  by blast

lemma append_updates_law: "merge_law append_updates set"
  by (simp add: merge_law_def)

definition sample_sink :: sink where
  "sample_sink = queue_msg (sample_update [1]) (sink_new False 0)"

lemma sample_sink_simps [simp]:
  "sk_queue sample_sink = [pending_message_new (sample_update [1] 0) 0]"
  "sk_runner sample_sink = RunnerIdle" "sk_notified sample_sink" "\<not> sk_pause sample_sink"
  "sk_counter sample_sink = 1" "sk_next_chan sample_sink = 0" "sk_sent sample_sink = []"
  "sk_retries sample_sink = 0"
  by (simp_all add: sample_sink_def sink_new_def queue_msg_def counter_next_def push_msg_def notify_def)

lemma sample_sink_ok: "sink_ok sample_yrs set sample_sink"
  unfolding sample_sink_def
  by (rule sink_ok_queue_msg [OF sample_yrs_laws sink_ok_new]) (simp add: sink_new_def)

definition waiting_sink :: sink where
  "waiting_sink = run (sink_step sample_yrs append_updates default_sink_config) sample_sink
     [RunnerStep True True True 0, SendResult SendOk]"

lemma waiting_sink_simps [simp]:
  "sk_queue waiting_sink =
     [(pending_message_new (sample_update [1] 0) 0)\<lparr>pm_state := Processing, pm_tx := Some 0\<rparr>]"
  "sk_runner waiting_sink = RunnerWaiting 0 4000"
  by (simp_all add: waiting_sink_def runner_step_def process_next_msg_def prepare_send_def Let_def
      pending_message_new_def set_ret_def set_state_def default_sink_config_def is_init_msg_def
      update_message_def update_sync_new_def calculate_timeout_def cm_len_def sample_yrs_def
      mark_def DEFAULT_SYNC_TIMEOUT_def)

subsection \<open>Properties\<close>



text \<open>C31: One round of the runner in which the message on top is sent and acknowledged takes at least
  that message out of the queue, leaves the runner ready for the next one, and reports
  \<open>Finished\<close> when nothing is left.\<close>

theorem acked_round_progress:
  assumes "yrs_laws y" and "merge_law mu content" and "sink_ok y content s"
    and "sk_runner s = RunnerIdle" "sk_notified s" "\<not> sk_pause s"
    and "sc_strategy cfg = ASAP" and "no_refusal y mu cfg s"
    and "sk_queue s = p # q" and "pm_state p \<noteq> Done"
    and "s' = run (sink_step y mu cfg) s (acked_round (pm_msg_id p) now)"
  shows "length (sk_queue s') < length (sk_queue s) \<and> sk_runner s' = RunnerIdle \<and> sk_notified s' \<and>
    (sk_queue s' = [] \<longrightarrow> sk_state s' = Finished)"
proof -
  obtain k where "sk_queue s' = drop k q" "sk_runner s' = RunnerIdle" "sk_notified s'"
    "drop k q = [] \<longrightarrow> sk_state s' = Finished"
    using run_acked_round [OF assms(1-10), of now] assms(11) by metis
  with assms(9) show ?thesis by simp
qed

theorem acked_round_progress_witness:
  "length (sk_queue (run (sink_step sample_yrs append_updates default_sink_config) sample_sink (acked_round 0 5))) < 1"
  using acked_round_progress [OF sample_yrs_laws append_updates_law sample_sink_ok, of default_sink_config
      "pending_message_new (sample_update [1] 0) 0" "[]" _ 5]
  by (simp add: default_sink_config_def no_refusal_def pending_message_new_def)

text \<open>An acknowledgement is accepted only for the message on top of the queue and only while the
  runner waits for it, it marks that message done, and a second one for the same message is not
  accepted.\<close>

theorem ack_accepted_once:
  assumes "snd (ack_msg i s)"
  shows "(\<exists>p q c. sk_queue s = p # q \<and> pm_msg_id p = i \<and> pm_tx p = Some c \<and>
      runner_chan (sk_runner s) = Some c) \<and>
    pm_state (hd (sk_queue (fst (ack_msg i s)))) = Done \<and> sk_got_ack (fst (ack_msg i s)) \<and>
    \<not> snd (ack_msg i (fst (ack_msg i s)))"
proof (cases rule: ack_msg_cases [of i s])
  case 1
  with assms show ?thesis by simp
next
  case (2 p q)
  then have "\<not> snd (ack_msg i (fst (ack_msg i s)))"
    by (cases rule: ack_msg_cases [of i "fst (ack_msg i s)"]) (auto simp: set_state_tx)
  with 2 assms show ?thesis by (auto simp: rx_alive_def)
qed

theorem ack_accepted_once_witness:
  "pm_state (hd (sk_queue (fst (ack_msg 0 waiting_sink)))) = Done"
  using ack_accepted_once [of 0 waiting_sink]
  by (simp add: ack_msg_def pending_message_new_def set_state_def rx_alive_def)

text \<open>The init sync replaces everything in the queue and is the next message that is sent, at
  once and whatever the strategy.\<close>

theorem init_sync_is_next:
  assumes "\<And>i. is_init_msg (f i)" and "sk_runner s = RunnerIdle" and "\<not> sk_pause s"
    and "s' = run (sink_step y mu cfg) s [QueueInit f, RunnerStep True True True now, SendResult SendOk]"
  shows "sk_sent s' = sk_sent s @ [f (sk_counter s)] \<and> length (sk_queue s') = 1"
proof -
  have "\<not> can_merge (f (sk_counter s))"
    using assms(1) [of "sk_counter s"] by (cases "f (sk_counter s)") (auto simp: is_init_msg_def)
  with assms show ?thesis
    by (simp add: queue_init_sync_def counter_next_def notify_def push_msg_def runner_step_def
        process_next_msg_def prepare_send_def pending_message_new_def set_ret_def set_state_def
        Let_def)
qed

theorem init_sync_is_next_witness:
  "\<exists>m (s :: sink). is_init_msg m \<and> sk_sent s = [m] \<and> length (sk_queue s) = 1"
proof -
  let ?f = "\<lambda>i. ClientInitSync (init_sync_new OriginServer ''doc'' Document ''w'' i [1])"
  have "is_init_msg (?f i)" for i by (simp add: is_init_msg_def)
  moreover obtain s' where s': "s' = run (sink_step sample_yrs append_updates default_sink_config) sample_sink
      [QueueInit ?f, RunnerStep True True True 0, SendResult SendOk]" by blast
  ultimately have "sk_sent s' = [?f 1]" "length (sk_queue s') = 1"
    using init_sync_is_next [of ?f, OF _ sample_sink_simps(2,4) s'] by simp_all
  then show ?thesis
    by (intro exI [of _ "?f 1"] exI [of _ s']) (simp add: is_init_msg_def)
qed

text \<open>A message that the merge loop takes from the queue and cannot merge (the payload on top is
  over the limit, or one of the two is not an update) is lost: it is neither put back, as the
  comment in the loop says, nor sent.\<close>

theorem refused_merge_loses_message:
  assumes "sk_queue s = p # r # q" and "pm_state p = Pending" and "can_merge (pm_msg p)"
    and "pm_merge y mu (sc_maximum_payload_size cfg) p r = (p, Inr False)"
  shows "sk_queue (prepare_send y mu cfg True s) =
      heap_push (p\<lparr>pm_tx := Some (sk_next_chan s), pm_state := Processing\<rparr>) q \<and>
    sending (sk_runner (prepare_send y mu cfg True s)) = [pm_msg p]"
  using assms by (simp add: prepare_send_def Let_def set_state_def set_ret_def)

theorem refused_merge_loses_message_witness:
  "\<exists>s r. r \<in> set (sk_queue s) \<and>
     (let s' = prepare_send sample_yrs append_updates default_sink_config True s in
      r \<notin> set (sk_queue s') \<and> pm_msg r \<notin> set (handed_over s'))"
proof -
  let ?p = "pending_message_new (ClientUpdateSync (update_sync_new OriginServer ''doc''
      (encode_message sample_yrs (SyncMsg (SyncStep2 [1]))) 0)) 0"
  let ?r = "pending_message_new (sample_update [2] 1) 1"
  let ?s = "sample_sink\<lparr>sk_queue := [?p, ?r]\<rparr>"
  have "pm_merge sample_yrs append_updates (sc_maximum_payload_size default_sink_config) ?p ?r = (?p, Inr False)"
    by (simp add: pm_merge_def pending_message_new_def update_message_def update_sync_new_def
        merge_payload_def as_update_def reader_next_def decode_message_def decode_sync_def
        sample_yrs_def mark_def tag_defs)
  with refused_merge_loses_message [of ?s ?p ?r "[]" sample_yrs append_updates default_sink_config]
  show ?thesis
    by (intro exI [of _ ?s] exI [of _ ?r])
      (simp add: pending_message_new_def update_message_def update_sync_new_def handed_over_def
        prepare_send_def Let_def)
qed

text \<open>A message whose sending failed stays in the queue as processing, and the runner's next step
  takes it out without sending it.\<close>

theorem failed_send_loses_message:
  assumes "sk_runner s = RunnerSending c m" and "sk_queue s = p # q" and "pm_state p = Processing"
    and "\<not> is_init_msg (pm_msg p)" and "\<not> sk_pause s" and "sc_strategy cfg = ASAP"
    and "s' = run (sink_step y mu cfg) s
       [SendResult SenderLocked, RetryFires, RunnerStep True True True now]"
  shows "sk_queue s' = q \<and> handed_over s' = sk_sent s"
  using assms by (cases "sk_retries s")
    (auto simp: retry_later_def retry_fires_def notify_def runner_step_def process_next_msg_def
      prepare_send_def Let_def handed_over_def split: nat.splits)

theorem failed_send_loses_message_witness:
  "\<exists>s. length (sk_queue s) = 1 \<and>
     (let s' = run (sink_step sample_yrs append_updates default_sink_config) s
        [SendResult SenderLocked, RetryFires, RunnerStep True True True 0] in
      sk_queue s' = [] \<and> handed_over s' = [])"
proof -
  let ?s = "prepare_send sample_yrs append_updates default_sink_config True sample_sink"
  have "sk_queue ?s = [(pending_message_new (sample_update [1] 0) 0)\<lparr>pm_state := Processing, pm_tx := Some 0\<rparr>]"
    "sk_runner ?s = RunnerSending 0 (sample_update [1] 0)" "\<not> sk_pause ?s" "sk_sent ?s = []"
    by (simp_all add: prepare_send_def Let_def pending_message_new_def set_ret_def set_state_def)
  with failed_send_loses_message [of ?s 0 "sample_update [1] 0" _ "[]" default_sink_config _ sample_yrs append_updates 0]
  show ?thesis
    by (intro exI [of _ ?s])
      (simp add: pending_message_new_def default_sink_config_def is_init_msg_def update_message_def)
qed

text \<open>When the connection comes back between an acknowledgement and the runner's reaction to it,
  the runner removes the init sync that was queued meanwhile, reports \<open>Finished\<close>, and the init
  sync is never sent.\<close>

theorem init_sync_lost_after_ack:
  assumes "sk_runner s = RunnerWaiting c t" and "snd (ack_msg i s)"
    and "s' = run (sink_step y mu cfg) s [Ack i, QueueInit f, WaitResult True]"
  shows "sk_queue s' = [] \<and> sk_state s' = Finished \<and> handed_over s' = sk_sent s"
proof (cases rule: ack_msg_cases [of i s])
  case 1
  with assms show ?thesis by simp
next
  case (2 p q)
  with assms show ?thesis
    by (simp add: queue_init_sync_def counter_next_def notify_def push_msg_def wait_result_def
        handed_over_def)
qed

theorem init_sync_lost_after_ack_witness:
  "sk_queue (run (sink_step sample_yrs append_updates default_sink_config) waiting_sink
     [Ack 0, QueueInit (\<lambda>i. ClientInitSync (init_sync_new OriginServer ''doc'' Document ''w'' i [1])),
      WaitResult True]) = []"
  using init_sync_lost_after_ack [of waiting_sink 0 4000 0]
  by (simp add: ack_msg_def pending_message_new_def set_state_def rx_alive_def)

end
