(* ===== verification/Realtime.thy ===== *)
theory Realtime
  imports CollabMsg
begin

section \<open>Realtime messages and users\<close>

text \<open>
  \<open>libs/realtime-entity/src/message.rs\<close> and \<open>user.rs\<close>, \<open>libs/realtime/src/entities.rs\<close> and \<open>error.rs\<close>,
  and the user of a websocket connection (\<open>src/biz/user.rs\<close>): what travels between the websocket
  sessions and the collaboration server. An error of another crate is its rendered message.
\<close>

record af_user_change =
  auc_uid :: i64
  auc_name :: "string option"
  auc_email :: "string option"
  auc_metadata :: "string option"

record af_workspace_member =
  awm_name :: string
  awm_email :: string
  awm_role :: af_role
  awm_avatar_url :: "string option"

record af_workspace_member_change =
  amc_added :: "af_workspace_member list"
  amc_updated :: "af_workspace_member list"
  amc_removed :: "af_workspace_member list"

datatype user_message =
    ProfileChange af_user_change
  | WorkspaceMemberChange af_workspace_member_change

datatype system_message = RateLimit u32 | KickOff

datatype realtime_message =
    RtCollab collab_message
  | RtUser user_message
  | RtSystem system_message

fun rt_device_id :: "realtime_message \<Rightarrow> string option" where
  "rt_device_id (RtCollab m) = cm_device_id m"
| "rt_device_id (RtUser _) = None"
| "rt_device_id (RtSystem _) = None"

fun display_realtime_message :: "realtime_message \<Rightarrow> string" where
  "display_realtime_message (RtCollab m) = ''Collab:'' @ cm_object_id m"
| "display_realtime_message (RtUser _) = ''User''"
| "display_realtime_message (RtSystem _) = ''System''"

text \<open>\<open>bincode\<close>: \<open>bc_serialize\<close> may refuse, the conversions then give the empty payload.\<close>

record bincode =
  bc_serialize :: "realtime_message \<Rightarrow> string + bytes"
  bc_deserialize :: "bytes \<Rightarrow> string + realtime_message"

datatype ws_frame = FrText string | FrBinary bytes | FrPing bytes | FrPong bytes | FrClose

definition bytes_of_realtime :: "bincode \<Rightarrow> realtime_message \<Rightarrow> bytes" where
  "bytes_of_realtime bc m = (case bc_serialize bc m of Inl _ \<Rightarrow> [] | Inr b \<Rightarrow> b)"

definition frame_of_realtime :: "bincode \<Rightarrow> realtime_message \<Rightarrow> ws_frame" where
  "frame_of_realtime bc m = FrBinary (bytes_of_realtime bc m)"

definition realtime_of_frame :: "bincode \<Rightarrow> ws_frame \<Rightarrow> string + realtime_message" where
  "realtime_of_frame bc f =
     (case f of FrBinary b \<Rightarrow> bc_deserialize bc b | _ \<Rightarrow> Inl ''Unsupported message type'')"

text \<open>What the crate documents: a serialized message is read back.\<close>

definition bincode_ok :: "bincode \<Rightarrow> bool" where
  "bincode_ok bc \<longleftrightarrow> (\<forall>m. \<exists>b. bc_serialize bc m = Inr b \<and> bc_deserialize bc b = Inr m)"

lemma realtime_of_frame_of_realtime [codec]:
  assumes "bincode_ok bc"
  shows "realtime_of_frame bc (frame_of_realtime bc m) = Inr m"
proof -
  from assms obtain b where "bc_serialize bc m = Inr b" "bc_deserialize bc b = Inr m"
    unfolding bincode_ok_def by blast
  then show ?thesis by (simp add: bytes_of_realtime_def frame_of_realtime_def realtime_of_frame_def)
qed

subsection \<open>Users\<close>

text \<open>
  \<open>RealtimeUserImpl\<close>: two connections of a device are different users, because of the connect id.
\<close>

record rt_user =
  ru_uid :: i64
  ru_device_id :: string
  ru_connect_id :: string

record user_device =
  ud_device_id :: string
  ud_uid :: i64

definition device_of :: "rt_user \<Rightarrow> user_device" where
  "device_of u = \<lparr>ud_device_id = ru_device_id u, ud_uid = ru_uid u\<rparr>"

definition display_rt_user :: "rt_user \<Rightarrow> string" where
  "display_rt_user u = ''uid:'' @ show_int (ru_uid u) @ ''|device_id:'' @ ru_device_id u"

record editing =
  ed_object_id :: string
  ed_origin :: collab_origin

datatype realtime_error =
    YSync sync_error
  | YAwareness string
  | RtDecodingError read_error
  | RtSerdeError string
  | TokioTask string
  | RtIO string
  | UnexpectedData string
  | ExpectInitSync string
  | CollabError string
  | NotEnoughPermissionToWrite i64
  | NotEnoughPermissionToRead i64
  | UserNotFound string
  | RtInternal string

end
