(* ===== verification/Broadcast.thy ===== *)
theory Broadcast
  imports CollabMsg
begin

section \<open>The broadcast of a group\<close>

text \<open>
  \<open>libs/realtime/src/collaborate/broadcast.rs\<close>: what the observers of a document send to the
  subscribers, which of it a subscriber is sent, and how a message of a subscriber is handled. The
  two tasks of a subscription are loops over these operations. Locks, the send to the client and
  the blocking task that may be cancelled are outcomes of the operations.
\<close>

definition gen_update_message :: "('sv, 'aw) yrs_codec \<Rightarrow> bytes \<Rightarrow> bytes" where
  "gen_update_message y update =
     y_write_var y MSG_SYNC @ y_write_var y MSG_SYNC_UPDATE @ y_write_buf y update"

text \<open>\<open>upd\<close> is \<open>Awareness::update_with_clients\<close>.\<close>

definition gen_awareness_update_message ::
    "(u64 list \<Rightarrow> string + 'aw) \<Rightarrow> u64 list \<Rightarrow> u64 list \<Rightarrow> u64 list \<Rightarrow> string + 'aw" where
  "gen_awareness_update_message upd added updated removed = upd (added @ updated @ removed)"

definition observe_doc_update ::
    "('sv, 'aw) yrs_codec \<Rightarrow> string \<Rightarrow> collab_origin \<Rightarrow> bytes \<Rightarrow> collab_message" where
  "observe_doc_update y oid origin update =
     ServerBroadcast \<lparr>cb_origin = origin, cb_object_id = oid, cb_payload = gen_update_message y update\<rparr>"

definition observe_awareness_update ::
    "('sv, 'aw) yrs_codec \<Rightarrow> (u64 list \<Rightarrow> string + 'aw) \<Rightarrow> string \<Rightarrow> u64 list \<Rightarrow> u64 list \<Rightarrow> u64 list \<Rightarrow>
     collab_message option" where
  "observe_awareness_update y upd oid added updated removed =
     (case gen_awareness_update_message upd added updated removed of
        Inl _ \<Rightarrow> None
      | Inr aw \<Rightarrow> Some (AwarenessSync \<lparr>cw_object_id = oid, cw_payload = encode_message y (AwarenessMsg aw)\<rparr>))"

text \<open>The sink task: a message that came from the subscriber itself is skipped.\<close>

definition sink_task_forwards :: "collab_origin \<Rightarrow> collab_message \<Rightarrow> bool" where
  "sink_task_forwards subscriber_origin m =
     (case cm_origin m of Some o' \<Rightarrow> o' \<noteq> subscriber_origin | None \<Rightarrow> True)"

subsection \<open>Messages of a subscriber\<close>

text \<open>
  The outcomes met by one message of the payload: whether the document's lock was obtained in time,
  the blocking task was joined, the sink's lock was free and the send went through.
\<close>

record handling =
  hd_doc_lock :: bool
  hd_joined :: bool
  hd_sink_lock :: bool
  hd_sent :: bool

definition all_free :: handling where
  "all_free = \<lparr>hd_doc_lock = True, hd_joined = True, hd_sink_lock = True, hd_sent = True\<rparr>"

definition respond ::
    "handling \<Rightarrow> string \<Rightarrow> collab_message \<Rightarrow> bytes option \<Rightarrow> collab_message list" where
  "respond h object_id msg payload =
     (case cm_origin msg of
        None \<Rightarrow> []
      | Some origin \<Rightarrow>
          (case cm_msg_id msg of
             None \<Rightarrow> []
           | Some msg_id \<Rightarrow>
               if hd_sink_lock h \<and> hd_sent h
               then [ClientAck (collab_ack_new origin object_id
                       (case payload of None \<Rightarrow> [] | Some p \<Rightarrow> p) msg_id (type_str msg))]
               else []))"

fun handle_payload_messages ::
    "('sv, 'aw) yrs_codec \<Rightarrow> ('doc, 'sv, 'aw, 'upd) yrs_doc \<Rightarrow> (nat \<Rightarrow> handling) \<Rightarrow> string \<Rightarrow>
     collab_message \<Rightarrow> 'doc \<Rightarrow> ('sv, 'aw) message list \<Rightarrow> 'doc \<times> collab_message list" where
  "handle_payload_messages y d env object_id msg doc [] = (doc, [])"
| "handle_payload_messages y d env object_id msg doc (m # ms) =
     (case handle_collab_message ServerSyncProtocol y d (cm_origin msg) (hd_doc_lock (env (length ms))) doc m of
        (doc1, r) \<Rightarrow>
          (case handle_payload_messages y d env object_id msg doc1 ms of
             (doc2, acks) \<Rightarrow>
               (doc2,
                (if hd_joined (env (length ms))
                 then (case r of Inr payload \<Rightarrow> respond (env (length ms)) object_id msg payload | Inl _ \<Rightarrow> [])
                 else []) @ acks)))"

text \<open>
  \<open>handle_user_collab_message\<close>: the loop stops at the first message that cannot be read. \<open>env n\<close> are
  the outcomes of the message that is followed by \<open>n\<close> others.
\<close>

definition handle_user_collab_message ::
    "('sv, 'aw) yrs_codec \<Rightarrow> ('doc, 'sv, 'aw, 'upd) yrs_doc \<Rightarrow> (nat \<Rightarrow> handling) \<Rightarrow> string \<Rightarrow>
     collab_message \<Rightarrow> 'doc \<Rightarrow> 'doc \<times> collab_message list" where
  "handle_user_collab_message y d env object_id msg doc =
     (case cm_payload msg of
        None \<Rightarrow> (doc, [])
      | Some payload \<Rightarrow>
          (case read_all y payload of
             None \<Rightarrow> (doc, [])
           | Some (ms, _) \<Rightarrow> handle_payload_messages y d env object_id msg doc ms))"

text \<open>
  One turn of the stream task: document, time of the last change and answers afterwards.
\<close>

definition stream_task_message ::
    "('sv, 'aw) yrs_codec \<Rightarrow> ('doc, 'sv, 'aw, 'upd) yrs_doc \<Rightarrow> (nat \<Rightarrow> handling) \<Rightarrow> bool \<Rightarrow> nat \<Rightarrow>
     string \<Rightarrow> collab_message \<Rightarrow> 'doc \<times> nat \<Rightarrow> ('doc \<times> nat) \<times> collab_message list" where
  "stream_task_message y d env modified_lock now object_id msg st =
     (case st of (doc, modified_at) \<Rightarrow>
        if object_id = cm_object_id msg \<and> cm_payload msg \<noteq> None then
          let (doc1, acks) = handle_user_collab_message y d env object_id msg doc in
          ((doc1, if modified_lock then now else modified_at), acks)
        else ((doc, modified_at), []))"

subsection \<open>Lemmas\<close>

lemma gen_update_message_encodes [codec]: "gen_update_message y u = encode_message y (SyncMsg (SyncUpdate u))"
  by (simp add: gen_update_message_def)

text \<open>
  An update that a document can integrate: it is decoded, the transaction is available, and it adds
  the operations \<open>s\<close>.
\<close>

definition update_applies ::
    "('doc, 'sv, 'aw, 'upd) yrs_doc \<Rightarrow> ('doc \<Rightarrow> 'op set) \<Rightarrow> collab_origin option \<Rightarrow> 'doc \<Rightarrow> bytes \<Rightarrow> 'op set \<Rightarrow> bool" where
  "update_applies d ops origin doc u s \<longleftrightarrow>
     (\<exists>v doc'. yd_decode_update d u = Inr v \<and> yd_try_write_txn d doc origin = Inr () \<and>
        yd_apply_update d doc origin v = (doc', Inr ()) \<and> ops doc' = ops doc \<union> s)"

lemma handle_update_applies:
  assumes "update_applies d ops origin doc u s"
  obtains doc' where "handle_collab_message p y d origin True doc (SyncMsg (SyncUpdate u)) = (doc', Inr None)"
    "ops doc' = ops doc \<union> s"
  using assms unfolding update_applies_def
  by (auto simp: handle_update_def handle_sync_step2_def)

lemma handle_user_encoded:
  assumes "yrs_laws y" and "\<forall>m \<in> set ms. message_in_range m"
    and "cm_payload msg = Some (concat (map (encode_message y) ms))"
  shows "handle_user_collab_message y d env object_id msg doc =
    handle_payload_messages y d env object_id msg doc ms"
  using assms by (simp add: handle_user_collab_message_def read_all_encoded)

definition ack_of :: "string \<Rightarrow> collab_message \<Rightarrow> collab_message \<Rightarrow> bool" where
  "ack_of object_id msg a \<longleftrightarrow>
     (\<exists>c. a = ClientAck c \<and> Some (ca_origin c) = cm_origin msg \<and> ca_object_id c = object_id \<and>
        Some (as_msg_id (ca_source c)) = cm_msg_id msg)"

lemma respond_acks: "\<forall>a \<in> set (respond hh object_id msg p). ack_of object_id msg a"
  by (auto simp: respond_def collab_ack_new_def ack_of_def split: option.splits)

lemma handle_payload_acks:
  "a \<in> set (snd (handle_payload_messages y d env object_id msg doc ms)) \<Longrightarrow> ack_of object_id msg a"
proof (induction ms arbitrary: doc)
  case (Cons m ms)
  obtain doc1 r where h: "handle_collab_message ServerSyncProtocol y d (cm_origin msg)
      (hd_doc_lock (env (length ms))) doc m = (doc1, r)" by fastforce
  obtain doc2 acks where g: "handle_payload_messages y d env object_id msg doc1 ms = (doc2, acks)" by fastforce
  have e: "snd (handle_payload_messages y d env object_id msg doc (m # ms)) =
     (if hd_joined (env (length ms)) then case_sum (\<lambda>_. []) (respond (env (length ms)) object_id msg) r else []) @ acks"
    unfolding handle_payload_messages.simps h prod.case g snd_conv ..
  have "(if hd_joined (env (length ms)) then case_sum (\<lambda>_. []) (respond (env (length ms)) object_id msg) r else [])
      \<in> insert [] (range (respond (env (length ms)) object_id msg))"
    by (cases r) auto
  then obtain xs where xs: "snd (handle_payload_messages y d env object_id msg doc (m # ms)) = xs @ acks"
    "xs \<in> insert [] (range (respond (env (length ms)) object_id msg))" unfolding e by blast
  from Cons.prems have "a \<in> set xs \<or> a \<in> set acks" unfolding xs(1) by simp
  then show ?case using xs(2) respond_acks Cons.IH [of doc1] by (auto simp: g)
qed simp

subsection \<open>Properties\<close>



text \<open>Whatever the payload and whichever locks are busy, every answer to a message of a client is an
  acknowledgement that carries the message's own id and origin and the object of the group.\<close>

theorem answers_are_acks_of_the_message:
  assumes "a \<in> set (snd (handle_user_collab_message y d env object_id msg doc))"
  shows "\<exists>c. a = ClientAck c \<and> Some (ca_origin c) = cm_origin msg \<and> ca_object_id c = object_id \<and>
    Some (as_msg_id (ca_source c)) = cm_msg_id msg"
  using assms handle_payload_acks [of a y d env object_id msg doc]
  by (auto simp: handle_user_collab_message_def ack_of_def [symmetric] split: option.splits)

theorem answers_are_acks_of_the_message_witness:
  "\<exists>c. hd (snd (handle_user_collab_message sample_yrs sample_doc (\<lambda>_. all_free) ''doc''
      (ClientUpdateSync (update_sync_new OriginServer ''doc'' (encode_message sample_yrs (SyncMsg (SyncUpdate [7]))) 4)) [1])) =
    ClientAck c \<and> as_msg_id (ca_source c) = 4"
proof -
  let ?m = "ClientUpdateSync (update_sync_new OriginServer ''doc'' (encode_message sample_yrs (SyncMsg (SyncUpdate [7]))) 4)"
  let ?r = "handle_user_collab_message sample_yrs sample_doc (\<lambda>_. all_free) ''doc'' ?m [1]"
  have "?r = handle_payload_messages sample_yrs sample_doc (\<lambda>_. all_free) ''doc'' ?m [1] [SyncMsg (SyncUpdate [7])]"
    by (rule handle_user_encoded [OF sample_yrs_laws]) (simp_all add: update_sync_new_def)
  then have "snd ?r \<noteq> []"
    by (simp add: all_free_def handle_update_def handle_sync_step2_def sample_doc_def respond_def
        update_sync_new_def)
  then have "hd (snd ?r) \<in> set (snd ?r)" by simp
  from answers_are_acks_of_the_message [OF this] show ?thesis by (auto simp: update_sync_new_def)
qed

text \<open>A message that can be read but whose handling fails, or whose document is locked for too long,
  gets no acknowledgement and does not stop the messages after it in the same payload.\<close>

theorem failed_message_is_skipped:
  assumes "handle_collab_message ServerSyncProtocol y d (cm_origin msg) (hd_doc_lock (env (length ms))) doc m =
      (doc1, Inl e)"
  shows "handle_payload_messages y d env object_id msg doc (m # ms) =
    handle_payload_messages y d env object_id msg doc1 ms"
  using assms by (simp split: prod.splits)

theorem failed_message_is_skipped_witness:
  "handle_payload_messages sample_yrs sample_doc (\<lambda>_. all_free) ''doc'' (AwarenessSync \<lparr>cw_object_id = ''doc'', cw_payload = []\<rparr>)
     [1] [AuthMsg (Some ''no''), SyncMsg (SyncUpdate [7])] =
   handle_payload_messages sample_yrs sample_doc (\<lambda>_. all_free) ''doc'' (AwarenessSync \<lparr>cw_object_id = ''doc'', cw_payload = []\<rparr>)
     [1] [SyncMsg (SyncUpdate [7])]"
  by (rule failed_message_is_skipped [where e = "PermissionDenied ''no''"])
    (simp add: all_free_def handle_auth_def)

end
