(* ===== verification/Group.thy ===== *)
theory Group
  imports Realtime Broadcast
begin

section \<open>Groups\<close>

text \<open>
  \<open>libs/realtime/src/collaborate/group.rs\<close>: the groups of the server, one for each opened object,
  with their subscribers. Locks are only tried: each operation takes as argument whether the lock it
  tries is free. The part of the server's state the group cache works on is \<open>group_cache\<close>; it also
  keeps what the two tasks of a subscription and the storage show of it: the subscriptions whose
  tasks run, the objects in the storage's cache of opened collabs, and the documents flushed.
  \<open>ld\<close> is the document that the storage plugin loads for a new group.
\<close>

record subscription =
  sub_origin :: collab_origin
  sub_task :: nat

record 'doc group =
  gr_collab_type :: collab_type
  gr_subscribers :: "rt_user \<rightharpoonup> subscription"
  gr_modified_at :: nat
  gr_doc :: 'doc

record 'doc group_cache =
  gc_groups :: "string \<rightharpoonup> 'doc group"
  gc_next_task :: nat
  gc_tasks :: "nat list"
  gc_opened :: "string list"
  gc_flushed :: "(string \<times> 'doc) list"

definition group_cache_new :: "'doc group_cache" where
  "group_cache_new = \<lparr>gc_groups = Map.empty, gc_next_task = 0, gc_tasks = [], gc_opened = [], gc_flushed = []\<rparr>"

definition group_new :: "collab_type \<Rightarrow> nat \<Rightarrow> 'doc \<Rightarrow> 'doc group" where
  "group_new ct now doc =
     \<lparr>gr_collab_type = ct, gr_subscribers = Map.empty, gr_modified_at = now, gr_doc = doc\<rparr>"

definition group_is_empty :: "'doc group \<Rightarrow> bool" where
  "group_is_empty g \<longleftrightarrow> gr_subscribers g = Map.empty"

text \<open>Seconds; the first argument says whether it is a debug build.\<close>

definition timeout_secs :: "bool \<Rightarrow> 'doc group \<Rightarrow> nat" where
  "timeout_secs debug g =
     (if debug then 2 * 60
      else case gr_collab_type g of
             Document \<Rightarrow> 10 * 60
           | Database \<Rightarrow> 60 * 60
           | DatabaseRow \<Rightarrow> 60 * 60
           | WorkspaceDatabase \<Rightarrow> 2 * 60 * 60
           | Folder \<Rightarrow> 2 * 60 * 60
           | UserAwareness \<Rightarrow> 2 * 60 * 60)"

definition is_inactive :: "bool \<Rightarrow> nat \<Rightarrow> 'doc group \<Rightarrow> bool" where
  "is_inactive debug now g \<longleftrightarrow> timeout_secs debug g < now - gr_modified_at g"

text \<open>\<open>Subscription::stop\<close> ends the two tasks of a subscription.\<close>

definition stop_task :: "nat \<Rightarrow> 'doc group_cache \<Rightarrow> 'doc group_cache" where
  "stop_task t c = c\<lparr>gc_tasks := removeAll t (gc_tasks c)\<rparr>"

definition contains_user ::
    "bool \<Rightarrow> bool \<Rightarrow> string \<Rightarrow> rt_user \<Rightarrow> 'doc group_cache \<Rightarrow> string + bool" where
  "contains_user groups_free subs_free object_id user c =
     (if \<not> groups_free then Inl ''operation would block''
      else case gc_groups c object_id of
             Some g \<Rightarrow>
               if \<not> subs_free then Inl ''operation would block''
               else Inr (gr_subscribers g user \<noteq> None)
           | None \<Rightarrow> Inr False)"

definition gc_remove_user ::
    "bool \<Rightarrow> bool \<Rightarrow> string \<Rightarrow> rt_user \<Rightarrow> 'doc group_cache \<Rightarrow> 'doc group_cache \<times> (string + unit)" where
  "gc_remove_user groups_free subs_free object_id user c =
     (if \<not> groups_free then (c, Inl ''operation would block'')
      else case gc_groups c object_id of
             Some g \<Rightarrow>
               if \<not> subs_free then (c, Inl ''operation would block'')
               else (case gr_subscribers g user of
                       Some sub \<Rightarrow>
                         (stop_task (sub_task sub)
                            (c\<lparr>gc_groups := (gc_groups c)(object_id \<mapsto>
                               g\<lparr>gr_subscribers := (gr_subscribers g)(user := None)\<rparr>)\<rparr>), Inr ())
                     | None \<Rightarrow> (c, Inr ()))
           | None \<Rightarrow> (c, Inr ()))"

definition contains_group :: "bool \<Rightarrow> string \<Rightarrow> 'doc group_cache \<Rightarrow> string + bool" where
  "contains_group groups_free object_id c =
     (if \<not> groups_free then Inl ''operation would block'' else Inr (gc_groups c object_id \<noteq> None))"

definition get_group :: "bool \<Rightarrow> string \<Rightarrow> 'doc group_cache \<Rightarrow> 'doc group option" where
  "get_group groups_free object_id c = (if groups_free then gc_groups c object_id else None)"

text \<open>
  Removing a group flushes its document, and its subscriptions end: they are stopped when the lock of
  the subscribers is free, and dropped with the group when it is not.
\<close>

definition remove_group :: "bool \<Rightarrow> string \<Rightarrow> 'doc group_cache \<Rightarrow> 'doc group_cache" where
  "remove_group groups_free object_id c =
     (if \<not> groups_free then c
      else
        let c1 = c\<lparr>gc_groups := (gc_groups c)(object_id := None)\<rparr>;
            c2 = (case gc_groups c object_id of
                    Some g \<Rightarrow>
                      c1\<lparr>gc_flushed := gc_flushed c1 @ [(object_id, gr_doc g)],
                         gc_tasks := [t \<leftarrow> gc_tasks c1. t \<notin> sub_task ` ran (gr_subscribers g)]\<rparr>
                  | None \<Rightarrow> c1)
        in c2\<lparr>gc_opened := removeAll object_id (gc_opened c2)\<rparr>)"

definition init_group ::
    "(i64 \<Rightarrow> string \<Rightarrow> string \<Rightarrow> collab_type \<Rightarrow> 'doc) \<Rightarrow> nat \<Rightarrow> i64 \<Rightarrow> string \<Rightarrow> string \<Rightarrow> collab_type \<Rightarrow>
     'doc group_cache \<Rightarrow> 'doc group_cache \<times> 'doc group" where
  "init_group ld now uid workspace_id object_id ct c =
     (c\<lparr>gc_opened := List.insert object_id (gc_opened c)\<rparr>, group_new ct now (ld uid workspace_id object_id ct))"

definition create_group_if_need ::
    "(i64 \<Rightarrow> string \<Rightarrow> string \<Rightarrow> collab_type \<Rightarrow> 'doc) \<Rightarrow> bool \<Rightarrow> nat \<Rightarrow> i64 \<Rightarrow> string \<Rightarrow> string \<Rightarrow> collab_type \<Rightarrow>
     'doc group_cache \<Rightarrow> 'doc group_cache" where
  "create_group_if_need ld groups_free now uid workspace_id object_id ct c =
     (if groups_free then
        (if gc_groups c object_id \<noteq> None then c
         else case init_group ld now uid workspace_id object_id ct c of
                (c1, g) \<Rightarrow> c1\<lparr>gc_groups := (gc_groups c1)(object_id \<mapsto> g)\<rparr>)
      else c)"

text \<open>
  \<open>CollabGroup::subscribe\<close> and the insertion of its subscription: two tasks start.
\<close>

definition gc_subscribe ::
    "string \<Rightarrow> 'doc group \<Rightarrow> rt_user \<Rightarrow> collab_origin \<Rightarrow> 'doc group_cache \<Rightarrow> 'doc group_cache" where
  "gc_subscribe object_id g user origin c =
     c\<lparr>gc_groups := (gc_groups c)(object_id \<mapsto>
         g\<lparr>gr_subscribers := (gr_subscribers g)(user \<mapsto>
             \<lparr>sub_origin = origin, sub_task = gc_next_task c\<rparr>)\<rparr>),
       gc_next_task := Suc (gc_next_task c), gc_tasks := gc_next_task c # gc_tasks c\<rparr>"

text \<open>
  The periodic check: \<open>ids\<close> are the ids of the groups in the order the map is iterated in; \<open>free id\<close>
  says whether the lock is free when \<open>id\<close> is removed. At most six groups go.
\<close>

fun inactive_ids :: "bool \<Rightarrow> nat \<Rightarrow> 'doc group_cache \<Rightarrow> string list \<Rightarrow> string list \<Rightarrow> string list" where
  "inactive_ids debug now c found [] = found"
| "inactive_ids debug now c found (i # is) =
     (case gc_groups c i of
        Some g \<Rightarrow>
          if is_inactive debug now g then
            (let found' = found @ [i] in if 5 < length found' then found' else inactive_ids debug now c found' is)
          else inactive_ids debug now c found is
      | None \<Rightarrow> inactive_ids debug now c found is)"

definition gc_tick ::
    "bool \<Rightarrow> bool \<Rightarrow> (string \<Rightarrow> bool) \<Rightarrow> nat \<Rightarrow> string list \<Rightarrow> 'doc group_cache \<Rightarrow> 'doc group_cache" where
  "gc_tick debug groups_free free now ids c =
     fold (\<lambda>i. remove_group (free i) i) (if groups_free then inactive_ids debug now c [] ids else []) c"

definition number_of_groups :: "bool \<Rightarrow> 'doc group_cache \<Rightarrow> nat option" where
  "number_of_groups groups_free c = (if groups_free then Some (card (dom (gc_groups c))) else None)"

subsection \<open>Lemmas\<close>

text \<open>
  What matters of the cache to its callers: the task that serves a user in the group of an object.
\<close>

definition task_of :: "'doc group_cache \<Rightarrow> string \<Rightarrow> rt_user \<Rightarrow> nat option" where
  "task_of c i u = Option.bind (gc_groups c i) (\<lambda>g. map_option sub_task (gr_subscribers g u))"

text \<open>
  The cache is consistent: the running tasks are those of the subscriptions, each of one subscription
  only, new tasks are fresh, and the opened objects are those with a group.
\<close>

definition cache_ok :: "'doc group_cache \<Rightarrow> bool" where
  "cache_ok c \<longleftrightarrow>
     (\<forall>t. t \<in> set (gc_tasks c) \<longleftrightarrow> (\<exists>i u. task_of c i u = Some t)) \<and>
     (\<forall>t i u j v. task_of c i u = Some t \<longrightarrow> task_of c j v = Some t \<longrightarrow> i = j \<and> u = v) \<and>
     (\<forall>t i u. task_of c i u = Some t \<longrightarrow> t < gc_next_task c) \<and>
     set (gc_opened c) = dom (gc_groups c)"

lemma cache_okI:
  assumes "\<And>t. t \<in> set (gc_tasks c) \<longleftrightarrow> (\<exists>i u. task_of c i u = Some t)"
    and "\<And>t i u j v. task_of c i u = Some t \<Longrightarrow> task_of c j v = Some t \<Longrightarrow> i = j \<and> u = v"
    and "\<And>t i u. task_of c i u = Some t \<Longrightarrow> t < gc_next_task c"
    and "set (gc_opened c) = dom (gc_groups c)"
  shows "cache_ok c"
  using assms unfolding cache_ok_def by blast

lemma cache_okD:
  assumes "cache_ok c"
  shows "t \<in> set (gc_tasks c) \<longleftrightarrow> (\<exists>i u. task_of c i u = Some t)"
    "task_of c i u = Some t \<Longrightarrow> task_of c j v = Some t \<Longrightarrow> i = j \<and> u = v"
    "task_of c i u = Some t \<Longrightarrow> t < gc_next_task c"
    "set (gc_opened c) = dom (gc_groups c)"
  using assms unfolding cache_ok_def by blast+

lemma task_of_subscriber:
  "gc_groups c i = Some g \<Longrightarrow> task_of c i u = map_option sub_task (gr_subscribers g u)"
  by (simp add: task_of_def)

lemma task_of_SomeD:
  "task_of c i u = Some t \<Longrightarrow> \<exists>g s. gc_groups c i = Some g \<and> gr_subscribers g u = Some s \<and> sub_task s = t"
  by (auto simp: task_of_def bind_eq_Some_conv)

lemma gc_remove_user_blocked:
  "\<not> (gf \<and> sf) \<Longrightarrow> fst (gc_remove_user gf sf i u c) = c \<or> gf"
  by (auto simp: gc_remove_user_def)

lemma gc_remove_user_unsubscribed:
  "task_of c i u = None \<Longrightarrow> fst (gc_remove_user gf sf i u c) = c"
  by (auto simp: gc_remove_user_def task_of_def split: option.splits)

lemma gc_remove_user_locked: "\<not> (gf \<and> sf) \<Longrightarrow> fst (gc_remove_user gf sf i u c) = c"
  by (auto simp: gc_remove_user_def split: option.splits)

lemma task_of_remove_user:
  "task_of (fst (gc_remove_user gf sf i u c)) j v = (if gf \<and> sf \<and> i = j \<and> u = v then None else task_of c j v)"
  by (auto simp: gc_remove_user_def task_of_def stop_task_def split: option.splits)

lemma gc_remove_user_groups [frame]:
  "gc_groups (fst (gc_remove_user gf sf i u c)) j = None \<longleftrightarrow> gc_groups c j = None"
  "gc_opened (fst (gc_remove_user gf sf i u c)) = gc_opened c"
  "gc_flushed (fst (gc_remove_user gf sf i u c)) = gc_flushed c"
  "gc_next_task (fst (gc_remove_user gf sf i u c)) = gc_next_task c"
  by (auto simp: gc_remove_user_def stop_task_def split: option.splits)

lemma gc_remove_user_tasks:
  "gf \<Longrightarrow> sf \<Longrightarrow> task_of c i u = Some t \<Longrightarrow>
     gc_tasks (fst (gc_remove_user gf sf i u c)) = removeAll t (gc_tasks c)"
  by (auto dest!: task_of_SomeD simp: gc_remove_user_def stop_task_def)

lemma dom_eqI:
  assumes "\<And>x. f x = None \<longleftrightarrow> g x = None"
  shows "dom f = dom g"
  using assms by (simp add: dom_def)

lemma ex_erased:
  assumes "cache_ok c"
  shows "(\<exists>j v. (if P j v then None else task_of c j v) = Some t) \<longleftrightarrow>
    t \<in> set (gc_tasks c) \<and> \<not> (\<exists>j v. P j v \<and> task_of c j v = Some t)"
proof -
  have "(\<exists>j v. (if P j v then None else task_of c j v) = Some t) \<longleftrightarrow>
      (\<exists>j v. \<not> P j v \<and> task_of c j v = Some t)"
    by (metis option.distinct(1))
  moreover have "t \<in> set (gc_tasks c) \<longleftrightarrow> (\<exists>j v. task_of c j v = Some t)"
    by (rule cache_okD(1) [OF assms])
  moreover have "\<forall>i u j v. task_of c i u = Some t \<longrightarrow> task_of c j v = Some t \<longrightarrow> i = j \<and> u = v"
    using cache_okD(2) [OF assms] by blast
  ultimately show ?thesis by metis
qed

lemma cache_ok_remove_user [preserves]:
  assumes c: "cache_ok c"
  shows "cache_ok (fst (gc_remove_user gf sf i u c))"
proof (cases "gf \<and> sf \<and> task_of c i u \<noteq> None")
  case False
  then show ?thesis using c gc_remove_user_locked gc_remove_user_unsubscribed by metis
next
  case True
  then obtain t0 where t0: "task_of c i u = Some t0" and l: "gf" "sf" by blast
  let ?c = "fst (gc_remove_user gf sf i u c)"
  show ?thesis
  proof (rule cache_okI)
    fix t
    show "t \<in> set (gc_tasks ?c) \<longleftrightarrow> (\<exists>j v. task_of ?c j v = Some t)"
      unfolding task_of_remove_user ex_erased [OF c] gc_remove_user_tasks [OF l t0] set_removeAll
      using t0 l by auto
  next
    show "set (gc_opened ?c) = dom (gc_groups ?c)"
      unfolding frame cache_okD(4) [OF c] by (rule dom_eqI) (simp add: frame)
  next
    fix t j v k w
    show "task_of ?c j v = Some t \<Longrightarrow> task_of ?c k w = Some t \<Longrightarrow> j = k \<and> v = w"
      unfolding task_of_remove_user by (rule cache_okD(2) [OF c, of _ _ t]) (simp_all split: if_splits)
  next
    fix t j v
    show "task_of ?c j v = Some t \<Longrightarrow> t < gc_next_task ?c"
      unfolding task_of_remove_user frame by (rule cache_okD(3) [OF c]) (simp split: if_splits)
  qed
qed

lemma task_of_remove_group:
  "task_of (remove_group gf i c) j v = (if gf \<and> i = j then None else task_of c j v)"
  by (auto simp: remove_group_def task_of_def Let_def split: option.splits)

lemma remove_group_fields [frame]:
  "gc_next_task (remove_group gf i c) = gc_next_task c"
  "gc_groups (remove_group gf i c) = (if gf then (gc_groups c)(i := None) else gc_groups c)"
  "gc_opened (remove_group gf i c) = (if gf then removeAll i (gc_opened c) else gc_opened c)"
  "gc_flushed (remove_group gf i c) = gc_flushed c @
     (if gf then (case gc_groups c i of Some g \<Rightarrow> [(i, gr_doc g)] | None \<Rightarrow> []) else [])"
  by (auto simp: remove_group_def Let_def split: option.splits)

lemma remove_group_tasks:
  "set (gc_tasks (remove_group gf i c)) =
     set (gc_tasks c) - (if gf then {t. \<exists>u. task_of c i u = Some t} else {})"
proof (cases "gc_groups c i")
  case None
  then show ?thesis by (simp add: remove_group_def task_of_def)
next
  case (Some g)
  have "sub_task ` ran (gr_subscribers g) = {t. \<exists>u. task_of c i u = Some t}"
    using Some by (auto simp: task_of_def ran_def)
  with Some show ?thesis by (auto simp: remove_group_def)
qed

lemma cache_ok_remove_group [preserves]:
  assumes c: "cache_ok c"
  shows "cache_ok (remove_group gf i c)"
proof (rule cache_okI)
  fix t
  show "t \<in> set (gc_tasks (remove_group gf i c)) \<longleftrightarrow> (\<exists>j v. task_of (remove_group gf i c) j v = Some t)"
    unfolding remove_group_tasks task_of_remove_group ex_erased [OF c] by auto
next
  fix t j v k w
  show "task_of (remove_group gf i c) j v = Some t \<Longrightarrow> task_of (remove_group gf i c) k w = Some t \<Longrightarrow> j = k \<and> v = w"
    unfolding task_of_remove_group by (rule cache_okD(2) [OF c, of _ _ t]) (simp_all split: if_splits)
next
  fix t j v
  show "task_of (remove_group gf i c) j v = Some t \<Longrightarrow> t < gc_next_task (remove_group gf i c)"
    unfolding task_of_remove_group frame by (rule cache_okD(3) [OF c]) (simp split: if_splits)
next
  show "set (gc_opened (remove_group gf i c)) = dom (gc_groups (remove_group gf i c))"
    using cache_okD(4) [OF c] by (simp add: frame)
qed

lemma cache_ok_create_group [preserves]:
  assumes c: "cache_ok c"
  shows "cache_ok (create_group_if_need ld gf now uid w i ct c)"
proof (cases "gf \<and> gc_groups c i = None")
  case False
  then show ?thesis using c by (auto simp: create_group_if_need_def)
next
  case True
  let ?c = "create_group_if_need ld gf now uid w i ct c"
  have *: "task_of ?c = task_of c"
    using True by (auto simp: create_group_if_need_def init_group_def group_new_def task_of_def fun_eq_iff)
  show ?thesis
  proof (rule cache_okI, unfold *)
    fix t show "t \<in> set (gc_tasks ?c) \<longleftrightarrow> (\<exists>i u. task_of c i u = Some t)"
      using True cache_okD(1) [OF c, of t] by (simp add: create_group_if_need_def init_group_def)
  qed (use True cache_okD(2-) [OF c] in \<open>auto simp: create_group_if_need_def init_group_def\<close>)
qed

lemma task_of_create_group:
  "task_of (create_group_if_need ld gf now uid w i ct c) = task_of c"
  by (auto simp: create_group_if_need_def init_group_def group_new_def task_of_def fun_eq_iff)

lemma task_of_subscribe:
  "gc_groups c i = Some g \<Longrightarrow>
   task_of (gc_subscribe i g u og c) j v = (if i = j \<and> u = v then Some (gc_next_task c) else task_of c j v)"
  by (auto simp: gc_subscribe_def task_of_def)

lemma cache_ok_subscribe [preserves]:
  assumes c: "cache_ok c" and g: "gc_groups c i = Some g" and n: "task_of c i u = None"
  shows "cache_ok (gc_subscribe i g u og c)"
proof (rule cache_okI)
  fix t
  have "t \<in> set (gc_tasks (gc_subscribe i g u og c)) \<longleftrightarrow> t = gc_next_task c \<or> t \<in> set (gc_tasks c)"
    by (simp add: gc_subscribe_def)
  then show "t \<in> set (gc_tasks (gc_subscribe i g u og c)) \<longleftrightarrow>
      (\<exists>j v. task_of (gc_subscribe i g u og c) j v = Some t)"
    unfolding task_of_subscribe [OF g] cache_okD(1) [OF c] using n by (metis option.inject option.distinct(1))
next
  fix t j v
  show "task_of (gc_subscribe i g u og c) j v = Some t \<Longrightarrow> t < gc_next_task (gc_subscribe i g u og c)"
    unfolding task_of_subscribe [OF g] using cache_okD(3) [OF c]
    by (auto simp: gc_subscribe_def less_Suc_eq split: if_splits)
next
  show "set (gc_opened (gc_subscribe i g u og c)) = dom (gc_groups (gc_subscribe i g u og c))"
    using cache_okD(4) [OF c] g by (auto simp: gc_subscribe_def)
next
  fix t j v k w
  show "task_of (gc_subscribe i g u og c) j v = Some t \<Longrightarrow>
     task_of (gc_subscribe i g u og c) k w = Some t \<Longrightarrow> j = k \<and> v = w"
    unfolding task_of_subscribe [OF g]
    using cache_okD(2) [OF c, of j v t k w] cache_okD(3) [OF c, of j v t] cache_okD(3) [OF c, of k w t]
    by (auto split: if_splits)
qed

lemma cache_ok_new: "cache_ok group_cache_new"
  by (simp add: cache_ok_def group_cache_new_def task_of_def)

lemma inactive_ids_inactive:
  "i \<in> set (inactive_ids debug now c found is) \<Longrightarrow>
     i \<in> set found \<or> (\<exists>g. gc_groups c i = Some g \<and> is_inactive debug now g \<and> i \<in> set is)"
  by (induction debug now c found "is" rule: inactive_ids.induct) (auto simp: Let_def split: option.splits if_splits)

lemma inactive_ids_length:
  "length found \<le> 5 \<Longrightarrow> length (inactive_ids debug now c found is) \<le> 6"
  by (induction debug now c found "is" rule: inactive_ids.induct) (auto simp: Let_def split: option.splits)

lemma inactive_ids_found: "set found \<subseteq> set (inactive_ids debug now c found is)"
  by (induction debug now c found "is" rule: inactive_ids.induct) (auto simp: Let_def split: option.splits)

lemma inactive_ids_complete:
  "length (inactive_ids debug now c found is) \<le> 5 \<Longrightarrow> i \<in> set is \<Longrightarrow> gc_groups c i = Some g \<Longrightarrow>
     is_inactive debug now g \<Longrightarrow> i \<in> set (inactive_ids debug now c found is)"
  by (induction debug now c found "is" rule: inactive_ids.induct)
    (use inactive_ids_found in \<open>force simp: Let_def split: option.splits if_splits\<close>)+

lemma cache_ok_fold_remove: "cache_ok c \<Longrightarrow> cache_ok (fold (\<lambda>i. remove_group (free i) i) is c)"
  by (induction "is" arbitrary: c) (simp_all add: preserves)

lemma cache_ok_tick [preserves]: "cache_ok c \<Longrightarrow> cache_ok (gc_tick debug gf free now ids c)"
  unfolding gc_tick_def by (rule cache_ok_fold_remove)

lemma fold_remove_groups:
  "gc_groups (fold (\<lambda>i. remove_group (free i) i) is c) j =
     (if \<exists>i \<in> set is. free i \<and> i = j then None else gc_groups c j)"
  by (induction "is" arbitrary: c) (auto simp: frame)

lemma task_of_fold_remove:
  "task_of (fold (\<lambda>i. remove_group (free i) i) is c) j v =
     (if \<exists>i \<in> set is. free i \<and> i = j then None else task_of c j v)"
  by (simp add: task_of_def fold_remove_groups)

lemma fold_remove_flushed:
  "set (gc_flushed c) \<subseteq> set (gc_flushed (fold (\<lambda>i. remove_group (free i) i) is c))"
proof (induction "is" arbitrary: c)
  case (Cons i js)
  have "set (gc_flushed c) \<subseteq> set (gc_flushed (remove_group (free i) i c))"
    unfolding frame set_append by (rule Un_upper1)
  with Cons.IH [of "remove_group (free i) i c"] show ?case by simp
qed simp

lemma fold_remove_flushes:
  "gc_groups c j = Some g \<Longrightarrow> j \<in> set is \<Longrightarrow> free j \<Longrightarrow>
   (j, gr_doc g) \<in> set (gc_flushed (fold (\<lambda>i. remove_group (free i) i) is c))"
proof (induction "is" arbitrary: c)
  case (Cons i js)
  show ?case
  proof (cases "i = j")
    case True
    have "(j, gr_doc g) \<in> set (gc_flushed (remove_group (free i) i c))"
      using True Cons.prems by (simp add: frame)
    then show ?thesis using fold_remove_flushed by fastforce
  next
    case False
    then show ?thesis using Cons.IH [of "remove_group (free i) i c"] Cons.prems by (simp add: frame)
  qed
qed simp

end
