(* ===== verification/Enforcer.thy ===== *)
theory Enforcer
  imports Dto
begin

section \<open>The permission enforcer\<close>

text \<open>
  \<open>src/biz/casbin/access_control.rs\<close>, \<open>enforcer.rs\<close> and \<open>adapter.rs\<close>: the objects and actions of a
  policy, the enforcer with its two caches, and the rules loaded from the database. The casbin
  engine is third-party code: its state is the type \<open>'e\<close> and its operations are the parameter
  \<open>casbin_api\<close>; \<open>casbin_ok\<close> states what they do to the rules.
\<close>

subsection \<open>Objects and actions\<close>

datatype object_type = ObjWorkspace string | ObjCollab string

fun to_object_id :: "object_type \<Rightarrow> string" where
  "to_object_id (ObjCollab s) = ''collab::'' @ s"
| "to_object_id (ObjWorkspace s) = ''workspace::'' @ s"

datatype action_type = ActRole af_role | ActLevel af_access_level

datatype action = ActionRead | ActionWrite | ActionDelete

fun action_str :: "action \<Rightarrow> string" where
  "action_str ActionRead = ''read''"
| "action_str ActionWrite = ''write''"
| "action_str ActionDelete = ''delete''"

definition level_to_action :: "af_access_level \<Rightarrow> string" where
  "level_to_action l = show_int (i32_of_level l)"

definition level_from_action :: "string \<Rightarrow> af_access_level" where
  "level_from_action a = level_of_str a"

definition role_to_action :: "af_role \<Rightarrow> string" where
  "role_to_action r = show_int (i32_of_role r)"

definition role_from_action :: "string \<Rightarrow> af_role" where
  "role_from_action a = role_of_str a"

fun action_type_str :: "action_type \<Rightarrow> string" where
  "action_type_str (ActRole role) = role_to_action role"
| "action_type_str (ActLevel level) = level_to_action level"

text \<open>\<open>{:?}\<close> of the two types, for the error message.\<close>

fun debug_object :: "object_type \<Rightarrow> string" where
  "debug_object (ObjWorkspace s) = ''Workspace('' @ [CHR 0x22] @ s @ [CHR 0x22] @ '')''"
| "debug_object (ObjCollab s) = ''Collab('' @ [CHR 0x22] @ s @ [CHR 0x22] @ '')''"

fun debug_action_type :: "action_type \<Rightarrow> string" where
  "debug_action_type (ActRole Owner) = ''Role(Owner)''"
| "debug_action_type (ActRole Member) = ''Role(Member)''"
| "debug_action_type (ActRole Guest) = ''Role(Guest)''"
| "debug_action_type (ActLevel ReadOnly) = ''Level(ReadOnly)''"
| "debug_action_type (ActLevel ReadAndComment) = ''Level(ReadAndComment)''"
| "debug_action_type (ActLevel ReadAndWrite) = ''Level(ReadAndWrite)''"
| "debug_action_type (ActLevel FullAccess) = ''Level(FullAccess)''"

fun validate_obj_action :: "object_type \<Rightarrow> action_type \<Rightarrow> app_error + unit" where
  "validate_obj_action (ObjWorkspace _) (ActRole _) = Inr ()"
| "validate_obj_action (ObjCollab _) (ActLevel _) = Inr ()"
| "validate_obj_action obj act =
     Inl (Internal (''invalid object type and action type combination: object='' @ debug_object obj @
                    '', action='' @ debug_action_type act))"

subsection \<open>The casbin engine\<close>

type_synonym rule = "string list"

definition POLICY_FIELD_INDEX_USER :: nat where "POLICY_FIELD_INDEX_USER = 0"
definition POLICY_FIELD_INDEX_OBJECT :: nat where "POLICY_FIELD_INDEX_OBJECT = 1"
definition POLICY_FIELD_INDEX_ACTION :: nat where "POLICY_FIELD_INDEX_ACTION = 2"

lemmas policy_field_defs = POLICY_FIELD_INDEX_USER_def POLICY_FIELD_INDEX_OBJECT_def
  POLICY_FIELD_INDEX_ACTION_def

record 'e casbin_api =
  cb_all_objects :: "'e \<Rightarrow> string list"
  cb_filtered :: "'e \<Rightarrow> nat \<Rightarrow> string list \<Rightarrow> rule list"
  cb_add :: "'e \<Rightarrow> rule \<Rightarrow> 'e \<times> (string + bool)"
  cb_remove :: "'e \<Rightarrow> rule list \<Rightarrow> 'e \<times> (string + bool)"
  cb_enforce :: "'e \<Rightarrow> string list \<Rightarrow> string + bool"

text \<open>
  The documented behaviour of the management and enforcement calls, for an engine whose policy rules
  are \<open>pol e\<close>, whose groupings \<open>g\<close> are \<open>grp e\<close> and that has no grouping \<open>g2\<close>. The decision is the
  matcher of \<open>MODEL_CONF\<close>: equal subject, equal object, and the action of the rule is the requested
  one or is grouped to it. (Groupings do not chain here: no action of the program is a role.) An
  adapter that always accepts, as \<open>PgAdapter\<close>, lets every change through.
\<close>

definition casbin_ok ::
    "'e casbin_api \<Rightarrow> ('e \<Rightarrow> rule list) \<Rightarrow> ('e \<Rightarrow> rule list) \<Rightarrow> bool" where
  "casbin_ok api pol grp \<longleftrightarrow>
     (\<forall>e. set (cb_all_objects api e) = (\<lambda>p. p ! 1) ` set (pol e)) \<and>
     (\<forall>e i v. v \<noteq> [] \<longrightarrow> cb_filtered api e i [v] = filter (\<lambda>p. p ! i = v) (pol e)) \<and>
     (\<forall>e p. pol (fst (cb_add api e p)) = (if p \<in> set (pol e) then pol e else pol e @ [p]) \<and>
            grp (fst (cb_add api e p)) = grp e \<and> snd (cb_add api e p) = Inr (p \<notin> set (pol e))) \<and>
     (\<forall>e ps. set ps \<subseteq> set (pol e) \<longrightarrow>
            pol (fst (cb_remove api e ps)) = filter (\<lambda>p. p \<notin> set ps) (pol e) \<and>
            grp (fst (cb_remove api e ps)) = grp e \<and> snd (cb_remove api e ps) = Inr True) \<and>
     (\<forall>e s obj a. cb_enforce api e [s, obj, a] =
            Inr (\<exists>p \<in> set (pol e). p ! 0 = s \<and> p ! 1 = obj \<and> (p ! 2 = a \<or> [p ! 2, a] \<in> set (grp e))))"

subsection \<open>The enforcer\<close>

record 'e af_enforcer =
  en_casbin :: 'e
  en_result_cache :: "string \<rightharpoonup> bool"
  en_action_cache :: "string \<rightharpoonup> string"

definition af_enforcer_new :: "'e \<Rightarrow> 'e af_enforcer" where
  "af_enforcer_new c = \<lparr>en_casbin = c, en_result_cache = Map.empty, en_action_cache = Map.empty\<rparr>"

fun join_colon :: "string list \<Rightarrow> string" where
  "join_colon [] = []"
| "join_colon [s] = s"
| "join_colon (s # t # r) = s @ '':'' @ join_colon (t # r)"

definition cache_policy_key :: "rule \<Rightarrow> string" where
  "cache_policy_key policy = join_colon policy"

definition cache_object_key :: "i64 \<Rightarrow> object_type \<Rightarrow> string" where
  "cache_object_key uid obj = show_int uid @ '':'' @ to_object_id obj"

definition en_contains :: "'e casbin_api \<Rightarrow> 'e af_enforcer \<Rightarrow> object_type \<Rightarrow> bool" where
  "en_contains api e obj \<longleftrightarrow> to_object_id obj \<in> set (cb_all_objects api (en_casbin e))"

definition en_remove ::
    "'e casbin_api \<Rightarrow> 'e af_enforcer \<Rightarrow> i64 \<Rightarrow> object_type \<Rightarrow> 'e af_enforcer \<times> (app_error + rule list)" where
  "en_remove api e uid obj =
     (let related = cb_filtered api (en_casbin e) POLICY_FIELD_INDEX_OBJECT [to_object_id obj];
          ps = filter (\<lambda>p. p ! POLICY_FIELD_INDEX_USER = show_int uid) related in
      if ps = [] then (e, Inr [])
      else
        case cb_remove api (en_casbin e) ps of
          (c, Inl err) \<Rightarrow> (e\<lparr>en_casbin := c\<rparr>, Inl (Internal (''casbin error enforce: '' @ err)))
        | (c, Inr _) \<Rightarrow>
            (e\<lparr>en_casbin := c,
               en_action_cache := (en_action_cache e)(cache_object_key uid obj := None),
               en_result_cache :=
                 fold (\<lambda>p m. m(cache_policy_key p := None)) ps (en_result_cache e)\<rparr>, Inr ps))"

definition en_update ::
    "'e casbin_api \<Rightarrow> 'e af_enforcer \<Rightarrow> i64 \<Rightarrow> object_type \<Rightarrow> action_type \<Rightarrow>
     'e af_enforcer \<times> (app_error + bool)" where
  "en_update api e uid obj act =
     (case validate_obj_action obj act of
        Inl err \<Rightarrow> (e, Inl err)
      | Inr _ \<Rightarrow>
          let policy = [show_int uid, to_object_id obj, action_type_str act] in
          case en_result_cache e (cache_policy_key policy) of
            Some v \<Rightarrow> (e, Inr v)
          | None \<Rightarrow>
              (case en_remove api e uid obj of
                 (e1, Inl err) \<Rightarrow> (e1, Inl err)
               | (e1, Inr _) \<Rightarrow>
                   (case cb_add api (en_casbin e1) policy of
                      (c, Inl err) \<Rightarrow>
                        (e1\<lparr>en_casbin := c\<rparr>, Inl (Internal (''fail to add policy: '' @ err)))
                    | (c, Inr b) \<Rightarrow>
                        (e1\<lparr>en_casbin := c,
                            en_action_cache :=
                              (en_action_cache e1)(cache_object_key uid obj \<mapsto> action_type_str act)\<rparr>,
                         Inr b))))"

definition en_enforce ::
    "'e casbin_api \<Rightarrow> 'e af_enforcer \<Rightarrow> i64 \<Rightarrow> object_type \<Rightarrow> string \<Rightarrow>
     'e af_enforcer \<times> (app_error + bool)" where
  "en_enforce api e uid obj act =
     (let policy = [show_int uid, to_object_id obj, act]; key = cache_policy_key policy in
      case en_result_cache e key of
        Some v \<Rightarrow> (e, Inr v)
      | None \<Rightarrow>
          (case cb_enforce api (en_casbin e) policy of
             Inl err \<Rightarrow> (e, Inl (Internal (''casbin error enforce: '' @ err)))
           | Inr r \<Rightarrow> (e\<lparr>en_result_cache := (en_result_cache e)(key \<mapsto> r)\<rparr>, Inr r)))"

definition en_get_action ::
    "'e casbin_api \<Rightarrow> 'e af_enforcer \<Rightarrow> i64 \<Rightarrow> object_type \<Rightarrow> 'e af_enforcer \<times> string option" where
  "en_get_action api e uid obj =
     (let key = cache_object_key uid obj in
      case en_action_cache e key of
        Some v \<Rightarrow> (e, Some v)
      | None \<Rightarrow>
          (case find (\<lambda>p. p ! POLICY_FIELD_INDEX_USER = show_int uid)
                  (cb_filtered api (en_casbin e) POLICY_FIELD_INDEX_OBJECT [to_object_id obj]) of
             None \<Rightarrow> (e, None)
           | Some p \<Rightarrow>
               (e\<lparr>en_action_cache := (en_action_cache e)(key \<mapsto> p ! POLICY_FIELD_INDEX_ACTION)\<rparr>,
                Some (p ! POLICY_FIELD_INDEX_ACTION))))"

subsection \<open>The wrapper \<open>AccessControl\<close>\<close>

text \<open>A lock around the enforcer; each call is one critical section.\<close>

definition ac_remove ::
    "'e casbin_api \<Rightarrow> 'e af_enforcer \<Rightarrow> i64 \<Rightarrow> object_type \<Rightarrow> 'e af_enforcer \<times> (app_error + unit)" where
  "ac_remove api e uid obj =
     (case en_remove api e uid obj of
        (e1, Inl err) \<Rightarrow> (e1, Inl err)
      | (e1, Inr _) \<Rightarrow> (e1, Inr ()))"

definition get_access_level ::
    "'e casbin_api \<Rightarrow> 'e af_enforcer \<Rightarrow> i64 \<Rightarrow> string \<Rightarrow> 'e af_enforcer \<times> af_access_level option" where
  "get_access_level api e uid oid =
     (let (e1, r) = en_get_action api e uid (ObjCollab oid) in (e1, map_option level_from_action r))"

definition get_role ::
    "'e casbin_api \<Rightarrow> 'e af_enforcer \<Rightarrow> i64 \<Rightarrow> string \<Rightarrow> 'e af_enforcer \<times> af_role option" where
  "get_role api e uid workspace_id =
     (let (e1, r) = en_get_action api e uid (ObjWorkspace workspace_id) in
      (e1, map_option role_from_action r))"

subsection \<open>The adapter\<close>

record collab_member_level_row =
  cml_uid :: i64
  cml_oid :: string
  cml_access_level :: af_access_level

record workspace_member_perm_row =
  wmp_uid :: i64
  wmp_role :: af_role
  wmp_workspace_id :: string

fun create_collab_policies :: "(string + collab_member_level_row) list \<Rightarrow> string + rule list" where
  "create_collab_policies [] = Inr []"
| "create_collab_policies (Inl err # rs) = Inl err"
| "create_collab_policies (Inr r # rs) =
     res_bind (create_collab_policies rs) (\<lambda>ps.
       Inr ([show_int (cml_uid r), to_object_id (ObjCollab (cml_oid r)),
             level_to_action (cml_access_level r)] # ps))"

fun create_workspace_policies :: "(string + workspace_member_perm_row) list \<Rightarrow> string + rule list" where
  "create_workspace_policies [] = Inr []"
| "create_workspace_policies (Inl err # rs) = Inl err"
| "create_workspace_policies (Inr r # rs) =
     res_bind (create_workspace_policies rs) (\<lambda>ps.
       Inr ([show_int (wmp_uid r), to_object_id (ObjWorkspace (wmp_workspace_id r)),
             role_to_action (wmp_role r)] # ps))"

definition grouping_policies :: "rule list" where
  "grouping_policies =
     concat (map (\<lambda>level.
       [[show_int (i32_of_level level), action_str ActionRead]] @
       (if can_write level then [[show_int (i32_of_level level), action_str ActionWrite]] else []) @
       (if can_delete level then [[show_int (i32_of_level level), action_str ActionDelete]] else []))
     [ReadOnly, ReadAndComment, ReadAndWrite, FullAccess])"

text \<open>\<open>load_policy\<close>: the calls of \<open>model.add_policies\<close> in order, and the result.\<close>

definition load_policy ::
    "(string + workspace_member_perm_row) list \<Rightarrow> (string + collab_member_level_row) list \<Rightarrow>
     (string \<times> string \<times> rule list) list \<times> (string + unit)" where
  "load_policy ws cs =
     (case create_workspace_policies ws of
        Inl err \<Rightarrow> ([], Inl err)
      | Inr wps \<Rightarrow>
          (case create_collab_policies cs of
             Inl err \<Rightarrow> ([(''p'', ''p'', wps)], Inl err)
           | Inr cps \<Rightarrow>
               ([(''p'', ''p'', wps), (''p'', ''p'', cps), (''g'', ''g'', grouping_policies)], Inr ())))"

subsection \<open>Keys\<close>

lemma to_object_id_inject [simp]: "to_object_id a = to_object_id b \<longleftrightarrow> a = b"
  by (cases a; cases b) auto

lemma to_object_id_nonempty [simp]: "to_object_id obj \<noteq> []"
  by (cases obj) auto

lemma cache_object_key_inject [simp]:
  "cache_object_key u a = cache_object_key v b \<longleftrightarrow> u = v \<and> a = b"
  using append_colon_inject [of "show_int u" "to_object_id a" "show_int v" "to_object_id b"]
  by (auto simp: cache_object_key_def)

lemma cache_policy_key_inject:
  assumes "CHR '':'' \<notin> set a" and "CHR '':'' \<notin> set b"
  shows "cache_policy_key [show_int u, to_object_id o1, a] = cache_policy_key [show_int v, to_object_id o2, b]
    \<longleftrightarrow> u = v \<and> o1 = o2 \<and> a = b"
proof
  assume "cache_policy_key [show_int u, to_object_id o1, a] = cache_policy_key [show_int v, to_object_id o2, b]"
  then have e: "show_int u @ CHR '':'' # (to_object_id o1 @ CHR '':'' # a) =
      show_int v @ CHR '':'' # (to_object_id o2 @ CHR '':'' # b)"
    by (simp add: cache_policy_key_def)
  from append_colon_inject [OF e] have "show_int u = show_int v"
    and r: "to_object_id o1 @ CHR '':'' # a = to_object_id o2 @ CHR '':'' # b" by simp_all
  moreover from append_colon_inject_last [OF r assms] have "to_object_id o1 = to_object_id o2 \<and> a = b" .
  ultimately show "u = v \<and> o1 = o2 \<and> a = b" by simp
qed simp

lemma action_str_no_colon [simp]: "CHR '':'' \<notin> set (action_str a)"
  by (cases a) auto

lemma action_type_str_no_colon [simp]: "CHR '':'' \<notin> set (action_type_str t)"
  by (cases t) (auto simp: role_to_action_def level_to_action_def)

lemma level_to_action_simps [simp]:
  "level_to_action ReadOnly = ''10''" "level_to_action ReadAndComment = ''20''"
  "level_to_action ReadAndWrite = ''30''" "level_to_action FullAccess = ''50''"
  "role_to_action Owner = ''1''" "role_to_action Member = ''2''" "role_to_action Guest = ''3''"
  unfolding level_to_action_def role_to_action_def by code_simp+

lemma level_from_to_action [simp]: "level_from_action (level_to_action l) = l"
  by (simp add: level_from_action_def level_to_action_def)

lemma role_from_to_action [simp]: "role_from_action (role_to_action r) = r"
  by (simp add: role_from_action_def role_to_action_def)

lemma action_str_not_type [simp]: "action_str a \<noteq> action_type_str t"
proof (cases t)
  case (ActRole r)
  then show ?thesis by (cases a; cases r) simp_all
next
  case (ActLevel l)
  then show ?thesis by (cases a; cases l) simp_all
qed

subsection \<open>The rules of a user on an object\<close>

definition user_rules :: "rule list \<Rightarrow> i64 \<Rightarrow> object_type \<Rightarrow> rule list" where
  "user_rules ps uid obj = filter (\<lambda>p. p ! 0 = show_int uid \<and> p ! 1 = to_object_id obj) ps"

definition permission_of :: "('e \<Rightarrow> rule list) \<Rightarrow> 'e af_enforcer \<Rightarrow> i64 \<Rightarrow> object_type \<Rightarrow> string option" where
  "permission_of pol e uid obj =
     (case user_rules (pol (en_casbin e)) uid obj of [] \<Rightarrow> None | p # _ \<Rightarrow> Some (p ! 2))"

text \<open>
  The invariant: rules have three fields, a user has at most one rule on an object, the action cache
  agrees with the rules, and only decisions on \<open>read\<close>, \<open>write\<close> and \<open>delete\<close> are cached.
\<close>

definition enforcer_ok :: "('e \<Rightarrow> rule list) \<Rightarrow> 'e af_enforcer \<Rightarrow> bool" where
  "enforcer_ok pol e \<longleftrightarrow>
     (\<forall>p \<in> set (pol (en_casbin e)). length p = 3) \<and>
     (\<forall>uid obj. length (user_rules (pol (en_casbin e)) uid obj) \<le> 1) \<and>
     (\<forall>uid obj a. en_action_cache e (cache_object_key uid obj) = Some a \<longrightarrow>
        permission_of pol e uid obj = Some a) \<and>
     (\<forall>k \<in> dom (en_result_cache e). \<exists>uid obj a. k = cache_policy_key [show_int uid, to_object_id obj, action_str a])"

lemma user_rules_self [simp]:
  "user_rules [[show_int u, to_object_id obj, a]] u' obj' =
     (if u = u' \<and> obj = obj' then [[show_int u, to_object_id obj, a]] else [])"
  by (auto simp: user_rules_def)

lemma user_rules_Nil [simp]: "user_rules [] u obj = []"
  by (simp add: user_rules_def)

lemma user_rules_append [simp]: "user_rules (xs @ ys) u obj = user_rules xs u obj @ user_rules ys u obj"
  by (simp add: user_rules_def)

lemma filter_Cons_hd: "filter P xs = y # ys \<Longrightarrow> P y"
  by (metis filter_eq_ConsD)

lemma user_rules_removed:
  "user_rules (filter (\<lambda>p. p \<notin> set (user_rules ps u obj)) ps) u' obj' =
     (if u = u' \<and> obj = obj' then [] else user_rules ps u' obj')"
  unfolding user_rules_def filter_filter
  by (cases "u = u' \<and> obj = obj'") (auto intro!: filter_cong simp: filter_empty_conv)

lemma casbin_okD:
  assumes "casbin_ok api pol grp"
  shows "v \<noteq> [] \<Longrightarrow> cb_filtered api e i [v] = filter (\<lambda>p. p ! i = v) (pol e)"
    and "pol (fst (cb_add api e p)) = (if p \<in> set (pol e) then pol e else pol e @ [p])"
    and "grp (fst (cb_add api e p)) = grp e" and "snd (cb_add api e p) = Inr (p \<notin> set (pol e))"
    and "set ps \<subseteq> set (pol e) \<Longrightarrow> pol (fst (cb_remove api e ps)) = filter (\<lambda>p. p \<notin> set ps) (pol e)"
    and "set ps \<subseteq> set (pol e) \<Longrightarrow> grp (fst (cb_remove api e ps)) = grp e"
    and "set ps \<subseteq> set (pol e) \<Longrightarrow> snd (cb_remove api e ps) = Inr True"
    and "cb_enforce api e [s, ob, a] =
      Inr (\<exists>p \<in> set (pol e). p ! 0 = s \<and> p ! 1 = ob \<and> (p ! 2 = a \<or> [p ! 2, a] \<in> set (grp e)))"
    and "set (cb_all_objects api e) = (\<lambda>p. p ! 1) ` set (pol e)"
  using assms unfolding casbin_ok_def by auto

lemma object_rules_of_user:
  assumes "casbin_ok api pol grp"
  shows "filter (\<lambda>p. p ! POLICY_FIELD_INDEX_USER = show_int uid)
      (cb_filtered api c POLICY_FIELD_INDEX_OBJECT [to_object_id obj]) = user_rules (pol c) uid obj"
  by (simp add: casbin_okD [OF assms] user_rules_def policy_field_defs conj_commute)

subsection \<open>Removing and updating a permission\<close>

lemma fold_remove_keys:
  "fold (\<lambda>p m. m(f p := None)) ps m k = (if k \<in> f ` set ps then None else m k)"
  by (induction ps arbitrary: m) auto

lemma en_remove_result:
  assumes api: "casbin_ok api pol grp"
  shows "snd (en_remove api e uid obj) = Inr (user_rules (pol (en_casbin e)) uid obj)"
    and "pol (en_casbin (fst (en_remove api e uid obj))) =
      filter (\<lambda>p. p \<notin> set (user_rules (pol (en_casbin e)) uid obj)) (pol (en_casbin e))"
    and "grp (en_casbin (fst (en_remove api e uid obj))) = grp (en_casbin e)"
    and "en_action_cache (fst (en_remove api e uid obj)) =
      (if user_rules (pol (en_casbin e)) uid obj = [] then en_action_cache e
       else (en_action_cache e)(cache_object_key uid obj := None))"
    and "en_result_cache (fst (en_remove api e uid obj)) =
      (\<lambda>k. if k \<in> cache_policy_key ` set (user_rules (pol (en_casbin e)) uid obj) then None
           else en_result_cache e k)"
proof -
  let ?ps = "user_rules (pol (en_casbin e)) uid obj"
  have sub: "set ?ps \<subseteq> set (pol (en_casbin e))" by (auto simp: user_rules_def)
  have r: "en_remove api e uid obj =
    (if ?ps = [] then (e, Inr [])
     else (e\<lparr>en_casbin := fst (cb_remove api (en_casbin e) ?ps),
             en_action_cache := (en_action_cache e)(cache_object_key uid obj := None),
             en_result_cache := fold (\<lambda>p m. m(cache_policy_key p := None)) ?ps (en_result_cache e)\<rparr>, Inr ?ps))"
    using casbin_okD(7) [OF api sub]
    by (cases "cb_remove api (en_casbin e) ?ps")
      (simp add: en_remove_def object_rules_of_user [OF api] Let_def)
  have keep: "filter (\<lambda>p. p \<notin> set ?ps) (pol (en_casbin e)) = pol (en_casbin e)" if "?ps = []"
    using that by simp
  show "snd (en_remove api e uid obj) = Inr ?ps" by (simp add: r)
  show "pol (en_casbin (fst (en_remove api e uid obj))) =
      filter (\<lambda>p. p \<notin> set ?ps) (pol (en_casbin e))"
    using casbin_okD(5) [OF api sub] by (simp add: r)
  show "grp (en_casbin (fst (en_remove api e uid obj))) = grp (en_casbin e)"
    using casbin_okD(6) [OF api sub] by (simp add: r)
  show "en_action_cache (fst (en_remove api e uid obj)) =
      (if ?ps = [] then en_action_cache e else (en_action_cache e)(cache_object_key uid obj := None))"
    by (simp add: r)
  show "en_result_cache (fst (en_remove api e uid obj)) =
      (\<lambda>k. if k \<in> cache_policy_key ` set ?ps then None else en_result_cache e k)"
    by (auto simp: r fold_remove_keys)
qed

lemma permission_remove:
  assumes "casbin_ok api pol grp"
  shows "permission_of pol (fst (en_remove api e uid obj)) u ob =
    (if uid = u \<and> obj = ob then None else permission_of pol e u ob)"
  by (simp add: permission_of_def en_remove_result [OF assms] user_rules_removed)

lemma enforcer_okD:
  assumes "enforcer_ok pol e"
  shows "p \<in> set (pol (en_casbin e)) \<Longrightarrow> length p = 3"
    and "length (user_rules (pol (en_casbin e)) uid obj) \<le> 1"
    and "en_action_cache e (cache_object_key uid obj) = Some a \<Longrightarrow> permission_of pol e uid obj = Some a"
    and "k \<in> dom (en_result_cache e) \<Longrightarrow>
      \<exists>uid obj a. k = cache_policy_key [show_int uid, to_object_id obj, action_str a]"
  using assms unfolding enforcer_ok_def by blast+

lemma enforcer_okI:
  assumes "\<And>p. p \<in> set (pol (en_casbin e)) \<Longrightarrow> length p = 3"
    and "\<And>uid obj. length (user_rules (pol (en_casbin e)) uid obj) \<le> 1"
    and "\<And>uid obj a. en_action_cache e (cache_object_key uid obj) = Some a \<Longrightarrow>
      permission_of pol e uid obj = Some a"
    and "\<And>k. k \<in> dom (en_result_cache e) \<Longrightarrow>
      \<exists>uid obj a. k = cache_policy_key [show_int uid, to_object_id obj, action_str a]"
  shows "enforcer_ok pol e"
  using assms unfolding enforcer_ok_def by blast

lemma enforcer_ok_remove [preserves]:
  assumes api: "casbin_ok api pol grp" and ok: "enforcer_ok pol e"
  shows "enforcer_ok pol (fst (en_remove api e uid obj))"
proof (rule enforcer_okI)
  let ?e = "fst (en_remove api e uid obj)"
  fix u ob a
  show "length (user_rules (pol (en_casbin ?e)) u ob) \<le> 1"
    using enforcer_okD(2) [OF ok] by (simp add: en_remove_result [OF api] user_rules_removed)
  assume c: "en_action_cache ?e (cache_object_key u ob) = Some a"
  have "user_rules (pol (en_casbin e)) uid obj = [] \<Longrightarrow> permission_of pol e uid obj = None"
    by (simp add: permission_of_def)
  with c enforcer_okD(3) [OF ok, of u ob a] show "permission_of pol ?e u ob = Some a"
    by (auto simp: en_remove_result [OF api] permission_remove [OF api] split: if_splits)
next
  fix k assume "k \<in> dom (en_result_cache (fst (en_remove api e uid obj)))"
  then have "k \<in> dom (en_result_cache e)" by (auto simp: en_remove_result [OF api] split: if_splits)
  then show "\<exists>uid obj a. k = cache_policy_key [show_int uid, to_object_id obj, action_str a]"
    by (rule enforcer_okD(4) [OF ok])
qed (use enforcer_okD(1) [OF ok] in \<open>auto simp: en_remove_result [OF api]\<close>)

text \<open>Under the invariant an update never finds its policy among the cached decisions.\<close>

lemma update_not_cached:
  assumes "enforcer_ok pol e"
  shows "en_result_cache e (cache_policy_key [show_int uid, to_object_id obj, action_type_str act]) = None"
proof (rule ccontr)
  assume "en_result_cache e (cache_policy_key [show_int uid, to_object_id obj, action_type_str act]) \<noteq> None"
  with assms obtain u ob a where
    "cache_policy_key [show_int uid, to_object_id obj, action_type_str act] =
     cache_policy_key [show_int u, to_object_id ob, action_str a]"
    unfolding enforcer_ok_def by blast
  then show False by (metis cache_policy_key_inject action_str_no_colon action_type_str_no_colon action_str_not_type)
qed

lemma en_update_invalid: "validate_obj_action obj act = Inl err \<Longrightarrow> en_update api e uid obj act = (e, Inl err)"
  by (simp add: en_update_def)

lemma en_update_valid:
  fixes uid :: i64
  assumes api: "casbin_ok api pol grp" and ok: "enforcer_ok pol e"
    and v: "validate_obj_action obj act = Inr ()"
  defines "policy \<equiv> [show_int uid, to_object_id obj, action_type_str act]"
  defines "e1 \<equiv> fst (en_remove api e uid obj)"
  shows "en_update api e uid obj act =
    (e1\<lparr>en_casbin := fst (cb_add api (en_casbin e1) policy),
        en_action_cache := (en_action_cache e1)(cache_object_key uid obj \<mapsto> action_type_str act)\<rparr>, Inr True)"
    and "pol (fst (cb_add api (en_casbin e1) policy)) = pol (en_casbin e1) @ [policy]"
proof -
  have "user_rules (pol (en_casbin e1)) uid obj = []"
    by (simp add: e1_def en_remove_result [OF api] user_rules_removed)
  then have new: "policy \<notin> set (pol (en_casbin e1))"
    by (auto simp: user_rules_def policy_def filter_empty_conv)
  then show "pol (fst (cb_add api (en_casbin e1) policy)) = pol (en_casbin e1) @ [policy]"
    by (simp add: casbin_okD [OF api])
  have r: "en_remove api e uid obj = (e1, Inr (user_rules (pol (en_casbin e)) uid obj))"
    using en_remove_result(1) [OF api, of e uid obj] by (cases "en_remove api e uid obj") (simp add: e1_def)
  obtain c where c: "cb_add api (en_casbin e1) policy = (c, Inr True)"
    using new casbin_okD(4) [OF api, of "en_casbin e1" policy]
    by (cases "cb_add api (en_casbin e1) policy") simp
  have n: "en_result_cache e (cache_policy_key policy) = None"
    unfolding policy_def by (rule update_not_cached [OF ok])
  show "en_update api e uid obj act =
    (e1\<lparr>en_casbin := fst (cb_add api (en_casbin e1) policy),
        en_action_cache := (en_action_cache e1)(cache_object_key uid obj \<mapsto> action_type_str act)\<rparr>, Inr True)"
    using v r n c by (simp add: en_update_def Let_def policy_def [symmetric])
qed

lemma permission_update:
  assumes api: "casbin_ok api pol grp" and ok: "enforcer_ok pol e"
  shows "permission_of pol (fst (en_update api e uid obj act)) u ob =
    (if is_ok (validate_obj_action obj act) \<and> uid = u \<and> obj = ob then Some (action_type_str act)
     else permission_of pol e u ob)"
proof (cases "validate_obj_action obj act")
  case (Inl err)
  then show ?thesis by (simp add: en_update_invalid)
next
  case (Inr x)
  then have v: "validate_obj_action obj act = Inr ()" by simp
  have empty: "user_rules (pol (en_casbin (fst (en_remove api e uid obj)))) uid obj = []"
    by (simp add: en_remove_result [OF api] user_rules_removed)
  have pu: "pol (en_casbin (fst (en_update api e uid obj act))) =
      pol (en_casbin (fst (en_remove api e uid obj))) @ [[show_int uid, to_object_id obj, action_type_str act]]"
    by (simp add: en_update_valid [OF api ok v])
  show ?thesis
  proof (cases "uid = u \<and> obj = ob")
    case True
    then have [simp]: "u = uid" "ob = obj" by simp_all
    show ?thesis using empty by (simp add: permission_of_def pu v)
  next
    case False
    then have "permission_of pol (fst (en_update api e uid obj act)) u ob =
        permission_of pol (fst (en_remove api e uid obj)) u ob"
      by (auto simp: permission_of_def pu)
    with False show ?thesis by (auto simp: permission_remove [OF api])
  qed
qed

lemma enforcer_ok_update [preserves]:
  assumes api: "casbin_ok api pol grp" and ok: "enforcer_ok pol e"
  shows "enforcer_ok pol (fst (en_update api e uid obj act))"
proof (cases "validate_obj_action obj act")
  case (Inl err)
  with ok show ?thesis by (simp add: en_update_invalid)
next
  case (Inr x)
  then have v: "validate_obj_action obj act = Inr ()" by simp
  note u = en_update_valid [OF api ok v]
  have ok1: "enforcer_ok pol (fst (en_remove api e uid obj))" by (rule enforcer_ok_remove [OF api ok])
  have empty: "user_rules (pol (en_casbin (fst (en_remove api e uid obj)))) uid obj = []"
    by (simp add: en_remove_result [OF api] user_rules_removed)
  show ?thesis
  proof (rule enforcer_okI)
    fix u' ob a
    show "length (user_rules (pol (en_casbin (fst (en_update api e uid obj act)))) u' ob) \<le> 1"
      using empty enforcer_okD(2) [OF ok1, of u' ob] by (auto simp: u)
    assume c: "en_action_cache (fst (en_update api e uid obj act)) (cache_object_key u' ob) = Some a"
    show "permission_of pol (fst (en_update api e uid obj act)) u' ob = Some a"
    proof (cases "uid = u' \<and> obj = ob")
      case True
      then have [simp]: "u' = uid" "ob = obj" by simp_all
      from c show ?thesis by (simp add: permission_update [OF api ok] v) (simp add: u)
    next
      case False
      with c have "en_action_cache (fst (en_remove api e uid obj)) (cache_object_key u' ob) = Some a"
        by (auto simp: u split: if_splits)
      then have "permission_of pol (fst (en_remove api e uid obj)) u' ob = Some a"
        by (rule enforcer_okD(3) [OF ok1])
      with False show ?thesis by (auto simp: permission_update [OF api ok] permission_remove [OF api])
    qed
  next
    fix k assume "k \<in> dom (en_result_cache (fst (en_update api e uid obj act)))"
    then show "\<exists>uid obj a. k = cache_policy_key [show_int uid, to_object_id obj, action_str a]"
      by (intro enforcer_okD(4) [OF ok1]) (simp add: u)
  qed (use enforcer_okD(1) [OF ok1] in \<open>auto simp: u\<close>)
qed

subsection \<open>Decisions and the current action\<close>

lemma enforce_keeps_rules [frame]:
  "en_casbin (fst (en_enforce api e uid obj a)) = en_casbin e"
  "en_action_cache (fst (en_enforce api e uid obj a)) = en_action_cache e"
  by (auto simp: en_enforce_def Let_def split: option.splits sum.splits)

lemma permission_enforce [simp]: "permission_of pol (fst (en_enforce api e uid obj a)) = permission_of pol e"
  by (intro ext) (simp add: permission_of_def enforce_keeps_rules)

lemma enforcer_ok_enforce [preserves]:
  assumes ok: "enforcer_ok pol e"
  shows "enforcer_ok pol (fst (en_enforce api e uid obj (action_str a)))"
proof (rule enforcer_okI)
  fix k assume "k \<in> dom (en_result_cache (fst (en_enforce api e uid obj (action_str a))))"
  then have "k \<in> dom (en_result_cache e) \<or> k = cache_policy_key [show_int uid, to_object_id obj, action_str a]"
    by (auto simp: en_enforce_def Let_def split: option.splits sum.splits if_splits)
  with enforcer_okD(4) [OF ok] show "\<exists>uid obj a. k = cache_policy_key [show_int uid, to_object_id obj, action_str a]"
    by blast
qed (use enforcer_okD [OF ok] in \<open>auto simp: enforce_keeps_rules\<close>)

lemma find_filter: "find P xs = (case filter P xs of [] \<Rightarrow> None | x # _ \<Rightarrow> Some x)"
  by (induction xs) auto

lemma en_get_action_result:
  assumes api: "casbin_ok api pol grp" and ok: "enforcer_ok pol e"
  shows "snd (en_get_action api e uid obj) = permission_of pol e uid obj"
    and "fst (en_get_action api e uid obj) = e \<or>
      (\<exists>a. permission_of pol e uid obj = Some a \<and>
        fst (en_get_action api e uid obj) =
          e\<lparr>en_action_cache := (en_action_cache e)(cache_object_key uid obj \<mapsto> a)\<rparr>)"
proof -
  have f: "find (\<lambda>p. p ! POLICY_FIELD_INDEX_USER = show_int uid)
      (cb_filtered api (en_casbin e) POLICY_FIELD_INDEX_OBJECT [to_object_id obj]) =
    (case user_rules (pol (en_casbin e)) uid obj of [] \<Rightarrow> None | p # _ \<Rightarrow> Some p)"
    unfolding object_rules_of_user [OF api, symmetric] by (rule find_filter)
  show "snd (en_get_action api e uid obj) = permission_of pol e uid obj"
    using enforcer_okD(3) [OF ok, of uid obj]
    by (auto simp: en_get_action_def f permission_of_def Let_def POLICY_FIELD_INDEX_ACTION_def
        split: option.splits list.splits)
  show "fst (en_get_action api e uid obj) = e \<or>
      (\<exists>a. permission_of pol e uid obj = Some a \<and>
        fst (en_get_action api e uid obj) =
          e\<lparr>en_action_cache := (en_action_cache e)(cache_object_key uid obj \<mapsto> a)\<rparr>)"
    by (auto simp: en_get_action_def f permission_of_def Let_def POLICY_FIELD_INDEX_ACTION_def
        split: option.splits list.splits)
qed

lemma get_action_keeps [frame]:
  assumes "casbin_ok api pol grp" and "enforcer_ok pol e"
  shows "permission_of pol (fst (en_get_action api e uid obj)) = permission_of pol e"
    and "en_casbin (fst (en_get_action api e uid obj)) = en_casbin e"
    and "en_result_cache (fst (en_get_action api e uid obj)) = en_result_cache e"
  using en_get_action_result(2) [OF assms, of uid obj]
  by (auto simp: permission_of_def fun_eq_iff)

lemma enforcer_ok_get_action [preserves]:
  assumes api: "casbin_ok api pol grp" and ok: "enforcer_ok pol e"
  shows "enforcer_ok pol (fst (en_get_action api e uid obj))"
proof (rule enforcer_okI)
  fix u ob a
  assume "en_action_cache (fst (en_get_action api e uid obj)) (cache_object_key u ob) = Some a"
  then show "permission_of pol (fst (en_get_action api e uid obj)) u ob = Some a"
    using en_get_action_result(2) [OF api ok, of uid obj] enforcer_okD(3) [OF ok]
    by (auto simp: get_action_keeps [OF api ok] split: if_splits)
qed (use enforcer_okD [OF ok] in \<open>auto simp: get_action_keeps [OF api ok]\<close>)

subsection \<open>The enforcer carries out a map of permissions\<close>

datatype enforcer_event =
    Grant i64 object_type action_type
  | Revoke i64 object_type
  | Ask i64 object_type action
  | Look i64 object_type

fun enforcer_step :: "'e casbin_api \<Rightarrow> 'e af_enforcer \<Rightarrow> enforcer_event \<Rightarrow> 'e af_enforcer" where
  "enforcer_step api e (Grant uid obj act) = fst (en_update api e uid obj act)"
| "enforcer_step api e (Revoke uid obj) = fst (en_remove api e uid obj)"
| "enforcer_step api e (Ask uid obj a) = fst (en_enforce api e uid obj (action_str a))"
| "enforcer_step api e (Look uid obj) = fst (en_get_action api e uid obj)"

type_synonym permissions = "i64 \<Rightarrow> object_type \<Rightarrow> string option"

fun permissions_step :: "permissions \<Rightarrow> enforcer_event \<Rightarrow> permissions" where
  "permissions_step m (Grant uid obj act) =
     (if is_ok (validate_obj_action obj act)
      then (\<lambda>u ob. if uid = u \<and> obj = ob then Some (action_type_str act) else m u ob) else m)"
| "permissions_step m (Revoke uid obj) = (\<lambda>u ob. if uid = u \<and> obj = ob then None else m u ob)"
| "permissions_step m (Ask uid obj a) = m"
| "permissions_step m (Look uid obj) = m"

interpretation permission_store: simulation
  "enforcer_step api" "\<lambda>e ev. casbin_ok api pol grp" "enforcer_ok pol" "permission_of pol" permissions_step
  for api :: "'e casbin_api" and pol grp
proof
  fix e :: "'e af_enforcer" and ev
  assume ok: "enforcer_ok pol e" and api: "casbin_ok api pol grp"
  show "enforcer_ok pol (enforcer_step api e ev)"
    by (cases ev) (auto intro: enforcer_ok_update [OF api ok] enforcer_ok_remove [OF api ok]
        enforcer_ok_enforce [OF ok] enforcer_ok_get_action [OF api ok])
  show "permission_of pol (enforcer_step api e ev) = permissions_step (permission_of pol e) ev"
    by (cases ev) (auto simp: fun_eq_iff permission_update [OF api ok] permission_remove [OF api]
        get_action_keeps [OF api ok])
qed

lemma admissible_const: "P \<Longrightarrow> admissible (\<lambda>_ _. P) step s es"
  by (induction es arbitrary: s) auto

definition rules_ok :: "rule list \<Rightarrow> bool" where
  "rules_ok ps \<longleftrightarrow> (\<forall>p \<in> set ps. length p = 3) \<and> (\<forall>uid obj. length (user_rules ps uid obj) \<le> 1)"

lemma enforcer_ok_new: "rules_ok (pol c) \<Longrightarrow> enforcer_ok pol (af_enforcer_new c)"
  by (intro enforcer_okI) (auto simp: rules_ok_def af_enforcer_new_def)

subsection \<open>Levels and actions\<close>

fun level_permits :: "af_access_level \<Rightarrow> action \<Rightarrow> bool" where
  "level_permits l ActionRead = True"
| "level_permits l ActionWrite = can_write l"
| "level_permits l ActionDelete = can_delete l"

lemma grouping_policies_permit: "[level_to_action l, action_str a] \<in> set grouping_policies \<longleftrightarrow> level_permits l a"
  unfolding grouping_policies_def level_to_action_def [symmetric] by (cases l; cases a) simp_all

lemma level_not_action: "level_to_action l \<noteq> action_str a"
  using action_str_not_type [of a "ActLevel l"] by (metis action_type_str.simps(2))

lemma enforce_uncached:
  assumes api: "casbin_ok api pol grp" and ok: "enforcer_ok pol e"
    and n: "en_result_cache e (cache_policy_key [show_int uid, to_object_id obj, a]) = None"
  shows "snd (en_enforce api e uid obj a) =
    Inr (case permission_of pol e uid obj of
           None \<Rightarrow> False
         | Some act \<Rightarrow> act = a \<or> [act, a] \<in> set (grp (en_casbin e)))"
proof -
  let ?ps = "user_rules (pol (en_casbin e)) uid obj"
  have "(\<exists>p \<in> set (pol (en_casbin e)). p ! 0 = show_int uid \<and> p ! 1 = to_object_id obj \<and>
      (p ! 2 = a \<or> [p ! 2, a] \<in> set (grp (en_casbin e)))) \<longleftrightarrow>
    (\<exists>p \<in> set ?ps. p ! 2 = a \<or> [p ! 2, a] \<in> set (grp (en_casbin e)))"
    by (auto simp: user_rules_def)
  moreover have "?ps = [] \<or> (\<exists>p. ?ps = [p])"
    using enforcer_okD(2) [OF ok, of uid obj] by (cases ?ps) auto
  ultimately show ?thesis
    using n by (auto simp: en_enforce_def Let_def casbin_okD(8) [OF api] permission_of_def)
qed

lemma removed_keeps_decision:
  assumes api: "casbin_ok api pol grp" and ok: "enforcer_ok pol e"
    and c: "en_result_cache e (cache_policy_key [show_int uid, to_object_id obj, action_str a]) = Some b"
    and t: "\<forall>p \<in> set (user_rules (pol (en_casbin e)) uid obj). \<exists>t. p = [show_int uid, to_object_id obj, action_type_str t]"
  shows "en_result_cache (fst (en_remove api e uid obj))
      (cache_policy_key [show_int uid, to_object_id obj, action_str a]) = Some b"
proof -
  have "cache_policy_key [show_int uid, to_object_id obj, action_str a] \<notin>
      cache_policy_key ` set (user_rules (pol (en_casbin e)) uid obj)"
  proof
    assume "cache_policy_key [show_int uid, to_object_id obj, action_str a] \<in>
      cache_policy_key ` set (user_rules (pol (en_casbin e)) uid obj)"
    with t obtain ty where "cache_policy_key [show_int uid, to_object_id obj, action_str a] =
        cache_policy_key [show_int uid, to_object_id obj, action_type_str ty]" by auto
    then show False
      by (metis cache_policy_key_inject action_str_no_colon action_type_str_no_colon action_str_not_type)
  qed
  with c show ?thesis by (simp add: en_remove_result [OF api])
qed

lemma rule_of_permission:
  assumes ok: "enforcer_ok pol e" and p: "permission_of pol e uid obj = Some a"
  shows "user_rules (pol (en_casbin e)) uid obj = [[show_int uid, to_object_id obj, a]]"
proof -
  from p obtain r rs where r: "user_rules (pol (en_casbin e)) uid obj = r # rs" "a = r ! 2"
    by (auto simp: permission_of_def split: list.splits)
  with enforcer_okD(2) [OF ok, of uid obj] have "rs = []" by simp
  moreover have "r \<in> set (user_rules (pol (en_casbin e)) uid obj)" by (simp add: r)
  then have "r \<in> set (pol (en_casbin e))" "r ! 0 = show_int uid" "r ! 1 = to_object_id obj"
    by (auto simp: user_rules_def)
  moreover from this(1) have "length r = 3" by (rule enforcer_okD(1) [OF ok])
  ultimately show ?thesis using r
    by (auto simp: length_Suc_conv numeral_3_eq_3)
qed

subsection \<open>An instance\<close>

text \<open>An engine that keeps its rules and groupings in two lists.\<close>

definition sample_casbin :: "(rule list \<times> rule list) casbin_api" where
  "sample_casbin =
     \<lparr>cb_all_objects = (\<lambda>(ps, gs). map (\<lambda>p. p ! 1) ps),
      cb_filtered = (\<lambda>(ps, gs) i vs. filter (\<lambda>p. p ! i = hd vs) ps),
      cb_add = (\<lambda>(ps, gs) p. if p \<in> set ps then ((ps, gs), Inr False) else ((ps @ [p], gs), Inr True)),
      cb_remove = (\<lambda>(ps, gs) rs. ((filter (\<lambda>p. p \<notin> set rs) ps, gs), Inr True)),
      cb_enforce = (\<lambda>(ps, gs) r. Inr (list_ex (\<lambda>p. p ! 0 = r ! 0 \<and> p ! 1 = r ! 1 \<and>
        (p ! 2 = r ! 2 \<or> [p ! 2, r ! 2] \<in> set gs)) ps))\<rparr>"

lemma sample_casbin_ok: "casbin_ok sample_casbin fst snd"
  by (auto simp: casbin_ok_def sample_casbin_def list_ex_iff)

definition sample_enforcer :: "(rule list \<times> rule list) af_enforcer" where
  "sample_enforcer = af_enforcer_new ([[''1'', ''collab::a'', ''50'']], grouping_policies)"

lemma show_int_one [simp]: "show_int 1 = ''1''"
  by code_simp

lemma sample_enforcer_ok: "enforcer_ok fst sample_enforcer"
  unfolding sample_enforcer_def by (rule enforcer_ok_new) (auto simp: rules_ok_def user_rules_def)

lemma sample_permission: "permission_of fst sample_enforcer 1 (ObjCollab ''a'') = Some (level_to_action FullAccess)"
  by (simp add: permission_of_def sample_enforcer_def af_enforcer_new_def user_rules_def)

subsection \<open>Properties\<close>

text \<open>C8: Whatever sequence of grants, revocations, decisions and look-ups the enforcer goes through,
  the permissions it holds are those of a plain map from user and object to one action: the last
  valid grant, or none after a revocation.\<close>

theorem enforcer_refines_permission_map:
  assumes "casbin_ok api pol grp" and "enforcer_ok pol e"
  shows "permission_of pol (run (enforcer_step api) e evs) = run permissions_step (permission_of pol e) evs"
  by (rule permission_store.abs_run [OF assms(2)]) (rule admissible_const [OF assms(1)])

theorem enforcer_refines_permission_map_witness:
  "permission_of fst (run (enforcer_step sample_casbin) sample_enforcer
     [Grant 1 (ObjCollab ''a'') (ActLevel ReadOnly), Ask 1 (ObjCollab ''a'') ActionWrite]) 1 (ObjCollab ''a'')
   = Some ''10''"
  by (simp only: enforcer_refines_permission_map [OF sample_casbin_ok sample_enforcer_ok]) simp

text \<open>Starting from rules that hold at most one action per user and object, this stays so in every
  run, which is what the debug assertion in \<open>remove\<close> and the comment in \<open>get_action\<close> rely on, and the
  action cache never disagrees with the rules.\<close>

theorem one_rule_per_user_and_object:
  assumes "casbin_ok api pol grp" and "rules_ok (pol c)"
    and "e = run (enforcer_step api) (af_enforcer_new c) evs"
  shows "length (user_rules (pol (en_casbin e)) uid obj) \<le> 1 \<and>
    (en_action_cache e (cache_object_key uid obj) = Some a \<longrightarrow> permission_of pol e uid obj = Some a)"
proof -
  have "enforcer_ok pol e"
    unfolding assms(3) by (rule permission_store.run_inv [OF enforcer_ok_new])
      (rule assms(2), rule admissible_const [OF assms(1)])
  then show ?thesis using enforcer_okD(2,3) by blast
qed

theorem one_rule_per_user_and_object_witness:
  "length (user_rules (fst (en_casbin (run (enforcer_step sample_casbin) (af_enforcer_new ([], grouping_policies))
     [Grant 1 (ObjCollab ''a'') (ActLevel ReadOnly), Grant 1 (ObjCollab ''a'') (ActLevel FullAccess)]))) 1 (ObjCollab ''a'')) \<le> 1"
  using one_rule_per_user_and_object [OF sample_casbin_ok _ refl, of "([], grouping_policies)"]
  by (simp add: rules_ok_def del: run.simps)

text \<open>The access level that was granted is the one that is read back, and the look-up changes no
  permission of anyone.\<close>

theorem granted_level_is_read_back:
  assumes "casbin_ok api pol grp" and "enforcer_ok pol e"
    and "e1 = fst (en_update api e uid (ObjCollab oid) (ActLevel level))"
  shows "snd (get_access_level api e1 uid oid) = Some level \<and>
    permission_of pol (fst (get_access_level api e1 uid oid)) = permission_of pol e1"
proof -
  have ok1: "enforcer_ok pol e1" unfolding assms(3) by (rule enforcer_ok_update [OF assms(1,2)])
  have "permission_of pol e1 uid (ObjCollab oid) = Some (level_to_action level)"
    unfolding assms(3) by (simp add: permission_update [OF assms(1,2)])
  then show ?thesis
    using en_get_action_result(1) [OF assms(1) ok1, of uid "ObjCollab oid"]
      get_action_keeps(1) [OF assms(1) ok1, of uid "ObjCollab oid"]
    by (cases "en_get_action api e1 uid (ObjCollab oid)") (simp add: get_access_level_def)
qed

theorem granted_level_is_read_back_witness:
  "snd (get_access_level sample_casbin
     (fst (en_update sample_casbin sample_enforcer 1 (ObjCollab ''a'') (ActLevel ReadAndComment))) 1 ''a'')
   = Some ReadAndComment"
  using granted_level_is_read_back [OF sample_casbin_ok sample_enforcer_ok refl] by simp

text \<open>A decision that is not cached is what the user's access level permits: reading at every
  level, writing from \<open>ReadAndWrite\<close> on, deleting with \<open>FullAccess\<close>, and nothing without a level.\<close>

theorem access_level_decides:
  assumes "casbin_ok api pol grp" and "enforcer_ok pol e" and "grp (en_casbin e) = grouping_policies"
    and "en_result_cache e (cache_policy_key [show_int uid, to_object_id (ObjCollab oid), action_str a]) = None"
    and "permission_of pol e uid (ObjCollab oid) = map_option level_to_action level"
  shows "snd (en_enforce api e uid (ObjCollab oid) (action_str a)) =
    Inr (case level of None \<Rightarrow> False | Some l \<Rightarrow> level_permits l a)"
  using enforce_uncached [OF assms(1,2,4)] assms(3,5)
  by (cases level) (simp_all add: grouping_policies_permit level_not_action)

theorem access_level_decides_witness:
  "snd (en_enforce sample_casbin sample_enforcer 1 (ObjCollab ''a'') (action_str ActionDelete)) = Inr True"
  using access_level_decides [OF sample_casbin_ok sample_enforcer_ok, of 1 "''a''" ActionDelete "Some FullAccess"]
    sample_permission
  by (simp add: sample_enforcer_def af_enforcer_new_def)

text \<open>A decision that was cached outlives the permission it was made from: after the user is
  removed from the object, or was given another level, the enforcer still answers with it, because
  both clear the cache under the key of the level only.\<close>

theorem cached_decision_survives_revocation:
  assumes "casbin_ok api pol grp" and "enforcer_ok pol e"
    and "en_result_cache e (cache_policy_key [show_int uid, to_object_id obj, action_str a]) = Some b"
    and "permission_of pol e uid obj = Some (action_type_str t)"
    and "e1 = fst (en_remove api e uid obj)"
  shows "permission_of pol e1 uid obj = None \<and> snd (en_enforce api e1 uid obj (action_str a)) = Inr b"
proof
  show "permission_of pol e1 uid obj = None"
    unfolding assms(5) by (simp add: permission_remove [OF assms(1)])
  have "en_result_cache e1 (cache_policy_key [show_int uid, to_object_id obj, action_str a]) = Some b"
    unfolding assms(5) using rule_of_permission [OF assms(2,4)]
    by (intro removed_keeps_decision [OF assms(1-3)]) auto
  then show "snd (en_enforce api e1 uid obj (action_str a)) = Inr b"
    by (simp add: en_enforce_def Let_def)
qed

theorem cached_decision_survives_revocation_witness:
  "\<exists>e. permission_of fst e 1 (ObjCollab ''a'') = None \<and>
     snd (en_enforce sample_casbin e 1 (ObjCollab ''a'') (action_str ActionWrite)) = Inr True"
proof -
  let ?e = "fst (en_enforce sample_casbin sample_enforcer 1 (ObjCollab ''a'') (action_str ActionWrite))"
  have "en_result_cache ?e (cache_policy_key [show_int 1, to_object_id (ObjCollab ''a''), action_str ActionWrite]) = Some True"
    by (simp add: en_enforce_def Let_def sample_casbin_def sample_enforcer_def af_enforcer_new_def
        grouping_policies_permit [of FullAccess ActionWrite, simplified])
  moreover have "permission_of fst ?e 1 (ObjCollab ''a'') = Some (action_type_str (ActLevel FullAccess))"
    using sample_permission by (simp del: level_to_action_simps)
  ultimately show ?thesis
    using cached_decision_survives_revocation [OF sample_casbin_ok
        enforcer_ok_enforce [OF sample_enforcer_ok, of sample_casbin 1 "ObjCollab ''a''" ActionWrite] _ _ refl,
        of 1 "ObjCollab ''a''" ActionWrite True "ActLevel FullAccess"]
    by blast
qed

end
