(* ===== verification/AccessControl.thy ===== *)
theory AccessControl
  imports Enforcer
begin

section \<open>Access control of collabs, workspaces and requests\<close>

text \<open>
  \<open>src/biz/casbin/collab_ac.rs\<close>, \<open>workspace_ac.rs\<close> and \<open>pg_listen.rs\<close> on top of the enforcer, and the
  request middleware (\<open>src/middleware/access_control_mw.rs\<close>) with the two services that are plugged
  into it (\<open>src/biz/workspace/access_control.rs\<close>, \<open>src/biz/collab/access_control.rs\<close>). A workspace id
  is the text of its uuid.
\<close>

datatype http_method = MGet | MPost | MPut | MDelete | MOther string

fun display_method :: "http_method \<Rightarrow> string" where
  "display_method MGet = ''GET''"
| "display_method MPost = ''POST''"
| "display_method MPut = ''PUT''"
| "display_method MDelete = ''DELETE''"
| "display_method (MOther m) = m"

subsection \<open>Collabs\<close>

definition update_member ::
    "'e casbin_api \<Rightarrow> 'e af_enforcer \<Rightarrow> i64 \<Rightarrow> string \<Rightarrow> af_access_level \<Rightarrow> 'e af_enforcer" where
  "update_member api e uid oid level = fst (en_update api e uid (ObjCollab oid) (ActLevel level))"

definition remove_member :: "'e casbin_api \<Rightarrow> 'e af_enforcer \<Rightarrow> i64 \<Rightarrow> string \<Rightarrow> 'e af_enforcer" where
  "remove_member api e uid oid = fst (ac_remove api e uid (ObjCollab oid))"

definition get_collab_access_level ::
    "'e casbin_api \<Rightarrow> 'e af_enforcer \<Rightarrow> i64 \<Rightarrow> string \<Rightarrow> 'e af_enforcer \<times> (app_error + af_access_level)" where
  "get_collab_access_level api e uid oid =
     (case get_access_level api e uid oid of
        (e1, Some level) \<Rightarrow> (e1, Inr level)
      | (e1, None) \<Rightarrow>
          (e1, Inl (RecordNotFound (''can't find the access level for user:'' @ show_int uid @
                                    '' of '' @ oid @ '' in cache''))))"

definition insert_collab_access_level ::
    "'e casbin_api \<Rightarrow> 'e af_enforcer \<Rightarrow> i64 \<Rightarrow> string \<Rightarrow> af_access_level \<Rightarrow>
     'e af_enforcer \<times> (app_error + unit)" where
  "insert_collab_access_level api e uid oid level =
     (case en_update api e uid (ObjCollab oid) (ActLevel level) of
        (e1, Inl err) \<Rightarrow> (e1, Inl err)
      | (e1, Inr _) \<Rightarrow> (e1, Inr ()))"

definition can_access_http_method ::
    "'e casbin_api \<Rightarrow> 'e af_enforcer \<Rightarrow> i64 \<Rightarrow> string \<Rightarrow> http_method \<Rightarrow>
     'e af_enforcer \<times> (app_error + bool)" where
  "can_access_http_method api e uid oid m =
     (let action = (if m = MPost \<or> m = MPut \<or> m = MDelete then ActionWrite else ActionRead) in
      if \<not> en_contains api e (ObjCollab oid) then (e, Inr True)
      else en_enforce api e uid (ObjCollab oid) (action_str action))"

definition can_send_collab_update ::
    "'e casbin_api \<Rightarrow> 'e af_enforcer \<Rightarrow> i64 \<Rightarrow> string \<Rightarrow> 'e af_enforcer \<times> (app_error + bool)" where
  "can_send_collab_update api e uid oid =
     en_enforce api e uid (ObjCollab oid) (action_str ActionWrite)"

definition can_receive_collab_update ::
    "'e casbin_api \<Rightarrow> 'e af_enforcer \<Rightarrow> i64 \<Rightarrow> string \<Rightarrow> 'e af_enforcer \<times> (app_error + bool)" where
  "can_receive_collab_update api e uid oid =
     en_enforce api e uid (ObjCollab oid) (action_str ActionRead)"

subsection \<open>Workspaces\<close>

definition get_workspace_role ::
    "'e casbin_api \<Rightarrow> 'e af_enforcer \<Rightarrow> i64 \<Rightarrow> string \<Rightarrow> 'e af_enforcer \<times> (app_error + af_role)" where
  "get_workspace_role api e uid workspace_id =
     (case get_role api e uid workspace_id of
        (e1, Some role) \<Rightarrow> (e1, Inr role)
      | (e1, None) \<Rightarrow>
          (e1, Inl (RecordNotFound (''can't find the role for user:'' @ show_int uid @
                                    '' workspace:'' @ workspace_id))))"

definition insert_workspace_role ::
    "'e casbin_api \<Rightarrow> 'e af_enforcer \<Rightarrow> i64 \<Rightarrow> string \<Rightarrow> af_role \<Rightarrow> 'e af_enforcer \<times> (app_error + unit)" where
  "insert_workspace_role api e uid workspace_id role =
     (case en_update api e uid (ObjWorkspace workspace_id) (ActRole role) of
        (e1, Inl err) \<Rightarrow> (e1, Inl err)
      | (e1, Inr _) \<Rightarrow> (e1, Inr ()))"

definition remove_role ::
    "'e casbin_api \<Rightarrow> 'e af_enforcer \<Rightarrow> i64 \<Rightarrow> string \<Rightarrow> 'e af_enforcer \<times> (app_error + unit)" where
  "remove_role api e uid workspace_id = ac_remove api e uid (ObjWorkspace workspace_id)"

subsection \<open>Changes of the member tables\<close>

text \<open>
  The database notifies the server of the rows it inserts, updates and deletes; the two tasks carry
  them over to the enforcer. Errors are only logged. \<open>sel\<close> is the query \<open>select_permission\<close>.
\<close>

datatype member_action = INSERT | UPDATE | DELETE

record collab_member_row =
  cmr_uid :: i64
  cmr_oid :: string
  cmr_permission_id :: i64

record collab_member_notification =
  cmn_old :: "collab_member_row option"
  cmn_new :: "collab_member_row option"
  cmn_action_type :: member_action

record workspace_member_row =
  wmr_uid :: i64
  wmr_role_id :: i64
  wmr_workspace_id :: string

record workspace_member_notification =
  wmn_old :: "workspace_member_row option"
  wmn_new :: "workspace_member_row option"
  wmn_action_type :: member_action

definition old_uid :: "collab_member_notification \<Rightarrow> i64 option" where
  "old_uid n = map_option cmr_uid (cmn_old n)"

definition old_oid :: "collab_member_notification \<Rightarrow> string option" where
  "old_oid n = map_option cmr_oid (cmn_old n)"

definition on_collab_member_change ::
    "'e casbin_api \<Rightarrow> (i64 \<Rightarrow> string + af_permission option) \<Rightarrow> 'e af_enforcer \<Rightarrow>
     collab_member_notification \<Rightarrow> 'e af_enforcer" where
  "on_collab_member_change api sel e n =
     (case cmn_action_type n of
        DELETE \<Rightarrow>
          (case (old_oid n, old_uid n) of
             (Some oid, Some uid) \<Rightarrow> fst (en_remove api e uid (ObjCollab oid))
           | _ \<Rightarrow> e)
      | _ \<Rightarrow>
          (case cmn_new n of
             None \<Rightarrow> e
           | Some r \<Rightarrow>
               (case sel (cmr_permission_id r) of
                  Inr (Some p) \<Rightarrow>
                    fst (en_update api e (cmr_uid r) (ObjCollab (cmr_oid r)) (ActLevel (perm_access_level p)))
                | _ \<Rightarrow> e)))"

text \<open>\<open>as i32\<close> of an \<open>i64\<close>.\<close>

definition as_i32 :: "i64 \<Rightarrow> int" where
  "as_i32 v = (v + 2 ^ 31) mod 2 ^ 32 - 2 ^ 31"

definition on_workspace_member_change ::
    "'e casbin_api \<Rightarrow> 'e af_enforcer \<Rightarrow> workspace_member_notification \<Rightarrow> 'e af_enforcer" where
  "on_workspace_member_change api e n =
     (case wmn_action_type n of
        DELETE \<Rightarrow>
          (case wmn_old n of
             None \<Rightarrow> e
           | Some r \<Rightarrow> fst (en_remove api e (wmr_uid r) (ObjWorkspace (wmr_workspace_id r))))
      | _ \<Rightarrow>
          (case wmn_new n of
             None \<Rightarrow> e
           | Some r \<Rightarrow>
               fst (en_update api e (wmr_uid r) (ObjWorkspace (wmr_workspace_id r))
                      (ActRole (role_of_i32 (as_i32 (wmr_role_id r)))))))"

subsection \<open>Checks of a request\<close>

definition check_workspace_permission ::
    "(string list \<Rightarrow> string) \<Rightarrow> 'e casbin_api \<Rightarrow> 'e af_enforcer \<Rightarrow> string \<Rightarrow> i64 \<Rightarrow> http_method \<Rightarrow>
     'e af_enforcer \<times> (app_error + unit)" where
  "check_workspace_permission vd api e workspace_id uid m =
     (case get_workspace_role api e uid workspace_id of
        (e1, Inl err) \<Rightarrow>
          (e1, Inl (NotEnoughPermissions (''Can't find the role of the user:'' @ show_int uid @
                 '' in the workspace:'' @ workspace_id @ ''. error: '' @ display_app_error vd err)))
      | (e1, Inr role) \<Rightarrow>
          if m = MDelete \<or> m = MPost \<or> m = MPut then
            (case role of
               Owner \<Rightarrow> (e1, Inr ())
             | _ \<Rightarrow>
                 (e1, Inl (NotEnoughPermissions (''User:'' @ show_int uid @
                    '' doesn't have the enough permission to access workspace:'' @ workspace_id))))
          else (e1, Inr ()))"

definition check_collab_permission ::
    "'e casbin_api \<Rightarrow> 'e af_enforcer \<Rightarrow> string \<Rightarrow> i64 \<Rightarrow> http_method \<Rightarrow>
     'e af_enforcer \<times> (app_error + unit)" where
  "check_collab_permission api e oid uid m =
     (case can_access_http_method api e uid oid m of
        (e1, Inl err) \<Rightarrow> (e1, Inl err)
      | (e1, Inr True) \<Rightarrow> (e1, Inr ())
      | (e1, Inr False) \<Rightarrow>
          (e1, Inl (NotEnoughPermissions (''Not enough permissions to access the collab: '' @ oid @
                      '' with http method: '' @ display_method m))))"

text \<open>
  The middleware. A request has the parameters of its path (\<open>None\<close> when no route matches), the uid
  that \<open>UserUuid\<close> and the user cache give, or their error, and its method. \<open>parse_uuid\<close> is
  \<open>Uuid::parse_str\<close>, with the canonical text as its value. \<open>Inr ()\<close>: the request goes on to its handler.
\<close>

record access_services =
  acs_workspace :: bool
  acs_collab :: bool

definition access_control_call ::
    "(string list \<Rightarrow> string) \<Rightarrow> (string \<Rightarrow> string option) \<Rightarrow> 'e casbin_api \<Rightarrow> access_services \<Rightarrow>
     (string \<rightharpoonup> string) option \<Rightarrow> app_error + i64 \<Rightarrow> http_method \<Rightarrow> 'e af_enforcer \<Rightarrow>
     'e af_enforcer \<times> (app_error + unit)" where
  "access_control_call vd parse_uuid api svc path uid_result m e =
     (case path of
        None \<Rightarrow> (e, Inr ())
      | Some ps \<Rightarrow>
          let workspace_id = Option.bind (ps ''workspace_id'') parse_uuid;
              object_id = ps ''object_id'' in
          if workspace_id = None \<and> object_id = None then (e, Inr ())
          else
            case uid_result of
              Inl err \<Rightarrow> (e, Inl err)
            | Inr uid \<Rightarrow>
                let (e1, r1) =
                      (case workspace_id of
                         Some w \<Rightarrow>
                           if acs_workspace svc then check_workspace_permission vd api e w uid m
                           else (e, Inr ())
                       | None \<Rightarrow> (e, Inr ())) in
                case r1 of
                  Inl err \<Rightarrow> (e1, Inl err)
                | Inr _ \<Rightarrow>
                    (case object_id of
                       Some oid \<Rightarrow>
                         if acs_collab svc then check_collab_permission api e1 oid uid m
                         else (e1, Inr ())
                     | None \<Rightarrow> (e1, Inr ())))"

subsection \<open>Lemmas\<close>

lemma get_workspace_role_result:
  assumes api: "casbin_ok api pol grp" and ok: "enforcer_ok pol e"
  obtains e1 r where "get_workspace_role api e uid w = (e1, r)"
    "is_ok r \<longleftrightarrow> permission_of pol e uid (ObjWorkspace w) \<noteq> None"
    "\<And>a. permission_of pol e uid (ObjWorkspace w) = Some a \<Longrightarrow> r = Inr (role_from_action a)"
    "enforcer_ok pol e1" "en_casbin e1 = en_casbin e" "en_result_cache e1 = en_result_cache e"
    "permission_of pol e1 = permission_of pol e"
proof -
  let ?o = "ObjWorkspace w"
  obtain e1 a where g: "en_get_action api e uid ?o = (e1, a)" by (cases "en_get_action api e uid ?o")
  have "a = permission_of pol e uid ?o"
    using en_get_action_result(1) [OF api ok, of uid ?o] by (simp add: g)
  moreover have "enforcer_ok pol e1"
    using enforcer_ok_get_action [OF api ok, of uid ?o] by (simp add: g)
  moreover have "get_workspace_role api e uid w = (e1, snd (get_workspace_role api e uid w))"
    by (cases a) (simp_all add: get_workspace_role_def get_role_def g)
  moreover have "is_ok (snd (get_workspace_role api e uid w)) \<longleftrightarrow> a \<noteq> None"
    "\<And>x. a = Some x \<Longrightarrow> snd (get_workspace_role api e uid w) = Inr (role_from_action x)"
    by (cases a; simp add: get_workspace_role_def get_role_def g)+
  ultimately show thesis
    using get_action_keeps [OF api ok, of uid ?o] by (intro that [of e1 "snd (get_workspace_role api e uid w)"]) (simp_all add: g)
qed

definition mutating :: "http_method \<Rightarrow> bool" where
  "mutating m \<longleftrightarrow> m = MDelete \<or> m = MPost \<or> m = MPut"

lemma check_workspace_permission_result:
  assumes api: "casbin_ok api pol grp" and ok: "enforcer_ok pol e"
  obtains e1 r where "check_workspace_permission vd api e w uid m = (e1, r)"
    "is_ok r \<longleftrightarrow> (case permission_of pol e uid (ObjWorkspace w) of
       None \<Rightarrow> False | Some a \<Rightarrow> mutating m \<longrightarrow> role_from_action a = Owner)"
    "enforcer_ok pol e1" "en_casbin e1 = en_casbin e" "en_result_cache e1 = en_result_cache e"
    "permission_of pol e1 = permission_of pol e"
proof -
  obtain e1 r where g: "get_workspace_role api e uid w = (e1, r)"
    "is_ok r \<longleftrightarrow> permission_of pol e uid (ObjWorkspace w) \<noteq> None"
    "\<And>a. permission_of pol e uid (ObjWorkspace w) = Some a \<Longrightarrow> r = Inr (role_from_action a)"
    and k: "enforcer_ok pol e1" "en_casbin e1 = en_casbin e" "en_result_cache e1 = en_result_cache e"
    "permission_of pol e1 = permission_of pol e"
    using get_workspace_role_result [OF api ok, of uid w] by blast
  have "fst (check_workspace_permission vd api e w uid m) = e1"
    by (auto simp: check_workspace_permission_def g(1) split: sum.splits af_role.splits)
  then obtain r2 where r2: "check_workspace_permission vd api e w uid m = (e1, r2)"
    by (metis prod.collapse)
  show thesis
  proof (rule that [OF r2 _ k])
    show "is_ok r2 \<longleftrightarrow> (case permission_of pol e uid (ObjWorkspace w) of
       None \<Rightarrow> False | Some a \<Rightarrow> mutating m \<longrightarrow> role_from_action a = Owner)"
    proof (cases "permission_of pol e uid (ObjWorkspace w)")
      case None
      with g(2) obtain err where "r = Inl err" by (cases r) auto
      with r2 None g(1) show ?thesis by (auto simp: check_workspace_permission_def)
    next
      case (Some a)
      from r2 g(1) g(3) [OF Some] Some show ?thesis
        by (cases "role_from_action a")
          (auto simp: check_workspace_permission_def mutating_def split: if_splits)
    qed
  qed
qed

lemma check_collab_permission_result:
  assumes api: "casbin_ok api pol grp" and ok: "enforcer_ok pol e"
    and g: "grp (en_casbin e) = grouping_policies" and n: "en_result_cache e = Map.empty"
    and l: "permission_of pol e uid (ObjCollab oid) = map_option level_to_action level"
  shows "is_ok (snd (check_collab_permission api e oid uid m)) \<longleftrightarrow>
    (if \<exists>p \<in> set (pol (en_casbin e)). p ! 1 = to_object_id (ObjCollab oid)
     then (case level of None \<Rightarrow> False
           | Some lv \<Rightarrow> level_permits lv (if mutating m then ActionWrite else ActionRead))
     else True)"
proof -
  define a where "a = (if mutating m then ActionWrite else ActionRead)"
  define d where "d = (case level of None \<Rightarrow> False | Some lv \<Rightarrow> level_permits lv a)"
  have "snd (en_enforce api e uid (ObjCollab oid) (action_str a)) = Inr d"
    using enforce_uncached [OF api ok, of uid "ObjCollab oid" "action_str a"] n l g
    by (cases level) (simp_all add: d_def grouping_policies_permit level_not_action del: level_permits.simps)
  then obtain e2 where en: "en_enforce api e uid (ObjCollab oid) (action_str a) = (e2, Inr d)"
    by (metis prod.collapse)
  have "(if m = MPost \<or> m = MPut \<or> m = MDelete then ActionWrite else ActionRead) = a"
    by (auto simp: a_def mutating_def)
  then have "is_ok (snd (check_collab_permission api e oid uid m)) \<longleftrightarrow>
      (if en_contains api e (ObjCollab oid) then d else True)"
    using en by (cases d) (simp_all add: check_collab_permission_def can_access_http_method_def Let_def)
  moreover have "en_contains api e (ObjCollab oid) \<longleftrightarrow>
      (\<exists>p \<in> set (pol (en_casbin e)). p ! 1 = to_object_id (ObjCollab oid))"
    unfolding en_contains_def casbin_okD(9) [OF api]
    by (auto simp del: to_object_id.simps intro: rev_image_eqI)
  ultimately show ?thesis unfolding d_def a_def [symmetric] by simp
qed

subsection \<open>Properties\<close>

text \<open>With both services installed a request for an object of a workspace reaches its handler
  exactly when the user has a role in the workspace, which is \<open>Owner\<close> when the method is \<open>POST\<close>,
  \<open>PUT\<close> or \<open>DELETE\<close>, and either nobody has a level on the object or the user's level permits
  writing (for these methods) or reading (for the others).\<close>

theorem request_gate:
  assumes "casbin_ok api pol grp" and "enforcer_ok pol e"
    and "grp (en_casbin e) = grouping_policies" and "en_result_cache e = Map.empty"
    and "permission_of pol e uid (ObjWorkspace w) = map_option role_to_action role"
    and "permission_of pol e uid (ObjCollab oid) = map_option level_to_action level"
    and "ps ''workspace_id'' = Some wid" and "parse_uuid wid = Some w" and "ps ''object_id'' = Some oid"
  shows "is_ok (snd (access_control_call vd parse_uuid api \<lparr>acs_workspace = True, acs_collab = True\<rparr>
        (Some ps) (Inr uid) m e)) =
    ((if mutating m then role = Some Owner else role \<noteq> None) \<and>
     (if \<exists>p \<in> set (pol (en_casbin e)). p ! 1 = to_object_id (ObjCollab oid)
      then (case level of None \<Rightarrow> False
            | Some lv \<Rightarrow> level_permits lv (if mutating m then ActionWrite else ActionRead))
      else True))"
proof -
  obtain e1 r where c: "check_workspace_permission vd api e w uid m = (e1, r)"
    "is_ok r \<longleftrightarrow> (case permission_of pol e uid (ObjWorkspace w) of
       None \<Rightarrow> False | Some a \<Rightarrow> mutating m \<longrightarrow> role_from_action a = Owner)"
    and k: "enforcer_ok pol e1" "en_casbin e1 = en_casbin e" "en_result_cache e1 = en_result_cache e"
    "permission_of pol e1 = permission_of pol e"
    using check_workspace_permission_result [OF assms(1,2), of vd w uid m] by blast
  have "is_ok r \<longleftrightarrow> (if mutating m then role = Some Owner else role \<noteq> None)"
    using c(2) assms(5) by (cases role) simp_all
  moreover have "is_ok (snd (check_collab_permission api e1 oid uid m)) \<longleftrightarrow>
      (if \<exists>p \<in> set (pol (en_casbin e)). p ! 1 = to_object_id (ObjCollab oid)
       then (case level of None \<Rightarrow> False
             | Some lv \<Rightarrow> level_permits lv (if mutating m then ActionWrite else ActionRead))
       else True)"
    using check_collab_permission_result [OF assms(1) k(1), of uid oid level m] assms(3,4,6) k by simp
  moreover have "snd (access_control_call vd parse_uuid api \<lparr>acs_workspace = True, acs_collab = True\<rparr>
        (Some ps) (Inr uid) m e) =
      (case r of Inl err \<Rightarrow> Inl err | Inr _ \<Rightarrow> snd (check_collab_permission api e1 oid uid m))"
    using assms(7-9) c(1) by (simp add: access_control_call_def split: sum.splits)
  ultimately show ?thesis by (cases r) auto
qed

theorem request_gate_witness:
  "is_ok (snd (access_control_call (\<lambda>_. []) Some sample_casbin \<lparr>acs_workspace = True, acs_collab = True\<rparr>
     (Some [''workspace_id'' \<mapsto> ''w'', ''object_id'' \<mapsto> ''a'']) (Inr 1) MPost sample_enforcer)) = False"
  using request_gate [OF sample_casbin_ok sample_enforcer_ok, of 1 "''w''" None "''a''" "Some FullAccess"
      "[''workspace_id'' \<mapsto> ''w'', ''object_id'' \<mapsto> ''a'']" "''w''" Some "\<lambda>_. []" MPost]
    sample_permission
  by (simp add: sample_enforcer_def af_enforcer_new_def permission_of_def user_rules_def mutating_def)

text \<open>The tasks that listen to the member table bring the permissions in line with it: after a row
  was inserted or updated its user has the level of the row's permission on the row's collab, after
  a row was deleted its user has none, and nothing else changes.\<close>

theorem member_table_changes_are_followed:
  assumes "casbin_ok api pol grp" and "enforcer_ok pol e"
    and "sel (cmr_permission_id r) = Inr (Some p)"
  shows "permission_of pol
      (on_collab_member_change api sel e \<lparr>cmn_old = prev, cmn_new = Some r, cmn_action_type = INSERT\<rparr>) =
      (\<lambda>u ob. if cmr_uid r = u \<and> ObjCollab (cmr_oid r) = ob
               then Some (level_to_action (perm_access_level p)) else permission_of pol e u ob) \<and>
    permission_of pol
      (on_collab_member_change api sel e \<lparr>cmn_old = Some r, cmn_new = None, cmn_action_type = DELETE\<rparr>) =
      (\<lambda>u ob. if cmr_uid r = u \<and> ObjCollab (cmr_oid r) = ob then None else permission_of pol e u ob)"
  using assms(3)
  by (auto simp: on_collab_member_change_def old_uid_def old_oid_def fun_eq_iff
      permission_update [OF assms(1,2)] permission_remove [OF assms(1)])

theorem member_table_changes_are_followed_witness:
  "permission_of fst (on_collab_member_change sample_casbin
     (\<lambda>i. Inr (Some \<lparr>perm_id = 1, perm_name = ''r'', perm_access_level = ReadOnly, perm_description = []\<rparr>))
     sample_enforcer
     \<lparr>cmn_old = None, cmn_new = Some \<lparr>cmr_uid = 1, cmr_oid = ''a'', cmr_permission_id = 1\<rparr>,
      cmn_action_type = INSERT\<rparr>) 1 (ObjCollab ''a'') = Some ''10''"
  using member_table_changes_are_followed [OF sample_casbin_ok sample_enforcer_ok,
      of "\<lambda>i. Inr (Some \<lparr>perm_id = 1, perm_name = ''r'', perm_access_level = ReadOnly, perm_description = []\<rparr>)"
        "\<lparr>cmr_uid = 1, cmr_oid = ''a'', cmr_permission_id = 1\<rparr>"]
  by simp

end
