(* ===== verification/Server.thy ===== *)
theory Server
  imports Group AccessControl
begin

section \<open>The collaboration server\<close>

text \<open>
  \<open>libs/realtime/src/collaborate/server.rs\<close> and \<open>retry.rs\<close>: the actor that connects the websocket
  sessions with the groups. Its handlers run to their end one after the other; every lock that is
  only tried is an outcome of the step that tries it. A session's mailbox is \<open>cs_socket\<close>, a number;
  \<open>sv_sent\<close> is what the server itself sent to sessions, and \<open>cs_stream\<close> what it put on the channel
  from which the subscriptions of a connection read.
\<close>

record client_stream =
  cs_socket :: nat
  cs_stream :: "collab_message list"

record 'doc server =
  sv_cache :: "'doc group_cache"
  sv_user_by_device :: "user_device \<rightharpoonup> rt_user"
  sv_session_id_by_user :: "rt_user \<rightharpoonup> string"
  sv_editing :: "rt_user \<rightharpoonup> editing list"
  sv_streams :: "rt_user \<rightharpoonup> client_stream"
  sv_sent :: "(nat \<times> realtime_message) list"

definition server_new :: "'doc server" where
  "server_new =
     \<lparr>sv_cache = group_cache_new, sv_user_by_device = Map.empty, sv_session_id_by_user = Map.empty,
      sv_editing = Map.empty, sv_streams = Map.empty, sv_sent = []\<rparr>"

definition client_stream_new :: "nat \<Rightarrow> client_stream" where
  "client_stream_new socket = \<lparr>cs_socket = socket, cs_stream = []\<rparr>"

definition stream_disconnect :: "client_stream \<Rightarrow> 'doc server \<Rightarrow> 'doc server" where
  "stream_disconnect cs s = s\<lparr>sv_sent := sv_sent s @ [(cs_socket cs, RtSystem KickOff)]\<rparr>"

subsection \<open>Removing a user\<close>

record removal_locks =
  rl_editing :: bool
  rl_groups :: "string \<Rightarrow> bool"
  rl_subscribers :: "string \<Rightarrow> bool"

definition remove_user_from_group :: "removal_locks \<Rightarrow> rt_user \<Rightarrow> editing \<Rightarrow> 'doc group_cache \<Rightarrow> 'doc group_cache" where
  "remove_user_from_group l user e c =
     fst (gc_remove_user (rl_groups l (ed_object_id e)) (rl_subscribers l (ed_object_id e)) (ed_object_id e) user c)"

definition remove_user :: "removal_locks \<Rightarrow> rt_user \<Rightarrow> 'doc server \<Rightarrow> 'doc server" where
  "remove_user l user s =
     (if \<not> rl_editing l then s
      else case sv_editing s user of
             None \<Rightarrow> s
           | Some es \<Rightarrow>
               s\<lparr>sv_editing := (sv_editing s)(user := None),
                 sv_cache := fold (remove_user_from_group l user) es (sv_cache s)\<rparr>)"

subsection \<open>Connections\<close>

text \<open>The locks that are waited for (\<open>write().await\<close>) are always obtained.\<close>

record connect =
  cn_socket :: nat
  cn_user :: rt_user
  cn_session_id :: string

definition handle_connect :: "removal_locks \<Rightarrow> connect \<Rightarrow> 'doc server \<Rightarrow> 'doc server" where
  "handle_connect l new_conn s0 =
     (let user = cn_user new_conn;
          s1 = s0\<lparr>sv_session_id_by_user := (sv_session_id_by_user s0)(user \<mapsto> cn_session_id new_conn)\<rparr>;
          old_user = sv_user_by_device s1 (device_of user);
          s2 = s1\<lparr>sv_user_by_device := (sv_user_by_device s1)(device_of user \<mapsto> user)\<rparr>;
          s3 = (case old_user of
                  None \<Rightarrow> s2
                | Some old \<Rightarrow>
                    remove_user l old
                      (case sv_streams s2 old of
                         Some old_stream \<Rightarrow>
                           stream_disconnect old_stream (s2\<lparr>sv_streams := (sv_streams s2)(old := None)\<rparr>)
                       | None \<Rightarrow> s2))
      in s3\<lparr>sv_streams := (sv_streams s3)(user \<mapsto> client_stream_new (cn_socket new_conn))\<rparr>)"

record disconnect =
  dc_user :: rt_user
  dc_session_id :: string

definition handle_disconnect ::
    "bool \<Rightarrow> removal_locks \<Rightarrow> bool \<Rightarrow> disconnect \<Rightarrow> 'doc server \<Rightarrow> 'doc server" where
  "handle_disconnect session_free l streams_free msg s =
     (if \<not> session_free then s
      else if (case sv_session_id_by_user s (dc_user msg) of
                 Some session_id \<Rightarrow> session_id \<noteq> dc_session_id msg
               | None \<Rightarrow> False) then s
      else
        let s1 = remove_user l (dc_user msg) s in
        if streams_free then s1\<lparr>sv_streams := (sv_streams s1)(dc_user msg := None)\<rparr> else s1)"

subsection \<open>Subscribing to a group\<close>

text \<open>
  The locks one attempt tries, in the order of the code. \<open>ld\<close> is the document the storage plugin
  loads for a new group.
\<close>

record attempt_locks =
  al_contains :: bool
  al_create :: bool
  al_remove_groups :: bool
  al_remove_subscribers :: bool
  al_member_groups :: bool
  al_member_subscribers :: bool
  al_streams :: bool
  al_get_group :: bool
  al_subscribers :: bool
  al_editing :: bool

definition client_user_id :: "collab_origin \<Rightarrow> i64 option" where
  "client_user_id og = (case og of OriginClient uid _ \<Rightarrow> Some uid | _ \<Rightarrow> None)"

definition create_new_group ::
    "(i64 \<Rightarrow> string \<Rightarrow> string \<Rightarrow> collab_type \<Rightarrow> 'doc) \<Rightarrow> bool \<Rightarrow> nat \<Rightarrow> collab_message \<Rightarrow> string \<Rightarrow>
     'doc group_cache \<Rightarrow> 'doc group_cache \<times> (realtime_error + unit)" where
  "create_new_group ld groups_free now m object_id c =
     (case m of
        ClientInitSync client_init \<Rightarrow>
          (case client_user_id (is_origin client_init) of
             None \<Rightarrow> (c, Inl (UnexpectedData ''The client user id is empty''))
           | Some uid \<Rightarrow>
               (create_group_if_need ld groups_free now uid (is_workspace_id client_init) object_id
                  (is_collab_type client_init) c, Inr ()))
      | _ \<Rightarrow> (c, Inl (UnexpectedData ''The first message must be init sync message'')))"

definition get_origin :: "collab_message \<Rightarrow> collab_origin" where
  "get_origin m = (case cm_origin m of Some og \<Rightarrow> og | None \<Rightarrow> OriginEmpty)"

text \<open>The last part: the stream, the group, the vacant entry, the editing set, the subscription.\<close>

definition enter_group ::
    "attempt_locks \<Rightarrow> rt_user \<Rightarrow> collab_message \<Rightarrow> 'doc server \<Rightarrow> 'doc server \<times> (realtime_error + unit)" where
  "enter_group l user m s =
     (let object_id = cm_object_id m; origin = get_origin m in
      if \<not> al_streams l then (s, Inl (RtInternal ''operation would block''))
      else if sv_streams s user = None then (s, Inr ())
      else case get_group (al_get_group l) object_id (sv_cache s) of
             None \<Rightarrow> (s, Inr ())
           | Some g \<Rightarrow>
               if \<not> al_subscribers l then (s, Inl (RtInternal ''operation would block''))
               else if gr_subscribers g user \<noteq> None then (s, Inr ())
               else if \<not> al_editing l then
                 (s, Inl (RtInternal ''Failed to acquire lock to insert editing''))
               else
                 (s\<lparr>sv_editing := (sv_editing s)(user \<mapsto>
                      List.insert \<lparr>ed_object_id = object_id, ed_origin = origin\<rparr>
                        (case sv_editing s user of Some es \<Rightarrow> es | None \<Rightarrow> [])),
                    sv_cache := gc_subscribe object_id g user origin (sv_cache s)\<rparr>, Inr ()))"

definition subscribe_attempt ::
    "(i64 \<Rightarrow> string \<Rightarrow> string \<Rightarrow> collab_type \<Rightarrow> 'doc) \<Rightarrow> nat \<Rightarrow> attempt_locks \<Rightarrow> rt_user \<Rightarrow> collab_message \<Rightarrow>
     'doc server \<Rightarrow> 'doc server \<times> (realtime_error + unit)" where
  "subscribe_attempt ld now l user m s =
     (let object_id = cm_object_id m in
      case contains_group (al_contains l) object_id (sv_cache s) of
        Inl e \<Rightarrow> (s, Inl (RtInternal e))
      | Inr present \<Rightarrow>
          if \<not> present \<and> \<not> is_init_msg m then (s, Inr ())
          else
            (case (if present then (sv_cache s, Inr ())
                   else create_new_group ld (al_create l) now m object_id (sv_cache s)) of
               (c1, Inl e) \<Rightarrow> (s\<lparr>sv_cache := c1\<rparr>, Inl e)
             | (c1, Inr _) \<Rightarrow>
                 if is_init_msg m then
                   (case gc_remove_user (al_remove_groups l) (al_remove_subscribers l) object_id user c1 of
                      (c2, Inl e) \<Rightarrow> (s\<lparr>sv_cache := c2\<rparr>, Inl (RtInternal e))
                    | (c2, Inr _) \<Rightarrow> enter_group l user m (s\<lparr>sv_cache := c2\<rparr>))
                 else if contains_user (al_member_groups l) (al_member_subscribers l) object_id user c1 = Inr True
                 then (s\<lparr>sv_cache := c1\<rparr>, Inr ())
                 else enter_group l user m (s\<lparr>sv_cache := c1\<rparr>)))"

text \<open>
  The attempts: the first and, two seconds apart, at most \<open>n\<close> more, while the server exists
  (\<open>alive\<close>). \<open>ls k\<close> are the locks of the attempt that has \<open>k\<close> more to come.
\<close>

fun subscribe_retry ::
    "(i64 \<Rightarrow> string \<Rightarrow> string \<Rightarrow> collab_type \<Rightarrow> 'doc) \<Rightarrow> nat \<Rightarrow> bool \<Rightarrow> (nat \<Rightarrow> attempt_locks) \<Rightarrow> nat \<Rightarrow> rt_user \<Rightarrow>
     collab_message \<Rightarrow> 'doc server \<Rightarrow> 'doc server \<times> (realtime_error + unit)" where
  "subscribe_retry ld now alive ls 0 user m s = subscribe_attempt ld now (ls 0) user m s"
| "subscribe_retry ld now alive ls (Suc n) user m s =
     (case subscribe_attempt ld now (ls (Suc n)) user m s of
        (s1, Inl e) \<Rightarrow> if alive then subscribe_retry ld now alive ls n user m s1 else (s1, Inl e)
      | (s1, Inr _) \<Rightarrow> (s1, Inr ()))"

definition subscribe_group_if_need ::
    "(i64 \<Rightarrow> string \<Rightarrow> string \<Rightarrow> collab_type \<Rightarrow> 'doc) \<Rightarrow> nat \<Rightarrow> bool \<Rightarrow> (nat \<Rightarrow> attempt_locks) \<Rightarrow> rt_user \<Rightarrow>
     collab_message \<Rightarrow> 'doc server \<Rightarrow> 'doc server \<times> (realtime_error + unit)" where
  "subscribe_group_if_need ld now alive ls user m s = subscribe_retry ld now alive ls 5 user m s"

subsection \<open>Messages of a client\<close>

record message_locks =
  ml_streams :: bool
  ml_alive :: bool
  ml_attempts :: "nat \<Rightarrow> attempt_locks"
  ml_contains :: bool

definition broadcast_message :: "rt_user \<Rightarrow> collab_message \<Rightarrow> 'doc server \<Rightarrow> 'doc server" where
  "broadcast_message user m s =
     (case sv_streams s user of
        Some cs \<Rightarrow> s\<lparr>sv_streams := (sv_streams s)(user \<mapsto> cs\<lparr>cs_stream := cs_stream cs @ [m]\<rparr>)\<rparr>
      | None \<Rightarrow> s)"

definition process_realtime_message ::
    "(i64 \<Rightarrow> string \<Rightarrow> string \<Rightarrow> collab_type \<Rightarrow> 'doc) \<Rightarrow> nat \<Rightarrow> message_locks \<Rightarrow> rt_user \<Rightarrow> realtime_message \<Rightarrow>
     'doc server \<Rightarrow> 'doc server \<times> (realtime_error + unit)" where
  "process_realtime_message ld now l user rm s =
     (case rm of
        RtCollab m \<Rightarrow>
          if \<not> ml_streams l then
            (s, Inl (RtInternal ''failed to acquire the lock for client stream:operation would block''))
          else if sv_streams s user = None then
            (s, Inl (RtInternal (''The client stream: '' @ display_rt_user user @
               '' is not found, it should be created when the client is connected with this websocket server'')))
          else
            (case subscribe_group_if_need ld now (ml_alive l) (ml_attempts l) user m s of
               (s1, Inl e) \<Rightarrow> (s1, Inl e)
             | (s1, Inr _) \<Rightarrow>
                 (case contains_group (ml_contains l) (cm_object_id m) (sv_cache s1) of
                    Inl e \<Rightarrow> (s1, Inl (RtInternal e))
                  | Inr True \<Rightarrow> (broadcast_message user m s1, Inr ())
                  | Inr False \<Rightarrow> (s1, Inr ())))
      | _ \<Rightarrow> (s, Inr ()))"

text \<open>\<open>ClientStreamMessage\<close>: the messages that arrive over http; the first of the stream is handled.\<close>

record client_stream_message =
  csm_uid :: i64
  csm_device_id :: string
  csm_stream :: "realtime_message list"

definition handle_client_stream_message ::
    "(i64 \<Rightarrow> string \<Rightarrow> string \<Rightarrow> collab_type \<Rightarrow> 'doc) \<Rightarrow> nat \<Rightarrow> message_locks \<Rightarrow> client_stream_message \<Rightarrow>
     'doc server \<Rightarrow> 'doc server \<times> (realtime_error + unit)" where
  "handle_client_stream_message ld now l msg s =
     (case csm_stream msg of
        [] \<Rightarrow> (s, Inr ())
      | rm # _ \<Rightarrow>
          let device_id = (if csm_device_id msg = []
                           then (case rt_device_id rm of Some d \<Rightarrow> d | None \<Rightarrow> csm_device_id msg)
                           else csm_device_id msg) in
          (case sv_user_by_device s \<lparr>ud_device_id = device_id, ud_uid = csm_uid msg\<rparr> of
             None \<Rightarrow>
               (s, Inl (UserNotFound (''Can't find the user:'' @ show_int (csm_uid msg) @ '' device_id:'' @
                    device_id @ '' from client stream message'')))
           | Some user \<Rightarrow> process_realtime_message ld now l user rm s))"

subsection \<open>The server's steps\<close>

record tick_locks =
  tl_groups :: bool
  tl_remove :: "string \<Rightarrow> bool"

definition server_tick :: "bool \<Rightarrow> tick_locks \<Rightarrow> nat \<Rightarrow> string list \<Rightarrow> 'doc server \<Rightarrow> 'doc server" where
  "server_tick debug l now ids s =
     s\<lparr>sv_cache := gc_tick debug (tl_groups l) (tl_remove l) now ids (sv_cache s)\<rparr>"

datatype server_event =
    EvConnect removal_locks connect
  | EvDisconnect bool removal_locks bool disconnect
  | EvMessage nat message_locks rt_user realtime_message
  | EvStreamMessage nat message_locks client_stream_message
  | EvTick bool tick_locks nat "string list"

fun server_step ::
    "(i64 \<Rightarrow> string \<Rightarrow> string \<Rightarrow> collab_type \<Rightarrow> 'doc) \<Rightarrow> 'doc server \<Rightarrow> server_event \<Rightarrow> 'doc server" where
  "server_step ld s (EvConnect l c) = handle_connect l c s"
| "server_step ld s (EvDisconnect sf l stf d) = handle_disconnect sf l stf d s"
| "server_step ld s (EvMessage now l u rm) = fst (process_realtime_message ld now l u rm s)"
| "server_step ld s (EvStreamMessage now l m) = fst (handle_client_stream_message ld now l m s)"
| "server_step ld s (EvTick debug l now ids) = server_tick debug l now ids s"

subsection \<open>Invariants\<close>

text \<open>
  \<open>server_ok\<close> holds whatever locks are busy: the groups are consistent, and a connected user is the
  one that is recorded for its device. \<open>subscribers_ok\<close> needs the locks that a removal tries: who is
  subscribed is connected, and the object is in its editing set.
\<close>

definition server_ok :: "'doc server \<Rightarrow> bool" where
  "server_ok s \<longleftrightarrow> cache_ok (sv_cache s) \<and>
     (\<forall>u. sv_streams s u \<noteq> None \<longrightarrow> sv_user_by_device s (device_of u) = Some u)"

definition is_editing :: "'doc server \<Rightarrow> rt_user \<Rightarrow> string \<Rightarrow> bool" where
  "is_editing s u i \<longleftrightarrow> (\<exists>es. sv_editing s u = Some es \<and> (\<exists>e \<in> set es. ed_object_id e = i))"

definition subscribers_ok :: "'doc server \<Rightarrow> bool" where
  "subscribers_ok s \<longleftrightarrow>
     (\<forall>i u. task_of (sv_cache s) i u \<noteq> None \<longrightarrow> sv_streams s u \<noteq> None \<and> is_editing s u i)"

definition removal_free :: "removal_locks \<Rightarrow> bool" where
  "removal_free l \<longleftrightarrow> rl_editing l \<and> (\<forall>i. rl_groups l i \<and> rl_subscribers l i)"

fun removals_free :: "server_event \<Rightarrow> bool" where
  "removals_free (EvConnect l c) = removal_free l"
| "removals_free (EvDisconnect sf l stf d) = removal_free l"
| "removals_free _ = True"

lemma remove_user_frame [frame, simp]:
  "sv_streams (remove_user l u s) = sv_streams s"
  "sv_user_by_device (remove_user l u s) = sv_user_by_device s"
  "sv_session_id_by_user (remove_user l u s) = sv_session_id_by_user s"
  "sv_sent (remove_user l u s) = sv_sent s"
  by (auto simp: remove_user_def split: option.splits)

lemma task_of_fold_remove_user:
  "task_of (fold (remove_user_from_group l u) es c) j v =
     (if u = v \<and> rl_groups l j \<and> rl_subscribers l j \<and> (\<exists>e \<in> set es. ed_object_id e = j) then None
      else task_of c j v)"
  by (induction es arbitrary: c) (auto simp: remove_user_from_group_def task_of_remove_user)

lemma cache_ok_fold_remove_user: "cache_ok c \<Longrightarrow> cache_ok (fold (remove_user_from_group l u) es c)"
  by (induction es arbitrary: c) (simp_all add: remove_user_from_group_def preserves)

lemma cache_ok_remove [preserves]: "cache_ok (sv_cache s) \<Longrightarrow> cache_ok (sv_cache (remove_user l u s))"
  by (auto simp: remove_user_def cache_ok_fold_remove_user split: option.splits)

lemma fold_remove_groups_kept:
  "gc_groups (fold (remove_user_from_group l u) es c) j = None \<longleftrightarrow> gc_groups c j = None"
  by (induction es arbitrary: c) (simp_all add: remove_user_from_group_def frame)

lemma task_of_remove_free:
  assumes "removal_free l"
  shows "task_of (sv_cache (remove_user l u s)) j v =
    (if u = v \<and> is_editing s u j then None else task_of (sv_cache s) j v)"
  using assms
  by (auto simp: remove_user_def removal_free_def task_of_fold_remove_user is_editing_def split: option.splits)

lemma is_editing_remove:
  "u \<noteq> v \<Longrightarrow> is_editing (remove_user l u s) v j = is_editing s v j"
  by (auto simp: remove_user_def is_editing_def split: option.splits)

lemma subscribers_okD:
  assumes "subscribers_ok s" and "task_of (sv_cache s) i u = Some t"
  shows "sv_streams s u \<noteq> None" "is_editing s u i"
  using assms by (auto simp: subscribers_ok_def)

lemma removed_has_no_task:
  assumes "removal_free l" and "subscribers_ok s"
  shows "task_of (sv_cache (remove_user l u s)) i u = None"
  using subscribers_okD(2) [OF assms(2)]
  by (cases "task_of (sv_cache s) i u") (auto simp: task_of_remove_free [OF assms(1)])

lemma subscribers_ok_remove [preserves]:
  assumes "removal_free l" and "subscribers_ok s"
  shows "subscribers_ok (remove_user l u s)"
  unfolding subscribers_ok_def
proof (intro allI impI)
  fix i v
  assume a: "task_of (sv_cache (remove_user l u s)) i v \<noteq> None"
  have "v \<noteq> u" using a removed_has_no_task [OF assms, of u i] by metis
  with a obtain t where "task_of (sv_cache s) i v = Some t"
    by (auto simp: task_of_remove_free [OF assms(1)])
  from subscribers_okD [OF assms(2) this] \<open>v \<noteq> u\<close>
  show "sv_streams (remove_user l u s) v \<noteq> None \<and> is_editing (remove_user l u s) v i"
    by (simp add: is_editing_remove)
qed

text \<open>Dropping the stream of a user without subscriptions keeps the invariant.\<close>

lemma subscribers_ok_drop_stream:
  assumes "subscribers_ok s" and "\<And>i. task_of (sv_cache s) i u = None"
  shows "subscribers_ok (s\<lparr>sv_streams := (sv_streams s)(u := None)\<rparr>)"
  using assms by (auto simp: subscribers_ok_def is_editing_def)

lemma subscribers_ok_add_stream:
  "subscribers_ok s \<Longrightarrow> subscribers_ok (s\<lparr>sv_streams := (sv_streams s)(u \<mapsto> cs)\<rparr>)"
  by (auto simp: subscribers_ok_def is_editing_def)

lemma subscribers_ok_cong:
  "sv_cache s' = sv_cache s \<Longrightarrow> sv_streams s' = sv_streams s \<Longrightarrow> sv_editing s' = sv_editing s \<Longrightarrow>
   subscribers_ok s' = subscribers_ok s"
  by (simp add: subscribers_ok_def is_editing_def)

subsection \<open>Attempts\<close>

text \<open>What an attempt does to the groups before it enters: it may create one and unsubscribe the user.\<close>

definition narrows :: "'doc group_cache \<Rightarrow> 'doc group_cache \<Rightarrow> bool" where
  "narrows c c' \<longleftrightarrow> (cache_ok c \<longrightarrow> cache_ok c') \<and> (\<forall>i u. task_of c' i u \<noteq> None \<longrightarrow> task_of c' i u = task_of c i u)"

lemma narrows_refl [simp]: "narrows c c"
  by (simp add: narrows_def)

lemma narrows_trans: "narrows c d \<Longrightarrow> narrows d e \<Longrightarrow> narrows c e"
  unfolding narrows_def by metis

lemma narrows_create: "narrows c (create_group_if_need ld gf now uid w i ct c)"
  by (simp add: narrows_def preserves task_of_create_group)

lemma narrows_create_new: "narrows c (fst (create_new_group ld gf now m i c))"
  by (auto simp: create_new_group_def narrows_create split: collab_message.splits option.splits)

lemma narrows_remove: "narrows c (fst (gc_remove_user gf sf i u c))"
  by (auto simp: narrows_def preserves task_of_remove_user)

lemma subscribe_attempt_cases:
  obtains c r where "narrows (sv_cache s) c" "subscribe_attempt ld now l u m s = (s\<lparr>sv_cache := c\<rparr>, r)"
  | c where "narrows (sv_cache s) c" "subscribe_attempt ld now l u m s = enter_group l u m (s\<lparr>sv_cache := c\<rparr>)"
proof -
  let ?i = "cm_object_id m"
  have self: "s = s\<lparr>sv_cache := sv_cache s\<rparr>" by simp
  show thesis
  proof (cases "al_contains l \<and> (gc_groups (sv_cache s) ?i \<noteq> None \<or> is_init_msg m)")
    case False
    then have "fst (subscribe_attempt ld now l u m s) = s"
      by (auto simp: subscribe_attempt_def contains_group_def Let_def)
    then show thesis using that(1) [of "sv_cache s"] narrows_refl self by (metis prod.collapse)
  next
    case True
    define p where "p = (if gc_groups (sv_cache s) ?i \<noteq> None then (sv_cache s, Inr ())
                         else create_new_group ld (al_create l) now m ?i (sv_cache s))"
    obtain c1 r1 where p: "p = (c1, r1)" by fastforce
    have n1: "narrows (sv_cache s) c1"
      using narrows_create_new [of "sv_cache s" ld "al_create l" now m ?i] p
      by (auto simp: p_def split: if_splits)
    obtain c2 r2 where q: "gc_remove_user (al_remove_groups l) (al_remove_subscribers l) ?i u c1 = (c2, r2)"
      by fastforce
    have n2: "narrows (sv_cache s) c2"
      using narrows_trans [OF n1] narrows_remove [of c1 "al_remove_groups l" "al_remove_subscribers l" ?i u] q
      by simp
    have c: "contains_group (al_contains l) ?i (sv_cache s) = Inr (gc_groups (sv_cache s) ?i \<noteq> None)"
      using True by (simp add: contains_group_def)
    have d: "(\<not> gc_groups (sv_cache s) ?i \<noteq> None \<and> \<not> is_init_msg m) = False" using True by simp
    have e: "subscribe_attempt ld now l u m s =
      (case r1 of
         Inl e \<Rightarrow> (s\<lparr>sv_cache := c1\<rparr>, Inl e)
       | Inr _ \<Rightarrow>
           if is_init_msg m then
             (case r2 of
                Inl e \<Rightarrow> (s\<lparr>sv_cache := c2\<rparr>, Inl (RtInternal e))
              | Inr _ \<Rightarrow> enter_group l u m (s\<lparr>sv_cache := c2\<rparr>))
           else if contains_user (al_member_groups l) (al_member_subscribers l) ?i u c1 = Inr True
           then (s\<lparr>sv_cache := c1\<rparr>, Inr ())
           else enter_group l u m (s\<lparr>sv_cache := c1\<rparr>))"
      unfolding subscribe_attempt_def Let_def c sum.case d if_False p_def [symmetric] p prod.case q ..
    show thesis
      using that n1 n2 e by (cases r1; cases r2) (auto split: if_splits)
  qed
qed

lemma enter_group_cases:
  obtains r where "enter_group l u m s = (s, r)"
  | g og where "gc_groups (sv_cache s) (cm_object_id m) = Some g" "gr_subscribers g u = None"
      "sv_streams s u \<noteq> None" "al_streams l" "al_get_group l" "al_subscribers l" "al_editing l"
      "enter_group l u m s =
        (s\<lparr>sv_editing := (sv_editing s)(u \<mapsto> List.insert \<lparr>ed_object_id = cm_object_id m, ed_origin = og\<rparr>
              (case sv_editing s u of Some es \<Rightarrow> es | None \<Rightarrow> [])),
           sv_cache := gc_subscribe (cm_object_id m) g u og (sv_cache s)\<rparr>, Inr ())"
proof (cases "al_streams l \<and> sv_streams s u \<noteq> None \<and> al_get_group l \<and> al_subscribers l \<and> al_editing l \<and>
    (\<exists>g. gc_groups (sv_cache s) (cm_object_id m) = Some g \<and> gr_subscribers g u = None)")
  case True
  then obtain g where g: "gc_groups (sv_cache s) (cm_object_id m) = Some g" "gr_subscribers g u = None" by blast
  show thesis by (rule that(2) [of g "get_origin m"]) (use True g in \<open>auto simp: enter_group_def Let_def get_group_def\<close>)
next
  case False
  then have "fst (enter_group l u m s) = s"
    by (auto simp: enter_group_def Let_def get_group_def split: option.splits)
  then show thesis by (metis that(1) prod.collapse)
qed

lemma enter_group_keeps [preserves]:
  assumes "cache_ok (sv_cache s)"
  shows "cache_ok (sv_cache (fst (enter_group l u m s)))"
    "subscribers_ok s \<Longrightarrow> subscribers_ok (fst (enter_group l u m s))"
    "sv_streams (fst (enter_group l u m s)) = sv_streams s"
    "sv_user_by_device (fst (enter_group l u m s)) = sv_user_by_device s"
proof -
  consider r where "enter_group l u m s = (s, r)"
  | g og where "gc_groups (sv_cache s) (cm_object_id m) = Some g" "gr_subscribers g u = None"
      "sv_streams s u \<noteq> None"
      "enter_group l u m s =
        (s\<lparr>sv_editing := (sv_editing s)(u \<mapsto> List.insert \<lparr>ed_object_id = cm_object_id m, ed_origin = og\<rparr>
              (case sv_editing s u of Some es \<Rightarrow> es | None \<Rightarrow> [])),
           sv_cache := gc_subscribe (cm_object_id m) g u og (sv_cache s)\<rparr>, Inr ())"
    by (rule enter_group_cases)
  then have "cache_ok (sv_cache (fst (enter_group l u m s))) \<and>
    (subscribers_ok s \<longrightarrow> subscribers_ok (fst (enter_group l u m s))) \<and>
    sv_streams (fst (enter_group l u m s)) = sv_streams s \<and>
    sv_user_by_device (fst (enter_group l u m s)) = sv_user_by_device s"
  proof cases
    case 1
    then show ?thesis using assms by simp
  next
    case 2
    let ?i = "cm_object_id m"
    have n: "task_of (sv_cache s) ?i u = None" using 2(1,2) by (simp add: task_of_def)
    have "subscribers_ok (fst (enter_group l u m s))" if "subscribers_ok s"
      unfolding subscribers_ok_def
    proof (intro allI impI)
      fix i v
      assume a: "task_of (sv_cache (fst (enter_group l u m s))) i v \<noteq> None"
      show "sv_streams (fst (enter_group l u m s)) v \<noteq> None \<and> is_editing (fst (enter_group l u m s)) v i"
      proof (cases "?i = i \<and> u = v")
        case True
        then show ?thesis using 2(3) unfolding 2(4) by (auto simp: is_editing_def)
      next
        case False
        with a obtain t where "task_of (sv_cache s) i v = Some t"
          by (auto simp: 2(4) task_of_subscribe [OF 2(1)])
        from subscribers_okD [OF that this] show ?thesis by (auto simp: 2(4) is_editing_def)
      qed
    qed
    then show ?thesis using cache_ok_subscribe [OF assms 2(1) n] by (simp add: 2(4))
  qed
  then show "cache_ok (sv_cache (fst (enter_group l u m s)))"
    "subscribers_ok s \<Longrightarrow> subscribers_ok (fst (enter_group l u m s))"
    "sv_streams (fst (enter_group l u m s)) = sv_streams s"
    "sv_user_by_device (fst (enter_group l u m s)) = sv_user_by_device s" by blast+
qed

lemma subscribers_ok_narrows:
  "subscribers_ok s \<Longrightarrow> narrows (sv_cache s) c \<Longrightarrow> subscribers_ok (s\<lparr>sv_cache := c\<rparr>)"
proof -
  assume s: "subscribers_ok s" and n: "narrows (sv_cache s) c"
  have "task_of (sv_cache s) i u = Some t" if "task_of c i u = Some t" for i u t
    using n that unfolding narrows_def by (metis option.distinct(1))
  with s show ?thesis by (fastforce simp: subscribers_ok_def is_editing_def)
qed

lemma subscribe_attempt_keeps [preserves]:
  assumes "cache_ok (sv_cache s)"
  shows "cache_ok (sv_cache (fst (subscribe_attempt ld now l u m s)))"
    "subscribers_ok s \<Longrightarrow> subscribers_ok (fst (subscribe_attempt ld now l u m s))"
    "sv_streams (fst (subscribe_attempt ld now l u m s)) = sv_streams s"
    "sv_user_by_device (fst (subscribe_attempt ld now l u m s)) = sv_user_by_device s"
proof -
  consider c r where "narrows (sv_cache s) c" "subscribe_attempt ld now l u m s = (s\<lparr>sv_cache := c\<rparr>, r)"
  | c where "narrows (sv_cache s) c" "subscribe_attempt ld now l u m s = enter_group l u m (s\<lparr>sv_cache := c\<rparr>)"
    by (rule subscribe_attempt_cases)
  then have "cache_ok (sv_cache (fst (subscribe_attempt ld now l u m s))) \<and>
    (subscribers_ok s \<longrightarrow> subscribers_ok (fst (subscribe_attempt ld now l u m s))) \<and>
    sv_streams (fst (subscribe_attempt ld now l u m s)) = sv_streams s \<and>
    sv_user_by_device (fst (subscribe_attempt ld now l u m s)) = sv_user_by_device s"
  proof cases
    case 1
    then show ?thesis using assms by (simp add: subscribers_ok_narrows) (simp add: narrows_def)
  next
    case 2
    from 2(1) assms have "cache_ok (sv_cache (s\<lparr>sv_cache := c\<rparr>))" by (simp add: narrows_def)
    from enter_group_keeps [OF this, of l u m] show ?thesis
      using subscribers_ok_narrows [OF _ 2(1)] by (simp add: 2(2))
  qed
  then show "cache_ok (sv_cache (fst (subscribe_attempt ld now l u m s)))"
    "subscribers_ok s \<Longrightarrow> subscribers_ok (fst (subscribe_attempt ld now l u m s))"
    "sv_streams (fst (subscribe_attempt ld now l u m s)) = sv_streams s"
    "sv_user_by_device (fst (subscribe_attempt ld now l u m s)) = sv_user_by_device s" by blast+
qed

lemma subscribe_retry_keeps [preserves]:
  assumes "cache_ok (sv_cache s)"
  shows "cache_ok (sv_cache (fst (subscribe_retry ld now alive ls n u m s))) \<and>
    (subscribers_ok s \<longrightarrow> subscribers_ok (fst (subscribe_retry ld now alive ls n u m s))) \<and>
    sv_streams (fst (subscribe_retry ld now alive ls n u m s)) = sv_streams s \<and>
    sv_user_by_device (fst (subscribe_retry ld now alive ls n u m s)) = sv_user_by_device s"
  using assms
proof (induction n arbitrary: s)
  case 0
  then show ?case using subscribe_attempt_keeps [of s ld now "ls 0" u m] by simp
next
  case (Suc n)
  obtain s1 r where a: "subscribe_attempt ld now (ls (Suc n)) u m s = (s1, r)" by fastforce
  from subscribe_attempt_keeps [OF Suc.prems, of ld now "ls (Suc n)" u m]
  have k: "cache_ok (sv_cache s1)" "subscribers_ok s \<longrightarrow> subscribers_ok s1"
    "sv_streams s1 = sv_streams s" "sv_user_by_device s1 = sv_user_by_device s"
    by (simp_all add: a)
  from Suc.IH [OF k(1)] k show ?case by (cases r) (auto simp: a)
qed

end
