(* ===== verification/ServerRuns.thy ===== *)
theory ServerRuns
  imports Server
begin

section \<open>Runs of the collaboration server\<close>

text \<open>
  The handlers of \<open>Server\<close> keep its invariants, and what each of them does to a user, a
  connection and a group.
\<close>

lemma process_realtime_message_keeps [preserves]:
  assumes "cache_ok (sv_cache s)"
  shows "cache_ok (sv_cache (fst (process_realtime_message ld now l u rm s))) \<and>
    (subscribers_ok s \<longrightarrow> subscribers_ok (fst (process_realtime_message ld now l u rm s))) \<and>
    (\<forall>v. (sv_streams (fst (process_realtime_message ld now l u rm s)) v = None) = (sv_streams s v = None)) \<and>
    sv_user_by_device (fst (process_realtime_message ld now l u rm s)) = sv_user_by_device s"
proof (cases "\<exists>m. rm = RtCollab m \<and> ml_streams l \<and> sv_streams s u \<noteq> None")
  case False
  then have "fst (process_realtime_message ld now l u rm s) = s"
    by (cases rm) (auto simp: process_realtime_message_def)
  with assms show ?thesis by simp
next
  case True
  then obtain m where m: "rm = RtCollab m" "ml_streams l" "sv_streams s u \<noteq> None" by blast
  obtain s1 r where a: "subscribe_group_if_need ld now (ml_alive l) (ml_attempts l) u m s = (s1, r)" by fastforce
  from subscribe_retry_keeps [OF assms, of ld now "ml_alive l" "ml_attempts l" 5 u m]
  have k: "cache_ok (sv_cache s1)" "subscribers_ok s \<longrightarrow> subscribers_ok s1"
    "sv_streams s1 = sv_streams s" "sv_user_by_device s1 = sv_user_by_device s"
    using a by (simp_all add: subscribe_group_if_need_def)
  have "fst (process_realtime_message ld now l u rm s) \<in> {s1, broadcast_message u m s1}"
    using m a by (auto simp: process_realtime_message_def split: sum.splits bool.splits)
  moreover have "subscribers_ok s1 \<Longrightarrow> subscribers_ok (broadcast_message u m s1)"
    by (auto simp: broadcast_message_def subscribers_ok_add_stream split: option.splits)
  moreover have "sv_cache (broadcast_message u m s1) = sv_cache s1"
    "(sv_streams (broadcast_message u m s1) v = None) = (sv_streams s1 v = None)"
    "sv_user_by_device (broadcast_message u m s1) = sv_user_by_device s1" for v
    by (auto simp: broadcast_message_def split: option.splits)
  ultimately show ?thesis using k by auto
qed

lemma attempt_keeps_sessions [frame]:
  "sv_session_id_by_user (fst (subscribe_attempt ld now l u m s)) = sv_session_id_by_user s"
proof -
  have e: "sv_session_id_by_user (fst (enter_group l u m s)) = sv_session_id_by_user s" for s :: "'a server"
    by (cases rule: enter_group_cases [of l u m s]) simp_all
  show ?thesis
    by (cases rule: subscribe_attempt_cases [of s ld now l u m]) (simp_all add: e)
qed

lemma retry_keeps_sessions [frame]:
  "sv_session_id_by_user (fst (subscribe_retry ld now alive ls n u m s)) = sv_session_id_by_user s"
proof (induction n arbitrary: s)
  case (Suc n)
  obtain s1 r where a: "subscribe_attempt ld now (ls (Suc n)) u m s = (s1, r)" by fastforce
  have k: "sv_session_id_by_user s1 = sv_session_id_by_user s"
    using attempt_keeps_sessions [of ld now "ls (Suc n)" u m s] by (simp add: a)
  have "fst (subscribe_retry ld now alive ls (Suc n) u m s) \<in> {s1, fst (subscribe_retry ld now alive ls n u m s1)}"
    by (cases r) (simp_all add: a)
  then show ?case using k Suc.IH [of s1] by (metis empty_iff insert_iff)
qed (simp add: frame)

lemma process_keeps_sessions [frame]:
  "sv_session_id_by_user (fst (process_realtime_message ld now l u rm s)) = sv_session_id_by_user s"
proof (cases rm)
  case (RtCollab m)
  obtain s1 r where a: "subscribe_group_if_need ld now (ml_alive l) (ml_attempts l) u m s = (s1, r)" by fastforce
  have k: "sv_session_id_by_user s1 = sv_session_id_by_user s"
    using retry_keeps_sessions [of ld now "ml_alive l" "ml_attempts l" 5 u m s] a by (simp add: subscribe_group_if_need_def)
  have "fst (process_realtime_message ld now l u rm s) \<in> {s, s1, broadcast_message u m s1}"
    using RtCollab a by (auto simp: process_realtime_message_def split: sum.splits bool.splits)
  moreover have "sv_session_id_by_user (broadcast_message u m s1) = sv_session_id_by_user s1"
    by (simp add: broadcast_message_def split: option.splits)
  ultimately show ?thesis using k by auto
qed (simp_all add: process_realtime_message_def)

lemma handle_client_stream_message_cases:
  "fst (handle_client_stream_message ld now l msg s) \<in>
     insert s {fst (process_realtime_message ld now l u rm s) | u rm. True}"
  unfolding handle_client_stream_message_def Let_def by (auto split: list.splits option.splits)

text \<open>The state from which a connect handler adds the new stream.\<close>

lemma handle_connect_cases:
  fixes s :: "'doc server"
  obtains s1 :: "'doc server" where
    "sv_user_by_device s (device_of (cn_user c)) = None" "sv_cache s1 = sv_cache s" "sv_streams s1 = sv_streams s"
    "sv_editing s1 = sv_editing s" "sv_sent s1 = sv_sent s"
    "sv_user_by_device s1 = (sv_user_by_device s)(device_of (cn_user c) \<mapsto> cn_user c)"
    "handle_connect l c s = s1\<lparr>sv_streams := (sv_streams s1)(cn_user c \<mapsto> client_stream_new (cn_socket c))\<rparr>"
  | s1 old where
    "sv_user_by_device s (device_of (cn_user c)) = Some old" "sv_cache s1 = sv_cache s"
    "sv_streams s1 = (sv_streams s)(old := None)" "sv_editing s1 = sv_editing s"
    "sv_user_by_device s1 = (sv_user_by_device s)(device_of (cn_user c) \<mapsto> cn_user c)"
    "sv_sent s1 = sv_sent s @
       (case sv_streams s old of Some cs \<Rightarrow> [(cs_socket cs, RtSystem KickOff)] | None \<Rightarrow> [])"
    "handle_connect l c s = (remove_user l old s1)
       \<lparr>sv_streams := (sv_streams (remove_user l old s1))(cn_user c \<mapsto> client_stream_new (cn_socket c))\<rparr>"
proof (cases "sv_user_by_device s (device_of (cn_user c))")
  case None
  show thesis
    by (rule that(1) [of "s\<lparr>sv_session_id_by_user := (sv_session_id_by_user s)(cn_user c \<mapsto> cn_session_id c),
        sv_user_by_device := (sv_user_by_device s)(device_of (cn_user c) \<mapsto> cn_user c)\<rparr>"])
      (use None in \<open>simp_all add: handle_connect_def Let_def\<close>)
next
  case (Some old)
  let ?s2 = "s\<lparr>sv_session_id_by_user := (sv_session_id_by_user s)(cn_user c \<mapsto> cn_session_id c),
        sv_user_by_device := (sv_user_by_device s)(device_of (cn_user c) \<mapsto> cn_user c)\<rparr>"
  show thesis
    by (rule that(2) [of old "case sv_streams s old of
          Some cs \<Rightarrow> stream_disconnect cs (?s2\<lparr>sv_streams := (sv_streams s)(old := None)\<rparr>) | None \<Rightarrow> ?s2"])
      (use Some in \<open>auto simp: handle_connect_def Let_def stream_disconnect_def split: option.splits\<close>)
qed

lemma server_okD:
  assumes "server_ok s"
  shows "cache_ok (sv_cache s)" "sv_streams s u = Some cs \<Longrightarrow> sv_user_by_device s (device_of u) = Some u"
  using assms by (auto simp: server_ok_def)

lemma server_okI:
  assumes "cache_ok (sv_cache s)"
    and "\<And>u. sv_streams s u \<noteq> None \<Longrightarrow> sv_user_by_device s (device_of u) = Some u"
  shows "server_ok s"
  using assms by (auto simp: server_ok_def)

lemma server_ok_connect [preserves]:
  assumes s: "server_ok s"
  shows "server_ok (handle_connect l c s)"
proof (cases rule: handle_connect_cases [where s = s and c = c and l = l])
  case (1 s1)
  show ?thesis
  proof (rule server_okI)
    show "cache_ok (sv_cache (handle_connect l c s))" using server_okD(1) [OF s] 1 by simp
    fix u
    assume "sv_streams (handle_connect l c s) u \<noteq> None"
    then show "sv_user_by_device (handle_connect l c s) (device_of u) = Some u"
      using server_okD(2) [OF s, of u] 1 by (auto split: if_splits)
  qed
next
  case (2 s1 old)
  show ?thesis
  proof (rule server_okI)
    show "cache_ok (sv_cache (handle_connect l c s))"
      using server_okD(1) [OF s] 2 cache_ok_remove [of s1 l old] by simp
    fix u
    assume "sv_streams (handle_connect l c s) u \<noteq> None"
    then have "u = cn_user c \<or> u \<noteq> old \<and> sv_streams s u \<noteq> None" using 2 by (auto split: if_splits)
    then show "sv_user_by_device (handle_connect l c s) (device_of u) = Some u"
      using server_okD(2) [OF s, of u] 2 by auto
  qed
qed

lemma subscribers_ok_connect [preserves]:
  assumes s: "subscribers_ok s" and l: "removal_free l"
  shows "subscribers_ok (handle_connect l c s)"
proof (cases rule: handle_connect_cases [where s = s and c = c and l = l])
  case (1 s1)
  then have "subscribers_ok s1" using s subscribers_ok_cong [of s1 s] by simp
  then show ?thesis unfolding 1(7) by (rule subscribers_ok_add_stream)
next
  case (2 s1 old)
  let ?t = "remove_user l old (s1\<lparr>sv_streams := sv_streams s\<rparr>)"
  have "subscribers_ok (s1\<lparr>sv_streams := sv_streams s\<rparr>)"
    using s subscribers_ok_cong [of "s1\<lparr>sv_streams := sv_streams s\<rparr>" s] 2 by simp
  then have "subscribers_ok ?t" and n: "\<And>i. task_of (sv_cache ?t) i old = None"
    using subscribers_ok_remove [OF l] removed_has_no_task [OF l] by blast+
  then have "subscribers_ok (?t\<lparr>sv_streams := (sv_streams ?t)(old := None)\<rparr>)"
    by (rule subscribers_ok_drop_stream)
  moreover have "remove_user l old s1 = ?t\<lparr>sv_streams := (sv_streams ?t)(old := None)\<rparr>"
    using 2(3) by (auto simp: remove_user_def split: option.splits)
  ultimately show ?thesis unfolding 2(7) by (metis subscribers_ok_add_stream)
qed

lemma server_ok_disconnect [preserves]:
  assumes "server_ok s"
  shows "server_ok (handle_disconnect sf l stf d s)"
proof -
  have "server_ok (remove_user l (dc_user d) s)"
    using assms by (auto simp: server_ok_def preserves)
  then show ?thesis
    using assms by (auto simp: handle_disconnect_def Let_def server_ok_def)
qed

lemma subscribers_ok_disconnect [preserves]:
  assumes s: "subscribers_ok s" and l: "removal_free l"
  shows "subscribers_ok (handle_disconnect sf l stf d s)"
  using s subscribers_ok_remove [OF l s]
    subscribers_ok_drop_stream [OF subscribers_ok_remove [OF l s] removed_has_no_task [OF l s], of "dc_user d"]
  by (simp add: handle_disconnect_def Let_def)

lemma subscribers_ok_tick [preserves]:
  "subscribers_ok s \<Longrightarrow> subscribers_ok (server_tick debug l now ids s)"
  by (simp add: subscribers_ok_def server_tick_def gc_tick_def task_of_fold_remove is_editing_def)

lemma server_ok_step [preserves]:
  assumes s: "server_ok s"
  shows "server_ok (server_step ld s e)"
proof -
  have p: "server_ok (fst (process_realtime_message ld now l u rm s))" for now l u rm
    using process_realtime_message_keeps [OF server_okD(1) [OF s], of ld now l u rm] s
    by (simp add: server_ok_def)
  show ?thesis
  proof (cases e)
    case (EvStreamMessage now l msg)
    then show ?thesis using p s handle_client_stream_message_cases [of ld now l msg s] by auto
  next
    case (EvTick debug l now ids)
    then show ?thesis using s by (simp add: server_ok_def server_tick_def preserves)
  qed (use s p in \<open>simp_all add: preserves\<close>)
qed

lemma subscribers_ok_step [preserves]:
  assumes s: "server_ok s" "subscribers_ok s" and e: "removals_free e"
  shows "subscribers_ok (server_step ld s e)"
proof -
  have p: "subscribers_ok (fst (process_realtime_message ld now l u rm s))" for now l u rm
    using process_realtime_message_keeps [OF server_okD(1) [OF s(1)], of ld now l u rm] s(2) by blast
  show ?thesis
  proof (cases e)
    case (EvStreamMessage now l msg)
    then show ?thesis using p s handle_client_stream_message_cases [of ld now l msg s] by auto
  qed (use s e p in \<open>simp_all add: preserves\<close>)
qed

interpretation server: step_invariant "server_step ld" "\<lambda>_ _. True" server_ok
  for ld :: "i64 \<Rightarrow> string \<Rightarrow> string \<Rightarrow> collab_type \<Rightarrow> 'doc"
  by unfold_locales (rule server_ok_step)

interpretation subscribers: step_invariant "server_step ld" "\<lambda>_. removals_free" "\<lambda>s. server_ok s \<and> subscribers_ok s"
  for ld :: "i64 \<Rightarrow> string \<Rightarrow> string \<Rightarrow> collab_type \<Rightarrow> 'doc"
  by unfold_locales (simp add: server_ok_step subscribers_ok_step)

lemma server_ok_new: "server_ok server_new" "subscribers_ok server_new"
  by (simp_all add: server_ok_def subscribers_ok_def server_new_def cache_ok_new)
    (simp add: group_cache_new_def task_of_def)

subsection \<open>Joining a group\<close>

definition attempt_free :: attempt_locks where
  "attempt_free =
     \<lparr>al_contains = True, al_create = True, al_remove_groups = True, al_remove_subscribers = True,
      al_member_groups = True, al_member_subscribers = True, al_streams = True, al_get_group = True,
      al_subscribers = True, al_editing = True\<rparr>"

definition message_free :: message_locks where
  "message_free = \<lparr>ml_streams = True, ml_alive = True, ml_attempts = \<lambda>_. attempt_free, ml_contains = True\<rparr>"

lemma retry_first:
  "subscribe_attempt ld now (ls 5) u m s = (s1, Inr ()) \<Longrightarrow>
   subscribe_group_if_need ld now alive ls u m s = (s1, Inr ())"
  using subscribe_retry.simps(2) [of ld now alive ls 4 u m s]
  by (simp add: subscribe_group_if_need_def)

lemma enter_group_free:
  assumes "sv_streams s u \<noteq> None" and "gc_groups (sv_cache s) (cm_object_id m) = Some g"
    and "gr_subscribers g u = None"
  shows "enter_group attempt_free u m s =
    (s\<lparr>sv_editing := (sv_editing s)(u \<mapsto> List.insert \<lparr>ed_object_id = cm_object_id m, ed_origin = get_origin m\<rparr>
          (case sv_editing s u of Some es \<Rightarrow> es | None \<Rightarrow> [])),
       sv_cache := gc_subscribe (cm_object_id m) g u (get_origin m) (sv_cache s)\<rparr>, Inr ())"
  using assms by (auto simp: enter_group_def Let_def attempt_free_def get_group_def)

text \<open>Removing a user with free locks leaves the group with its document.\<close>

lemma gc_remove_user_free:
  assumes "gc_groups c i = Some g"
  obtains c1 where "gc_remove_user True True i u c = (c1, Inr ())"
    "gc_groups c1 i = Some (g\<lparr>gr_subscribers := (gr_subscribers g)(u := None)\<rparr>)" "gc_next_task c1 = gc_next_task c"
proof (cases "gr_subscribers g u")
  case None
  then have "(gr_subscribers g)(u := None) = gr_subscribers g" by (simp add: fun_upd_idem_iff)
  with None assms show thesis by (intro that [of c]) (simp_all add: gc_remove_user_def)
next
  case (Some sub)
  then show thesis using assms
    by (intro that [of "fst (gc_remove_user True True i u c)"]) (simp_all add: gc_remove_user_def stop_task_def)
qed

definition opened_doc ::
    "(i64 \<Rightarrow> string \<Rightarrow> string \<Rightarrow> collab_type \<Rightarrow> 'doc) \<Rightarrow> i64 \<Rightarrow> init_sync \<Rightarrow> 'doc group_cache \<Rightarrow> 'doc" where
  "opened_doc ld uid ci c =
     (case gc_groups c (is_object_id ci) of
        Some g \<Rightarrow> gr_doc g
      | None \<Rightarrow> ld uid (is_workspace_id ci) (is_object_id ci) (is_collab_type ci))"

text \<open>The preparation of an init message: the group exists afterwards, without the user.\<close>

lemma init_prepares:
  assumes "client_user_id (is_origin ci) = Some uid"
  obtains c g where
    "\<And>s. sv_cache s = c0 \<Longrightarrow>
       subscribe_attempt ld now attempt_free u (ClientInitSync ci) s =
       enter_group attempt_free u (ClientInitSync ci) (s\<lparr>sv_cache := c\<rparr>)"
    "gc_groups c (is_object_id ci) = Some g" "gr_subscribers g u = None"
    "gr_doc g = opened_doc ld uid ci c0" "gc_next_task c = gc_next_task c0"
proof -
  let ?i = "is_object_id ci"
  define c1 where "c1 = (if gc_groups c0 ?i \<noteq> None then c0
    else create_group_if_need ld True now uid (is_workspace_id ci) ?i (is_collab_type ci) c0)"
  have n1: "gc_next_task c1 = gc_next_task c0"
    by (simp add: c1_def create_group_if_need_def init_group_def)
  have "gc_groups c1 ?i \<noteq> None" by (auto simp: c1_def create_group_if_need_def init_group_def)
  then obtain g1 where g1: "gc_groups c1 ?i = Some g1" by blast
  then have d1: "gr_doc g1 = opened_doc ld uid ci c0"
    by (auto simp: c1_def create_group_if_need_def init_group_def group_new_def opened_doc_def split: if_splits)
  obtain c2 where c2: "gc_remove_user True True ?i u c1 = (c2, Inr ())"
    "gc_groups c2 ?i = Some (g1\<lparr>gr_subscribers := (gr_subscribers g1)(u := None)\<rparr>)"
    "gc_next_task c2 = gc_next_task c1"
    using gc_remove_user_free [OF g1] by blast
  show thesis
  proof (rule that [OF _ c2(2)])
    fix s :: "'a server"
    assume s: "sv_cache s = c0"
    have "(if gc_groups c0 ?i \<noteq> None then (c0, Inr ())
        else create_new_group ld True now (ClientInitSync ci) ?i c0) = (c1, Inr ())"
      using assms by (simp add: c1_def create_new_group_def)
    then show "subscribe_attempt ld now attempt_free u (ClientInitSync ci) s =
       enter_group attempt_free u (ClientInitSync ci) (s\<lparr>sv_cache := c2\<rparr>)"
      using c2(1)
      by (cases "gc_groups c0 ?i")
        (simp_all add: subscribe_attempt_def attempt_free_def Let_def contains_group_def s is_init_msg_def)
  qed (use d1 n1 c2(3) in simp_all)
qed

text \<open>The whole handling of an init message of a connected user, with its locks free.\<close>

lemma init_message:
  assumes u: "client_user_id (is_origin ci) = Some uid" and st: "sv_streams s user = Some cs"
  obtains s1 g where
    "process_realtime_message ld now message_free user (RtCollab (ClientInitSync ci)) s = (s1, Inr ())"
    "gc_groups (sv_cache s1) (is_object_id ci) = Some g" "gr_doc g = opened_doc ld uid ci (sv_cache s)"
    "gr_subscribers g user = Some \<lparr>sub_origin = is_origin ci, sub_task = gc_next_task (sv_cache s)\<rparr>"
    "sv_streams s1 = (sv_streams s)(user \<mapsto> cs\<lparr>cs_stream := cs_stream cs @ [ClientInitSync ci]\<rparr>)"
    "is_editing s1 user (is_object_id ci)"
proof -
  let ?m = "ClientInitSync ci" and ?i = "is_object_id ci"
  obtain c g where p: "subscribe_attempt ld now attempt_free user ?m s = enter_group attempt_free user ?m (s\<lparr>sv_cache := c\<rparr>)"
    "gc_groups c ?i = Some g" "gr_subscribers g user = None"
    "gr_doc g = opened_doc ld uid ci (sv_cache s)" "gc_next_task c = gc_next_task (sv_cache s)"
    using init_prepares [OF u, of "sv_cache s" ld now user] by metis
  define s1 where "s1 = s\<lparr>sv_editing := (sv_editing s)(user \<mapsto>
        List.insert \<lparr>ed_object_id = ?i, ed_origin = is_origin ci\<rparr> (case sv_editing s user of Some es \<Rightarrow> es | None \<Rightarrow> [])),
      sv_cache := gc_subscribe ?i g user (is_origin ci) c\<rparr>"
  have "subscribe_attempt ld now attempt_free user ?m s = (s1, Inr ())"
    unfolding p(1) using enter_group_free [of "s\<lparr>sv_cache := c\<rparr>" user ?m g] p st
    by (simp add: s1_def get_origin_def)
  then have "subscribe_group_if_need ld now True (\<lambda>_. attempt_free) user ?m s = (s1, Inr ())"
    by (rule retry_first)
  moreover have "gc_groups (sv_cache s1) ?i =
      Some (g\<lparr>gr_subscribers := (gr_subscribers g)(user \<mapsto> \<lparr>sub_origin = is_origin ci, sub_task = gc_next_task c\<rparr>)\<rparr>)"
    by (simp add: s1_def gc_subscribe_def)
  ultimately have "process_realtime_message ld now message_free user (RtCollab ?m) s =
      (broadcast_message user ?m s1, Inr ())"
    using st by (simp add: process_realtime_message_def message_free_def contains_group_def)
  then show thesis
    by (rule that [of _ "g\<lparr>gr_subscribers := (gr_subscribers g)
        (user \<mapsto> \<lparr>sub_origin = is_origin ci, sub_task = gc_next_task (sv_cache s)\<rparr>)\<rparr>"])
      (use st p(4,5) in \<open>auto simp: broadcast_message_def s1_def gc_subscribe_def is_editing_def\<close>)
qed

end
