(* ===== verification/Channels.thy ===== *)
theory Channels
  imports Server
begin

section \<open>The channels between a connection and a group\<close>

text \<open>
  \<open>SubscribeGroupIfNeed::make_channel\<close> of \<open>libs/realtime/src/collaborate/retry.rs\<close> and
  \<open>CollabClientStream::client_channel\<close> of \<open>server.rs\<close>: the permission filters of a subscription, the
  task that forwards a client's messages to the group, and the task that forwards the group's messages
  to the client. The pair of states of the operations is the enforcer and the server.
\<close>

definition sink_filter ::
    "'e casbin_api \<Rightarrow> i64 \<Rightarrow> string \<Rightarrow> collab_message \<Rightarrow> 'e af_enforcer \<Rightarrow> 'e af_enforcer \<times> bool" where
  "sink_filter api uid object_id m e =
     (if cm_object_id m \<noteq> object_id then (e, False)
      else case can_receive_collab_update api e uid object_id of
             (e1, Inr is_allowed) \<Rightarrow> (e1, is_allowed)
           | (e1, Inl _) \<Rightarrow> (e1, False))"

definition stream_filter ::
    "'e casbin_api \<Rightarrow> i64 \<Rightarrow> string \<Rightarrow> collab_message \<Rightarrow> 'e af_enforcer \<Rightarrow> 'e af_enforcer \<times> bool" where
  "stream_filter api uid object_id m e =
     (if cm_object_id m \<noteq> object_id then (e, False)
      else if is_client_init m then (e, True)
      else case can_send_collab_update api e uid object_id of
             (e1, Inr is_allowed) \<Rightarrow> (e1, is_allowed)
           | (e1, Inl _) \<Rightarrow> (e1, False))"

text \<open>
  The sink side of \<open>client_channel\<close>: a message for the subscriber reaches its websocket session if the
  filter lets it through.
\<close>

definition forward_to_client ::
    "'e casbin_api \<Rightarrow> rt_user \<Rightarrow> nat \<Rightarrow> string \<Rightarrow> collab_message \<Rightarrow> 'e af_enforcer \<times> 'doc server \<Rightarrow>
     'e af_enforcer \<times> 'doc server" where
  "forward_to_client api user socket object_id m st =
     (case st of (e, s) \<Rightarrow>
        (case sink_filter api (ru_uid user) object_id m e of
           (e1, can_sink) \<Rightarrow>
             (e1, if can_sink then s\<lparr>sv_sent := sv_sent s @ [(socket, RtCollab m)]\<rparr> else s)))"

text \<open>
  The stream side: a message that the server put on the stream of \<open>user\<close>'s connection, seen by the
  task of \<open>user\<close>'s subscription to the message's object and by the stream task behind it. The last
  component are the answers given to the subscription's sink.
\<close>

definition deliver_message ::
    "('sv, 'aw) yrs_codec \<Rightarrow> ('doc, 'sv, 'aw, 'upd) yrs_doc \<Rightarrow> 'e casbin_api \<Rightarrow> (nat \<Rightarrow> handling) \<Rightarrow> bool \<Rightarrow> nat \<Rightarrow>
     rt_user \<Rightarrow> collab_message \<Rightarrow> 'e af_enforcer \<times> 'doc server \<Rightarrow>
     ('e af_enforcer \<times> 'doc server) \<times> collab_message list" where
  "deliver_message y d api env modified_free now user m st =
     (let (e, s) = st; object_id = cm_object_id m in
      case gc_groups (sv_cache s) object_id of
        None \<Rightarrow> (st, [])
      | Some g \<Rightarrow>
          (case gr_subscribers g user of
             None \<Rightarrow> (st, [])
           | Some _ \<Rightarrow>
               (case stream_filter api (ru_uid user) object_id m e of
                  (e1, False) \<Rightarrow> ((e1, s), [])
                | (e1, True) \<Rightarrow>
                    (case stream_task_message y d env modified_free now object_id m (gr_doc g, gr_modified_at g) of
                       ((doc1, t1), acks) \<Rightarrow>
                         ((e1, s\<lparr>sv_cache := (sv_cache s)\<lparr>gc_groups := (gc_groups (sv_cache s))(object_id \<mapsto>
                                   g\<lparr>gr_doc := doc1, gr_modified_at := t1\<rparr>)\<rparr>\<rparr>), acks)))))"

subsection \<open>Lemmas\<close>

definition level_of_user :: "('e \<Rightarrow> rule list) \<Rightarrow> 'e af_enforcer \<Rightarrow> i64 \<Rightarrow> string \<Rightarrow> af_access_level option \<Rightarrow> bool" where
  "level_of_user pol e uid oid level \<longleftrightarrow>
     permission_of pol e uid (ObjCollab oid) = map_option level_to_action level"

text \<open>
  The enforcer decides by the level, as long as it holds no earlier decision.
\<close>

definition fresh_decision :: "'e af_enforcer \<Rightarrow> i64 \<Rightarrow> string \<Rightarrow> action \<Rightarrow> bool" where
  "fresh_decision e uid oid a \<longleftrightarrow>
     en_result_cache e (cache_policy_key [show_int uid, to_object_id (ObjCollab oid), action_str a]) = None"

lemma enforce_by_level:
  assumes "casbin_ok api pol grp" and "enforcer_ok pol e" and "grp (en_casbin e) = grouping_policies"
    and "level_of_user pol e uid oid level" and "fresh_decision e uid oid a"
  obtains e1 where "en_enforce api e uid (ObjCollab oid) (action_str a) =
    (e1, Inr (case level of None \<Rightarrow> False | Some lv \<Rightarrow> level_permits lv a))"
proof -
  have "snd (en_enforce api e uid (ObjCollab oid) (action_str a)) =
      Inr (case level of None \<Rightarrow> False | Some lv \<Rightarrow> level_permits lv a)"
    using enforce_uncached [OF assms(1,2), of uid "ObjCollab oid" "action_str a"] assms(3-5)
    by (cases level) (simp_all add: level_of_user_def fresh_decision_def grouping_policies_permit
        level_not_action del: level_permits.simps to_object_id.simps)
  then show thesis using that by (metis prod.collapse)
qed

definition group_doc :: "'doc server \<Rightarrow> string \<Rightarrow> 'doc option" where
  "group_doc s i = map_option gr_doc (gc_groups (sv_cache s) i)"

lemma deliver_blocked:
  assumes "stream_filter api (ru_uid user) (cm_object_id m) m e = (e1, False)"
  shows "snd (fst (deliver_message y d api env mf now user m (e, s))) = s \<and>
    snd (deliver_message y d api env mf now user m (e, s)) = []"
  using assms by (simp add: deliver_message_def Let_def split: option.splits)

text \<open>A message of a subscriber that carries one update which its document can integrate.\<close>

lemma deliver_update:
  assumes y: "yrs_laws y" and a: "update_applies d ops (cm_origin m) doc u new"
    and f: "stream_filter api (ru_uid user) (cm_object_id m) m e = (e1, True)"
    and g: "gc_groups (sv_cache s) (cm_object_id m) = Some g" "gr_doc g = doc" "gr_subscribers g user \<noteq> None"
    and p: "cm_payload m = Some (encode_message y (SyncMsg (SyncUpdate u)))"
  obtains s' acks doc' where
    "deliver_message y d api (\<lambda>_. all_free) mf now user m (e, s) = ((e1, s'), acks)"
    "group_doc s' (cm_object_id m) = Some doc'" "ops doc' = ops doc \<union> new"
    "acks = respond all_free (cm_object_id m) m None"
proof -
  obtain doc' where h: "handle_collab_message ServerSyncProtocol y d (cm_origin m) True doc (SyncMsg (SyncUpdate u)) = (doc', Inr None)"
    "ops doc' = ops doc \<union> new"
    by (rule handle_update_applies [OF a])
  have "handle_user_collab_message y d (\<lambda>_. all_free) (cm_object_id m) m doc =
      handle_payload_messages y d (\<lambda>_. all_free) (cm_object_id m) m doc [SyncMsg (SyncUpdate u)]"
    by (rule handle_user_encoded [OF y]) (simp_all add: p)
  also have "\<dots> = (doc', respond all_free (cm_object_id m) m None)"
    using h(1) by (simp add: all_free_def)
  finally have "stream_task_message y d (\<lambda>_. all_free) mf now (cm_object_id m) m (gr_doc g, gr_modified_at g) =
      ((doc', if mf then now else gr_modified_at g), respond all_free (cm_object_id m) m None)"
    by (simp add: stream_task_message_def p g(2))
  with that f g h(2) show thesis
    by (auto simp: deliver_message_def Let_def group_doc_def)
qed

end
