(* ===== verification/ServerProps.thy ===== *)
theory ServerProps
  imports ServerRuns Channels
begin

section \<open>What the collaboration server guarantees\<close>

text \<open>
  The properties of runs of the server, of its handlers and of the way from a client's message to the
  document of a group, with the concrete server and users that their witnesses run.
\<close>

definition sample_user :: "string \<Rightarrow> rt_user" where
  "sample_user c = \<lparr>ru_uid = 1, ru_device_id = ''d'', ru_connect_id = c\<rparr>"

definition sample_origin :: collab_origin where
  "sample_origin = OriginClient 1 ''d''"

definition removal_all_free :: removal_locks where
  "removal_all_free = \<lparr>rl_editing = True, rl_groups = \<lambda>_. True, rl_subscribers = \<lambda>_. True\<rparr>"

lemma removal_all_free [simp]: "removal_free removal_all_free"
  by (simp add: removal_free_def removal_all_free_def)

definition sample_load :: "i64 \<Rightarrow> string \<Rightarrow> string \<Rightarrow> collab_type \<Rightarrow> bytes" where
  "sample_load uid w i ct = [1]"

definition sample_init :: "bytes \<Rightarrow> init_sync" where
  "sample_init p = init_sync_new sample_origin ''a'' Document ''w'' 0 p"

definition sample_connect :: "string \<Rightarrow> nat \<Rightarrow> connect" where
  "sample_connect c socket = \<lparr>cn_socket = socket, cn_user = sample_user c, cn_session_id = c\<rparr>"

text \<open>A server with one connection, which has joined the group of one object.\<close>

definition sample_events :: "server_event list" where
  "sample_events =
     [EvConnect removal_all_free (sample_connect ''x'' 7),
      EvMessage 0 message_free (sample_user ''x'') (RtCollab (ClientInitSync (sample_init [])))]"

definition sample_server :: "bytes server" where
  "sample_server = run (server_step sample_load) server_new sample_events"

lemma sample_free: "admissible (\<lambda>_. removals_free) (server_step sample_load) s sample_events"
  by (simp add: sample_events_def)

lemma sample_server_ok: "server_ok sample_server \<and> subscribers_ok sample_server"
  unfolding sample_server_def
  by (rule subscribers.run_inv) (simp_all add: server_ok_new sample_free)

definition sample_connected :: "bytes server" where
  "sample_connected = handle_connect removal_all_free (sample_connect ''x'' 7) server_new"

lemma sample_connected_streams:
  "sv_streams sample_connected = [sample_user ''x'' \<mapsto> client_stream_new 7]"
  "sv_user_by_device sample_connected = [device_of (sample_user ''x'') \<mapsto> sample_user ''x'']"
  "sv_session_id_by_user sample_connected = [sample_user ''x'' \<mapsto> ''x'']"
  "sv_sent sample_connected = []" "gc_groups (sv_cache sample_connected) = Map.empty"
  "gc_next_task (sv_cache sample_connected) = 0"
  by (simp_all add: sample_connected_def handle_connect_def Let_def server_new_def sample_connect_def group_cache_new_def)

lemma sample_server_step:
  "sample_server = fst (process_realtime_message sample_load 0 message_free (sample_user ''x'')
     (RtCollab (ClientInitSync (sample_init []))) sample_connected)"
  by (simp add: sample_server_def sample_events_def sample_connected_def)

lemma sample_server_group:
  obtains g where "gc_groups (sv_cache sample_server) ''a'' = Some g" "gr_doc g = [1]"
    "gr_subscribers g (sample_user ''x'') = Some \<lparr>sub_origin = sample_origin, sub_task = 0\<rparr>"
    "sv_streams sample_server (sample_user ''x'') = Some \<lparr>cs_socket = 7, cs_stream = [ClientInitSync (sample_init [])]\<rparr>"
    "is_editing sample_server (sample_user ''x'') ''a''"
proof -
  have c: "client_user_id (is_origin (sample_init [])) = Some 1"
    by (simp add: sample_init_def init_sync_new_def sample_origin_def client_user_id_def)
  show thesis
    by (rule init_message [OF c, of sample_connected "sample_user ''x''" "client_stream_new 7" sample_load 0])
      (use that in \<open>auto simp: sample_server_step sample_connected_streams opened_doc_def sample_load_def
         sample_init_def init_sync_new_def client_stream_new_def\<close>)
qed

lemma sample_server_task: "task_of (sv_cache sample_server) ''a'' (sample_user ''x'') = Some 0"
  using sample_server_group by (metis option.map(2) subscription.select_convs(2) task_of_subscriber)

definition sample_update_msg :: update_sync where
  "sample_update_msg = update_sync_new sample_origin ''a'' (encode_message sample_yrs (SyncMsg (SyncUpdate [7]))) 4"

lemma sample_update_applies: "update_applies sample_doc set og [1] [7] {7}"
  by (simp add: update_applies_def sample_doc_def insert_commute)

lemma sample_fresh: "fresh_decision sample_enforcer uid oid a"
  by (simp add: fresh_decision_def sample_enforcer_def af_enforcer_new_def)

lemma sample_two: "''1'' \<noteq> show_int 2"
  by (metis show_int_inject show_int_one numeral_eq_one_iff semiring_norm(85))

lemma sample_groupings: "snd (en_casbin sample_enforcer) = grouping_policies"
  by (simp add: sample_enforcer_def af_enforcer_new_def)

subsection \<open>Properties\<close>



text \<open>When the locks that a removal tries are free, every subscriber of a group is connected and has
  the object in its set of edited objects, so that its next disconnection finds the subscription.\<close>

theorem subscribers_are_connected:
  assumes "admissible (\<lambda>_. removals_free) (server_step ld) server_new es"
    and "s = run (server_step ld) server_new es"
    and "gc_groups (sv_cache s) i = Some g" and "gr_subscribers g u \<noteq> None"
  shows "sv_streams s u \<noteq> None \<and> is_editing s u i"
proof -
  have "subscribers_ok s"
    using subscribers.run_inv [OF _ assms(1)] server_ok_new unfolding assms(2) by blast
  moreover have "task_of (sv_cache s) i u \<noteq> None" using assms(3,4) by (simp add: task_of_def)
  ultimately show ?thesis by (auto simp: subscribers_ok_def)
qed

theorem subscribers_are_connected_witness:
  "sv_streams sample_server (sample_user ''x'') \<noteq> None \<and> is_editing sample_server (sample_user ''x'') ''a''"
proof -
  obtain g where g: "gc_groups (sv_cache sample_server) ''a'' = Some g"
    "gr_subscribers g (sample_user ''x'') \<noteq> None" using sample_server_group by (metis option.distinct(1))
  show ?thesis by (rule subscribers_are_connected [OF sample_free sample_server_def g])
qed

text \<open>A disconnection that belongs to the session the server knows ends every subscription of the
  user and removes its connection and its edited objects, and touches nobody else; one of an older
  session changes nothing.\<close>

theorem disconnect_removes_user:
  assumes "subscribers_ok s" and "removal_free l"
    and "s' = handle_disconnect True l True \<lparr>dc_user = u, dc_session_id = sid\<rparr> s"
  shows "if sv_session_id_by_user s u = None \<or> sv_session_id_by_user s u = Some sid
    then (\<forall>i. task_of (sv_cache s') i u = None) \<and> sv_editing s' u = None \<and> sv_streams s' u = None \<and>
         (\<forall>v i. v \<noteq> u \<longrightarrow> task_of (sv_cache s') i v = task_of (sv_cache s) i v \<and> sv_streams s' v = sv_streams s v)
    else s' = s"
proof (cases "sv_session_id_by_user s u = None \<or> sv_session_id_by_user s u = Some sid")
  case True
  let ?r = "remove_user l u s"
  have s': "s' = ?r\<lparr>sv_streams := (sv_streams ?r)(u := None)\<rparr>"
    using True assms(3) by (auto simp: handle_disconnect_def Let_def)
  have "sv_editing ?r u = None"
    using assms(2) by (auto simp: remove_user_def removal_free_def split: option.splits)
  moreover have "task_of (sv_cache ?r) i v = task_of (sv_cache s) i v" if "v \<noteq> u" for i v
    using that by (auto simp: task_of_remove_free [OF assms(2)])
  ultimately show ?thesis
    using True removed_has_no_task [OF assms(2,1)] by (simp add: s')
qed (use assms(3) in \<open>auto simp: handle_disconnect_def\<close>)

theorem disconnect_removes_user_witness:
  "(\<forall>i. task_of (sv_cache (handle_disconnect True removal_all_free True
      \<lparr>dc_user = sample_user ''x'', dc_session_id = ''x''\<rparr> sample_connected)) i (sample_user ''x'') = None) \<and>
   handle_disconnect True removal_all_free True
      \<lparr>dc_user = sample_user ''x'', dc_session_id = ''older''\<rparr> sample_connected = sample_connected"
proof -
  have "subscribers_ok sample_connected"
    using subscribers_ok_connect [OF server_ok_new(2) removal_all_free] by (simp add: sample_connected_def)
  from disconnect_removes_user [OF this removal_all_free refl, of "sample_user ''x''" "''x''"]
    disconnect_removes_user [OF this removal_all_free refl, of "sample_user ''x''" "''older''"]
  show ?thesis by (simp add: sample_connected_streams)
qed

text \<open>A new connection of a device replaces the old one: the old session is told that it is kicked off,
  the old user loses its connection and every subscription, the new one is connected, and a late
  disconnection of the old user leaves the new one alone.\<close>

theorem reconnect_replaces_connection:
  assumes "subscribers_ok s" and "removal_free l"
    and "sv_user_by_device s (device_of (cn_user c)) = Some old" and "sv_streams s old = Some cs"
    and "old \<noteq> cn_user c" and "s' = handle_connect l c s"
  shows "sv_sent s' = sv_sent s @ [(cs_socket cs, RtSystem KickOff)] \<and> sv_streams s' old = None \<and>
    (\<forall>i. task_of (sv_cache s') i old = None) \<and>
    sv_streams s' (cn_user c) = Some (client_stream_new (cn_socket c)) \<and>
    sv_streams (handle_disconnect sf l' stf \<lparr>dc_user = old, dc_session_id = sid\<rparr> s') (cn_user c) =
      Some (client_stream_new (cn_socket c))"
proof (cases rule: handle_connect_cases [where s = s and c = c and l = l])
  case 1
  with assms(3) show ?thesis by simp
next
  case (2 s1 old')
  then have o: "old' = old" using assms(3) by simp
  have "task_of (sv_cache s') i old = None" for i
    using subscribers_okD(1) [OF subscribers_ok_connect [OF assms(1,2), of c], of i old]
    unfolding assms(6) 2(7) o using 2(3) assms(5) o by (cases "task_of (sv_cache (remove_user l old s1)) i old") auto
  moreover have "sv_streams (handle_disconnect sf l' stf \<lparr>dc_user = old, dc_session_id = sid\<rparr> s') (cn_user c) =
      sv_streams s' (cn_user c)"
    using assms(5) by (simp add: handle_disconnect_def Let_def)
  ultimately show ?thesis
    using 2 assms(4,5) by (simp add: assms(6) o)
qed

theorem reconnect_replaces_connection_witness:
  "sv_sent (handle_connect removal_all_free (sample_connect ''y'' 8) sample_connected) = [(7, RtSystem KickOff)] \<and>
   sv_streams (handle_disconnect True removal_all_free True \<lparr>dc_user = sample_user ''x'', dc_session_id = ''x''\<rparr>
      (handle_connect removal_all_free (sample_connect ''y'' 8) sample_connected)) (sample_user ''y'') =
     Some (client_stream_new 8)"
proof -
  have "subscribers_ok sample_connected"
    using subscribers_ok_connect [OF server_ok_new(2) removal_all_free] by (simp add: sample_connected_def)
  from reconnect_replaces_connection [OF this removal_all_free, of "sample_connect ''y'' 8" "sample_user ''x''"
      "client_stream_new 7" _ True removal_all_free True "''x''", OF _ _ _ refl]
  show ?thesis
    by (simp add: sample_connected_streams) (simp add: sample_connect_def sample_user_def device_of_def client_stream_new_def)
qed

text \<open>An init message of a connected user opens the object's group from the stored document when there
  is none, subscribes the user afresh under the message's origin, records the object as edited, and
  passes the message on to the group; the opened group keeps its document.\<close>

theorem init_sync_joins_group:
  assumes "client_user_id (is_origin ci) = Some uid" and "sv_streams s user = Some cs"
  shows "\<exists>s1 g. process_realtime_message ld now message_free user (RtCollab (ClientInitSync ci)) s = (s1, Inr ()) \<and>
    gc_groups (sv_cache s1) (is_object_id ci) = Some g \<and>
    gr_doc g = (case gc_groups (sv_cache s) (is_object_id ci) of
                  Some g0 \<Rightarrow> gr_doc g0
                | None \<Rightarrow> ld uid (is_workspace_id ci) (is_object_id ci) (is_collab_type ci)) \<and>
    gr_subscribers g user = Some \<lparr>sub_origin = is_origin ci, sub_task = gc_next_task (sv_cache s)\<rparr> \<and>
    is_editing s1 user (is_object_id ci) \<and>
    sv_streams s1 user = Some (cs\<lparr>cs_stream := cs_stream cs @ [ClientInitSync ci]\<rparr>)"
proof -
  obtain s1 g where
    "process_realtime_message ld now message_free user (RtCollab (ClientInitSync ci)) s = (s1, Inr ())"
    "gc_groups (sv_cache s1) (is_object_id ci) = Some g" "gr_doc g = opened_doc ld uid ci (sv_cache s)"
    "gr_subscribers g user = Some \<lparr>sub_origin = is_origin ci, sub_task = gc_next_task (sv_cache s)\<rparr>"
    "sv_streams s1 = (sv_streams s)(user \<mapsto> cs\<lparr>cs_stream := cs_stream cs @ [ClientInitSync ci]\<rparr>)"
    "is_editing s1 user (is_object_id ci)"
    by (rule init_message [OF assms])
  then show ?thesis by (auto simp: opened_doc_def)
qed

theorem init_sync_joins_group_witness:
  "\<exists>s1 g. process_realtime_message sample_load 0 message_free (sample_user ''x'') (RtCollab (ClientInitSync (sample_init []))) sample_connected =
     (s1, Inr ()) \<and> gc_groups (sv_cache s1) ''a'' = Some g \<and> gr_doc g = [1]"
  using init_sync_joins_group [of "sample_init []" 1 sample_connected "sample_user ''x''" "client_stream_new 7" sample_load 0]
  by (auto simp: sample_connected_streams sample_load_def sample_init_def init_sync_new_def sample_origin_def client_user_id_def)

text \<open>The periodic check removes at most six groups, each of them idle for longer than its time-out and
  flushed to the storage with the document it had; the other groups stay as they are, and every idle
  group goes when there are fewer than six.\<close>

theorem tick_closes_inactive_groups:
  assumes "dom (gc_groups (sv_cache s)) \<subseteq> set ids"
    and "s' = server_tick debug \<lparr>tl_groups = True, tl_remove = \<lambda>_. True\<rparr> now ids s"
  shows "\<exists>closed. length closed \<le> 6 \<and>
    (\<forall>i. gc_groups (sv_cache s') i = (if i \<in> set closed then None else gc_groups (sv_cache s) i)) \<and>
    (\<forall>i \<in> set closed. \<exists>g. gc_groups (sv_cache s) i = Some g \<and> is_inactive debug now g \<and>
       (i, gr_doc g) \<in> set (gc_flushed (sv_cache s'))) \<and>
    (length closed < 6 \<longrightarrow> (\<forall>i g. gc_groups (sv_cache s) i = Some g \<and> is_inactive debug now g \<longrightarrow> i \<in> set closed))"
proof -
  let ?c = "sv_cache s"
  define closed where "closed = inactive_ids debug now ?c [] ids"
  have s': "sv_cache s' = fold (\<lambda>i. remove_group True i) closed ?c"
    by (simp add: assms(2) server_tick_def gc_tick_def closed_def)
  have "\<exists>g. gc_groups ?c i = Some g \<and> is_inactive debug now g" if "i \<in> set closed" for i
    using inactive_ids_inactive [of i debug now ?c "[]" ids] that by (auto simp: closed_def)
  moreover have "(i, gr_doc g) \<in> set (gc_flushed (sv_cache s'))"
    if "i \<in> set closed" "gc_groups ?c i = Some g" for i g
    unfolding s' by (rule fold_remove_flushes [where free = "\<lambda>_. True", OF that(2,1)]) simp
  ultimately have "\<forall>i \<in> set closed. \<exists>g. gc_groups ?c i = Some g \<and> is_inactive debug now g \<and>
       (i, gr_doc g) \<in> set (gc_flushed (sv_cache s'))" by blast
  moreover have "gc_groups (sv_cache s') i = (if i \<in> set closed then None else gc_groups ?c i)" for i
    using fold_remove_groups [where free = "\<lambda>_. True", of closed ?c i] by (simp add: s')
  moreover have "length closed \<le> 6" by (simp add: closed_def inactive_ids_length)
  moreover have "i \<in> set closed"
    if "length closed < 6" "gc_groups ?c i = Some g" "is_inactive debug now g" for i g
    using that assms(1) inactive_ids_complete [of debug now ?c "[]" ids i g] by (auto simp: closed_def)
  ultimately show ?thesis by blast
qed

theorem tick_closes_inactive_groups_witness:
  "gc_groups (sv_cache (server_tick False \<lparr>tl_groups = True, tl_remove = \<lambda>_. True\<rparr> 100 [''a'', ''b''] sample_connected)) ''a'' = None"
  using tick_closes_inactive_groups [of sample_connected "[''a'', ''b'']" _ False 100, OF _ refl]
  by (auto simp: sample_connected_streams)

text \<open>A group that was closed while a user was subscribed to it is closed for the user's next message as
  well: a message that is not an init message is answered with success, but goes nowhere.\<close>

theorem update_to_closed_group_is_dropped:
  assumes "gc_groups (sv_cache s) (cm_object_id m) = Some g" and "gr_subscribers g u \<noteq> None"
    and "is_inactive debug now g" and "sv_streams s u \<noteq> None" and "\<not> is_init_msg m"
    and "s1 = server_tick debug \<lparr>tl_groups = True, tl_remove = \<lambda>_. True\<rparr> now [cm_object_id m] s"
  shows "task_of (sv_cache s1) (cm_object_id m) u = None \<and> sv_streams s1 u = sv_streams s u \<and>
    process_realtime_message ld later message_free u (RtCollab m) s1 = (s1, Inr ())"
proof -
  have c: "sv_cache s1 = remove_group True (cm_object_id m) (sv_cache s)" "sv_streams s1 = sv_streams s"
    using assms(1,3) by (simp_all add: assms(6) server_tick_def gc_tick_def)
  then have n: "gc_groups (sv_cache s1) (cm_object_id m) = None" by (simp add: frame)
  then have "subscribe_attempt ld later attempt_free u m s1 = (s1, Inr ())"
    using assms(5) by (simp add: subscribe_attempt_def attempt_free_def contains_group_def Let_def)
  then have "subscribe_group_if_need ld later True (\<lambda>_. attempt_free) u m s1 = (s1, Inr ())"
    by (rule retry_first)
  then show ?thesis
    using assms(4) c n
    by (simp add: process_realtime_message_def message_free_def contains_group_def task_of_def)
qed

theorem update_to_closed_group_is_dropped_witness:
  "\<exists>s1. sv_streams s1 (sample_user ''x'') \<noteq> None \<and>
     process_realtime_message sample_load 1001 message_free (sample_user ''x'')
       (RtCollab (ClientUpdateSync (update_sync_new sample_origin ''a'' [0, 2, 1, 7] 1))) s1 = (s1, Inr ())"
proof -
  let ?m = "ClientUpdateSync (update_sync_new sample_origin ''a'' [0, 2, 1, 7] 1)"
  define g :: "bytes group" where
    "g = \<lparr>gr_collab_type = Document, gr_subscribers = [sample_user ''x'' \<mapsto> \<lparr>sub_origin = sample_origin, sub_task = 0\<rparr>],
       gr_modified_at = 0, gr_doc = [1]\<rparr>"
  define s where "s = sample_connected\<lparr>sv_cache := (sv_cache sample_connected)\<lparr>gc_groups := [''a'' \<mapsto> g]\<rparr>\<rparr>"
  have p: "gc_groups (sv_cache s) (cm_object_id ?m) = Some g" "gr_subscribers g (sample_user ''x'') \<noteq> None"
    "is_inactive True 1000 g" "sv_streams s (sample_user ''x'') \<noteq> None" "\<not> is_init_msg ?m"
    by (simp_all add: s_def g_def update_sync_new_def sample_connected_streams is_init_msg_def is_inactive_def timeout_secs_def)
  from update_to_closed_group_is_dropped [OF p refl, of sample_load 1001] p(4) show ?thesis by metis
qed

text \<open>A disconnection during which the lock of a group's subscribers is busy forgets that the user
  edits the object but leaves the subscription and its tasks; neither a later disconnection nor a
  reconnection of the device removes them.\<close>

theorem busy_lock_leaves_subscriber:
  assumes "task_of (sv_cache s) i u = Some t"
    and "sv_session_id_by_user s u = Some sid" and "rl_editing l" and "\<not> rl_subscribers l i"
    and "s1 = handle_disconnect True l True \<lparr>dc_user = u, dc_session_id = sid\<rparr> s"
    and "sv_user_by_device s (device_of (cn_user c)) = Some u"
  shows "sv_streams s1 u = None \<and> task_of (sv_cache s1) i u = Some t \<and>
    task_of (sv_cache (handle_disconnect True l2 True \<lparr>dc_user = u, dc_session_id = sid\<rparr> s1)) i u = Some t \<and>
    task_of (sv_cache (handle_connect l2 c s1)) i u = Some t"
proof -
  let ?r = "remove_user l u s"
  have s1: "s1 = ?r\<lparr>sv_streams := (sv_streams ?r)(u := None)\<rparr>"
    using assms(2,5) by (simp add: handle_disconnect_def Let_def)
  have e: "sv_editing ?r u = None" and t: "task_of (sv_cache ?r) i u = Some t"
    using assms(1,3,4) by (auto simp: remove_user_def task_of_fold_remove_user split: option.splits)
  have *: "sv_cache (remove_user l2 u s') = sv_cache s'" if "sv_editing s' u = None" for s' :: "'a server"
    using that by (simp add: remove_user_def)
  have "sv_cache (handle_disconnect True l2 True \<lparr>dc_user = u, dc_session_id = sid\<rparr> s1) = sv_cache s1"
    using * e by (simp add: handle_disconnect_def Let_def s1)
  moreover have "sv_cache (handle_connect l2 c s1) = sv_cache s1"
  proof (cases rule: handle_connect_cases [where s = s1 and c = c and l = l2])
    case (2 s2 old)
    have "old = u" using 2(1) assms(6) by (simp add: s1)
    then show ?thesis using * [of s2] 2(2,4,7) e by (simp add: s1)
  qed simp
  ultimately show ?thesis using t by (simp add: s1)
qed

theorem busy_lock_leaves_subscriber_witness:
  "\<exists>s1 :: bytes server. task_of (sv_cache s1) ''a'' (sample_user ''x'') = Some 0 \<and>
     task_of (sv_cache (handle_connect removal_all_free (sample_connect ''y'' 8) s1)) ''a'' (sample_user ''x'') = Some 0"
proof -
  have "sv_session_id_by_user (fst (process_realtime_message ld now l u rm s)) = sv_session_id_by_user s"
    for ld :: "i64 \<Rightarrow> string \<Rightarrow> string \<Rightarrow> collab_type \<Rightarrow> bytes" and now l u rm s
    by (rule process_keeps_sessions)
  then have "sv_session_id_by_user sample_server (sample_user ''x'') = Some ''x''"
    by (simp add: sample_server_step sample_connected_streams)
  moreover have "sv_user_by_device sample_server (device_of (cn_user (sample_connect ''y'' 8))) = Some (sample_user ''x'')"
  proof -
    have "cache_ok (sv_cache sample_connected)"
      unfolding sample_connected_def by (rule server_okD(1) [OF server_ok_connect [OF server_ok_new(1)]])
    from process_realtime_message_keeps [OF this] show ?thesis
      by (simp add: sample_server_step sample_connected_streams sample_connect_def)
        (simp add: device_of_def sample_user_def)
  qed
  ultimately show ?thesis
    using busy_lock_leaves_subscriber [OF sample_server_task, of "''x''"
        "removal_all_free\<lparr>rl_subscribers := \<lambda>_. False\<rparr>", OF _ _ _ refl, of "sample_connect ''y'' 8" removal_all_free]
    by (intro exI [of _ "handle_disconnect True (removal_all_free\<lparr>rl_subscribers := \<lambda>_. False\<rparr>) True
          \<lparr>dc_user = sample_user ''x'', dc_session_id = ''x''\<rparr> sample_server"]) (simp add: removal_all_free_def)
qed

text \<open>An update of a subscriber with a level that can write is integrated into the group's document,
  and the answer given to the subscriber's sink is one acknowledgement of the message.\<close>

theorem writer_update_is_integrated:
  assumes "casbin_ok api pol grp" and "enforcer_ok pol e" and "grp (en_casbin e) = grouping_policies"
    and "level_of_user pol e (ru_uid user) (us_object_id us) (Some lv)" and "can_write lv"
    and "fresh_decision e (ru_uid user) (us_object_id us) ActionWrite"
    and "yrs_laws y" and "us_payload us = encode_message y (SyncMsg (SyncUpdate u))"
    and "gc_groups (sv_cache s) (us_object_id us) = Some g" and "gr_subscribers g user \<noteq> None"
    and "update_applies d ops (Some (us_origin us)) (gr_doc g) u new"
  shows "\<exists>e1 s1 acks doc'. deliver_message y d api (\<lambda>_. all_free) True now user (ClientUpdateSync us) (e, s) = ((e1, s1), acks) \<and>
    group_doc s1 (us_object_id us) = Some doc' \<and> ops doc' = ops (gr_doc g) \<union> new \<and>
    acks = [ClientAck (collab_ack_new (us_origin us) (us_object_id us) [] (us_msg_id us) ''UpdateSync'')]"
proof -
  obtain e1 where "en_enforce api e (ru_uid user) (ObjCollab (us_object_id us)) (action_str ActionWrite) = (e1, Inr True)"
    using enforce_by_level [OF assms(1-4,6)] assms(5) by auto
  then have f: "stream_filter api (ru_uid user) (cm_object_id (ClientUpdateSync us)) (ClientUpdateSync us) e = (e1, True)"
    by (simp add: stream_filter_def can_send_collab_update_def del: action_str.simps)
  obtain s1 acks doc' where
    "deliver_message y d api (\<lambda>_. all_free) True now user (ClientUpdateSync us) (e, s) = ((e1, s1), acks)"
    "group_doc s1 (us_object_id us) = Some doc'" "ops doc' = ops (gr_doc g) \<union> new"
    "acks = respond all_free (us_object_id us) (ClientUpdateSync us) None"
    using deliver_update [OF assms(7) _ f, of d ops "gr_doc g" u new s g True now] assms(8-11)
    by auto
  then show ?thesis by (auto simp: respond_def all_free_def)
qed

theorem writer_update_is_integrated_witness:
  "\<exists>e1 s1 acks doc'. deliver_message sample_yrs sample_doc sample_casbin (\<lambda>_. all_free) True 5 (sample_user ''x'')
      (ClientUpdateSync sample_update_msg) (sample_enforcer, sample_server) = ((e1, s1), acks) \<and>
    group_doc s1 ''a'' = Some doc' \<and> set doc' = {1, 7} \<and> length acks = 1"
proof -
  obtain g where g: "gc_groups (sv_cache sample_server) ''a'' = Some g" "gr_doc g = [1]"
    "gr_subscribers g (sample_user ''x'') = Some \<lparr>sub_origin = sample_origin, sub_task = 0\<rparr>"
    by (rule sample_server_group)
  have "level_of_user fst sample_enforcer (ru_uid (sample_user ''x'')) (us_object_id sample_update_msg) (Some FullAccess)"
    using sample_permission by (simp add: level_of_user_def sample_user_def sample_update_msg_def update_sync_new_def)
  moreover have m: "us_payload sample_update_msg = encode_message sample_yrs (SyncMsg (SyncUpdate [7]))"
    "us_object_id sample_update_msg = ''a''" by (simp_all add: sample_update_msg_def update_sync_new_def)
  moreover have "gr_subscribers g (sample_user ''x'') \<noteq> None" by (simp add: g)
  ultimately show ?thesis
    using writer_update_is_integrated [where us = sample_update_msg and user = "sample_user ''x''" and s = sample_server
        and d = sample_doc and ops = set and new = "{7}" and now = 5,
        OF sample_casbin_ok sample_enforcer_ok sample_groupings _ _ sample_fresh sample_yrs_laws m(1)]
      sample_update_applies g(1,2)
    by (fastforce simp del: encode_message.simps)
qed



text \<open>The payload of an init message is not looked at: an update inside it is integrated into the
  document whatever permission the sender has.\<close>

theorem init_sync_bypasses_permission:
  assumes "client_user_id (is_origin ci) = Some uid" and "sv_streams s user = Some cs"
    and "gc_groups (sv_cache s) (is_object_id ci) = Some g"
    and "yrs_laws y" and "is_payload ci = encode_message y (SyncMsg (SyncUpdate u))"
    and "update_applies d ops (Some (is_origin ci)) (gr_doc g) u new"
  shows "\<exists>s1 s2 acks doc'.
    process_realtime_message ld now message_free user (RtCollab (ClientInitSync ci)) s = (s1, Inr ()) \<and>
    deliver_message y d api (\<lambda>_. all_free) True now user (ClientInitSync ci) (e, s1) = ((e, s2), acks) \<and>
    group_doc s2 (is_object_id ci) = Some doc' \<and> ops doc' = ops (gr_doc g) \<union> new"
proof -
  obtain s1 g1 where s1:
    "process_realtime_message ld now message_free user (RtCollab (ClientInitSync ci)) s = (s1, Inr ())"
    "gc_groups (sv_cache s1) (is_object_id ci) = Some g1" "gr_doc g1 = opened_doc ld uid ci (sv_cache s)"
    "gr_subscribers g1 user = Some \<lparr>sub_origin = is_origin ci, sub_task = gc_next_task (sv_cache s)\<rparr>"
    by (rule init_message [OF assms(1,2)])
  then have g1: "gr_doc g1 = gr_doc g" using assms(3) by (simp add: opened_doc_def)
  have f: "stream_filter api (ru_uid user) (cm_object_id (ClientInitSync ci)) (ClientInitSync ci) e = (e, True)"
    by (simp add: stream_filter_def)
  obtain s2 acks doc' where
    "deliver_message y d api (\<lambda>_. all_free) True now user (ClientInitSync ci) (e, s1) = ((e, s2), acks)"
    "group_doc s2 (cm_object_id (ClientInitSync ci)) = Some doc'" "ops doc' = ops (gr_doc g) \<union> new"
    by (rule deliver_update [OF assms(4) _ f, of d ops "gr_doc g" u new s1 g1 True now])
      (use assms(5,6) s1(2,4) g1 in \<open>simp_all del: encode_message.simps\<close>)
  with s1(1) show ?thesis by auto
qed

theorem init_sync_bypasses_permission_witness:
  "\<exists>s1 s2 acks doc'.
    process_realtime_message sample_load 9 message_free (sample_user ''x'')
      (RtCollab (ClientInitSync (sample_init (encode_message sample_yrs (SyncMsg (SyncUpdate [7])))))) sample_server = (s1, Inr ()) \<and>
    deliver_message sample_yrs sample_doc sample_casbin (\<lambda>_. all_free) True 9 (sample_user ''x'')
      (ClientInitSync (sample_init (encode_message sample_yrs (SyncMsg (SyncUpdate [7])))))
      (af_enforcer_new ([], []), s1) = ((af_enforcer_new ([], []), s2), acks) \<and>
    group_doc s2 ''a'' = Some doc' \<and> set doc' = {1, 7}"
proof -
  let ?ci = "sample_init (encode_message sample_yrs (SyncMsg (SyncUpdate [7])))"
  obtain g where g: "gc_groups (sv_cache sample_server) ''a'' = Some g" "gr_doc g = [1]"
    and st: "sv_streams sample_server (sample_user ''x'') = Some \<lparr>cs_socket = 7, cs_stream = [ClientInitSync (sample_init [])]\<rparr>"
    by (rule sample_server_group)
  have ci: "client_user_id (is_origin ?ci) = Some 1" "is_object_id ?ci = ''a''"
    "is_payload ?ci = encode_message sample_yrs (SyncMsg (SyncUpdate [7]))"
    by (simp_all add: sample_init_def init_sync_new_def sample_origin_def client_user_id_def)
  note b = init_sync_bypasses_permission [OF ci(1) st _ sample_yrs_laws ci(3), unfolded ci(2), OF g(1), unfolded g(2),
      OF sample_update_applies, where ld = sample_load and now = 9 and api = sample_casbin and e = "af_enforcer_new ([], [])"]
  then show ?thesis by (auto simp: insert_commute simp del: encode_message.simps)
qed

end
