(* ===== verification/Storage.thy ===== *)
theory Storage
  imports AccessControl
begin

section \<open>The storage of collabs\<close>

text \<open>
  \<open>libs/database/src/collab/collab_db_ops.rs\<close> and \<open>collab_storage.rs\<close>, and the storage controller that
  adds permissions and caches (\<open>src/biz/collab/storage.rs\<close>, \<open>mem_cache.rs\<close>,
  \<open>access_control.rs\<close>). The tables are maps: a row of \<open>af_collab\<close> is only inserted when there is none
  for the object, so it is found by the object id. The SQL statements are written out on these tables;
  the \<open>n\<close>-th statement of an operation may fail with the error \<open>q n\<close>. The formats and keys of the
  crates \<open>collab\<close>, \<open>collab_entity\<close> and \<open>uuid\<close> are the parameter \<open>collab_api\<close>. Times are in seconds.
\<close>

record encoded_collab =
  ec_state_vector :: bytes
  ec_doc_state :: bytes

record collab_api =
  ce_value :: "collab_type \<Rightarrow> int"
  ce_display :: "collab_type \<Rightarrow> string"
  ce_encode :: "encoded_collab \<Rightarrow> string + bytes"
  ce_decode :: "bytes \<Rightarrow> string + encoded_collab"
  ce_parse_uuid :: "string \<Rightarrow> string + string"
  ce_debug_query :: "query_collab_params \<Rightarrow> string"

record collab_row =
  cr_blob :: bytes
  cr_partition_key :: int
  cr_owner_uid :: i64
  cr_workspace_id :: string
  cr_deleted_at :: "nat option"

record snapshot_row =
  sn_sid :: i64
  sn_oid :: string
  sn_blob :: bytes
  sn_workspace_id :: string
  sn_created_at :: nat

record database =
  db_collabs :: "string \<rightharpoonup> collab_row"
  db_members :: "i64 \<times> string \<rightharpoonup> i64"
  db_snapshots :: "snapshot_row list"
  db_next_sid :: i64

text \<open>The rows that the migrations insert into \<open>af_permissions\<close> and \<open>af_role_permissions\<close>.\<close>

definition af_permissions :: "af_permission list" where
  "af_permissions =
     [\<lparr>perm_id = 1, perm_name = ''Read only'', perm_access_level = level_of_i32 10, perm_description = ''Can read''\<rparr>,
      \<lparr>perm_id = 2, perm_name = ''Read and comment'', perm_access_level = level_of_i32 20,
       perm_description = ''Can read and comment, but not edit''\<rparr>,
      \<lparr>perm_id = 3, perm_name = ''Read and write'', perm_access_level = level_of_i32 30,
       perm_description = ''Can read and edit, but not share with others''\<rparr>,
      \<lparr>perm_id = 4, perm_name = ''Full access'', perm_access_level = level_of_i32 50,
       perm_description = ''Can edit and share with others''\<rparr>]"

definition af_role_permissions :: "(string \<times> i64) list" where
  "af_role_permissions = [(''Owner'', 4), (''Member'', 3), (''Guest'', 1)]"

definition COLLAB_SNAPSHOT_LIMIT :: nat where "COLLAB_SNAPSHOT_LIMIT = 15"
definition SNAPSHOT_PER_HOUR :: nat where "SNAPSHOT_PER_HOUR = 6"

subsection \<open>Statements\<close>

definition transform_record_not_found_error :: "sqlx_error + bool option \<Rightarrow> sqlx_error + bool" where
  "transform_record_not_found_error r =
     (case r of
        Inr v \<Rightarrow> Inr (case v of Some b \<Rightarrow> b | None \<Rightarrow> False)
      | Inl err \<Rightarrow> if err = SqlRowNotFound then Inr False else Inl err)"

definition is_collab_exists :: "sqlx_error option \<Rightarrow> string \<Rightarrow> database \<Rightarrow> sqlx_error + bool" where
  "is_collab_exists q oid db =
     transform_record_not_found_error
       (case q of Some err \<Rightarrow> Inl err | None \<Rightarrow> Inr (Some (db_collabs db oid \<noteq> None)))"

definition is_collab_member_exists :: "sqlx_error option \<Rightarrow> i64 \<Rightarrow> string \<Rightarrow> database \<Rightarrow> sqlx_error + bool" where
  "is_collab_member_exists q uid oid db =
     transform_record_not_found_error
       (case q of Some err \<Rightarrow> Inl err | None \<Rightarrow> Inr (Some (db_members db (uid, oid) \<noteq> None)))"

definition select_collab_member ::
    "sqlx_error option \<Rightarrow> i64 \<Rightarrow> string \<Rightarrow> database \<Rightarrow> app_error + af_collab_member" where
  "select_collab_member q uid oid db =
     (case q of
        Some err \<Rightarrow> Inl (app_error_of_sqlx err)
      | None \<Rightarrow>
          (case Option.bind (db_members db (uid, oid)) (\<lambda>pid. find (\<lambda>p. perm_id p = pid) af_permissions) of
             None \<Rightarrow> Inl (app_error_of_sqlx SqlRowNotFound)
           | Some p \<Rightarrow> Inr \<lparr>acm_uid = uid, acm_oid = oid, acm_permission = p\<rparr>))"

text \<open>Statement \<open>n\<close> of an operation, or its error.\<close>

definition stmt :: "(nat \<Rightarrow> sqlx_error option) \<Rightarrow> nat \<Rightarrow> sqlx_error + unit" where
  "stmt q n = (case q n of Some err \<Rightarrow> Inl err | None \<Rightarrow> Inr ())"

definition insert_into_af_collab ::
    "collab_api \<Rightarrow> (nat \<Rightarrow> sqlx_error option) \<Rightarrow> i64 \<Rightarrow> string \<Rightarrow> collab_params \<Rightarrow> database \<Rightarrow>
     app_error + database" where
  "insert_into_af_collab ce q uid workspace_id p db =
     (case ce_parse_uuid ce workspace_id of
        Inl err \<Rightarrow> Inl (UuidError err)
      | Inr w \<Rightarrow>
          res_bind (res_map_err app_error_of_sqlx (stmt q 0)) (\<lambda>_.
          case db_collabs db (cp_object_id p) of
            Some row \<Rightarrow>
              if cr_workspace_id row = w then
                res_bind (res_map_err (\<lambda>_. Internal (''user:'' @ show_int uid @ '' update af_collab:'' @
                            cp_object_id p @ '' failed'')) (stmt q 1)) (\<lambda>_.
                Inr (db\<lparr>db_collabs := (db_collabs db)(cp_object_id p \<mapsto>
                       row\<lparr>cr_blob := cp_encoded_collab_v1 p, cr_partition_key := ce_value ce (cp_collab_type p),
                           cr_owner_uid := uid\<rparr>)\<rparr>))
              else Inl (Internal ''Inserting a row with an existing object_id but different workspace_id'')
          | None \<Rightarrow>
              res_bind (res_map_err app_error_of_sqlx (stmt q 1)) (\<lambda>_.
              case map_of af_role_permissions ''Owner'' of
                None \<Rightarrow> Inl (app_error_of_sqlx SqlRowNotFound)
              | Some permission_id \<Rightarrow>
                  res_bind (res_map_err (\<lambda>_. Internal (''Insert af_collab_member failed: '' @ show_int uid @ '':'' @
                              cp_object_id p @ '':'' @ show_int permission_id)) (stmt q 2)) (\<lambda>_.
                  res_bind (res_map_err (\<lambda>_. Internal (''Insert new af_collab failed: '' @ show_int uid @ '':'' @
                              cp_object_id p @ '':'' @ ce_display ce (cp_collab_type p))) (stmt q 3)) (\<lambda>_.
                  Inr (db\<lparr>db_members := (db_members db)((uid, cp_object_id p) \<mapsto> permission_id),
                          db_collabs := (db_collabs db)(cp_object_id p \<mapsto>
                            \<lparr>cr_blob = cp_encoded_collab_v1 p, cr_partition_key = ce_value ce (cp_collab_type p),
                             cr_owner_uid = uid, cr_workspace_id = w, cr_deleted_at = None\<rparr>)\<rparr>))))))"

definition select_blob_from_af_collab ::
    "collab_api \<Rightarrow> sqlx_error option \<Rightarrow> collab_type \<Rightarrow> string \<Rightarrow> database \<Rightarrow> sqlx_error + bytes" where
  "select_blob_from_af_collab ce q ct oid db =
     (case q of
        Some err \<Rightarrow> Inl err
      | None \<Rightarrow>
          (case db_collabs db oid of
             Some row \<Rightarrow>
               if cr_partition_key row = ce_value ce ct \<and> cr_deleted_at row = None then Inr (cr_blob row)
               else Inl SqlRowNotFound
           | None \<Rightarrow> Inl SqlRowNotFound))"

text \<open>
  \<open>batch_select_collab_blob\<close> asks once per type; \<open>types\<close> are the types in the order of the map that
  groups the queries.
\<close>

definition batch_select_type ::
    "collab_api \<Rightarrow> (collab_type \<Rightarrow> sqlx_error option) \<Rightarrow> query_collab list \<Rightarrow> database \<Rightarrow> collab_type \<Rightarrow>
     (string \<rightharpoonup> query_collab_result) \<Rightarrow> (string \<rightharpoonup> query_collab_result)" where
  "batch_select_type ce q queries db ct results =
     (case q ct of
        Some _ \<Rightarrow> results
      | None \<Rightarrow>
          fold (\<lambda>oid rs. rs(oid \<mapsto>
              (case select_blob_from_af_collab ce None ct oid db of
                 Inr blob \<Rightarrow> QSuccess blob
               | Inl _ \<Rightarrow> QFailed ''Record not found'')))
            (map qc_object_id (filter (\<lambda>p. qc_collab_type p = ct) queries)) results)"

definition batch_select_collab_blob ::
    "collab_api \<Rightarrow> (collab_type \<Rightarrow> sqlx_error option) \<Rightarrow> collab_type list \<Rightarrow> query_collab list \<Rightarrow> database \<Rightarrow>
     (string \<rightharpoonup> query_collab_result)" where
  "batch_select_collab_blob ce q types queries db =
     fold (batch_select_type ce q queries db) types Map.empty"

definition db_delete_collab :: "sqlx_error option \<Rightarrow> nat \<Rightarrow> string \<Rightarrow> database \<Rightarrow> sqlx_error + database" where
  "db_delete_collab q now oid db =
     (case q of
        Some err \<Rightarrow> Inl err
      | None \<Rightarrow>
          Inr (case db_collabs db oid of
                 Some row \<Rightarrow> db\<lparr>db_collabs := (db_collabs db)(oid \<mapsto> row\<lparr>cr_deleted_at := Some now\<rparr>)\<rparr>
               | None \<Rightarrow> db))"

definition db_upsert_collab_member ::
    "(nat \<Rightarrow> sqlx_error option) \<Rightarrow> i64 \<Rightarrow> string \<Rightarrow> af_access_level \<Rightarrow> database \<Rightarrow> app_error + database" where
  "db_upsert_collab_member q uid oid level db =
     res_bind (res_map_err (\<lambda>_. Internal ''Get permission id from access level fail'')
       (case q 0 of
          Some err \<Rightarrow> Inl err
        | None \<Rightarrow>
            (case find (\<lambda>p. perm_access_level p = level) af_permissions of
               None \<Rightarrow> Inl SqlRowNotFound
             | Some p \<Rightarrow> Inr (perm_id p)))) (\<lambda>permission_id.
     res_bind (res_map_err (\<lambda>_. Internal (''failed to insert collab member: user:'' @ show_int uid @ '' oid:'' @ oid))
       (stmt q 1)) (\<lambda>_.
     Inr (db\<lparr>db_members := (db_members db)((uid, oid) \<mapsto> permission_id)\<rparr>)))"

definition db_delete_collab_member :: "sqlx_error option \<Rightarrow> i64 \<Rightarrow> string \<Rightarrow> database \<Rightarrow> app_error + database" where
  "db_delete_collab_member q uid oid db =
     (case q of
        Some err \<Rightarrow> Inl (app_error_of_sqlx err)
      | None \<Rightarrow> Inr (db\<lparr>db_members := (db_members db)((uid, oid) := None)\<rparr>))"

subsection \<open>Snapshots\<close>

text \<open>
  \<open>newest\<close> is the order that \<open>ORDER BY created_at DESC\<close> gives; the database may place equal times as
  it likes.
\<close>

definition newest_first :: "(snapshot_row list \<Rightarrow> snapshot_row list) \<Rightarrow> bool" where
  "newest_first newest \<longleftrightarrow>
     (\<forall>xs. mset (newest xs) = mset xs \<and> sorted_wrt (\<lambda>a b. sn_created_at b \<le> sn_created_at a) (newest xs))"

definition snapshots_of :: "string \<Rightarrow> database \<Rightarrow> snapshot_row list" where
  "snapshots_of oid db = filter (\<lambda>r. sn_oid r = oid) (db_snapshots db)"

definition db_should_create_snapshot ::
    "(snapshot_row list \<Rightarrow> snapshot_row list) \<Rightarrow> sqlx_error option \<Rightarrow> nat \<Rightarrow> string \<Rightarrow> database \<Rightarrow>
     sqlx_error + bool" where
  "db_should_create_snapshot newest q now oid db =
     (case q of
        Some err \<Rightarrow> Inl err
      | None \<Rightarrow>
          Inr (case newest (snapshots_of oid db) of
                 [] \<Rightarrow> True
               | r # _ \<Rightarrow> sn_created_at r + SNAPSHOT_PER_HOUR * 3600 < now))"

definition create_snapshot_and_maintain_limit ::
    "(snapshot_row list \<Rightarrow> snapshot_row list) \<Rightarrow> (nat \<Rightarrow> sqlx_error option) \<Rightarrow> bool \<Rightarrow> nat \<Rightarrow> string \<Rightarrow> bytes \<Rightarrow>
     string \<Rightarrow> nat \<Rightarrow> database \<Rightarrow> database \<times> (app_error + snapshot_row)" where
  "create_snapshot_and_maintain_limit newest q committed now oid blob workspace_id limit db =
     (case res_bind (stmt q 0) (\<lambda>_. stmt q 1) of
        Inl err \<Rightarrow> (db, Inl (app_error_of_sqlx err))
      | Inr _ \<Rightarrow>
          let r = \<lparr>sn_sid = db_next_sid db, sn_oid = oid, sn_blob = blob, sn_workspace_id = workspace_id,
                   sn_created_at = now\<rparr>;
              db1 = db\<lparr>db_snapshots := db_snapshots db @ [r], db_next_sid := db_next_sid db + 1\<rparr>;
              kept = map sn_sid (take limit (newest (snapshots_of oid db1)));
              db2 = db1\<lparr>db_snapshots := filter (\<lambda>s. \<not> (sn_oid s = oid \<and> sn_sid s \<notin> set kept)) (db_snapshots db1)\<rparr>
          in if committed then (db2, Inr r)
             else (db, Inl (Internal ''fail to commit the transaction to insert collab snapshot'')))"

definition select_snapshot :: "sqlx_error option \<Rightarrow> i64 \<Rightarrow> database \<Rightarrow> sqlx_error + snapshot_row option" where
  "select_snapshot q sid db =
     (case q of Some err \<Rightarrow> Inl err | None \<Rightarrow> Inr (find (\<lambda>r. sn_sid r = sid) (db_snapshots db)))"

definition get_all_collab_snapshot_meta ::
    "(snapshot_row list \<Rightarrow> snapshot_row list) \<Rightarrow> sqlx_error option \<Rightarrow> string \<Rightarrow> database \<Rightarrow>
     sqlx_error + snapshot_row list" where
  "get_all_collab_snapshot_meta newest q oid db =
     (case q of Some err \<Rightarrow> Inl err | None \<Rightarrow> Inr (newest (snapshots_of oid db)))"

subsection \<open>The access control of the storage\<close>

text \<open>
  \<open>CollabStorageAccessControlImpl\<close> is generic in the access control it looks levels up in and inserts
  them into; \<open>refresh_access_level\<close> is its method for a given pair of these operations.
\<close>

definition refresh_access_level ::
    "('s \<Rightarrow> i64 \<Rightarrow> string \<Rightarrow> 's \<times> (app_error + af_access_level)) \<Rightarrow>
     ('s \<Rightarrow> i64 \<Rightarrow> string \<Rightarrow> af_access_level \<Rightarrow> 's \<times> (app_error + unit)) \<Rightarrow>
     sqlx_error option \<Rightarrow> database \<Rightarrow> 's \<Rightarrow> i64 \<Rightarrow> string \<Rightarrow> 's \<times> (app_error + af_access_level)" where
  "refresh_access_level lookup grant q db e uid oid =
     (case lookup e uid oid of
        (e1, Inr level) \<Rightarrow> (e1, Inr level)
      | (e1, Inl err) \<Rightarrow>
          if is_record_not_found err then
            (case select_collab_member q uid oid db of
               Inl err2 \<Rightarrow> (e1, Inl err2)
             | Inr member \<Rightarrow>
                 (case grant e1 uid oid (perm_access_level (acm_permission member)) of
                    (e2, Inl err3) \<Rightarrow> (e2, Inl err3)
                  | (e2, Inr _) \<Rightarrow> (e2, Inr (perm_access_level (acm_permission member)))))
          else (e1, Inl err))"

definition get_or_refresh_collab_access_level ::
    "'e casbin_api \<Rightarrow> sqlx_error option \<Rightarrow> database \<Rightarrow> 'e af_enforcer \<Rightarrow> i64 \<Rightarrow> string \<Rightarrow>
     'e af_enforcer \<times> (app_error + af_access_level)" where
  "get_or_refresh_collab_access_level api =
     refresh_access_level (get_collab_access_level api) (insert_collab_access_level api)"

definition cache_collab_access_level ::
    "'e casbin_api \<Rightarrow> 'e af_enforcer \<Rightarrow> i64 \<Rightarrow> string \<Rightarrow> af_access_level \<Rightarrow> 'e af_enforcer \<times> (app_error + unit)" where
  "cache_collab_access_level api e uid oid level = insert_collab_access_level api e uid oid level"

definition get_user_workspace_role ::
    "collab_api \<Rightarrow> 'e casbin_api \<Rightarrow> 'e af_enforcer \<Rightarrow> i64 \<Rightarrow> string \<Rightarrow> 'e af_enforcer \<times> (app_error + af_role)" where
  "get_user_workspace_role ce api e uid workspace_id =
     (case ce_parse_uuid ce workspace_id of
        Inl err \<Rightarrow> (e, Inl (UuidError err))
      | Inr w \<Rightarrow> get_workspace_role api e uid w)"

subsection \<open>The storage controller\<close>

text \<open>
  \<open>st_mem\<close> is the cache of encoded collabs, which may lose entries at any time (\<open>mem_evict\<close>), and
  \<open>st_opened\<close> what upgrading and encoding the weak references to the opened collabs gives now. The
  tasks that fill the cache are taken to be done when the operation returns.
\<close>

record 'e storage =
  st_enforcer :: "'e af_enforcer"
  st_db :: database
  st_mem :: "string \<rightharpoonup> bytes"
  st_opened :: "string \<rightharpoonup> encoded_collab"

definition mem_get :: "collab_api \<Rightarrow> string \<Rightarrow> 'e storage \<Rightarrow> encoded_collab option" where
  "mem_get ce oid s =
     (case st_mem s oid of
        None \<Rightarrow> None
      | Some b \<Rightarrow> (case ce_decode ce b of Inr c \<Rightarrow> Some c | Inl _ \<Rightarrow> None))"

definition mem_cache_bytes :: "string \<Rightarrow> bytes \<Rightarrow> 'e storage \<Rightarrow> 'e storage" where
  "mem_cache_bytes oid b s = s\<lparr>st_mem := (st_mem s)(oid \<mapsto> b)\<rparr>"

definition mem_cache_collab :: "collab_api \<Rightarrow> string \<Rightarrow> encoded_collab \<Rightarrow> 'e storage \<Rightarrow> 'e storage" where
  "mem_cache_collab ce oid c s = (case ce_encode ce c of Inr b \<Rightarrow> mem_cache_bytes oid b s | Inl _ \<Rightarrow> s)"

definition mem_remove :: "string \<Rightarrow> 'e storage \<Rightarrow> 'e storage" where
  "mem_remove oid s = s\<lparr>st_mem := (st_mem s)(oid := None)\<rparr>"

definition mem_evict :: "string \<Rightarrow> 'e storage \<Rightarrow> 'e storage" where
  "mem_evict oid s = mem_remove oid s"

definition cache_collab :: "string \<Rightarrow> encoded_collab \<Rightarrow> 'e storage \<Rightarrow> 'e storage" where
  "cache_collab oid c s = s\<lparr>st_opened := (st_opened s)(oid \<mapsto> c)\<rparr>"

definition remove_collab_cache :: "string \<Rightarrow> 'e storage \<Rightarrow> 'e storage" where
  "remove_collab_cache oid s = mem_remove oid (s\<lparr>st_opened := (st_opened s)(oid := None)\<rparr>)"

text \<open>The faults an operation meets: the pool, its statements and the commit.\<close>

record faults =
  fl_begin :: bool
  fl_exists :: "sqlx_error option"
  fl_member :: "sqlx_error option"
  fl_stmt :: "nat \<Rightarrow> sqlx_error option"
  fl_commit :: bool

definition no_faults :: faults where
  "no_faults = \<lparr>fl_begin = False, fl_exists = None, fl_member = None, fl_stmt = \<lambda>_. None, fl_commit = False\<rparr>"

definition st_check_collab_permission ::
    "collab_api \<Rightarrow> 'e casbin_api \<Rightarrow> faults \<Rightarrow> database \<Rightarrow> string \<Rightarrow> i64 \<Rightarrow> collab_params \<Rightarrow> 'e af_enforcer \<Rightarrow>
     'e af_enforcer \<times> (app_error + unit)" where
  "st_check_collab_permission ce api f db workspace_id uid p e =
     (case is_collab_exists (fl_exists f) (cp_object_id p) db of
        Inl err \<Rightarrow> (e, Inl (app_error_of_sqlx err))
      | Inr True \<Rightarrow>
          (case get_or_refresh_collab_access_level api (fl_member f) db e uid (cp_object_id p) of
             (e1, Inl _) \<Rightarrow>
               (e1, Inl (Internal (''Can't find the access level when user:'' @ show_int uid @
                                   '' try to insert collab'')))
           | (e1, Inr level) \<Rightarrow>
               if can_write level then (e1, Inr ())
               else (e1, Inl (NotEnoughPermissions (''user:'' @ show_int uid @
                      '' doesn't have enough permissions to update collab '' @ cp_object_id p))))
      | Inr False \<Rightarrow>
          (case get_user_workspace_role ce api e uid workspace_id of
             (e1, Inl err) \<Rightarrow> (e1, Inl err)
           | (e1, Inr role) \<Rightarrow>
               if can_create_collab role then cache_collab_access_level api e1 uid (cp_object_id p) FullAccess
               else (e1, Inl (NotEnoughPermissions (''user:'' @ show_int uid @
                      '' doesn't have enough permissions to insert collab '' @ cp_object_id p)))))"

text \<open>
  The operation in a transaction: the storage afterwards and the database as the transaction sees it.
\<close>

definition upsert_collab_with_transaction ::
    "collab_api \<Rightarrow> 'e casbin_api \<Rightarrow> faults \<Rightarrow> string \<Rightarrow> i64 \<Rightarrow> collab_params \<Rightarrow> database \<Rightarrow> 'e storage \<Rightarrow>
     'e storage \<times> (app_error + database)" where
  "upsert_collab_with_transaction ce api f workspace_id uid p txn s =
     (case validate_collab_params p of
        Inl err \<Rightarrow> (s, Inl err)
      | Inr _ \<Rightarrow>
          (case st_check_collab_permission ce api f txn workspace_id uid p (st_enforcer s) of
             (e1, Inl err) \<Rightarrow> (s\<lparr>st_enforcer := e1\<rparr>, Inl err)
           | (e1, Inr _) \<Rightarrow>
               (case insert_into_af_collab ce (fl_stmt f) uid workspace_id p txn of
                  Inl err \<Rightarrow> (s\<lparr>st_enforcer := e1\<rparr>, Inl err)
                | Inr txn1 \<Rightarrow>
                    (mem_cache_bytes (cp_object_id p) (cp_encoded_collab_v1 p) (s\<lparr>st_enforcer := e1\<rparr>), Inr txn1))))"

definition upsert_collab ::
    "collab_api \<Rightarrow> 'e casbin_api \<Rightarrow> faults \<Rightarrow> i64 \<Rightarrow> create_collab_params \<Rightarrow> 'e storage \<Rightarrow>
     'e storage \<times> (app_error + unit)" where
  "upsert_collab ce api f uid cp s =
     (if fl_begin f then (s, Inl (Internal ''acquire transaction to upsert collab''))
      else
        let (p, workspace_id) = split_create_params cp in
        case upsert_collab_with_transaction ce api f workspace_id uid p (st_db s) s of
          (s1, Inl err) \<Rightarrow> (s1, Inl err)
        | (s1, Inr txn) \<Rightarrow>
            if fl_commit f then (s1, Inl (Internal ''fail to commit the transaction to upsert collab''))
            else (s1\<lparr>st_db := txn\<rparr>, Inr ()))"

text \<open>
  Reading from the database: \<open>n\<close> more attempts while the pool times out. \<open>q k\<close> is the error of the
  attempt that has \<open>k\<close> more to come.
\<close>

definition MAX_ATTEMPTS :: nat where "MAX_ATTEMPTS = 3"

fun disk_get_loop ::
    "collab_api \<Rightarrow> (nat \<Rightarrow> sqlx_error option) \<Rightarrow> nat \<Rightarrow> query_collab_params \<Rightarrow> database \<Rightarrow> app_error + encoded_collab" where
  "disk_get_loop ce q n p db =
     (case select_blob_from_af_collab ce (q n) (qc_collab_type (qcp_inner p)) (qc_object_id (qcp_inner p)) db of
        Inr data \<Rightarrow>
          res_map_err (\<lambda>err. Internal (''fail to decode data to EncodedCollab: '' @ err)) (ce_decode ce data)
      | Inl err \<Rightarrow>
          if err = SqlRowNotFound then Inl (RecordNotFound (''Can't find the row for query: '' @ ce_debug_query ce p))
          else (case n of
                  Suc m \<Rightarrow> if err = SqlPoolTimedOut then disk_get_loop ce q m p db else Inl (app_error_of_sqlx err)
                | 0 \<Rightarrow> Inl (app_error_of_sqlx err)))"

declare disk_get_loop.simps [simp del]

definition disk_get_collab_encoded ::
    "collab_api \<Rightarrow> (nat \<Rightarrow> sqlx_error option) \<Rightarrow> query_collab_params \<Rightarrow> database \<Rightarrow> app_error + encoded_collab" where
  "disk_get_collab_encoded ce q p db = disk_get_loop ce q (MAX_ATTEMPTS - 1) p db"

definition get_collab_encoded ::
    "collab_api \<Rightarrow> 'e casbin_api \<Rightarrow> faults \<Rightarrow> i64 \<Rightarrow> query_collab_params \<Rightarrow> 'e storage \<Rightarrow>
     'e storage \<times> (app_error + encoded_collab)" where
  "get_collab_encoded ce api f uid p s =
     (case validate_query_collab_params p of
        Inl err \<Rightarrow> (s, Inl err)
      | Inr _ \<Rightarrow>
          let oid = qc_object_id (qcp_inner p) in
          (case get_or_refresh_collab_access_level api (fl_member f) (st_db s) (st_enforcer s) uid oid of
             (e1, Inl err) \<Rightarrow> (s\<lparr>st_enforcer := e1\<rparr>, Inl err)
           | (e1, Inr _) \<Rightarrow>
               let s1 = s\<lparr>st_enforcer := e1\<rparr> in
               (case st_opened s1 oid of
                  Some c \<Rightarrow> (s1, Inr c)
                | None \<Rightarrow>
                    (case mem_get ce oid s1 of
                       Some c \<Rightarrow> (s1, Inr c)
                     | None \<Rightarrow>
                         (case disk_get_collab_encoded ce (fl_stmt f) p (st_db s1) of
                            Inl err \<Rightarrow> (s1, Inl err)
                          | Inr c \<Rightarrow> (mem_cache_collab ce oid c s1, Inr c))))))"

text \<open>
  \<open>batch_get_collab\<close>: queries that are not valid fail, opened collabs are encoded, the others are read
  from the database; later results replace earlier ones. \<open>vd\<close> is the text of a validation error.
\<close>

definition from_memory :: "collab_api \<Rightarrow> 'e storage \<Rightarrow> query_collab \<Rightarrow> bytes option" where
  "from_memory ce s p =
     (case st_opened s (qc_object_id p) of
        None \<Rightarrow> None
      | Some c \<Rightarrow> (case ce_encode ce c of Inr b \<Rightarrow> Some b | Inl _ \<Rightarrow> None))"

definition batch_get_collab ::
    "(string list \<Rightarrow> string) \<Rightarrow> collab_api \<Rightarrow> (collab_type \<Rightarrow> sqlx_error option) \<Rightarrow> collab_type list \<Rightarrow> i64 \<Rightarrow>
     query_collab list \<Rightarrow> 'e storage \<Rightarrow> (string \<rightharpoonup> query_collab_result)" where
  "batch_get_collab vd ce q types uid queries s =
     (let valid = filter (\<lambda>p. is_ok (validate_query_collab p)) queries;
          failed = fold (\<lambda>p rs. case validate_query_collab p of
                       Inl err \<Rightarrow> rs(qc_object_id p \<mapsto> QFailed (display_app_error vd err))
                     | Inr _ \<Rightarrow> rs) queries Map.empty;
          memory = fold (\<lambda>p rs. case from_memory ce s p of
                       Some b \<Rightarrow> rs(qc_object_id p \<mapsto> QSuccess b)
                     | None \<Rightarrow> rs) valid Map.empty;
          rest = filter (\<lambda>p. from_memory ce s p = None) valid
      in failed ++ memory ++ batch_select_collab_blob ce q types rest (st_db s))"

definition delete_collab ::
    "'e casbin_api \<Rightarrow> faults \<Rightarrow> nat \<Rightarrow> i64 \<Rightarrow> string \<Rightarrow> 'e storage \<Rightarrow> 'e storage \<times> (app_error + unit)" where
  "delete_collab api f now uid oid s =
     (case get_or_refresh_collab_access_level api (fl_member f) (st_db s) (st_enforcer s) uid oid of
        (e1, Inl _) \<Rightarrow>
          (s\<lparr>st_enforcer := e1\<rparr>,
           Inl (Internal (''Can't find the access level when user:'' @ show_int uid @ '' try to delete '' @ oid)))
      | (e1, Inr level) \<Rightarrow>
          if \<not> can_delete level then
            (s\<lparr>st_enforcer := e1\<rparr>,
             Inl (NotEnoughPermissions (''user:'' @ show_int uid @
                    '' doesn't have enough permissions to delete collab '' @ oid)))
          else
            (case db_delete_collab (fl_stmt f 0) now oid (st_db s) of
               Inl err \<Rightarrow> (s\<lparr>st_enforcer := e1\<rparr>, Inl (app_error_of_sqlx err))
             | Inr db1 \<Rightarrow> (s\<lparr>st_enforcer := e1, st_db := db1\<rparr>, Inr ())))"

definition should_create_snapshot ::
    "(snapshot_row list \<Rightarrow> snapshot_row list) \<Rightarrow> sqlx_error option \<Rightarrow> nat \<Rightarrow> string \<Rightarrow> 'e storage \<Rightarrow> bool" where
  "should_create_snapshot newest q now oid s =
     (if oid = [] then False
      else case db_should_create_snapshot newest q now oid (st_db s) of Inr b \<Rightarrow> b | Inl _ \<Rightarrow> False)"

definition create_snapshot ::
    "collab_api \<Rightarrow> (snapshot_row list \<Rightarrow> snapshot_row list) \<Rightarrow> faults \<Rightarrow> nat \<Rightarrow> insert_snapshot_params \<Rightarrow> 'e storage \<Rightarrow>
     'e storage \<times> (app_error + snapshot_row)" where
  "create_snapshot ce newest f now p s =
     (case validate_insert_snapshot_params p of
        Inl err \<Rightarrow> (s, Inl err)
      | Inr _ \<Rightarrow>
          if fl_begin f then (s, Inl (Internal ''fail to acquire transaction to create snapshot''))
          else (case ce_parse_uuid ce (isp_workspace_id p) of
                  Inl err \<Rightarrow> (s, Inl (UuidError err))
                | Inr w \<Rightarrow>
                    (case create_snapshot_and_maintain_limit newest (fl_stmt f) (\<not> fl_commit f) now (isp_object_id p)
                            (isp_encoded_collab_v1 p) w COLLAB_SNAPSHOT_LIMIT (st_db s) of
                       (db1, r) \<Rightarrow> (s\<lparr>st_db := db1\<rparr>, r))))"

definition get_collab_snapshot :: "sqlx_error option \<Rightarrow> i64 \<Rightarrow> 'e storage \<Rightarrow> app_error + snapshot_row" where
  "get_collab_snapshot q sid s =
     (case select_snapshot q sid (st_db s) of
        Inl err \<Rightarrow> Inl (app_error_of_sqlx err)
      | Inr None \<Rightarrow> Inl (RecordNotFound (''Can't find the snapshot with id:'' @ show_int sid))
      | Inr (Some r) \<Rightarrow> Inr r)"

definition get_collab_snapshot_list ::
    "(snapshot_row list \<Rightarrow> snapshot_row list) \<Rightarrow> sqlx_error option \<Rightarrow> string \<Rightarrow> 'e storage \<Rightarrow>
     app_error + snapshot_row list" where
  "get_collab_snapshot_list newest q oid s =
     res_map_err app_error_of_sqlx (get_all_collab_snapshot_meta newest q oid (st_db s))"

subsection \<open>Members of a collab\<close>

text \<open>
  \<open>src/biz/collab/ops.rs\<close>. The enforcer is told of these changes by the database's notifications
  (\<open>on_collab_member_change\<close>), not by these operations.
\<close>

definition create_collab_member ::
    "faults \<Rightarrow> insert_collab_member_params \<Rightarrow> database \<Rightarrow> database \<times> (app_error + unit)" where
  "create_collab_member f p db =
     (case validate_insert_collab_member_params p of
        Inl err \<Rightarrow> (db, Inl err)
      | Inr _ \<Rightarrow>
          if fl_begin f then (db, Inl (Internal ''acquire transaction to insert collab member''))
          else
            (case is_collab_exists (fl_exists f) (icm_object_id p) db of
               Inl err \<Rightarrow> (db, Inl (app_error_of_sqlx err))
             | Inr False \<Rightarrow>
                 (db, Inl (RecordNotFound (''Fail to insert collab member. The Collab with object_id '' @
                             icm_object_id p @ '' does not exist'')))
             | Inr True \<Rightarrow>
                 (case is_collab_member_exists (fl_member f) (icm_uid p) (icm_object_id p) db of
                    Inl err \<Rightarrow> (db, Inl (app_error_of_sqlx err))
                  | Inr True \<Rightarrow>
                      (db, Inl (RecordAlreadyExists (''Collab member with uid '' @ show_int (icm_uid p) @
                             '' and object_id '' @ icm_object_id p @ '' already exists'')))
                  | Inr False \<Rightarrow>
                      (case db_upsert_collab_member (fl_stmt f) (icm_uid p) (icm_object_id p) (icm_access_level p) db of
                         Inl err \<Rightarrow> (db, Inl err)
                       | Inr db1 \<Rightarrow>
                           if fl_commit f
                           then (db, Inl (Internal ''fail to commit the transaction to insert collab member''))
                           else (db1, Inr ())))))"

definition upsert_collab_member ::
    "faults \<Rightarrow> insert_collab_member_params \<Rightarrow> database \<Rightarrow> database \<times> (app_error + unit)" where
  "upsert_collab_member f p db =
     (case validate_insert_collab_member_params p of
        Inl err \<Rightarrow> (db, Inl err)
      | Inr _ \<Rightarrow>
          if fl_begin f then (db, Inl (Internal ''acquire transaction to upsert collab member''))
          else
            (case is_collab_exists (fl_exists f) (icm_object_id p) db of
               Inl err \<Rightarrow> (db, Inl (app_error_of_sqlx err))
             | Inr False \<Rightarrow>
                 (db, Inl (RecordNotFound (''Fail to upsert collab member. The Collab with object_id '' @
                             icm_object_id p @ '' does not exist'')))
             | Inr True \<Rightarrow>
                 (case db_upsert_collab_member (fl_stmt f) (icm_uid p) (icm_object_id p) (icm_access_level p) db of
                    Inl err \<Rightarrow> (db, Inl err)
                  | Inr db1 \<Rightarrow>
                      if fl_commit f
                      then (db, Inl (Internal ''fail to commit the transaction to upsert collab member''))
                      else (db1, Inr ()))))"

definition get_collab_member ::
    "faults \<Rightarrow> collab_member_identify \<Rightarrow> database \<Rightarrow> app_error + af_collab_member" where
  "get_collab_member f p db =
     (case validate_collab_member_identify p of
        Inl err \<Rightarrow> Inl err
      | Inr _ \<Rightarrow> select_collab_member (fl_member f) (cmi_uid p) (cmi_object_id p) db)"

definition delete_collab_member ::
    "faults \<Rightarrow> collab_member_identify \<Rightarrow> database \<Rightarrow> database \<times> (app_error + unit)" where
  "delete_collab_member f p db =
     (case validate_collab_member_identify p of
        Inl err \<Rightarrow> (db, Inl err)
      | Inr _ \<Rightarrow>
          (case db_delete_collab_member (fl_stmt f 0) (cmi_uid p) (cmi_object_id p) db of
             Inl err \<Rightarrow> (db, Inl err)
           | Inr db1 \<Rightarrow> (db1, Inr ())))"

subsection \<open>Steps of the storage\<close>

datatype storage_event =
    StUpsert faults i64 create_collab_params
  | StGet faults i64 query_collab_params
  | StDelete faults nat i64 string
  | StSnapshot faults nat insert_snapshot_params
  | StAddMember faults insert_collab_member_params
  | StSetMember faults insert_collab_member_params
  | StRemoveMember faults collab_member_identify
  | StOpen string encoded_collab
  | StClose string
  | StEvict string

definition with_db :: "'e storage \<Rightarrow> database \<times> 'r \<Rightarrow> 'e storage" where
  "with_db s r = s\<lparr>st_db := fst r\<rparr>"

fun storage_step ::
    "collab_api \<Rightarrow> 'e casbin_api \<Rightarrow> (snapshot_row list \<Rightarrow> snapshot_row list) \<Rightarrow> 'e storage \<Rightarrow> storage_event \<Rightarrow> 'e storage" where
  "storage_step ce api newest s (StUpsert f uid p) = fst (upsert_collab ce api f uid p s)"
| "storage_step ce api newest s (StGet f uid q) = fst (get_collab_encoded ce api f uid q s)"
| "storage_step ce api newest s (StDelete f now uid oid) = fst (delete_collab api f now uid oid s)"
| "storage_step ce api newest s (StSnapshot f now p) = fst (create_snapshot ce newest f now p s)"
| "storage_step ce api newest s (StAddMember f p) = with_db s (create_collab_member f p (st_db s))"
| "storage_step ce api newest s (StSetMember f p) = with_db s (upsert_collab_member f p (st_db s))"
| "storage_step ce api newest s (StRemoveMember f p) = with_db s (delete_collab_member f p (st_db s))"
| "storage_step ce api newest s (StOpen oid c) = cache_collab oid c s"
| "storage_step ce api newest s (StClose oid) = remove_collab_cache oid s"
| "storage_step ce api newest s (StEvict oid) = mem_evict oid s"

end
