(* ===== verification/StorageLaws.thy ===== *)
theory StorageLaws
  imports Storage
begin

section \<open>What the storage guarantees\<close>

text \<open>
  The contract between the storage and the access control it asks (locale \<open>level_control\<close>, interpreted
  on the enforcer), and the properties of the storage of \<open>Storage\<close>.
\<close>

subsection \<open>The access control as the storage sees it\<close>

locale level_control =
  fixes lookup :: "'s \<Rightarrow> i64 \<Rightarrow> string \<Rightarrow> 's \<times> (app_error + af_access_level)"
    and grant :: "'s \<Rightarrow> i64 \<Rightarrow> string \<Rightarrow> af_access_level \<Rightarrow> 's \<times> (app_error + unit)"
    and good :: "'s \<Rightarrow> bool"
    and level :: "'s \<Rightarrow> i64 \<Rightarrow> string \<Rightarrow> af_access_level option"
  assumes lookup_good: "good s \<Longrightarrow> good (fst (lookup s u i)) \<and> level (fst (lookup s u i)) = level s"
    and lookup_some: "good s \<Longrightarrow> level s u i = Some l \<Longrightarrow> snd (lookup s u i) = Inr l"
    and lookup_none: "good s \<Longrightarrow> level s u i = None \<Longrightarrow>
      \<exists>m. snd (lookup s u i) = Inl (RecordNotFound m)"
    and grant_good: "good s \<Longrightarrow> good (fst (grant s u i l)) \<and> snd (grant s u i l) = Inr ()"
    and grant_level: "good s \<Longrightarrow>
      level (fst (grant s u i l)) = (\<lambda>v j. if u = v \<and> i = j then Some l else level s v j)"
begin

text \<open>A level that is known is the answer; one that is not is read from the member table and kept.\<close>

lemma refresh_known:
  assumes "good s" and "level s u i = Some l"
  obtains s1 where "refresh_access_level lookup grant q db s u i = (s1, Inr l)" "good s1" "level s1 = level s"
proof -
  obtain s1 where "lookup s u i = (s1, Inr l)" using lookup_some [OF assms] by (metis prod.collapse)
  with lookup_good [OF assms(1), of u i] that show thesis by (simp add: refresh_access_level_def)
qed

lemma refresh_unknown:
  assumes "good s" and "level s u i = None" and "select_collab_member q u i db = Inl err"
  obtains s1 where "refresh_access_level lookup grant q db s u i = (s1, Inl err)" "good s1" "level s1 = level s"
proof -
  obtain s1 m where "lookup s u i = (s1, Inl (RecordNotFound m))"
    using lookup_none [OF assms(1,2)] by (metis prod.collapse)
  with lookup_good [OF assms(1), of u i] assms(3) that show thesis by (simp add: refresh_access_level_def)
qed

lemma refresh_member:
  assumes "good s" and "level s u i = None" and "select_collab_member q u i db = Inr m"
  obtains s1 where "refresh_access_level lookup grant q db s u i = (s1, Inr (perm_access_level (acm_permission m)))"
    "good s1" "level s1 = (\<lambda>v j. if u = v \<and> i = j then Some (perm_access_level (acm_permission m)) else level s v j)"
proof -
  obtain s1 err where l: "lookup s u i = (s1, Inl (RecordNotFound err))"
    using lookup_none [OF assms(1,2)] by (metis prod.collapse)
  with lookup_good [OF assms(1), of u i] have s1: "good s1" "level s1 = level s" by simp_all
  obtain s2 where "grant s1 u i (perm_access_level (acm_permission m)) = (s2, Inr ())"
    using grant_good [OF s1(1)] by (metis prod.collapse)
  moreover from this have "good s2"
    "level s2 = (\<lambda>v j. if u = v \<and> i = j then Some (perm_access_level (acm_permission m)) else level s v j)"
    using grant_good [OF s1(1), of u i "perm_access_level (acm_permission m)"]
      grant_level [OF s1(1), of u i "perm_access_level (acm_permission m)"] unfolding s1(2) by simp_all
  ultimately show thesis using l assms(3) by (intro that [of s2]) (simp_all add: refresh_access_level_def)
qed

text \<open>Whatever it answers, a level it answers is the one held afterwards.\<close>

lemma refresh_holds:
  assumes "good s" and "refresh_access_level lookup grant q db s u i = (s1, r)"
  shows "good s1 \<and> (\<forall>l. r = Inr l \<longrightarrow> level s1 u i = Some l) \<and>
    (\<forall>v j. (v, j) \<noteq> (u, i) \<longrightarrow> level s1 v j = level s v j)"
proof (cases "level s u i")
  case (Some l)
  then show ?thesis using refresh_known [OF assms(1) Some, of q db] assms(2) by (metis Pair_inject sum.inject(2))
next
  case None
  show ?thesis
  proof (cases "select_collab_member q u i db")
    case (Inl err)
    from refresh_unknown [OF assms(1) None Inl] assms(2) show ?thesis by (metis Pair_inject sum.distinct(1))
  next
    case (Inr m)
    obtain s2 where "refresh_access_level lookup grant q db s u i = (s2, Inr (perm_access_level (acm_permission m)))"
      "good s2" "level s2 = (\<lambda>v j. if u = v \<and> i = j then Some (perm_access_level (acm_permission m)) else level s v j)"
      by (rule refresh_member [OF assms(1) None Inr])
    with assms(2) show ?thesis by auto
  qed
qed

end

definition level_of :: "('e \<Rightarrow> rule list) \<Rightarrow> 'e af_enforcer \<Rightarrow> i64 \<Rightarrow> string \<Rightarrow> af_access_level option" where
  "level_of pol e uid oid = map_option level_from_action (permission_of pol e uid (ObjCollab oid))"

interpretation levels: level_control "get_collab_access_level api" "insert_collab_access_level api"
  "\<lambda>e. casbin_ok api pol grp \<and> enforcer_ok pol e" "level_of pol"
  for api :: "'e casbin_api" and pol grp
proof
  fix e :: "'e af_enforcer" and u i l
  assume "casbin_ok api pol grp \<and> enforcer_ok pol e"
  then have api: "casbin_ok api pol grp" and ok: "enforcer_ok pol e" by blast+
  obtain e1 a where g: "en_get_action api e u (ObjCollab i) = (e1, a)" by fastforce
  have a: "a = permission_of pol e u (ObjCollab i)" and e1: "enforcer_ok pol e1" "permission_of pol e1 = permission_of pol e"
    using en_get_action_result(1) [OF api ok, of u "ObjCollab i"] enforcer_ok_get_action [OF api ok, of u "ObjCollab i"]
      get_action_keeps(1) [OF api ok, of u "ObjCollab i"] by (simp_all add: g)
  have l: "get_collab_access_level api e u i = (e1, snd (get_collab_access_level api e u i))"
    "level_of pol e u i = None \<Longrightarrow> \<exists>m. snd (get_collab_access_level api e u i) = Inl (RecordNotFound m)"
    "\<And>l. level_of pol e u i = Some l \<Longrightarrow> snd (get_collab_access_level api e u i) = Inr l"
    by (cases a; simp add: get_collab_access_level_def get_access_level_def g level_of_def a [symmetric])+
  have "fst (get_collab_access_level api e u i) = e1" using l(1) by (metis fst_conv)
  then show "(casbin_ok api pol grp \<and> enforcer_ok pol (fst (get_collab_access_level api e u i))) \<and>
      level_of pol (fst (get_collab_access_level api e u i)) = level_of pol e"
    using api e1 by (simp add: level_of_def fun_eq_iff)
  show "level_of pol e u i = Some l \<Longrightarrow> snd (get_collab_access_level api e u i) = Inr l" by (rule l(3))
  show "level_of pol e u i = None \<Longrightarrow> \<exists>m. snd (get_collab_access_level api e u i) = Inl (RecordNotFound m)" by (rule l(2))
  obtain e2 where "en_update api e u (ObjCollab i) (ActLevel l) = (e2, Inr True)"
    using en_update_valid(1) [OF api ok, of "ObjCollab i" "ActLevel l" u] by simp
  then have i: "insert_collab_access_level api e u i l = (e2, Inr ())" and
    e2: "enforcer_ok pol e2" "\<And>v ob. permission_of pol e2 v ob =
      (if u = v \<and> ObjCollab i = ob then Some (level_to_action l) else permission_of pol e v ob)"
    using enforcer_ok_update [OF api ok, of u "ObjCollab i" "ActLevel l"]
      permission_update [OF api ok, of u "ObjCollab i" "ActLevel l"]
    by (simp_all add: insert_collab_access_level_def)
  show "(casbin_ok api pol grp \<and> enforcer_ok pol (fst (insert_collab_access_level api e u i l))) \<and>
      snd (insert_collab_access_level api e u i l) = Inr ()"
    using api e2(1) by (simp add: i)
  show "level_of pol (fst (insert_collab_access_level api e u i l)) =
      (\<lambda>v j. if u = v \<and> i = j then Some l else level_of pol e v j)"
    by (auto simp: i level_of_def e2(2) fun_eq_iff)
qed

subsection \<open>The database is well formed\<close>

definition permission_ids :: "i64 set" where
  "permission_ids = perm_id ` set af_permissions"

definition members_ok :: "(i64 \<times> string \<rightharpoonup> i64) \<Rightarrow> bool" where
  "members_ok ms \<longleftrightarrow> ran ms \<subseteq> permission_ids"

definition collabs_ok :: "(string \<rightharpoonup> collab_row) \<Rightarrow> bool" where
  "collabs_ok cs \<longleftrightarrow> (\<forall>oid row. cs oid = Some row \<longrightarrow> oid \<noteq> [] \<and> cr_blob row \<noteq> [])"

definition snapshots_ok :: "snapshot_row list \<Rightarrow> i64 \<Rightarrow> bool" where
  "snapshots_ok xs next \<longleftrightarrow>
     (\<forall>r \<in> set xs. sn_oid r \<noteq> [] \<and> sn_blob r \<noteq> [] \<and> sn_sid r < next) \<and> distinct (map sn_sid xs) \<and>
     (\<forall>oid. length (filter (\<lambda>r. sn_oid r = oid) xs) \<le> COLLAB_SNAPSHOT_LIMIT)"

definition database_ok :: "database \<Rightarrow> bool" where
  "database_ok db \<longleftrightarrow>
     members_ok (db_members db) \<and> collabs_ok (db_collabs db) \<and> snapshots_ok (db_snapshots db) (db_next_sid db)"

text \<open>Updates of the collab and member tables keep it, as long as the rows they write are well formed.\<close>

lemma members_ok_upd [preserves]: "members_ok ms \<Longrightarrow> pid \<in> permission_ids \<Longrightarrow> members_ok (ms(m \<mapsto> pid))"
  by (auto simp: members_ok_def ran_def split: if_splits)

lemma members_ok_del [preserves]: "members_ok ms \<Longrightarrow> members_ok (ms(m := None))"
  by (auto simp: members_ok_def ran_def split: if_splits)

lemma collabs_ok_upd [preserves]:
  "collabs_ok cs \<Longrightarrow> oid \<noteq> [] \<Longrightarrow> cr_blob row \<noteq> [] \<Longrightarrow> collabs_ok (cs(oid \<mapsto> row))"
  by (simp add: collabs_ok_def)

lemma collabs_okD: "collabs_ok cs \<Longrightarrow> cs oid = Some row \<Longrightarrow> oid \<noteq> [] \<and> cr_blob row \<noteq> []"
  by (simp add: collabs_ok_def)

lemma owner_permission [simp]: "map_of af_role_permissions ''Owner'' = Some 4"
  by (simp add: af_role_permissions_def)

lemma permission_4 [simp]: "4 \<in> permission_ids"
  by (simp add: permission_ids_def af_permissions_def)

lemma res_bind_Inr_iff: "res_bind r f = Inr y \<longleftrightarrow> (\<exists>x. r = Inr x \<and> f x = Inr y)"
  by (cases r) auto

lemma res_map_err_Inr_iff [simp]: "res_map_err h r = Inr x \<longleftrightarrow> r = Inr x"
  by (cases r) auto

text \<open>What a successful upsert leaves in the tables.\<close>

lemma insert_into_af_collab_result:
  assumes "insert_into_af_collab ce q uid w p db = Inr db1"
  obtains row u where "ce_parse_uuid ce w = Inr u"
    "db_collabs db1 = (db_collabs db)(cp_object_id p \<mapsto> row)"
    "cr_blob row = cp_encoded_collab_v1 p" "cr_partition_key row = ce_value ce (cp_collab_type p)"
    "cr_owner_uid row = uid" "cr_workspace_id row = u"
    "cr_deleted_at row = (case db_collabs db (cp_object_id p) of Some r \<Rightarrow> cr_deleted_at r | None \<Rightarrow> None)"
    "db_members db1 = (if db_collabs db (cp_object_id p) = None
       then (db_members db)((uid, cp_object_id p) \<mapsto> 4) else db_members db)"
    "db_snapshots db1 = db_snapshots db" "db_next_sid db1 = db_next_sid db"
    "\<And>r. db_collabs db (cp_object_id p) = Some r \<Longrightarrow> cr_workspace_id r = u"
proof -
  from assms obtain u where u: "ce_parse_uuid ce w = Inr u"
    by (auto simp: insert_into_af_collab_def split: sum.splits)
  show thesis
  proof (cases "db_collabs db (cp_object_id p)")
    case None
    with assms u show thesis
      by (intro that [of u "\<lparr>cr_blob = cp_encoded_collab_v1 p, cr_partition_key = ce_value ce (cp_collab_type p),
             cr_owner_uid = uid, cr_workspace_id = u, cr_deleted_at = None\<rparr>"])
        (auto simp: insert_into_af_collab_def res_bind_Inr_iff)
  next
    case (Some r)
    with assms u show thesis
      by (intro that [of u "r\<lparr>cr_blob := cp_encoded_collab_v1 p, cr_partition_key := ce_value ce (cp_collab_type p),
             cr_owner_uid := uid\<rparr>"])
        (auto simp: insert_into_af_collab_def res_bind_Inr_iff split: if_splits)
  qed
qed

lemma database_ok_insert [preserves]:
  assumes "insert_into_af_collab ce q uid w p db = Inr db1" and "database_ok db"
    and "cp_object_id p \<noteq> []" and "cp_encoded_collab_v1 p \<noteq> []"
  shows "database_ok db1"
proof -
  obtain row where r: "db_collabs db1 = (db_collabs db)(cp_object_id p \<mapsto> row)" "cr_blob row = cp_encoded_collab_v1 p"
    "db_members db1 = (if db_collabs db (cp_object_id p) = None
       then (db_members db)((uid, cp_object_id p) \<mapsto> 4) else db_members db)"
    "db_snapshots db1 = db_snapshots db" "db_next_sid db1 = db_next_sid db"
    by (rule insert_into_af_collab_result [OF assms(1)]) blast
  show ?thesis using r assms(2-) by (simp add: database_ok_def preserves)
qed

lemma database_ok_delete [preserves]:
  assumes "db_delete_collab q now oid db = Inr db1" and "database_ok db"
  shows "database_ok db1"
proof (cases "db_collabs db oid")
  case None
  then show ?thesis using assms by (auto simp: db_delete_collab_def split: option.splits)
next
  case (Some row)
  then have "oid \<noteq> [] \<and> cr_blob row \<noteq> []" using assms(2) collabs_okD by (metis database_ok_def)
  then show ?thesis using Some assms by (auto simp: db_delete_collab_def database_ok_def preserves split: option.splits)
qed

lemma find_in: "find P xs = Some x \<Longrightarrow> x \<in> set xs"
  by (auto simp: find_Some_iff)

lemma database_ok_upsert_member [preserves]:
  assumes "db_upsert_collab_member q uid oid l db = Inr db1" and "database_ok db"
  shows "database_ok db1"
  using assms
  by (auto simp: db_upsert_collab_member_def res_bind_Inr_iff database_ok_def permission_ids_def preserves
      split: option.splits dest!: find_in)

subsection \<open>Snapshots are limited\<close>

lemma newest_firstD:
  assumes "newest_first newest"
  shows "set (newest xs) = set xs" "length (newest xs) = length xs"
    "sorted_wrt (\<lambda>a b. sn_created_at b \<le> sn_created_at a) (newest xs)" "mset (newest xs) = mset xs"
  using assms unfolding newest_first_def by (metis mset_eq_setD, metis mset_eq_length, blast, blast)

text \<open>The rows of an object that stay are those of the first \<open>limit\<close> in the order.\<close>

lemma kept_snapshots:
  fixes limit :: nat
  assumes n: "newest_first newest" and d: "distinct (map sn_sid xs)" and k: "kept = take limit (newest xs)"
  shows "mset (filter (\<lambda>s. sn_sid s \<in> set (map sn_sid kept)) xs) = mset kept"
proof -
  have i: "inj_on sn_sid (set xs)" and dx: "distinct xs" using d by (simp_all add: distinct_map)
  have sub: "set kept \<subseteq> set xs" using newest_firstD(1) [OF n] set_take_subset [of limit "newest xs"] by (auto simp: k)
  have "distinct (newest xs)" using newest_firstD(4) [OF n, of xs] dx by (metis mset_eq_imp_distinct_iff)
  then have "distinct kept" by (simp add: k)
  moreover have "set (filter (\<lambda>s. sn_sid s \<in> set (map sn_sid kept)) xs) = set kept"
    using sub inj_onD [OF i] by auto
  moreover have "distinct (filter (\<lambda>s. sn_sid s \<in> set (map sn_sid kept)) xs)" using dx by simp
  ultimately show ?thesis by (metis set_eq_iff_mset_eq_distinct)
qed

lemma sorted_wrt_take_drop:
  assumes "sorted_wrt R xs" and "x \<in> set (take k xs)" and "y \<in> set (drop k xs)"
  shows "R x y"
  using assms by (metis append_take_drop_id sorted_wrt_append)

lemma create_snapshot_result:
  assumes n: "newest_first newest" and ok: "snapshots_ok (db_snapshots db) (db_next_sid db)"
    and c: "create_snapshot_and_maintain_limit newest q committed now oid blob w limit db = (db2, Inr r)"
  shows "r = \<lparr>sn_sid = db_next_sid db, sn_oid = oid, sn_blob = blob, sn_workspace_id = w, sn_created_at = now\<rparr>"
    "mset (snapshots_of oid db2) = mset (take limit (newest (snapshots_of oid db @ [r])))"
    "j \<noteq> oid \<Longrightarrow> snapshots_of j db2 = snapshots_of j db"
    "set (db_snapshots db2) \<subseteq> set (db_snapshots db @ [r])" "distinct (map sn_sid (db_snapshots db2))"
    "db_next_sid db2 = db_next_sid db + 1" "db_collabs db2 = db_collabs db" "db_members db2 = db_members db"
proof -
  define r' where "r' = \<lparr>sn_sid = db_next_sid db, sn_oid = oid, sn_blob = blob, sn_workspace_id = w, sn_created_at = now\<rparr>"
  define db1 where "db1 = db\<lparr>db_snapshots := db_snapshots db @ [r'], db_next_sid := db_next_sid db + 1\<rparr>"
  define kept where "kept = take limit (newest (snapshots_of oid db1))"
  from c have r: "r = r'" and
    db2: "db2 = db1\<lparr>db_snapshots := filter (\<lambda>s. \<not> (sn_oid s = oid \<and> sn_sid s \<notin> set (map sn_sid kept))) (db_snapshots db1)\<rparr>"
    unfolding create_snapshot_and_maintain_limit_def Let_def r'_def [symmetric] db1_def [symmetric] kept_def [symmetric]
    by (auto split: sum.splits if_splits)
  have s1: "snapshots_of oid db1 = snapshots_of oid db @ [r]" "db_snapshots db1 = db_snapshots db @ [r]"
    by (simp_all add: db1_def snapshots_of_def r r'_def)
  have "sn_sid r \<notin> sn_sid ` set (db_snapshots db)"
    using ok by (force simp: r r'_def snapshots_ok_def)
  then have d: "distinct (map sn_sid (db_snapshots db1))"
    using ok by (simp add: s1 snapshots_ok_def)
  then have ds: "distinct (map sn_sid (snapshots_of oid db1))"
    unfolding snapshots_of_def by (rule distinct_map_filter)
  have f: "snapshots_of oid db2 = filter (\<lambda>s. sn_sid s \<in> set (map sn_sid kept)) (snapshots_of oid db1)"
    unfolding snapshots_of_def db2 by (simp add: conj_commute conj_disj_distribR cong: conj_cong)
  show "mset (snapshots_of oid db2) = mset (take limit (newest (snapshots_of oid db @ [r])))"
    unfolding f kept_snapshots [OF n ds kept_def] by (simp add: kept_def s1)
  show "j \<noteq> oid \<Longrightarrow> snapshots_of j db2 = snapshots_of j db"
    unfolding snapshots_of_def db2 by (auto simp: s1 r r'_def intro: filter_cong)
  show "set (db_snapshots db2) \<subseteq> set (db_snapshots db @ [r])" by (auto simp: db2 s1)
  show "distinct (map sn_sid (db_snapshots db2))" unfolding db2 using d by (simp add: distinct_map_filter)
  show "db_next_sid db2 = db_next_sid db + 1" "db_collabs db2 = db_collabs db" "db_members db2 = db_members db"
    by (simp_all add: db2 db1_def)
  show "r = \<lparr>sn_sid = db_next_sid db, sn_oid = oid, sn_blob = blob, sn_workspace_id = w, sn_created_at = now\<rparr>"
    by (simp add: r r'_def)
qed

lemma create_snapshot_failed:
  assumes "create_snapshot_and_maintain_limit newest q committed now oid blob w limit db = (db2, Inl err)"
  shows "db2 = db"
  using assms by (auto simp: create_snapshot_and_maintain_limit_def Let_def split: sum.splits if_splits)

lemma database_ok_snapshot [preserves]:
  assumes n: "newest_first newest" and ok: "database_ok db" and "oid \<noteq> []" and "blob \<noteq> []"
  shows "database_ok (fst (create_snapshot_and_maintain_limit newest q committed now oid blob w COLLAB_SNAPSHOT_LIMIT db))"
proof (cases "create_snapshot_and_maintain_limit newest q committed now oid blob w COLLAB_SNAPSHOT_LIMIT db")
  case (Pair db2 r)
  have ok': "snapshots_ok (db_snapshots db) (db_next_sid db)" using ok by (simp add: database_ok_def)
  show ?thesis
  proof (cases r)
    case (Inl err)
    then show ?thesis using Pair create_snapshot_failed ok by (metis fst_conv)
  next
    case (Inr x)
    note c = create_snapshot_result [OF n ok' Pair [unfolded Inr]]
    have "length (snapshots_of j db2) \<le> COLLAB_SNAPSHOT_LIMIT" for j
    proof (cases "j = oid")
      case True
      then show ?thesis using mset_eq_length [OF c(2)] by simp
    next
      case False
      then show ?thesis using c(3) ok' by (simp add: snapshots_ok_def snapshots_of_def)
    qed
    moreover have "sn_oid y \<noteq> [] \<and> sn_blob y \<noteq> [] \<and> sn_sid y < db_next_sid db2" if "y \<in> set (db_snapshots db2)" for y
    proof -
      have "y \<in> set (db_snapshots db) \<or> y = x" using that c(4) by auto
      then show ?thesis using c(1,6) assms(3,4) ok' by (auto simp: snapshots_ok_def)
    qed
    ultimately have "snapshots_ok (db_snapshots db2) (db_next_sid db2)"
      using c(5) by (simp add: snapshots_ok_def snapshots_of_def)
    then show ?thesis using ok c(7,8) by (simp add: Pair database_ok_def)
  qed
qed

subsection \<open>Permissions of an upsert\<close>

text \<open>
  The level that the storage acts on: the one the enforcer holds, or else the one of the member table.
\<close>

definition effective_level :: "('e \<Rightarrow> rule list) \<Rightarrow> 'e storage \<Rightarrow> i64 \<Rightarrow> string \<Rightarrow> af_access_level option" where
  "effective_level pol s uid oid =
     (case level_of pol (st_enforcer s) uid oid of
        Some l \<Rightarrow> Some l
      | None \<Rightarrow>
          (case select_collab_member None uid oid (st_db s) of
             Inr m \<Rightarrow> Some (perm_access_level (acm_permission m))
           | Inl _ \<Rightarrow> None))"

definition storage_ok :: "'e casbin_api \<Rightarrow> ('e \<Rightarrow> rule list) \<Rightarrow> ('e \<Rightarrow> rule list) \<Rightarrow> 'e storage \<Rightarrow> bool" where
  "storage_ok api pol grp s \<longleftrightarrow> casbin_ok api pol grp \<and> enforcer_ok pol (st_enforcer s)"

lemma refresh_effective:
  assumes "storage_ok api pol grp s"
    and "get_or_refresh_collab_access_level api q (st_db s) (st_enforcer s) uid oid = (e1, r)"
  shows "casbin_ok api pol grp \<and> enforcer_ok pol e1"
    "r = Inr l \<Longrightarrow> effective_level pol s uid oid = Some l \<and> level_of pol e1 uid oid = Some l"
    "\<And>v j. (v, j) \<noteq> (uid, oid) \<Longrightarrow> level_of pol e1 v j = level_of pol (st_enforcer s) v j"
    "q = None \<Longrightarrow> effective_level pol s uid oid = Some l \<Longrightarrow> r = Inr l"
    "q = None \<Longrightarrow> effective_level pol s uid oid = None \<Longrightarrow>
       \<exists>m. r = Inl (RecordNotFound m) \<and> level_of pol e1 = level_of pol (st_enforcer s)"
proof -
  have g: "casbin_ok api pol grp \<and> enforcer_ok pol (st_enforcer s)" using assms(1) by (simp add: storage_ok_def)
  note h = levels.refresh_holds [OF g assms(2) [unfolded get_or_refresh_collab_access_level_def]]
  show "casbin_ok api pol grp \<and> enforcer_ok pol e1" using h by blast
  show "\<And>v j. (v, j) \<noteq> (uid, oid) \<Longrightarrow> level_of pol e1 v j = level_of pol (st_enforcer s) v j" using h by blast
  have c: "(r = Inr l \<longrightarrow> effective_level pol s uid oid = Some l) \<and>
    (q = None \<longrightarrow> (effective_level pol s uid oid = Some l \<longrightarrow> r = Inr l) \<and>
      (effective_level pol s uid oid = None \<longrightarrow> (\<exists>m. r = Inl (RecordNotFound m)) \<and>
         level_of pol e1 = level_of pol (st_enforcer s)))" for l
  proof (cases "level_of pol (st_enforcer s) uid oid")
    case (Some k)
    from levels.refresh_known [OF g Some, of q "st_db s"] assms(2) have "r = Inr k"
      by (metis Pair_inject get_or_refresh_collab_access_level_def)
    then show ?thesis by (simp add: effective_level_def Some)
  next
    case None
    show ?thesis
    proof (cases "select_collab_member q uid oid (st_db s)")
      case (Inl err)
      from levels.refresh_unknown [OF g None Inl] assms(2)
      have r: "r = Inl err" "level_of pol e1 = level_of pol (st_enforcer s)"
        by (metis Pair_inject get_or_refresh_collab_access_level_def)+
      then show ?thesis using Inl
        by (auto simp: effective_level_def None select_collab_member_def split: option.splits)
    next
      case (Inr m)
      then have q: "q = None" by (auto simp: select_collab_member_def split: option.splits)
      from levels.refresh_member [OF g None Inr] assms(2) have "r = Inr (perm_access_level (acm_permission m))"
        by (metis Pair_inject get_or_refresh_collab_access_level_def)
      then show ?thesis using Inr q by (simp add: effective_level_def None)
    qed
  qed
  show "r = Inr l \<Longrightarrow> effective_level pol s uid oid = Some l \<and> level_of pol e1 uid oid = Some l" using c [of l] h by blast
  show "q = None \<Longrightarrow> effective_level pol s uid oid = Some l \<Longrightarrow> r = Inr l" using c by blast
  show "q = None \<Longrightarrow> effective_level pol s uid oid = None \<Longrightarrow>
       \<exists>m. r = Inl (RecordNotFound m) \<and> level_of pol e1 = level_of pol (st_enforcer s)" using c by blast
qed

end
