(* ===== verification/StorageProps.thy ===== *)
theory StorageProps
  imports StorageLaws
begin

section \<open>Properties of the storage\<close>

text \<open>
  What an upsert, a read, a deletion and a snapshot do to the tables and the caches, the invariant of
  every run of the storage, and the properties that rest on them.
\<close>

subsection \<open>The outcomes of an upsert\<close>

lemma upsert_error_keeps_db:
  assumes "upsert_collab ce api f uid cp s = (s1, Inl err)"
  shows "st_db s1 = st_db s" "st_opened s1 = st_opened s"
  using assms
  by (auto simp: upsert_collab_def upsert_collab_with_transaction_def mem_cache_bytes_def Let_def
      split: prod.splits sum.splits if_splits)

lemma upsert_okE:
  assumes "upsert_collab ce api f uid cp s = (s1, Inr ())"
  obtains p w e1 db1 where "split_create_params cp = (p, w)" "cp_object_id p \<noteq> []" "cp_encoded_collab_v1 p \<noteq> []"
    "st_check_collab_permission ce api f (st_db s) w uid p (st_enforcer s) = (e1, Inr ())"
    "insert_into_af_collab ce (fl_stmt f) uid w p (st_db s) = Inr db1"
    "s1 = s\<lparr>st_enforcer := e1, st_db := db1, st_mem := (st_mem s)(cp_object_id p \<mapsto> cp_encoded_collab_v1 p)\<rparr>"
  using assms
  by (auto simp: upsert_collab_def upsert_collab_with_transaction_def mem_cache_bytes_def Let_def validate_collab_params_ok
      split: prod.splits sum.splits if_splits)

text \<open>The role that the enforcer holds is the answer, and asking changes no permission.\<close>

lemma workspace_role_result:
  assumes api: "casbin_ok api pol grp" and ok: "enforcer_ok pol e"
    and g: "get_workspace_role api e uid w = (e1, r)"
  shows "enforcer_ok pol e1" "permission_of pol e1 = permission_of pol e"
    "r = Inr role \<longleftrightarrow> map_option role_from_action (permission_of pol e uid (ObjWorkspace w)) = Some role"
proof -
  obtain e2 a where a: "en_get_action api e uid (ObjWorkspace w) = (e2, a)" by fastforce
  with g have e1: "e1 = e2" by (auto simp: get_workspace_role_def get_role_def split: option.splits)
  show "enforcer_ok pol e1" using enforcer_ok_get_action [OF api ok, of uid "ObjWorkspace w"] by (simp add: a e1)
  show "permission_of pol e1 = permission_of pol e"
    using get_action_keeps(1) [OF api ok, of uid "ObjWorkspace w"] by (simp add: a e1)
  have "a = permission_of pol e uid (ObjWorkspace w)"
    using en_get_action_result(1) [OF api ok, of uid "ObjWorkspace w"] by (simp add: a)
  with g show "r = Inr role \<longleftrightarrow> map_option role_from_action (permission_of pol e uid (ObjWorkspace w)) = Some role"
    by (cases "permission_of pol e uid (ObjWorkspace w)") (auto simp: get_workspace_role_def get_role_def a)
qed

lemma insert_level_result:
  assumes "casbin_ok api pol grp" and "enforcer_ok pol e"
    and "insert_collab_access_level api e uid oid l = (e1, r)"
  shows "r = Inr ()" "enforcer_ok pol e1"
    "level_of pol e1 = (\<lambda>v j. if uid = v \<and> oid = j then Some l else level_of pol e v j)"
  using levels.grant_good [of api pol grp e uid oid l] levels.grant_level [of api pol grp e uid oid l] assms by simp_all

text \<open>Only the levels of the acting user on the object may change, and the enforcer stays well formed.\<close>

lemma check_permission_result:
  assumes ok: "storage_ok api pol grp s"
    and c: "st_check_collab_permission ce api f (st_db s) w uid p (st_enforcer s) = (e1, r)"
  shows "enforcer_ok pol e1"
    "(v, j) \<noteq> (uid, cp_object_id p) \<Longrightarrow> level_of pol e1 v j = level_of pol (st_enforcer s) v j"
    "r = Inr () \<Longrightarrow> db_collabs (st_db s) (cp_object_id p) \<noteq> None \<Longrightarrow> fl_exists f \<noteq> Some SqlRowNotFound \<Longrightarrow>
       \<exists>l. can_write l \<and> effective_level pol s uid (cp_object_id p) = Some l \<and>
           level_of pol e1 uid (cp_object_id p) = Some l"
    "r = Inr () \<Longrightarrow> db_collabs (st_db s) (cp_object_id p) = None \<Longrightarrow>
       \<exists>u a. ce_parse_uuid ce w = Inr u \<and> permission_of pol (st_enforcer s) uid (ObjWorkspace u) = Some a \<and>
           can_create_collab (role_from_action a) \<and> level_of pol e1 uid (cp_object_id p) = Some FullAccess"
proof -
  have api: "casbin_ok api pol grp" and en: "enforcer_ok pol (st_enforcer s)" using ok by (simp_all add: storage_ok_def)
  have "enforcer_ok pol e1 \<and>
    (\<forall>v j. (v, j) \<noteq> (uid, cp_object_id p) \<longrightarrow> level_of pol e1 v j = level_of pol (st_enforcer s) v j) \<and>
    (r = Inr () \<longrightarrow> db_collabs (st_db s) (cp_object_id p) \<noteq> None \<longrightarrow> fl_exists f \<noteq> Some SqlRowNotFound \<longrightarrow>
       (\<exists>l. can_write l \<and> effective_level pol s uid (cp_object_id p) = Some l \<and>
           level_of pol e1 uid (cp_object_id p) = Some l)) \<and>
    (r = Inr () \<longrightarrow> db_collabs (st_db s) (cp_object_id p) = None \<longrightarrow>
       (\<exists>u a. ce_parse_uuid ce w = Inr u \<and> permission_of pol (st_enforcer s) uid (ObjWorkspace u) = Some a \<and>
           can_create_collab (role_from_action a) \<and> level_of pol e1 uid (cp_object_id p) = Some FullAccess))"
  proof (cases "is_collab_exists (fl_exists f) (cp_object_id p) (st_db s)")
    case (Inl err)
    with c en show ?thesis by (auto simp: st_check_collab_permission_def)
  next
    case (Inr ex)
    show ?thesis
    proof (cases ex)
      case True
      obtain e2 r2 where g: "get_or_refresh_collab_access_level api (fl_member f) (st_db s) (st_enforcer s) uid (cp_object_id p) = (e2, r2)"
        by fastforce
      note h = refresh_effective [OF ok g]
      have "db_collabs (st_db s) (cp_object_id p) \<noteq> None"
        using Inr True by (auto simp: is_collab_exists_def transform_record_not_found_error_def split: option.splits sum.splits if_splits)
      moreover have "e1 = e2 \<and> (r = Inr () \<longrightarrow> (\<exists>l. r2 = Inr l \<and> can_write l))"
        using c by (auto simp: st_check_collab_permission_def Inr True g split: sum.splits if_splits)
      ultimately show ?thesis using h(1,2,3) by blast
    next
      case False
      show ?thesis
      proof (cases "ce_parse_uuid ce w")
        case (Inl err)
        with c en show ?thesis by (auto simp: st_check_collab_permission_def Inr False get_user_workspace_role_def)
      next
        case u: (Inr u)
        obtain e2 r2 where g: "get_workspace_role api (st_enforcer s) uid u = (e2, r2)" by fastforce
        note h = workspace_role_result [OF api en g]
        have l: "level_of pol e2 = level_of pol (st_enforcer s)" by (simp add: level_of_def fun_eq_iff h(2))
        show ?thesis
        proof (cases "\<exists>role. r2 = Inr role \<and> can_create_collab role")
          case True
          then obtain role where r2: "r2 = Inr role" "can_create_collab role" by blast
          with c have i: "insert_collab_access_level api e2 uid (cp_object_id p) FullAccess = (e1, r)"
            by (simp add: st_check_collab_permission_def Inr False get_user_workspace_role_def u g cache_collab_access_level_def)
          note k = insert_level_result [OF api h(1) i]
          have "db_collabs (st_db s) (cp_object_id p) = None \<or> fl_exists f = Some SqlRowNotFound"
            using Inr False by (auto simp: is_collab_exists_def transform_record_not_found_error_def split: option.splits sum.splits if_splits)
          moreover have "\<exists>a. permission_of pol (st_enforcer s) uid (ObjWorkspace u) = Some a \<and> role_from_action a = role"
            using h(3) [of role] r2(1) by auto
          ultimately show ?thesis using k l r2(2) u by auto
        next
          case False2: False
          with c have "e1 = e2 \<and> r \<noteq> Inr ()"
            by (auto simp: st_check_collab_permission_def Inr False get_user_workspace_role_def u g split: sum.splits if_splits)
          with h(1) l show ?thesis by simp
        qed
      qed
    qed
  qed
  then show "enforcer_ok pol e1"
    "(v, j) \<noteq> (uid, cp_object_id p) \<Longrightarrow> level_of pol e1 v j = level_of pol (st_enforcer s) v j"
    "r = Inr () \<Longrightarrow> db_collabs (st_db s) (cp_object_id p) \<noteq> None \<Longrightarrow> fl_exists f \<noteq> Some SqlRowNotFound \<Longrightarrow>
       \<exists>l. can_write l \<and> effective_level pol s uid (cp_object_id p) = Some l \<and>
           level_of pol e1 uid (cp_object_id p) = Some l"
    "r = Inr () \<Longrightarrow> db_collabs (st_db s) (cp_object_id p) = None \<Longrightarrow>
       \<exists>u a. ce_parse_uuid ce w = Inr u \<and> permission_of pol (st_enforcer s) uid (ObjWorkspace u) = Some a \<and>
           can_create_collab (role_from_action a) \<and> level_of pol e1 uid (cp_object_id p) = Some FullAccess"
    by blast+
qed

subsection \<open>Every run of the storage\<close>

definition storage_inv :: "'e casbin_api \<Rightarrow> ('e \<Rightarrow> rule list) \<Rightarrow> ('e \<Rightarrow> rule list) \<Rightarrow> 'e storage \<Rightarrow> bool" where
  "storage_inv api pol grp s \<longleftrightarrow> storage_ok api pol grp s \<and> database_ok (st_db s)"

lemma storage_ok_upsert:
  assumes "storage_ok api pol grp s"
  shows "storage_ok api pol grp (fst (upsert_collab ce api f uid cp s))"
proof -
  have "enforcer_ok pol e1"
    if "st_check_collab_permission ce api f (st_db s) w uid p (st_enforcer s) = (e1, r)" for w p e1 r
    using check_permission_result(1) [OF assms that] .
  then show ?thesis using assms
    by (auto simp: upsert_collab_def upsert_collab_with_transaction_def mem_cache_bytes_def Let_def storage_ok_def
        split: prod.splits sum.splits if_splits)
qed

lemma database_ok_upsert:
  assumes "database_ok (st_db s)"
  shows "database_ok (st_db (fst (upsert_collab ce api f uid cp s)))"
proof (cases "upsert_collab ce api f uid cp s")
  case (Pair s1 r)
  show ?thesis
  proof (cases r)
    case (Inl err)
    with Pair assms show ?thesis using upsert_error_keeps_db(1) by (metis fst_conv)
  next
    case (Inr x)
    with Pair have "upsert_collab ce api f uid cp s = (s1, Inr ())" by simp
    then show ?thesis
    proof (rule upsert_okE)
      fix p w e1 db1
      assume "cp_object_id p \<noteq> []" "cp_encoded_collab_v1 p \<noteq> []"
        and i: "insert_into_af_collab ce (fl_stmt f) uid w p (st_db s) = Inr db1"
        and "s1 = s\<lparr>st_enforcer := e1, st_db := db1, st_mem := (st_mem s)(cp_object_id p \<mapsto> cp_encoded_collab_v1 p)\<rparr>"
      then show ?thesis using database_ok_insert [OF i assms] by (simp add: Pair)
    qed
  qed
qed

lemma mem_cache_collab_frame [frame, simp]:
  "st_db (mem_cache_collab ce oid c s) = st_db s" "st_enforcer (mem_cache_collab ce oid c s) = st_enforcer s"
  "st_opened (mem_cache_collab ce oid c s) = st_opened s"
  by (simp_all add: mem_cache_collab_def mem_cache_bytes_def split: sum.splits)

lemma get_keeps_db [frame, simp]: "st_db (fst (get_collab_encoded ce api f uid q s)) = st_db s"
  by (auto simp: get_collab_encoded_def Let_def split: prod.splits sum.splits option.splits)

lemma storage_ok_get:
  assumes "storage_ok api pol grp s"
  shows "storage_ok api pol grp (fst (get_collab_encoded ce api f uid q s))"
proof -
  have "enforcer_ok pol e1"
    if "get_or_refresh_collab_access_level api (fl_member f) (st_db s) (st_enforcer s) uid oid = (e1, r)" for oid e1 r
    using refresh_effective(1) [OF assms that] by blast
  then show ?thesis using assms
    by (auto simp: get_collab_encoded_def Let_def storage_ok_def split: prod.splits sum.splits option.splits)
qed

lemma storage_inv_delete:
  assumes "storage_inv api pol grp s"
  shows "storage_inv api pol grp (fst (delete_collab api f now uid oid s))"
proof -
  have ok: "storage_ok api pol grp s" "database_ok (st_db s)" using assms by (simp_all add: storage_inv_def)
  have "enforcer_ok pol e1"
    if "get_or_refresh_collab_access_level api (fl_member f) (st_db s) (st_enforcer s) uid oid = (e1, r)" for oid e1 r
    using refresh_effective(1) [OF ok(1) that] by blast
  then show ?thesis using ok
    by (auto simp: delete_collab_def storage_inv_def storage_ok_def intro: database_ok_delete
        split: prod.splits sum.splits)
qed

lemma storage_inv_snapshot:
  assumes "newest_first newest" and "storage_inv api pol grp s"
  shows "storage_inv api pol grp (fst (create_snapshot ce newest f now p s))"
proof (cases "validate_insert_snapshot_params p")
  case (Inl err)
  then show ?thesis using assms by (simp add: create_snapshot_def)
next
  case (Inr x)
  then have v: "isp_object_id p \<noteq> []" "isp_encoded_collab_v1 p \<noteq> []"
    by (auto simp: validate_insert_snapshot_params_def validate_not_empty_str_def validate_not_empty_payload_def
        split: if_splits)
  have ok: "storage_ok api pol grp s" "database_ok (st_db s)" using assms by (simp_all add: storage_inv_def)
  have "database_ok (fst (create_snapshot_and_maintain_limit newest q committed now (isp_object_id p)
      (isp_encoded_collab_v1 p) w COLLAB_SNAPSHOT_LIMIT (st_db s)))" for q committed w
    by (rule database_ok_snapshot [OF assms(1) ok(2) v])
  then show ?thesis using ok Inr
    by (auto simp: create_snapshot_def storage_inv_def storage_ok_def split: prod.splits sum.splits)
      (metis fst_conv)
qed

lemma member_operations_keep_collabs:
  "db_collabs (fst (create_collab_member f p db)) = db_collabs db"
  "db_collabs (fst (upsert_collab_member f p db)) = db_collabs db"
  "db_collabs (fst (delete_collab_member f i db)) = db_collabs db"
  by (auto simp: create_collab_member_def upsert_collab_member_def delete_collab_member_def
      db_delete_collab_member_def db_upsert_collab_member_def res_bind_Inr_iff
      split: sum.splits option.splits bool.splits)

lemma database_ok_members:
  assumes "database_ok db"
  shows "database_ok (fst (create_collab_member f p db))" "database_ok (fst (upsert_collab_member f p db))"
    "database_ok (fst (delete_collab_member f i db))"
  using assms
  by (auto simp: create_collab_member_def upsert_collab_member_def delete_collab_member_def
      db_delete_collab_member_def database_ok_def [of "_\<lparr>db_members := _\<rparr>"] members_ok_del
      dest: database_ok_upsert_member [OF _ assms]
      split: sum.splits option.splits bool.splits) (simp_all add: database_ok_def members_ok_del)

lemma storage_inv_step:
  assumes "newest_first newest" and inv: "storage_inv api pol grp s"
  shows "storage_inv api pol grp (storage_step ce api newest s ev)"
proof -
  have ok: "storage_ok api pol grp s" "database_ok (st_db s)" using inv by (simp_all add: storage_inv_def)
  have m: "storage_inv api pol grp (with_db s r)" if "database_ok (fst r)" for r :: "database \<times> (app_error + unit)"
    using ok that by (simp add: storage_inv_def storage_ok_def with_db_def)
  show ?thesis
    by (cases ev)
      (simp_all add: storage_inv_def [of _ _ _ "fst _"] storage_ok_upsert database_ok_upsert storage_ok_get ok
        storage_inv_delete [OF inv, unfolded storage_inv_def] storage_inv_snapshot [OF assms, unfolded storage_inv_def]
        m database_ok_members, auto simp: storage_inv_def storage_ok_def cache_collab_def remove_collab_cache_def
        mem_evict_def mem_remove_def ok(2) ok(1) [unfolded storage_ok_def])
qed

interpretation storage: step_invariant "storage_step ce api newest" "\<lambda>_ _. newest_first newest" "storage_inv api pol grp"
  for ce api newest pol grp
  by unfold_locales (rule storage_inv_step)

text \<open>Once an object is marked as deleted no operation takes the mark away.\<close>

definition deleted :: "string \<Rightarrow> database \<Rightarrow> bool" where
  "deleted oid db \<longleftrightarrow> (case db_collabs db oid of Some row \<Rightarrow> cr_deleted_at row \<noteq> None | None \<Rightarrow> False)"

lemma deleted_insert:
  assumes "insert_into_af_collab ce q uid w p db = Inr db1" and "deleted oid db"
  shows "deleted oid db1"
proof -
  obtain row where "db_collabs db1 = (db_collabs db)(cp_object_id p \<mapsto> row)"
    "cr_deleted_at row = (case db_collabs db (cp_object_id p) of Some r \<Rightarrow> cr_deleted_at r | None \<Rightarrow> None)"
    by (rule insert_into_af_collab_result [OF assms(1)]) blast
  with assms(2) show ?thesis by (auto simp: deleted_def split: option.splits)
qed

lemma deleted_collabs: "db_collabs db1 = db_collabs db \<Longrightarrow> deleted oid db1 = deleted oid db"
  by (simp add: deleted_def)

lemma create_snapshot_collabs: "db_collabs (st_db (fst (create_snapshot ce newest f now p s))) = db_collabs (st_db s)"
  by (auto simp: create_snapshot_def create_snapshot_and_maintain_limit_def Let_def
      split: prod.splits sum.splits)

lemma deleted_upsert: "deleted oid (st_db s) \<Longrightarrow> deleted oid (st_db (fst (upsert_collab ce api f uid cp s)))"
proof (cases "upsert_collab ce api f uid cp s")
  case (Pair s1 r)
  assume d: "deleted oid (st_db s)"
  show ?thesis
  proof (cases r)
    case (Inl err)
    with Pair d show ?thesis using upsert_error_keeps_db(1) by (metis fst_conv)
  next
    case (Inr x)
    with Pair have "upsert_collab ce api f uid cp s = (s1, Inr ())" by simp
    then show ?thesis by (rule upsert_okE) (simp add: Pair deleted_insert [OF _ d])
  qed
qed

lemma deleted_delete:
  "deleted oid (st_db s) \<Longrightarrow> deleted oid (st_db (fst (delete_collab api f now uid oid' s)))"
  by (auto simp: delete_collab_def db_delete_collab_def deleted_def split: prod.splits sum.splits option.splits)

interpretation deletion: step_invariant "storage_step ce api newest" "\<lambda>_ _. True" "\<lambda>s. deleted oid (st_db s)"
  for ce and api :: "'e casbin_api" and newest oid
proof
  fix s :: "'e storage" and e
  assume "deleted oid (st_db s)"
  then show "deleted oid (st_db (storage_step ce api newest s e))"
    by (cases e)
      (simp_all add: deleted_upsert deleted_delete with_db_def cache_collab_def remove_collab_cache_def mem_evict_def
        mem_remove_def deleted_collabs [OF create_snapshot_collabs] deleted_collabs [OF member_operations_keep_collabs(1)]
        deleted_collabs [OF member_operations_keep_collabs(2)] deleted_collabs [OF member_operations_keep_collabs(3)])
qed

subsection \<open>Reading back\<close>

lemma upsert_read_back:
  assumes ok: "storage_ok api pol grp s"
    and u: "upsert_collab ce api f uid cp s = (s1, Inr ())"
    and dec: "ce_decode ce (ccp_encoded_collab_v1 cp) = Inr c"
    and opn: "st_opened s (ccp_object_id cp) = None"
    and q: "qc_object_id (qcp_inner q) = ccp_object_id cp" "qc_collab_type (qcp_inner q) = ccp_collab_type cp"
      "qcp_workspace_id q \<noteq> []"
    and l: "effective_level pol s1 v (ccp_object_id cp) = Some l" and g: "fl_member g = None"
  shows "snd (get_collab_encoded ce api g v q s1) = Inr c \<and>
    (\<not> deleted (ccp_object_id cp) (st_db s) \<and> fl_stmt g (MAX_ATTEMPTS - 1) = None \<longrightarrow>
       snd (get_collab_encoded ce api g v q (mem_evict (ccp_object_id cp) s1)) = Inr c)"
proof (rule upsert_okE [OF u])
  fix p w e1 db1
  assume sp: "split_create_params cp = (p, w)" and ne: "cp_object_id p \<noteq> []" "cp_encoded_collab_v1 p \<noteq> []"
    and ch: "st_check_collab_permission ce api f (st_db s) w uid p (st_enforcer s) = (e1, Inr ())"
    and i: "insert_into_af_collab ce (fl_stmt f) uid w p (st_db s) = Inr db1"
    and s1: "s1 = s\<lparr>st_enforcer := e1, st_db := db1, st_mem := (st_mem s)(cp_object_id p \<mapsto> cp_encoded_collab_v1 p)\<rparr>"
  have p: "cp_object_id p = ccp_object_id cp" "cp_encoded_collab_v1 p = ccp_encoded_collab_v1 cp"
    "cp_collab_type p = ccp_collab_type cp"
    using sp by (auto simp: split_create_params_def)
  have ok1: "storage_ok api pol grp s1" using storage_ok_upsert [OF ok, of ce f uid cp] by (simp add: u)
  obtain e2 r where r: "get_or_refresh_collab_access_level api (fl_member g) (st_db s1) (st_enforcer s1) v (ccp_object_id cp) = (e2, r)"
    by fastforce
  have rl: "r = Inr l" by (rule refresh_effective(4) [OF ok1 r g l])
  have val: "validate_query_collab_params q = Inr ()" using q ne p by (simp add: validate_query_collab_params_ok)
  have "snd (get_collab_encoded ce api g v q s1) = Inr c"
    using r by (simp add: get_collab_encoded_def val q rl opn s1 p mem_get_def dec)
  moreover have "snd (get_collab_encoded ce api g v q (mem_evict (ccp_object_id cp) s1)) = Inr c"
    if d: "\<not> deleted (ccp_object_id cp) (st_db s)" and st: "fl_stmt g (MAX_ATTEMPTS - 1) = None"
  proof -
    obtain row where row: "db_collabs db1 = (db_collabs (st_db s))(cp_object_id p \<mapsto> row)"
      "cr_blob row = cp_encoded_collab_v1 p" "cr_partition_key row = ce_value ce (cp_collab_type p)"
      "cr_deleted_at row = (case db_collabs (st_db s) (cp_object_id p) of Some r \<Rightarrow> cr_deleted_at r | None \<Rightarrow> None)"
      by (rule insert_into_af_collab_result [OF i]) blast
    have nd: "cr_deleted_at row = None" using d row(4) by (auto simp: deleted_def p split: option.splits)
    have "disk_get_collab_encoded ce (fl_stmt g) q db1 = Inr c"
      using st row nd by (simp add: disk_get_collab_encoded_def disk_get_loop.simps select_blob_from_af_collab_def
          q p dec)
    then show ?thesis using r
      by (simp add: get_collab_encoded_def val q rl opn s1 p mem_get_def mem_evict_def mem_remove_def Let_def)
  qed
  ultimately show ?thesis by blast
qed

subsection \<open>An instance\<close>

text \<open>
  A database with the collab \<open>a\<close> of user 1 in the workspace \<open>w\<close>, and a format that keeps the document
  state only.
\<close>

definition sample_api :: collab_api where
  "sample_api =
     \<lparr>ce_value = (\<lambda>t. case t of Document \<Rightarrow> 0 | Database \<Rightarrow> 1 | WorkspaceDatabase \<Rightarrow> 2 | Folder \<Rightarrow> 3 |
        DatabaseRow \<Rightarrow> 4 | UserAwareness \<Rightarrow> 5), ce_display = (\<lambda>_. []),
      ce_encode = (\<lambda>c. Inr (ec_doc_state c)), ce_decode = (\<lambda>b. Inr \<lparr>ec_state_vector = [], ec_doc_state = b\<rparr>),
      ce_parse_uuid = Inr, ce_debug_query = (\<lambda>_. [])\<rparr>"

definition sample_db :: database where
  "sample_db =
     \<lparr>db_collabs = [''a'' \<mapsto> \<lparr>cr_blob = [7], cr_partition_key = 0, cr_owner_uid = 1, cr_workspace_id = ''w'',
                            cr_deleted_at = None\<rparr>],
      db_members = [(1, ''a'') \<mapsto> 4], db_snapshots = [], db_next_sid = 0\<rparr>"

definition sample_storage :: "(rule list \<times> rule list) storage" where
  "sample_storage =
     \<lparr>st_enforcer = sample_enforcer, st_db = sample_db, st_mem = Map.empty, st_opened = Map.empty\<rparr>"

definition sample_upsert :: create_collab_params where
  "sample_upsert =
     \<lparr>ccp_workspace_id = ''w'', ccp_object_id = ''a'', ccp_encoded_collab_v1 = [8], ccp_collab_type = Document,
      ccp_override_if_exist = False\<rparr>"

definition sample_query :: query_collab_params where
  "sample_query = \<lparr>qcp_workspace_id = ''w'', qcp_inner = \<lparr>qc_object_id = ''a'', qc_collab_type = Document\<rparr>\<rparr>"

definition sample_newest :: "snapshot_row list \<Rightarrow> snapshot_row list" where
  "sample_newest xs = rev (sort_key sn_created_at xs)"

lemma sample_newest_ok: "newest_first sample_newest"
proof -
  have "sorted_wrt (\<lambda>a b. sn_created_at b \<le> sn_created_at a) (rev (sort_key sn_created_at xs))"
    for xs :: "snapshot_row list"
    using sorted_sort_key [of sn_created_at xs] by (simp add: sorted_wrt_rev sorted_map)
  then show ?thesis by (simp add: newest_first_def sample_newest_def)
qed

lemma sample_storage_inv: "storage_inv sample_casbin fst snd sample_storage"
  by (simp add: storage_inv_def storage_ok_def sample_storage_def sample_casbin_ok sample_enforcer_ok database_ok_def
      sample_db_def members_ok_def collabs_ok_def snapshots_ok_def)

lemma sample_storage_ok: "storage_ok sample_casbin fst snd sample_storage"
  using sample_storage_inv by (simp add: storage_inv_def)

lemma sample_upsert_ok:
  "upsert_collab sample_api sample_casbin no_faults 1 sample_upsert sample_storage =
     (fst (upsert_collab sample_api sample_casbin no_faults 1 sample_upsert sample_storage), Inr ())"
proof (rule prod_eqI)
  show "snd (upsert_collab sample_api sample_casbin no_faults 1 sample_upsert sample_storage) =
    snd (fst (upsert_collab sample_api sample_casbin no_faults 1 sample_upsert sample_storage), Inr ())"
    by code_simp
qed simp

subsection \<open>Properties\<close>

text \<open>C33: Type invariant of the storage. Whatever requests arrive and whatever statements fail, the tables
  stay well formed: every member row refers to a row of \<open>af_permissions\<close>, so the level of every member can be
  read, every stored collab has a non-empty id and blob, snapshot ids are unique and no collab has more
  than fifteen snapshots. Besides, the enforcer stays well formed.\<close>

theorem storage_runs_stay_well_formed:
  assumes "newest_first newest" and "storage_inv api pol grp s"
  shows "database_ok (st_db (run (storage_step ce api newest) s es)) \<and>
    enforcer_ok pol (st_enforcer (run (storage_step ce api newest) s es)) \<and>
    (\<forall>uid oid. db_members (st_db (run (storage_step ce api newest) s es)) (uid, oid) \<noteq> None \<longrightarrow>
       is_ok (select_collab_member None uid oid (st_db (run (storage_step ce api newest) s es))))"
proof -
  have "storage_inv api pol grp (run (storage_step ce api newest) s es)"
    using storage.run_inv [OF assms(2)] assms(1) by (simp add: admissible_const)
  then have ok: "database_ok (st_db (run (storage_step ce api newest) s es))"
    "enforcer_ok pol (st_enforcer (run (storage_step ce api newest) s es))"
    by (simp_all add: storage_inv_def storage_ok_def)
  moreover have "is_ok (select_collab_member None uid oid db)" if "db_members db (uid, oid) \<noteq> None" "database_ok db"
    for uid oid and db :: database
  proof -
    from that(1) obtain pid where p: "db_members db (uid, oid) = Some pid" by blast
    then have "pid \<in> permission_ids" using that(2) by (auto simp: database_ok_def members_ok_def ran_def)
    then have "find (\<lambda>p. perm_id p = pid) af_permissions \<noteq> None" by (auto simp: permission_ids_def find_None_iff)
    then show ?thesis by (auto simp: select_collab_member_def p)
  qed
  ultimately show ?thesis by blast
qed

theorem storage_runs_stay_well_formed_witness:
  "database_ok (st_db (run (storage_step sample_api sample_casbin sample_newest) sample_storage
     [StUpsert no_faults 1 sample_upsert, StDelete no_faults 9 1 ''a'', StGet no_faults 2 sample_query]))"
  by (rule storage_runs_stay_well_formed [OF sample_newest_ok sample_storage_inv, THEN conjunct1])

text \<open>C22: Permissions of a write. A successful upsert of an existing collab is one by a user whose level can
  write, of a new collab one by a user whose role in the workspace can create collabs, who then has full
  access; it changes the row of that collab only, the member rows of that user and collab only, and no
  snapshot. An upsert that fails changes no table.\<close>

theorem upsert_needs_permission:
  assumes ok: "storage_ok api pol grp s" and f: "fl_exists f \<noteq> Some SqlRowNotFound"
    and u: "upsert_collab ce api f uid cp s = (s1, r)"
  shows "(r \<noteq> Inr () \<longrightarrow> st_db s1 = st_db s) \<and>
    (r = Inr () \<longrightarrow>
       (if db_collabs (st_db s) (ccp_object_id cp) \<noteq> None
        then \<exists>l. effective_level pol s uid (ccp_object_id cp) = Some l \<and> can_write l
        else (\<exists>w a. ce_parse_uuid ce (ccp_workspace_id cp) = Inr w \<and>
                permission_of pol (st_enforcer s) uid (ObjWorkspace w) = Some a \<and>
                can_create_collab (role_from_action a)) \<and>
             level_of pol (st_enforcer s1) uid (ccp_object_id cp) = Some FullAccess) \<and>
       (\<forall>j. j \<noteq> ccp_object_id cp \<longrightarrow> db_collabs (st_db s1) j = db_collabs (st_db s) j) \<and>
       (\<forall>v j. (v, j) \<noteq> (uid, ccp_object_id cp) \<longrightarrow> db_members (st_db s1) (v, j) = db_members (st_db s) (v, j)) \<and>
       db_snapshots (st_db s1) = db_snapshots (st_db s))"
proof (cases r)
  case (Inl err)
  then show ?thesis using upsert_error_keeps_db(1) u by blast
next
  case (Inr x)
  then have "upsert_collab ce api f uid cp s = (s1, Inr ())" using u by simp
  then show ?thesis
  proof (rule upsert_okE)
    fix p w e1 db1
    assume sp: "split_create_params cp = (p, w)"
      and c: "st_check_collab_permission ce api f (st_db s) w uid p (st_enforcer s) = (e1, Inr ())"
      and i: "insert_into_af_collab ce (fl_stmt f) uid w p (st_db s) = Inr db1"
      and s1: "s1 = s\<lparr>st_enforcer := e1, st_db := db1, st_mem := (st_mem s)(cp_object_id p \<mapsto> cp_encoded_collab_v1 p)\<rparr>"
    have p: "cp_object_id p = ccp_object_id cp" "w = ccp_workspace_id cp"
      using sp by (auto simp: split_create_params_def)
    obtain row where row: "db_collabs db1 = (db_collabs (st_db s))(cp_object_id p \<mapsto> row)"
      "db_members db1 = (if db_collabs (st_db s) (cp_object_id p) = None
         then (db_members (st_db s))((uid, cp_object_id p) \<mapsto> 4) else db_members (st_db s))"
      "db_snapshots db1 = db_snapshots (st_db s)"
      by (rule insert_into_af_collab_result [OF i]) blast
    have "if db_collabs (st_db s) (ccp_object_id cp) \<noteq> None
        then \<exists>l. effective_level pol s uid (ccp_object_id cp) = Some l \<and> can_write l
        else (\<exists>w a. ce_parse_uuid ce (ccp_workspace_id cp) = Inr w \<and>
                permission_of pol (st_enforcer s) uid (ObjWorkspace w) = Some a \<and>
                can_create_collab (role_from_action a)) \<and>
             level_of pol (st_enforcer s1) uid (ccp_object_id cp) = Some FullAccess"
      using check_permission_result(3,4) [OF ok c] f by (auto simp: p s1)
    then show ?thesis using row Inr
      by (cases "db_collabs (st_db s) (ccp_object_id cp)") (simp_all add: s1 p)
  qed
qed

theorem upsert_needs_permission_witness:
  "effective_level fst sample_storage 1 ''a'' = Some FullAccess \<and>
   (\<exists>l. effective_level fst sample_storage 1 ''a'' = Some l \<and> can_write l)"
proof -
  have f: "fl_exists no_faults \<noteq> Some SqlRowNotFound" by (simp add: no_faults_def)
  have "\<exists>l. effective_level fst sample_storage 1 ''a'' = Some l \<and> can_write l"
    using upsert_needs_permission [OF sample_storage_ok f sample_upsert_ok]
    by (simp add: sample_storage_def sample_db_def sample_upsert_def)
  moreover have "effective_level fst sample_storage 1 ''a'' = Some FullAccess"
    using sample_permission level_from_to_action [of FullAccess]
    by (simp add: effective_level_def level_of_def sample_storage_def)
  ultimately show ?thesis by blast
qed

text \<open>What was stored is read back. After a successful upsert whose payload decodes to a document, every
  user with a level on the collab reads that document, and needs no statement for it; and when the cache
  has lost the entry it is read from the table, unless the collab was marked as deleted before.\<close>

theorem stored_collab_is_read_back:
  assumes ok: "storage_ok api pol grp s"
    and u: "upsert_collab ce api f uid cp s = (s1, Inr ())"
    and dec: "ce_decode ce (ccp_encoded_collab_v1 cp) = Inr c"
    and opn: "st_opened s (ccp_object_id cp) = None"
    and q: "qc_object_id (qcp_inner q) = ccp_object_id cp" "qc_collab_type (qcp_inner q) = ccp_collab_type cp"
      "qcp_workspace_id q \<noteq> []"
    and l: "effective_level pol s1 v (ccp_object_id cp) = Some l" and g: "fl_member g = None"
  shows "snd (get_collab_encoded ce api g v q s1) = Inr c \<and>
    (\<not> deleted (ccp_object_id cp) (st_db s) \<and> fl_stmt g (MAX_ATTEMPTS - 1) = None \<longrightarrow>
       snd (get_collab_encoded ce api g v q (mem_evict (ccp_object_id cp) s1)) = Inr c)"
  by (rule upsert_read_back [OF assms])

theorem stored_collab_is_read_back_witness:
  "snd (get_collab_encoded sample_api sample_casbin no_faults 1 sample_query
     (fst (upsert_collab sample_api sample_casbin no_faults 1 sample_upsert sample_storage))) =
   Inr \<lparr>ec_state_vector = [], ec_doc_state = [8]\<rparr>"
proof -
  let ?s1 = "fst (upsert_collab sample_api sample_casbin no_faults 1 sample_upsert sample_storage)"
  have "effective_level fst ?s1 1 ''a'' = Some FullAccess" by code_simp
  then show ?thesis
    using stored_collab_is_read_back [OF sample_storage_ok sample_upsert_ok, of "\<lparr>ec_state_vector = [], ec_doc_state = [8]\<rparr>"
        sample_query 1 FullAccess no_faults]
    by (simp add: sample_upsert_def sample_api_def sample_storage_def sample_query_def no_faults_def)
qed

text \<open>A deleted collab. After a deletion, which only full access allows, reading the collab from the
  table fails with \<open>RecordNotFound\<close> for ever, whatever is done to the storage, later successful upserts of
  the same collab included; but the deletion leaves the cached document in place, and a reader is still
  given it.\<close>

theorem deleted_collab_is_lost_but_cached:
  assumes ok: "storage_ok api pol grp s" and row: "db_collabs (st_db s) oid \<noteq> None"
    and d: "delete_collab api f now uid oid s = (s1, Inr ())"
  shows "effective_level pol s uid oid = Some FullAccess \<and>
    (\<forall>es q ct. ct = qc_collab_type (qcp_inner q) \<longrightarrow> qc_object_id (qcp_inner q) = oid \<longrightarrow>
       disk_get_collab_encoded ce (\<lambda>_. None) q (st_db (run (storage_step ce api newest) s1 es)) =
         Inl (RecordNotFound (''Can't find the row for query: '' @ ce_debug_query ce q))) \<and>
    (\<forall>c q v l g. mem_get ce oid s = Some c \<longrightarrow> st_opened s oid = None \<longrightarrow> qc_object_id (qcp_inner q) = oid \<longrightarrow>
       validate_query_collab_params q = Inr () \<longrightarrow> effective_level pol s1 v oid = Some l \<longrightarrow> fl_member g = None \<longrightarrow>
       snd (get_collab_encoded ce api g v q s1) = Inr c)"
proof (intro conjI allI impI)
  obtain e1 r where g: "get_or_refresh_collab_access_level api (fl_member f) (st_db s) (st_enforcer s) uid oid = (e1, r)"
    by fastforce
  obtain l db1 where l: "r = Inr l" "can_delete l" and db1: "db_delete_collab (fl_stmt f 0) now oid (st_db s) = Inr db1"
    and s1: "s1 = s\<lparr>st_enforcer := e1, st_db := db1\<rparr>"
    using d by (auto simp: delete_collab_def g split: sum.splits if_splits)
  have "l = FullAccess" using l(2) by (cases l) simp_all
  then show "effective_level pol s uid oid = Some FullAccess" using refresh_effective(2) [OF ok g l(1)] by simp
  have del: "deleted oid (st_db s1)"
    using db1 row by (auto simp: db_delete_collab_def deleted_def s1 split: option.splits)
  show "disk_get_collab_encoded ce (\<lambda>_. None) q (st_db (run (storage_step ce api newest) s1 es)) =
      Inl (RecordNotFound (''Can't find the row for query: '' @ ce_debug_query ce q))"
    if "qc_object_id (qcp_inner q) = oid" for es q
  proof -
    have "deleted oid (st_db (run (storage_step ce api newest) s1 es))"
      by (rule deletion.run_inv [OF del]) simp
    then show ?thesis
      by (auto simp: disk_get_collab_encoded_def disk_get_loop.simps select_blob_from_af_collab_def deleted_def that
          split: option.splits)
  qed
  have ok1: "storage_ok api pol grp s1"
    using ok refresh_effective(1) [OF ok g] by (simp add: storage_ok_def s1)
  show "snd (get_collab_encoded ce api h v q s1) = Inr c"
    if "mem_get ce oid s = Some c" "st_opened s oid = None" "qc_object_id (qcp_inner q) = oid"
      "validate_query_collab_params q = Inr ()" "effective_level pol s1 v oid = Some k" "fl_member h = None"
    for c q v k h
  proof -
    obtain e2 r2 where r2: "get_or_refresh_collab_access_level api (fl_member h) (st_db s1) (st_enforcer s1) v oid = (e2, r2)"
      by fastforce
    have "r2 = Inr k" by (rule refresh_effective(4) [OF ok1 r2 that(6,5)])
    then show ?thesis using r2 that
      by (simp add: get_collab_encoded_def Let_def s1 mem_get_def split: option.splits)
  qed
qed

theorem deleted_collab_is_lost_but_cached_witness:
  "let s1 = fst (upsert_collab sample_api sample_casbin no_faults 1 sample_upsert sample_storage);
       s2 = fst (delete_collab sample_casbin no_faults 9 1 ''a'' s1) in
   snd (get_collab_encoded sample_api sample_casbin no_faults 1 sample_query s2) =
     Inr \<lparr>ec_state_vector = [], ec_doc_state = [8]\<rparr> \<and>
   snd (upsert_collab sample_api sample_casbin no_faults 1 sample_upsert s2) = Inr () \<and>
   disk_get_collab_encoded sample_api (\<lambda>_. None) sample_query (st_db (storage_step sample_api sample_casbin sample_newest s2
     (StUpsert no_faults 1 sample_upsert))) = Inl (RecordNotFound ''Can't find the row for query: '')"
proof -
  let ?s1 = "fst (upsert_collab sample_api sample_casbin no_faults 1 sample_upsert sample_storage)"
  let ?s2 = "fst (delete_collab sample_casbin no_faults 9 1 ''a'' ?s1)"
  have ok: "storage_ok sample_casbin fst snd ?s1"
    by (rule storage_ok_upsert [OF sample_storage_ok])
  have row: "db_collabs (st_db ?s1) ''a'' \<noteq> None" by code_simp
  have "snd (delete_collab sample_casbin no_faults 9 1 ''a'' ?s1) = Inr ()" by code_simp
  then have d: "delete_collab sample_casbin no_faults 9 1 ''a'' ?s1 = (?s2, Inr ())" by (metis prod.collapse)
  have lv: "effective_level fst ?s2 1 ''a'' = Some FullAccess" by code_simp
  have m: "mem_get sample_api ''a'' ?s1 = Some \<lparr>ec_state_vector = [], ec_doc_state = [8]\<rparr>" by code_simp
  have o: "st_opened ?s1 ''a'' = None" by code_simp
  have q: "qc_object_id (qcp_inner sample_query) = ''a''" "validate_query_collab_params sample_query = Inr ()" by code_simp+
  note t = deleted_collab_is_lost_but_cached [OF ok row d, of sample_api sample_newest]
  have "snd (get_collab_encoded sample_api sample_casbin no_faults 1 sample_query ?s2) =
     Inr \<lparr>ec_state_vector = [], ec_doc_state = [8]\<rparr>"
    using t m o q lv by (simp add: no_faults_def)
  moreover have "disk_get_collab_encoded sample_api (\<lambda>_. None) sample_query
      (st_db (run (storage_step sample_api sample_casbin sample_newest) ?s2 [StUpsert no_faults 1 sample_upsert])) =
    Inl (RecordNotFound (''Can't find the row for query: '' @ ce_debug_query sample_api sample_query))"
    using t q(1) by blast
  moreover have "snd (upsert_collab sample_api sample_casbin no_faults 1 sample_upsert ?s2) = Inr ()" by code_simp
  ultimately show ?thesis by (simp add: sample_api_def Let_def)
qed

text \<open>The limit of snapshots. A snapshot that is created leaves at most fifteen of its collab, one more
  than before unless there were fifteen; those it drops are no newer than any that it keeps, itself
  included when it is the newest; other collabs keep theirs.\<close>

theorem snapshots_are_limited:
  assumes n: "newest_first newest" and inv: "storage_inv api pol grp s"
    and c: "create_snapshot ce newest f now p s = (s1, Inr r)"
  defines "old \<equiv> snapshots_of (isp_object_id p) (st_db s)" and "new \<equiv> snapshots_of (isp_object_id p) (st_db s1)"
  shows "length new = min COLLAB_SNAPSHOT_LIMIT (Suc (length old)) \<and>
    (\<forall>x \<in> set new. \<forall>y \<in> set (old @ [r]). y \<notin> set new \<longrightarrow> sn_created_at y \<le> sn_created_at x) \<and>
    set new \<subseteq> set (old @ [r]) \<and> sn_created_at r = now \<and> sn_blob r = isp_encoded_collab_v1 p \<and>
    ((\<forall>y \<in> set old. sn_created_at y < now) \<longrightarrow> r \<in> set new) \<and>
    (\<forall>j. j \<noteq> isp_object_id p \<longrightarrow> snapshots_of j (st_db s1) = snapshots_of j (st_db s))"
proof -
  have ok: "snapshots_ok (db_snapshots (st_db s)) (db_next_sid (st_db s))"
    using inv by (simp add: storage_inv_def database_ok_def)
  obtain w db1 where m: "create_snapshot_and_maintain_limit newest (fl_stmt f) (\<not> fl_commit f) now (isp_object_id p)
      (isp_encoded_collab_v1 p) w COLLAB_SNAPSHOT_LIMIT (st_db s) = (db1, Inr r)" and s1: "s1 = s\<lparr>st_db := db1\<rparr>"
    using c by (auto simp: create_snapshot_def split: sum.splits if_splits prod.splits)
  note k = create_snapshot_result [OF n ok m]
  let ?all = "newest (old @ [r])"
  have new: "mset new = mset (take COLLAB_SNAPSHOT_LIMIT ?all)" using k(2) by (simp add: new_def old_def s1)
  then have len: "length new = min COLLAB_SNAPSHOT_LIMIT (Suc (length old))"
    using mset_eq_length [OF new] newest_firstD(2) [OF n, of "old @ [r]"] by simp
  have set: "set new = set (take COLLAB_SNAPSHOT_LIMIT ?all)" using mset_eq_setD [OF new] .
  have order: "sn_created_at y \<le> sn_created_at x" if "x \<in> set new" "y \<in> set (old @ [r])" "y \<notin> set new" for x y
  proof -
    have "y \<in> set ?all" using that(2) newest_firstD(1) [OF n, of "old @ [r]"] by simp
    then have "y \<in> set (drop COLLAB_SNAPSHOT_LIMIT ?all)"
      using that(3) set set_append [of "take COLLAB_SNAPSHOT_LIMIT ?all" "drop COLLAB_SNAPSHOT_LIMIT ?all"] by auto
    with that(1) show ?thesis
      using sorted_wrt_take_drop [OF newest_firstD(3) [OF n, of "old @ [r]"]] set by blast
  qed
  have sub: "set new \<subseteq> set (old @ [r])"
    using set set_take_subset [of COLLAB_SNAPSHOT_LIMIT ?all] newest_firstD(1) [OF n, of "old @ [r]"] by simp
  have r: "sn_created_at r = now" "sn_blob r = isp_encoded_collab_v1 p" using k(1) by simp_all
  have "r \<in> set new" if h: "\<forall>y \<in> set old. sn_created_at y < now"
  proof (rule ccontr)
    assume a: "r \<notin> set new"
    have "new \<noteq> []" using len by (auto simp: COLLAB_SNAPSHOT_LIMIT_def)
    then obtain x where x: "x \<in> set new" by (meson last_in_set)
    then have "now \<le> sn_created_at x" using order [OF x _ a] r(1) by simp
    moreover have "x \<in> set old" using x sub a by auto
    ultimately show False using h by auto
  qed
  then show ?thesis using len order sub r k(3) by (simp add: s1)
qed

theorem snapshots_are_limited_witness:
  "length (snapshots_of ''a'' (st_db (fst (create_snapshot sample_api sample_newest no_faults 5
     \<lparr>isp_object_id = ''a'', isp_encoded_collab_v1 = [1], isp_workspace_id = ''w''\<rparr> sample_storage)))) = 1"
proof -
  let ?c = "create_snapshot sample_api sample_newest no_faults 5
     \<lparr>isp_object_id = ''a'', isp_encoded_collab_v1 = [1], isp_workspace_id = ''w''\<rparr> sample_storage"
  have "is_ok (snd ?c)" by code_simp
  then obtain r where "?c = (fst ?c, Inr r)" by (metis isl_def prod.collapse sum.exhaust_sel)
  from snapshots_are_limited [OF sample_newest_ok sample_storage_inv this] show ?thesis
    by (simp add: COLLAB_SNAPSHOT_LIMIT_def snapshots_of_def sample_storage_def sample_db_def)
qed

subsection \<open>Reading many collabs at once\<close>

text \<open>What one query of a batch gives.\<close>

definition single_result ::
    "(string list \<Rightarrow> string) \<Rightarrow> collab_api \<Rightarrow> (collab_type \<Rightarrow> sqlx_error option) \<Rightarrow> query_collab \<Rightarrow> 'e storage \<Rightarrow>
     query_collab_result option" where
  "single_result vd ce q p s =
     (case validate_query_collab p of
        Inl err \<Rightarrow> Some (QFailed (display_app_error vd err))
      | Inr _ \<Rightarrow>
          (case from_memory ce s p of
             Some b \<Rightarrow> Some (QSuccess b)
           | None \<Rightarrow>
               if q (qc_collab_type p) \<noteq> None then None
               else
                 (case select_blob_from_af_collab ce None (qc_collab_type p) (qc_object_id p) (st_db s) of
                    Inr blob \<Rightarrow> Some (QSuccess blob)
                  | Inl _ \<Rightarrow> Some (QFailed ''Record not found''))))"

lemma find_absent [simp]: "k \<notin> key ` set xs \<Longrightarrow> find (\<lambda>y. key y = k) xs = None"
  unfolding find_None_iff by (metis imageI)

text \<open>A fold of updates at distinct keys is looked up key by key.\<close>

lemma fold_option_update:
  assumes "distinct (map key xs)"
  shows "fold (\<lambda>x m. case g x of Some v \<Rightarrow> m(key x \<mapsto> v) | None \<Rightarrow> m) xs m k =
    (case find (\<lambda>x. key x = k) xs of
       Some x \<Rightarrow> (case g x of Some v \<Rightarrow> Some v | None \<Rightarrow> m k)
     | None \<Rightarrow> m k)"
  using assms
proof (induction xs arbitrary: m)
  case (Cons x xs)
  have "find (\<lambda>y. key y = k) xs = None" if "key x = k" using Cons.prems that by auto
  with Cons show ?case by (auto split: option.splits)
qed simp

lemma find_key: "distinct (map key xs) \<Longrightarrow> find (\<lambda>x. key x = k) xs = Some x \<longleftrightarrow> x \<in> set xs \<and> key x = k"
  by (induction xs) auto

lemma fold_set_all: "fold (\<lambda>k m. m(k \<mapsto> h k)) xs m k = (if k \<in> set xs then Some (h k) else m k)"
  by (induction xs arbitrary: m) auto

text \<open>The queries of all types together fill in the collabs of the types whose statement did not fail.\<close>

lemma batch_select_lookup:
  assumes "distinct (map qc_object_id queries)"
  shows "fold (batch_select_type ce q queries db) types m k =
    (case find (\<lambda>p. qc_object_id p = k) queries of
       Some p \<Rightarrow>
         if qc_collab_type p \<in> set types \<and> q (qc_collab_type p) = None
         then Some (case select_blob_from_af_collab ce None (qc_collab_type p) k db of
                      Inr blob \<Rightarrow> QSuccess blob | Inl _ \<Rightarrow> QFailed ''Record not found'')
         else m k
     | None \<Rightarrow> m k)"
proof (induction types arbitrary: m)
  case Nil
  then show ?case by (simp split: option.splits)
next
  case (Cons ct types)
  have mem: "k \<in> qc_object_id ` {p \<in> set queries. qc_collab_type p = ct} \<longleftrightarrow>
    (\<exists>p. find (\<lambda>p. qc_object_id p = k) queries = Some p \<and> qc_collab_type p = ct)"
    by (auto simp: find_key [OF assms])
  have step: "batch_select_type ce q queries db ct m k =
    (if q ct = None \<and> (\<exists>p. find (\<lambda>p. qc_object_id p = k) queries = Some p \<and> qc_collab_type p = ct)
     then Some (case select_blob_from_af_collab ce None ct k db of
                  Inr blob \<Rightarrow> QSuccess blob | Inl _ \<Rightarrow> QFailed ''Record not found'')
     else m k)"
    using mem by (auto simp: batch_select_type_def fold_set_all split: option.split)
  show ?case unfolding fold.simps comp_apply Cons.IH step by (auto split: option.split)
qed

text \<open>A batch is its queries one by one. For queries of distinct collabs, \<open>batch_get_collab\<close>, which splits
  them into invalid, opened and stored ones and asks the table once per type, answers every query as
  \<open>single_result\<close> does, independently of the others and of the user who asks (no permission is looked up).\<close>

theorem batch_get_collab_is_pointwise:
  assumes d: "distinct (map qc_object_id queries)" and t: "qc_collab_type ` set queries \<subseteq> set types"
  shows "batch_get_collab vd ce q types uid queries s =
    (\<lambda>k. Option.bind (find (\<lambda>p. qc_object_id p = k) queries) (\<lambda>p. single_result vd ce q p s))"
proof
  fix k
  define valid where "valid = filter (\<lambda>p. is_ok (validate_query_collab p)) queries"
  define rest where "rest = filter (\<lambda>p. from_memory ce s p = None) valid"
  have dv: "distinct (map qc_object_id valid)" "distinct (map qc_object_id rest)"
    unfolding rest_def valid_def using d by (simp_all add: distinct_map_filter)
  let ?find = "\<lambda>xs. find (\<lambda>p. qc_object_id p = k) xs"
  have failed: "fold (\<lambda>p rs. case validate_query_collab p of
        Inl err \<Rightarrow> rs(qc_object_id p \<mapsto> QFailed (display_app_error vd err)) | Inr _ \<Rightarrow> rs) queries Map.empty k =
      Option.bind (?find queries) (\<lambda>p. case validate_query_collab p of
        Inl err \<Rightarrow> Some (QFailed (display_app_error vd err)) | Inr _ \<Rightarrow> None)"
    using fold_option_update [OF d, of "\<lambda>p. case validate_query_collab p of
        Inl err \<Rightarrow> Some (QFailed (display_app_error vd err)) | Inr _ \<Rightarrow> None" Map.empty k]
    by (simp add: sum.case_distrib [of "\<lambda>r. case r of Some v \<Rightarrow> _ v | None \<Rightarrow> _"] split: option.splits cong: sum.case_cong)
  have memory: "fold (\<lambda>p rs. case from_memory ce s p of
        Some b \<Rightarrow> rs(qc_object_id p \<mapsto> QSuccess b) | None \<Rightarrow> rs) valid Map.empty k =
      Option.bind (?find valid) (\<lambda>p. map_option QSuccess (from_memory ce s p))"
    using fold_option_update [OF dv(1), of "\<lambda>p. map_option QSuccess (from_memory ce s p)" Map.empty k]
    by (simp add: map_option_case option.case_distrib [of "\<lambda>r. case r of Some v \<Rightarrow> _ v | None \<Rightarrow> _"]
        split: option.splits cong: option.case_cong)
  have "?find (filter P xs) = Option.bind (?find xs) (\<lambda>p. if P p then Some p else None)"
    if "distinct (map qc_object_id xs)" for P and xs :: "query_collab list"
    using that by (induction xs) auto
  from this [OF d] this [OF dv(1)]
  have sub: "?find valid = Option.bind (?find queries) (\<lambda>p. if is_ok (validate_query_collab p) then Some p else None)"
    "?find rest = Option.bind (?find valid) (\<lambda>p. if from_memory ce s p = None then Some p else None)"
    by (simp_all add: valid_def rest_def)
  show "batch_get_collab vd ce q types uid queries s k = Option.bind (?find queries) (\<lambda>p. single_result vd ce q p s)"
  proof (cases "?find queries")
    case None
    then show ?thesis
      unfolding batch_get_collab_def Let_def valid_def [symmetric] rest_def [symmetric] map_add_def
        batch_select_collab_blob_def batch_select_lookup [OF dv(2)] failed memory sub by simp
  next
    case (Some p)
    then have "p \<in> set queries" "qc_object_id p = k" using find_key [OF d] by blast+
    then have p: "qc_collab_type p \<in> set types" "qc_object_id p = k" using t by blast+
    show ?thesis
      unfolding batch_get_collab_def Let_def valid_def [symmetric] rest_def [symmetric] map_add_def
        batch_select_collab_blob_def batch_select_lookup [OF dv(2)] failed memory sub Some
      by (cases "validate_query_collab p"; cases "from_memory ce s p"; cases "q (qc_collab_type p)";
          cases "select_blob_from_af_collab ce None (qc_collab_type p) k (st_db s)")
        (simp_all add: single_result_def p)
  qed
qed

theorem batch_get_collab_is_pointwise_witness:
  "batch_get_collab (\<lambda>_. []) sample_api (\<lambda>_. None) [Document, Folder] 7
     [\<lparr>qc_object_id = ''b'', qc_collab_type = Folder\<rparr>, \<lparr>qc_object_id = ''a'', qc_collab_type = Document\<rparr>]
     sample_storage ''a'' = Some (QSuccess [7])"
  by (subst batch_get_collab_is_pointwise)
    (simp_all add: single_result_def validate_query_collab_def validate_not_empty_str_def from_memory_def
      sample_storage_def sample_db_def sample_api_def select_blob_from_af_collab_def)

end
