(* ===== verification/Plugin.thy ===== *)
theory Plugin
  imports Storage Realtime
begin

section \<open>The storage plugin of an opened collab\<close>

text \<open>
  \<open>libs/realtime/src/collaborate/plugin.rs\<close>: how the document of a group is loaded, created, flushed and
  counted. The document is a \<open>yrs\<close> document (parameter \<open>d\<close>); \<open>enc\<close> is \<open>get_encoded_collab_v1\<close> and
  \<open>md5\<close> the digest of a payload. The tasks the plugin spawns are taken to run to their end at once.
\<close>

subsection \<open>The edit state\<close>

text \<open>The counters are \<open>AtomicU32\<close>: \<open>fetch_add\<close> wraps.\<close>

record edit_state =
  es_edit_count :: u32
  es_flush_edit_count :: u32
  es_flush_interval :: int
  es_did_load :: bool

definition edit_state_new :: "int \<Rightarrow> edit_state" where
  "edit_state_new now =
     \<lparr>es_edit_count = 0, es_flush_edit_count = 0, es_flush_interval = now, es_did_load = False\<rparr>"

definition set_did_load :: "edit_state \<Rightarrow> edit_state" where
  "set_did_load es = es\<lparr>es_did_load := True\<rparr>"

definition increment_edit_count :: "edit_state \<Rightarrow> u32 \<times> edit_state" where
  "increment_edit_count es = (es_edit_count es, es\<lparr>es_edit_count := es_edit_count es + 1\<rparr>)"

definition flush_edit :: "int \<Rightarrow> edit_state \<Rightarrow> edit_state" where
  "flush_edit now es = es\<lparr>es_flush_edit_count := es_edit_count es, es_flush_interval := now\<rparr>"

definition should_flush :: "u32 \<Rightarrow> int \<Rightarrow> int \<Rightarrow> edit_state \<Rightarrow> bool" where
  "should_flush max_edit_count max_interval current es =
     (if es_flush_interval es < current \<and> es_edit_count es \<noteq> es_flush_edit_count es then
        max_interval \<le> current - es_flush_interval es
      else if es_flush_edit_count es < es_edit_count es then
        max_edit_count \<le> es_edit_count es - es_flush_edit_count es
      else False)"

definition default_flush_per_update :: u32 where
  "default_flush_per_update = 100"

text \<open>\<open>receive_update\<close>: the edit state afterwards and whether a flush of the group was spawned.\<close>

definition receive_update :: "u32 \<Rightarrow> bool \<Rightarrow> int \<Rightarrow> edit_state \<Rightarrow> edit_state \<times> bool" where
  "receive_update flush_per_update group_alive now es =
     (let (count, es1) = increment_edit_count es in
      if \<not> es_did_load es1 then (es1, False)
      else if flush_per_update \<le> count then (flush_edit now es1, group_alive)
      else (es1, False))"

subsection \<open>Loading a document\<close>

definition init_collab ::
    "('doc, 'sv, 'aw, 'upd) yrs_doc \<Rightarrow> encoded_collab \<Rightarrow> 'doc \<Rightarrow> 'doc \<times> (realtime_error + unit)" where
  "init_collab d c doc =
     (if ec_doc_state c = [] then (doc, Inl (UnexpectedData ''doc state is empty''))
      else case yd_decode_update d (ec_doc_state c) of
             Inl e \<Rightarrow> (doc, Inl (RtDecodingError e))
           | Inr update \<Rightarrow>
               (case yd_apply_update d doc None update of
                  (doc', Inl err) \<Rightarrow> (doc', Inl (CollabError err))
                | (doc', Inr _) \<Rightarrow> (doc', Inr ())))"

definition get_latest_snapshot ::
    "collab_api \<Rightarrow> (snapshot_row list \<Rightarrow> snapshot_row list) \<Rightarrow> sqlx_error option \<Rightarrow> sqlx_error option \<Rightarrow> string \<Rightarrow>
     'e storage \<Rightarrow> encoded_collab option" where
  "get_latest_snapshot ce newest ql qs oid s =
     (case get_collab_snapshot_list newest ql oid s of
        Inr (meta # _) \<Rightarrow>
          (case get_collab_snapshot qs (sn_sid meta) s of
             Inr r \<Rightarrow> (case ce_decode ce (sn_blob r) of Inr c \<Rightarrow> Some c | Inl _ \<Rightarrow> None)
           | Inl _ \<Rightarrow> None)
      | _ \<Rightarrow> None)"

record 'dig plugin =
  pl_uid :: i64
  pl_workspace_id :: string
  pl_collab_type :: collab_type
  pl_edit_state :: edit_state
  pl_latest_md5 :: "'dig option"

definition plugin_new :: "i64 \<Rightarrow> string \<Rightarrow> collab_type \<Rightarrow> int \<Rightarrow> 'dig plugin" where
  "plugin_new uid w ct now =
     \<lparr>pl_uid = uid, pl_workspace_id = w, pl_collab_type = ct, pl_edit_state = edit_state_new now,
      pl_latest_md5 = None\<rparr>"

definition did_init :: "'dig plugin \<Rightarrow> 'dig plugin" where
  "did_init p = p\<lparr>pl_edit_state := set_did_load (pl_edit_state p)\<rparr>"

text \<open>The faults of the storage calls the plugin makes.\<close>

record plugin_faults =
  pf_get :: faults
  pf_upsert :: faults
  pf_should :: "sqlx_error option"
  pf_snapshot :: faults
  pf_list :: "sqlx_error option"
  pf_select :: "sqlx_error option"

definition collab_to_create :: "'dig plugin \<Rightarrow> string \<Rightarrow> bytes \<Rightarrow> create_collab_params" where
  "collab_to_create p oid b =
     \<lparr>ccp_workspace_id = pl_workspace_id p, ccp_object_id = oid, ccp_encoded_collab_v1 = b,
      ccp_collab_type = pl_collab_type p, ccp_override_if_exist = False\<rparr>"

definition insert_new_collab ::
    "collab_api \<Rightarrow> 'e casbin_api \<Rightarrow> ('doc \<Rightarrow> encoded_collab) \<Rightarrow> faults \<Rightarrow> 'dig plugin \<Rightarrow> string \<Rightarrow> 'doc \<Rightarrow>
     'e storage \<Rightarrow> 'e storage \<times> (app_error + unit)" where
  "insert_new_collab ce api enc f p oid doc s =
     (case ce_encode ce (enc doc) of
        Inl err \<Rightarrow> (s, Inl (Internal (''fail to encode doc to bytes: '' @ err)))
      | Inr b \<Rightarrow>
          let s1 = s\<lparr>st_enforcer := fst (insert_collab_access_level api (st_enforcer s) (pl_uid p) oid FullAccess)\<rparr> in
          upsert_collab ce api f (pl_uid p) (collab_to_create p oid b) s1)"

text \<open>\<open>CollabPlugin::init\<close>: the storage and the document afterwards; errors are only logged.\<close>

definition plugin_init ::
    "collab_api \<Rightarrow> 'e casbin_api \<Rightarrow> (snapshot_row list \<Rightarrow> snapshot_row list) \<Rightarrow> ('doc, 'sv, 'aw, 'upd) yrs_doc \<Rightarrow>
     ('doc \<Rightarrow> encoded_collab) \<Rightarrow> plugin_faults \<Rightarrow> nat \<Rightarrow> 'dig plugin \<Rightarrow> string \<Rightarrow> 'doc \<Rightarrow> 'e storage \<Rightarrow>
     'e storage \<times> 'doc" where
  "plugin_init ce api newest d enc f now p oid doc s =
     (let query = \<lparr>qcp_workspace_id = pl_workspace_id p,
                   qcp_inner = \<lparr>qc_object_id = oid, qc_collab_type = pl_collab_type p\<rparr>\<rparr> in
      case get_collab_encoded ce api (pf_get f) (pl_uid p) query s of
        (s1, Inr c) \<Rightarrow>
          (case init_collab d c doc of
             (doc1, Inr _) \<Rightarrow>
               (if should_create_snapshot newest (pf_should f) now oid s1 then
                  (case ce_encode ce c of
                     Inr b \<Rightarrow>
                       fst (create_snapshot ce newest (pf_snapshot f) now
                              \<lparr>isp_object_id = oid, isp_encoded_collab_v1 = b, isp_workspace_id = pl_workspace_id p\<rparr> s1)
                   | Inl _ \<Rightarrow> s1)
                else s1, doc1)
           | (doc1, Inl _) \<Rightarrow>
               (case get_latest_snapshot ce newest (pf_list f) (pf_select f) oid s1 of
                  None \<Rightarrow> (s1, doc1)
                | Some snapshot \<Rightarrow> (s1, fst (init_collab d snapshot doc1))))
      | (s1, Inl err) \<Rightarrow>
          if is_record_not_found err then
            (fst (insert_new_collab ce api enc (pf_upsert f) p oid doc s1), doc)
          else (s1, doc))"

text \<open>\<open>CollabPlugin::flush\<close>.\<close>

definition plugin_flush ::
    "collab_api \<Rightarrow> 'e casbin_api \<Rightarrow> ('doc \<Rightarrow> encoded_collab) \<Rightarrow> (bytes \<Rightarrow> 'dig) \<Rightarrow> faults \<Rightarrow> string \<Rightarrow> 'doc \<Rightarrow>
     'dig plugin \<times> 'e storage \<Rightarrow> 'dig plugin \<times> 'e storage" where
  "plugin_flush ce api enc md5 f oid doc st =
     (case st of (p, s) \<Rightarrow>
        (case ce_encode ce (enc doc) of
           Inl _ \<Rightarrow> (p, s)
         | Inr b \<Rightarrow>
             if pl_latest_md5 p = Some (md5 b) then (p, s)
             else
               let p1 = p\<lparr>pl_latest_md5 := Some (md5 b)\<rparr> in
               (p1, fst (upsert_collab ce api f (pl_uid p) (collab_to_create p oid b) s))))"

end
