(* ===== verification/PluginProps.thy ===== *)
theory PluginProps
  imports StorageProps Plugin
begin

section \<open>Properties of the storage plugin\<close>

text \<open>
  When a document is flushed, that what is flushed is loaded again, and what opening a collab does for a
  user without a level on it.
\<close>

subsection \<open>When a flush is started\<close>

text \<open>The flushes that a sequence of updates, at the given times, starts.\<close>

fun receive_updates :: "u32 \<Rightarrow> bool \<Rightarrow> edit_state \<Rightarrow> int list \<Rightarrow> edit_state \<times> bool list" where
  "receive_updates m alive es [] = (es, [])"
| "receive_updates m alive es (now # nows) =
     (let (es1, b) = receive_update m alive now es; (es2, bs) = receive_updates m alive es1 nows in (es2, b # bs))"

lemma receive_update_simps:
  "es_edit_count (fst (receive_update m alive now es)) = es_edit_count es + 1"
  "es_did_load (fst (receive_update m alive now es)) = es_did_load es"
  "snd (receive_update m alive now es) \<longleftrightarrow> es_did_load es \<and> m \<le> es_edit_count es \<and> alive"
  by (simp_all add: receive_update_def increment_edit_count_def flush_edit_def)

lemma receive_updates_nth:
  assumes "es_did_load es" and "i < length nows"
  shows "snd (receive_updates m True es nows) ! i \<longleftrightarrow> m \<le> es_edit_count es + of_nat i"
  using assms
proof (induction nows arbitrary: es i)
  case (Cons now nows)
  obtain es1 b where r: "receive_update m True now es = (es1, b)" by fastforce
  have es1: "es_edit_count es1 = es_edit_count es + 1" "es_did_load es1" "b \<longleftrightarrow> m \<le> es_edit_count es"
    using receive_update_simps [of m True now es] Cons.prems(1) by (simp_all add: r)
  show ?case
  proof (cases i)
    case 0
    then show ?thesis by (simp add: r es1(3) split: prod.split)
  next
    case (Suc j)
    then have "snd (receive_updates m True es1 nows) ! j \<longleftrightarrow> m \<le> es_edit_count es1 + of_nat j"
      using Cons.IH [OF es1(2)] Cons.prems(2) by simp
    then show ?thesis using Suc by (auto simp: r es1(1) algebra_simps split: prod.split)
  qed
qed simp

text \<open>Which updates start a flush. Counted from zero, the \<open>i\<close>-th update after the load starts one exactly
  when the counter, which wraps at 2^32 and is never set back, has reached the limit of a hundred: so every
  update from the hundredth on does, and not one in a hundred; \<open>should_flush\<close>, the check that compares
  with the count at the last flush, refuses one right after a flush.\<close>

theorem every_update_after_the_limit_flushes:
  assumes "es_edit_count es = 0" and "es_did_load es" and "i < length nows"
  shows "(snd (receive_updates default_flush_per_update True es nows) ! i \<longleftrightarrow> 100 \<le> i mod 2 ^ 32) \<and>
    \<not> should_flush default_flush_per_update d t (flush_edit t es')"
proof -
  have "default_flush_per_update \<le> (of_nat i :: u32) \<longleftrightarrow> 100 \<le> i mod 2 ^ 32"
    by (simp add: word_le_nat_alt default_flush_per_update_def unat_of_nat)
  then show ?thesis
    using receive_updates_nth [OF assms(2,3), of default_flush_per_update] assms(1)
    by (simp add: should_flush_def flush_edit_def)
qed

theorem every_update_after_the_limit_flushes_witness:
  "snd (receive_updates default_flush_per_update True (set_did_load (edit_state_new 0)) (replicate 102 7)) ! 101 \<and>
   \<not> snd (receive_updates default_flush_per_update True (set_did_load (edit_state_new 0)) (replicate 102 7)) ! 99"
  using every_update_after_the_limit_flushes [of "set_did_load (edit_state_new 0)" 101 "replicate 102 7"]
    every_update_after_the_limit_flushes [of "set_did_load (edit_state_new 0)" 99 "replicate 102 7"]
  by (simp add: set_did_load_def edit_state_new_def)

subsection \<open>What a flush writes\<close>

lemma plugin_flush_upsert:
  assumes "ce_encode ce (enc doc) = Inr b" and "pl_latest_md5 p \<noteq> Some (md5 b)"
  shows "plugin_flush ce api enc md5 f oid doc (p, s) =
    (p\<lparr>pl_latest_md5 := Some (md5 b)\<rparr>, fst (upsert_collab ce api f (pl_uid p) (collab_to_create p oid b) s))"
  using assms by (simp add: plugin_flush_def)

lemma collab_to_create_simps [simp]:
  "ccp_object_id (collab_to_create p oid b) = oid" "ccp_encoded_collab_v1 (collab_to_create p oid b) = b"
  "ccp_collab_type (collab_to_create p oid b) = pl_collab_type p"
  "ccp_workspace_id (collab_to_create p oid b) = pl_workspace_id p"
  by (simp_all add: collab_to_create_def)

text \<open>A flush that fails is not repeated. The digest of the content is noted before it is stored, so when
  the storage has no connection for the upsert the tables stay as they are, and every later flush of the
  same content, with the storage working again, does nothing.\<close>

theorem failed_flush_is_not_retried:
  assumes "ce_encode ce (enc doc) = Inr b" and "pl_latest_md5 p \<noteq> Some (md5 b)" and "fl_begin f"
  shows "\<exists>p1 s1. plugin_flush ce api enc md5 f oid doc (p, s) = (p1, s1) \<and> st_db s1 = st_db s \<and>
    plugin_flush ce api enc md5 f' oid doc (p1, s1) = (p1, s1)"
  using assms(1,3) plugin_flush_upsert [of ce enc doc b p md5 api f oid s, OF assms(1,2)]
  by (simp add: plugin_flush_def upsert_collab_def)

theorem failed_flush_is_not_retried_witness:
  "\<exists>p1 s1. plugin_flush sample_api sample_casbin (\<lambda>doc. \<lparr>ec_state_vector = [], ec_doc_state = doc\<rparr>) (\<lambda>b. b)
     (no_faults\<lparr>fl_begin := True\<rparr>) ''a'' [9] (plugin_new 1 ''w'' Document 0, sample_storage) = (p1, s1) \<and>
   st_db s1 = sample_db \<and>
   plugin_flush sample_api sample_casbin (\<lambda>doc. \<lparr>ec_state_vector = [], ec_doc_state = doc\<rparr>) (\<lambda>b. b)
     no_faults ''a'' [9] (p1, s1) = (p1, s1)"
  using failed_flush_is_not_retried [of sample_api "\<lambda>doc. \<lparr>ec_state_vector = [], ec_doc_state = doc\<rparr>" "[9]" "[9]"
      "plugin_new 1 ''w'' Document 0" "\<lambda>b. b" "no_faults\<lparr>fl_begin := True\<rparr>" sample_casbin "''a''" sample_storage no_faults]
  by (simp add: sample_api_def plugin_new_def sample_storage_def)

text \<open>A level that is known stays as it is, and one that cannot write writes nothing.\<close>

lemma upsert_without_write:
  assumes ok: "storage_ok api pol grp s" and row: "db_collabs (st_db s) (ccp_object_id cp) \<noteq> None"
    and f: "fl_exists f \<noteq> Some SqlRowNotFound"
    and l: "level_of pol (st_enforcer s) uid (ccp_object_id cp) = Some l" "\<not> can_write l"
  shows "st_db (fst (upsert_collab ce api f uid cp s)) = st_db s"
    "level_of pol (st_enforcer (fst (upsert_collab ce api f uid cp s))) = level_of pol (st_enforcer s)"
proof -
  have g: "casbin_ok api pol grp \<and> enforcer_ok pol (st_enforcer s)" using ok by (simp add: storage_ok_def)
  obtain e1 where e1: "get_or_refresh_collab_access_level api (fl_member f) (st_db s) (st_enforcer s) uid (ccp_object_id cp) = (e1, Inr l)"
    "level_of pol e1 = level_of pol (st_enforcer s)"
    unfolding get_or_refresh_collab_access_level_def by (rule levels.refresh_known [OF g l(1)])
  have ex: "is_collab_exists (fl_exists f) (ccp_object_id cp) (st_db s) = Inr True \<or>
    (\<exists>err. is_collab_exists (fl_exists f) (ccp_object_id cp) (st_db s) = Inl err)"
    using row f by (auto simp: is_collab_exists_def transform_record_not_found_error_def split: option.splits)
  obtain p w where sp: "split_create_params cp = (p, w)" "cp_object_id p = ccp_object_id cp"
    by (simp add: split_create_params_def)
  obtain e2 err where e2: "st_check_collab_permission ce api f (st_db s) w uid p (st_enforcer s) = (e2, Inl err)"
    "level_of pol e2 = level_of pol (st_enforcer s)"
    using ex e1 l(2) by (auto simp: st_check_collab_permission_def sp(2))
  show "st_db (fst (upsert_collab ce api f uid cp s)) = st_db s"
    "level_of pol (st_enforcer (fst (upsert_collab ce api f uid cp s))) = level_of pol (st_enforcer s)"
    by (simp_all add: upsert_collab_def upsert_collab_with_transaction_def sp(1) e2 split: sum.splits)
qed

definition flush_all ::
    "collab_api \<Rightarrow> 'e casbin_api \<Rightarrow> ('doc \<Rightarrow> encoded_collab) \<Rightarrow> (bytes \<Rightarrow> 'dig) \<Rightarrow> string \<Rightarrow> (faults \<times> 'doc) list \<Rightarrow>
     'dig plugin \<times> 'e storage \<Rightarrow> 'dig plugin \<times> 'e storage" where
  "flush_all ce api enc md5 oid flushes ps = fold (\<lambda>(f, doc). plugin_flush ce api enc md5 f oid doc) flushes ps"

text \<open>Whose permission a flush needs. The plugin stores with the user id of the one who opened the collab:
  when that user's level cannot write, none of the flushes of the document stores anything, whoever made
  the edits.\<close>

theorem flushes_need_the_openers_permission:
  assumes "storage_ok api pol grp s" and "db_collabs (st_db s) oid \<noteq> None"
    and "\<forall>(f, doc) \<in> set flushes. fl_exists f \<noteq> Some SqlRowNotFound"
    and "level_of pol (st_enforcer s) (pl_uid p) oid = Some l" "\<not> can_write l"
  shows "st_db (snd (flush_all ce api enc md5 oid flushes (p, s))) = st_db s"
  using assms
proof (induction flushes arbitrary: p s)
  case (Cons x flushes)
  obtain f doc where x: "x = (f, doc)" by fastforce
  obtain p1 s1 where ps: "plugin_flush ce api enc md5 f oid doc (p, s) = (p1, s1)" by fastforce
  have u: "st_db (fst (upsert_collab ce api f (pl_uid p) (collab_to_create p oid b) s)) = st_db s"
    "level_of pol (st_enforcer (fst (upsert_collab ce api f (pl_uid p) (collab_to_create p oid b) s))) =
       level_of pol (st_enforcer s)" for b
    using Cons.prems upsert_without_write [of api pol grp s "collab_to_create p oid b" f "pl_uid p" l ce] by (simp_all add: x)
  have "pl_uid p1 = pl_uid p \<and> st_db s1 = st_db s \<and> level_of pol (st_enforcer s1) = level_of pol (st_enforcer s) \<and>
    storage_ok api pol grp s1"
    using ps u storage_ok_upsert [OF Cons.prems(1), of ce f "pl_uid p"] Cons.prems(1)
    by (auto simp: plugin_flush_def Let_def split: sum.splits if_splits)
  then show ?case using Cons.IH [of s1 p1] Cons.prems by (simp add: flush_all_def x ps)
qed (simp add: flush_all_def)

theorem flushes_need_the_openers_permission_witness:
  "st_db (snd (flush_all sample_api sample_casbin (\<lambda>doc. \<lparr>ec_state_vector = [], ec_doc_state = doc\<rparr>) (\<lambda>b. b) ''a''
     [(no_faults, [9]), (no_faults, [9, 10])]
     (plugin_new 2 ''w'' Document 0,
      sample_storage\<lparr>st_enforcer := fst (insert_collab_access_level sample_casbin sample_enforcer 2 ''a'' ReadOnly)\<rparr>))) =
   sample_db"
proof -
  let ?e = "fst (insert_collab_access_level sample_casbin sample_enforcer 2 ''a'' ReadOnly)"
  have i: "insert_collab_access_level sample_casbin sample_enforcer 2 ''a'' ReadOnly =
    (?e, snd (insert_collab_access_level sample_casbin sample_enforcer 2 ''a'' ReadOnly))" by simp
  note k = insert_level_result [OF sample_casbin_ok sample_enforcer_ok i]
  have ok: "storage_ok sample_casbin fst snd (sample_storage\<lparr>st_enforcer := ?e\<rparr>)"
    using k(2) sample_casbin_ok by (simp add: storage_ok_def)
  show ?thesis
    using flushes_need_the_openers_permission [OF ok, of "''a''" "[(no_faults, [9]), (no_faults, [9, 10])]"
        "plugin_new 2 ''w'' Document 0" ReadOnly sample_api "\<lambda>doc. \<lparr>ec_state_vector = [], ec_doc_state = doc\<rparr>" "\<lambda>b. b"] k(3)
    by (simp add: sample_storage_def sample_db_def plugin_new_def no_faults_def)
qed

subsection \<open>Opening a collab\<close>

lemma pl_uid_new: "pl_uid (plugin_new uid w ct now) = uid"
  by (simp add: plugin_new_def)


lemma upsert_succeeds:
  assumes ok: "storage_ok api pol grp s" and row: "db_collabs (st_db s) (ccp_object_id cp) = Some row"
    and l: "effective_level pol s uid (ccp_object_id cp) = Some l" "can_write l"
    and w: "ce_parse_uuid ce (ccp_workspace_id cp) = Inr (cr_workspace_id row)"
    and ne: "ccp_object_id cp \<noteq> []" "ccp_encoded_collab_v1 cp \<noteq> []"
  obtains s1 where "upsert_collab ce api no_faults uid cp s = (s1, Inr ())"
proof -
  obtain e1 r where g: "get_or_refresh_collab_access_level api None (st_db s) (st_enforcer s) uid (ccp_object_id cp) = (e1, r)"
    by fastforce
  have r: "r = Inr l" by (rule refresh_effective(4) [OF ok g refl l(1)])
  have v: "validate_collab_params (fst (split_create_params cp)) = Inr ()"
    using ne by (simp add: validate_collab_params_ok split_create_params_def)
  have c: "st_check_collab_permission ce api no_faults (st_db s) w uid (fst (split_create_params cp)) (st_enforcer s) = (e1, Inr ())" for w
    using g r l(2) row
    by (simp add: st_check_collab_permission_def no_faults_def split_create_params_def is_collab_exists_def
        transform_record_not_found_error_def)
  have "\<exists>db1. insert_into_af_collab ce (\<lambda>_. None) uid (ccp_workspace_id cp) (fst (split_create_params cp)) (st_db s) = Inr db1"
    using row w by (simp add: insert_into_af_collab_def split_create_params_def stmt_def)
  then show thesis using v c that
    by (auto simp: upsert_collab_def upsert_collab_with_transaction_def split_create_params_def no_faults_def)
qed

text \<open>Opening a collab as a stranger. When a user without any level on an existing collab of the same
  workspace opens it, reading it fails with \<open>RecordNotFound\<close>, which the plugin takes for a new collab: it
  gives the user full access and overwrites the stored document with the empty one it holds.\<close>

theorem opening_without_level_takes_over:
  assumes ok: "storage_ok api pol grp s" and none: "effective_level pol s (pl_uid p) oid = None"
    and row: "db_collabs (st_db s) oid = Some row"
    and w: "ce_parse_uuid ce (pl_workspace_id p) = Inr (cr_workspace_id row)" "pl_workspace_id p \<noteq> []" "oid \<noteq> []"
    and b: "ce_encode ce (enc doc) = Inr b" "b \<noteq> []" and f: "pf_get f = no_faults" "pf_upsert f = no_faults"
  shows "\<exists>s1 row1. plugin_init ce api newest d enc f now p oid doc s = (s1, doc) \<and>
    level_of pol (st_enforcer s1) (pl_uid p) oid = Some FullAccess \<and>
    db_collabs (st_db s1) oid = Some row1 \<and> cr_blob row1 = b \<and> cr_owner_uid row1 = pl_uid p"
proof -
  let ?q = "\<lparr>qcp_workspace_id = pl_workspace_id p, qcp_inner = \<lparr>qc_object_id = oid, qc_collab_type = pl_collab_type p\<rparr>\<rparr>"
  let ?cp = "collab_to_create p oid b"
  obtain e1 r where g: "get_or_refresh_collab_access_level api None (st_db s) (st_enforcer s) (pl_uid p) oid = (e1, r)"
    by fastforce
  obtain m where r: "r = Inl (RecordNotFound m)" using refresh_effective(5) [OF ok g refl none] by blast
  have e1: "casbin_ok api pol grp" "enforcer_ok pol e1" using refresh_effective(1) [OF ok g] by blast+
  have val: "validate_query_collab_params ?q = Inr ()" using w(2,3) by (simp add: validate_query_collab_params_ok)
  have get: "get_collab_encoded ce api no_faults (pl_uid p) ?q s = (s\<lparr>st_enforcer := e1\<rparr>, Inl (RecordNotFound m))"
    using g r by (simp add: get_collab_encoded_def val no_faults_def)
  obtain e2 r2 where i: "insert_collab_access_level api e1 (pl_uid p) oid FullAccess = (e2, r2)" by fastforce
  note k = insert_level_result [OF e1 i]
  let ?s2 = "s\<lparr>st_enforcer := e2\<rparr>"
  have ok2: "storage_ok api pol grp ?s2" using e1(1) k(2) by (simp add: storage_ok_def)
  have l2: "effective_level pol ?s2 (pl_uid p) oid = Some FullAccess" by (simp add: effective_level_def k(3))
  obtain s3 where u: "upsert_collab ce api no_faults (pl_uid p) ?cp ?s2 = (s3, Inr ())"
    by (rule upsert_succeeds [OF ok2, of ?cp row "pl_uid p" FullAccess ce]) (use row l2 w b in simp_all)
  have "plugin_init ce api newest d enc f now p oid doc s = (s3, doc)"
    using i u by (simp add: plugin_init_def get f insert_new_collab_def b)
  moreover have "level_of pol (st_enforcer s3) (pl_uid p) oid = Some FullAccess \<and>
    (\<exists>row1. db_collabs (st_db s3) oid = Some row1 \<and> cr_blob row1 = b \<and> cr_owner_uid row1 = pl_uid p)"
  proof (rule upsert_okE [OF u])
    fix p' w' e3 db1
    assume sp: "split_create_params ?cp = (p', w')"
      and c: "st_check_collab_permission ce api no_faults (st_db ?s2) w' (pl_uid p) p' (st_enforcer ?s2) = (e3, Inr ())"
      and ins: "insert_into_af_collab ce (fl_stmt no_faults) (pl_uid p) w' p' (st_db ?s2) = Inr db1"
      and s3: "s3 = ?s2\<lparr>st_enforcer := e3, st_db := db1,
        st_mem := (st_mem ?s2)(cp_object_id p' \<mapsto> cp_encoded_collab_v1 p')\<rparr>"
    have p': "cp_object_id p' = oid" "cp_encoded_collab_v1 p' = b"
      using sp by (auto simp: split_create_params_def)
    obtain l where "effective_level pol ?s2 (pl_uid p) oid = Some l" "level_of pol e3 (pl_uid p) oid = Some l"
      using check_permission_result(3) [OF ok2 c] row by (auto simp: p' no_faults_def)
    with l2 have lv: "level_of pol e3 (pl_uid p) oid = Some FullAccess" by simp
    obtain row1 where "db_collabs db1 = (db_collabs (st_db ?s2))(cp_object_id p' \<mapsto> row1)"
      "cr_blob row1 = cp_encoded_collab_v1 p'" "cr_owner_uid row1 = pl_uid p"
      by (rule insert_into_af_collab_result [OF ins]) blast
    then show ?thesis using lv by (simp add: s3 p')
  qed
  ultimately show ?thesis by blast
qed

theorem opening_without_level_takes_over_witness:
  "\<exists>s1 row1. plugin_init sample_api sample_casbin sample_newest sample_doc
     (\<lambda>doc. \<lparr>ec_state_vector = [], ec_doc_state = 0 # doc\<rparr>)
     \<lparr>pf_get = no_faults, pf_upsert = no_faults, pf_should = None, pf_snapshot = no_faults, pf_list = None,
      pf_select = None\<rparr> 0 (plugin_new 2 ''w'' Document 0) ''a'' [] sample_storage = (s1, []) \<and>
   level_of fst (st_enforcer s1) 2 ''a'' = Some FullAccess \<and>
   db_collabs (st_db s1) ''a'' = Some row1 \<and> cr_blob row1 = [0] \<and> cr_owner_uid row1 = 2"
proof -
  have none: "effective_level fst sample_storage 2 ''a'' = None" by code_simp
  show ?thesis
    by (rule opening_without_level_takes_over [where row = "\<lparr>cr_blob = [7], cr_partition_key = 0, cr_owner_uid = 1,
          cr_workspace_id = ''w'', cr_deleted_at = None\<rparr>" and p = "plugin_new 2 ''w'' Document 0" and doc = "[]" and now = 0 and
        oid = "''a''" and ce = sample_api and enc = "\<lambda>doc. \<lparr>ec_state_vector = [], ec_doc_state = 0 # doc\<rparr>" and b = "[0]" and
        d = sample_doc and newest = sample_newest and
        f = "\<lparr>pf_get = no_faults, pf_upsert = no_faults, pf_should = None, pf_snapshot = no_faults, pf_list = None,
              pf_select = None\<rparr>", OF sample_storage_ok, unfolded pl_uid_new])
      (use none in \<open>simp_all add: plugin_new_def sample_storage_def sample_db_def sample_api_def\<close>)
qed

text \<open>
  What the crate \<open>collab\<close> documents of an encoded collab: it can be read back, its state is not empty,
  and applying the state as an update adds the operations of the document.
\<close>

definition format_laws ::
    "('doc, 'sv, 'aw, 'upd) yrs_doc \<Rightarrow> collab_api \<Rightarrow> ('doc \<Rightarrow> encoded_collab) \<Rightarrow> ('doc \<Rightarrow> 'op set) \<Rightarrow> bool" where
  "format_laws d ce enc ops \<longleftrightarrow>
     (\<forall>doc. \<exists>b. ce_encode ce (enc doc) = Inr b \<and> b \<noteq> [] \<and> ce_decode ce b = Inr (enc doc)) \<and>
     (\<forall>doc. ec_doc_state (enc doc) \<noteq> []) \<and>
     (\<forall>doc. \<exists>u. yd_decode_update d (ec_doc_state (enc doc)) = Inr u \<and>
        (\<forall>target origin. \<exists>t'. yd_apply_update d target origin u = (t', Inr ()) \<and> ops t' = ops target \<union> ops doc))"

lemma format_lawsE:
  assumes "format_laws d ce enc ops"
  obtains b u where "ce_encode ce (enc doc) = Inr b" "b \<noteq> []" "ce_decode ce b = Inr (enc doc)"
    "ec_doc_state (enc doc) \<noteq> []" "yd_decode_update d (ec_doc_state (enc doc)) = Inr u"
    "\<And>target origin. \<exists>t'. yd_apply_update d target origin u = (t', Inr ()) \<and> ops t' = ops target \<union> ops doc"
  using assms unfolding format_laws_def by metis

lemma init_collab_format:
  assumes "format_laws d ce enc ops"
  obtains doc1 where "init_collab d (enc doc) target = (doc1, Inr ())" "ops doc1 = ops target \<union> ops doc"
proof -
  obtain u where u: "ec_doc_state (enc doc) \<noteq> []" "yd_decode_update d (ec_doc_state (enc doc)) = Inr u"
    "\<And>target origin. \<exists>t'. yd_apply_update d target origin u = (t', Inr ()) \<and> ops t' = ops target \<union> ops doc"
    by (rule format_lawsE [OF assms, of doc]) blast
  from u(3) [of target None] obtain t' where "yd_apply_update d target None u = (t', Inr ())" "ops t' = ops target \<union> ops doc"
    by blast
  with u(1,2) that show thesis by (simp add: init_collab_def)
qed



end
