(* ===== verification/Session.thy ===== *)
theory Session
  imports Server
begin

section \<open>The websocket session of a client\<close>

text \<open>
  \<open>libs/realtime/src/client.rs\<close>: the actor between a websocket and the collaboration server. Times are
  milliseconds of a monotonic clock. A step gives the new state and what the actor sends, to the socket
  (\<open>ToSocket\<close>) or to the server. \<open>ctx.stop()\<close> makes the framework call \<open>stopping\<close>, after
  which the actor handles nothing more; the framework (\<open>actix\<close>) and the encoding of messages
  (\<open>bincode\<close>) are not part of the program.
\<close>

definition MAX_MESSAGES_PER_INTERVAL :: nat where "MAX_MESSAGES_PER_INTERVAL = 10"
definition RATE_LIMIT_INTERVAL :: nat where "RATE_LIMIT_INTERVAL = 1000"
definition MAX_RETRIES :: nat where "MAX_RETRIES = 3"
definition RETRY_DELAY :: nat where "RETRY_DELAY = 500"

text \<open>What arrives on the websocket; the payloads that the actor does not read are left out.\<close>

datatype protocol_error = Overflow | OtherProtocolError string

datatype ws_message = WmPing bytes | WmPong | WmText | WmBinary bytes | WmClose | WmContinuation | WmNop

text \<open>\<open>ToServer t m\<close> is a client message that reaches the mailbox of the server at time \<open>t\<close>.\<close>

datatype session_output =
    ToSocket ws_frame
  | ServerConnect connect
  | ServerDisconnect disconnect
  | ToServer nat rt_user realtime_message

record session =
  ss_session_id :: string
  ss_socket :: nat
  ss_user :: rt_user
  ss_hb :: nat
  ss_client_timeout :: nat
  ss_message_count :: nat
  ss_interval_start :: nat
  ss_stopped :: bool

definition session_new :: "string \<Rightarrow> nat \<Rightarrow> rt_user \<Rightarrow> nat \<Rightarrow> nat \<Rightarrow> session" where
  "session_new sid socket user client_timeout now =
     \<lparr>ss_session_id = sid, ss_socket = socket, ss_user = user, ss_hb = now, ss_client_timeout = client_timeout,
      ss_message_count = 0, ss_interval_start = now, ss_stopped = False\<rparr>"

definition disconnect_msg :: "session \<Rightarrow> disconnect" where
  "disconnect_msg s = \<lparr>dc_user = ss_user s, dc_session_id = ss_session_id s\<rparr>"

text \<open>\<open>ctx.stop()\<close> and the \<open>stopping\<close> that it leads to.\<close>

definition session_stopping :: "session \<Rightarrow> session_output list" where
  "session_stopping s = [ServerDisconnect (disconnect_msg s)]"

definition ctx_stop :: "session \<Rightarrow> session \<times> session_output list" where
  "ctx_stop s = (s\<lparr>ss_stopped := True\<rparr>, session_stopping s)"

text \<open>The heartbeat, every \<open>heartbeat_interval\<close>.\<close>

definition session_hb :: "nat \<Rightarrow> session \<Rightarrow> session \<times> session_output list" where
  "session_hb now s =
     (if ss_client_timeout s < now - ss_hb s then
        let (s1, outs) = ctx_stop s in (s1, ServerDisconnect (disconnect_msg s) # outs)
      else (s, [ToSocket (FrPing [])]))"

text \<open>
  \<open>started\<close>: the session connects; \<open>accepted\<close> is whether the server answered \<open>Ok(Ok(_))\<close>.
\<close>

definition session_started :: "bool \<Rightarrow> session \<Rightarrow> session \<times> session_output list" where
  "session_started accepted s =
     (let c = \<lparr>cn_socket = ss_socket s, cn_user = ss_user s, cn_session_id = ss_session_id s\<rparr> in
      if accepted then (s, [ServerConnect c])
      else let (s1, outs) = ctx_stop s in (s1, ServerConnect c # outs))"

text \<open>
  A binary message: decoded, then offered to the mailbox of the server; \<open>accepts n\<close> is whether the
  mailbox takes it at attempt \<open>n\<close>, \<open>err n\<close> the text of the error if it does not. The result has the
  number of the attempt that succeeded.
\<close>

function forward_attempts :: "(nat \<Rightarrow> bool) \<Rightarrow> (nat \<Rightarrow> string) \<Rightarrow> nat \<Rightarrow> realtime_error + nat option" where
  "forward_attempts accepts err attempts =
     (if attempts < MAX_RETRIES then
        if accepts attempts then Inr (Some attempts)
        else if attempts < MAX_RETRIES - 1 then forward_attempts accepts err (attempts + 1)
        else Inl (RtInternal (''Failed to send message to server after retries: '' @ err attempts))
      else Inr None)"
  by auto
termination by (relation "measure (\<lambda>(_, _, n). MAX_RETRIES - n)") auto

declare forward_attempts.simps [simp del]

definition forward_binary ::
    "bincode \<Rightarrow> (nat \<Rightarrow> bool) \<Rightarrow> (nat \<Rightarrow> string) \<Rightarrow> nat \<Rightarrow> rt_user \<Rightarrow> bytes \<Rightarrow>
     (realtime_error + unit) \<times> session_output list" where
  "forward_binary bc accepts err now user b =
     (case bc_deserialize bc b of
        Inl e \<Rightarrow> (Inl (RtInternal e), [])
      | Inr m \<Rightarrow>
          (case forward_attempts accepts err 0 of
             Inl e \<Rightarrow> (Inl e, [])
           | Inr None \<Rightarrow> (Inr (), [])
           | Inr (Some n) \<Rightarrow> (Inr (), [ToServer (now + n * RETRY_DELAY) user m])))"

text \<open>A message of the server is sent on as a binary frame.\<close>

definition session_message :: "bincode \<Rightarrow> realtime_message \<Rightarrow> session_output list" where
  "session_message bc m = [ToSocket (frame_of_realtime bc m)]"

text \<open>
  The task that listens to the changes of the user's row. \<open>json\<close> is \<open>serde_json::to_string\<close> of the
  metadata; the message is sent to the actor itself.
\<close>

record user_row =
  ur_uid :: i64
  ur_name :: "string option"
  ur_email :: "string option"
  ur_metadata :: "string option"

definition user_change_message :: "(string option \<Rightarrow> string option) \<Rightarrow> user_row option \<Rightarrow> realtime_message option" where
  "user_change_message json payload =
     map_option (\<lambda>u. RtUser (ProfileChange
       \<lparr>auc_uid = ur_uid u, auc_name = ur_name u, auc_email = ur_email u, auc_metadata = json (ur_metadata u)\<rparr>)) payload"

text \<open>
  A message of the websocket. \<open>rate_limited\<close> counts it, and says whether it is dropped.
\<close>

definition rate_limited :: "nat \<Rightarrow> session \<Rightarrow> session \<times> bool" where
  "rate_limited now s =
     (let s1 = (if RATE_LIMIT_INTERVAL < now - ss_interval_start s
                then s\<lparr>ss_message_count := 0, ss_interval_start := now\<rparr> else s);
          s2 = s1\<lparr>ss_message_count := ss_message_count s1 + 1\<rparr>
      in (s2, MAX_MESSAGES_PER_INTERVAL < ss_message_count s2))"

definition handle_ws ::
    "bincode \<Rightarrow> (nat \<Rightarrow> bool) \<Rightarrow> (nat \<Rightarrow> string) \<Rightarrow> nat \<Rightarrow> protocol_error + ws_message \<Rightarrow> session \<Rightarrow>
     session \<times> session_output list" where
  "handle_ws bc accepts err now msg s =
     (case rate_limited now s of
        (s1, True) \<Rightarrow> (s1, [])
      | (s1, False) \<Rightarrow>
          (case msg of
             Inl Overflow \<Rightarrow> ctx_stop s1
           | Inl _ \<Rightarrow> (s1, [])
           | Inr (WmPing b) \<Rightarrow> (s1\<lparr>ss_hb := now\<rparr>, [ToSocket (FrPong b)])
           | Inr WmPong \<Rightarrow> (s1\<lparr>ss_hb := now\<rparr>, [])
           | Inr (WmBinary b) \<Rightarrow> (s1, snd (forward_binary bc accepts err now (ss_user s1) b))
           | Inr WmClose \<Rightarrow> (let (s2, outs) = ctx_stop s1 in (s2, ToSocket FrClose # outs))
           | Inr _ \<Rightarrow> (s1, [])))"

subsection \<open>Steps\<close>

datatype session_event =
    SeStarted bool
  | SeFrame nat "nat \<Rightarrow> bool" "nat \<Rightarrow> string" "protocol_error + ws_message"
  | SeTick nat
  | SeMessage realtime_message
  | SeUserChange "string option \<Rightarrow> string option" "user_row option"

fun session_step :: "bincode \<Rightarrow> session \<Rightarrow> session_event \<Rightarrow> session \<times> session_output list" where
  "session_step bc s ev =
     (if ss_stopped s then (s, [])
      else case ev of
        SeStarted accepted \<Rightarrow> session_started accepted s
      | SeFrame now accepts err msg \<Rightarrow> handle_ws bc accepts err now msg s
      | SeTick now \<Rightarrow> session_hb now s
      | SeMessage m \<Rightarrow> (s, session_message bc m)
      | SeUserChange json payload \<Rightarrow>
          (case user_change_message json payload of
             None \<Rightarrow> (s, [])
           | Some m \<Rightarrow> (s, session_message bc m)))"

declare session_step.simps [simp del]

text \<open>A run, with everything that was sent.\<close>

definition trace_step :: "bincode \<Rightarrow> session \<times> session_output list \<Rightarrow> session_event \<Rightarrow> session \<times> session_output list" where
  "trace_step bc st ev = (let (s1, outs) = session_step bc (fst st) ev in (s1, snd st @ outs))"

end
