(* ===== verification/SessionProps.thy ===== *)
theory SessionProps
  imports Session
begin

section \<open>Properties of a websocket session\<close>

text \<open>
  How many messages a session handles, what it drops, how it ends, and in which order it forwards.
\<close>

subsection \<open>The rate limit\<close>

text \<open>How many of the messages that arrive at the times \<open>ts\<close> are handled.\<close>

fun handled :: "session \<Rightarrow> nat list \<Rightarrow> nat" where
  "handled s [] = 0"
| "handled s (t # ts) = (let (s1, limited) = rate_limited t s in (if limited then 0 else 1) + handled s1 ts)"

lemma rate_limited_cases:
  obtains (new) "RATE_LIMIT_INTERVAL < now - ss_interval_start s"
    "rate_limited now s = (s\<lparr>ss_message_count := 1, ss_interval_start := now\<rparr>, False)"
  | (handled) "now - ss_interval_start s \<le> RATE_LIMIT_INTERVAL" "ss_message_count s < MAX_MESSAGES_PER_INTERVAL"
    "rate_limited now s = (s\<lparr>ss_message_count := ss_message_count s + 1\<rparr>, False)"
  | (dropped) "now - ss_interval_start s \<le> RATE_LIMIT_INTERVAL" "MAX_MESSAGES_PER_INTERVAL \<le> ss_message_count s"
    "rate_limited now s = (s\<lparr>ss_message_count := ss_message_count s + 1\<rparr>, True)"
  by (cases "RATE_LIMIT_INTERVAL < now - ss_interval_start s"; cases "ss_message_count s < MAX_MESSAGES_PER_INTERVAL")
    (auto simp: rate_limited_def Let_def MAX_MESSAGES_PER_INTERVAL_def)

lemma rate_limited_frame:
  assumes "rate_limited now s = (s1, b)"
  shows "ss_user s1 = ss_user s \<and> ss_session_id s1 = ss_session_id s \<and> ss_stopped s1 = ss_stopped s"
  using assms by (cases rule: rate_limited_cases [where s = s and now = now]) auto

lemma handled_bound:
  assumes "sorted (ss_interval_start s # ts)" and "\<forall>t \<in> set ts. t \<le> b" and "ss_interval_start s \<le> b"
  shows "handled s ts \<le> (MAX_MESSAGES_PER_INTERVAL - ss_message_count s) +
    MAX_MESSAGES_PER_INTERVAL * ((b - ss_interval_start s) div (RATE_LIMIT_INTERVAL + 1))"
  using assms
proof (induction ts arbitrary: s)
  case (Cons t ts)
  show ?case
  proof (cases rule: rate_limited_cases [where s = s and now = t])
    case new
    let ?s1 = "s\<lparr>ss_message_count := 1, ss_interval_start := t\<rparr>"
    have t: "t \<le> b" "ss_interval_start s + (RATE_LIMIT_INTERVAL + 1) \<le> t" using Cons.prems new(1) by auto
    have "(b - ss_interval_start s) div (RATE_LIMIT_INTERVAL + 1) \<ge>
        ((b - t) + (RATE_LIMIT_INTERVAL + 1)) div (RATE_LIMIT_INTERVAL + 1)"
      using t by (intro div_le_mono) linarith
    then have "Suc ((b - t) div (RATE_LIMIT_INTERVAL + 1)) \<le> (b - ss_interval_start s) div (RATE_LIMIT_INTERVAL + 1)"
      by (simp only: div_add_self2 RATE_LIMIT_INTERVAL_def)
    moreover have "handled ?s1 ts \<le> (MAX_MESSAGES_PER_INTERVAL - 1) +
        MAX_MESSAGES_PER_INTERVAL * ((b - t) div (RATE_LIMIT_INTERVAL + 1))"
      using Cons.IH [of ?s1] Cons.prems t by simp
    ultimately show ?thesis by (simp add: new(2) MAX_MESSAGES_PER_INTERVAL_def)
  next
    case handled
    have "handled (s\<lparr>ss_message_count := ss_message_count s + 1\<rparr>) ts \<le> (MAX_MESSAGES_PER_INTERVAL - (ss_message_count s + 1)) +
        MAX_MESSAGES_PER_INTERVAL * ((b - ss_interval_start s) div (RATE_LIMIT_INTERVAL + 1))"
      using Cons.IH [of "s\<lparr>ss_message_count := ss_message_count s + 1\<rparr>"] Cons.prems by simp
    then show ?thesis using handled(2) by (simp add: handled(3))
  next
    case dropped
    have "handled (s\<lparr>ss_message_count := ss_message_count s + 1\<rparr>) ts \<le> (MAX_MESSAGES_PER_INTERVAL - (ss_message_count s + 1)) +
        MAX_MESSAGES_PER_INTERVAL * ((b - ss_interval_start s) div (RATE_LIMIT_INTERVAL + 1))"
      using Cons.IH [of "s\<lparr>ss_message_count := ss_message_count s + 1\<rparr>"] Cons.prems by simp
    then show ?thesis by (simp add: dropped(3))
  qed
qed simp

lemma handle_ws_limited:
  assumes "snd (rate_limited now s)"
  shows "handle_ws bc accepts err now msg s = (fst (rate_limited now s), [])"
  using assms by (cases "rate_limited now s") (simp add: handle_ws_def)

subsection \<open>Properties\<close>

text \<open>The rate limit. Of the websocket messages that arrive up to time \<open>b\<close> a new session handles at most
  ten for every started interval of one second (a new interval starts with the first message that is more
  than a second later than the start of the last one).\<close>

theorem session_rate_is_limited:
  assumes "sorted (start # ts)" and "\<forall>t \<in> set ts. t \<le> b" and "start \<le> b"
  shows "handled (session_new sid socket user tmo start) ts \<le> 10 * (1 + (b - start) div 1001)"
  using handled_bound [of "session_new sid socket user tmo start" ts b] assms
  by (simp add: session_new_def MAX_MESSAGES_PER_INTERVAL_def RATE_LIMIT_INTERVAL_def)

theorem session_rate_is_limited_witness:
  "handled (session_new ''s'' 0 \<lparr>ru_uid = 1, ru_device_id = ''d'', ru_connect_id = ''c''\<rparr> 10000 0)
     (replicate 30 5 @ replicate 30 1500) \<le> 20"
  using session_rate_is_limited [of 0 "replicate 30 5 @ replicate 30 1500" 1500 "''s''" 0
      "\<lparr>ru_uid = 1, ru_device_id = ''d'', ru_connect_id = ''c''\<rparr>" 10000]
  by (simp add: sorted_append)

text \<open>What the rate limit drops. A message over the limit leaves nothing but the count behind, a ping or
  pong included: it is not answered and does not count as a sign of life, so a session that is flooded for
  longer than its time-out is closed by the heartbeat, although it sends pongs, and the close frame of the
  client is not heard.\<close>

theorem flooded_session_times_out:
  assumes "now - ss_interval_start s \<le> RATE_LIMIT_INTERVAL"
    and "MAX_MESSAGES_PER_INTERVAL \<le> ss_message_count s" and "\<not> ss_stopped s"
    and "ss_client_timeout s < t - ss_hb s"
  shows "snd (session_step bc s (SeFrame now accepts err msg)) = [] \<and>
    ServerDisconnect (disconnect_msg s) \<in> set (snd (session_step bc
      (fst (session_step bc s (SeFrame now accepts err (Inr WmPong)))) (SeTick t)))"
proof -
  have r: "rate_limited now s = (s\<lparr>ss_message_count := ss_message_count s + 1\<rparr>, True)"
    using assms(1,2) by (simp add: rate_limited_def Let_def)
  show ?thesis
    using assms(3,4) handle_ws_limited [of now s] r
    by (simp add: session_step.simps session_hb_def ctx_stop_def Let_def disconnect_msg_def)
qed

definition sample_bincode :: bincode where
  "sample_bincode =
     \<lparr>bc_serialize = (\<lambda>_. Inr []), bc_deserialize = (\<lambda>b. if b = [] then Inl ''eof'' else Inr (RtSystem (RateLimit 1)))\<rparr>"

definition sample_session :: session where
  "sample_session = session_new ''s'' 0 \<lparr>ru_uid = 1, ru_device_id = ''d'', ru_connect_id = ''c''\<rparr> 10000 0"

theorem flooded_session_times_out_witness:
  "snd (session_step sample_bincode (sample_session\<lparr>ss_message_count := 10\<rparr>)
     (SeFrame 900 (\<lambda>_. True) (\<lambda>_. []) (Inr WmClose))) = []"
  using flooded_session_times_out [of 900 "sample_session\<lparr>ss_message_count := 10\<rparr>" 20000 sample_bincode "\<lambda>_. True"
      "\<lambda>_. []" "Inr WmClose"]
  by (simp add: sample_session_def session_new_def RATE_LIMIT_INTERVAL_def MAX_MESSAGES_PER_INTERVAL_def)

lemma forward_attempts_0:
  "forward_attempts accepts err 0 =
     (if accepts 0 then Inr (Some 0) else if accepts 1 then Inr (Some 1) else if accepts 2 then Inr (Some 2)
      else Inl (RtInternal (''Failed to send message to server after retries: '' @ err 2)))"
  by (simp add: forward_attempts.simps MAX_RETRIES_def numeral_2_eq_2)

lemma handle_binary:
  assumes "\<not> snd (rate_limited now s)" and "bc_deserialize bc b = Inr m"
  shows "snd (handle_ws bc accepts err now (Inr (WmBinary b)) s) =
    (if accepts 0 then [ToServer now (ss_user s) m]
     else if accepts 1 then [ToServer (now + 500) (ss_user s) m]
     else if accepts 2 then [ToServer (now + 1000) (ss_user s) m] else [])"
proof -
  obtain s1 where r: "rate_limited now s = (s1, False)" using assms(1) by (cases "rate_limited now s") simp
  then have "ss_user s1 = ss_user s" using rate_limited_frame by blast
  then show ?thesis
    by (simp add: handle_ws_def r forward_binary_def assms(2) forward_attempts_0 RETRY_DELAY_def)
qed

text \<open>How a binary message reaches the server: at once, or half a second or a second later when the
  mailbox of the server was full at the earlier attempts, or never when it was full three times. A message
  that had to wait does not hold back the ones after it, so one that arrives within the half second
  reaches the server first.\<close>

theorem retried_message_is_overtaken:
  assumes "\<not> snd (rate_limited t1 s)" and "\<not> snd (rate_limited t2 (fst (rate_limited t1 s)))"
    and "bc_deserialize bc b1 = Inr m1" and "bc_deserialize bc b2 = Inr m2" and "\<not> ss_stopped s"
    and "\<not> accepts 0" and "accepts' 0" and "t2 < t1 + 500"
  shows "\<exists>delayed. snd (trace_step bc (trace_step bc (s, []) (SeFrame t1 accepts err (Inr (WmBinary b1))))
      (SeFrame t2 accepts' err (Inr (WmBinary b2)))) = delayed @ [ToServer t2 (ss_user s) m2] \<and>
    (if accepts 1 then delayed = [ToServer (t1 + 500) (ss_user s) m1]
     else if accepts 2 then delayed = [ToServer (t1 + 1000) (ss_user s) m1] else delayed = []) \<and>
    (\<forall>t m. ToServer t (ss_user s) m \<in> set delayed \<longrightarrow> t2 < t)"
proof -
  obtain s1 where r: "rate_limited t1 s = (s1, False)" using assms(1) by (cases "rate_limited t1 s") simp
  then have s1: "ss_user s1 = ss_user s" "ss_stopped s1 = ss_stopped s" using rate_limited_frame by blast+
  have h: "handle_ws bc accepts err t1 (Inr (WmBinary b1)) s =
      (s1, snd (handle_ws bc accepts err t1 (Inr (WmBinary b1)) s))"
    by (simp add: handle_ws_def r)
  have "session_step bc s (SeFrame t1 accepts err (Inr (WmBinary b1))) =
      (s1, if accepts 1 then [ToServer (t1 + 500) (ss_user s) m1]
           else if accepts 2 then [ToServer (t1 + 1000) (ss_user s) m1] else [])"
    using h handle_binary [OF assms(1,3), of accepts err] assms(5,6) by (simp add: session_step.simps)
  moreover have "snd (session_step bc s1 (SeFrame t2 accepts' err (Inr (WmBinary b2)))) = [ToServer t2 (ss_user s) m2]"
    using handle_binary [OF _ assms(4), of t2 s1 accepts' err] assms(2,5,7) s1 r by (simp add: session_step.simps)
  ultimately show ?thesis using assms(8) by (auto simp: trace_step_def split: prod.splits)
qed

theorem retried_message_is_overtaken_witness:
  "\<exists>delayed. snd (trace_step sample_bincode (trace_step sample_bincode (sample_session, [])
       (SeFrame 100 (\<lambda>n. n = 1) (\<lambda>_. []) (Inr (WmBinary [1])))) (SeFrame 200 (\<lambda>_. True) (\<lambda>_. []) (Inr (WmBinary [2])))) =
     delayed @ [ToServer 200 (ss_user sample_session) (RtSystem (RateLimit 1))] \<and>
   delayed = [ToServer 600 (ss_user sample_session) (RtSystem (RateLimit 1))]"
  using retried_message_is_overtaken [of 100 sample_session 200 sample_bincode "[1]" "RtSystem (RateLimit 1)" "[2]"
      "RtSystem (RateLimit 1)" "\<lambda>n. n = 1" "\<lambda>_. True" "\<lambda>_. []"]
  by (simp add: sample_session_def sample_bincode_def session_new_def rate_limited_def RATE_LIMIT_INTERVAL_def
      MAX_MESSAGES_PER_INTERVAL_def)

subsection \<open>The end of a session\<close>

text \<open>A session that has stopped told the server so, with its own user and session id.\<close>

definition farewell :: "rt_user \<Rightarrow> string \<Rightarrow> session \<times> session_output list \<Rightarrow> bool" where
  "farewell user sid st \<longleftrightarrow> ss_user (fst st) = user \<and> ss_session_id (fst st) = sid \<and>
     (ss_stopped (fst st) \<longrightarrow> ServerDisconnect \<lparr>dc_user = user, dc_session_id = sid\<rparr> \<in> set (snd st))"

lemma session_step_farewell:
  "ss_user (fst (session_step bc s ev)) = ss_user s" "ss_session_id (fst (session_step bc s ev)) = ss_session_id s"
  "ss_stopped (fst (session_step bc s ev)) \<Longrightarrow> \<not> ss_stopped s \<Longrightarrow>
     ServerDisconnect (disconnect_msg s) \<in> set (snd (session_step bc s ev))"
proof -
  have "ss_user (fst (session_step bc s ev)) = ss_user s \<and> ss_session_id (fst (session_step bc s ev)) = ss_session_id s \<and>
    (ss_stopped (fst (session_step bc s ev)) \<longrightarrow> \<not> ss_stopped s \<longrightarrow>
       ServerDisconnect (disconnect_msg s) \<in> set (snd (session_step bc s ev)))"
    by (cases ev)
      (auto simp: session_step.simps session_started_def session_hb_def handle_ws_def ctx_stop_def session_stopping_def
        disconnect_msg_def Let_def dest!: rate_limited_frame
        split: prod.splits bool.splits sum.splits protocol_error.splits ws_message.splits option.splits)
  then show "ss_user (fst (session_step bc s ev)) = ss_user s" "ss_session_id (fst (session_step bc s ev)) = ss_session_id s"
    "ss_stopped (fst (session_step bc s ev)) \<Longrightarrow> \<not> ss_stopped s \<Longrightarrow>
     ServerDisconnect (disconnect_msg s) \<in> set (snd (session_step bc s ev))"
    by blast+
qed

interpretation session: step_invariant "trace_step bc" "\<lambda>_ _. True" "farewell user sid"
  for bc user sid
proof
  fix st ev
  assume st: "farewell user sid st"
  note k = session_step_farewell [of bc "fst st" ev]
  show "farewell user sid (trace_step bc st ev)"
  proof (cases "ss_stopped (fst st)")
    case True
    then show ?thesis using st by (simp add: farewell_def trace_step_def session_step.simps)
  next
    case False
    then show ?thesis using st k
      by (auto simp: farewell_def trace_step_def disconnect_msg_def split: prod.splits)
  qed
qed

end
