(* ===== verification/ClientSync.thy ===== *)
theory ClientSync
  imports SinkDelivery Broadcast
begin

section \<open>The client's replica of a document\<close>

text \<open>
  \<open>libs/client-api/src/collab_sync/sync.rs\<close> and \<open>plugin.rs\<close>: the queue that keeps a replica in step with
  the server. It turns local changes into messages for the sink of \<open>CollabSink\<close>, handles what the
  server sends, and follows the state of the websocket. The tasks the plugin spawns (queueing a local
  update, forwarding states) are steps of their own. A \<open>try_lock\<close> of the replica is a flag.
\<close>

datatype client_sync_error = ClYSync sync_error | ClDecodingError read_error

record sync_object =
  so_object_id :: string
  so_workspace_id :: string
  so_collab_type :: collab_type
  so_device_id :: string

text \<open>The states of \<open>collab::core::collab_state::SyncState\<close> that the code sets.\<close>

datatype sync_state = InitSyncBegin | SyncSyncing | SyncFinished

datatype connect_state = PingTimeout | Connecting | Connected | Unauthorized | Closed

record 'doc client =
  cl_origin :: collab_origin
  cl_object :: sync_object
  cl_doc :: 'doc
  cl_sink :: sink
  cl_sync_state :: sync_state
  cl_collab_state :: "sync_state option"
  cl_flushed :: "'doc list"

definition client_new :: "collab_origin \<Rightarrow> sync_object \<Rightarrow> 'doc \<Rightarrow> bool \<Rightarrow> nat \<Rightarrow> 'doc client" where
  "client_new origin obj doc pause now =
     \<lparr>cl_origin = origin, cl_object = obj, cl_doc = doc, cl_sink = sink_new pause now,
      cl_sync_state = InitSyncBegin, cl_collab_state = None, cl_flushed = []\<rparr>"

subsection \<open>States\<close>

text \<open>The tasks that carry the state of the sink to the queue, and that of the queue to the replica.\<close>

fun sync_state_of_sink :: "sink_state \<Rightarrow> sync_state option" where
  "sync_state_of_sink Syncing = Some SyncSyncing"
| "sync_state_of_sink Finished = Some SyncFinished"
| "sync_state_of_sink SinkInit = Some InitSyncBegin"
| "sync_state_of_sink Paused = None"

definition forward_sink_state :: "'doc client \<Rightarrow> 'doc client" where
  "forward_sink_state c =
     (case sync_state_of_sink (sk_state (cl_sink c)) of
        None \<Rightarrow> c
      | Some st \<Rightarrow> c\<lparr>cl_sync_state := st\<rparr>)"

definition forward_sync_state :: "bool \<Rightarrow> 'doc client \<Rightarrow> 'doc client" where
  "forward_sync_state lock_free c = (if lock_free then c\<lparr>cl_collab_state := Some (cl_sync_state c)\<rparr> else c)"

subsection \<open>Sending\<close>

definition doc_init_state ::
    "('sv, 'aw) yrs_codec \<Rightarrow> ('doc, 'sv, 'aw, 'upd) yrs_doc \<Rightarrow> 'doc \<Rightarrow> bytes option" where
  "doc_init_state y d doc =
     (case protocol_start y d doc of
        Inl _ \<Rightarrow> None
      | Inr payload \<Rightarrow> if payload = [] then None else Some payload)"

definition init_sync_message :: "collab_origin \<Rightarrow> sync_object \<Rightarrow> bytes \<Rightarrow> msg_id \<Rightarrow> collab_message" where
  "init_sync_message origin obj payload i =
     ClientInitSync (init_sync_new origin (so_object_id obj) (so_collab_type obj) (so_workspace_id obj) i payload)"

definition client_init_sync ::
    "('sv, 'aw) yrs_codec \<Rightarrow> ('doc, 'sv, 'aw, 'upd) yrs_doc \<Rightarrow> 'doc client \<Rightarrow> 'doc client" where
  "client_init_sync y d c =
     (case doc_init_state y d (cl_doc c) of
        Some payload \<Rightarrow> c\<lparr>cl_sink := queue_init_sync (init_sync_message (cl_origin c) (cl_object c) payload) (cl_sink c)\<rparr>
      | None \<Rightarrow> c\<lparr>cl_sink := notify (cl_sink c)\<rparr>)"

definition client_local_update ::
    "('sv, 'aw) yrs_codec \<Rightarrow> collab_origin \<Rightarrow> bytes \<Rightarrow> 'doc client \<Rightarrow> 'doc client" where
  "client_local_update y origin update c =
     (let payload = encode_message y (SyncMsg (SyncUpdate update)) in
      c\<lparr>cl_sink := queue_msg (\<lambda>i. ClientUpdateSync (update_sync_new origin (so_object_id (cl_object c)) payload i)) (cl_sink c)\<rparr>)"

definition client_reset :: "'doc client \<Rightarrow> 'doc client" where
  "client_reset c = c\<lparr>cl_sink := sink_clear (cl_sink c)\<rparr>"

definition client_connect_state ::
    "('sv, 'aw) yrs_codec \<Rightarrow> ('doc, 'sv, 'aw, 'upd) yrs_doc \<Rightarrow> bool \<Rightarrow> connect_state \<Rightarrow> 'doc client \<Rightarrow> 'doc client" where
  "client_connect_state y d lock_free st c =
     (case st of
        Connected \<Rightarrow> if lock_free then client_init_sync y d (c\<lparr>cl_sink := sink_resume (cl_sink c)\<rparr>) else c
      | Unauthorized \<Rightarrow> c\<lparr>cl_sink := sink_pause (cl_sink c)\<rparr>
      | Closed \<Rightarrow> c\<lparr>cl_sink := sink_pause (cl_sink c)\<rparr>
      | _ \<Rightarrow> c)"

subsection \<open>Receiving\<close>

text \<open>
  The locks met by one message of a payload: the one \<open>handle_collab_message\<close> waits for, and the one of
  the flush.
\<close>

record receiving =
  rc_doc_lock :: bool
  rc_flush_lock :: bool

fun is_sync_step_1 :: "('sv, 'aw) message \<Rightarrow> bool" where
  "is_sync_step_1 (SyncMsg (SyncStep1 _)) = True"
| "is_sync_step_1 _ = False"

definition reply_message :: "collab_origin \<Rightarrow> string \<Rightarrow> bool \<Rightarrow> bytes \<Rightarrow> msg_id \<Rightarrow> collab_message" where
  "reply_message origin oid step1 payload i =
     (if step1 then ServerInitSync (server_init_new origin oid payload i)
      else ClientUpdateSync (update_sync_new origin oid payload i))"

text \<open>\<open>env n\<close> are the locks of the message that is followed by \<open>n\<close> others.\<close>

fun process_payload_messages ::
    "('sv, 'aw) yrs_codec \<Rightarrow> ('doc, 'sv, 'aw, 'upd) yrs_doc \<Rightarrow> (nat \<Rightarrow> receiving) \<Rightarrow> ('sv, 'aw) message list \<Rightarrow>
     'doc client \<Rightarrow> 'doc client \<times> (client_sync_error + unit)" where
  "process_payload_messages y d env [] c = (c, Inr ())"
| "process_payload_messages y d env (m # ms) c =
     (case handle_collab_message ClientSyncProtocol y d (Some (cl_origin c)) (rc_doc_lock (env (length ms))) (cl_doc c) m of
        (doc1, Inl e) \<Rightarrow> (c\<lparr>cl_doc := doc1\<rparr>, Inl (ClYSync e))
      | (doc1, Inr None) \<Rightarrow> process_payload_messages y d env ms (c\<lparr>cl_doc := doc1\<rparr>)
      | (doc1, Inr (Some payload)) \<Rightarrow>
          let c1 = c\<lparr>cl_doc := doc1\<rparr>;
              c2 = (if is_sync_step_1 m \<and> rc_flush_lock (env (length ms))
                    then c1\<lparr>cl_flushed := cl_flushed c1 @ [doc1]\<rparr> else c1);
              c3 = c2\<lparr>cl_sink := queue_msg (reply_message (cl_origin c) (so_object_id (cl_object c)) (is_sync_step_1 m) payload)
                                   (cl_sink c2)\<rparr>
          in process_payload_messages y d env ms c3)"

definition process_payload ::
    "('sv, 'aw) yrs_codec \<Rightarrow> ('doc, 'sv, 'aw, 'upd) yrs_doc \<Rightarrow> (nat \<Rightarrow> receiving) \<Rightarrow> bytes \<Rightarrow> 'doc client \<Rightarrow>
     'doc client \<times> (client_sync_error + unit)" where
  "process_payload y d env payload c =
     (case read_all y payload of
        None \<Rightarrow> (c, Inr ())
      | Some (ms, bad) \<Rightarrow>
          (case process_payload_messages y d env ms c of
             (c1, Inl e) \<Rightarrow> (c1, Inl e)
           | (c1, Inr _) \<Rightarrow> (c1, case bad of None \<Rightarrow> Inr () | Some e \<Rightarrow> Inl (ClDecodingError e))))"

definition process_message ::
    "('sv, 'aw) yrs_codec \<Rightarrow> ('doc, 'sv, 'aw, 'upd) yrs_doc \<Rightarrow> (nat \<Rightarrow> receiving) \<Rightarrow> collab_message \<Rightarrow> 'doc client \<Rightarrow>
     'doc client \<times> (client_sync_error + unit)" where
  "process_message y d env msg c =
     (let (c1, should_process) =
            (case cm_msg_id msg of
               None \<Rightarrow> (c, True)
             | Some i \<Rightarrow> (let (sk, accepted) = ack_msg i (cl_sink c) in (c\<lparr>cl_sink := sk\<rparr>, accepted)))
      in if should_process then
           (case cm_payload msg of
              None \<Rightarrow> (c1, Inr ())
            | Some payload \<Rightarrow> if payload = [] then (c1, Inr ()) else process_payload y d env payload c1)
         else (c1, Inr ()))"

text \<open>The stream task: errors are only logged.\<close>

fun doc_stream ::
    "('sv, 'aw) yrs_codec \<Rightarrow> ('doc, 'sv, 'aw, 'upd) yrs_doc \<Rightarrow> (nat \<Rightarrow> receiving) \<Rightarrow> collab_message list \<Rightarrow> 'doc client \<Rightarrow>
     'doc client" where
  "doc_stream y d env [] c = c"
| "doc_stream y d env (msg # msgs) c = doc_stream y d env msgs (fst (process_message y d env msg c))"

subsection \<open>Steps\<close>

datatype client_event =
    ClDidInit
  | ClLocalUpdate collab_origin bytes
  | ClReset
  | ClConnectState bool connect_state
  | ClReceive "nat \<Rightarrow> receiving" collab_message
  | ClSink sink_event
  | ClForwardSinkState
  | ClForwardSyncState bool

fun client_step ::
    "('sv, 'aw) yrs_codec \<Rightarrow> ('doc, 'sv, 'aw, 'upd) yrs_doc \<Rightarrow> (bytes \<Rightarrow> bytes \<Rightarrow> string + bytes) \<Rightarrow> sink_config \<Rightarrow>
     'doc client \<Rightarrow> client_event \<Rightarrow> 'doc client" where
  "client_step y d mu cfg c ClDidInit = client_init_sync y d c"
| "client_step y d mu cfg c (ClLocalUpdate origin u) = client_local_update y origin u c"
| "client_step y d mu cfg c ClReset = client_reset c"
| "client_step y d mu cfg c (ClConnectState l st) = client_connect_state y d l st c"
| "client_step y d mu cfg c (ClReceive env m) = fst (process_message y d env m c)"
| "client_step y d mu cfg c (ClSink e) = c\<lparr>cl_sink := sink_step y mu cfg (cl_sink c) e\<rparr>"
| "client_step y d mu cfg c ClForwardSinkState = forward_sink_state c"
| "client_step y d mu cfg c (ClForwardSyncState l) = forward_sync_state l c"

subsection \<open>Payloads that are encoded messages\<close>

definition receiving_free :: receiving where
  "receiving_free = \<lparr>rc_doc_lock = True, rc_flush_lock = True\<rparr>"

lemma process_payload_encoded:
  assumes "yrs_laws y" and "\<forall>m \<in> set ms. message_in_range m"
  shows "process_payload y d env (concat (map (encode_message y) ms)) c = process_payload_messages y d env ms c"
  using assms by (simp add: process_payload_def read_all_encoded split: prod.split sum.split)

end
