(* ===== verification/ClientProps.thy ===== *)
theory ClientProps
  imports ClientSync
begin

section \<open>Properties of the client's replica\<close>

text \<open>
  The first synchronisation of a replica with the group of the server, through the client's queue and
  the server's handler, and what a lost answer does to it.
\<close>

declare encode_message.simps [simp del]

subsection \<open>One message through the sink\<close>

definition sent_pending :: "collab_message \<Rightarrow> msg_id \<Rightarrow> nat \<Rightarrow> pending_message" where
  "sent_pending m i c = (pending_message_new m i)\<lparr>pm_state := Processing, pm_tx := Some c\<rparr>"

definition done_pending :: "collab_message \<Rightarrow> msg_id \<Rightarrow> pending_message" where
  "done_pending m i = (pending_message_new m i)\<lparr>pm_state := Done, pm_tx := None\<rparr>"

lemma send_single:
  assumes "sk_queue s = [pending_message_new m i]" and "\<not> can_merge m" and "sk_runner s = RunnerIdle"
    and "sk_notified s" and "\<not> sk_pause s" and "sc_strategy cfg = ASAP"
  shows "run (sink_step y mu cfg) s [RunnerStep True True True t, SendResult SendOk] =
    s\<lparr>sk_notified := False, sk_next_chan := Suc (sk_next_chan s), sk_queue := [sent_pending m i (sk_next_chan s)],
      sk_state := Syncing,
      sk_runner := RunnerWaiting (sk_next_chan s) (calculate_timeout (cm_len m) (sc_send_timeout cfg)),
      sk_got_ack := False, sk_sent := sk_sent s @ [m]\<rparr>"
  using assms
  by (simp add: runner_step_def process_next_msg_def prepare_send_def Let_def set_ret_def set_state_def
      pending_message_new_def sent_pending_def split: if_splits)

lemma ack_single:
  assumes "sk_queue s = sent_pending m i c # q" and "sk_runner s = RunnerWaiting c t"
  shows "ack_msg i s = (s\<lparr>sk_queue := done_pending m i # q, sk_got_ack := True, sk_notified := True\<rparr>, True)"
  using assms
  by (simp add: ack_msg_def sent_pending_def done_pending_def pending_message_new_def set_state_def rx_alive_def
      notify_def Let_def)

lemma ack_again:
  assumes "sk_queue s = done_pending m i # q"
  shows "ack_msg i s = (s, False)"
  using assms
  by (cases s) (simp add: ack_msg_def done_pending_def pending_message_new_def set_state_def Let_def)

lemma wait_single:
  assumes "sk_queue s = p # q" and "sk_runner s = RunnerWaiting c t" and "sk_got_ack s"
  shows "wait_result True s =
    s\<lparr>sk_queue := q, sk_runner := RunnerIdle, sk_got_ack := False, sk_notified := True,
      sk_state := (if q = [] then Finished else sk_state s)\<rparr>"
  using assms by (cases s) (auto simp: wait_result_def notify_def Let_def)

subsection \<open>The server's answers\<close>

lemma server_answers_init:
  assumes y: "yrs_laws y" and c: "crdt_laws d ops"
    and m: "m = init_sync_message origin obj (encode_message y (SyncMsg (SyncStep1 sv)) @ encode_message y (AwarenessMsg aw)) i"
  obtains server1 where "handle_user_collab_message y d env oid m server = (server1,
      (if hd_doc_lock (env 1) \<and> hd_joined (env 1) then
         respond (env 1) oid m (Some (encode_message y (SyncMsg (SyncStep2 (yd_encode_diff d server sv))) @
                                      encode_message y (SyncMsg (SyncStep1 (yd_state_vector d server))))) else []) @
      (if hd_doc_lock (env 0) \<and> hd_joined (env 0) then respond (env 0) oid m None else []))"
    and "ops server1 = ops server"
proof -
  obtain server1 where s1: "yd_apply_awareness d server aw = (server1, Inr ())" "ops server1 = ops server"
    using crdt_awareness [OF c] by blast
  have h: "handle_user_collab_message y d env oid m server =
      handle_payload_messages y d env oid m server [SyncMsg (SyncStep1 sv), AwarenessMsg aw]"
    by (rule handle_user_encoded [OF y]) (simp_all add: m init_sync_message_def init_sync_new_def)
  show thesis
  proof (cases "hd_doc_lock (env 0)")
    case True
    then show thesis
      by (intro that [of server1])
        (simp_all add: h s1 server_handle_sync_step1_def handle_awareness_update_def)
  next
    case False
    then show thesis
      by (intro that [of server]) (simp_all add: h server_handle_sync_step1_def)
  qed
qed

lemma server_takes_reply:
  assumes y: "yrs_laws y" and c: "crdt_laws d ops" and "ops server = ops server1"
    and m: "m = ServerInitSync (server_init_new origin oid
       (encode_message y (SyncMsg (SyncStep2 (yd_encode_diff d client (yd_state_vector d server))))) i)"
  obtains server2 where "handle_user_collab_message y d (\<lambda>_. all_free) oid m server1 =
      (server2, [ClientAck (collab_ack_new origin oid [] i (type_str m))])"
    and "ops server2 = ops server \<union> ops client"
proof -
  obtain u server2 where
    u: "yd_decode_update d (yd_encode_diff d client (yd_state_vector d server)) = Inr u"
      "yd_try_write_txn d server1 (Some origin) = Inr ()" "yd_apply_update d server1 (Some origin) u = (server2, Inr ())"
    and eq: "ops server2 = ops server1 \<union> ops client"
    using crdt_apply_diff [OF c, of server server1] assms(3) by blast
  have h: "handle_user_collab_message y d (\<lambda>_. all_free) oid m server1 = handle_payload_messages y d (\<lambda>_. all_free) oid m server1
      [SyncMsg (SyncStep2 (yd_encode_diff d client (yd_state_vector d server)))]"
    by (rule handle_user_encoded [OF y]) (simp_all add: m server_init_new_def)
  show thesis
  proof (rule that [of server2])
    show "handle_user_collab_message y d (\<lambda>_. all_free) oid m server1 =
        (server2, [ClientAck (collab_ack_new origin oid [] i (type_str m))])"
      unfolding h using u by (simp add: handle_sync_step2_def all_free_def respond_def m server_init_new_def)
  qed (use eq assms(3) in simp)
qed

subsection \<open>The client's part\<close>

lemma client_takes_answer:
  assumes y: "yrs_laws y" and cr: "crdt_laws d ops"
  obtains client1 where "process_payload y d (\<lambda>_. receiving_free)
      (encode_message y (SyncMsg (SyncStep2 (yd_encode_diff d server (yd_state_vector d (cl_doc c))))) @
       encode_message y (SyncMsg (SyncStep1 sv))) c =
      (c\<lparr>cl_doc := client1, cl_flushed := cl_flushed c @ [client1],
         cl_sink := queue_msg (reply_message (cl_origin c) (so_object_id (cl_object c)) True
           (encode_message y (SyncMsg (SyncStep2 (yd_encode_diff d client1 sv))))) (cl_sink c)\<rparr>, Inr ())"
    and "ops client1 = ops (cl_doc c) \<union> ops server"
proof -
  obtain u client1 where
    u: "yd_decode_update d (yd_encode_diff d server (yd_state_vector d (cl_doc c))) = Inr u"
      "yd_try_write_txn d (cl_doc c) (Some (cl_origin c)) = Inr ()"
      "yd_apply_update d (cl_doc c) (Some (cl_origin c)) u = (client1, Inr ())"
    and eq: "ops client1 = ops (cl_doc c) \<union> ops server"
    using crdt_apply_diff [OF cr subset_refl] by blast
  have "yd_try_transact d client1 = Inr ()" using cr by (simp add: crdt_laws_def)
  with u have "process_payload_messages y d (\<lambda>_. receiving_free)
      [SyncMsg (SyncStep2 (yd_encode_diff d server (yd_state_vector d (cl_doc c)))), SyncMsg (SyncStep1 sv)] c =
      (c\<lparr>cl_doc := client1, cl_flushed := cl_flushed c @ [client1],
         cl_sink := queue_msg (reply_message (cl_origin c) (so_object_id (cl_object c)) True
           (encode_message y (SyncMsg (SyncStep2 (yd_encode_diff d client1 sv))))) (cl_sink c)\<rparr>, Inr ())"
    by (simp add: handle_sync_step2_def default_handle_sync_step1_def receiving_free_def Let_def)
  with process_payload_encoded [OF y, of "[SyncMsg (SyncStep2 (yd_encode_diff d server (yd_state_vector d (cl_doc c)))),
      SyncMsg (SyncStep1 sv)]" d "\<lambda>_. receiving_free" c] eq that [of client1]
  show thesis by simp
qed

text \<open>The first message of a replica is on its way.\<close>

definition init_events :: "nat \<Rightarrow> client_event list" where
  "init_events t = [ClDidInit, ClSink (RunnerStep True True True t), ClSink (SendResult SendOk)]"

lemma run_client_sink:
  "run (client_step y d mu cfg) c (map ClSink es) = c\<lparr>cl_sink := run (sink_step y mu cfg) (cl_sink c) es\<rparr>"
  by (induction es arbitrary: c) simp_all

lemma client_sends_init:
  assumes y: "yrs_laws y" and cr: "crdt_laws d ops"
    and "sk_runner (cl_sink c) = RunnerIdle" "\<not> sk_pause (cl_sink c)" "sc_strategy cfg = ASAP"
  obtains aw m s1 tmo where
    "m = init_sync_message (cl_origin c) (cl_object c)
       (encode_message y (SyncMsg (SyncStep1 (yd_state_vector d (cl_doc c)))) @ encode_message y (AwarenessMsg aw))
       (sk_counter (cl_sink c))"
    "run (client_step y d mu cfg) c (init_events t) = c\<lparr>cl_sink := s1\<rparr>"
    "sk_queue s1 = [sent_pending m (sk_counter (cl_sink c)) (sk_next_chan (cl_sink c))]"
    "sk_runner s1 = RunnerWaiting (sk_next_chan (cl_sink c)) tmo" "sk_sent s1 = sk_sent (cl_sink c) @ [m]"
    "\<not> sk_pause s1" "\<not> sk_got_ack s1" "sk_counter s1 = sk_counter (cl_sink c) + 1"
proof -
  obtain aw where aw: "yd_awareness d (cl_doc c) = Inr aw" using cr unfolding crdt_laws_def by blast
  let ?p = "encode_message y (SyncMsg (SyncStep1 (yd_state_vector d (cl_doc c)))) @ encode_message y (AwarenessMsg aw)"
  let ?f = "init_sync_message (cl_origin c) (cl_object c) ?p"
  let ?s = "queue_init_sync ?f (cl_sink c)"
  have "encode_message y (AwarenessMsg aw) \<noteq> []" by (rule encode_message_nonempty [OF y])
  then have "doc_init_state y d (cl_doc c) = Some ?p" by (simp add: doc_init_state_def protocol_start_def aw)
  then have init: "client_init_sync y d c = c\<lparr>cl_sink := ?s\<rparr>" by (simp add: client_init_sync_def)
  have q: "sk_queue ?s = [pending_message_new (?f (sk_counter (cl_sink c))) (sk_counter (cl_sink c))]"
    "sk_runner ?s = RunnerIdle" "sk_notified ?s" "\<not> sk_pause ?s" "sk_next_chan ?s = sk_next_chan (cl_sink c)"
    "sk_sent ?s = sk_sent (cl_sink c)" "sk_counter ?s = sk_counter (cl_sink c) + 1"
    using assms by (simp_all add: queue_init_sync_def counter_next_def push_msg_def notify_def)
  have nm: "\<not> can_merge (?f (sk_counter (cl_sink c)))" by (simp add: init_sync_message_def)
  have "run (client_step y d mu cfg) c (init_events t) =
      run (client_step y d mu cfg) (c\<lparr>cl_sink := ?s\<rparr>) (map ClSink [RunnerStep True True True t, SendResult SendOk])"
    by (simp add: init_events_def init)
  also have "\<dots> = c\<lparr>cl_sink := run (sink_step y mu cfg) ?s [RunnerStep True True True t, SendResult SendOk]\<rparr>"
    unfolding run_client_sink by simp
  also note send_single [OF q(1) nm q(2-4) assms(5), of y mu t]
  finally show thesis
    by (rule that [OF refl]) (simp_all add: q)
qed

lemma client_handles_answers:
  assumes y: "yrs_laws y" and cr: "crdt_laws d ops"
    and q: "sk_queue (cl_sink c) = [sent_pending m i ch]" "sk_runner (cl_sink c) = RunnerWaiting ch tmo"
      "\<not> sk_pause (cl_sink c)" "sc_strategy cfg = ASAP"
    and m: "m = init_sync_message (cl_origin c) (cl_object c) hello i"
    and a: "a = encode_message y (SyncMsg (SyncStep2 (yd_encode_diff d server (yd_state_vector d (cl_doc c))))) @
       encode_message y (SyncMsg (SyncStep1 sv))"
  obtains client1 s2 tmo2 ch2 where
    "run (client_step y d mu cfg) c
       (map (ClReceive (\<lambda>_. receiving_free))
          [ClientAck (collab_ack_new og oid a i v), ClientAck (collab_ack_new og oid [] i v)] @
        map ClSink [WaitResult True, RunnerStep True True True t, SendResult SendOk]) =
     c\<lparr>cl_doc := client1, cl_flushed := cl_flushed c @ [client1], cl_sink := s2\<rparr>"
    "ops client1 = ops (cl_doc c) \<union> ops server"
    "sk_queue s2 = [sent_pending (reply_message (cl_origin c) (so_object_id (cl_object c)) True
        (encode_message y (SyncMsg (SyncStep2 (yd_encode_diff d client1 sv)))) (sk_counter (cl_sink c)))
        (sk_counter (cl_sink c)) ch2]"
    "sk_runner s2 = RunnerWaiting ch2 tmo2"
    "sk_sent s2 = sk_sent (cl_sink c) @ [reply_message (cl_origin c) (so_object_id (cl_object c)) True
        (encode_message y (SyncMsg (SyncStep2 (yd_encode_diff d client1 sv)))) (sk_counter (cl_sink c))]"
proof -
  let ?k = "(cl_sink c)\<lparr>sk_queue := [done_pending m i], sk_got_ack := True, sk_notified := True\<rparr>"
  let ?c1 = "c\<lparr>cl_sink := ?k\<rparr>"
  obtain client1 where p: "process_payload y d (\<lambda>_. receiving_free) a ?c1 =
      (?c1\<lparr>cl_doc := client1, cl_flushed := cl_flushed c @ [client1],
         cl_sink := queue_msg (reply_message (cl_origin c) (so_object_id (cl_object c)) True
           (encode_message y (SyncMsg (SyncStep2 (yd_encode_diff d client1 sv))))) ?k\<rparr>, Inr ())"
    and o: "ops client1 = ops (cl_doc c) \<union> ops server"
  proof (rule client_takes_answer [OF y cr, of server ?c1 sv], goal_cases)
    case (1 client1)
    show thesis by (rule 1(1) [of client1]) (use 1(2,3) in \<open>simp_all add: a\<close>)
  qed
  let ?r = "reply_message (cl_origin c) (so_object_id (cl_object c)) True
        (encode_message y (SyncMsg (SyncStep2 (yd_encode_diff d client1 sv)))) (sk_counter (cl_sink c))"
  let ?s2 = "queue_msg (reply_message (cl_origin c) (so_object_id (cl_object c)) True
           (encode_message y (SyncMsg (SyncStep2 (yd_encode_diff d client1 sv))))) ?k"
  let ?c2 = "c\<lparr>cl_doc := client1, cl_flushed := cl_flushed c @ [client1], cl_sink := ?s2\<rparr>"
  have "a \<noteq> []" using encode_message_nonempty [OF y] unfolding a by blast
  then have r1: "process_message y d (\<lambda>_. receiving_free) (ClientAck (collab_ack_new og oid a i v)) c = (?c2, Inr ())"
    using p by (simp add: process_message_def collab_ack_new_def ack_single [OF q(1,2)] Let_def)
  have q2: "sk_queue ?s2 = [done_pending m i, pending_message_new ?r (sk_counter (cl_sink c))]"
    "sk_runner ?s2 = RunnerWaiting ch tmo" "sk_got_ack ?s2" "\<not> sk_pause ?s2"
    using q by (simp_all add: queue_msg_def counter_next_def push_msg_def notify_def cmp_pending_def done_pending_def
        pending_message_new_def m init_sync_message_def reply_message_def)
  have r2: "process_message y d (\<lambda>_. receiving_free) (ClientAck (collab_ack_new og oid [] i v)) ?c2 = (?c2, Inr ())"
    using ack_again [of ?s2 m i] q2(1) by (simp add: process_message_def collab_ack_new_def Let_def)
  let ?s3 = "?s2\<lparr>sk_queue := [pending_message_new ?r (sk_counter (cl_sink c))], sk_runner := RunnerIdle, sk_got_ack := False,
      sk_notified := True\<rparr>"
  have w: "wait_result True ?s2 = ?s3" using wait_single [OF q2(1-3)] by simp
  have w': "run (sink_step y mu cfg) (cl_sink ?c2) (WaitResult True # es) = run (sink_step y mu cfg) ?s3 es" for es
    by (simp add: w)
  have nm: "\<not> can_merge ?r" by (simp add: reply_message_def)
  have "run (client_step y d mu cfg) c
       (map (ClReceive (\<lambda>_. receiving_free))
          [ClientAck (collab_ack_new og oid a i v), ClientAck (collab_ack_new og oid [] i v)] @
        map ClSink [WaitResult True, RunnerStep True True True t, SendResult SendOk]) =
      run (client_step y d mu cfg) ?c2 (map ClSink [WaitResult True, RunnerStep True True True t, SendResult SendOk])"
    unfolding run_append list.map run.simps client_step.simps r1 r2 fst_conv ..
  also have "\<dots> = ?c2\<lparr>cl_sink := run (sink_step y mu cfg) ?s3 [RunnerStep True True True t, SendResult SendOk]\<rparr>"
    unfolding run_client_sink w' by simp
  also have "\<dots> = c\<lparr>cl_doc := client1, cl_flushed := cl_flushed c @ [client1],
      cl_sink := run (sink_step y mu cfg) ?s3 [RunnerStep True True True t, SendResult SendOk]\<rparr>"
    by simp
  finally have e: "run (client_step y d mu cfg) c
       (map (ClReceive (\<lambda>_. receiving_free))
          [ClientAck (collab_ack_new og oid a i v), ClientAck (collab_ack_new og oid [] i v)] @
        map ClSink [WaitResult True, RunnerStep True True True t, SendResult SendOk]) =
     c\<lparr>cl_doc := client1, cl_flushed := cl_flushed c @ [client1],
       cl_sink := run (sink_step y mu cfg) ?s3 [RunnerStep True True True t, SendResult SendOk]\<rparr>" .
  have s4: "run (sink_step y mu cfg) ?s3 [RunnerStep True True True t, SendResult SendOk] =
    ?s3\<lparr>sk_notified := False, sk_next_chan := Suc (sk_next_chan ?s3),
      sk_queue := [sent_pending ?r (sk_counter (cl_sink c)) (sk_next_chan ?s3)], sk_state := Syncing,
      sk_runner := RunnerWaiting (sk_next_chan ?s3) (calculate_timeout (cm_len ?r) (sc_send_timeout cfg)),
      sk_got_ack := False, sk_sent := sk_sent ?s3 @ [?r]\<rparr>"
    by (rule send_single) (use q2(4) q(4) nm in simp_all)
  show thesis
    by (rule that [OF e [unfolded s4] o]) (simp_all add: queue_msg_def counter_next_def notify_def)
qed

lemma client_finishes:
  assumes "sk_queue (cl_sink c) = [sent_pending m i ch]" and "sk_runner (cl_sink c) = RunnerWaiting ch tmo"
  obtains s3 where "run (client_step y d mu cfg) c
      [ClReceive env (ClientAck (collab_ack_new og oid [] i v)), ClSink (WaitResult True)] = c\<lparr>cl_sink := s3\<rparr>"
    "sk_queue s3 = []" "sk_state s3 = Finished" "sk_sent s3 = sk_sent (cl_sink c)"
proof -
  let ?s1 = "(cl_sink c)\<lparr>sk_queue := [done_pending m i], sk_got_ack := True, sk_notified := True\<rparr>"
  have w: "wait_result True ?s1 = ?s1\<lparr>sk_queue := [], sk_runner := RunnerIdle, sk_got_ack := False, sk_notified := True,
      sk_state := Finished\<rparr>"
    using assms(2) wait_single [of ?s1 "done_pending m i" "[]" ch tmo] by simp
  have "run (client_step y d mu cfg) c
      [ClReceive env (ClientAck (collab_ack_new og oid [] i v)), ClSink (WaitResult True)] =
      c\<lparr>cl_sink := wait_result True ?s1\<rparr>"
    by (simp add: process_message_def collab_ack_new_def ack_single [OF assms] Let_def)
  from this [unfolded w] show thesis by (rule that) simp_all
qed

subsection \<open>The first synchronisation\<close>

text \<open>
  The client sends its first message, the server handles it, the client handles the answers and sends
  its own, the server handles that, and the client takes the last acknowledgement. \<open>env\<close> are the
  outcomes that the first message meets on the server.
\<close>

definition first_sync ::
    "('sv, 'aw) yrs_codec \<Rightarrow> ('doc, 'sv, 'aw, 'upd) yrs_doc \<Rightarrow> (bytes \<Rightarrow> bytes \<Rightarrow> string + bytes) \<Rightarrow> sink_config \<Rightarrow>
     (nat \<Rightarrow> handling) \<Rightarrow> nat \<Rightarrow> 'doc client \<Rightarrow> 'doc \<Rightarrow> 'doc client \<times> 'doc" where
  "first_sync y d mu cfg env t c server =
     (let step = client_step y d mu cfg; oid = so_object_id (cl_object c);
          c1 = run step c (init_events t);
          (server1, acks) = handle_user_collab_message y d env oid (last (sk_sent (cl_sink c1))) server;
          c2 = run step c1 (map (ClReceive (\<lambda>_. receiving_free)) acks @
                            map ClSink [WaitResult True, RunnerStep True True True t, SendResult SendOk]);
          (server2, acks2) = handle_user_collab_message y d (\<lambda>_. all_free) oid (last (sk_sent (cl_sink c2))) server1;
          c3 = run step c2 (map (ClReceive (\<lambda>_. receiving_free)) acks2 @ [ClSink (WaitResult True)])
      in (c3, server2))"

lemma first_syncI:
  assumes "run (client_step y d mu cfg) c (init_events t) = c1"
    and "handle_user_collab_message y d env (so_object_id (cl_object c)) (last (sk_sent (cl_sink c1))) server = (server1, acks)"
    and "run (client_step y d mu cfg) c1 (map (ClReceive (\<lambda>_. receiving_free)) acks @
           map ClSink [WaitResult True, RunnerStep True True True t, SendResult SendOk]) = c2"
    and "handle_user_collab_message y d (\<lambda>_. all_free) (so_object_id (cl_object c)) (last (sk_sent (cl_sink c2))) server1 =
           (server2, acks2)"
    and "run (client_step y d mu cfg) c2 (map (ClReceive (\<lambda>_. receiving_free)) acks2 @ [ClSink (WaitResult True)]) = c3"
  shows "first_sync y d mu cfg env t c server = (c3, server2)"
  unfolding first_sync_def Let_def assms(1,2) prod.case assms(3,4) assms(5) ..

definition sample_client :: "bytes client" where
  "sample_client = client_new (OriginClient 1 ''dev'') \<lparr>so_object_id = ''doc'', so_workspace_id = ''w'', so_collab_type = Document,
     so_device_id = ''dev''\<rparr> [1, 2] False 0"

text \<open>C3: The first synchronisation of a client with a group, through the client's queue, the runner of the
  sink and the handler of the server, brings both replicas to the same operations, those that either had
  before, empties the queue and ends in the state \<open>Finished\<close>.\<close>

theorem client_and_group_converge:
  assumes y: "yrs_laws y" and cr: "crdt_laws d ops"
    and idle: "sk_runner (cl_sink c) = RunnerIdle" "\<not> sk_pause (cl_sink c)" "sc_strategy cfg = ASAP"
    and r: "first_sync y d mu cfg (\<lambda>_. all_free) t c server = (c', server')"
  shows "ops (cl_doc c') = ops (cl_doc c) \<union> ops server \<and> ops server' = ops (cl_doc c) \<union> ops server \<and>
    sk_queue (cl_sink c') = [] \<and> sk_state (cl_sink c') = Finished"
proof -
  let ?oid = "so_object_id (cl_object c)" let ?i = "sk_counter (cl_sink c)"
  obtain aw m s1 tmo where
    m: "m = init_sync_message (cl_origin c) (cl_object c)
       (encode_message y (SyncMsg (SyncStep1 (yd_state_vector d (cl_doc c)))) @ encode_message y (AwarenessMsg aw)) ?i"
    and r1: "run (client_step y d mu cfg) c (init_events t) = c\<lparr>cl_sink := s1\<rparr>"
    and s1: "sk_queue s1 = [sent_pending m ?i (sk_next_chan (cl_sink c))]"
      "sk_runner s1 = RunnerWaiting (sk_next_chan (cl_sink c)) tmo" "sk_sent s1 = sk_sent (cl_sink c) @ [m]"
      "\<not> sk_pause s1" "sk_counter s1 = ?i + 1"
    by (rule client_sends_init [OF y cr idle, of mu t]) blast
  let ?a = "encode_message y (SyncMsg (SyncStep2 (yd_encode_diff d server (yd_state_vector d (cl_doc c))))) @
       encode_message y (SyncMsg (SyncStep1 (yd_state_vector d server)))"
  obtain server1 where h1: "handle_user_collab_message y d (\<lambda>_. all_free) ?oid m server = (server1,
      map ClientAck [collab_ack_new (cl_origin c) ?oid ?a ?i (type_str m), collab_ack_new (cl_origin c) ?oid [] ?i (type_str m)])"
    and o1: "ops server1 = ops server"
    by (rule server_answers_init [OF y cr m, of "\<lambda>_. all_free" ?oid server])
      (simp_all add: all_free_def respond_def m init_sync_message_def init_sync_new_def)
  obtain client1 s2 tmo2 ch2 where
    r2: "run (client_step y d mu cfg) (c\<lparr>cl_sink := s1\<rparr>)
       (map (ClReceive (\<lambda>_. receiving_free))
          [ClientAck (collab_ack_new (cl_origin c) ?oid ?a ?i (type_str m)),
           ClientAck (collab_ack_new (cl_origin c) ?oid [] ?i (type_str m))] @
        map ClSink [WaitResult True, RunnerStep True True True t, SendResult SendOk]) =
     (c\<lparr>cl_sink := s1\<rparr>)\<lparr>cl_doc := client1, cl_flushed := cl_flushed (c\<lparr>cl_sink := s1\<rparr>) @ [client1], cl_sink := s2\<rparr>"
    and o2: "ops client1 = ops (cl_doc (c\<lparr>cl_sink := s1\<rparr>)) \<union> ops server"
    and q2: "sk_queue s2 = [sent_pending (reply_message (cl_origin (c\<lparr>cl_sink := s1\<rparr>)) (so_object_id (cl_object (c\<lparr>cl_sink := s1\<rparr>))) True
        (encode_message y (SyncMsg (SyncStep2 (yd_encode_diff d client1 (yd_state_vector d server)))))
        (sk_counter (cl_sink (c\<lparr>cl_sink := s1\<rparr>)))) (sk_counter (cl_sink (c\<lparr>cl_sink := s1\<rparr>))) ch2]"
      "sk_runner s2 = RunnerWaiting ch2 tmo2"
      "sk_sent s2 = sk_sent (cl_sink (c\<lparr>cl_sink := s1\<rparr>)) @ [reply_message (cl_origin (c\<lparr>cl_sink := s1\<rparr>)) (so_object_id (cl_object (c\<lparr>cl_sink := s1\<rparr>))) True
        (encode_message y (SyncMsg (SyncStep2 (yd_encode_diff d client1 (yd_state_vector d server)))))
        (sk_counter (cl_sink (c\<lparr>cl_sink := s1\<rparr>)))]"
    by (rule client_handles_answers [OF y cr, of "c\<lparr>cl_sink := s1\<rparr>" m ?i "sk_next_chan (cl_sink c)" tmo cfg _ ?a server
          "yd_state_vector d server" mu "cl_origin c" ?oid "type_str m" t]) (use s1 idle m in simp_all)
  let ?m2 = "ServerInitSync (server_init_new (cl_origin c) ?oid
      (encode_message y (SyncMsg (SyncStep2 (yd_encode_diff d client1 (yd_state_vector d server))))) (?i + 1))"
  have m2: "last (sk_sent s2) = ?m2" "sk_queue s2 = [sent_pending ?m2 (?i + 1) ch2]"
    using q2 s1 by (simp_all add: reply_message_def)
  obtain server2 where h2: "handle_user_collab_message y d (\<lambda>_. all_free) ?oid ?m2 server1 =
      (server2, [ClientAck (collab_ack_new (cl_origin c) ?oid [] (?i + 1) (type_str ?m2))])"
    and o3: "ops server2 = ops server \<union> ops client1"
    by (rule server_takes_reply [OF y cr o1 [symmetric] refl])
  let ?c2 = "c\<lparr>cl_sink := s2, cl_doc := client1, cl_flushed := cl_flushed c @ [client1]\<rparr>"
  obtain s3 where r3: "run (client_step y d mu cfg) ?c2
      [ClReceive (\<lambda>_. receiving_free) (ClientAck (collab_ack_new (cl_origin c) ?oid [] (?i + 1) (type_str ?m2))),
       ClSink (WaitResult True)] = ?c2\<lparr>cl_sink := s3\<rparr>"
    and q3: "sk_queue s3 = []" "sk_state s3 = Finished"
    by (rule client_finishes [of ?c2 ?m2 "?i + 1" ch2 tmo2 y d mu cfg "\<lambda>_. receiving_free" "cl_origin c" ?oid "type_str ?m2"])
      (use m2(2) q2(2) in simp_all)
  have h1': "handle_user_collab_message y d (\<lambda>_. all_free) ?oid (last (sk_sent (cl_sink (c\<lparr>cl_sink := s1\<rparr>)))) server =
      (server1, map ClientAck [collab_ack_new (cl_origin c) ?oid ?a ?i (type_str m), collab_ack_new (cl_origin c) ?oid [] ?i (type_str m)])"
    using h1 by (simp add: s1)
  have h2': "handle_user_collab_message y d (\<lambda>_. all_free) ?oid (last (sk_sent (cl_sink ?c2))) server1 =
      (server2, [ClientAck (collab_ack_new (cl_origin c) ?oid [] (?i + 1) (type_str ?m2))])"
    using h2 m2(1) by simp
  have "first_sync y d mu cfg (\<lambda>_. all_free) t c server = (?c2\<lparr>cl_sink := s3\<rparr>, server2)"
    by (rule first_syncI [OF r1 h1' _ h2'])
      (use r2 r3 in \<open>simp_all del: client_step.simps run.simps\<close>)
  then show ?thesis using r o2 o3 q3 by auto
qed

theorem client_and_group_converge_witness:
  "\<exists>c' server'. first_sync sample_yrs sample_doc (\<lambda>l r. Inr (l @ r)) default_sink_config (\<lambda>_. all_free) 5
      sample_client [2, 3] = (c', server') \<and>
    set (cl_doc c') = {1, 2, 3} \<and> set server' = {1, 2, 3}"
proof -
  let ?c = sample_client
  obtain c' server' where r: "first_sync sample_yrs sample_doc (\<lambda>l r. Inr (l @ r)) default_sink_config (\<lambda>_. all_free) 5
      ?c [2, 3] = (c', server')"
    by fastforce
  have "set (cl_doc c') = {1, 2, 3} \<and> set server' = {1, 2, 3}"
    using client_and_group_converge [OF sample_yrs_laws sample_doc_laws _ _ _ r]
    by (simp add: sample_client_def client_new_def sink_new_def default_sink_config_def insert_commute)
  with r show ?thesis by blast
qed

text \<open>When the answer to a client's first message is lost on the server (the lock of the subscriber's
  sink is taken, or the sink is closed) and the empty acknowledgement of the message's awareness part goes
  through, the client takes that one for the answer: it drops the message from its queue and reports
  \<open>Finished\<close>, with nothing of the server in its document and nothing of its own in the server's.\<close>

theorem lost_answer_ends_the_first_sync:
  assumes y: "yrs_laws y" and cr: "crdt_laws d ops"
    and idle: "sk_runner (cl_sink c) = RunnerIdle" "\<not> sk_pause (cl_sink c)" "sc_strategy cfg = ASAP"
    and lost: "\<not> (hd_sink_lock (env 1) \<and> hd_sent (env 1))" and free: "env 0 = all_free"
    and c1: "c1 = run (client_step y d mu cfg) c (init_events t)"
    and h: "handle_user_collab_message y d env (so_object_id (cl_object c)) (last (sk_sent (cl_sink c1))) server = (server1, acks)"
    and c2: "c2 = run (client_step y d mu cfg) c1 (map (ClReceive (\<lambda>_. receiving_free)) acks @ [ClSink (WaitResult True)])"
  shows "cl_doc c2 = cl_doc c \<and> ops server1 = ops server \<and> sk_queue (cl_sink c2) = [] \<and>
    sk_state (cl_sink c2) = Finished \<and> cm_payload (hd acks) = Some [] \<and>
    (\<exists>m. sk_sent (cl_sink c2) = sk_sent (cl_sink c) @ [m])"
proof -
  let ?oid = "so_object_id (cl_object c)" let ?i = "sk_counter (cl_sink c)"
  obtain aw m s1 tmo where
    m: "m = init_sync_message (cl_origin c) (cl_object c)
       (encode_message y (SyncMsg (SyncStep1 (yd_state_vector d (cl_doc c)))) @ encode_message y (AwarenessMsg aw)) ?i"
    and r1: "run (client_step y d mu cfg) c (init_events t) = c\<lparr>cl_sink := s1\<rparr>"
    and s1: "sk_queue s1 = [sent_pending m ?i (sk_next_chan (cl_sink c))]"
      "sk_runner s1 = RunnerWaiting (sk_next_chan (cl_sink c)) tmo" "sk_sent s1 = sk_sent (cl_sink c) @ [m]"
    by (rule client_sends_init [OF y cr idle, of mu t]) blast
  have "last (sk_sent (cl_sink c1)) = m" by (simp add: c1 r1 s1)
  moreover obtain server2 where
    "handle_user_collab_message y d env ?oid m server = (server2, [ClientAck (collab_ack_new (cl_origin c) ?oid [] ?i (type_str m))])"
    and o: "ops server2 = ops server"
    by (rule server_answers_init [OF y cr m, of env ?oid server])
      (use lost in \<open>auto simp: free all_free_def respond_def m init_sync_message_def init_sync_new_def\<close>)
  ultimately have a: "acks = [ClientAck (collab_ack_new (cl_origin c) ?oid [] ?i (type_str m))]" "server1 = server2"
    using h by simp_all
  obtain s3 where r3: "run (client_step y d mu cfg) (c\<lparr>cl_sink := s1\<rparr>)
      [ClReceive (\<lambda>_. receiving_free) (ClientAck (collab_ack_new (cl_origin c) ?oid [] ?i (type_str m))),
       ClSink (WaitResult True)] = (c\<lparr>cl_sink := s1\<rparr>)\<lparr>cl_sink := s3\<rparr>"
    and q3: "sk_queue s3 = []" "sk_state s3 = Finished" "sk_sent s3 = sk_sent s1"
    by (rule client_finishes [of "c\<lparr>cl_sink := s1\<rparr>" m ?i "sk_next_chan (cl_sink c)" tmo y d mu cfg
          "\<lambda>_. receiving_free" "cl_origin c" ?oid "type_str m"]) (use s1 in simp_all)
  have "c2 = c\<lparr>cl_sink := s3\<rparr>"
    using r3 by (simp add: c2 c1 r1 a del: client_step.simps run.simps)
  then show ?thesis using q3 s1 o by (simp add: a collab_ack_new_def)
qed

theorem lost_answer_ends_the_first_sync_witness:
  "\<exists>c1 server1 acks c2.
     c1 = run (client_step sample_yrs sample_doc (\<lambda>l r. Inr (l @ r)) default_sink_config)
       sample_client (init_events 5) \<and>
     handle_user_collab_message sample_yrs sample_doc
       (\<lambda>n. if n = 1 then all_free\<lparr>hd_sink_lock := False\<rparr> else all_free) ''doc'' (last (sk_sent (cl_sink c1))) [2, 3] =
       (server1, acks) \<and>
     c2 = run (client_step sample_yrs sample_doc (\<lambda>l r. Inr (l @ r)) default_sink_config) c1
       (map (ClReceive (\<lambda>_. receiving_free)) acks @ [ClSink (WaitResult True)]) \<and>
     cl_doc c2 = [1, 2] \<and> set server1 = {2, 3} \<and> sk_state (cl_sink c2) = Finished"
proof -
  let ?c = sample_client
  let ?env = "\<lambda>n::nat. if n = 1 then all_free\<lparr>hd_sink_lock := False\<rparr> else all_free"
  let ?step = "client_step sample_yrs sample_doc (\<lambda>l r. Inr (l @ r)) default_sink_config"
  let ?c1 = "run ?step ?c (init_events 5)"
  obtain server1 acks where h: "handle_user_collab_message sample_yrs sample_doc ?env ''doc'' (last (sk_sent (cl_sink ?c1))) [2, 3] =
      (server1, acks)"
    by fastforce
  let ?c2 = "run ?step ?c1 (map (ClReceive (\<lambda>_. receiving_free)) acks @ [ClSink (WaitResult True)])"
  have h': "handle_user_collab_message sample_yrs sample_doc ?env (so_object_id (cl_object ?c)) (last (sk_sent (cl_sink ?c1)))
      [2, 3] = (server1, acks)"
    using h by (simp add: sample_client_def client_new_def)
  have "cl_doc ?c2 = [1, 2] \<and> set server1 = {2, 3} \<and> sk_state (cl_sink ?c2) = Finished"
    using lost_answer_ends_the_first_sync [OF sample_yrs_laws sample_doc_laws _ _ _ _ _ refl h' refl]
    by (simp add: sample_client_def client_new_def sink_new_def default_sink_config_def)
  with h show ?thesis by blast
qed

subsection \<open>A missed reconnection\<close>

text \<open>A paused replica whose runner is not in the middle of a send, with what it has sent so far.\<close>

definition silent :: "collab_message list \<Rightarrow> 'doc client \<Rightarrow> bool" where
  "silent sent c \<longleftrightarrow> sk_pause (cl_sink c) \<and> (\<forall>ch m. sk_runner (cl_sink c) \<noteq> RunnerSending ch m) \<and> sk_sent (cl_sink c) = sent"

fun resumes :: "client_event \<Rightarrow> bool" where
  "resumes (ClConnectState free st) \<longleftrightarrow> free \<and> st = Connected"
| "resumes (ClSink e) \<longleftrightarrow> e = Resume"
| "resumes _ \<longleftrightarrow> False"

lemma queue_keeps_silent:
  "sk_pause (queue_msg f s) = sk_pause s" "sk_runner (queue_msg f s) = sk_runner s" "sk_sent (queue_msg f s) = sk_sent s"
  "sk_pause (queue_init_sync f s) = sk_pause s" "sk_runner (queue_init_sync f s) = sk_runner s"
  "sk_sent (queue_init_sync f s) = sk_sent s"
  by (simp_all add: queue_msg_def queue_init_sync_def counter_next_def notify_def)

lemma ack_keeps_silent:
  "sk_pause (fst (ack_msg i s)) = sk_pause s" "sk_runner (fst (ack_msg i s)) = sk_runner s"
  "sk_sent (fst (ack_msg i s)) = sk_sent s"
  by (simp_all add: ack_msg_def notify_def Let_def split: list.splits prod.splits)

lemma process_payload_keeps_silent:
  "silent sent c \<Longrightarrow> silent sent (fst (process_payload_messages y d env ms c))"
proof (induction ms arbitrary: c)
  case (Cons m ms)
  have "silent sent (c\<lparr>cl_doc := doc1\<rparr>)" for doc1 using Cons.prems by (simp add: silent_def)
  moreover have "silent sent (c\<lparr>cl_doc := doc1, cl_sink := queue_msg f (cl_sink c)\<rparr>)"
    "silent sent (c\<lparr>cl_doc := doc1, cl_flushed := fl, cl_sink := queue_msg f (cl_sink c)\<rparr>)" for doc1 f fl
    using Cons.prems by (simp_all add: silent_def queue_keeps_silent)
  ultimately show ?case using Cons.IH
    by (auto simp: Let_def split: prod.splits sum.splits option.splits)
qed simp

lemma process_message_keeps_silent:
  assumes "silent sent c"
  shows "silent sent (fst (process_message y d env m c))"
proof -
  have "silent sent (c\<lparr>cl_sink := fst (ack_msg i (cl_sink c))\<rparr>)" for i
    using assms by (simp add: silent_def ack_keeps_silent)
  moreover have "silent sent (fst (process_payload y d env p c1))" if "silent sent c1" for p c1
    using process_payload_keeps_silent [OF that, of y d env]
    by (auto simp: process_payload_def that split: option.splits prod.splits sum.splits) (metis fst_conv)+
  ultimately show ?thesis using assms
    by (auto simp: process_message_def Let_def split: option.splits prod.splits if_splits) (metis fst_conv)+
qed

lemma sink_step_keeps_silent:
  assumes "silent sent c" and "e \<noteq> Resume"
  shows "silent sent (c\<lparr>cl_sink := sink_step y mu cfg (cl_sink c) e\<rparr>)"
  using assms
  by (cases e)
    (auto simp: silent_def queue_keeps_silent ack_keeps_silent sink_clear_def sink_pause_def runner_step_def process_next_msg_def
      wait_result_def wait_timeout_def retry_fires_def notify_def Let_def split: runner.splits nat.splits)

lemma client_step_keeps_silent:
  assumes "silent sent c" and "\<not> resumes e"
  shows "silent sent (client_step y d mu cfg c e)"
proof (cases e)
  case (ClSink ev)
  then show ?thesis using sink_step_keeps_silent [OF assms(1), of ev] assms(2) by simp
next
  case (ClReceive env m)
  then show ?thesis using process_message_keeps_silent [OF assms(1)] by simp
next
  case (ClConnectState l st)
  then show ?thesis using assms by (cases st) (auto simp: client_connect_state_def silent_def sink_pause_def)
qed (use assms in \<open>auto simp: silent_def client_init_sync_def client_local_update_def client_reset_def sink_clear_def
      forward_sink_state_def forward_sync_state_def notify_def queue_keeps_silent Let_def split: option.splits\<close>)

interpretation silence: step_invariant "client_step y d mu cfg" "\<lambda>_ e. \<not> resumes e" "silent sent"
  for y d mu cfg sent
  by unfold_locales (rule client_step_keeps_silent)

text \<open>A client that finds its document locked at the moment the websocket is connected again stays paused.
  Until the next connection it sends nothing, whatever it is given to send, receives or does, even
  its local changes and a new first message.\<close>

theorem missed_reconnection_silences_client:
  assumes "\<forall>ch m. sk_runner (cl_sink c) \<noteq> RunnerSending ch m" and "\<forall>e \<in> set es. \<not> resumes e"
  shows "sk_sent (cl_sink (run (client_step y d mu cfg) c
      ([ClConnectState l Closed, ClConnectState False Connected] @ es))) = sk_sent (cl_sink c)"
proof -
  have s: "silent (sk_sent (cl_sink c)) (run (client_step y d mu cfg) c [ClConnectState l Closed, ClConnectState False Connected])"
    using assms(1) by (simp add: silent_def client_connect_state_def sink_pause_def)
  have "admissible (\<lambda>_ e. \<not> resumes e) (client_step y d mu cfg) c1 es" for c1
    using assms(2) by (induction es arbitrary: c1) auto
  from silence.run_inv [OF s this] show ?thesis unfolding run_append silent_def by blast
qed

theorem missed_reconnection_silences_client_witness:
  "sk_sent (cl_sink (run (client_step sample_yrs sample_doc (\<lambda>l r. Inr (l @ r)) default_sink_config) sample_client
      ([ClConnectState True Closed, ClConnectState False Connected] @
       [ClLocalUpdate OriginServer [7], ClSink (RunnerStep True True True 5), ClSink (SendResult SendOk)]))) = []"
  using missed_reconnection_silences_client [of sample_client "[ClLocalUpdate OriginServer [7],
      ClSink (RunnerStep True True True 5), ClSink (SendResult SendOk)]"
      sample_yrs sample_doc "\<lambda>l r. Inr (l @ r)" default_sink_config True]
  by (simp add: sample_client_def client_new_def sink_new_def)

end
