(* ===== verification/Accounts.thy ===== *)
theory Accounts
  imports Storage
begin

section \<open>Users, workspaces and their members\<close>

text \<open>
  \<open>libs/database/src/workspace.rs\<close> and \<open>user.rs\<close>: the tables \<open>af_user\<close>, \<open>af_workspace\<close> and
  \<open>af_workspace_member\<close> with the statements on them, their constraints and triggers (\<open>migrations/\<close>), and the
  operations of \<open>src/biz/workspace/ops.rs\<close>, \<open>src/biz/user.rs\<close> and the handlers of \<open>src/api/workspace.rs\<close> that
  keep the permissions in line with them. A table is the list of its rows; a \<open>uuid\<close> is its text; a statement
  may fail with the error of its parameter \<open>q\<close>. Times are those of the transaction.
\<close>

datatype json = JNull | JBool bool | JNumber string | JString string | JArray "json list" | JObject "(string \<times> json) list"

text \<open>The rows: \<open>AFUserRow\<close>, \<open>AFWorkspaceRow\<close> and a row of \<open>af_workspace_member\<close>.\<close>

record af_user_row =
  us_uid :: i64
  us_uuid :: string
  us_email :: string
  us_password :: string
  us_name :: string
  us_metadata :: "string \<rightharpoonup> json"
  us_encryption_sign :: "string option"
  us_updated_at :: nat

record af_workspace_row =
  wr_workspace_id :: string
  wr_database_storage_id :: "string option"
  wr_owner_uid :: "i64 option"
  wr_created_at :: "nat option"
  wr_workspace_type :: int
  wr_workspace_name :: "string option"

record workspace_membership =
  wm_uid :: i64
  wm_role_id :: i64
  wm_workspace_id :: string
  wm_created_at :: nat
  wm_updated_at :: nat

record accounts =
  ac_users :: "af_user_row list"
  ac_workspaces :: "af_workspace_row list"
  ac_members :: "workspace_membership list"
  ac_member_changes :: "workspace_member_notification list"
  ac_user_changes :: "af_user_row list"

text \<open>The ids that the migration gives the roles, and what a constraint says when it is violated.\<close>

definition af_roles :: "(string \<times> i64) list" where
  "af_roles = [(''Owner'', 1), (''Member'', 2), (''Guest'', 3)]"

definition unique_violation :: sqlx_error where
  "unique_violation = SqlOther ''duplicate key value violates unique constraint''"

definition foreign_key_violation :: sqlx_error where
  "foreign_key_violation = SqlOther ''insert or update violates foreign key constraint''"

definition not_null_violation :: sqlx_error where
  "not_null_violation = SqlOther ''null value violates not-null constraint''"

subsection \<open>Look-ups\<close>

text \<open>\<open>SELECT uid FROM af_user WHERE \<dots>\<close>, as a scalar: \<open>None\<close> is \<open>NULL\<close>.\<close>

definition uid_of_email :: "accounts \<Rightarrow> string \<Rightarrow> i64 option" where
  "uid_of_email a email = map_option us_uid (find (\<lambda>u. us_email u = email) (ac_users a))"

definition uid_of_uuid :: "accounts \<Rightarrow> string \<Rightarrow> i64 option" where
  "uid_of_uuid a uuid = map_option us_uid (find (\<lambda>u. us_uuid u = uuid) (ac_users a))"

definition fetch_one :: "sqlx_error option \<Rightarrow> 'a option \<Rightarrow> app_error + 'a" where
  "fetch_one q r =
     (case q of
        Some err \<Rightarrow> Inl (app_error_of_sqlx err)
      | None \<Rightarrow> (case r of Some x \<Rightarrow> Inr x | None \<Rightarrow> Inl (app_error_of_sqlx SqlRowNotFound)))"

definition select_uid_from_email :: "sqlx_error option \<Rightarrow> string \<Rightarrow> accounts \<Rightarrow> app_error + i64" where
  "select_uid_from_email q email a = fetch_one q (uid_of_email a email)"

definition select_uid_from_uuid :: "sqlx_error option \<Rightarrow> string \<Rightarrow> accounts \<Rightarrow> app_error + i64" where
  "select_uid_from_uuid q uuid a = fetch_one q (uid_of_uuid a uuid)"

definition is_user_exist :: "sqlx_error option \<Rightarrow> string \<Rightarrow> accounts \<Rightarrow> app_error + bool" where
  "is_user_exist q uuid a = fetch_one q (Some (\<exists>u \<in> set (ac_users a). us_uuid u = uuid))"

definition membership :: "accounts \<Rightarrow> i64 \<Rightarrow> string \<Rightarrow> workspace_membership option" where
  "membership a uid w = find (\<lambda>m. wm_uid m = uid \<and> wm_workspace_id m = w) (ac_members a)"

definition select_user_role :: "sqlx_error option \<Rightarrow> i64 \<Rightarrow> string \<Rightarrow> accounts \<Rightarrow> app_error + af_role" where
  "select_user_role q uid w a =
     res_bind (fetch_one q (membership a uid w)) (\<lambda>m. Inr (role_of_i32 (as_i32 (wm_role_id m))))"

definition select_user_is_workspace_owner :: "sqlx_error option \<Rightarrow> string \<Rightarrow> string \<Rightarrow> accounts \<Rightarrow> app_error + bool" where
  "select_user_is_workspace_owner q uuid w a =
     fetch_one q (Some (\<exists>m \<in> set (ac_members a). wm_workspace_id m = w \<and> Some (wm_uid m) = uid_of_uuid a uuid \<and>
       map_of af_roles ''Owner'' = Some (wm_role_id m)))"

definition select_workspace :: "sqlx_error option \<Rightarrow> string \<Rightarrow> accounts \<Rightarrow> app_error + af_workspace_row" where
  "select_workspace q w a = fetch_one q (find (\<lambda>r. wr_workspace_id r = w) (ac_workspaces a))"

definition select_user_workspace :: "sqlx_error option \<Rightarrow> string \<Rightarrow> accounts \<Rightarrow> app_error + af_workspace_row list" where
  "select_user_workspace q uuid a =
     fetch_one q (Some (concat (map (\<lambda>r. map (\<lambda>_. r)
       (filter (\<lambda>m. wr_workspace_id r = wm_workspace_id m \<and> Some (wm_uid m) = uid_of_uuid a uuid) (ac_members a)))
       (ac_workspaces a))))"

definition select_all_user_workspaces :: "sqlx_error option \<Rightarrow> string \<Rightarrow> accounts \<Rightarrow> app_error + af_workspace_row list" where
  "select_all_user_workspaces q uuid a =
     fetch_one q (Some (filter (\<lambda>r. wr_workspace_id r \<in> set (map wm_workspace_id
       (filter (\<lambda>m. Some (wm_uid m) = uid_of_uuid a uuid) (ac_members a)))) (ac_workspaces a)))"

text \<open>The members with their users, oldest first (\<open>sort_key\<close> is stable; the database may order equal times).\<close>

record af_workspace_member_row =
  wmw_uid :: i64
  wmw_name :: string
  wmw_email :: string
  wmw_role :: af_role

definition member_row :: "accounts \<Rightarrow> workspace_membership \<Rightarrow> af_workspace_member_row list" where
  "member_row a m =
     map (\<lambda>u. \<lparr>wmw_uid = us_uid u, wmw_name = us_name u, wmw_email = us_email u,
               wmw_role = role_of_i32 (as_i32 (wm_role_id m))\<rparr>)
       (filter (\<lambda>u. us_uid u = wm_uid m) (ac_users a))"

definition select_workspace_member_list ::
    "sqlx_error option \<Rightarrow> string \<Rightarrow> accounts \<Rightarrow> app_error + af_workspace_member_row list" where
  "select_workspace_member_list q w a =
     fetch_one q (Some (concat (map (member_row a)
       (sort_key wm_created_at (filter (\<lambda>m. wm_workspace_id m = w) (ac_members a))))))"

definition select_workspace_member ::
    "sqlx_error option \<Rightarrow> i64 \<Rightarrow> string \<Rightarrow> accounts \<Rightarrow> app_error + af_workspace_member_row" where
  "select_workspace_member q uid w a =
     fetch_one q (case concat (map (member_row a)
         (filter (\<lambda>m. wm_workspace_id m = w \<and> wm_uid m = uid) (ac_members a))) of
       [] \<Rightarrow> None | r # _ \<Rightarrow> Some r)"

text \<open>\<open>af_user_profile_view\<close>: the user with the workspace of the membership that was updated last.\<close>

record af_user_profile_row =
  up_user :: af_user_row
  up_latest_workspace_id :: "string option"

definition user_profile_view :: "accounts \<Rightarrow> af_user_profile_row list" where
  "user_profile_view a =
     concat (map (\<lambda>u. map (\<lambda>m. \<lparr>up_user = u, up_latest_workspace_id = Some (wm_workspace_id m)\<rparr>)
       (filter (\<lambda>m. wm_uid m = us_uid u \<and>
          (\<forall>m' \<in> set (ac_members a). wm_uid m' = us_uid u \<longrightarrow> wm_updated_at m' \<le> wm_updated_at m)) (ac_members a)))
       (ac_users a))"

definition select_user_profile :: "sqlx_error option \<Rightarrow> string \<Rightarrow> accounts \<Rightarrow> app_error + af_user_profile_row option" where
  "select_user_profile q uuid a = fetch_one q (Some (find (\<lambda>r. us_uuid (up_user r) = uuid) (user_profile_view a)))"

subsection \<open>Changes\<close>

text \<open>A change of a membership, with the notification its trigger sends when the transaction is committed.\<close>

definition notified_row :: "workspace_membership \<Rightarrow> workspace_member_row" where
  "notified_row m = \<lparr>wmr_uid = wm_uid m, wmr_role_id = wm_role_id m, wmr_workspace_id = wm_workspace_id m\<rparr>"

definition member_inserted :: "workspace_membership \<Rightarrow> accounts \<Rightarrow> accounts" where
  "member_inserted m a =
     a\<lparr>ac_members := ac_members a @ [m],
       ac_member_changes := ac_member_changes a @
         [\<lparr>wmn_old = None, wmn_new = Some (notified_row m), wmn_action_type = INSERT\<rparr>]\<rparr>"

definition members_updated ::
    "(workspace_membership \<Rightarrow> bool) \<Rightarrow> (workspace_membership \<Rightarrow> workspace_membership) \<Rightarrow> accounts \<Rightarrow> accounts" where
  "members_updated P f a =
     a\<lparr>ac_members := map (\<lambda>m. if P m then f m else m) (ac_members a),
       ac_member_changes := ac_member_changes a @
         map (\<lambda>m. \<lparr>wmn_old = Some (notified_row m), wmn_new = Some (notified_row (f m)), wmn_action_type = UPDATE\<rparr>)
           (filter P (ac_members a))\<rparr>"

definition members_deleted :: "(workspace_membership \<Rightarrow> bool) \<Rightarrow> accounts \<Rightarrow> accounts" where
  "members_deleted P a =
     a\<lparr>ac_members := filter (\<lambda>m. \<not> P m) (ac_members a),
       ac_member_changes := ac_member_changes a @
         map (\<lambda>m. \<lparr>wmn_old = Some (notified_row m), wmn_new = None, wmn_action_type = DELETE\<rparr>)
           (filter P (ac_members a))\<rparr>"

text \<open>A new workspace, and the membership of its owner (\<open>af_workspace_insert_trigger\<close>).\<close>

definition workspace_inserted :: "string \<Rightarrow> string \<Rightarrow> nat \<Rightarrow> i64 \<Rightarrow> string \<Rightarrow> accounts \<Rightarrow> accounts \<times> af_workspace_row" where
  "workspace_inserted w storage_id now uid name a =
     (let r = \<lparr>wr_workspace_id = w, wr_database_storage_id = Some storage_id, wr_owner_uid = Some uid,
               wr_created_at = Some now, wr_workspace_type = 0, wr_workspace_name = Some name\<rparr>
      in (member_inserted \<lparr>wm_uid = uid, wm_role_id = the (map_of af_roles ''Owner''), wm_workspace_id = w,
            wm_created_at = now, wm_updated_at = now\<rparr> (a\<lparr>ac_workspaces := ac_workspaces a @ [r]\<rparr>), r))"

definition insert_user_workspace ::
    "sqlx_error option \<Rightarrow> string \<Rightarrow> string \<Rightarrow> nat \<Rightarrow> string \<Rightarrow> string \<Rightarrow> accounts \<Rightarrow> app_error + accounts \<times> af_workspace_row" where
  "insert_user_workspace q w storage_id now uuid name a =
     (case q of
        Some err \<Rightarrow> Inl (app_error_of_sqlx err)
      | None \<Rightarrow>
          (case uid_of_uuid a uuid of
             None \<Rightarrow> Inl (app_error_of_sqlx not_null_violation)
           | Some uid \<Rightarrow>
               if \<exists>r \<in> set (ac_workspaces a). wr_workspace_id r = w then Inl (app_error_of_sqlx unique_violation)
               else Inr (workspace_inserted w storage_id now uid name a)))"

definition insert_workspace_member_with_txn ::
    "sqlx_error option \<Rightarrow> nat \<Rightarrow> string \<Rightarrow> string \<Rightarrow> af_role \<Rightarrow> accounts \<Rightarrow> app_error + accounts" where
  "insert_workspace_member_with_txn q now w email role a =
     (case q of
        Some err \<Rightarrow> Inl (app_error_of_sqlx err)
      | None \<Rightarrow>
          (case uid_of_email a email of
             None \<Rightarrow> Inr a
           | Some uid \<Rightarrow>
               if membership a uid w \<noteq> None then Inr a
               else if \<forall>r \<in> set (ac_workspaces a). wr_workspace_id r \<noteq> w then Inl (app_error_of_sqlx foreign_key_violation)
               else Inr (member_inserted \<lparr>wm_uid = uid, wm_role_id = i32_of_role role, wm_workspace_id = w,
                           wm_created_at = now, wm_updated_at = now\<rparr> a)))"

definition upsert_workspace_member ::
    "sqlx_error option \<Rightarrow> string \<Rightarrow> string \<Rightarrow> af_role option \<Rightarrow> accounts \<Rightarrow> sqlx_error + accounts" where
  "upsert_workspace_member q w email role a =
     (case role of
        None \<Rightarrow> Inr a
      | Some r \<Rightarrow>
          (case q of
             Some err \<Rightarrow> Inl err
           | None \<Rightarrow> Inr (members_updated (\<lambda>m. wm_workspace_id m = w \<and> Some (wm_uid m) = uid_of_email a email)
                            (\<lambda>m. m\<lparr>wm_role_id := i32_of_role r\<rparr>) a)))"

definition workspace_owner :: "accounts \<Rightarrow> string \<Rightarrow> i64 option" where
  "workspace_owner a w = Option.bind (find (\<lambda>r. wr_workspace_id r = w) (ac_workspaces a)) wr_owner_uid"

definition delete_workspace_members ::
    "(nat \<Rightarrow> sqlx_error option) \<Rightarrow> string \<Rightarrow> string \<Rightarrow> accounts \<Rightarrow> app_error + accounts" where
  "delete_workspace_members q w email a =
     res_bind (fetch_one (q 0) (Some (\<exists>r \<in> set (ac_workspaces a). wr_workspace_id r = w \<and> uid_of_email a email \<noteq> None \<and>
         wr_owner_uid r = uid_of_email a email))) (\<lambda>is_owner.
     if is_owner then Inl (NotEnoughPermissions ''Owner cannot be deleted'')
     else res_bind (res_map_err app_error_of_sqlx (stmt q 1)) (\<lambda>_.
       Inr (members_deleted (\<lambda>m. wm_workspace_id m = w \<and> Some (wm_uid m) = uid_of_email a email \<and>
         (\<exists>owner. workspace_owner a w = Some owner \<and> wm_uid m \<noteq> owner)) a)))"

definition update_updated_at_of_workspace ::
    "sqlx_error option \<Rightarrow> nat \<Rightarrow> string \<Rightarrow> string \<Rightarrow> accounts \<Rightarrow> app_error + accounts" where
  "update_updated_at_of_workspace q now uuid w a =
     (case q of
        Some err \<Rightarrow> Inl (app_error_of_sqlx err)
      | None \<Rightarrow> Inr (members_updated (\<lambda>m. Some (wm_uid m) = uid_of_uuid a uuid \<and> wm_workspace_id m = w)
                       (\<lambda>m. m\<lparr>wm_updated_at := now\<rparr>) a))"

text \<open>
  What can go wrong beside an error: an \<open>assert!\<close> or \<open>unwrap\<close> that panics. The memberships, collabs and
  snapshots of a deleted workspace go with it (\<open>ON DELETE CASCADE\<close>); rows of \<open>af_collab_member\<close> stay.
\<close>

datatype 'a served = Panicked | Served "app_error + 'a"

definition collabs_deleted :: "string \<Rightarrow> database \<Rightarrow> database" where
  "collabs_deleted w db =
     db\<lparr>db_collabs := (\<lambda>oid. case db_collabs db oid of
          None \<Rightarrow> None | Some row \<Rightarrow> if cr_workspace_id row = w then None else Some row),
        db_snapshots := filter (\<lambda>s. sn_workspace_id s \<noteq> w) (db_snapshots db)\<rparr>"

definition delete_from_workspace ::
    "sqlx_error option \<Rightarrow> string \<Rightarrow> accounts \<times> database \<Rightarrow> (accounts \<times> database) \<times> unit served" where
  "delete_from_workspace q w t =
     (case q of
        Some err \<Rightarrow> (t, Served (Inl (app_error_of_sqlx err)))
      | None \<Rightarrow>
          let (a, db) = t;
              gone = filter (\<lambda>r. wr_workspace_id r = w) (ac_workspaces a);
              a1 = (if gone = [] then a else members_deleted (\<lambda>m. wm_workspace_id m = w)
                     (a\<lparr>ac_workspaces := filter (\<lambda>r. wr_workspace_id r \<noteq> w) (ac_workspaces a)\<rparr>));
              db1 = (if gone = [] then db else collabs_deleted w db)
          in ((a1, db1), if length gone = 1 then Served (Inr ()) else Panicked))"

text \<open>\<open>create_user\<close>: one statement with its \<open>WITH\<close> parts; a taken email inserts nothing, and \<open>fetch_one\<close> finds no row.\<close>

definition create_user ::
    "sqlx_error option \<Rightarrow> string \<Rightarrow> string \<Rightarrow> nat \<Rightarrow> i64 \<Rightarrow> string \<Rightarrow> string \<Rightarrow> string \<Rightarrow> accounts \<times> database \<Rightarrow>
     app_error + (accounts \<times> database) \<times> string" where
  "create_user q w storage_id now uid uuid email name t =
     (let (a, db) = t in
      case q of
        Some err \<Rightarrow> Inl (app_error_of_sqlx err)
      | None \<Rightarrow>
          if \<exists>u \<in> set (ac_users a). us_email u = email then
            Inl (app_error_of_sqlx SqlRowNotFound)
          else if (\<exists>u \<in> set (ac_users a). us_uid u = uid) \<or> (\<exists>r \<in> set (ac_workspaces a). wr_workspace_id r = w) \<or>
              db_members db (uid, w) \<noteq> None
          then Inl (app_error_of_sqlx unique_violation)
          else
            let u = \<lparr>us_uid = uid, us_uuid = uuid, us_email = email, us_password = [], us_name = name,
                     us_metadata = Map.empty, us_encryption_sign = None, us_updated_at = now\<rparr>;
                (a1, _) = workspace_inserted w storage_id now uid ''My Workspace'' (a\<lparr>ac_users := ac_users a @ [u]\<rparr>)
            in Inr ((a1, db\<lparr>db_members := (db_members db)((uid, w) \<mapsto> the (map_of af_role_permissions ''Owner''))\<rparr>), w))"

text \<open>
  \<open>update_user\<close> builds its statement from the fields that are given; \<open>ArgText\<close>, \<open>ArgJson\<close> and \<open>ArgUuid\<close> are
  its arguments. Executed, it changes the rows of the user and notifies with each.
\<close>

datatype sql_arg = ArgText string | ArgJson "string \<rightharpoonup> json" | ArgUuid string

definition update_user_query ::
    "string option \<Rightarrow> string option \<Rightarrow> (string \<rightharpoonup> json) option \<Rightarrow> string \<Rightarrow> (string list \<times> string \<times> sql_arg list) option" where
  "update_user_query name email metadata uuid =
     (let (n1, c1, a1) = (case name of None \<Rightarrow> (0, [], [])
                          | Some x \<Rightarrow> (1, [''name = $'' @ show_nat 1], [ArgText x]));
          (n2, c2, a2) = (case email of None \<Rightarrow> (n1, c1, a1)
                          | Some x \<Rightarrow> (n1 + 1, c1 @ [''email = $'' @ show_nat (n1 + 1)], a1 @ [ArgText x]));
          (n3, c3, a3) = (case metadata of None \<Rightarrow> (n2, c2, a2)
                          | Some x \<Rightarrow> (n2 + 1, c2 @ [''metadata = metadata || $'' @ show_nat (n2 + 1)], a2 @ [ArgJson x]))
      in if c3 = [] then None else Some (c3, ''uuid = $'' @ show_nat (n3 + 1), a3 @ [ArgUuid uuid]))"

definition user_set ::
    "string option \<Rightarrow> string option \<Rightarrow> (string \<rightharpoonup> json) option \<Rightarrow> nat \<Rightarrow> af_user_row \<Rightarrow> af_user_row" where
  "user_set name email metadata now u =
     u\<lparr>us_name := (case name of Some n \<Rightarrow> n | None \<Rightarrow> us_name u),
       us_email := (case email of Some e \<Rightarrow> e | None \<Rightarrow> us_email u),
       us_metadata := (case metadata of Some m \<Rightarrow> us_metadata u ++ m | None \<Rightarrow> us_metadata u),
       us_updated_at := now\<rparr>"

definition update_user ::
    "sqlx_error option \<Rightarrow> nat \<Rightarrow> string \<Rightarrow> string option \<Rightarrow> string option \<Rightarrow> (string \<rightharpoonup> json) option \<Rightarrow> accounts \<Rightarrow>
     app_error + accounts" where
  "update_user q now uuid name email metadata a =
     (case update_user_query name email metadata uuid of
        None \<Rightarrow> Inr a
      | Some _ \<Rightarrow>
          (case q of
             Some err \<Rightarrow> Inl (app_error_of_sqlx err)
           | None \<Rightarrow>
               let users = map (\<lambda>u. if us_uuid u = uuid then user_set name email metadata now u else u) (ac_users a) in
               if \<not> distinct (map us_email users) then Inl (app_error_of_sqlx unique_violation)
               else Inr (a\<lparr>ac_users := users,
                           ac_user_changes := ac_user_changes a @ filter (\<lambda>u. us_uuid u = uuid) users\<rparr>)))"

end
