(* ===== verification/AccountOps.thy ===== *)
theory AccountOps
  imports Accounts Realtime "HOL-Library.AList"
begin

section \<open>Sign-in, workspaces and members\<close>

text \<open>
  \<open>src/biz/user.rs\<close>, \<open>src/biz/workspace/ops.rs\<close> and the handlers that call them (\<open>src/api/workspace.rs\<close>). An
  operation works on the tables in a transaction and, where the code does, on the permissions, which do not
  take part in it. \<open>tx\<close> are the outcomes it meets: \<open>tx_stmt tx i n\<close> is the error of statement \<open>n\<close> of round \<open>i\<close> of
  its loop.
\<close>

record 'e cloud =
  cd_accounts :: accounts
  cd_storage :: "'e storage"
  cd_uids :: "string \<rightharpoonup> i64"

record txn =
  tx_begin :: bool
  tx_stmt :: "nat \<Rightarrow> nat \<Rightarrow> sqlx_error option"
  tx_commit :: bool

definition tx_free :: txn where
  "tx_free = \<lparr>tx_begin = True, tx_stmt = \<lambda>_ _. None, tx_commit = True\<rparr>"

definition cd_enforcer :: "'e cloud \<Rightarrow> 'e af_enforcer" where
  "cd_enforcer s = st_enforcer (cd_storage s)"

definition set_enforcer :: "'e af_enforcer \<Rightarrow> 'e cloud \<Rightarrow> 'e cloud" where
  "set_enforcer e s = s\<lparr>cd_storage := (cd_storage s)\<lparr>st_enforcer := e\<rparr>\<rparr>"

definition cd_tables :: "'e cloud \<Rightarrow> accounts \<times> database" where
  "cd_tables s = (cd_accounts s, st_db (cd_storage s))"

definition set_tables :: "accounts \<times> database \<Rightarrow> 'e cloud \<Rightarrow> 'e cloud" where
  "set_tables t s = s\<lparr>cd_accounts := fst t, cd_storage := (cd_storage s)\<lparr>st_db := snd t\<rparr>\<rparr>"

subsection \<open>Workspaces\<close>

record af_workspace =
  aw_workspace_id :: string
  aw_database_storage_id :: string
  aw_owner_uid :: i64
  aw_workspace_type :: int
  aw_workspace_name :: string
  aw_created_at :: nat

definition workspace_of_row :: "nat \<Rightarrow> af_workspace_row \<Rightarrow> app_error + af_workspace" where
  "workspace_of_row now r =
     (case wr_owner_uid r of
        None \<Rightarrow> Inl (Internal ''Unexpect empty owner_uid'')
      | Some owner \<Rightarrow>
          (case wr_database_storage_id r of
             None \<Rightarrow> Inl (Internal ''Unexpect empty workspace_id'')
           | Some d \<Rightarrow> Inr \<lparr>aw_workspace_id = wr_workspace_id r, aw_database_storage_id = d, aw_owner_uid = owner,
                 aw_workspace_type = wr_workspace_type r,
                 aw_workspace_name = (case wr_workspace_name r of Some n \<Rightarrow> n | None \<Rightarrow> []),
                 aw_created_at = (case wr_created_at r of Some t \<Rightarrow> t | None \<Rightarrow> now)\<rparr>))"

definition delete_workspace_for_user :: "sqlx_error option \<Rightarrow> string \<Rightarrow> 'e cloud \<Rightarrow> 'e cloud \<times> unit served" where
  "delete_workspace_for_user q w s =
     (let (t, r) = delete_from_workspace q w (cd_tables s) in (set_tables t s, r))"

definition create_workspace_for_user ::
    "sqlx_error option \<Rightarrow> string \<Rightarrow> string \<Rightarrow> nat \<Rightarrow> string \<Rightarrow> string \<Rightarrow> 'e cloud \<Rightarrow> 'e cloud \<times> (app_error + af_workspace)" where
  "create_workspace_for_user q w storage_id now uuid name s =
     (case insert_user_workspace q w storage_id now uuid name (cd_accounts s) of
        Inl err \<Rightarrow> (s, Inl err)
      | Inr (a, r) \<Rightarrow> (s\<lparr>cd_accounts := a\<rparr>, workspace_of_row now r))"

text \<open>The list leaves out the rows that can not be converted.\<close>

definition list_workspaces :: "sqlx_error option \<Rightarrow> nat \<Rightarrow> string \<Rightarrow> 'e cloud \<Rightarrow> app_error + af_workspace list" where
  "list_workspaces q now uuid s =
     res_bind (select_all_user_workspaces q uuid (cd_accounts s)) (\<lambda>rows.
       Inr (concat (map (\<lambda>r. case workspace_of_row now r of Inr w \<Rightarrow> [w] | Inl _ \<Rightarrow> []) rows)))"

definition open_workspace ::
    "txn \<Rightarrow> nat \<Rightarrow> string \<Rightarrow> string \<Rightarrow> 'e cloud \<Rightarrow> 'e cloud \<times> (app_error + af_workspace)" where
  "open_workspace tx now uuid w s =
     (if \<not> tx_begin tx then (s, Inl (Internal ''Begin transaction to open workspace''))
      else
        case res_bind (select_workspace (tx_stmt tx 0 0) w (cd_accounts s)) (\<lambda>r.
               res_bind (update_updated_at_of_workspace (tx_stmt tx 0 1) now uuid w (cd_accounts s)) (\<lambda>a. Inr (a, r))) of
          Inl err \<Rightarrow> (s, Inl err)
        | Inr (a, r) \<Rightarrow>
            if \<not> tx_commit tx then (s, Inl (Internal ''Commit transaction to open workspace''))
            else (s\<lparr>cd_accounts := a\<rparr>, workspace_of_row now r))"

subsection \<open>Members\<close>

record create_workspace_member =
  cwm_email :: string
  cwm_role :: af_role

record workspace_member_changeset =
  wmc_email :: string
  wmc_role :: "af_role option"
  wmc_name :: "string option"

fun level_of_role :: "af_role \<Rightarrow> af_access_level" where
  "level_of_role Owner = FullAccess"
| "level_of_role Member = ReadAndWrite"
| "level_of_role Guest = ReadOnly"

text \<open>The loop over the members, with the map \<open>role_by_uid\<close> as an association list.\<close>

fun add_members_loop ::
    "(nat \<Rightarrow> nat \<Rightarrow> sqlx_error option) \<Rightarrow> nat \<Rightarrow> string \<Rightarrow> nat \<Rightarrow> create_workspace_member list \<Rightarrow> accounts \<times> database \<Rightarrow>
     (i64 \<times> af_role) list \<Rightarrow> app_error + (accounts \<times> database) \<times> (i64 \<times> af_role) list" where
  "add_members_loop q now w i [] t roles = Inr (t, roles)"
| "add_members_loop q now w i (m # ms) t roles =
     res_bind (select_uid_from_email (q i 0) (cwm_email m) (fst t)) (\<lambda>uid.
     res_bind (insert_workspace_member_with_txn (q i 1) now w (cwm_email m) (cwm_role m) (fst t)) (\<lambda>a.
     res_bind (db_upsert_collab_member (\<lambda>n. q i (n + 2)) uid w (level_of_role (cwm_role m)) (snd t)) (\<lambda>db.
     add_members_loop q now w (Suc i) ms (a, db) (AList.update uid (cwm_role m) roles))))"

definition add_workspace_members ::
    "txn \<Rightarrow> nat \<Rightarrow> string \<Rightarrow> create_workspace_member list \<Rightarrow> 'e cloud \<Rightarrow> 'e cloud \<times> (app_error + (i64 \<times> af_role) list)" where
  "add_workspace_members tx now w members s =
     (if \<not> tx_begin tx then (s, Inl (Internal ''Begin transaction to insert workspace members''))
      else
        case add_members_loop (tx_stmt tx) now w 0 members (cd_tables s) [] of
          Inl err \<Rightarrow> (s, Inl err)
        | Inr (t, roles) \<Rightarrow>
            if \<not> tx_commit tx then (s, Inl (Internal ''Commit transaction to insert workspace members''))
            else (set_tables t s, Inr roles))"

text \<open>
  The handlers use the trait \<open>WorkspaceAccessControl\<close>; their loops are generic in its operations \<open>grant\<close>
  (\<open>insert_workspace_role\<close>) and \<open>revoke\<close> (\<open>remove_role\<close>).
\<close>

fun grant_roles ::
    "('s \<Rightarrow> i64 \<Rightarrow> string \<Rightarrow> af_role \<Rightarrow> 's \<times> (app_error + unit)) \<Rightarrow> string \<Rightarrow> (i64 \<times> af_role) list \<Rightarrow> 's \<Rightarrow>
     's \<times> (app_error + unit)" where
  "grant_roles grant w [] e = (e, Inr ())"
| "grant_roles grant w ((uid, role) # rs) e =
     (case grant e uid w role of
        (e1, Inl err) \<Rightarrow> (e1, Inl err)
      | (e1, Inr _) \<Rightarrow> grant_roles grant w rs e1)"

definition insert_roles ::
    "'e casbin_api \<Rightarrow> string \<Rightarrow> (i64 \<times> af_role) list \<Rightarrow> 'e cloud \<Rightarrow> 'e cloud \<times> (app_error + unit)" where
  "insert_roles api w rs s =
     (let (e, r) = grant_roles (insert_workspace_role api) w rs (cd_enforcer s) in (set_enforcer e s, r))"

text \<open>\<open>ord\<close> is the order in which the map of roles is traversed.\<close>

definition add_workspace_members_handler ::
    "'e casbin_api \<Rightarrow> ((i64 \<times> af_role) list \<Rightarrow> (i64 \<times> af_role) list) \<Rightarrow> txn \<Rightarrow> nat \<Rightarrow> string \<Rightarrow> create_workspace_member list \<Rightarrow>
     'e cloud \<Rightarrow> 'e cloud \<times> (app_error + unit)" where
  "add_workspace_members_handler api ord tx now w members s =
     (case add_workspace_members tx now w members s of
        (s1, Inl err) \<Rightarrow> (s1, Inl err)
      | (s1, Inr roles) \<Rightarrow> insert_roles api w (ord roles) s1)"

fun remove_members_loop ::
    "(nat \<Rightarrow> nat \<Rightarrow> sqlx_error option) \<Rightarrow> string \<Rightarrow> nat \<Rightarrow> string list \<Rightarrow> accounts \<Rightarrow> app_error + accounts" where
  "remove_members_loop q w i [] a = Inr a"
| "remove_members_loop q w i (email # es) a =
     res_bind (delete_workspace_members (q i) w email a) (remove_members_loop q w (Suc i) es)"

definition remove_workspace_members ::
    "txn \<Rightarrow> string \<Rightarrow> string list \<Rightarrow> 'e cloud \<Rightarrow> 'e cloud \<times> (app_error + unit)" where
  "remove_workspace_members tx w emails s =
     (if \<not> tx_begin tx then (s, Inl (Internal ''Begin transaction to delete workspace members''))
      else
        case remove_members_loop (tx_stmt tx) w 0 emails (cd_accounts s) of
          Inl err \<Rightarrow> (s, Inl err)
        | Inr a \<Rightarrow>
            if \<not> tx_commit tx then (s, Inl (Internal ''Commit transaction to delete workspace members''))
            else (s\<lparr>cd_accounts := a\<rparr>, Inr ()))"

fun revoke_roles ::
    "('s \<Rightarrow> i64 \<Rightarrow> string \<Rightarrow> 's \<times> (app_error + unit)) \<Rightarrow> (nat \<Rightarrow> sqlx_error option) \<Rightarrow> accounts \<Rightarrow> string \<Rightarrow> nat \<Rightarrow>
     string list \<Rightarrow> 's \<Rightarrow> 's \<times> (app_error + unit)" where
  "revoke_roles revoke q a w i [] e = (e, Inr ())"
| "revoke_roles revoke q a w i (email # es) e =
     (case select_uid_from_email (q i) email a of
        Inl _ \<Rightarrow> revoke_roles revoke q a w (Suc i) es e
      | Inr uid \<Rightarrow>
          (case revoke e uid w of
             (e1, Inl err) \<Rightarrow> (e1, Inl err)
           | (e1, Inr _) \<Rightarrow> revoke_roles revoke q a w (Suc i) es e1))"

definition remove_workspace_member_handler ::
    "'e casbin_api \<Rightarrow> txn \<Rightarrow> (nat \<Rightarrow> sqlx_error option) \<Rightarrow> string \<Rightarrow> string list \<Rightarrow> 'e cloud \<Rightarrow> 'e cloud \<times> (app_error + unit)" where
  "remove_workspace_member_handler api tx q w emails s =
     (case remove_workspace_members tx w emails s of
        (s1, Inl err) \<Rightarrow> (s1, Inl err)
      | (s1, Inr _) \<Rightarrow>
          (let (e, r) = revoke_roles (remove_role api) q (cd_accounts s1) w 0 emails (cd_enforcer s1) in (set_enforcer e s1, r)))"

definition update_workspace_member ::
    "sqlx_error option \<Rightarrow> string \<Rightarrow> workspace_member_changeset \<Rightarrow> 'e cloud \<Rightarrow> 'e cloud \<times> (app_error + unit)" where
  "update_workspace_member q w c s =
     (case upsert_workspace_member q w (wmc_email c) (wmc_role c) (cd_accounts s) of
        Inl err \<Rightarrow> (s, Inl (app_error_of_sqlx err))
      | Inr a \<Rightarrow> (s\<lparr>cd_accounts := a\<rparr>, Inr ()))"

definition update_workspace_member_handler ::
    "'e casbin_api \<Rightarrow> (nat \<Rightarrow> sqlx_error option) \<Rightarrow> string \<Rightarrow> workspace_member_changeset \<Rightarrow> 'e cloud \<Rightarrow>
     'e cloud \<times> (app_error + unit)" where
  "update_workspace_member_handler api q w c s =
     (case update_workspace_member (q 0) w c s of
        (s1, Inl err) \<Rightarrow> (s1, Inl err)
      | (s1, Inr _) \<Rightarrow>
          (case wmc_role c of
             None \<Rightarrow> (s1, Inr ())
           | Some role \<Rightarrow>
               (case select_uid_from_email (q 1) (wmc_email c) (cd_accounts s1) of
                  Inl err \<Rightarrow> (s1, Inl err)
                | Inr uid \<Rightarrow> insert_roles api w [(uid, role)] s1)))"

text \<open>The members as a client sees them.\<close>

definition get_workspace_members_handler ::
    "sqlx_error option \<Rightarrow> string \<Rightarrow> 'e cloud \<Rightarrow> app_error + af_workspace_member list" where
  "get_workspace_members_handler q w s =
     res_bind (select_workspace_member_list q w (cd_accounts s)) (\<lambda>rows.
       Inr (map (\<lambda>m. \<lparr>awm_name = wmw_name m, awm_email = wmw_email m, awm_role = wmw_role m, awm_avatar_url = None\<rparr>) rows))"

subsection \<open>Users\<close>

text \<open>\<open>name_from_user_metadata\<close>: the first of the three fields that is there decides, even if it is no string.\<close>

fun json_get :: "string \<Rightarrow> json \<Rightarrow> json option" where
  "json_get k (JObject kvs) = map_of kvs k"
| "json_get k _ = None"

fun json_as_str :: "json \<Rightarrow> string option" where
  "json_as_str (JString x) = Some x"
| "json_as_str _ = None"

definition option_or :: "'a option \<Rightarrow> 'a option \<Rightarrow> 'a option" where
  "option_or x y = (case x of Some _ \<Rightarrow> x | None \<Rightarrow> y)"

definition name_from_user_metadata :: "json \<Rightarrow> string" where
  "name_from_user_metadata v =
     (case Option.bind (option_or (option_or (json_get ''name'' v) (json_get ''full_name'' v)) (json_get ''nickname'' v))
        json_as_str of
        Some n \<Rightarrow> n | None \<Rightarrow> [])"

text \<open>
  The documents of a new workspace, stored in the transaction of the sign-in. A template has its object id,
  its type and its encoded document.
\<close>

record template =
  tp_object_id :: string
  tp_object_type :: collab_type
  tp_object_data :: encoded_collab

fun store_templates ::
    "collab_api \<Rightarrow> 'e casbin_api \<Rightarrow> (nat \<Rightarrow> faults) \<Rightarrow> string \<Rightarrow> i64 \<Rightarrow> nat \<Rightarrow> template list \<Rightarrow> database \<Rightarrow> 'e storage \<Rightarrow>
     'e storage \<times> (app_error + database)" where
  "store_templates ce api f w uid i [] db st = (st, Inr db)"
| "store_templates ce api f w uid i (tp # tps) db st =
     (case ce_encode ce (tp_object_data tp) of
        Inl err \<Rightarrow> (st, Inl (Internal err))
      | Inr b \<Rightarrow>
          (case upsert_collab_with_transaction ce api (f i) w uid
                  \<lparr>cp_object_id = tp_object_id tp, cp_encoded_collab_v1 = b, cp_collab_type = tp_object_type tp,
                   cp_override_if_exist = False\<rparr> db st of
             (st1, Inl err) \<Rightarrow> (st1, Inl err)
           | (st1, Inr db1) \<Rightarrow> store_templates ce api f w uid (Suc i) tps db1 st1))"

text \<open>
  \<open>info\<close> is the answer of the authentication service: the text of the user's id, the email and the metadata;
  \<open>templates\<close> are what the template builder makes for the new workspace; \<open>new_uid\<close> is the next id of the
  generator, \<open>w\<close> and \<open>storage_id\<close> are those the database generates.
\<close>

record user_info =
  ui_id :: string
  ui_email :: string
  ui_user_metadata :: json

definition create_new_user ::
    "collab_api \<Rightarrow> 'e casbin_api \<Rightarrow> (nat \<Rightarrow> faults) \<Rightarrow> sqlx_error option \<Rightarrow> nat \<Rightarrow> user_info \<Rightarrow> string \<Rightarrow> i64 \<Rightarrow> string \<Rightarrow>
     string \<Rightarrow> app_error + template list \<Rightarrow> 'e cloud \<Rightarrow> 'e cloud \<times> (app_error + accounts \<times> database)" where
  "create_new_user ce api f q now user uuid new_uid w storage_id templates s =
     (case create_user q w storage_id now new_uid uuid (ui_email user)
             (name_from_user_metadata (ui_user_metadata user)) (cd_tables s) of
        Inl err \<Rightarrow> (s, Inl err)
      | Inr (t, workspace_id) \<Rightarrow>
          (case insert_workspace_role api (cd_enforcer s) new_uid workspace_id Owner of
             (e, Inl err) \<Rightarrow> (set_enforcer e s, Inl err)
           | (e, Inr _) \<Rightarrow>
               (case templates of
                  Inl err \<Rightarrow> (set_enforcer e s, Inl err)
                | Inr tps \<Rightarrow>
                    (case store_templates ce api f workspace_id new_uid 0 tps (snd t) (cd_storage (set_enforcer e s)) of
                       (st, Inl err) \<Rightarrow> (s\<lparr>cd_storage := st\<rparr>, Inl err)
                     | (st, Inr db) \<Rightarrow> (s\<lparr>cd_storage := st\<rparr>, Inr (fst t, db))))))"

definition verify_token ::
    "collab_api \<Rightarrow> 'e casbin_api \<Rightarrow> (nat \<Rightarrow> faults) \<Rightarrow> txn \<Rightarrow> nat \<Rightarrow> app_error + user_info \<Rightarrow> i64 \<Rightarrow> string \<Rightarrow> string \<Rightarrow>
     app_error + template list \<Rightarrow> 'e cloud \<Rightarrow> 'e cloud \<times> (app_error + bool)" where
  "verify_token ce api f tx now info new_uid w storage_id templates s =
     (case res_bind info (\<lambda>user. res_bind (res_map_err UuidError (ce_parse_uuid ce (ui_id user))) (\<lambda>uuid. Inr (user, uuid))) of
        Inl err \<Rightarrow> (s, Inl err)
      | Inr (user, uuid) \<Rightarrow>
          if \<not> tx_begin tx then (s, Inl (Internal ''acquire transaction to verify token''))
          else
            case res_bind (res_map_err app_error_of_sqlx (stmt (tx_stmt tx 0) 0)) (\<lambda>_.
                   is_user_exist (tx_stmt tx 0 1) uuid (cd_accounts s)) of
              Inl err \<Rightarrow> (s, Inl err)
            | Inr exists \<Rightarrow>
                let (s1, r) =
                      (if exists then (s, Inr (cd_tables s))
                       else create_new_user ce api f (tx_stmt tx 0 2) now user uuid new_uid w storage_id templates s) in
                case r of
                  Inl err \<Rightarrow> (s1, Inl err)
                | Inr t \<Rightarrow>
                    if tx_commit tx then (set_tables t s1, Inr (\<not> exists))
                    else (s1, Inl (Internal ''fail to commit transaction to verify token'')))"

text \<open>The cache of user ids, \<open>UserCache::get_user_uid\<close>.\<close>

definition get_user_uid :: "sqlx_error option \<Rightarrow> string \<Rightarrow> 'e cloud \<Rightarrow> 'e cloud \<times> (app_error + i64)" where
  "get_user_uid q uuid s =
     (case cd_uids s uuid of
        Some uid \<Rightarrow> (s, Inr uid)
      | None \<Rightarrow>
          (case select_uid_from_uuid q uuid (cd_accounts s) of
             Inl err \<Rightarrow> (s, Inl err)
           | Inr uid \<Rightarrow> (s\<lparr>cd_uids := (cd_uids s)(uuid \<mapsto> uid)\<rparr>, Inr uid)))"

record af_user_profile =
  ap_user :: af_user_row
  ap_latest_workspace_id :: string

definition profile_of_row :: "af_user_profile_row \<Rightarrow> app_error + af_user_profile" where
  "profile_of_row r =
     (case up_latest_workspace_id r of
        None \<Rightarrow> Inl (Internal ''Unexpect empty latest_workspace_id'')
      | Some w \<Rightarrow> Inr \<lparr>ap_user = up_user r, ap_latest_workspace_id = w\<rparr>)"

definition get_profile :: "sqlx_error option \<Rightarrow> string \<Rightarrow> 'e cloud \<Rightarrow> app_error + af_user_profile" where
  "get_profile q uuid s =
     res_bind (select_user_profile q uuid (cd_accounts s)) (\<lambda>r.
       case r of
         None \<Rightarrow> Inl (RecordNotFound (''Can't find the user profile for user: '' @ uuid))
       | Some row \<Rightarrow> profile_of_row row)"

record af_user_workspace_info =
  uw_user_profile :: af_user_profile
  uw_visiting_workspace :: af_workspace
  uw_workspaces :: "af_workspace list"

definition get_user_workspace_info ::
    "txn \<Rightarrow> nat \<Rightarrow> string \<Rightarrow> 'e cloud \<Rightarrow> af_user_workspace_info served" where
  "get_user_workspace_info tx now uuid s =
     (if \<not> tx_begin tx then Served (Inl (Internal ''failed to acquire the transaction to query the user workspace info''))
      else
        case select_user_profile (tx_stmt tx 0 0) uuid (cd_accounts s) of
          Inl err \<Rightarrow> Served (Inl err)
        | Inr None \<Rightarrow> Served (Inl (RecordNotFound (''Can't find the user profile for '' @ uuid)))
        | Inr (Some row) \<Rightarrow>
            (case up_latest_workspace_id row of
               None \<Rightarrow> Panicked
             | Some w \<Rightarrow>
                 Served
                   (res_bind (select_workspace (tx_stmt tx 0 1) w (cd_accounts s)) (\<lambda>wr.
                    res_bind (workspace_of_row now wr) (\<lambda>visiting.
                    res_bind (profile_of_row row) (\<lambda>profile.
                    res_bind (select_user_workspace (tx_stmt tx 0 2) uuid (cd_accounts s)) (\<lambda>rows.
                    if \<not> tx_commit tx then Inl (Internal ''failed to commit the transaction to get user workspace info'')
                    else Inr \<lparr>uw_user_profile = profile, uw_visiting_workspace = visiting,
                           uw_workspaces = concat (map (\<lambda>r. case workspace_of_row now r of Inr x \<Rightarrow> [x] | Inl _ \<Rightarrow> []) rows)\<rparr>)))))))"

definition cloud_update_user ::
    "sqlx_error option \<Rightarrow> nat \<Rightarrow> string \<Rightarrow> string option \<Rightarrow> string option \<Rightarrow> (string \<rightharpoonup> json) option \<Rightarrow> 'e cloud \<Rightarrow>
     'e cloud \<times> (app_error + unit)" where
  "cloud_update_user q now uuid name email metadata s =
     (case update_user q now uuid name email metadata (cd_accounts s) of
        Inl err \<Rightarrow> (s, Inl err)
      | Inr a \<Rightarrow> (s\<lparr>cd_accounts := a\<rparr>, Inr ()))"

text \<open>The notifications of a user that the session of \<open>uid\<close> gets (\<open>subscribe_user_change\<close>).\<close>

definition subscribe_user_change :: "i64 \<Rightarrow> accounts \<Rightarrow> af_user_row list" where
  "subscribe_user_change uid a = filter (\<lambda>u. us_uid u = uid) (ac_user_changes a)"

subsection \<open>Steps\<close>

datatype cloud_event =
    EvSignIn "nat \<Rightarrow> faults" txn nat "app_error + user_info" i64 string string "app_error + template list"
  | EvUpdateUser "sqlx_error option" nat string "string option" "string option" "(string \<rightharpoonup> json) option"
  | EvCreateWorkspace "sqlx_error option" string string nat string string
  | EvDeleteWorkspace "sqlx_error option" string
  | EvOpenWorkspace txn nat string string
  | EvAddMembers txn nat string "create_workspace_member list"
  | EvRemoveMembers txn "nat \<Rightarrow> sqlx_error option" string "string list"
  | EvUpdateMember "nat \<Rightarrow> sqlx_error option" string workspace_member_changeset
  | EvMemberNotified

text \<open>The last event: the listener takes the next notification (\<open>spawn_listen_on_workspace_member_change\<close>).\<close>

fun cloud_step ::
    "collab_api \<Rightarrow> 'e casbin_api \<Rightarrow> ((i64 \<times> af_role) list \<Rightarrow> (i64 \<times> af_role) list) \<Rightarrow> 'e cloud \<Rightarrow> cloud_event \<Rightarrow> 'e cloud" where
  "cloud_step ce api ord s (EvSignIn f tx now info uid w sid tps) = fst (verify_token ce api f tx now info uid w sid tps s)"
| "cloud_step ce api ord s (EvUpdateUser q now uuid n e md) = fst (cloud_update_user q now uuid n e md s)"
| "cloud_step ce api ord s (EvCreateWorkspace q w sid now uuid n) = fst (create_workspace_for_user q w sid now uuid n s)"
| "cloud_step ce api ord s (EvDeleteWorkspace q w) = fst (delete_workspace_for_user q w s)"
| "cloud_step ce api ord s (EvOpenWorkspace tx now uuid w) = fst (open_workspace tx now uuid w s)"
| "cloud_step ce api ord s (EvAddMembers tx now w ms) = fst (add_workspace_members_handler api ord tx now w ms s)"
| "cloud_step ce api ord s (EvRemoveMembers tx q w es) = fst (remove_workspace_member_handler api tx q w es s)"
| "cloud_step ce api ord s (EvUpdateMember q w c) = fst (update_workspace_member_handler api q w c s)"
| "cloud_step ce api ord s EvMemberNotified =
     (case ac_member_changes (cd_accounts s) of
        [] \<Rightarrow> s
      | n # ns \<Rightarrow> set_enforcer (on_workspace_member_change api (cd_enforcer s) n)
                   (s\<lparr>cd_accounts := (cd_accounts s)\<lparr>ac_member_changes := ns\<rparr>\<rparr>))"

end
