(* ===== verification/AccountLaws.thy ===== *)
theory AccountLaws
  imports AccountOps StorageProps
begin

section \<open>Tables, notifications and roles\<close>

text \<open>
  When the tables of \<open>Accounts\<close> are well formed, what the pending notifications will make of the roles, and the
  contract of the access control that the handlers use (locale \<open>role_control\<close>, interpreted on the enforcer).
\<close>

subsection \<open>Well-formed tables\<close>

definition role_in :: "accounts \<Rightarrow> i64 \<times> string \<rightharpoonup> af_role" where
  "role_in a k = map_option (\<lambda>m. role_of_i32 (as_i32 (wm_role_id m))) (membership a (fst k) (snd k))"

definition member_key :: "workspace_membership \<Rightarrow> i64 \<times> string" where
  "member_key m = (wm_uid m, wm_workspace_id m)"

text \<open>The keys are unique, memberships are of workspaces that exist, and an owner is a user and a member.\<close>

definition accounts_ok :: "accounts \<Rightarrow> bool" where
  "accounts_ok a \<longleftrightarrow>
     distinct (map us_uid (ac_users a)) \<and> distinct (map us_uuid (ac_users a)) \<and> distinct (map us_email (ac_users a)) \<and>
     distinct (map wr_workspace_id (ac_workspaces a)) \<and> distinct (map member_key (ac_members a)) \<and>
     (\<forall>m \<in> set (ac_members a). wm_workspace_id m \<in> wr_workspace_id ` set (ac_workspaces a)) \<and>
     (\<forall>r \<in> set (ac_workspaces a). wr_database_storage_id r \<noteq> None \<and> wr_owner_uid r \<in> Some ` us_uid ` set (ac_users a) \<and>
        (the (wr_owner_uid r), wr_workspace_id r) \<in> member_key ` set (ac_members a))"

lemma accounts_okD:
  assumes "accounts_ok a"
  shows "distinct (map us_uid (ac_users a))" "distinct (map us_uuid (ac_users a))" "distinct (map us_email (ac_users a))"
    "distinct (map wr_workspace_id (ac_workspaces a))" "distinct (map member_key (ac_members a))"
    "m \<in> set (ac_members a) \<Longrightarrow> wm_workspace_id m \<in> wr_workspace_id ` set (ac_workspaces a)"
    "r \<in> set (ac_workspaces a) \<Longrightarrow> \<exists>owner. wr_owner_uid r = Some owner \<and> owner \<in> us_uid ` set (ac_users a) \<and>
        (owner, wr_workspace_id r) \<in> member_key ` set (ac_members a)"
    "r \<in> set (ac_workspaces a) \<Longrightarrow> wr_database_storage_id r \<noteq> None"
  using assms unfolding accounts_ok_def by (blast, blast, blast, blast, blast, blast, force, blast)

lemma member_key_simp: "wm_uid m = u \<and> wm_workspace_id m = w \<longleftrightarrow> member_key m = (u, w)"
  by (auto simp: member_key_def)

lemma membership_find: "membership a u w = find (\<lambda>m. member_key m = (u, w)) (ac_members a)"
  by (simp add: membership_def member_key_simp)

lemma find_None: "find P xs = None \<longleftrightarrow> (\<forall>x \<in> set xs. \<not> P x)"
  by (induction xs) auto

lemma find_SomeD: "find P xs = Some x \<Longrightarrow> x \<in> set xs \<and> P x"
  by (induction xs) (auto split: if_splits)

lemma find_distinct_key:
  "distinct (map f xs) \<Longrightarrow> x \<in> set xs \<Longrightarrow> find (\<lambda>y. f y = f x) xs = Some x"
  by (induction xs) (auto split: if_splits simp: rev_image_eqI)

lemma find_append: "find P (xs @ ys) = (case find P xs of None \<Rightarrow> find P ys | Some x \<Rightarrow> Some x)"
  by (induction xs) auto

lemma find_map_key:
  assumes "\<And>x. f (g x) = f x"
  shows "find (\<lambda>x. f x = k) (map g xs) = map_option g (find (\<lambda>x. f x = k) xs)"
  by (induction xs) (simp_all add: assms)

lemma find_filter_key:
  assumes "distinct (map f xs)"
  shows "find (\<lambda>x. f x = k) (filter P xs) =
    (case find (\<lambda>x. f x = k) xs of None \<Rightarrow> None | Some x \<Rightarrow> if P x then Some x else None)"
  using assms by (induction xs) (auto simp: find_None image_iff split: option.splits)

lemma membership_None: "membership a u w = None \<longleftrightarrow> (u, w) \<notin> member_key ` set (ac_members a)"
  by (auto simp: membership_find find_None image_iff)

lemma role_in_None: "role_in a k = None \<longleftrightarrow> k \<notin> member_key ` set (ac_members a)"
  by (cases k) (simp add: role_in_def membership_None)

lemma membership_member:
  assumes "distinct (map member_key (ac_members a))" and "m \<in> set (ac_members a)"
  shows "membership a (wm_uid m) (wm_workspace_id m) = Some m"
  using find_distinct_key [OF assms] by (simp add: membership_find member_key_def)

lemma uid_of_email_unique:
  assumes "accounts_ok a" and "uid_of_email a x = Some u" and "uid_of_email a y = Some u"
  shows "x = y"
proof -
  obtain ux uy where "find (\<lambda>r. us_email r = x) (ac_users a) = Some ux" "us_uid ux = u"
    "find (\<lambda>r. us_email r = y) (ac_users a) = Some uy" "us_uid uy = u"
    using assms(2,3) by (auto simp: uid_of_email_def)
  then show ?thesis using find_SomeD accounts_okD(1) [OF assms(1)] by (metis (mono_tags, lifting) distinct_map inj_onD)
qed

subsection \<open>Pending notifications\<close>

text \<open>What the listener makes of the roles when it handles a notification.\<close>

definition announced :: "workspace_member_notification \<Rightarrow> (i64 \<times> string \<rightharpoonup> af_role) \<Rightarrow> (i64 \<times> string \<rightharpoonup> af_role)" where
  "announced n roles =
     (case wmn_action_type n of
        DELETE \<Rightarrow> (case wmn_old n of None \<Rightarrow> roles | Some r \<Rightarrow> roles((wmr_uid r, wmr_workspace_id r) := None))
      | _ \<Rightarrow> (case wmn_new n of None \<Rightarrow> roles
              | Some r \<Rightarrow> roles((wmr_uid r, wmr_workspace_id r) \<mapsto> role_of_i32 (as_i32 (wmr_role_id r)))))"

definition touches :: "i64 \<times> string \<Rightarrow> workspace_member_notification \<Rightarrow> bool" where
  "touches k n \<longleftrightarrow> (\<exists>r. (if wmn_action_type n = DELETE then wmn_old n else wmn_new n) = Some r \<and>
     (wmr_uid r, wmr_workspace_id r) = k)"

lemma announced_upd: "announced n (roles(k := v)) = (if touches k n then announced n roles else (announced n roles)(k := v))"
  by (auto simp: announced_def touches_def fun_eq_iff split: member_action.splits option.splits)

lemma fold_announced_upd:
  "fold announced ns (roles(k := v)) =
     (if \<exists>n \<in> set ns. touches k n then fold announced ns roles else (fold announced ns roles)(k := v))"
  by (induction ns arbitrary: roles) (auto simp: announced_upd)

text \<open>Once the pending notifications are handled, the roles \<open>roles\<close> are those of the table.\<close>

definition in_line :: "accounts \<Rightarrow> (i64 \<times> string \<rightharpoonup> af_role) \<Rightarrow> bool" where
  "in_line a roles \<longleftrightarrow> fold announced (ac_member_changes a) roles = role_in a"

lemma in_line_upd: "in_line a roles \<Longrightarrow> role_in a k = v \<Longrightarrow> in_line a (roles(k := v))"
  by (auto simp: in_line_def fold_announced_upd)

lemma role_in_cong: "ac_members a' = ac_members a \<Longrightarrow> role_in a' = role_in a"
  by (simp add: role_in_def membership_def fun_eq_iff)

lemma role_in_changes [simp]: "role_in (a\<lparr>ac_member_changes := ns\<rparr>) = role_in a"
  by (rule role_in_cong) simp

lemma in_line_cong:
  assumes "in_line a roles" and "ac_members a' = ac_members a" and "ac_member_changes a' = ac_member_changes a"
  shows "in_line a' roles"
  using assms by (simp add: in_line_def role_in_def membership_def fun_eq_iff)

lemma in_line_inserted:
  assumes "in_line a roles" and "membership a (wm_uid m) (wm_workspace_id m) = None"
  shows "in_line (member_inserted m a) roles"
proof -
  have "role_in (member_inserted m a) = (role_in a)(member_key m \<mapsto> role_of_i32 (as_i32 (wm_role_id m)))"
    using assms(2) by (auto simp: role_in_def membership_find member_inserted_def fun_eq_iff find_append
        member_key_def split: option.splits)
  then show ?thesis using assms(1)
    by (simp add: in_line_def member_inserted_def announced_def notified_row_def member_key_def)
qed
lemma fold_announced_map:
  assumes "\<And>m R. m \<in> set ms \<Longrightarrow> announced (g m) R = R(member_key m := v m)" and "distinct (map member_key ms)"
  shows "fold announced (map g ms) roles k =
    (case find (\<lambda>m. member_key m = k) ms of None \<Rightarrow> roles k | Some m \<Rightarrow> v m)"
  using assms
proof (induction ms arbitrary: roles)
  case (Cons m ms)
  then show ?case by (auto simp: find_None image_iff split: option.splits)
qed simp

lemma in_line_updated:
  assumes l: "in_line a roles" and d: "distinct (map member_key (ac_members a))" and f: "\<And>m. member_key (f m) = member_key m"
  shows "in_line (members_updated P f a) roles"
proof -
  let ?ms = "ac_members a"
  have u: "announced \<lparr>wmn_old = Some (notified_row m), wmn_new = Some (notified_row (f m)), wmn_action_type = UPDATE\<rparr> R =
      R(member_key m := Some (role_of_i32 (as_i32 (wm_role_id (f m)))))" for m R
    using f [of m] by (simp add: announced_def notified_row_def member_key_def)
  have "fold announced (ac_member_changes (members_updated P f a)) roles k = role_in (members_updated P f a) k" for k
  proof -
    have "fold announced (ac_member_changes (members_updated P f a)) roles k =
        (case find (\<lambda>m. member_key m = k) (filter P ?ms) of None \<Rightarrow> role_in a k
         | Some m \<Rightarrow> Some (role_of_i32 (as_i32 (wm_role_id (f m)))))"
      using l fold_announced_map [OF u, of "filter P ?ms" "role_in a" k] d
      by (simp add: in_line_def members_updated_def distinct_map_filter)
    also have "\<dots> = role_in (members_updated P f a) k"
      by (cases k) (auto simp: role_in_def membership_find members_updated_def find_filter_key [OF d] f
          find_map_key [of member_key "\<lambda>m. if P m then f m else m"] split: option.splits)
    finally show ?thesis .
  qed
  then show ?thesis by (simp add: in_line_def fun_eq_iff)
qed

lemma in_line_deleted:
  assumes l: "in_line a roles" and d: "distinct (map member_key (ac_members a))"
  shows "in_line (members_deleted P a) roles"
proof -
  let ?ms = "ac_members a"
  have u: "announced \<lparr>wmn_old = Some (notified_row m), wmn_new = None, wmn_action_type = DELETE\<rparr> R =
      R(member_key m := None)" for m R
    by (simp add: announced_def notified_row_def member_key_def)
  have "fold announced (ac_member_changes (members_deleted P a)) roles k = role_in (members_deleted P a) k" for k
  proof -
    have "fold announced (ac_member_changes (members_deleted P a)) roles k =
        (case find (\<lambda>m. member_key m = k) (filter P ?ms) of None \<Rightarrow> role_in a k | Some m \<Rightarrow> None)"
      using l fold_announced_map [OF u, of "filter P ?ms" "role_in a" k] d
      by (simp add: in_line_def members_deleted_def distinct_map_filter)
    also have "\<dots> = role_in (members_deleted P a) k"
      by (cases k) (auto simp: role_in_def membership_find members_deleted_def find_filter_key [OF d] split: option.splits)
    finally show ?thesis .
  qed
  then show ?thesis by (simp add: in_line_def fun_eq_iff)
qed

subsection \<open>The access control of workspaces\<close>

text \<open>
  What the handlers need of \<open>WorkspaceAccessControl\<close> and the listener: a grant and a revocation succeed and change
  one role, and a notification changes the roles as \<open>announced\<close> says.
\<close>

locale role_control =
  fixes grant :: "'s \<Rightarrow> i64 \<Rightarrow> string \<Rightarrow> af_role \<Rightarrow> 's \<times> (app_error + unit)"
    and revoke :: "'s \<Rightarrow> i64 \<Rightarrow> string \<Rightarrow> 's \<times> (app_error + unit)"
    and follow :: "'s \<Rightarrow> workspace_member_notification \<Rightarrow> 's"
    and good :: "'s \<Rightarrow> bool"
    and roles :: "'s \<Rightarrow> i64 \<times> string \<rightharpoonup> af_role"
  assumes grant_ok: "good s \<Longrightarrow> good (fst (grant s u w r)) \<and> snd (grant s u w r) = Inr () \<and>
      roles (fst (grant s u w r)) = (roles s)((u, w) \<mapsto> r)"
    and revoke_ok: "good s \<Longrightarrow> good (fst (revoke s u w)) \<and> snd (revoke s u w) = Inr () \<and>
      roles (fst (revoke s u w)) = (roles s)((u, w) := None)"
    and follow_ok: "good s \<Longrightarrow> good (follow s n) \<and> roles (follow s n) = announced n (roles s)"
begin

lemma grant_roles_in_line:
  assumes "good s" and "in_line a (roles s)" and "\<And>u r. (u, r) \<in> set rs \<Longrightarrow> role_in a (u, w) = Some r"
  obtains s1 where "grant_roles grant w rs s = (s1, Inr ())" "good s1" "in_line a (roles s1)"
    "\<And>u r. (u, r) \<in> set rs \<Longrightarrow> roles s1 (u, w) = Some r"
    "\<And>k. k \<notin> (\<lambda>(u, r). (u, w)) ` set rs \<Longrightarrow> roles s1 k = roles s k"
proof -
  have "\<exists>s1. grant_roles grant w rs s = (s1, Inr ()) \<and> good s1 \<and> in_line a (roles s1) \<and>
      (\<forall>(u, r) \<in> set rs. roles s1 (u, w) = Some r) \<and>
      (\<forall>k. k \<notin> (\<lambda>(u, r). (u, w)) ` set rs \<longrightarrow> roles s1 k = roles s k)"
    using assms
  proof (induction rs arbitrary: s)
    case (Cons p rs)
    obtain u r where p: "p = (u, r)" by fastforce
    obtain s0 where s0: "grant s u w r = (s0, Inr ())" "good s0" "roles s0 = (roles s)((u, w) \<mapsto> r)"
      using grant_ok [OF Cons.prems(1), of u w r] by (metis prod.collapse)
    have "in_line a (roles s0)" using in_line_upd [OF Cons.prems(2), of "(u, w)" "Some r"] Cons.prems(3) [of u r] by (simp add: s0 p)
    with Cons.IH [OF s0(2)] Cons.prems(3) obtain s1 where s1: "grant_roles grant w rs s0 = (s1, Inr ())" "good s1"
      "in_line a (roles s1)" "\<forall>(u, r) \<in> set rs. roles s1 (u, w) = Some r"
      "\<forall>k. k \<notin> (\<lambda>(u, r). (u, w)) ` set rs \<longrightarrow> roles s1 k = roles s0 k" by auto
    have "roles s1 (u, w) = Some r"
    proof (cases "(u, w) \<in> (\<lambda>(u, r). (u, w)) ` set rs")
      case True
      then obtain r' where "(u, r') \<in> set rs" by auto
      with s1(4) Cons.prems(3) [of u r] Cons.prems(3) [of u r'] show ?thesis by (auto simp: p)
    qed (use s1(5) s0(3) in auto)
    with s0 s1 show ?case by (intro exI [of _ s1]) (auto simp: p)
  qed simp
  then obtain s1 where s1: "grant_roles grant w rs s = (s1, Inr ())" "good s1" "in_line a (roles s1)"
    "\<forall>(u, r) \<in> set rs. roles s1 (u, w) = Some r" "\<forall>k. k \<notin> (\<lambda>(u, r). (u, w)) ` set rs \<longrightarrow> roles s1 k = roles s k"
    by blast
  show thesis by (rule that [OF s1(1-3)]) (use s1(4,5) in auto)
qed

lemma revoke_roles_in_line:
  assumes "good s" and "in_line a (roles s)"
    and "\<And>x u. x \<in> set es \<Longrightarrow> uid_of_email a x = Some u \<Longrightarrow> role_in a (u, w) = None"
  obtains s1 where "revoke_roles revoke q a w i es s = (s1, Inr ())" "good s1" "in_line a (roles s1)"
proof -
  have "\<exists>s1. revoke_roles revoke q a w i es s = (s1, Inr ()) \<and> good s1 \<and> in_line a (roles s1)"
    using assms
  proof (induction es arbitrary: s i)
    case (Cons x es)
    show ?case
    proof (cases "select_uid_from_email (q i) x a")
      case (Inl err)
      have "\<exists>s1. revoke_roles revoke q a w (Suc i) es s = (s1, Inr ()) \<and> good s1 \<and> in_line a (roles s1)"
        by (rule Cons.IH [OF Cons.prems(1,2)]) (use Cons.prems(3) in auto)
      then show ?thesis by (simp add: Inl)
    next
      case (Inr u)
      then have "uid_of_email a x = Some u"
        by (auto simp: select_uid_from_email_def fetch_one_def split: option.splits)
      then have n: "role_in a (u, w) = None" by (rule Cons.prems(3) [rotated]) simp
      obtain s0 where s0: "revoke s u w = (s0, Inr ())" "good s0" "roles s0 = (roles s)((u, w) := None)"
        using revoke_ok [OF Cons.prems(1), of u w] by (metis prod.collapse)
      have "in_line a (roles s0)" using in_line_upd [OF Cons.prems(2) n] by (simp add: s0)
      then have "\<exists>s1. revoke_roles revoke q a w (Suc i) es s0 = (s1, Inr ()) \<and> good s1 \<and> in_line a (roles s1)"
        by (rule Cons.IH [OF s0(2)]) (use Cons.prems(3) in auto)
      then show ?thesis by (simp add: Inr s0(1))
    qed
  qed simp
  with that show thesis by blast
qed

lemma loops_keep_good:
  assumes "good s"
  shows "good (fst (grant_roles grant w rs s))" "good (fst (revoke_roles revoke q a w i es s))"
proof -
  have g: "good (fst (grant x u w r)) \<and> snd (grant x u w r) = Inr ()" if "good x" for x u r using grant_ok [OF that] by blast
  show "good (fst (grant_roles grant w rs s))" using assms
  proof (induction rs arbitrary: s)
    case (Cons p rs)
    obtain x u r where x: "grant s (fst p) w (snd p) = (x, Inr ())" "good x" using g [OF Cons.prems] by (metis prod.collapse)
    then show ?case using Cons.IH by (cases p) simp
  qed simp
  have v: "good (fst (revoke x u w)) \<and> snd (revoke x u w) = Inr ()" if "good x" for x u using revoke_ok [OF that] by blast
  show "good (fst (revoke_roles revoke q a w i es s))" using assms
  proof (induction es arbitrary: s i)
    case (Cons x es)
    have "\<exists>y. revoke s u w = (y, Inr ()) \<and> good y" for u using v [OF Cons.prems, of u] by (metis prod.collapse)
    then show ?case using Cons.IH Cons.prems by (auto split: sum.splits) (metis (no_types, lifting) case_prod_conv fst_conv sum.case(2))
  qed simp
qed

lemma follow_in_line:
  assumes "good s" and "in_line a (roles s)" and "ac_member_changes a = n # ns"
  shows "good (follow s n)" "in_line (a\<lparr>ac_member_changes := ns\<rparr>) (roles (follow s n))"
  using follow_ok [OF assms(1), of n] assms(2,3) by (simp_all add: in_line_def)

end

text \<open>The roles that the enforcer holds.\<close>

definition roles_of :: "('e \<Rightarrow> rule list) \<Rightarrow> 'e af_enforcer \<Rightarrow> i64 \<times> string \<rightharpoonup> af_role" where
  "roles_of pol e k = map_option role_from_action (permission_of pol e (fst k) (ObjWorkspace (snd k)))"

lemma insert_role_result:
  assumes "casbin_ok api pol grp" and "enforcer_ok pol e"
  shows "enforcer_ok pol (fst (insert_workspace_role api e u w r))" "snd (insert_workspace_role api e u w r) = Inr ()"
    "permission_of pol (fst (insert_workspace_role api e u w r)) v ob =
      (if u = v \<and> ob = ObjWorkspace w then Some (role_to_action r) else permission_of pol e v ob)"
proof -
  have v: "validate_obj_action (ObjWorkspace w) (ActRole r) = Inr ()" by simp
  have f: "fst (insert_workspace_role api e u w r) = fst (en_update api e u (ObjWorkspace w) (ActRole r))"
    by (simp add: insert_workspace_role_def split: prod.splits sum.splits)
  show "enforcer_ok pol (fst (insert_workspace_role api e u w r))"
    unfolding f by (rule enforcer_ok_update [OF assms])
  show "snd (insert_workspace_role api e u w r) = Inr ()"
    using en_update_valid [OF assms v, of u] by (auto simp: insert_workspace_role_def split: prod.splits sum.splits)
  show "permission_of pol (fst (insert_workspace_role api e u w r)) v ob =
      (if u = v \<and> ob = ObjWorkspace w then Some (role_to_action r) else permission_of pol e v ob)"
    unfolding f permission_update [OF assms] by auto
qed

interpretation roles: role_control "insert_workspace_role api" "remove_role api" "on_workspace_member_change api"
  "\<lambda>e. casbin_ok api pol grp \<and> enforcer_ok pol e" "roles_of pol"
  for api :: "'e casbin_api" and pol grp
proof unfold_locales
  fix e :: "'e af_enforcer" and u w r
  assume g: "casbin_ok api pol grp \<and> enforcer_ok pol e"
  note i = insert_role_result [of api pol grp e u w r]
  show "(casbin_ok api pol grp \<and> enforcer_ok pol (fst (insert_workspace_role api e u w r))) \<and>
      snd (insert_workspace_role api e u w r) = Inr () \<and>
      roles_of pol (fst (insert_workspace_role api e u w r)) = (roles_of pol e)((u, w) \<mapsto> r)"
    using g i by (auto simp: roles_of_def fun_eq_iff)
  show "(casbin_ok api pol grp \<and> enforcer_ok pol (fst (remove_role api e u w))) \<and>
      snd (remove_role api e u w) = Inr () \<and> roles_of pol (fst (remove_role api e u w)) = (roles_of pol e)((u, w) := None)"
    using g permission_remove [of api pol grp e u "ObjWorkspace w"] enforcer_ok_remove [of api pol grp e u "ObjWorkspace w"]
      en_remove_result(1) [of api pol grp e u "ObjWorkspace w"]
    by (auto simp: remove_role_def ac_remove_def roles_of_def fun_eq_iff split: prod.splits sum.splits)
next
  fix e :: "'e af_enforcer" and n
  assume g: "casbin_ok api pol grp \<and> enforcer_ok pol e"
  then show "(casbin_ok api pol grp \<and> enforcer_ok pol (on_workspace_member_change api e n)) \<and>
      roles_of pol (on_workspace_member_change api e n) = announced n (roles_of pol e)"
    using enforcer_ok_remove [of api pol grp e] enforcer_ok_update [of api pol grp e]
    by (auto simp: on_workspace_member_change_def announced_def roles_of_def fun_eq_iff
        permission_update [of api pol grp e] permission_remove [of api pol grp e]
        split: member_action.splits option.splits)
qed

end
