(* ===== verification/AccountRuns.thy ===== *)
theory AccountRuns
  imports AccountLaws
begin

section \<open>What the account operations keep\<close>

text \<open>
  Every operation leaves the tables well formed, and what it changes of the memberships it announces: \<open>evolves\<close>.
  The events for which the direct changes of the permissions agree with the table are \<open>follows_ok\<close>.
\<close>

definition evolves :: "accounts \<Rightarrow> accounts \<Rightarrow> bool" where
  "evolves a a' \<longleftrightarrow> accounts_ok a' \<and> (\<forall>roles. in_line a roles \<longrightarrow> in_line a' roles)"

lemma evolves_refl: "accounts_ok a \<Longrightarrow> evolves a a"
  by (simp add: evolves_def)

lemma evolves_trans: "evolves a b \<Longrightarrow> evolves b c \<Longrightarrow> evolves a c"
  by (simp add: evolves_def)

lemma evolvesD: "evolves a a' \<Longrightarrow> accounts_ok a'" "evolves a a' \<Longrightarrow> in_line a roles \<Longrightarrow> in_line a' roles"
  by (simp_all add: evolves_def)

subsection \<open>Statements\<close>

lemma evolves_inserted:
  assumes ok: "accounts_ok a" and n: "membership a (wm_uid m) (wm_workspace_id m) = None"
    and w: "wm_workspace_id m \<in> wr_workspace_id ` set (ac_workspaces a)"
  shows "evolves a (member_inserted m a)"
  unfolding evolves_def
proof (intro conjI allI impI)
  show "accounts_ok (member_inserted m a)"
    using ok n w unfolding accounts_ok_def by (auto simp: member_inserted_def membership_None member_key_def [symmetric])
qed (rule in_line_inserted [OF _ n])

lemma evolves_updated:
  assumes ok: "accounts_ok a" and f: "\<And>m. member_key (f m) = member_key m"
  shows "evolves a (members_updated P f a)"
  unfolding evolves_def
proof (intro conjI allI impI)
  have k: "map member_key (map (\<lambda>m. if P m then f m else m) ms) = map member_key ms" for ms
    by (induction ms) (simp_all add: f)
  let ?a = "members_updated P f a"
  have m: "map member_key (ac_members ?a) = map member_key (ac_members a)" by (simp add: members_updated_def k del: map_map)
  then have i: "member_key ` set (ac_members ?a) = member_key ` set (ac_members a)" by (metis set_map)
  have e: "ac_users ?a = ac_users a" "ac_workspaces ?a = ac_workspaces a" by (simp_all add: members_updated_def)
  have "wm_workspace_id (f m) = wm_workspace_id m" for m using f [of m] by (simp add: member_key_def)
  then have "\<forall>m \<in> set (ac_members ?a). wm_workspace_id m \<in> wr_workspace_id ` set (ac_workspaces a)"
    using accounts_okD(6) [OF ok] by (auto simp: members_updated_def)
  then show "accounts_ok ?a" using ok unfolding accounts_ok_def m i e by blast
qed (rule in_line_updated [OF _ accounts_okD(5) [OF ok] f])

lemma evolves_deleted:
  assumes ok: "accounts_ok a"
    and P: "\<And>m. m \<in> set (ac_members a) \<Longrightarrow> P m \<Longrightarrow> workspace_owner a (wm_workspace_id m) \<noteq> Some (wm_uid m)"
  shows "evolves a (members_deleted P a)"
  unfolding evolves_def
proof (intro conjI allI impI)
  have "(the (wr_owner_uid r), wr_workspace_id r) \<in> member_key ` set (filter (\<lambda>m. \<not> P m) (ac_members a))"
    if r: "r \<in> set (ac_workspaces a)" for r
  proof -
    obtain owner where r: "r \<in> set (ac_workspaces a)" "wr_owner_uid r = Some owner"
      "(owner, wr_workspace_id r) \<in> member_key ` set (ac_members a)"
      using r accounts_okD(7) [OF ok] by blast
    obtain m where m: "m \<in> set (ac_members a)" "member_key m = (owner, wr_workspace_id r)" using r(3) by auto
    have "workspace_owner a (wr_workspace_id r) = Some owner"
      using find_distinct_key [OF accounts_okD(4) [OF ok] r(1)] r(2) by (simp add: workspace_owner_def)
    with m P [of m] r(2) show ?thesis by (auto simp: member_key_def image_iff)
  qed
  then show "accounts_ok (members_deleted P a)"
    using ok unfolding accounts_ok_def by (auto simp: members_deleted_def distinct_map_filter)
qed (rule in_line_deleted [OF _ accounts_okD(5) [OF ok]])

lemma workspace_inserted_evolves:
  assumes ok: "accounts_ok a" and u: "uid \<in> us_uid ` set (ac_users a)" and w: "w \<notin> wr_workspace_id ` set (ac_workspaces a)"
    and r: "workspace_inserted w storage_id now uid name a = (a', r)"
  shows "evolves a a'"
  unfolding evolves_def
proof (intro conjI allI impI)
  have k: "member_key \<lparr>wm_uid = x, wm_role_id = i, wm_workspace_id = w, wm_created_at = t, wm_updated_at = t\<rparr> = (x, w)"
    for x i t by (simp add: member_key_def)
  have n: "(uid, w) \<notin> member_key ` set (ac_members a)" "w \<notin> wm_workspace_id ` set (ac_members a)"
    using accounts_okD(6) [OF ok] w by (auto simp: member_key_def)
  show "accounts_ok a'"
    using ok u w n r unfolding accounts_ok_def
    by (auto simp: workspace_inserted_def member_inserted_def k Let_def)
  fix roles assume "in_line a roles"
  then have "in_line (a\<lparr>ac_workspaces := ac_workspaces a @ [r]\<rparr>) roles" by (rule in_line_cong) simp_all
  then show "in_line a' roles"
    using r n(1) by (auto simp: workspace_inserted_def Let_def membership_None intro!: in_line_inserted)
qed

lemma insert_user_workspace_evolves:
  assumes ok: "accounts_ok a" and r: "insert_user_workspace q w sid now uuid name a = Inr (a', r)"
  shows "evolves a a'"
proof -
  obtain uid where u: "uid_of_uuid a uuid = Some uid" "w \<notin> wr_workspace_id ` set (ac_workspaces a)"
    "workspace_inserted w sid now uid name a = (a', r)"
    using r by (auto simp: insert_user_workspace_def split: option.splits if_splits)
  then have "uid \<in> us_uid ` set (ac_users a)" by (auto simp: uid_of_uuid_def dest: find_SomeD)
  from workspace_inserted_evolves [OF ok this u(2,3)] show ?thesis .
qed

lemma insert_member_result:
  assumes ok: "accounts_ok a" and r: "insert_workspace_member_with_txn q now w email role a = Inr a'"
    and u: "uid_of_email a email = Some u"
  shows "evolves a a'" "uid_of_email a' = uid_of_email a" "role_in a k = Some v \<Longrightarrow> role_in a' k = Some v"
    "role_in a (u, w) \<in> {None, Some role} \<Longrightarrow> role_in a' (u, w) = Some role"
    "k \<noteq> (u, w) \<Longrightarrow> role_in a' k = role_in a k"
proof -
  have as: "as_i32 (i32_of_role role) = i32_of_role role" by (cases role) (simp_all add: as_i32_def)
  have "evolves a a' \<and> uid_of_email a' = uid_of_email a \<and>
      role_in a' = (case role_in a (u, w) of None \<Rightarrow> (role_in a)((u, w) \<mapsto> role) | Some _ \<Rightarrow> role_in a)"
  proof (cases "membership a u w")
    case (Some m)
    then have "a' = a" using r u by (auto simp: insert_workspace_member_with_txn_def split: option.splits)
    with Some show ?thesis by (simp add: evolves_refl [OF ok] role_in_def)
  next
    case None
    let ?m = "\<lparr>wm_uid = u, wm_role_id = i32_of_role role, wm_workspace_id = w, wm_created_at = now, wm_updated_at = now\<rparr>"
    have a': "a' = member_inserted ?m a" "w \<in> wr_workspace_id ` set (ac_workspaces a)"
      using r u None by (auto simp: insert_workspace_member_with_txn_def split: option.splits if_splits)
    have "evolves a a'" unfolding a'(1) by (rule evolves_inserted [OF ok]) (use None a'(2) in simp_all)
    moreover have "role_in a' = (role_in a)((u, w) \<mapsto> role)"
      using None by (auto simp: a'(1) role_in_def membership_find member_inserted_def fun_eq_iff find_append member_key_def as
          split: option.splits)
    ultimately show ?thesis using None by (simp add: a'(1) member_inserted_def uid_of_email_def role_in_def fun_eq_iff)
  qed
  then show "evolves a a'" "uid_of_email a' = uid_of_email a" "role_in a k = Some v \<Longrightarrow> role_in a' k = Some v"
    "role_in a (u, w) \<in> {None, Some role} \<Longrightarrow> role_in a' (u, w) = Some role" "k \<noteq> (u, w) \<Longrightarrow> role_in a' k = role_in a k"
    by (auto split: option.splits if_splits)
qed

lemma delete_member_result:
  assumes ok: "accounts_ok a" and r: "delete_workspace_members q w email a = Inr a'"
  shows "evolves a a'" "uid_of_email a' = uid_of_email a" "uid_of_email a email = Some u \<Longrightarrow> role_in a' (u, w) = None"
    "role_in a k = None \<Longrightarrow> role_in a' k = None"
    "uid_of_email a email = Some u \<Longrightarrow> workspace_owner a w \<noteq> Some u"
proof -
  let ?P = "\<lambda>m. wm_workspace_id m = w \<and> Some (wm_uid m) = uid_of_email a email \<and>
      (\<exists>owner. workspace_owner a w = Some owner \<and> wm_uid m \<noteq> owner)"
  have r': "\<not> (\<exists>r \<in> set (ac_workspaces a). wr_workspace_id r = w \<and> uid_of_email a email \<noteq> None \<and>
      wr_owner_uid r = uid_of_email a email)" "a' = members_deleted ?P a"
    using r by (auto simp: delete_workspace_members_def fetch_one_def stmt_def split: option.splits if_splits
        elim!: res_bind_InrE)
  show "evolves a a'" unfolding r'(2) by (rule evolves_deleted [OF ok]) auto
  show "uid_of_email a' = uid_of_email a" by (simp add: r'(2) members_deleted_def uid_of_email_def fun_eq_iff)
  show no: "workspace_owner a w \<noteq> Some u" if "uid_of_email a email = Some u"
    using r'(1) that by (auto simp: workspace_owner_def bind_eq_Some_conv dest!: find_SomeD)
  show "role_in a' (u, w) = None" if u: "uid_of_email a email = Some u"
  proof -
    have "?P m" if m: "m \<in> set (ac_members a)" "member_key m = (u, w)" for m
    proof -
      obtain r where r: "r \<in> set (ac_workspaces a)" "wr_workspace_id r = w"
        using accounts_okD(6) [OF ok m(1)] m(2) by (auto simp: member_key_def)
      obtain owner where "workspace_owner a w = Some owner"
        using find_distinct_key [OF accounts_okD(4) [OF ok] r(1)] accounts_okD(7) [OF ok r(1)] r(2)
        by (auto simp: workspace_owner_def)
      with no [OF u] m(2) u show ?thesis by (auto simp: member_key_def)
    qed
    then have "(u, w) \<notin> member_key ` set (ac_members a')"
      unfolding r'(2) members_deleted_def by fastforce
    then show ?thesis by (simp add: role_in_None)
  qed
  show "role_in a k = None \<Longrightarrow> role_in a' k = None"
    by (auto simp: role_in_None r'(2) members_deleted_def)
qed

lemma update_member_result:
  assumes ok: "accounts_ok a" and r: "upsert_workspace_member q w email (Some role) a = Inr a'"
  shows "evolves a a'" "uid_of_email a' = uid_of_email a"
    "uid_of_email a email = Some u \<Longrightarrow> role_in a (u, w) \<noteq> None \<Longrightarrow> role_in a' (u, w) = Some role"
proof -
  let ?P = "\<lambda>m. wm_workspace_id m = w \<and> Some (wm_uid m) = uid_of_email a email"
  let ?f = "\<lambda>m. m\<lparr>wm_role_id := i32_of_role role\<rparr>"
  have a': "a' = members_updated ?P ?f a" using r by (auto simp: upsert_workspace_member_def split: option.splits)
  show "evolves a a'" unfolding a' by (rule evolves_updated [OF ok]) (simp add: member_key_def)
  show "uid_of_email a' = uid_of_email a" by (simp add: a' members_updated_def uid_of_email_def fun_eq_iff)
  assume u: "uid_of_email a email = Some u" and "role_in a (u, w) \<noteq> None"
  then obtain m where m: "membership a u w = Some m" by (auto simp: role_in_def)
  then have k: "?P m" using u unfolding membership_def by (auto dest!: find_SomeD)
  have "find (\<lambda>x. member_key x = (u, w)) (map (\<lambda>m. if ?P m then ?f m else m) (ac_members a)) =
      map_option (\<lambda>m. if ?P m then ?f m else m) (membership a u w)"
    unfolding membership_find by (rule find_map_key) (simp add: member_key_def)
  with m k have "membership a' u w = Some (?f m)" by (simp add: membership_find a' members_updated_def)
  moreover have "as_i32 (i32_of_role role) = i32_of_role role" by (cases role) (simp_all add: as_i32_def)
  ultimately show "role_in a' (u, w) = Some role" by (simp add: role_in_def)
qed

lemma delete_workspace_evolves:
  assumes ok: "accounts_ok (fst t)" and r: "delete_from_workspace q w t = (t', r)"
  shows "evolves (fst t) (fst t')"
proof (cases "w \<in> wr_workspace_id ` set (ac_workspaces (fst t)) \<and> q = None")
  case False
  then have "fst t' = fst t"
    using r by (auto simp: delete_from_workspace_def Let_def filter_empty_conv split: option.splits prod.splits)
  with ok show ?thesis by (simp add: evolves_refl)
next
  case True
  let ?a = "fst t" let ?b = "?a\<lparr>ac_workspaces := filter (\<lambda>r. wr_workspace_id r \<noteq> w) (ac_workspaces ?a)\<rparr>"
  let ?P = "\<lambda>m. wm_workspace_id m = w"
  have a': "fst t' = members_deleted ?P ?b"
    using r True by (auto simp: delete_from_workspace_def Let_def filter_empty_conv split: option.splits prod.splits)
  have "accounts_ok (members_deleted ?P ?b)"
    using ok unfolding accounts_ok_def
    by (auto simp: members_deleted_def distinct_map_filter image_iff member_key_def)
  moreover have "in_line (members_deleted ?P ?b) roles" if "in_line ?a roles" for roles
    by (rule in_line_deleted) (use in_line_cong [OF that, of ?b] accounts_okD(5) [OF ok] in simp_all)
  ultimately show ?thesis unfolding a' evolves_def by blast
qed

lemma update_user_evolves:
  assumes ok: "accounts_ok a" and r: "update_user q now uuid name email md a = Inr a'"
  shows "evolves a a'"
proof (cases "update_user_query name email md uuid")
  case None
  with r ok show ?thesis by (simp add: update_user_def evolves_refl)
next
  case (Some qr)
  let ?f = "\<lambda>u. if us_uuid u = uuid then user_set name email md now u else u"
  have a': "distinct (map us_email (map ?f (ac_users a)))" "ac_users a' = map ?f (ac_users a)"
    "ac_workspaces a' = ac_workspaces a" "ac_members a' = ac_members a" "ac_member_changes a' = ac_member_changes a"
    using r Some by (auto simp: update_user_def Let_def split: option.splits if_splits)
  have m: "map us_uid (ac_users a') = map us_uid (ac_users a)" "map us_uuid (ac_users a') = map us_uuid (ac_users a)"
    by (simp_all add: a'(2) user_set_def)
  have i: "us_uid ` set (ac_users a') = us_uid ` set (ac_users a)" using m(1) by (metis set_map)
  have "accounts_ok a'" using ok a'(1) unfolding accounts_ok_def m i a'(3,4) unfolding a'(2) by blast
  moreover have "in_line a' roles" if "in_line a roles" for roles by (rule in_line_cong [OF that a'(4,5)])
  ultimately show ?thesis by (simp add: evolves_def)
qed

lemma create_user_evolves:
  assumes ok: "accounts_ok (fst t)" and new: "uuid \<notin> us_uuid ` set (ac_users (fst t))"
    and r: "create_user q w sid now uid uuid email name t = Inr (t', w')"
  shows "evolves (fst t) (fst t')" "w' = w" "role_in (fst t') (uid, w) = Some Owner" "uid_of_uuid (fst t') uuid = Some uid"
    "workspace_owner (fst t') w = Some uid" "db_members (snd t') (uid, w) = Some 4" "membership (fst t) uid w = None"
proof -
  let ?a = "fst t"
  let ?u = "\<lparr>us_uid = uid, us_uuid = uuid, us_email = email, us_password = [], us_name = name,
      us_metadata = Map.empty, us_encryption_sign = None, us_updated_at = now\<rparr>"
  let ?b = "?a\<lparr>ac_users := ac_users ?a @ [?u]\<rparr>"
  obtain a1 row where i: "workspace_inserted w sid now uid ''My Workspace'' ?b = (a1, row)" by fastforce
  have h: "email \<notin> us_email ` set (ac_users ?a)" "uid \<notin> us_uid ` set (ac_users ?a)"
    "w \<notin> wr_workspace_id ` set (ac_workspaces ?a)" "fst t' = a1" "w' = w"
    "snd t' = (snd t)\<lparr>db_members := (db_members (snd t))((uid, w) \<mapsto> the (map_of af_role_permissions ''Owner''))\<rparr>"
    using r i by (auto simp: create_user_def Let_def split: option.splits if_splits prod.splits)
  have b: "accounts_ok ?b" using ok h(1,2) new unfolding accounts_ok_def by auto
  have "evolves ?b a1" by (rule workspace_inserted_evolves [OF b _ _ i]) (simp_all add: h(3))
  moreover have "in_line ?b roles" if "in_line ?a roles" for roles by (rule in_line_cong [OF that]) simp_all
  ultimately show "evolves ?a (fst t')" by (simp add: evolves_def h(4))
  show "w' = w" by (rule h(5))
  have "(uid, w) \<notin> member_key ` set (ac_members ?a)" using accounts_okD(6) [OF ok] h(3) by (auto simp: member_key_def)
  then show n: "membership ?a uid w = None" by (simp add: membership_None)
  then have "membership (fst t') uid w = Some \<lparr>wm_uid = uid, wm_role_id = 1, wm_workspace_id = w, wm_created_at = now,
      wm_updated_at = now\<rparr>"
    using i by (auto simp: h(4) workspace_inserted_def member_inserted_def Let_def membership_def find_append af_roles_def)
  then show "role_in (fst t') (uid, w) = Some Owner" by (simp add: role_in_def as_i32_def role_of_i32_def)
  have "find (\<lambda>u. us_uuid u = uuid) (ac_users ?a) = None" using new by (auto simp: find_None)
  then show "uid_of_uuid (fst t') uuid = Some uid"
    using i by (auto simp: h(4) workspace_inserted_def member_inserted_def Let_def uid_of_uuid_def find_append)
  have "find (\<lambda>r. wr_workspace_id r = w) (ac_workspaces ?a) = None" using h(3) by (auto simp: find_None)
  then show "workspace_owner (fst t') w = Some uid"
    using i by (auto simp: h(4) workspace_inserted_def member_inserted_def Let_def workspace_owner_def find_append)
  show "db_members (snd t') (uid, w) = Some 4" by (simp add: h(6) af_role_permissions_def)
qed

subsection \<open>Loops\<close>

lemma select_uid_Inr: "select_uid_from_email q email a = Inr u \<Longrightarrow> uid_of_email a email = Some u"
  by (auto simp: select_uid_from_email_def fetch_one_def split: option.splits)

lemma add_members_loopE:
  assumes "add_members_loop q now w i (m # ms) t roles = Inr (t', roles')"
  obtains u a db where "uid_of_email (fst t) (cwm_email m) = Some u"
    "insert_workspace_member_with_txn (q i 1) now w (cwm_email m) (cwm_role m) (fst t) = Inr a"
    "db_upsert_collab_member (\<lambda>n. q i (n + 2)) u w (level_of_role (cwm_role m)) (snd t) = Inr db"
    "add_members_loop q now w (Suc i) ms (a, db) (AList.update u (cwm_role m) roles) = Inr (t', roles')"
  using assms by (auto elim!: res_bind_InrE dest!: select_uid_Inr)

lemma add_members_evolves:
  assumes "accounts_ok (fst t)" and "add_members_loop q now w i ms t roles = Inr (t', roles')"
  shows "evolves (fst t) (fst t')"
  using assms
proof (induction ms arbitrary: i t roles)
  case Nil
  then show ?case by (simp add: evolves_refl)
next
  case (Cons m ms)
  obtain u a db where u: "uid_of_email (fst t) (cwm_email m) = Some u"
    "insert_workspace_member_with_txn (q i 1) now w (cwm_email m) (cwm_role m) (fst t) = Inr a"
    "add_members_loop q now w (Suc i) ms (a, db) (AList.update u (cwm_role m) roles) = Inr (t', roles')"
    using Cons.prems(2) by (rule add_members_loopE)
  have e: "evolves (fst t) a" by (rule insert_member_result(1) [OF Cons.prems(1) u(2,1)])
  have "evolves a (fst t')" using Cons.IH [OF _ u(3)] evolvesD(1) [OF e] by simp
  with e show ?case by (rule evolves_trans)
qed

lemma add_members_keys:
  "add_members_loop q now w i ms t roles = Inr (t', roles') \<Longrightarrow> fst ` set roles \<subseteq> fst ` set roles'"
proof (induction ms arbitrary: i t roles)
  case (Cons m ms)
  from Cons.prems obtain u a db where
    "add_members_loop q now w (Suc i) ms (a, db) (AList.update u (cwm_role m) roles) = Inr (t', roles')"
    by (rule add_members_loopE)
  from Cons.IH [OF this] show ?case by (auto simp: dom_update)
qed simp

text \<open>The members of the list have no other role, and each is listed once.\<close>

definition addable :: "accounts \<Rightarrow> string \<Rightarrow> create_workspace_member list \<Rightarrow> bool" where
  "addable a w ms \<longleftrightarrow> distinct (map cwm_email ms) \<and>
     (\<forall>m \<in> set ms. \<forall>u. uid_of_email a (cwm_email m) = Some u \<longrightarrow> role_in a (u, w) \<in> {None, Some (cwm_role m)})"

lemma add_members_roles:
  assumes "accounts_ok (fst t)" and "add_members_loop q now w i ms t roles = Inr (t', roles')" and "addable (fst t) w ms"
    and "\<forall>(u, r) \<in> set roles. role_in (fst t) (u, w) = Some r" and "distinct (map fst roles)"
  shows "(\<forall>(u, r) \<in> set roles'. role_in (fst t') (u, w) = Some r) \<and> distinct (map fst roles') \<and>
    (\<forall>m \<in> set ms. \<exists>u. uid_of_email (fst t) (cwm_email m) = Some u \<and> (u, cwm_role m) \<in> set roles') \<and>
    (\<forall>k v. role_in (fst t) k = Some v \<longrightarrow> role_in (fst t') k = Some v)"
  using assms
proof (induction ms arbitrary: i t roles)
  case (Cons m ms)
  obtain u a db where u: "uid_of_email (fst t) (cwm_email m) = Some u"
    "insert_workspace_member_with_txn (q i 1) now w (cwm_email m) (cwm_role m) (fst t) = Inr a"
    "add_members_loop q now w (Suc i) ms (a, db) (AList.update u (cwm_role m) roles) = Inr (t', roles')"
    using Cons.prems(2) by (rule add_members_loopE)
  note r = insert_member_result [OF Cons.prems(1) u(2,1)]
  have ok: "accounts_ok a" by (rule evolvesD(1) [OF r(1)])
  have mine: "role_in a (u, w) = Some (cwm_role m)"
    by (rule r(4)) (use Cons.prems(3) u(1) in \<open>simp add: addable_def\<close>)
  have other: "v \<noteq> u" if "x \<in> set ms" "uid_of_email a (cwm_email x) = Some v" for x v
  proof
    assume "v = u"
    then have "cwm_email x = cwm_email m"
      using uid_of_email_unique [OF Cons.prems(1), of "cwm_email x" u "cwm_email m"] u(1) that(2) r(2) by simp
    then show False using Cons.prems(3) that(1) by (auto simp: addable_def image_iff)
  qed
  have ad: "addable (fst (a, db)) w ms"
    using Cons.prems(3) other r(2) r(5) by (auto simp: addable_def)
  have up: "set (AList.update u (cwm_role m) roles) \<subseteq> insert (u, cwm_role m) (set roles)"
    by (induction roles) auto
  have "\<forall>(v, x) \<in> set (AList.update u (cwm_role m) roles). role_in (fst (a, db)) (v, w) = Some x"
    using up mine r(3) Cons.prems(4) by fastforce
  moreover have "distinct (map fst (AList.update u (cwm_role m) roles))"
    by (rule distinct_update [OF Cons.prems(5)])
  ultimately have IH: "(\<forall>(u, r) \<in> set roles'. role_in (fst t') (u, w) = Some r) \<and> distinct (map fst roles') \<and>
    (\<forall>m \<in> set ms. \<exists>u. uid_of_email (fst (a, db)) (cwm_email m) = Some u \<and> (u, cwm_role m) \<in> set roles') \<and>
    (\<forall>k v. role_in (fst (a, db)) k = Some v \<longrightarrow> role_in (fst t') k = Some v)"
    using Cons.IH [OF _ u(3) ad] ok by simp
  have "u \<in> fst ` set roles'" using add_members_keys [OF u(3)] by (auto simp: dom_update)
  with IH mine have "(u, cwm_role m) \<in> set roles'" by (auto dest: bspec)
  with IH u(1) r(2,3) show ?case by auto
qed simp

lemma remove_members_result:
  assumes "accounts_ok a" and "remove_members_loop q w i es a = Inr a'"
  shows "evolves a a' \<and> uid_of_email a' = uid_of_email a \<and> (\<forall>k. role_in a k = None \<longrightarrow> role_in a' k = None) \<and>
    (\<forall>x \<in> set es. \<forall>u. uid_of_email a x = Some u \<longrightarrow> role_in a' (u, w) = None)"
  using assms
proof (induction es arbitrary: i a)
  case Nil
  then show ?case by (simp add: evolves_refl)
next
  case (Cons x es)
  obtain b where b: "delete_workspace_members (q i) w x a = Inr b" "remove_members_loop q w (Suc i) es b = Inr a'"
    using Cons.prems(2) by (auto elim: res_bind_InrE)
  note d = delete_member_result [OF Cons.prems(1) b(1)]
  from Cons.IH [OF evolvesD(1) [OF d(1)] b(2)] d(2-4) show ?case by (auto intro: evolves_trans [OF d(1)])
qed

subsection \<open>Storing a document leaves the roles alone\<close>

lemma level_operations_keep_roles:
  assumes "casbin_ok api pol grp" and "enforcer_ok pol e"
  shows "roles_of pol (fst (get_collab_access_level api e uid oid)) = roles_of pol e"
    "roles_of pol (fst (insert_collab_access_level api e uid oid l)) = roles_of pol e"
    "roles_of pol (fst (get_user_workspace_role ce api e uid w)) = roles_of pol e"
proof -
  have "fst (get_collab_access_level api e uid oid) = fst (en_get_action api e uid (ObjCollab oid))"
    by (auto simp: get_collab_access_level_def get_access_level_def split: prod.splits option.splits)
  then show "roles_of pol (fst (get_collab_access_level api e uid oid)) = roles_of pol e"
    using get_action_keeps(1) [OF assms] by (simp add: roles_of_def fun_eq_iff)
  have "fst (insert_collab_access_level api e uid oid l) = fst (en_update api e uid (ObjCollab oid) (ActLevel l))"
    by (simp add: insert_collab_access_level_def split: prod.splits sum.splits)
  then show "roles_of pol (fst (insert_collab_access_level api e uid oid l)) = roles_of pol e"
    using permission_update [OF assms] by (simp add: roles_of_def fun_eq_iff)
  have "fst (get_user_workspace_role ce api e uid w) = e \<or>
      (\<exists>v. fst (get_user_workspace_role ce api e uid w) = fst (get_workspace_role api e uid v))"
    by (auto simp: get_user_workspace_role_def split: sum.splits)
  moreover have "roles_of pol (fst (get_workspace_role api e uid v)) = roles_of pol e" for v
    using workspace_role_result(2) [OF assms prod.collapse [symmetric]] by (simp add: roles_of_def fun_eq_iff)
  ultimately show "roles_of pol (fst (get_user_workspace_role ce api e uid w)) = roles_of pol e" by metis
qed

lemma check_permission_keeps_roles:
  assumes api: "casbin_ok api pol grp" and ok: "enforcer_ok pol e"
  shows "enforcer_ok pol (fst (st_check_collab_permission ce api f db w uid p e)) \<and>
    roles_of pol (fst (st_check_collab_permission ce api f db w uid p e)) = roles_of pol e"
proof -
  let ?e = "fst (st_check_collab_permission ce api f db w uid p e)"
  obtain e1 r1 where c: "get_or_refresh_collab_access_level api (fl_member f) db e uid (cp_object_id p) = (e1, r1)" by fastforce
  obtain e2 r2 where g: "get_user_workspace_role ce api e uid w = (e2, r2)" by fastforce
  have "enforcer_ok pol (fst (get_user_workspace_role ce api e uid w))"
    using workspace_role_result(1) [OF api ok prod.collapse [symmetric]] ok
    by (simp add: get_user_workspace_role_def split: sum.splits)
  then have g2: "enforcer_ok pol e2" "roles_of pol e2 = roles_of pol e"
    using level_operations_keep_roles(3) [OF api ok, of ce uid w] by (simp_all add: g)
  obtain l1 x1 where l: "get_collab_access_level api e uid (cp_object_id p) = (l1, x1)" by fastforce
  have l1: "enforcer_ok pol l1" "roles_of pol l1 = roles_of pol e"
    using level_operations_keep_roles(1) [OF api ok, of uid "cp_object_id p"]
      levels.lookup_good [of api pol grp e uid "cp_object_id p"] api ok l by simp_all
  have i: "enforcer_ok pol (fst (insert_collab_access_level api e' uid oid lv)) \<and>
      roles_of pol (fst (insert_collab_access_level api e' uid oid lv)) = roles_of pol e'"
    if "enforcer_ok pol e'" for e' oid lv
    using level_operations_keep_roles(2) [OF api that] levels.grant_good [of api pol grp e' uid oid lv] api that by simp
  have e1: "enforcer_ok pol e1" "roles_of pol e1 = roles_of pol e"
    using c l l1 i [OF l1(1)]
    by (auto simp: get_or_refresh_collab_access_level_def refresh_access_level_def split: sum.splits if_splits prod.splits)
      (metis fst_conv)+
  have "?e \<in> {e, e1, e2} \<or> ?e = fst (insert_collab_access_level api e2 uid (cp_object_id p) FullAccess)"
    unfolding st_check_collab_permission_def c g cache_collab_access_level_def
    by (auto split: sum.splits bool.splits prod.splits)
  with e1 g2 ok i [OF g2(1)] show ?thesis by auto
qed

lemma templates_keep_roles:
  assumes "casbin_ok api pol grp" and "enforcer_ok pol (st_enforcer st)"
    and "store_templates ce api f w uid i tps db st = (st', r)"
  shows "enforcer_ok pol (st_enforcer st') \<and> roles_of pol (st_enforcer st') = roles_of pol (st_enforcer st) \<and>
    st_db st' = st_db st"
  using assms
proof (induction tps arbitrary: i db st)
  case (Cons tp tps)
  have u: "enforcer_ok pol (st_enforcer st1) \<and> roles_of pol (st_enforcer st1) = roles_of pol (st_enforcer st) \<and> st_db st1 = st_db st"
    if "upsert_collab_with_transaction ce api (f i) w uid p db st = (st1, r1)" for p st1 r1
    using check_permission_keeps_roles [OF Cons.prems(1,2), of ce "f i" db w uid p] that Cons.prems(2)
    by (auto simp: upsert_collab_with_transaction_def mem_cache_bytes_def split: sum.splits prod.splits)
  from Cons.prems(3) show ?case
    using u Cons.IH [OF Cons.prems(1)] Cons.prems(2) by (fastforce split: sum.splits prod.splits)
qed simp

end
