(* ===== verification/AccountSync.thy ===== *)
theory AccountSync
  imports AccountRuns
begin

section \<open>Every run of users, workspaces and members\<close>

text \<open>
  What each operation of \<open>AccountOps\<close> keeps: the tables and the enforcer stay well formed (\<open>cloud_ok\<close>), and the roles
  of the enforcer stay in line with the table where the operation allows it (\<open>synced\<close>). \<open>step_invariant\<close> carries both to
  runs.
\<close>

subsection \<open>Runs\<close>

definition cloud_ok :: "'e casbin_api \<Rightarrow> ('e \<Rightarrow> rule list) \<Rightarrow> ('e \<Rightarrow> rule list) \<Rightarrow> 'e cloud \<Rightarrow> bool" where
  "cloud_ok api pol grp s \<longleftrightarrow> casbin_ok api pol grp \<and> enforcer_ok pol (cd_enforcer s) \<and> accounts_ok (cd_accounts s)"

text \<open>The roles of the enforcer, once the pending notifications are handled, are those of the table.\<close>

definition synced :: "'e casbin_api \<Rightarrow> ('e \<Rightarrow> rule list) \<Rightarrow> ('e \<Rightarrow> rule list) \<Rightarrow> 'e cloud \<Rightarrow> bool" where
  "synced api pol grp s \<longleftrightarrow> cloud_ok api pol grp s \<and> in_line (cd_accounts s) (roles_of pol (cd_enforcer s))"

text \<open>
  The direct changes of the permissions agree with the table: a sign-in does not fail half-way, nobody is added
  who already has another role, and the role of a member is changed, not of a stranger.
\<close>

fun follows_ok :: "collab_api \<Rightarrow> 'e casbin_api \<Rightarrow> 'e cloud \<Rightarrow> cloud_event \<Rightarrow> bool" where
  "follows_ok ce api s (EvSignIn f tx now info uid w sid tps) \<longleftrightarrow> is_ok (snd (verify_token ce api f tx now info uid w sid tps s))"
| "follows_ok ce api s (EvAddMembers tx now w ms) \<longleftrightarrow> addable (cd_accounts s) w ms"
| "follows_ok ce api s (EvUpdateMember q w c) \<longleftrightarrow>
     (case uid_of_email (cd_accounts s) (wmc_email c) of
        None \<Rightarrow> True | Some u \<Rightarrow> wmc_role c \<noteq> None \<longrightarrow> role_in (cd_accounts s) (u, w) \<noteq> None)"
| "follows_ok ce api s _ \<longleftrightarrow> True"

lemma cd_simps [simp]:
  "cd_enforcer (set_enforcer e s) = e" "cd_accounts (set_enforcer e s) = cd_accounts s"
  "cd_enforcer (s\<lparr>cd_accounts := a\<rparr>) = cd_enforcer s" "cd_enforcer (set_tables t s) = cd_enforcer s"
  "cd_accounts (set_tables t s) = fst t" "cd_tables s = (cd_accounts s, st_db (cd_storage s))"
  "cd_enforcer (s\<lparr>cd_storage := st\<rparr>) = st_enforcer st"
  by (simp_all add: set_enforcer_def cd_enforcer_def set_tables_def cd_tables_def)

lemma cloud_okI: "casbin_ok api pol grp \<Longrightarrow> enforcer_ok pol e \<Longrightarrow> accounts_ok a \<Longrightarrow> cd_enforcer s = e \<Longrightarrow> cd_accounts s = a \<Longrightarrow>
    cloud_ok api pol grp s"
  by (simp add: cloud_ok_def)

lemma create_new_user_result:
  assumes ok: "cloud_ok api pol grp s" and new: "uuid \<notin> us_uuid ` set (ac_users (cd_accounts s))"
    and c: "create_new_user ce api f q now user uuid new_uid w sid tps s = (s1, r)"
  shows "cloud_ok api pol grp s1" "cd_accounts s1 = cd_accounts s"
    "r = Inr t \<Longrightarrow> evolves (cd_accounts s) (fst t) \<and> role_in (fst t) (new_uid, w) = Some Owner \<and>
       roles_of pol (cd_enforcer s1) = (roles_of pol (cd_enforcer s))((new_uid, w) \<mapsto> Owner)"
proof -
  have api: "casbin_ok api pol grp" and en: "enforcer_ok pol (cd_enforcer s)" and ac: "accounts_ok (cd_accounts s)"
    using ok by (simp_all add: cloud_ok_def)
  obtain e1 where e1: "insert_workspace_role api (cd_enforcer s) new_uid w Owner = (e1, Inr ())" "enforcer_ok pol e1"
    "roles_of pol e1 = (roles_of pol (cd_enforcer s))((new_uid, w) \<mapsto> Owner)"
    using roles.grant_ok [of api pol grp "cd_enforcer s" new_uid w Owner] api en by (metis prod.collapse)
  have "cloud_ok api pol grp s1 \<and> cd_accounts s1 = cd_accounts s \<and> (\<forall>t. r = Inr t \<longrightarrow>
      evolves (cd_accounts s) (fst t) \<and> role_in (fst t) (new_uid, w) = Some Owner \<and> roles_of pol (cd_enforcer s1) = roles_of pol e1)"
  proof (cases "create_user q w sid now new_uid uuid (ui_email user) (name_from_user_metadata (ui_user_metadata user)) (cd_tables s)")
    case (Inl err)
    with c ok show ?thesis by (auto simp: create_new_user_def)
  next
    case (Inr p)
    obtain t w' where p: "p = (t, w')" by fastforce
    note u = create_user_evolves [of "cd_tables s", OF _ _ Inr [unfolded p]]
    have w: "w' = w" using u(2) ac new by simp
    show ?thesis
    proof (cases tps)
      case (Inl err)
      then have "s1 = set_enforcer e1 s" "r = Inl err" using c Inr p w e1(1) by (simp_all add: create_new_user_def)
      then show ?thesis using api ac e1(2) by (simp add: cloud_ok_def)
    next
      case tl: (Inr tl)
      obtain st tr where st: "store_templates ce api f w new_uid 0 tl (snd t) (cd_storage (set_enforcer e1 s)) = (st, tr)"
        by fastforce
      have "enforcer_ok pol (st_enforcer st) \<and> roles_of pol (st_enforcer st) = roles_of pol e1"
        using templates_keep_roles [OF api _ st] e1(2) by (simp add: set_enforcer_def)
      moreover have "s1 = s\<lparr>cd_storage := st\<rparr> \<and> (\<forall>x. r = Inr x \<longrightarrow> fst x = fst t)"
        using c Inr p w e1(1) tl st by (auto simp: create_new_user_def split: sum.splits)
      ultimately show ?thesis using api ac u(1,3) new by (auto simp: cloud_ok_def)
    qed
  qed
  then show "cloud_ok api pol grp s1" "cd_accounts s1 = cd_accounts s"
    "r = Inr t \<Longrightarrow> evolves (cd_accounts s) (fst t) \<and> role_in (fst t) (new_uid, w) = Some Owner \<and>
       roles_of pol (cd_enforcer s1) = (roles_of pol (cd_enforcer s))((new_uid, w) \<mapsto> Owner)"
    by (simp_all add: e1(3))
qed

lemma set_same_tables [simp]: "set_tables (cd_accounts s, st_db (cd_storage s)) s = s"
  by (simp add: set_tables_def)

lemma verify_token_cases:
  assumes "verify_token ce api f tx now info new_uid w sid tps s = (s', r)"
  obtains (unchanged) "s' = s" "r \<noteq> Inr True"
  | (created) user uuid s1 r1 where "uuid \<notin> us_uuid ` set (ac_users (cd_accounts s))"
      "create_new_user ce api f (tx_stmt tx 0 2) now user uuid new_uid w sid tps s = (s1, r1)"
      "s' = s1 \<and> \<not> is_ok r \<or> (\<exists>t. r1 = Inr t \<and> s' = set_tables t s1 \<and> r = Inr True)"
      "info = Inr user" "ce_parse_uuid ce (ui_id user) = Inr uuid"
proof (cases "res_bind info (\<lambda>user. res_bind (res_map_err UuidError (ce_parse_uuid ce (ui_id user))) (\<lambda>uuid. Inr (user, uuid)))")
  case (Inl err)
  with assms show thesis by (intro unchanged) (auto simp: verify_token_def)
next
  case i: (Inr p)
  obtain user uuid where p: "p = (user, uuid)" by fastforce
  have user: "info = Inr user" "ce_parse_uuid ce (ui_id user) = Inr uuid"
    using i by (auto simp: p elim!: res_bind_InrE)
  show thesis
  proof (cases "res_bind (res_map_err app_error_of_sqlx (stmt (tx_stmt tx 0) 0)) (\<lambda>_.
                   is_user_exist (tx_stmt tx 0 1) uuid (cd_accounts s))")
    case (Inl err)
    with assms i p show thesis by (intro unchanged) (auto simp: verify_token_def split: if_splits)
  next
    case x: (Inr ex)
    then have ex: "ex \<longleftrightarrow> uuid \<in> us_uuid ` set (ac_users (cd_accounts s))"
      by (auto simp: is_user_exist_def fetch_one_def split: option.splits elim!: res_bind_InrE)
    note v = assms [unfolded verify_token_def i p sum.case prod.case x Let_def]
    show thesis
    proof (cases "ex \<or> \<not> tx_begin tx")
      case True
      with v show thesis by (intro unchanged) (auto split: if_splits)
    next
      case False
      obtain s1 r1 where c: "create_new_user ce api f (tx_stmt tx 0 2) now user uuid new_uid w sid tps s = (s1, r1)"
        by fastforce
      show thesis by (rule created [OF _ c _ user]) (use v c False ex in \<open>auto split: sum.splits if_splits\<close>)
    qed
  qed
qed

lemma enforcer_good: "cloud_ok api pol grp s \<Longrightarrow> casbin_ok api pol grp \<and> enforcer_ok pol (cd_enforcer s)"
  by (simp add: cloud_ok_def)

lemma cloud_ok_set_enforcer:
  "cloud_ok api pol grp s \<Longrightarrow> casbin_ok api pol grp \<and> enforcer_ok pol e \<Longrightarrow> cloud_ok api pol grp (set_enforcer e s)"
  by (simp add: cloud_ok_def)

lemma cloud_ok_accounts:
  assumes "cloud_ok api pol grp s" and "evolves (cd_accounts s) a"
  shows "cloud_ok api pol grp (s\<lparr>cd_accounts := a\<rparr>)" "synced api pol grp s \<Longrightarrow> synced api pol grp (s\<lparr>cd_accounts := a\<rparr>)"
  using assms by (simp_all add: cloud_ok_def synced_def evolves_def)

lemma cloud_ok_tables:
  assumes "cloud_ok api pol grp s" and "evolves (cd_accounts s) (fst t)"
  shows "cloud_ok api pol grp (set_tables t s)" "synced api pol grp s \<Longrightarrow> synced api pol grp (set_tables t s)"
  using assms by (simp_all add: cloud_ok_def synced_def evolves_def)

lemma sign_in_keeps:
  assumes ok: "cloud_ok api pol grp s" and v: "verify_token ce api f tx now info new_uid w sid tps s = (s', r)"
  shows "cloud_ok api pol grp s'" "is_ok r \<Longrightarrow> synced api pol grp s \<Longrightarrow> synced api pol grp s'"
proof -
  have "cloud_ok api pol grp s' \<and> (is_ok r \<longrightarrow> synced api pol grp s \<longrightarrow> synced api pol grp s')"
    using v
  proof (cases rule: verify_token_cases)
    case unchanged
    with ok show ?thesis by simp
  next
    case (created user uuid s1 r1)
    note c = create_new_user_result [OF ok created(1,2)]
    from created(3) show ?thesis
    proof
      assume "s' = s1 \<and> \<not> is_ok r"
      with c(1) show ?thesis by simp
    next
      assume "\<exists>t. r1 = Inr t \<and> s' = set_tables t s1 \<and> r = Inr True"
      then obtain t where t: "r1 = Inr t" "s' = set_tables t s1" by blast
      note e = c(3) [OF t(1)]
      have ok': "cloud_ok api pol grp s'" using cloud_ok_tables(1) [OF c(1), of t] e by (simp add: t(2) c(2))
      have "in_line (fst t) ((roles_of pol (cd_enforcer s))((new_uid, w) \<mapsto> Owner))" if "synced api pol grp s"
        by (rule in_line_upd) (use that e in \<open>auto simp: synced_def evolves_def\<close>)
      with e ok' show ?thesis by (auto simp: synced_def t(2))
    qed
  qed
  then show "cloud_ok api pol grp s'" "is_ok r \<Longrightarrow> synced api pol grp s \<Longrightarrow> synced api pol grp s'" by blast+
qed

lemma add_members_keeps:
  assumes ok: "cloud_ok api pol grp s" and ord: "\<And>rs. set (ord rs) = set rs"
    and h: "add_workspace_members_handler api ord tx now w ms s = (s', r)"
  shows "cloud_ok api pol grp s'"
    "addable (cd_accounts s) w ms \<Longrightarrow> synced api pol grp s \<Longrightarrow> synced api pol grp s'"
    "addable (cd_accounts s) w ms \<Longrightarrow> synced api pol grp s \<Longrightarrow> is_ok r \<Longrightarrow> m \<in> set ms \<Longrightarrow>
      \<exists>u. uid_of_email (cd_accounts s) (cwm_email m) = Some u \<and> role_in (cd_accounts s') (u, w) = Some (cwm_role m) \<and>
          roles_of pol (cd_enforcer s') (u, w) = Some (cwm_role m)"
proof -
  have "cloud_ok api pol grp s' \<and> (addable (cd_accounts s) w ms \<longrightarrow> synced api pol grp s \<longrightarrow> synced api pol grp s' \<and>
      (is_ok r \<longrightarrow> (\<forall>m \<in> set ms. \<exists>u. uid_of_email (cd_accounts s) (cwm_email m) = Some u \<and>
         role_in (cd_accounts s') (u, w) = Some (cwm_role m) \<and> roles_of pol (cd_enforcer s') (u, w) = Some (cwm_role m))))"
  proof (cases "snd (add_workspace_members tx now w ms s)")
    case (Inl err)
    then have "s' = s \<and> \<not> is_ok r"
      using h by (auto simp: add_workspace_members_handler_def add_workspace_members_def split: sum.splits if_splits prod.splits)
    with ok show ?thesis by blast
  next
    case (Inr rs)
    obtain t where t: "add_members_loop (tx_stmt tx) now w 0 ms (cd_tables s) [] = Inr (t, rs)"
      "add_workspace_members tx now w ms s = (set_tables t s, Inr rs)"
      using Inr by (auto simp: add_workspace_members_def split: sum.splits if_splits prod.splits)
    have ac: "accounts_ok (fst (cd_tables s))" using ok by (simp add: cloud_ok_def)
    have e: "evolves (cd_accounts s) (fst t)" using add_members_evolves [OF ac t(1)] by simp
    note ct = cloud_ok_tables [OF ok e]
    obtain e1 where s': "s' = set_enforcer (fst e1) (set_tables t s)"
      "e1 = grant_roles (insert_workspace_role api) w (ord rs) (cd_enforcer s)"
      using h t(2) by (simp add: add_workspace_members_handler_def insert_roles_def Let_def split: prod.splits)
    have ok': "cloud_ok api pol grp s'"
      unfolding s' by (rule cloud_ok_set_enforcer [OF ct(1) roles.loops_keep_good(1) [OF enforcer_good [OF ok]]])
    have "synced api pol grp s' \<and> (\<forall>m \<in> set ms. \<exists>u. uid_of_email (cd_accounts s) (cwm_email m) = Some u \<and>
         role_in (cd_accounts s') (u, w) = Some (cwm_role m) \<and> roles_of pol (cd_enforcer s') (u, w) = Some (cwm_role m))"
      if a: "addable (cd_accounts s) w ms" and sy: "synced api pol grp s"
    proof -
      have r: "\<forall>(u, r) \<in> set rs. role_in (fst t) (u, w) = Some r"
        "\<forall>m \<in> set ms. \<exists>u. uid_of_email (cd_accounts s) (cwm_email m) = Some u \<and> (u, cwm_role m) \<in> set rs"
        using add_members_roles [OF ac t(1)] a by simp_all
      obtain e2 where e2: "grant_roles (insert_workspace_role api) w (ord rs) (cd_enforcer s) = (e2, Inr ())"
        "casbin_ok api pol grp \<and> enforcer_ok pol e2" "in_line (fst t) (roles_of pol e2)"
        "\<And>u r. (u, r) \<in> set (ord rs) \<Longrightarrow> roles_of pol e2 (u, w) = Some r"
        by (rule roles.grant_roles_in_line [OF enforcer_good [OF ok], of "fst t" "ord rs" w])
          (use sy e r ord in \<open>auto simp: synced_def evolves_def\<close>)
      have "synced api pol grp s'" using ok' e2(1,3) by (simp add: synced_def s')
      moreover have "\<exists>u. uid_of_email (cd_accounts s) (cwm_email m) = Some u \<and>
         role_in (cd_accounts s') (u, w) = Some (cwm_role m) \<and> roles_of pol (cd_enforcer s') (u, w) = Some (cwm_role m)"
        if m: "m \<in> set ms" for m
      proof -
        obtain u where u: "uid_of_email (cd_accounts s) (cwm_email m) = Some u" "(u, cwm_role m) \<in> set rs"
          using r(2) m by blast
        then show ?thesis using r(1) e2(1,4) ord by (intro exI [of _ u]) (auto simp: s')
      qed
      ultimately show ?thesis by blast
    qed
    with ok' show ?thesis by blast
  qed
  then show "cloud_ok api pol grp s'"
    "addable (cd_accounts s) w ms \<Longrightarrow> synced api pol grp s \<Longrightarrow> synced api pol grp s'"
    "addable (cd_accounts s) w ms \<Longrightarrow> synced api pol grp s \<Longrightarrow> is_ok r \<Longrightarrow> m \<in> set ms \<Longrightarrow>
      \<exists>u. uid_of_email (cd_accounts s) (cwm_email m) = Some u \<and> role_in (cd_accounts s') (u, w) = Some (cwm_role m) \<and>
          roles_of pol (cd_enforcer s') (u, w) = Some (cwm_role m)"
    by blast+
qed

lemma remove_members_keeps:
  assumes ok: "cloud_ok api pol grp s" and h: "remove_workspace_member_handler api tx q w es s = (s', r)"
  shows "cloud_ok api pol grp s' \<and> (synced api pol grp s \<longrightarrow> synced api pol grp s')"
proof (cases "snd (remove_workspace_members tx w es s)")
  case (Inl err)
  then have "s' = s"
    using h by (auto simp: remove_workspace_member_handler_def remove_workspace_members_def split: sum.splits if_splits)
  with ok show ?thesis by simp
next
  case (Inr u)
  obtain a where a: "remove_members_loop (tx_stmt tx) w 0 es (cd_accounts s) = Inr a"
    "remove_workspace_members tx w es s = (s\<lparr>cd_accounts := a\<rparr>, Inr ())"
    using Inr by (auto simp: remove_workspace_members_def split: sum.splits if_splits)
  have ac: "accounts_ok (cd_accounts s)" using ok by (simp add: cloud_ok_def)
  note m = remove_members_result [OF ac a(1)]
  obtain e1 where s': "s' = set_enforcer (fst e1) (s\<lparr>cd_accounts := a\<rparr>)"
    "e1 = revoke_roles (remove_role api) q a w 0 es (cd_enforcer s)"
    using h a(2) by (simp add: remove_workspace_member_handler_def Let_def split: prod.splits)
  have ok': "cloud_ok api pol grp s'"
    unfolding s' by (rule cloud_ok_set_enforcer [OF cloud_ok_accounts(1) [OF ok] roles.loops_keep_good(2) [OF enforcer_good [OF ok]]])
      (use m in blast)
  have "synced api pol grp s'" if sy: "synced api pol grp s"
  proof -
    obtain e2 where "revoke_roles (remove_role api) q a w 0 es (cd_enforcer s) = (e2, Inr ())" "in_line a (roles_of pol e2)"
      by (rule roles.revoke_roles_in_line [OF enforcer_good [OF ok], of a es w q 0])
        (use sy m in \<open>auto simp: synced_def evolves_def\<close>)
    with ok' show ?thesis by (simp add: synced_def s')
  qed
  with ok' show ?thesis by blast
qed

lemma update_member_keeps:
  assumes ok: "cloud_ok api pol grp s" and h: "update_workspace_member_handler api q w c s = (s', r)"
  shows "cloud_ok api pol grp s'"
    "(case uid_of_email (cd_accounts s) (wmc_email c) of
        None \<Rightarrow> True | Some u \<Rightarrow> wmc_role c \<noteq> None \<longrightarrow> role_in (cd_accounts s) (u, w) \<noteq> None) \<Longrightarrow>
     synced api pol grp s \<Longrightarrow> synced api pol grp s'"
proof -
  let ?C = "case uid_of_email (cd_accounts s) (wmc_email c) of
        None \<Rightarrow> True | Some u \<Rightarrow> wmc_role c \<noteq> None \<longrightarrow> role_in (cd_accounts s) (u, w) \<noteq> None"
  have "cloud_ok api pol grp s' \<and> (?C \<longrightarrow> synced api pol grp s \<longrightarrow> synced api pol grp s')"
  proof (cases "wmc_role c")
    case None
    then have "s' = s"
      using h by (simp add: update_workspace_member_handler_def update_workspace_member_def upsert_workspace_member_def)
    with ok show ?thesis by simp
  next
    case (Some role)
    show ?thesis
    proof (cases "upsert_workspace_member (q 0) w (wmc_email c) (Some role) (cd_accounts s)")
      case (Inl err)
      then have "s' = s"
        using h Some by (simp add: update_workspace_member_handler_def update_workspace_member_def)
      with ok show ?thesis by simp
    next
      case (Inr a)
      have ac: "accounts_ok (cd_accounts s)" using ok by (simp add: cloud_ok_def)
      note m = update_member_result [OF ac Inr]
      note c = cloud_ok_accounts [OF ok m(1)]
      show ?thesis
      proof (cases "select_uid_from_email (q 1) (wmc_email c) a")
        case (Inl err)
        then have "s' = s\<lparr>cd_accounts := a\<rparr>"
          using h Some Inr by (simp add: update_workspace_member_handler_def update_workspace_member_def)
        with c show ?thesis by simp
      next
        case u: (Inr u)
        obtain e1 where s': "s' = set_enforcer (fst e1) (s\<lparr>cd_accounts := a\<rparr>)"
          "e1 = grant_roles (insert_workspace_role api) w [(u, role)] (cd_enforcer s)"
          using h Some Inr u
          by (simp add: update_workspace_member_handler_def update_workspace_member_def insert_roles_def Let_def
              split: prod.splits del: grant_roles.simps)
        have ok': "cloud_ok api pol grp s'"
          unfolding s' by (rule cloud_ok_set_enforcer [OF c(1) roles.loops_keep_good(1) [OF enforcer_good [OF ok]]])
        have em: "uid_of_email (cd_accounts s) (wmc_email c) = Some u" using select_uid_Inr [OF u] by (simp add: m(2))
        have "synced api pol grp s'" if C: ?C and sy: "synced api pol grp s"
        proof -
          have r: "role_in a (u, w) = Some role" by (rule m(3) [OF em]) (use C em Some in simp)
          obtain e2 where "grant_roles (insert_workspace_role api) w [(u, role)] (cd_enforcer s) = (e2, Inr ())"
            "in_line a (roles_of pol e2)"
            by (rule roles.grant_roles_in_line [OF enforcer_good [OF ok], of a "[(u, role)]" w])
              (use sy m(1) r in \<open>auto simp: synced_def evolves_def simp del: grant_roles.simps\<close>)
          with ok' show ?thesis by (simp add: synced_def s' del: grant_roles.simps)
        qed
        with ok' show ?thesis by blast
      qed
    qed
  qed
  then show "cloud_ok api pol grp s'" "?C \<Longrightarrow> synced api pol grp s \<Longrightarrow> synced api pol grp s'" by blast+
qed

lemma open_workspace_evolves:
  assumes "accounts_ok a" and "update_updated_at_of_workspace q now uuid w a = Inr a'"
  shows "evolves a a'"
  using assms
  by (auto simp: update_updated_at_of_workspace_def member_key_def split: option.splits intro!: evolves_updated)

lemma cloud_step_keeps:
  assumes ok: "cloud_ok api pol grp s" and ord: "\<And>rs. set (ord rs) = set rs"
  shows "cloud_ok api pol grp (cloud_step ce api ord s ev) \<and>
    (follows_ok ce api s ev \<longrightarrow> synced api pol grp s \<longrightarrow> synced api pol grp (cloud_step ce api ord s ev))"
proof (cases ev)
  case (EvSignIn f tx now info uid w sid tps)
  obtain s1 r where h: "verify_token ce api f tx now info uid w sid tps s = (s1, r)" by fastforce
  from sign_in_keeps [OF ok h] show ?thesis by (simp add: EvSignIn h)
next
  case (EvUpdateUser q now uuid n e md)
  then show ?thesis using ok cloud_ok_accounts [OF ok update_user_evolves, of q now uuid n e md]
    by (auto simp: cloud_update_user_def cloud_ok_def split: sum.splits)
next
  case (EvCreateWorkspace q w sid now uuid n)
  have ac: "accounts_ok (cd_accounts s)" using ok by (simp add: cloud_ok_def)
  show ?thesis
  proof (cases "insert_user_workspace q w sid now uuid n (cd_accounts s)")
    case (Inr p)
    then show ?thesis using cloud_ok_accounts [OF ok insert_user_workspace_evolves [OF ac, of q w sid now uuid n "fst p" "snd p"]]
      by (cases p) (simp add: EvCreateWorkspace create_workspace_for_user_def)
  qed (use ok in \<open>simp add: EvCreateWorkspace create_workspace_for_user_def\<close>)
next
  case (EvDeleteWorkspace q w)
  obtain t r where t: "delete_from_workspace q w (cd_tables s) = (t, r)" by fastforce
  have "evolves (cd_accounts s) (fst t)"
    using delete_workspace_evolves [OF _ t] ok by (simp add: cloud_ok_def)
  from cloud_ok_tables [OF ok this] show ?thesis
    using t by (simp add: EvDeleteWorkspace delete_workspace_for_user_def)
next
  case (EvOpenWorkspace tx now uuid w)
  have ac: "accounts_ok (cd_accounts s)" using ok by (simp add: cloud_ok_def)
  have "fst (open_workspace tx now uuid w s) = s \<or> (\<exists>a. update_updated_at_of_workspace (tx_stmt tx 0 1) now uuid w (cd_accounts s) = Inr a \<and>
      fst (open_workspace tx now uuid w s) = s\<lparr>cd_accounts := a\<rparr>)"
    by (auto simp: open_workspace_def split: sum.splits if_splits prod.splits elim!: res_bind_InrE)
  then show ?thesis
  proof
    assume "\<exists>a. update_updated_at_of_workspace (tx_stmt tx 0 1) now uuid w (cd_accounts s) = Inr a \<and>
      fst (open_workspace tx now uuid w s) = s\<lparr>cd_accounts := a\<rparr>"
    then obtain a where a: "update_updated_at_of_workspace (tx_stmt tx 0 1) now uuid w (cd_accounts s) = Inr a"
      "fst (open_workspace tx now uuid w s) = s\<lparr>cd_accounts := a\<rparr>" by blast
    from cloud_ok_accounts [OF ok open_workspace_evolves [OF ac a(1)]] show ?thesis by (simp add: EvOpenWorkspace a(2))
  qed (use ok in \<open>simp add: EvOpenWorkspace\<close>)
next
  case (EvAddMembers tx now w ms)
  obtain s1 r where h: "add_workspace_members_handler api ord tx now w ms s = (s1, r)" by fastforce
  from add_members_keeps(1,2) [OF ok ord h] show ?thesis by (simp add: EvAddMembers h)
next
  case (EvRemoveMembers tx q w es)
  obtain s1 r where h: "remove_workspace_member_handler api tx q w es s = (s1, r)" by fastforce
  from remove_members_keeps [OF ok h] show ?thesis by (simp add: EvRemoveMembers h)
next
  case (EvUpdateMember q w c)
  obtain s1 r where h: "update_workspace_member_handler api q w c s = (s1, r)" by fastforce
  from update_member_keeps [OF ok h] show ?thesis by (simp add: EvUpdateMember h)
next
  case EvMemberNotified
  show ?thesis
  proof (cases "ac_member_changes (cd_accounts s)")
    case (Cons n ns)
    have "accounts_ok (cd_accounts s) \<Longrightarrow> accounts_ok ((cd_accounts s)\<lparr>ac_member_changes := ns\<rparr>)"
      by (simp add: accounts_ok_def)
    with Cons ok roles.follow_ok [OF enforcer_good [OF ok], of n] roles.follow_in_line [OF enforcer_good [OF ok] _ Cons]
    show ?thesis by (simp add: EvMemberNotified synced_def cloud_ok_def)
  qed (use ok in \<open>simp add: EvMemberNotified\<close>)
qed

interpretation account_runs: step_invariant "cloud_step ce api ord" "\<lambda>_ _. \<forall>rs. set (ord rs) = set rs" "cloud_ok api pol grp"
  for ce api ord pol grp
  by unfold_locales (use cloud_step_keeps in blast)

lemma synced_ok: "synced api pol grp s \<Longrightarrow> cloud_ok api pol grp s"
  by (simp add: synced_def)

interpretation role_runs: step_invariant "cloud_step ce api ord" "\<lambda>s ev. (\<forall>rs. set (ord rs) = set rs) \<and> follows_ok ce api s ev"
  "synced api pol grp"
  for ce api ord pol grp
  by unfold_locales (use cloud_step_keeps synced_ok in blast)

lemma role_answer:
  assumes "cloud_ok api pol grp s"
  shows "snd (get_workspace_role api (cd_enforcer s) u w) = Inr r \<longleftrightarrow> roles_of pol (cd_enforcer s) (u, w) = Some r"
  using workspace_role_result(3) [OF _ _ prod.collapse [symmetric], of api pol grp "cd_enforcer s" u w r] assms
  by (simp add: cloud_ok_def roles_of_def)

lemma role_in_table: "select_user_role None u w a = Inr r \<longleftrightarrow> role_in a (u, w) = Some r"
  by (auto simp: select_user_role_def fetch_one_def role_in_def split: option.splits)

end
