(* ===== verification/AccountProps.thy ===== *)
theory AccountProps
  imports AccountSync
begin

section \<open>Properties of users, workspaces and members\<close>

text \<open>
  Owners and keys in every run, roles in line with the table, removal, additions, strangers, the visited workspace
  and the first sign-in.
\<close>

subsection \<open>Samples\<close>

definition sample_accounts :: accounts where
  "sample_accounts =
     \<lparr>ac_users =
        [\<lparr>us_uid = 1, us_uuid = ''u1'', us_email = ''ann'', us_password = [], us_name = [], us_metadata = Map.empty,
          us_encryption_sign = None, us_updated_at = 0\<rparr>,
         \<lparr>us_uid = 2, us_uuid = ''u2'', us_email = ''bob'', us_password = [], us_name = [], us_metadata = Map.empty,
          us_encryption_sign = None, us_updated_at = 0\<rparr>],
      ac_workspaces =
        [\<lparr>wr_workspace_id = ''w'', wr_database_storage_id = Some ''d'', wr_owner_uid = Some 1, wr_created_at = Some 0,
          wr_workspace_type = 0, wr_workspace_name = None\<rparr>],
      ac_members = [\<lparr>wm_uid = 1, wm_role_id = 1, wm_workspace_id = ''w'', wm_created_at = 0, wm_updated_at = 0\<rparr>],
      ac_member_changes = [], ac_user_changes = []\<rparr>"

definition sample_cloud :: "(rule list \<times> rule list) cloud" where
  "sample_cloud =
     \<lparr>cd_accounts = sample_accounts,
      cd_storage = sample_storage\<lparr>st_enforcer := af_enforcer_new ([[''1'', ''workspace::w'', ''1'']], grouping_policies)\<rparr>,
      cd_uids = Map.empty\<rparr>"

lemma sample_accounts_ok: "accounts_ok sample_accounts"
  by (simp add: accounts_ok_def sample_accounts_def member_key_def)

lemma sample_roles: "roles_of fst (cd_enforcer sample_cloud) = [(1, ''w'') \<mapsto> Owner]"
proof -
  have "[''1'', ''workspace::w'', ''1''] = [show_int 1, to_object_id (ObjWorkspace ''w''), role_to_action Owner]" by simp
  then show ?thesis
    unfolding sample_cloud_def cd_enforcer_def roles_of_def permission_of_def fun_eq_iff
    by (auto simp del: show_int_one to_object_id.simps level_to_action_simps simp: af_enforcer_new_def)
      (metis role_from_to_action)
qed

lemma sample_cloud_synced: "synced sample_casbin fst snd sample_cloud"
proof -
  have "enforcer_ok fst (cd_enforcer sample_cloud)"
    unfolding sample_cloud_def cd_enforcer_def by (simp, rule enforcer_ok_new) (auto simp: rules_ok_def user_rules_def)
  moreover have "role_in sample_accounts = [(1, ''w'') \<mapsto> Owner]"
    by (auto simp: role_in_def membership_def sample_accounts_def fun_eq_iff as_i32_def role_of_i32_def)
  ultimately show ?thesis
    unfolding synced_def cloud_ok_def in_line_def sample_roles
    by (simp add: sample_casbin_ok sample_accounts_ok sample_cloud_def)
      (simp add: sample_accounts_def)
qed

lemma sample_add_members:
  obtains db where "add_workspace_members tx_free 5 ''w'' [\<lparr>cwm_email = ''bob'', cwm_role = Guest\<rparr>] sample_cloud =
      (set_tables (member_inserted \<lparr>wm_uid = 2, wm_role_id = 3, wm_workspace_id = ''w'', wm_created_at = 5, wm_updated_at = 5\<rparr>
        sample_accounts, db) sample_cloud, Inr [(2, Guest)])"
  by (simp add: add_workspace_members_def tx_free_def sample_cloud_def sample_accounts_def select_uid_from_email_def
      fetch_one_def uid_of_email_def insert_workspace_member_with_txn_def membership_def db_upsert_collab_member_def
      stmt_def af_permissions_def level_of_i32_def)

subsection \<open>Properties\<close>

text \<open>C23: Whatever operations users run, in whatever order and with whatever failures, the owner of a workspace is a
  user and a member of it, a membership is of a workspace that exists, and no two users have one email, no two
  workspaces one id, and no user two memberships in a workspace.\<close>

theorem owners_stay_members:
  assumes "cloud_ok api pol grp s" and "\<forall>rs. set (ord rs) = set rs"
    and "a = cd_accounts (run (cloud_step ce api ord) s evs)"
  shows "(\<forall>r \<in> set (ac_workspaces a). \<exists>owner. wr_owner_uid r = Some owner \<and> owner \<in> us_uid ` set (ac_users a) \<and>
      membership a owner (wr_workspace_id r) \<noteq> None) \<and>
    (\<forall>m \<in> set (ac_members a). wm_workspace_id m \<in> wr_workspace_id ` set (ac_workspaces a)) \<and>
    distinct (map us_email (ac_users a)) \<and> distinct (map wr_workspace_id (ac_workspaces a)) \<and>
    distinct (map member_key (ac_members a))"
proof -
  have "admissible (\<lambda>_ _. \<forall>rs. set (ord rs) = set rs) (cloud_step ce api ord) s evs"
    using assms(2) by (rule admissible_const)
  from account_runs.run_inv [OF assms(1) this] have ok: "accounts_ok a" by (simp add: cloud_ok_def assms(3))
  with accounts_okD [OF ok] show ?thesis by (auto simp: membership_None)
qed

theorem owners_stay_members_witness:
  "\<exists>owner. membership (cd_accounts (run (cloud_step sample_api sample_casbin (\<lambda>rs. rs)) sample_cloud
     [EvRemoveMembers tx_free (\<lambda>_. None) ''w'' [''ann'']])) owner ''w'' \<noteq> None"
proof -
  let ?a = "cd_accounts (run (cloud_step sample_api sample_casbin (\<lambda>rs. rs)) sample_cloud
     [EvRemoveMembers tx_free (\<lambda>_. None) ''w'' [''ann'']])"
  have "remove_workspace_members tx_free ''w'' [''ann''] sample_cloud =
      (sample_cloud, Inl (NotEnoughPermissions ''Owner cannot be deleted''))"
    by (simp add: remove_workspace_members_def tx_free_def sample_cloud_def sample_accounts_def delete_workspace_members_def
        fetch_one_def uid_of_email_def)
  then have "ac_workspaces ?a = ac_workspaces sample_accounts"
    by (simp add: remove_workspace_member_handler_def sample_cloud_def)
  then show ?thesis
    using owners_stay_members [OF synced_ok [OF sample_cloud_synced], of "\<lambda>rs. rs" ?a sample_api
        "[EvRemoveMembers tx_free (\<lambda>_. None) ''w'' [''ann'']]"]
    by (auto simp: sample_accounts_def)
qed



text \<open>Whoever owns the workspace is among the emails: the loop stops, and says why if no statement failed.\<close>

lemma remove_owner_result:
  assumes "accounts_ok a" and "email \<in> set es" and "uid_of_email a email = Some u" and "workspace_owner a w = Some u"
  shows "\<exists>err. remove_members_loop q w i es a = Inl err \<and>
    ((\<forall>i n. q i n = None) \<longrightarrow> err = NotEnoughPermissions ''Owner cannot be deleted'')"
  using assms
proof (induction es arbitrary: i a)
  case (Cons x es)
  show ?case
  proof (cases "delete_workspace_members (q i) w x a")
    case (Inl err)
    then show ?thesis
      by (auto simp: delete_workspace_members_def fetch_one_def stmt_def split: if_splits option.splits)
  next
    case (Inr b)
    note d = delete_member_result [OF Cons.prems(1) Inr]
    have "workspace_owner b w = workspace_owner a w"
      using Inr by (auto simp: delete_workspace_members_def workspace_owner_def members_deleted_def split: if_splits
          elim!: res_bind_InrE)
    moreover have "email \<in> set es" using Cons.prems d(5) by auto
    ultimately show ?thesis using Cons.IH [OF evolvesD(1) [OF d(1)]] Cons.prems d(2) Inr by simp
  qed
qed simp

text \<open>The owner of a workspace can not be removed: a request that lists the owner's email among others fails
  and removes nobody, neither from the table nor from the access control; if no statement failed, the answer says
  that the owner can not be deleted.\<close>

theorem owner_is_not_removed:
  assumes "accounts_ok (cd_accounts s)" and "email \<in> set emails" and "uid_of_email (cd_accounts s) email = Some u"
    and "workspace_owner (cd_accounts s) w = Some u"
  shows "\<exists>err. remove_workspace_member_handler api tx q w emails s = (s, Inl err) \<and>
    (tx = tx_free \<longrightarrow> err = NotEnoughPermissions ''Owner cannot be deleted'')"
proof -
  obtain err where "remove_members_loop (tx_stmt tx) w 0 emails (cd_accounts s) = Inl err"
    "(\<forall>i n. tx_stmt tx i n = None) \<longrightarrow> err = NotEnoughPermissions ''Owner cannot be deleted''"
    using remove_owner_result [OF assms] by blast
  then show ?thesis by (auto simp: remove_workspace_member_handler_def remove_workspace_members_def tx_free_def)
qed

theorem owner_is_not_removed_witness:
  "remove_workspace_member_handler sample_casbin tx_free (\<lambda>_. None) ''w'' [''bob'', ''ann''] sample_cloud =
     (sample_cloud, Inl (NotEnoughPermissions ''Owner cannot be deleted''))"
proof -
  have a: "cd_accounts sample_cloud = sample_accounts" by (simp add: sample_cloud_def)
  have "uid_of_email sample_accounts ''ann'' = Some 1" "workspace_owner sample_accounts ''w'' = Some 1"
    by (simp_all add: uid_of_email_def workspace_owner_def sample_accounts_def)
  then show ?thesis
    using owner_is_not_removed [of sample_cloud "''ann''" "[''bob'', ''ann'']" 1 "''w''" sample_casbin tx_free "\<lambda>_. None"]
      sample_accounts_ok by (auto simp: a)
qed

text \<open>C24: Who is added to a workspace may use it as the role says. After a successful request that adds members,
  none of whom had another role, each of them has a role in the table, and the middleware lets their requests to
  the workspace through exactly if the role is that of an owner or the verb changes nothing.\<close>

theorem added_members_may_use_the_workspace:
  assumes "synced api pol grp s" and "\<forall>rs. set (ord rs) = set rs" and "addable (cd_accounts s) w ms" and "m \<in> set ms"
    and "add_workspace_members_handler api ord tx now w ms s = (s', Inr ())"
  shows "\<exists>u. uid_of_email (cd_accounts s) (cwm_email m) = Some u \<and>
    select_user_role None u w (cd_accounts s') = Inr (cwm_role m) \<and>
    (is_ok (snd (check_workspace_permission vd api (cd_enforcer s') w u verb)) \<longleftrightarrow>
       cwm_role m = Owner \<or> verb \<notin> {MDelete, MPost, MPut})"
proof -
  obtain u where u: "uid_of_email (cd_accounts s) (cwm_email m) = Some u" "role_in (cd_accounts s') (u, w) = Some (cwm_role m)"
    "roles_of pol (cd_enforcer s') (u, w) = Some (cwm_role m)"
    using add_members_keeps(3) [OF synced_ok [OF assms(1)] _ assms(5,3,1), of m] assms(2,4) by fastforce
  have ok: "cloud_ok api pol grp s'" using add_members_keeps(1) [OF synced_ok [OF assms(1)] _ assms(5)] assms(2) by blast
  obtain e1 r where c: "check_workspace_permission vd api (cd_enforcer s') w u verb = (e1, r)"
    "is_ok r \<longleftrightarrow> (case permission_of pol (cd_enforcer s') u (ObjWorkspace w) of
       None \<Rightarrow> False | Some a \<Rightarrow> mutating verb \<longrightarrow> role_from_action a = Owner)"
    by (rule check_workspace_permission_result [of api pol grp "cd_enforcer s'" vd w u verb]) (use ok in \<open>auto simp: cloud_ok_def\<close>)
  then have "is_ok r \<longleftrightarrow> cwm_role m = Owner \<or> verb \<notin> {MDelete, MPost, MPut}"
    using u(3) by (auto simp: roles_of_def mutating_def)
  with u c(1) show ?thesis by (auto simp: role_in_table)
qed

text \<open>The request that adds \<open>bob\<close> to the sample.\<close>

lemma sample_add:
  obtains e where "add_workspace_members_handler sample_casbin (\<lambda>rs. rs) tx_free 5 ''w'' [\<lparr>cwm_email = ''bob'', cwm_role = Guest\<rparr>]
      sample_cloud = (e, Inr ())"
proof -
  obtain db where "add_workspace_members tx_free 5 ''w'' [\<lparr>cwm_email = ''bob'', cwm_role = Guest\<rparr>] sample_cloud =
      (set_tables (member_inserted \<lparr>wm_uid = 2, wm_role_id = 3, wm_workspace_id = ''w'', wm_created_at = 5, wm_updated_at = 5\<rparr>
        sample_accounts, db) sample_cloud, Inr [(2, Guest)])" by (rule sample_add_members)
  moreover obtain e where "insert_workspace_role sample_casbin (cd_enforcer sample_cloud) 2 ''w'' Guest = (e, Inr ())"
    using roles.grant_ok [OF enforcer_good [OF synced_ok [OF sample_cloud_synced]], of 2 "''w''" Guest] by (metis prod.collapse)
  ultimately show thesis by (intro that) (simp add: add_workspace_members_handler_def insert_roles_def)
qed

lemma sample_addable: "addable (cd_accounts sample_cloud) ''w'' [\<lparr>cwm_email = ''bob'', cwm_role = Guest\<rparr>]"
  by (simp add: addable_def sample_cloud_def sample_accounts_def uid_of_email_def role_in_def membership_def)

theorem added_members_may_use_the_workspace_witness:
  "is_ok (snd (check_workspace_permission (\<lambda>_. []) sample_casbin (cd_enforcer (fst (add_workspace_members_handler sample_casbin
     (\<lambda>rs. rs) tx_free 5 ''w'' [\<lparr>cwm_email = ''bob'', cwm_role = Guest\<rparr>] sample_cloud))) ''w'' 2 MGet))"
proof -
  obtain e where e: "add_workspace_members_handler sample_casbin (\<lambda>rs. rs) tx_free 5 ''w''
      [\<lparr>cwm_email = ''bob'', cwm_role = Guest\<rparr>] sample_cloud = (e, Inr ())" by (rule sample_add)
  have "uid_of_email (cd_accounts sample_cloud) ''bob'' = Some 2"
    by (simp add: sample_cloud_def sample_accounts_def uid_of_email_def)
  then show ?thesis
    using added_members_may_use_the_workspace [OF sample_cloud_synced _ sample_addable _ e,
        of "\<lparr>cwm_email = ''bob'', cwm_role = Guest\<rparr>" "\<lambda>_. []" MGet]
    by (auto simp: e)
qed

text \<open>A role can be given to a stranger. Changing the role of a user who is no member of the workspace changes
  no row, yet the request succeeds and the access control has the role from then on.\<close>

theorem stranger_gets_a_role:
  assumes "cloud_ok api pol grp s" and "uid_of_email (cd_accounts s) (wmc_email c) = Some u" and "wmc_role c = Some r"
    and "membership (cd_accounts s) u w = None"
  shows "\<exists>s'. update_workspace_member_handler api (\<lambda>_. None) w c s = (s', Inr ()) \<and>
    ac_members (cd_accounts s') = ac_members (cd_accounts s) \<and> ac_member_changes (cd_accounts s') = ac_member_changes (cd_accounts s) \<and>
    snd (get_workspace_role api (cd_enforcer s') u w) = Inr r"
proof -
  let ?P = "\<lambda>m. wm_workspace_id m = w \<and> wm_uid m = u"
  have none: "\<not> ?P m" if "m \<in> set (ac_members (cd_accounts s))" for m
    using assms(2,4) that by (auto simp: membership_def find_None)
  have upd: "members_updated ?P f (cd_accounts s) = cd_accounts s" for f
  proof -
    have "map (\<lambda>m. if ?P m then f m else m) (ac_members (cd_accounts s)) = ac_members (cd_accounts s)"
      by (rule map_idI) (use none in \<open>simp only: if_False\<close>)
    moreover have "filter ?P (ac_members (cd_accounts s)) = []" using none by (simp add: filter_empty_conv)
    ultimately show ?thesis by (simp add: members_updated_def)
  qed
  obtain e where e: "insert_workspace_role api (cd_enforcer s) u w r = (e, Inr ())"
    "casbin_ok api pol grp \<and> enforcer_ok pol e" "roles_of pol e = (roles_of pol (cd_enforcer s))((u, w) \<mapsto> r)"
    using roles.grant_ok [OF enforcer_good [OF assms(1)], of u w r] by (metis prod.collapse)
  have "update_workspace_member_handler api (\<lambda>_. None) w c s = (set_enforcer e s, Inr ())"
    by (simp add: update_workspace_member_handler_def update_workspace_member_def upsert_workspace_member_def assms(2,3) upd
        select_uid_from_email_def fetch_one_def insert_roles_def e(1))
  moreover have "snd (get_workspace_role api e u w) = Inr r"
    using role_answer [OF cloud_ok_set_enforcer [OF assms(1) e(2)], of u w r] e(3) by simp
  ultimately show ?thesis by simp
qed

lemma find_exists: "x \<in> set xs \<Longrightarrow> P x \<Longrightarrow> \<exists>y. find P xs = Some y"
  by (induction xs) auto

lemma find_only:
  assumes "x \<in> set xs" and "P x" and "\<And>y. y \<in> set xs \<Longrightarrow> P y \<Longrightarrow> y = x"
  shows "find P xs = Some x"
  using find_exists [of x xs P] find_SomeD [of P xs] assms by blast

text \<open>What the view of profiles gives for a user whose newest membership is known.\<close>

lemma latest_profile:
  assumes ok: "accounts_ok a" and u: "find (\<lambda>u. us_uuid u = uuid) (ac_users a) = Some u"
    and m: "m \<in> set (ac_members a)" "wm_uid m = us_uid u"
    and new: "\<And>m'. m' \<in> set (ac_members a) \<Longrightarrow> wm_uid m' = us_uid u \<Longrightarrow> wm_workspace_id m' \<noteq> wm_workspace_id m \<Longrightarrow>
        wm_updated_at m' < wm_updated_at m"
  shows "select_user_profile None uuid a = Inr (Some \<lparr>up_user = u, up_latest_workspace_id = Some (wm_workspace_id m)\<rparr>)"
proof -
  let ?x = "\<lparr>up_user = u, up_latest_workspace_id = Some (wm_workspace_id m)\<rparr>"
  have keys: "m' = m" if "m' \<in> set (ac_members a)" "wm_uid m' = us_uid u" "wm_workspace_id m' = wm_workspace_id m" for m'
    using accounts_okD(5) [OF ok] that m by (auto simp: distinct_map member_key_def inj_on_def)
  have le: "wm_updated_at m' \<le> wm_updated_at m" if "m' \<in> set (ac_members a)" "wm_uid m' = us_uid u" for m'
    using new [OF that] keys [OF that] by (cases "wm_workspace_id m' = wm_workspace_id m") auto
  have user: "u \<in> set (ac_users a)" "us_uuid u = uuid" using find_SomeD [OF u] by simp_all
  have only: "u' = u" if "u' \<in> set (ac_users a)" "us_uuid u' = uuid" for u'
    using accounts_okD(2) [OF ok] that user by (auto simp: distinct_map inj_on_def)
  have x_in: "?x \<in> set (user_profile_view a)"
    using user m le by (auto simp: user_profile_view_def)
  have x_only: "x = ?x" if x1: "x \<in> set (user_profile_view a)" and x2: "us_uuid (up_user x) = uuid" for x
  proof -
    obtain u' m' where x: "u' \<in> set (ac_users a)" "m' \<in> set (ac_members a)" "wm_uid m' = us_uid u'"
      "\<forall>n \<in> set (ac_members a). wm_uid n = us_uid u' \<longrightarrow> wm_updated_at n \<le> wm_updated_at m'"
      "x = \<lparr>up_user = u', up_latest_workspace_id = Some (wm_workspace_id m')\<rparr>"
      using x1 by (auto simp: user_profile_view_def)
    then have "u' = u" using only x2 by simp
    then show ?thesis using x new [of m'] m by fastforce
  qed
  have "find (\<lambda>r. us_uuid (up_user r) = uuid) (user_profile_view a) = Some ?x"
    by (rule find_only [OF x_in _ x_only]) (simp_all add: user(2))
  then show ?thesis by (simp add: select_user_profile_def fetch_one_def)
qed

theorem stranger_gets_a_role_witness:
  "membership (cd_accounts sample_cloud) 2 ''w'' = None \<and>
   snd (get_workspace_role sample_casbin (cd_enforcer (fst (update_workspace_member_handler sample_casbin (\<lambda>_. None) ''w''
     \<lparr>wmc_email = ''bob'', wmc_role = Some Owner, wmc_name = None\<rparr> sample_cloud))) 2 ''w'') = Inr Owner"
proof -
  have "uid_of_email (cd_accounts sample_cloud) ''bob'' = Some 2" "membership (cd_accounts sample_cloud) 2 ''w'' = None"
    by (simp_all add: sample_cloud_def sample_accounts_def uid_of_email_def membership_def)
  then show ?thesis
    using stranger_gets_a_role [OF synced_ok [OF sample_cloud_synced],
        of "\<lparr>wmc_email = ''bob'', wmc_role = Some Owner, wmc_name = None\<rparr>" 2 Owner "''w''"] by auto
qed

subsection \<open>Opening a workspace\<close>

lemma workspace_row:
  assumes "accounts_ok a" and "find (\<lambda>r. wr_workspace_id r = w) (ac_workspaces a) = Some r"
  obtains aw where "workspace_of_row now r = Inr aw" "aw_workspace_id aw = w"
proof -
  have r: "r \<in> set (ac_workspaces a)" "wr_workspace_id r = w" using find_SomeD [OF assms(2)] by simp_all
  obtain owner d where "wr_owner_uid r = Some owner" "wr_database_storage_id r = Some d"
    using accounts_okD(7,8) [OF assms(1) r(1)] by auto
  with r(2) that show thesis by (simp add: workspace_of_row_def)
qed

lemma listed_workspaces:
  assumes ok: "accounts_ok a" and u: "uid_of_uuid a uuid = Some uid"
  obtains rows where "select_user_workspace None uuid a = Inr rows"
    "aw_workspace_id ` set (concat (map (\<lambda>r. case workspace_of_row now r of Inr x \<Rightarrow> [x] | Inl _ \<Rightarrow> []) rows)) =
       {w. membership a uid w \<noteq> None}"
proof -
  define rows where "rows = concat (map (\<lambda>r. map (\<lambda>_. r)
       (filter (\<lambda>m. wr_workspace_id r = wm_workspace_id m \<and> Some (wm_uid m) = uid_of_uuid a uuid) (ac_members a)))
       (ac_workspaces a))"
  let ?list = "concat (map (\<lambda>r. case workspace_of_row now r of Inr x \<Rightarrow> [x] | Inl _ \<Rightarrow> []) rows)"
  have conv: "\<exists>x. workspace_of_row now r = Inr x \<and> aw_workspace_id x = wr_workspace_id r" if "r \<in> set (ac_workspaces a)" for r
    using workspace_row [OF ok find_distinct_key [OF accounts_okD(4) [OF ok] that]] by blast
  have rows: "set rows = {r \<in> set (ac_workspaces a). membership a uid (wr_workspace_id r) \<noteq> None}"
    by (auto simp: rows_def u membership_None member_key_def)
  have "aw_workspace_id ` set ?list = (\<Union>r \<in> set rows. aw_workspace_id ` set (case workspace_of_row now r of Inr x \<Rightarrow> [x] | Inl _ \<Rightarrow> []))"
    by (simp add: image_UN)
  also have "\<dots> = (\<Union>r \<in> set rows. {wr_workspace_id r})"
  proof (rule SUP_cong [OF refl])
    fix r assume "r \<in> set rows"
    then have "r \<in> set (ac_workspaces a)" unfolding rows by blast
    from conv [OF this] show "aw_workspace_id ` set (case workspace_of_row now r of Inr x \<Rightarrow> [x] | Inl _ \<Rightarrow> []) = {wr_workspace_id r}"
      by auto
  qed
  also have "\<dots> = wr_workspace_id ` set rows" by blast
  also have "\<dots> = {w. membership a uid w \<noteq> None}"
  proof (intro equalityI subsetI)
    fix w assume "w \<in> {w. membership a uid w \<noteq> None}"
    then obtain m where m: "m \<in> set (ac_members a)" "member_key m = (uid, w)" by (auto simp: membership_None)
    then obtain r where r: "r \<in> set (ac_workspaces a)" "wr_workspace_id r = w"
      using accounts_okD(6) [OF ok m(1)] by (auto simp: member_key_def)
    have "(uid, w) \<in> member_key ` set (ac_members a)" using m by force
    then have "r \<in> set rows" using r unfolding rows by (simp add: membership_None)
    with r(2) show "w \<in> wr_workspace_id ` set rows" by blast
  qed (auto simp: rows)
  finally show thesis by (intro that [of rows]) (simp_all add: select_user_workspace_def fetch_one_def rows_def)
qed

text \<open>The workspace that a user opened last is the one they visit. After a member opened a workspace, later
  than all memberships were touched, the user's information names the workspace that was answered as the visited
  one, and lists the workspaces the user is a member of, no more and no less.\<close>

theorem opened_workspace_is_visited:
  assumes ok: "accounts_ok (cd_accounts s)" and uid: "uid_of_uuid (cd_accounts s) uuid = Some uid"
    and m: "membership (cd_accounts s) uid w \<noteq> None" and late: "\<forall>m \<in> set (ac_members (cd_accounts s)). wm_updated_at m < now"
    and op: "open_workspace tx now uuid w s = (s', Inr aw)"
  shows "aw_workspace_id aw = w \<and>
    (\<exists>info. get_user_workspace_info tx_free now uuid s' = Served (Inr info) \<and> uw_visiting_workspace info = aw \<and>
       aw_workspace_id ` set (uw_workspaces info) = {v. membership (cd_accounts s) uid v \<noteq> None})"
proof -
  let ?a = "cd_accounts s"
  let ?P = "\<lambda>m. Some (wm_uid m) = uid_of_uuid ?a uuid \<and> wm_workspace_id m = w"
  define a where "a = members_updated ?P (\<lambda>m. m\<lparr>wm_updated_at := now\<rparr>) ?a"
  obtain r where r: "find (\<lambda>r. wr_workspace_id r = w) (ac_workspaces ?a) = Some r" "workspace_of_row now r = Inr aw"
    and s': "s' = s\<lparr>cd_accounts := a\<rparr>"
    using op by (auto simp: open_workspace_def update_updated_at_of_workspace_def select_workspace_def fetch_one_def a_def
        elim!: res_bind_InrE split: sum.splits option.splits if_splits)
  have aw: "aw_workspace_id aw = w" using workspace_row [OF ok r(1), of now] r(2) by auto
  have oka: "accounts_ok a" using evolves_updated [OF ok, of "\<lambda>m. m\<lparr>wm_updated_at := now\<rparr>" ?P]
    by (simp add: a_def evolves_def member_key_def)
  have same: "ac_users a = ac_users ?a" "ac_workspaces a = ac_workspaces ?a" by (simp_all add: a_def members_updated_def)
  have keys: "member_key ` set (ac_members a) = member_key ` set (ac_members ?a)"
  proof -
    have "map member_key (ac_members a) = map member_key (ac_members ?a)" by (simp add: a_def members_updated_def member_key_def)
    then show ?thesis by (metis set_map)
  qed
  obtain u where u: "find (\<lambda>u. us_uuid u = uuid) (ac_users a) = Some u" "us_uid u = uid"
    using uid by (auto simp: uid_of_uuid_def same)
  obtain m0 where m0: "m0 \<in> set (ac_members ?a)" "wm_uid m0 = uid" "wm_workspace_id m0 = w"
    using m by (auto simp: membership_None member_key_def)
  let ?m = "m0\<lparr>wm_updated_at := now\<rparr>"
  have "?m \<in> set (ac_members a)" using m0 uid by (auto simp: a_def members_updated_def)
  moreover have "wm_updated_at m' < now"
    if "m' \<in> set (ac_members a)" "wm_uid m' = us_uid u" "wm_workspace_id m' \<noteq> w" for m'
    using that late by (auto simp: a_def members_updated_def)
  ultimately have "select_user_profile None uuid a = Inr (Some \<lparr>up_user = u, up_latest_workspace_id = Some w\<rparr>)"
    using latest_profile [OF oka u(1), of ?m] m0 u(2) by simp
  moreover have "uid_of_uuid a uuid = Some uid" using uid by (simp add: uid_of_uuid_def same)
  from listed_workspaces [OF oka this] obtain rows where rows: "select_user_workspace None uuid a = Inr rows"
    "aw_workspace_id ` set (concat (map (\<lambda>r. case workspace_of_row now r of Inr x \<Rightarrow> [x] | Inl _ \<Rightarrow> []) rows)) =
       {w. membership a uid w \<noteq> None}" .
  moreover have "{w. membership a uid w \<noteq> None} = {w. membership ?a uid w \<noteq> None}" by (simp add: membership_None keys)
  ultimately show ?thesis using r aw
    by (simp add: get_user_workspace_info_def s' tx_free_def select_workspace_def fetch_one_def same profile_of_row_def)
qed

theorem opened_workspace_is_visited_witness:
  "\<exists>aw info. snd (open_workspace tx_free 9 ''u1'' ''w'' sample_cloud) = Inr aw \<and>
     get_user_workspace_info tx_free 9 ''u1'' (fst (open_workspace tx_free 9 ''u1'' ''w'' sample_cloud)) = Served (Inr info) \<and>
     uw_visiting_workspace info = aw"
proof -
  have s: "uid_of_uuid (cd_accounts sample_cloud) ''u1'' = Some 1" "membership (cd_accounts sample_cloud) 1 ''w'' \<noteq> None"
    "\<forall>m \<in> set (ac_members (cd_accounts sample_cloud)). wm_updated_at m < 9"
    "accounts_ok (cd_accounts sample_cloud)"
    using sample_accounts_ok by (simp_all add: sample_cloud_def sample_accounts_def uid_of_uuid_def membership_def)
  obtain s' aw where o: "open_workspace tx_free 9 ''u1'' ''w'' sample_cloud = (s', Inr aw)"
    by (simp add: open_workspace_def tx_free_def sample_cloud_def sample_accounts_def select_workspace_def fetch_one_def
        update_updated_at_of_workspace_def workspace_of_row_def)
  show ?thesis using opened_workspace_is_visited [OF s(4,1-3) o] by (auto simp: o)
qed

subsection \<open>The first sign-in\<close>

lemma stored_templates:
  assumes "store_templates ce api f w uid i tps db st = (st', Inr db')"
  shows "oid \<notin> tp_object_id ` set tps \<Longrightarrow> db_collabs db' oid = db_collabs db oid"
    "distinct (map tp_object_id tps) \<Longrightarrow> tp \<in> set tps \<Longrightarrow>
       \<exists>row. db_collabs db' (tp_object_id tp) = Some row \<and> ce_encode ce (tp_object_data tp) = Inr (cr_blob row) \<and>
         cr_owner_uid row = uid"
proof -
  have "(oid \<notin> tp_object_id ` set tps \<longrightarrow> db_collabs db' oid = db_collabs db oid) \<and>
    (distinct (map tp_object_id tps) \<longrightarrow> tp \<in> set tps \<longrightarrow>
       (\<exists>row. db_collabs db' (tp_object_id tp) = Some row \<and> ce_encode ce (tp_object_data tp) = Inr (cr_blob row) \<and>
         cr_owner_uid row = uid))" for oid
    using assms
  proof (induction tps arbitrary: i db st oid)
    case (Cons x xs)
    obtain b st1 db1 where b: "ce_encode ce (tp_object_data x) = Inr b"
      "store_templates ce api f w uid (Suc i) xs db1 st1 = (st', Inr db')"
      and ins: "insert_into_af_collab ce (fl_stmt (f i)) uid w \<lparr>cp_object_id = tp_object_id x, cp_encoded_collab_v1 = b,
           cp_collab_type = tp_object_type x, cp_override_if_exist = False\<rparr> db = Inr db1"
      using Cons.prems by (auto simp: upsert_collab_with_transaction_def split: sum.splits prod.splits)
    obtain row where row: "db_collabs db1 = (db_collabs db)(tp_object_id x \<mapsto> row)" "cr_blob row = b" "cr_owner_uid row = uid"
      by (rule insert_into_af_collab_result [OF ins]) simp
    show ?case
    proof (intro conjI impI)
      assume "oid \<notin> tp_object_id ` set (x # xs)"
      then show "db_collabs db' oid = db_collabs db oid" using Cons.IH [OF b(2), of oid] row(1) by simp
    next
      assume "distinct (map tp_object_id (x # xs))" "tp \<in> set (x # xs)"
      then show "\<exists>row. db_collabs db' (tp_object_id tp) = Some row \<and> ce_encode ce (tp_object_data tp) = Inr (cr_blob row) \<and>
          cr_owner_uid row = uid"
        using Cons.IH [OF b(2), of "tp_object_id x"] row b(1) by auto
    qed
  qed simp
  then show "oid \<notin> tp_object_id ` set tps \<Longrightarrow> db_collabs db' oid = db_collabs db oid"
    "distinct (map tp_object_id tps) \<Longrightarrow> tp \<in> set tps \<Longrightarrow>
       \<exists>row. db_collabs db' (tp_object_id tp) = Some row \<and> ce_encode ce (tp_object_data tp) = Inr (cr_blob row) \<and>
         cr_owner_uid row = uid" by blast+
qed

lemma created_user:
  assumes "accounts_ok (cd_accounts s)" and "uuid \<notin> us_uuid ` set (ac_users (cd_accounts s))"
    and "create_new_user ce api f q now user uuid new_uid w sid tps s = (s1, Inr t)"
  obtains db0 st tl st' where "uid_of_uuid (fst t) uuid = Some new_uid" "workspace_owner (fst t) w = Some new_uid"
    "tps = Inr tl" "store_templates ce api f w new_uid 0 tl db0 st = (st', Inr (snd t))"
proof -
  obtain t0 w' where c: "create_user q w sid now new_uid uuid (ui_email user) (name_from_user_metadata (ui_user_metadata user))
      (cd_tables s) = Inr (t0, w')"
    using assms(3) by (auto simp: create_new_user_def split: sum.splits)
  note u = create_user_evolves [of "cd_tables s", OF _ _ c]
  have "w' = w" using u(2) assms(1,2) by simp
  with c assms(3) obtain tl st st' where st: "fst t = fst t0" "tps = Inr tl"
    "store_templates ce api f w new_uid 0 tl (snd t0) st = (st', Inr (snd t))"
    by (auto simp: create_new_user_def split: sum.splits prod.splits)
  have "uid_of_uuid (fst t) uuid = Some new_uid" "workspace_owner (fst t) w = Some new_uid"
    using u(4,5) assms(1,2) by (simp_all add: st(1))
  from that [OF this st(2,3)] show thesis .
qed

text \<open>C9: The first sign-in sets the user up. When the sign-in of a user who was unknown succeeds, the user exists
  under the id of the generator, owns the new workspace, is its owner for the table of members and for the access
  control alike, and has each document of the template stored as encoded, as its owner. Signing in again changes
  nothing, whatever ids are offered then, and answers that the user is not new.\<close>

theorem first_sign_in_sets_up_the_user:
  assumes "cloud_ok api pol grp s" and "verify_token ce api f tx now info new_uid w sid (Inr tps) s = (s', Inr True)"
    and "distinct (map tp_object_id tps)" and "tp \<in> set tps"
  shows "\<exists>user uuid row. info = Inr user \<and> ce_parse_uuid ce (ui_id user) = Inr uuid \<and>
    uid_of_uuid (cd_accounts s) uuid = None \<and> uid_of_uuid (cd_accounts s') uuid = Some new_uid \<and>
    workspace_owner (cd_accounts s') w = Some new_uid \<and> select_user_role None new_uid w (cd_accounts s') = Inr Owner \<and>
    snd (get_workspace_role api (cd_enforcer s') new_uid w) = Inr Owner \<and>
    db_collabs (st_db (cd_storage s')) (tp_object_id tp) = Some row \<and>
    ce_encode ce (tp_object_data tp) = Inr (cr_blob row) \<and> cr_owner_uid row = new_uid \<and>
    verify_token ce api f' tx_free now' info uid' w' sid' tps' s' = (s', Inr False)"
  using assms(2)
proof (cases rule: verify_token_cases)
  case (created user uuid s1 r1)
  note info = created(4,5)
  note c = create_new_user_result [OF assms(1) created(1,2)]
  obtain t where t: "r1 = Inr t" "s' = set_tables t s1" using created(3) by auto
  have acc: "accounts_ok (cd_accounts s)" using assms(1) by (simp add: cloud_ok_def)
  obtain db0 st tl st' where u: "uid_of_uuid (fst t) uuid = Some new_uid" "workspace_owner (fst t) w = Some new_uid"
    "Inr tps = (Inr tl :: app_error + template list)" "store_templates ce api f w new_uid 0 tl db0 st = (st', Inr (snd t))"
    by (rule created_user [OF acc created(1) created(2) [unfolded t(1)]])
  obtain row where row: "db_collabs (snd t) (tp_object_id tp) = Some row" "ce_encode ce (tp_object_data tp) = Inr (cr_blob row)"
    "cr_owner_uid row = new_uid"
    using stored_templates(2) [OF u(4), of tp] u(3) assms(3,4) by auto
  note e = c(3) [OF t(1)]
  have s': "cd_accounts s' = fst t" "st_db (cd_storage s') = snd t" "cd_enforcer s' = cd_enforcer s1"
    by (simp_all add: t(2) set_tables_def cd_enforcer_def)
  have "cloud_ok api pol grp s'" using cloud_ok_tables(1) [OF c(1), of t] e c(2) by (simp add: t(2))
  then have role: "snd (get_workspace_role api (cd_enforcer s') new_uid w) = Inr Owner"
    using role_answer [of api pol grp s' new_uid w Owner] e by (simp add: s'(3))
  have "uuid \<in> us_uuid ` set (ac_users (fst t))" using u(1) by (auto simp: uid_of_uuid_def dest: find_SomeD)
  then have again: "verify_token ce api f' tx_free now' info uid' w' sid' tps' s' = (s', Inr False)"
    using info by (auto simp: verify_token_def tx_free_def stmt_def is_user_exist_def fetch_one_def s'(1,2) image_iff
        set_same_tables [of s', unfolded s'(1,2) prod.collapse])
  have "uid_of_uuid (cd_accounts s) uuid = None" using created(1) by (auto simp: uid_of_uuid_def find_None)
  with info u(1,2) e role row again show ?thesis by (auto simp: s'(1,2) role_in_table)
qed simp

theorem first_sign_in_sets_up_the_user_witness:
  "uid_of_uuid (cd_accounts (fst (verify_token sample_api sample_casbin (\<lambda>_. no_faults) tx_free 7
     (Inr \<lparr>ui_id = ''u3'', ui_email = ''cyd'', ui_user_metadata = JNull\<rparr>) 3 ''w3'' ''d3''
     (Inr [\<lparr>tp_object_id = ''f'', tp_object_type = Folder, tp_object_data = \<lparr>ec_state_vector = [], ec_doc_state = [1]\<rparr>\<rparr>])
     sample_cloud))) ''u3'' = Some 3"
proof -
  let ?tps = "[\<lparr>tp_object_id = ''f'', tp_object_type = Folder, tp_object_data = \<lparr>ec_state_vector = [], ec_doc_state = [1]\<rparr>\<rparr>]"
  let ?v = "verify_token sample_api sample_casbin (\<lambda>_. no_faults) tx_free 7
     (Inr \<lparr>ui_id = ''u3'', ui_email = ''cyd'', ui_user_metadata = JNull\<rparr>) 3 ''w3'' ''d3'' (Inr ?tps) sample_cloud"
  have "snd ?v = Inr True" by code_simp
  then have v: "?v = (fst ?v, Inr True)" by (metis prod.collapse)
  show ?thesis
    using first_sign_in_sets_up_the_user [OF synced_ok [OF sample_cloud_synced] v, of "hd ?tps"]
    by (auto simp: sample_api_def)
qed

end
