(* ===== verification/HttpApi.thy ===== *)
theory HttpApi
  imports AccountOps
begin

section \<open>Responses of the HTTP interface\<close>

text \<open>
  How a result travels from a handler to the caller of the client library (\<open>libs/shared-entity/src/response.rs\<close>,
  \<open>response_actix.rs\<close>). The libraries underneath are parameters: \<open>json_api\<close> reads and writes a response and
  \<open>http_text\<close> gives the texts of status codes and bodies.
\<close>

subsection \<open>Responses\<close>

record 'a app_response =
  ar_data :: "'a option"
  ar_code :: error_code
  ar_message :: string

record app_response_error =
  re_code :: error_code
  re_message :: string

definition app_response_new :: "error_code \<Rightarrow> string \<Rightarrow> 'a app_response" where
  "app_response_new code m = \<lparr>ar_data = None, ar_code = code, ar_message = m\<rparr>"

definition app_response_ok :: "'a app_response" where
  "app_response_ok = app_response_new (app_error_code OkError) (display_app_error (\<lambda>_. []) OkError)"

definition response_is_ok :: "'a app_response \<Rightarrow> bool" where
  "response_is_ok r \<longleftrightarrow> ar_code r = EcOk"

definition with_data :: "'a \<Rightarrow> 'a app_response \<Rightarrow> 'a app_response" where
  "with_data x r = r\<lparr>ar_data := Some x\<rparr>"

definition with_message :: "string \<Rightarrow> 'a app_response \<Rightarrow> 'a app_response" where
  "with_message m r = r\<lparr>ar_message := m\<rparr>"

definition with_code :: "error_code \<Rightarrow> 'a app_response \<Rightarrow> 'a app_response" where
  "with_code c r = r\<lparr>ar_code := c\<rparr>"

text \<open>\<open>vd\<close> renders the field names of a failed validation, as in \<open>display_app_error\<close>.\<close>

definition response_error_of :: "(string list \<Rightarrow> string) \<Rightarrow> app_error \<Rightarrow> app_response_error" where
  "response_error_of vd err = \<lparr>re_code = app_error_code err, re_message = display_app_error vd err\<rparr>"

definition response_error_is_record_not_found :: "app_response_error \<Rightarrow> bool" where
  "response_error_is_record_not_found e \<longleftrightarrow> re_code e = EcRecordNotFound"

definition app_response_of_error :: "app_response_error \<Rightarrow> 'a app_response" where
  "app_response_of_error e = app_response_new (re_code e) (re_message e)"

definition response_split :: "'a app_response \<Rightarrow> 'a option \<times> app_response_error" where
  "response_split r =
     (if response_is_ok r then (ar_data r, \<lparr>re_code = ar_code r, re_message = ar_message r\<rparr>)
      else (None, \<lparr>re_code = ar_code r, re_message = ar_message r\<rparr>))"

definition into_data :: "(string list \<Rightarrow> string) \<Rightarrow> 'a app_response \<Rightarrow> app_response_error + 'a" where
  "into_data vd r =
     (if response_is_ok r
      then case ar_data r of None \<Rightarrow> Inl (response_error_of vd (MissingPayload [])) | Some x \<Rightarrow> Inr x
      else Inl \<lparr>re_code = ar_code r, re_message = ar_message r\<rparr>)"

definition into_error :: "'a app_response \<Rightarrow> app_response_error + unit" where
  "into_error r = (if ar_code r = EcOk then Inr () else Inl \<lparr>re_code = ar_code r, re_message = ar_message r\<rparr>)"

text \<open>
  A response on the wire. A handler answers with an \<open>AppResponse\<close> or fails with an error, which is rendered with
  status 200 and the JSON of its code and message.
\<close>

record http_response =
  hr_status :: nat
  hr_headers :: "(string \<times> string) list"
  hr_body :: bytes

record 'a json_api =
  js_encode :: "'a app_response \<Rightarrow> bytes"
  js_decode :: "bytes \<Rightarrow> string + 'a app_response"

record http_text =
  ht_status :: "nat \<Rightarrow> string"
  ht_body :: "bytes \<Rightarrow> string"

definition json_laws :: "'a json_api \<Rightarrow> bool" where
  "json_laws js \<longleftrightarrow> (\<forall>r. js_decode js (js_encode js r) = Inr r)"

datatype 'a handled = Answer "'a app_response" | Refused app_response_error

definition handled_of :: "(string list \<Rightarrow> string) \<Rightarrow> app_error + 'a \<Rightarrow> 'a handled" where
  "handled_of vd r =
     (case r of Inl err \<Rightarrow> Refused (response_error_of vd err) | Inr x \<Rightarrow> Answer (with_data x app_response_ok))"

definition handled_unit :: "(string list \<Rightarrow> string) \<Rightarrow> app_error + unit \<Rightarrow> unit handled" where
  "handled_unit vd r = (case r of Inl err \<Rightarrow> Refused (response_error_of vd err) | Inr _ \<Rightarrow> Answer app_response_ok)"

definition json_response :: "'a json_api \<Rightarrow> 'a app_response \<Rightarrow> http_response" where
  "json_response js r =
     \<lparr>hr_status = 200, hr_headers = [(''content-type'', ''application/json'')], hr_body = js_encode js r\<rparr>"

definition error_response :: "'a json_api \<Rightarrow> app_response_error \<Rightarrow> http_response" where
  "error_response js e = json_response js (app_response_of_error e)"

definition rendered :: "'a json_api \<Rightarrow> 'a handled \<Rightarrow> http_response" where
  "rendered js h = (case h of Answer r \<Rightarrow> json_response js r | Refused e \<Rightarrow> error_response js e)"

definition from_response :: "http_text \<Rightarrow> 'a json_api \<Rightarrow> http_response \<Rightarrow> string + 'a app_response" where
  "from_response ht js resp =
     (if \<not> (200 \<le> hr_status resp \<and> hr_status resp \<le> 299)
      then Inl (''got error code: '' @ ht_status ht (hr_status resp) @ '', body: '' @ ht_body ht (hr_body resp))
      else js_decode js (hr_body resp))"

text \<open>How the methods of the client end: \<open>from_response(resp).await?.into_data()\<close> and \<open>into_error()\<close>.\<close>

definition answer_data ::
    "(string list \<Rightarrow> string) \<Rightarrow> http_text \<Rightarrow> 'a json_api \<Rightarrow> http_response \<Rightarrow> app_response_error + 'a" where
  "answer_data vd ht js resp =
     res_bind (res_map_err (\<lambda>e. response_error_of vd (Internal e)) (from_response ht js resp)) (into_data vd)"

definition answer_error ::
    "(string list \<Rightarrow> string) \<Rightarrow> http_text \<Rightarrow> 'a json_api \<Rightarrow> http_response \<Rightarrow> app_response_error + unit" where
  "answer_error vd ht js resp =
     res_bind (res_map_err (\<lambda>e. response_error_of vd (Internal e)) (from_response ht js resp)) into_error"

text \<open>A result of the server reaches the client as it is: the value, or the code and message of the error.\<close>

lemma answer_data_rendered:
  assumes "json_laws js" and "\<And>err. r = Inl err \<Longrightarrow> app_error_code err \<noteq> EcOk"
  shows "answer_data vd ht js (rendered js (handled_of vd r)) =
    (case r of Inl err \<Rightarrow> Inl (response_error_of vd err) | Inr x \<Rightarrow> Inr x)"
  using assms
  by (cases r) (simp_all add: answer_data_def rendered_def handled_of_def json_response_def error_response_def
      from_response_def json_laws_def into_data_def response_is_ok_def app_response_ok_def app_response_new_def
      with_data_def app_response_of_error_def response_error_of_def)

lemma answer_error_rendered:
  assumes "json_laws js" and "\<And>err. r = Inl err \<Longrightarrow> app_error_code err \<noteq> EcOk"
  shows "answer_error vd ht js (rendered js (handled_unit vd r)) = res_map_err (response_error_of vd) r"
  using assms
  by (cases r) (simp_all add: answer_error_def rendered_def handled_unit_def json_response_def error_response_def
      from_response_def json_laws_def into_error_def app_response_ok_def app_response_new_def
      app_response_of_error_def response_error_of_def)

text \<open>An instance for responses without data.\<close>

definition sample_codes :: "error_code list" where
  "sample_codes = [EcOk, EcUnhandled, EcRecordNotFound, EcRecordAlreadyExists, EcInvalidEmail, EcInvalidPassword,
     EcOAuthError, EcMissingPayload, EcDBError, EcOpenError, EcInvalidUrl, EcInvalidRequest, EcInvalidOAuthProvider,
     EcNotLoggedIn, EcNotEnoughPermissions, EcS3Error, EcStorageSpaceNotEnough, EcPayloadTooLarge, EcInternal,
     EcUuidError, EcIOError, EcSqlxError, EcS3ResponseError, EcSerdeError, EcNetworkError, EcUserUnAuthorized]"

definition sample_code_byte :: "error_code \<Rightarrow> u8" where
  "sample_code_byte c = word_of_nat (length (takeWhile (\<lambda>d. d \<noteq> c) sample_codes))"

definition sample_json :: "unit json_api" where
  "sample_json =
     \<lparr>js_encode = \<lambda>r. (if ar_data r = None then 0 else 1) # sample_code_byte (ar_code r) # map (\<lambda>c. word_of_nat (of_char c)) (ar_message r),
      js_decode = \<lambda>b. Inr \<lparr>ar_data = (if b ! 0 = 0 then None else Some ()), ar_code = sample_codes ! unat (b ! 1),
                          ar_message = map (\<lambda>x. char_of (unat x)) (drop 2 b)\<rparr>\<rparr>"

lemma sample_code_byte_inverse: "sample_codes ! unat (sample_code_byte c) = c"
  by (cases c) (simp_all add: sample_code_byte_def sample_codes_def)

lemma sample_json_laws: "json_laws sample_json"
proof -
  have "char_of (unat (word_of_nat (of_char c) :: u8)) = c" for c
    by (simp add: unat_of_nat )
  then show ?thesis
    by (simp add: json_laws_def sample_json_def sample_code_byte_inverse comp_def)
qed

end
