(* ===== verification/HttpRequests.thy ===== *)
theory HttpRequests
  imports HttpApi
begin

section \<open>The requests of the client library\<close>

text \<open>
  \<open>libs/client-api/src/http.rs\<close> and \<open>native/http_native.rs\<close>: what each method of the client sends and how it reads the
  answer. A request is built from \<open>client_ctx\<close>, the configuration of the client with the time and the access token
  that \<open>http_client_with_auth\<close> has at hand after it refreshed the token (\<open>ClientToken\<close>). JSON payloads are the values
  that are serialised; \<open>pack\<close> stands for the binary codec of the parameters and \<open>brotli\<close> for the compressor.
\<close>

record client_ctx =
  cc_base_url :: string
  cc_ws_addr :: string
  cc_device_id :: string
  cc_client_id :: string
  cc_compression_quality :: nat
  cc_compression_buffer_size :: nat
  cc_now :: int
  cc_access_token :: string

record update_user_params =
  uu_name :: "string option"
  uu_password :: "string option"
  uu_email :: "string option"
  uu_metadata :: "(string \<times> json) list option"

record delete_collab_params =
  dcp_object_id :: string
  dcp_workspace_id :: string

record query_collab_members =
  qcm_workspace_id :: string
  qcm_object_id :: string

datatype request_payload =
    NoPayload
  | PlCreateWorkspace "string option"
  | PlMembers "create_workspace_member list"
  | PlChangeset workspace_member_changeset
  | PlEmails "string list"
  | PlUpdateUser update_user_params
  | PlBytes bytes
  | PlQuerySnapshot i64
  | PlCollabType collab_type
  | PlCollab create_collab_params
  | PlQueryCollab query_collab_params
  | PlQueries "query_collab list"
  | PlDeleteCollab delete_collab_params
  | PlInsertMember insert_collab_member_params
  | PlIdentify collab_member_identify
  | PlQueryMembers query_collab_members

text \<open>How a method ends: \<open>into_data\<close>, \<open>into_error\<close>, or with the body of the response.\<close>

datatype request_end = IntoData | IntoError | ReadBody

record client_request =
  cq_verb :: http_method
  cq_url :: string
  cq_headers :: "(string \<times> string) list"
  cq_timeout :: "nat option"
  cq_payload :: request_payload
  cq_end :: request_end

definition X_COMPRESSION_TYPE :: string where "X_COMPRESSION_TYPE = ''X-Compression-Type''"
definition X_COMPRESSION_BUFFER_SIZE :: string where "X_COMPRESSION_BUFFER_SIZE = ''X-Compression-Buffer-Size''"
definition X_COMPRESSION_TYPE_BROTLI :: string where "X_COMPRESSION_TYPE_BROTLI = ''brotli''"

definition with_compression_quality :: "nat \<Rightarrow> client_ctx \<Rightarrow> client_ctx" where
  "with_compression_quality quality x = x\<lparr>cc_compression_quality := if quality > 11 then 11 else quality\<rparr>"

definition with_compression_buffer_size :: "nat \<Rightarrow> client_ctx \<Rightarrow> client_ctx" where
  "with_compression_buffer_size n x = x\<lparr>cc_compression_buffer_size := n\<rparr>"

definition auth_headers :: "client_ctx \<Rightarrow> (string \<times> string) list" where
  "auth_headers x =
     [(''client-version'', cc_client_id x), (''client-timestamp'', show_int (cc_now x)),
      (''device_id'', cc_device_id x), (''authorization'', ''Bearer '' @ cc_access_token x)]"

definition compress_headers :: "client_ctx \<Rightarrow> (string \<times> string) list" where
  "compress_headers x =
     auth_headers x @
     [(X_COMPRESSION_TYPE, X_COMPRESSION_TYPE_BROTLI),
      (X_COMPRESSION_BUFFER_SIZE, show_nat (cc_compression_buffer_size x))]"

definition with_auth :: "client_ctx \<Rightarrow> http_method \<Rightarrow> string \<Rightarrow> request_payload \<Rightarrow> request_end \<Rightarrow> client_request" where
  "with_auth x verb url p k =
     \<lparr>cq_verb = verb, cq_url = url, cq_headers = auth_headers x, cq_timeout = None, cq_payload = p, cq_end = k\<rparr>"

definition with_auth_compress :: "client_ctx \<Rightarrow> http_method \<Rightarrow> string \<Rightarrow> request_payload \<Rightarrow> request_end \<Rightarrow> client_request" where
  "with_auth_compress x verb url p k = (with_auth x verb url p k)\<lparr>cq_headers := compress_headers x\<rparr>"

subsection \<open>Users and workspaces\<close>

text \<open>The token is checked with a plain request, without the headers of the client.\<close>

definition verify_token_cloud_request :: "client_ctx \<Rightarrow> string \<Rightarrow> client_request" where
  "verify_token_cloud_request x access_token =
     \<lparr>cq_verb = MGet, cq_url = cc_base_url x @ ''/api/user/verify/'' @ access_token, cq_headers = [],
      cq_timeout = None, cq_payload = NoPayload, cq_end = IntoData\<rparr>"

definition get_profile_request :: "client_ctx \<Rightarrow> client_request" where
  "get_profile_request x = with_auth x MGet (cc_base_url x @ ''/api/user/profile'') NoPayload IntoData"

definition get_user_workspace_info_request :: "client_ctx \<Rightarrow> client_request" where
  "get_user_workspace_info_request x = with_auth x MGet (cc_base_url x @ ''/api/user/workspace'') NoPayload IntoData"

definition update_user_request :: "client_ctx \<Rightarrow> update_user_params \<Rightarrow> client_request" where
  "update_user_request x p = with_auth x MPost (cc_base_url x @ ''/api/user/update'') (PlUpdateUser p) IntoError"

definition delete_workspace_request :: "client_ctx \<Rightarrow> string \<Rightarrow> client_request" where
  "delete_workspace_request x w = with_auth x MDelete (cc_base_url x @ ''/api/workspace/'' @ w) NoPayload IntoError"

definition create_workspace_request :: "client_ctx \<Rightarrow> string option \<Rightarrow> client_request" where
  "create_workspace_request x n = with_auth x MPost (cc_base_url x @ ''/api/workspace'') (PlCreateWorkspace n) IntoData"

definition get_workspaces_request :: "client_ctx \<Rightarrow> client_request" where
  "get_workspaces_request x = with_auth x MGet (cc_base_url x @ ''/api/workspace'') NoPayload IntoData"

definition open_workspace_request :: "client_ctx \<Rightarrow> string \<Rightarrow> client_request" where
  "open_workspace_request x w =
     with_auth x MPut (cc_base_url x @ ''/api/workspace/'' @ w @ ''/open'') NoPayload IntoData"

definition get_workspace_members_request :: "client_ctx \<Rightarrow> string \<Rightarrow> client_request" where
  "get_workspace_members_request x w =
     with_auth x MGet (cc_base_url x @ ''/api/workspace/'' @ w @ ''/member'') NoPayload IntoData"

definition add_workspace_members_request :: "client_ctx \<Rightarrow> string \<Rightarrow> create_workspace_member list \<Rightarrow> client_request" where
  "add_workspace_members_request x w ms =
     with_auth x MPost (cc_base_url x @ ''/api/workspace/'' @ w @ ''/member'') (PlMembers ms) IntoError"

definition update_workspace_member_request :: "client_ctx \<Rightarrow> string \<Rightarrow> workspace_member_changeset \<Rightarrow> client_request" where
  "update_workspace_member_request x w c =
     with_auth x MPut (cc_base_url x @ ''/api/workspace/'' @ w @ ''/member'') (PlChangeset c) IntoError"

definition remove_workspace_members_request :: "client_ctx \<Rightarrow> string \<Rightarrow> string list \<Rightarrow> client_request" where
  "remove_workspace_members_request x w emails =
     with_auth x MDelete (cc_base_url x @ ''/api/workspace/'' @ w @ ''/member'') (PlEmails emails) IntoError"

subsection \<open>Collabs\<close>

definition create_collab_request ::
    "(create_collab_params \<Rightarrow> string + bytes) \<Rightarrow> (nat \<Rightarrow> nat \<Rightarrow> bytes \<Rightarrow> app_error + bytes) \<Rightarrow> client_ctx \<Rightarrow>
     create_collab_params \<Rightarrow> app_error + client_request" where
  "create_collab_request pack brotli x p =
     res_bind (res_map_err Internal (pack p)) (\<lambda>b.
     res_bind (brotli (cc_compression_quality x) (cc_compression_buffer_size x) b) (\<lambda>z.
     Inr ((with_auth_compress x MPost
             (cc_base_url x @ ''/api/workspace/'' @ ccp_workspace_id p @ ''/collab/'' @ ccp_object_id p)
             (PlBytes z) IntoError)\<lparr>cq_timeout := Some 60\<rparr>)))"

definition get_snapshot_list_request :: "client_ctx \<Rightarrow> string \<Rightarrow> string \<Rightarrow> client_request" where
  "get_snapshot_list_request x w oid =
     with_auth x MGet (cc_base_url x @ ''/api/workspace/'' @ w @ ''/'' @ oid @ ''/snapshot/list'') NoPayload IntoData"

definition get_snapshot_request :: "client_ctx \<Rightarrow> string \<Rightarrow> string \<Rightarrow> i64 \<Rightarrow> client_request" where
  "get_snapshot_request x w oid sid =
     with_auth x MGet (cc_base_url x @ ''/api/workspace/'' @ w @ ''/'' @ oid @ ''/snapshot'') (PlQuerySnapshot sid) IntoData"

definition create_snapshot_request :: "client_ctx \<Rightarrow> string \<Rightarrow> string \<Rightarrow> collab_type \<Rightarrow> client_request" where
  "create_snapshot_request x w oid ct =
     with_auth x MPost (cc_base_url x @ ''/api/workspace/'' @ w @ ''/'' @ oid @ ''/snapshot'') (PlCollabType ct) IntoData"

definition update_collab_request :: "client_ctx \<Rightarrow> create_collab_params \<Rightarrow> client_request" where
  "update_collab_request x p =
     with_auth x MPut (cc_base_url x @ ''/api/workspace/'' @ ccp_workspace_id p @ ''/collab/'' @ ccp_object_id p)
       (PlCollab p) IntoError"

definition get_collab_request :: "client_ctx \<Rightarrow> query_collab_params \<Rightarrow> client_request" where
  "get_collab_request x p =
     with_auth x MGet
       (cc_base_url x @ ''/api/workspace/'' @ qcp_workspace_id p @ ''/collab/'' @ qc_object_id (qcp_inner p))
       (PlQueryCollab p) IntoData"

definition batch_get_collab_request :: "client_ctx \<Rightarrow> string \<Rightarrow> query_collab list \<Rightarrow> client_request" where
  "batch_get_collab_request x w qs =
     with_auth x MGet (cc_base_url x @ ''/api/workspace/'' @ w @ ''/collab_list'') (PlQueries qs) IntoData"

definition delete_collab_request :: "client_ctx \<Rightarrow> delete_collab_params \<Rightarrow> client_request" where
  "delete_collab_request x p =
     with_auth x MDelete (cc_base_url x @ ''/api/workspace/'' @ dcp_workspace_id p @ ''/collab/'' @ dcp_object_id p)
       (PlDeleteCollab p) IntoError"

definition add_collab_member_request :: "client_ctx \<Rightarrow> insert_collab_member_params \<Rightarrow> client_request" where
  "add_collab_member_request x p =
     with_auth x MPost
       (cc_base_url x @ ''/api/workspace/'' @ icm_workspace_id p @ ''/collab/'' @ icm_object_id p @ ''/member'')
       (PlInsertMember p) IntoError"

definition get_collab_member_request :: "client_ctx \<Rightarrow> collab_member_identify \<Rightarrow> client_request" where
  "get_collab_member_request x p =
     with_auth x MGet
       (cc_base_url x @ ''/api/workspace/'' @ cmi_workspace_id p @ ''/collab/'' @ cmi_object_id p @ ''/member'')
       (PlIdentify p) IntoData"

definition update_collab_member_request :: "client_ctx \<Rightarrow> insert_collab_member_params \<Rightarrow> client_request" where
  "update_collab_member_request x p =
     with_auth x MPut
       (cc_base_url x @ ''/api/workspace/'' @ icm_workspace_id p @ ''/collab/'' @ icm_object_id p @ ''/member'')
       (PlInsertMember p) IntoError"

definition remove_collab_member_request :: "client_ctx \<Rightarrow> collab_member_identify \<Rightarrow> client_request" where
  "remove_collab_member_request x p =
     with_auth x MDelete
       (cc_base_url x @ ''/api/workspace/'' @ cmi_workspace_id p @ ''/collab/'' @ cmi_object_id p @ ''/member'')
       (PlIdentify p) IntoError"

definition get_collab_members_request :: "client_ctx \<Rightarrow> query_collab_members \<Rightarrow> client_request" where
  "get_collab_members_request x p =
     with_auth x MGet
       (cc_base_url x @ ''/api/workspace/'' @ qcm_workspace_id p @ ''/collab/'' @ qcm_object_id p @ ''/member/list'')
       (PlQueryMembers p) IntoData"

definition batch_create_collab_url :: "client_ctx \<Rightarrow> string \<Rightarrow> string" where
  "batch_create_collab_url x w = cc_base_url x @ ''/api/workspace/'' @ w @ ''/batch/collab''"

text \<open>
  The parameters of a batch are packed and compressed in parallel; the results are taken in order, the first error ends
  the upload. A frame is the length of the data as four bytes, the highest first, and the data.
\<close>

definition be_bytes :: "u32 \<Rightarrow> bytes" where
  "be_bytes w = [ucast (drop_bit 24 w), ucast (drop_bit 16 w), ucast (drop_bit 8 w), ucast w]"

fun framed_data :: "(app_error + bytes) list \<Rightarrow> app_error + bytes" where
  "framed_data [] = Inr []"
| "framed_data (task # tasks) =
     res_bind task (\<lambda>compressed.
     res_bind (framed_data tasks) (\<lambda>rest.
     Inr (be_bytes (word_of_nat (length compressed)) @ compressed @ rest)))"

definition create_collab_list_request ::
    "(collab_params \<Rightarrow> app_error + bytes) \<Rightarrow> (nat \<Rightarrow> nat \<Rightarrow> bytes \<Rightarrow> app_error + bytes) \<Rightarrow> client_ctx \<Rightarrow>
     string \<Rightarrow> collab_params list \<Rightarrow> app_error + client_request" where
  "create_collab_list_request pack brotli x w params_list =
     res_bind (framed_data (map (\<lambda>p. res_bind (pack p)
         (brotli (cc_compression_quality x) (cc_compression_buffer_size x))) params_list)) (\<lambda>body.
     Inr ((with_auth_compress x MPost (batch_create_collab_url x w) (PlBytes body) IntoError)\<lparr>cq_timeout := Some 60\<rparr>))"

text \<open>A message of the websocket sent over HTTP; \<open>proto\<close> encodes \<open>HttpRealtimeMessage\<close>.\<close>

definition post_realtime_msg_request ::
    "(string \<Rightarrow> bytes \<Rightarrow> bytes) \<Rightarrow> (nat \<Rightarrow> nat \<Rightarrow> bytes \<Rightarrow> app_error + bytes) \<Rightarrow> client_ctx \<Rightarrow>
     string \<Rightarrow> bytes \<Rightarrow> app_error + client_request" where
  "post_realtime_msg_request proto brotli x device_id msg =
     res_bind (brotli 6 (cc_compression_buffer_size x) msg) (\<lambda>payload.
     Inr (with_auth_compress x MPost (cc_base_url x @ ''/api/realtime/post/stream'')
           (PlBytes (proto device_id payload)) IntoError))"

text \<open>The address of the websocket, which carries the token.\<close>

definition ws_url :: "client_ctx \<Rightarrow> string \<Rightarrow> string" where
  "ws_url x device_id = cc_ws_addr x @ ''/'' @ cc_access_token x @ ''/'' @ device_id"

subsection \<open>Files\<close>

definition get_blob_url :: "client_ctx \<Rightarrow> string \<Rightarrow> string \<Rightarrow> string" where
  "get_blob_url x w file_id = cc_base_url x @ ''/api/file_storage/'' @ w @ ''/blob/'' @ file_id"

definition put_blob_request :: "client_ctx \<Rightarrow> string \<Rightarrow> bytes \<Rightarrow> string \<Rightarrow> client_request" where
  "put_blob_request x url data mime =
     (with_auth x MPut url (PlBytes data) IntoError)\<lparr>cq_headers := auth_headers x @ [(''content-type'', mime)]\<rparr>"

definition get_blob_request :: "client_ctx \<Rightarrow> string \<Rightarrow> client_request" where
  "get_blob_request x url = with_auth x MGet url NoPayload ReadBody"

definition get_blob_metadata_request :: "client_ctx \<Rightarrow> string \<Rightarrow> client_request" where
  "get_blob_metadata_request x url = with_auth x MGet url NoPayload IntoData"

definition delete_blob_request :: "client_ctx \<Rightarrow> string \<Rightarrow> client_request" where
  "delete_blob_request x url = with_auth x MDelete url NoPayload IntoError"

definition get_workspace_usage_request :: "client_ctx \<Rightarrow> string \<Rightarrow> client_request" where
  "get_workspace_usage_request x w =
     with_auth x MGet (cc_base_url x @ ''/api/file_storage/'' @ w @ ''/usage'') NoPayload IntoData"

definition get_workspace_all_blob_metadata_request :: "client_ctx \<Rightarrow> string \<Rightarrow> client_request" where
  "get_workspace_all_blob_metadata_request x w =
     with_auth x MGet (cc_base_url x @ ''/api/file_storage/'' @ w @ ''/blobs'') NoPayload IntoData"

end
