(* ===== verification/HttpRoutes.thy ===== *)
theory HttpRoutes
  imports HttpRequests
begin

section \<open>The routes of the server\<close>

text \<open>
  The scopes that \<open>src/application.rs\<close> mounts: \<open>src/api/user.rs\<close>, \<open>workspace.rs\<close>, \<open>ws.rs\<close> and \<open>file_storage.rs\<close>.
  The dispatch itself belongs to the web framework and is the parameter \<open>rt\<close>; \<open>router_ok\<close> states what its
  documentation promises for a path of plain characters, in the words of \<open>route_spec\<close>: the first scope whose prefix
  the path has takes the request, in it the first resource whose pattern matches, in it the route of the verb.
\<close>

datatype handler =
    VerifyUser | UpdateUser | GetUserProfile | GetUserWorkspaceInfo | Login | Register | ChangePassword
  | ListWorkspace | CreateWorkspace | DeleteWorkspace | OpenWorkspace
  | GetWorkspaceMembers | AddWorkspaceMembers | UpdateWorkspaceMember | RemoveWorkspaceMember
  | CreateCollab | GetCollab | UpdateCollab | DeleteCollab | BatchCreateCollab | CreateCollabList | BatchGetCollab
  | GetCollabSnapshot | CreateCollabSnapshot | GetAllCollabSnapshotList
  | AddCollabMember | GetCollabMember | UpdateCollabMember | RemoveCollabMember | GetCollabMemberList
  | PostRealtimeMessageStream | EstablishWsConnection
  | PutBlob | GetBlob | DeleteBlob | GetBlobMetadata | GetWorkspaceUsage | GetAllWorkspaceBlobMetadata

record resource =
  rs_pattern :: string
  rs_payload_limit :: "nat option"
  rs_routes :: "(http_method \<times> handler) list"

definition resource_of :: "string \<Rightarrow> (http_method \<times> handler) list \<Rightarrow> resource" where
  "resource_of p rs = \<lparr>rs_pattern = p, rs_payload_limit = None, rs_routes = rs\<rparr>"

definition user_scope :: "string \<times> resource list" where
  "user_scope = (''/api/user'',
     [resource_of ''/verify/{access_token}'' [(MGet, VerifyUser)],
      resource_of ''/update'' [(MPost, UpdateUser)],
      resource_of ''/profile'' [(MGet, GetUserProfile)],
      resource_of ''/workspace'' [(MGet, GetUserWorkspaceInfo)],
      resource_of ''/login'' [(MPost, Login)],
      resource_of ''/register'' [(MPost, Register)],
      resource_of ''/password'' [(MPost, ChangePassword)]])"

definition workspace_scope :: "string \<times> resource list" where
  "workspace_scope = (''/api/workspace'',
     [resource_of ''/list'' [(MGet, ListWorkspace)],
      resource_of '''' [(MGet, ListWorkspace), (MPost, CreateWorkspace)],
      resource_of ''/{workspace_id}'' [(MDelete, DeleteWorkspace)],
      resource_of ''/{workspace_id}/open'' [(MPut, OpenWorkspace)],
      resource_of ''/{workspace_id}/member''
        [(MGet, GetWorkspaceMembers), (MPost, AddWorkspaceMembers), (MPut, UpdateWorkspaceMember),
         (MDelete, RemoveWorkspaceMember)],
      (resource_of ''/{workspace_id}/collab/{object_id}''
        [(MPost, CreateCollab), (MGet, GetCollab), (MPut, UpdateCollab), (MDelete, DeleteCollab)])
          \<lparr>rs_payload_limit := Some (5 * 1024 * 1024)\<rparr>,
      resource_of ''/{workspace_id}/batch/collab'' [(MPost, BatchCreateCollab)],
      (resource_of ''/{workspace_id}/collabs'' [(MPost, CreateCollabList)])
          \<lparr>rs_payload_limit := Some (10 * 1024 * 1024)\<rparr>,
      resource_of ''/{workspace_id}/{object_id}/snapshot'' [(MGet, GetCollabSnapshot), (MPost, CreateCollabSnapshot)],
      resource_of ''/{workspace_id}/{object_id}/snapshot/list'' [(MGet, GetAllCollabSnapshotList)],
      resource_of ''/{workspace_id}/collab/{object_id}/member''
        [(MPost, AddCollabMember), (MGet, GetCollabMember), (MPut, UpdateCollabMember), (MDelete, RemoveCollabMember)],
      resource_of ''/{workspace_id}/collab/{object_id}/member/list'' [(MGet, GetCollabMemberList)],
      resource_of ''/{workspace_id}/collab_list'' [(MGet, BatchGetCollab)]])"

definition collab_scope :: "string \<times> resource list" where
  "collab_scope = (''/api/realtime'',
     [(resource_of ''post/stream'' [(MPost, PostRealtimeMessageStream)])\<lparr>rs_payload_limit := Some (10 * 1024 * 1024)\<rparr>])"

definition ws_scope :: "string \<times> resource list" where
  "ws_scope = (''/ws'', [resource_of ''/{token}/{device_id}'' [(MGet, EstablishWsConnection)]])"

definition file_storage_scope :: "string \<times> resource list" where
  "file_storage_scope = (''/api/file_storage'',
     [resource_of ''/{workspace_id}/blob/{file_id}'' [(MPut, PutBlob), (MGet, GetBlob), (MDelete, DeleteBlob)],
      resource_of ''/{workspace_id}/metadata/{file_id}'' [(MGet, GetBlobMetadata)],
      resource_of ''/{workspace_id}/usage'' [(MGet, GetWorkspaceUsage)],
      resource_of ''/{workspace_id}/blobs'' [(MGet, GetAllWorkspaceBlobMetadata)]])"

definition app_scopes :: "(string \<times> resource list) list" where
  "app_scopes = [user_scope, workspace_scope, collab_scope, ws_scope, file_storage_scope]"

subsection \<open>Dispatch\<close>

datatype routed = Routed handler "(string \<times> string) list" | MethodNotAllowed | NoSuchResource

fun split_on :: "char \<Rightarrow> string \<Rightarrow> string list" where
  "split_on c [] = [[]]"
| "split_on c (x # xs) =
     (if x = c then [] # split_on c xs
      else case split_on c xs of [] \<Rightarrow> [[x]] | s # ss \<Rightarrow> (x # s) # ss)"

text \<open>The segments of a path or pattern; a missing slash in front is put there (\<open>insert_slash\<close>).\<close>

definition segments :: "string \<Rightarrow> string list" where
  "segments p = (if p = [] then [] else if hd p = CHR ''/'' then tl (split_on CHR ''/'' p) else split_on CHR ''/'' p)"

definition param_name :: "string \<Rightarrow> string option" where
  "param_name s = (if s \<noteq> [] \<and> hd s = CHR ''{'' \<and> last s = CHR ''}'' then Some (butlast (tl s)) else None)"

fun match_segments :: "string list \<Rightarrow> string list \<Rightarrow> (string \<times> string) list option" where
  "match_segments [] [] = Some []"
| "match_segments (p # ps) (s # ss) =
     (case param_name p of
        Some n \<Rightarrow> if s = [] then None else map_option ((#) (n, s)) (match_segments ps ss)
      | None \<Rightarrow> if p = s then match_segments ps ss else None)"
| "match_segments _ _ = None"

fun route_in :: "resource list \<Rightarrow> http_method \<Rightarrow> string list \<Rightarrow> routed" where
  "route_in [] m ss = NoSuchResource"
| "route_in (r # rs) m ss =
     (case match_segments (segments (rs_pattern r)) ss of
        None \<Rightarrow> route_in rs m ss
      | Some ps \<Rightarrow> (case map_of (rs_routes r) m of Some h \<Rightarrow> Routed h ps | None \<Rightarrow> MethodNotAllowed))"

fun route_segments :: "(string \<times> resource list) list \<Rightarrow> http_method \<Rightarrow> string list \<Rightarrow> routed" where
  "route_segments [] m ss = NoSuchResource"
| "route_segments ((prefix, rs) # scopes) m ss =
     (let n = length (segments prefix) in
      if take n ss = segments prefix then route_in rs m (drop n ss) else route_segments scopes m ss)"

definition route_spec :: "(string \<times> resource list) list \<Rightarrow> http_method \<Rightarrow> string \<Rightarrow> routed" where
  "route_spec scopes m path = route_segments scopes m (segments path)"

definition unreserved :: "char \<Rightarrow> bool" where
  "unreserved c \<longleftrightarrow>
     (let n = of_char c :: nat in 48 \<le> n \<and> n \<le> 57 \<or> 65 \<le> n \<and> n \<le> 90 \<or> 97 \<le> n \<and> n \<le> 122 \<or>
        n = 45 \<or> n = 46 \<or> n = 95 \<or> n = 126)"

definition plain_path :: "string \<Rightarrow> bool" where
  "plain_path p \<longleftrightarrow> p \<noteq> [] \<and> hd p = CHR ''/'' \<and> list_all (\<lambda>c. c = CHR ''/'' \<or> unreserved c) p"

definition plain_segment :: "string \<Rightarrow> bool" where
  "plain_segment s \<longleftrightarrow> s \<noteq> [] \<and> list_all unreserved s"

definition router_ok :: "((string \<times> resource list) list \<Rightarrow> http_method \<Rightarrow> string \<Rightarrow> routed) \<Rightarrow> bool" where
  "router_ok rt \<longleftrightarrow> (\<forall>scopes m path. plain_path path \<longrightarrow> rt scopes m path = route_spec scopes m path)"

lemma router_ok_spec: "router_ok route_spec"
  by (simp add: router_ok_def)

subsection \<open>Segments\<close>

lemma split_on_ne [simp]: "split_on c xs \<noteq> []"
  by (cases xs) (auto split: list.splits)

lemma split_on_noc: "c \<notin> set xs \<Longrightarrow> split_on c xs = [xs]"
  by (induction xs) auto

lemma split_on_append: "c \<notin> set xs \<Longrightarrow> split_on c (xs @ c # ys) = xs # split_on c ys"
  by (induction xs) auto

lemma plain_segment_no_slash: "plain_segment s \<Longrightarrow> CHR ''/'' \<notin> set s"
  by (auto simp: plain_segment_def list_all_iff unreserved_def Let_def)

lemma split_plain [simp]:
  "plain_segment s \<Longrightarrow> split_on CHR ''/'' s = [s]"
  "plain_segment s \<Longrightarrow> split_on CHR ''/'' (s @ CHR ''/'' # t) = s # split_on CHR ''/'' t"
  by (simp_all add: split_on_noc split_on_append plain_segment_no_slash)

lemma plain_segment_ne [simp]: "plain_segment s \<Longrightarrow> s \<noteq> []"
  by (simp add: plain_segment_def)

end
