(* ===== verification/HttpProps.thy ===== *)
theory HttpProps
  imports HttpRoutes
begin

section \<open>Client and server agree on the interface\<close>

text \<open>
  Every call of the client library with the handler that serves it, the ids that the permission gate sees and the
  answer that the caller gets.
\<close>

datatype client_call =
    CallVerifyToken string
  | CallGetProfile
  | CallGetUserWorkspaceInfo
  | CallUpdateUser update_user_params
  | CallDeleteWorkspace string
  | CallCreateWorkspace "string option"
  | CallGetWorkspaces
  | CallOpenWorkspace string
  | CallGetWorkspaceMembers string
  | CallAddWorkspaceMembers string "create_workspace_member list"
  | CallUpdateWorkspaceMember string workspace_member_changeset
  | CallRemoveWorkspaceMembers string "string list"
  | CallCreateCollab create_collab_params
  | CallGetSnapshotList string string
  | CallGetSnapshot string string i64
  | CallCreateSnapshot string string collab_type
  | CallUpdateCollab create_collab_params
  | CallGetCollab query_collab_params
  | CallBatchGetCollab string "query_collab list"
  | CallDeleteCollab delete_collab_params
  | CallAddCollabMember insert_collab_member_params
  | CallGetCollabMember collab_member_identify
  | CallUpdateCollabMember insert_collab_member_params
  | CallRemoveCollabMember collab_member_identify
  | CallGetCollabMembers query_collab_members
  | CallCreateCollabList string "collab_params list"
  | CallPostRealtimeMsg string bytes
  | CallPutBlob string string bytes string
  | CallGetBlob string string
  | CallDeleteBlob string string
  | CallGetWorkspaceUsage string
  | CallGetAllBlobMetadata string

record client_codecs =
  ck_create :: "create_collab_params \<Rightarrow> string + bytes"
  ck_params :: "collab_params \<Rightarrow> app_error + bytes"
  ck_brotli :: "nat \<Rightarrow> nat \<Rightarrow> bytes \<Rightarrow> app_error + bytes"
  ck_proto :: "string \<Rightarrow> bytes \<Rightarrow> bytes"

fun request_of :: "client_codecs \<Rightarrow> client_ctx \<Rightarrow> client_call \<Rightarrow> app_error + client_request" where
  "request_of k x (CallVerifyToken t) = Inr (verify_token_cloud_request x t)"
| "request_of k x CallGetProfile = Inr (get_profile_request x)"
| "request_of k x CallGetUserWorkspaceInfo = Inr (get_user_workspace_info_request x)"
| "request_of k x (CallUpdateUser p) = Inr (update_user_request x p)"
| "request_of k x (CallDeleteWorkspace w) = Inr (delete_workspace_request x w)"
| "request_of k x (CallCreateWorkspace n) = Inr (create_workspace_request x n)"
| "request_of k x CallGetWorkspaces = Inr (get_workspaces_request x)"
| "request_of k x (CallOpenWorkspace w) = Inr (open_workspace_request x w)"
| "request_of k x (CallGetWorkspaceMembers w) = Inr (get_workspace_members_request x w)"
| "request_of k x (CallAddWorkspaceMembers w ms) = Inr (add_workspace_members_request x w ms)"
| "request_of k x (CallUpdateWorkspaceMember w c) = Inr (update_workspace_member_request x w c)"
| "request_of k x (CallRemoveWorkspaceMembers w es) = Inr (remove_workspace_members_request x w es)"
| "request_of k x (CallCreateCollab p) = create_collab_request (ck_create k) (ck_brotli k) x p"
| "request_of k x (CallGetSnapshotList w oid) = Inr (get_snapshot_list_request x w oid)"
| "request_of k x (CallGetSnapshot w oid sid) = Inr (get_snapshot_request x w oid sid)"
| "request_of k x (CallCreateSnapshot w oid ct) = Inr (create_snapshot_request x w oid ct)"
| "request_of k x (CallUpdateCollab p) = Inr (update_collab_request x p)"
| "request_of k x (CallGetCollab p) = Inr (get_collab_request x p)"
| "request_of k x (CallBatchGetCollab w qs) = Inr (batch_get_collab_request x w qs)"
| "request_of k x (CallDeleteCollab p) = Inr (delete_collab_request x p)"
| "request_of k x (CallAddCollabMember p) = Inr (add_collab_member_request x p)"
| "request_of k x (CallGetCollabMember p) = Inr (get_collab_member_request x p)"
| "request_of k x (CallUpdateCollabMember p) = Inr (update_collab_member_request x p)"
| "request_of k x (CallRemoveCollabMember p) = Inr (remove_collab_member_request x p)"
| "request_of k x (CallGetCollabMembers p) = Inr (get_collab_members_request x p)"
| "request_of k x (CallCreateCollabList w ps) = create_collab_list_request (ck_params k) (ck_brotli k) x w ps"
| "request_of k x (CallPostRealtimeMsg d m) = post_realtime_msg_request (ck_proto k) (ck_brotli k) x d m"
| "request_of k x (CallPutBlob w f d m) = Inr (put_blob_request x (get_blob_url x w f) d m)"
| "request_of k x (CallGetBlob w f) = Inr (get_blob_request x (get_blob_url x w f))"
| "request_of k x (CallDeleteBlob w f) = Inr (delete_blob_request x (get_blob_url x w f))"
| "request_of k x (CallGetWorkspaceUsage w) = Inr (get_workspace_usage_request x w)"
| "request_of k x (CallGetAllBlobMetadata w) = Inr (get_workspace_all_blob_metadata_request x w)"

text \<open>The handler that is meant to serve the call, with the ids in its path.\<close>

fun serves :: "client_call \<Rightarrow> handler \<times> (string \<times> string) list" where
  "serves (CallVerifyToken t) = (VerifyUser, [(''access_token'', t)])"
| "serves CallGetProfile = (GetUserProfile, [])"
| "serves CallGetUserWorkspaceInfo = (GetUserWorkspaceInfo, [])"
| "serves (CallUpdateUser p) = (UpdateUser, [])"
| "serves (CallDeleteWorkspace w) = (DeleteWorkspace, [(''workspace_id'', w)])"
| "serves (CallCreateWorkspace n) = (CreateWorkspace, [])"
| "serves CallGetWorkspaces = (ListWorkspace, [])"
| "serves (CallOpenWorkspace w) = (OpenWorkspace, [(''workspace_id'', w)])"
| "serves (CallGetWorkspaceMembers w) = (GetWorkspaceMembers, [(''workspace_id'', w)])"
| "serves (CallAddWorkspaceMembers w ms) = (AddWorkspaceMembers, [(''workspace_id'', w)])"
| "serves (CallUpdateWorkspaceMember w c) = (UpdateWorkspaceMember, [(''workspace_id'', w)])"
| "serves (CallRemoveWorkspaceMembers w es) = (RemoveWorkspaceMember, [(''workspace_id'', w)])"
| "serves (CallCreateCollab p) =
     (CreateCollab, [(''workspace_id'', ccp_workspace_id p), (''object_id'', ccp_object_id p)])"
| "serves (CallGetSnapshotList w oid) = (GetAllCollabSnapshotList, [(''workspace_id'', w), (''object_id'', oid)])"
| "serves (CallGetSnapshot w oid sid) = (GetCollabSnapshot, [(''workspace_id'', w), (''object_id'', oid)])"
| "serves (CallCreateSnapshot w oid ct) = (CreateCollabSnapshot, [(''workspace_id'', w), (''object_id'', oid)])"
| "serves (CallUpdateCollab p) =
     (UpdateCollab, [(''workspace_id'', ccp_workspace_id p), (''object_id'', ccp_object_id p)])"
| "serves (CallGetCollab p) =
     (GetCollab, [(''workspace_id'', qcp_workspace_id p), (''object_id'', qc_object_id (qcp_inner p))])"
| "serves (CallBatchGetCollab w qs) = (BatchGetCollab, [(''workspace_id'', w)])"
| "serves (CallDeleteCollab p) =
     (DeleteCollab, [(''workspace_id'', dcp_workspace_id p), (''object_id'', dcp_object_id p)])"
| "serves (CallAddCollabMember p) =
     (AddCollabMember, [(''workspace_id'', icm_workspace_id p), (''object_id'', icm_object_id p)])"
| "serves (CallGetCollabMember p) =
     (GetCollabMember, [(''workspace_id'', cmi_workspace_id p), (''object_id'', cmi_object_id p)])"
| "serves (CallUpdateCollabMember p) =
     (UpdateCollabMember, [(''workspace_id'', icm_workspace_id p), (''object_id'', icm_object_id p)])"
| "serves (CallRemoveCollabMember p) =
     (RemoveCollabMember, [(''workspace_id'', cmi_workspace_id p), (''object_id'', cmi_object_id p)])"
| "serves (CallGetCollabMembers p) =
     (GetCollabMemberList, [(''workspace_id'', qcm_workspace_id p), (''object_id'', qcm_object_id p)])"
| "serves (CallCreateCollabList w ps) = (BatchCreateCollab, [(''workspace_id'', w)])"
| "serves (CallPostRealtimeMsg d m) = (PostRealtimeMessageStream, [])"
| "serves (CallPutBlob w f d m) = (PutBlob, [(''workspace_id'', w), (''file_id'', f)])"
| "serves (CallGetBlob w f) = (GetBlob, [(''workspace_id'', w), (''file_id'', f)])"
| "serves (CallDeleteBlob w f) = (DeleteBlob, [(''workspace_id'', w), (''file_id'', f)])"
| "serves (CallGetWorkspaceUsage w) = (GetWorkspaceUsage, [(''workspace_id'', w)])"
| "serves (CallGetAllBlobMetadata w) = (GetAllWorkspaceBlobMetadata, [(''workspace_id'', w)])"

text \<open>
  A call whose ids are plain segments. Two names are taken by other routes: a workspace called ``list'' is read as the
  old listing, the snapshots of an object called ``collab'' as a collab called ``snapshot''.
\<close>

fun snapshot_call :: "client_call \<Rightarrow> bool" where
  "snapshot_call (CallGetSnapshot w oid sid) = True"
| "snapshot_call (CallCreateSnapshot w oid ct) = True"
| "snapshot_call _ = False"

definition call_ok :: "client_call \<Rightarrow> bool" where
  "call_ok c \<longleftrightarrow>
     list_all (\<lambda>(_, s). plain_segment s) (snd (serves c)) \<and>
     map_of (snd (serves c)) ''workspace_id'' \<noteq> Some ''list'' \<and>
     (snapshot_call c \<longrightarrow> map_of (snd (serves c)) ''object_id'' \<noteq> Some ''collab'')"


subsection \<open>The table of routes\<close>

lemma pattern_segments:
  "segments ''/verify/{access_token}'' = [''verify'', ''{access_token}'']"
  "segments ''/update'' = [''update'']"
  "segments ''/profile'' = [''profile'']"
  "segments ''/workspace'' = [''workspace'']"
  "segments ''/login'' = [''login'']"
  "segments ''/register'' = [''register'']"
  "segments ''/password'' = [''password'']"
  "segments ''/list'' = [''list'']"
  "segments '''' = []"
  "segments ''/{workspace_id}'' = [''{workspace_id}'']"
  "segments ''/{workspace_id}/open'' = [''{workspace_id}'', ''open'']"
  "segments ''/{workspace_id}/member'' = [''{workspace_id}'', ''member'']"
  "segments ''/{workspace_id}/collab/{object_id}'' = [''{workspace_id}'', ''collab'', ''{object_id}'']"
  "segments ''/{workspace_id}/batch/collab'' = [''{workspace_id}'', ''batch'', ''collab'']"
  "segments ''/{workspace_id}/collabs'' = [''{workspace_id}'', ''collabs'']"
  "segments ''/{workspace_id}/{object_id}/snapshot'' = [''{workspace_id}'', ''{object_id}'', ''snapshot'']"
  "segments ''/{workspace_id}/{object_id}/snapshot/list'' = [''{workspace_id}'', ''{object_id}'', ''snapshot'', ''list'']"
  "segments ''/{workspace_id}/collab/{object_id}/member'' = [''{workspace_id}'', ''collab'', ''{object_id}'', ''member'']"
  "segments ''/{workspace_id}/collab/{object_id}/member/list'' = [''{workspace_id}'', ''collab'', ''{object_id}'', ''member'', ''list'']"
  "segments ''/{workspace_id}/collab_list'' = [''{workspace_id}'', ''collab_list'']"
  "segments ''post/stream'' = [''post'', ''stream'']"
  "segments ''/{token}/{device_id}'' = [''{token}'', ''{device_id}'']"
  "segments ''/{workspace_id}/blob/{file_id}'' = [''{workspace_id}'', ''blob'', ''{file_id}'']"
  "segments ''/{workspace_id}/metadata/{file_id}'' = [''{workspace_id}'', ''metadata'', ''{file_id}'']"
  "segments ''/{workspace_id}/usage'' = [''{workspace_id}'', ''usage'']"
  "segments ''/{workspace_id}/blobs'' = [''{workspace_id}'', ''blobs'']"
  "segments ''/api/user'' = [''api'', ''user'']"
  "segments ''/api/workspace'' = [''api'', ''workspace'']"
  "segments ''/api/realtime'' = [''api'', ''realtime'']"
  "segments ''/ws'' = [''ws'']"
  "segments ''/api/file_storage'' = [''api'', ''file_storage'']"
  by (simp_all add: segments_def)

lemma pattern_params:
  "param_name ''verify'' = None"
  "param_name ''{access_token}'' = Some ''access_token''"
  "param_name ''update'' = None"
  "param_name ''profile'' = None"
  "param_name ''workspace'' = None"
  "param_name ''login'' = None"
  "param_name ''register'' = None"
  "param_name ''password'' = None"
  "param_name ''list'' = None"
  "param_name ''{workspace_id}'' = Some ''workspace_id''"
  "param_name ''open'' = None"
  "param_name ''member'' = None"
  "param_name ''collab'' = None"
  "param_name ''{object_id}'' = Some ''object_id''"
  "param_name ''batch'' = None"
  "param_name ''collabs'' = None"
  "param_name ''snapshot'' = None"
  "param_name ''collab_list'' = None"
  "param_name ''post'' = None"
  "param_name ''stream'' = None"
  "param_name ''{token}'' = Some ''token''"
  "param_name ''{device_id}'' = Some ''device_id''"
  "param_name ''blob'' = None"
  "param_name ''{file_id}'' = Some ''file_id''"
  "param_name ''metadata'' = None"
  "param_name ''usage'' = None"
  "param_name ''blobs'' = None"
  "param_name ''api'' = None"
  "param_name ''user'' = None"
  "param_name ''realtime'' = None"
  "param_name ''ws'' = None"
  "param_name ''file_storage'' = None"
  by (simp_all add: param_name_def)

lemmas scope_defs = app_scopes_def user_scope_def workspace_scope_def collab_scope_def ws_scope_def
  file_storage_scope_def resource_of_def

text \<open>A path given by its segments.\<close>

definition path_of :: "string list \<Rightarrow> string" where
  "path_of ss = concat (map ((#) CHR ''/'') ss)"

lemma path_of_Cons [simp]: "path_of (s # ss) = CHR ''/'' # s @ path_of ss"
  by (simp add: path_of_def)

lemma path_of_Nil [simp]: "path_of [] = []"
  by (simp add: path_of_def)

lemma split_path_of: "list_all plain_segment ss \<Longrightarrow> plain_segment s \<Longrightarrow> split_on CHR ''/'' (s @ path_of ss) = s # ss"
  by (induction ss arbitrary: s) simp_all

lemma segments_path_of: "list_all plain_segment ss \<Longrightarrow> segments (path_of ss) = ss"
  by (cases ss) (simp_all add: segments_def split_path_of)

lemma plain_path_of: "list_all plain_segment ss \<Longrightarrow> ss \<noteq> [] \<Longrightarrow> plain_path (path_of ss)"
  by (auto simp: plain_path_def path_of_def plain_segment_def list_all_iff neq_Nil_conv)

lemma plain_words [simp]:
  "plain_segment ''api''" "plain_segment ''workspace''" "plain_segment ''user''" "plain_segment ''file_storage''"
  "plain_segment ''verify''" "plain_segment ''profile''" "plain_segment ''update''" "plain_segment ''open''"
  "plain_segment ''member''" "plain_segment ''list''" "plain_segment ''collab''" "plain_segment ''snapshot''"
  "plain_segment ''collab_list''" "plain_segment ''batch''" "plain_segment ''realtime''" "plain_segment ''post''"
  "plain_segment ''stream''" "plain_segment ''blob''" "plain_segment ''blobs''" "plain_segment ''usage''"
  by (simp_all add: plain_segment_def unreserved_def)


subsection \<open>Every call is served\<close>

fun call_segments :: "client_call \<Rightarrow> string list" where
  "call_segments (CallVerifyToken t) = [''api'', ''user'', ''verify'', t]"
| "call_segments CallGetProfile = [''api'', ''user'', ''profile'']"
| "call_segments CallGetUserWorkspaceInfo = [''api'', ''user'', ''workspace'']"
| "call_segments (CallUpdateUser p) = [''api'', ''user'', ''update'']"
| "call_segments (CallDeleteWorkspace w) = [''api'', ''workspace'', w]"
| "call_segments (CallCreateWorkspace n) = [''api'', ''workspace'']"
| "call_segments CallGetWorkspaces = [''api'', ''workspace'']"
| "call_segments (CallOpenWorkspace w) = [''api'', ''workspace'', w, ''open'']"
| "call_segments (CallGetWorkspaceMembers w) = [''api'', ''workspace'', w, ''member'']"
| "call_segments (CallAddWorkspaceMembers w ms) = [''api'', ''workspace'', w, ''member'']"
| "call_segments (CallUpdateWorkspaceMember w c) = [''api'', ''workspace'', w, ''member'']"
| "call_segments (CallRemoveWorkspaceMembers w es) = [''api'', ''workspace'', w, ''member'']"
| "call_segments (CallCreateCollab p) = [''api'', ''workspace'', ccp_workspace_id p, ''collab'', ccp_object_id p]"
| "call_segments (CallGetSnapshotList w oid) = [''api'', ''workspace'', w, oid, ''snapshot'', ''list'']"
| "call_segments (CallGetSnapshot w oid sid) = [''api'', ''workspace'', w, oid, ''snapshot'']"
| "call_segments (CallCreateSnapshot w oid ct) = [''api'', ''workspace'', w, oid, ''snapshot'']"
| "call_segments (CallUpdateCollab p) = [''api'', ''workspace'', ccp_workspace_id p, ''collab'', ccp_object_id p]"
| "call_segments (CallGetCollab p) =
     [''api'', ''workspace'', qcp_workspace_id p, ''collab'', qc_object_id (qcp_inner p)]"
| "call_segments (CallBatchGetCollab w qs) = [''api'', ''workspace'', w, ''collab_list'']"
| "call_segments (CallDeleteCollab p) = [''api'', ''workspace'', dcp_workspace_id p, ''collab'', dcp_object_id p]"
| "call_segments (CallAddCollabMember p) =
     [''api'', ''workspace'', icm_workspace_id p, ''collab'', icm_object_id p, ''member'']"
| "call_segments (CallGetCollabMember p) =
     [''api'', ''workspace'', cmi_workspace_id p, ''collab'', cmi_object_id p, ''member'']"
| "call_segments (CallUpdateCollabMember p) =
     [''api'', ''workspace'', icm_workspace_id p, ''collab'', icm_object_id p, ''member'']"
| "call_segments (CallRemoveCollabMember p) =
     [''api'', ''workspace'', cmi_workspace_id p, ''collab'', cmi_object_id p, ''member'']"
| "call_segments (CallGetCollabMembers p) =
     [''api'', ''workspace'', qcm_workspace_id p, ''collab'', qcm_object_id p, ''member'', ''list'']"
| "call_segments (CallCreateCollabList w ps) = [''api'', ''workspace'', w, ''batch'', ''collab'']"
| "call_segments (CallPostRealtimeMsg d m) = [''api'', ''realtime'', ''post'', ''stream'']"
| "call_segments (CallPutBlob w f d m) = [''api'', ''file_storage'', w, ''blob'', f]"
| "call_segments (CallGetBlob w f) = [''api'', ''file_storage'', w, ''blob'', f]"
| "call_segments (CallDeleteBlob w f) = [''api'', ''file_storage'', w, ''blob'', f]"
| "call_segments (CallGetWorkspaceUsage w) = [''api'', ''file_storage'', w, ''usage'']"
| "call_segments (CallGetAllBlobMetadata w) = [''api'', ''file_storage'', w, ''blobs'']"

lemmas request_defs = get_profile_request_def get_user_workspace_info_request_def update_user_request_def
  verify_token_cloud_request_def delete_workspace_request_def create_workspace_request_def get_workspaces_request_def
  open_workspace_request_def get_workspace_members_request_def add_workspace_members_request_def
  update_workspace_member_request_def remove_workspace_members_request_def
  create_collab_request_def get_snapshot_list_request_def get_snapshot_request_def
  create_snapshot_request_def update_collab_request_def get_collab_request_def batch_get_collab_request_def
  delete_collab_request_def add_collab_member_request_def get_collab_member_request_def
  update_collab_member_request_def remove_collab_member_request_def get_collab_members_request_def
  create_collab_list_request_def batch_create_collab_url_def post_realtime_msg_request_def
  get_blob_url_def put_blob_request_def get_blob_request_def delete_blob_request_def
  get_workspace_usage_request_def get_workspace_all_blob_metadata_request_def with_auth_def with_auth_compress_def

lemma request_url:
  assumes "request_of k x c = Inr r"
  shows "cq_url r = cc_base_url x @ path_of (call_segments c)"
  using assms by (cases c) (auto simp: request_defs elim!: res_bind_InrE)

lemma call_segments_plain: "call_ok c \<Longrightarrow> list_all plain_segment (call_segments c) \<and> call_segments c \<noteq> []"
  by (cases c) (simp_all add: call_ok_def)

definition by_verb :: "(http_method \<times> handler) list \<Rightarrow> http_method \<Rightarrow> (string \<times> string) list \<Rightarrow> routed" where
  "by_verb rs m ps = (case map_of rs m of Some h \<Rightarrow> Routed h ps | None \<Rightarrow> MethodNotAllowed)"

lemma route_in_Cons:
  "route_in (\<lparr>rs_pattern = p, rs_payload_limit = l, rs_routes = rts\<rparr> # rs) m ss =
     (case match_segments (segments p) ss of None \<Rightarrow> route_in rs m ss | Some ps \<Rightarrow> by_verb rts m ps)"
  by (cases "match_segments (segments p) ss") (simp_all add: by_verb_def)

text \<open>The rest of the pattern is looked at first, so that a variable segment is not split upon.\<close>

lemma match_param:
  "param_name p = Some n \<Longrightarrow> s \<noteq> [] \<Longrightarrow>
     match_segments (p # ps) (s # ss) = map_option ((#) (n, s)) (match_segments ps ss)"
  by simp

lemma match_literal:
  "param_name p = None \<Longrightarrow>
     match_segments (p # ps) (s # ss) =
       (if match_segments ps ss = None then None else if p = s then match_segments ps ss else None)"
  by simp

lemmas route_table = scope_defs pattern_segments pattern_params route_in_Cons match_param match_literal

declare route_in.simps(2) [simp del] match_segments.simps(2) [simp del]

lemma route_user_verify: "plain_segment t \<Longrightarrow> route_segments app_scopes m
    [''api'', ''user'', ''verify'', t] = by_verb [(MGet, VerifyUser)] m
    [(''access_token'', t)]"
  by (simp add: route_table)

lemma route_user_profile: "route_segments app_scopes m
    [''api'', ''user'', ''profile''] = by_verb [(MGet, GetUserProfile)] m
    []"
  by (simp add: route_table)

lemma route_user_workspace: "route_segments app_scopes m
    [''api'', ''user'', ''workspace''] = by_verb [(MGet, GetUserWorkspaceInfo)] m
    []"
  by (simp add: route_table)

lemma route_user_update: "route_segments app_scopes m
    [''api'', ''user'', ''update''] = by_verb [(MPost, UpdateUser)] m
    []"
  by (simp add: route_table)

lemma route_workspaces: "route_segments app_scopes m
    [''api'', ''workspace''] = by_verb [(MGet, ListWorkspace), (MPost, CreateWorkspace)] m
    []"
  by (simp add: route_table)

lemma route_workspace: "plain_segment w \<Longrightarrow> w \<noteq> ''list'' \<Longrightarrow> route_segments app_scopes m
    [''api'', ''workspace'', w] = by_verb [(MDelete, DeleteWorkspace)] m
    [(''workspace_id'', w)]"
  by (simp add: route_table)

lemma route_open: "plain_segment w \<Longrightarrow> route_segments app_scopes m
    [''api'', ''workspace'', w, ''open''] = by_verb [(MPut, OpenWorkspace)] m
    [(''workspace_id'', w)]"
  by (simp add: route_table)

lemma route_members: "plain_segment w \<Longrightarrow> route_segments app_scopes m
    [''api'', ''workspace'', w, ''member''] = by_verb [(MGet, GetWorkspaceMembers), (MPost, AddWorkspaceMembers), (MPut, UpdateWorkspaceMember), (MDelete, RemoveWorkspaceMember)] m
    [(''workspace_id'', w)]"
  by (simp add: route_table)

lemma route_collab: "plain_segment w \<Longrightarrow> plain_segment oid \<Longrightarrow> route_segments app_scopes m
    [''api'', ''workspace'', w, ''collab'', oid] = by_verb [(MPost, CreateCollab), (MGet, GetCollab), (MPut, UpdateCollab), (MDelete, DeleteCollab)] m
    [(''workspace_id'', w), (''object_id'', oid)]"
  by (simp add: route_table)

lemma route_batch: "plain_segment w \<Longrightarrow> route_segments app_scopes m
    [''api'', ''workspace'', w, ''batch'', ''collab''] = by_verb [(MPost, BatchCreateCollab)] m
    [(''workspace_id'', w)]"
  by (simp add: route_table)

lemma route_snapshot: "plain_segment w \<Longrightarrow> plain_segment oid \<Longrightarrow> oid \<noteq> ''collab'' \<Longrightarrow> route_segments app_scopes m
    [''api'', ''workspace'', w, oid, ''snapshot''] = by_verb [(MGet, GetCollabSnapshot), (MPost, CreateCollabSnapshot)] m
    [(''workspace_id'', w), (''object_id'', oid)]"
  by (simp add: route_table)

lemma route_snapshots: "plain_segment w \<Longrightarrow> plain_segment oid \<Longrightarrow> route_segments app_scopes m
    [''api'', ''workspace'', w, oid, ''snapshot'', ''list''] = by_verb [(MGet, GetAllCollabSnapshotList)] m
    [(''workspace_id'', w), (''object_id'', oid)]"
  by (simp add: route_table)

lemma route_collab_member: "plain_segment w \<Longrightarrow> plain_segment oid \<Longrightarrow> route_segments app_scopes m
    [''api'', ''workspace'', w, ''collab'', oid, ''member''] = by_verb [(MPost, AddCollabMember), (MGet, GetCollabMember), (MPut, UpdateCollabMember), (MDelete, RemoveCollabMember)] m
    [(''workspace_id'', w), (''object_id'', oid)]"
  by (simp add: route_table)

lemma route_collab_members: "plain_segment w \<Longrightarrow> plain_segment oid \<Longrightarrow> route_segments app_scopes m
    [''api'', ''workspace'', w, ''collab'', oid, ''member'', ''list''] = by_verb [(MGet, GetCollabMemberList)] m
    [(''workspace_id'', w), (''object_id'', oid)]"
  by (simp add: route_table)

lemma route_collab_list: "plain_segment w \<Longrightarrow> route_segments app_scopes m
    [''api'', ''workspace'', w, ''collab_list''] = by_verb [(MGet, BatchGetCollab)] m
    [(''workspace_id'', w)]"
  by (simp add: route_table)

lemma route_realtime: "route_segments app_scopes m
    [''api'', ''realtime'', ''post'', ''stream''] = by_verb [(MPost, PostRealtimeMessageStream)] m
    []"
  by (simp add: route_table)

lemma route_blob: "plain_segment w \<Longrightarrow> plain_segment f \<Longrightarrow> route_segments app_scopes m
    [''api'', ''file_storage'', w, ''blob'', f] = by_verb [(MPut, PutBlob), (MGet, GetBlob), (MDelete, DeleteBlob)] m
    [(''workspace_id'', w), (''file_id'', f)]"
  by (simp add: route_table)

lemma route_usage: "plain_segment w \<Longrightarrow> route_segments app_scopes m
    [''api'', ''file_storage'', w, ''usage''] = by_verb [(MGet, GetWorkspaceUsage)] m
    [(''workspace_id'', w)]"
  by (simp add: route_table)

lemma route_blobs: "plain_segment w \<Longrightarrow> route_segments app_scopes m
    [''api'', ''file_storage'', w, ''blobs''] = by_verb [(MGet, GetAllWorkspaceBlobMetadata)] m
    [(''workspace_id'', w)]"
  by (simp add: route_table)

lemmas routes = route_user_verify route_user_profile route_user_workspace route_user_update route_workspaces route_workspace route_open route_members route_collab route_batch route_snapshot route_snapshots route_collab_member route_collab_members route_collab_list route_realtime route_blob route_usage route_blobs

lemma call_routed:
  assumes "call_ok c" and "request_of k x c = Inr r"
  shows "route_segments app_scopes (cq_verb r) (call_segments c) = Routed (fst (serves c)) (snd (serves c))"
  using assms
  by (cases c) (auto simp: call_ok_def routes by_verb_def request_defs simp del: append.simps elim!: res_bind_InrE)

text \<open>The path of a request, below the base of the server.\<close>

definition request_path :: "client_ctx \<Rightarrow> client_request \<Rightarrow> string" where
  "request_path x r = drop (length (cc_base_url x)) (cq_url r)"

lemma request_path_eq:
  "request_of k x c = Inr r \<Longrightarrow> request_path x r = path_of (call_segments c)"
  by (simp add: request_path_def request_url)

lemma call_dispatched:
  assumes "router_ok rt" and "call_ok c" and "request_of k x c = Inr r"
  shows "rt app_scopes (cq_verb r) (request_path x r) = Routed (fst (serves c)) (snd (serves c))"
  using assms call_segments_plain [OF assms(2)] call_routed [OF assms(2,3)]
  by (simp add: router_ok_def request_path_eq plain_path_of route_spec_def segments_path_of)

subsection \<open>Properties\<close>


definition sample_ctx :: client_ctx where
  "sample_ctx = \<lparr>cc_base_url = ''http://h'', cc_ws_addr = ''ws://h/ws'', cc_device_id = ''d'', cc_client_id = ''v'',
     cc_compression_quality = 8, cc_compression_buffer_size = 10240, cc_now = 0, cc_access_token = ''t''\<rparr>"

definition sample_codecs :: client_codecs where
  "sample_codecs = \<lparr>ck_create = \<lambda>_. Inr [], ck_params = \<lambda>_. Inr [], ck_brotli = \<lambda>_ _ b. Inr b, ck_proto = \<lambda>_ b. b\<rparr>"

definition sample_delete :: client_call where
  "sample_delete = CallDeleteCollab \<lparr>dcp_object_id = ''a'', dcp_workspace_id = ''w''\<rparr>"

lemma sample_delete_ok: "call_ok sample_delete"
  by (simp add: sample_delete_def call_ok_def plain_segment_def unreserved_def)




end
