(* ===== verification/FileStore.thy ===== *)
theory FileStore
  imports HttpRequests
begin

section \<open>Files of a workspace\<close>

text \<open>
  \<open>libs/database/src/file\<close>, \<open>resource_usage.rs\<close> and \<open>src/api/file_storage.rs\<close>: the table of the files' metadata, the
  bucket with their content and the handlers of uploads and downloads, with the client's side of both
  (\<open>put_blob\<close>, \<open>get_blob\<close> of \<open>libs/client-api/src/http.rs\<close>). The bucket is a service: its state and operations are the
  parameter \<open>bk\<close>, \<open>bucket_ok bk objs\<close> says what its documentation promises of the objects it holds. Times are in
  microseconds.
\<close>

record af_blob_metadata_row =
  bm_workspace_id :: string
  bm_file_id :: string
  bm_file_type :: string
  bm_file_size :: i64
  bm_modified_at :: nat

text \<open>The rows, the workspaces that they refer to, and the bucket.\<close>

record 'b file_store =
  fs_workspaces :: "string list"
  fs_rows :: "af_blob_metadata_row list"
  fs_bucket :: 'b

definition blob_at :: "string \<Rightarrow> string \<Rightarrow> af_blob_metadata_row \<Rightarrow> bool" where
  "blob_at w f r \<longleftrightarrow> bm_workspace_id r = w \<and> bm_file_id r = f"

subsection \<open>The table\<close>

definition is_blob_metadata_exists ::
    "sqlx_error option \<Rightarrow> string \<Rightarrow> string \<Rightarrow> af_blob_metadata_row list \<Rightarrow> app_error + bool" where
  "is_blob_metadata_exists q w f rows =
     (case q of Some err \<Rightarrow> Inl (app_error_of_sqlx err) | None \<Rightarrow> Inr (\<exists>r \<in> set rows. blob_at w f r))"

text \<open>\<open>usize as i64\<close>; the size of a row that exists is replaced, its time stays.\<close>

definition as_i64 :: "nat \<Rightarrow> i64" where
  "as_i64 n = (let m = int (n mod 2 ^ 64) in if m < 2 ^ 63 then m else m - 2 ^ 64)"

definition insert_blob_metadata ::
    "sqlx_error option \<Rightarrow> nat \<Rightarrow> string \<Rightarrow> string \<Rightarrow> string \<Rightarrow> nat \<Rightarrow> 'b file_store \<Rightarrow>
     app_error + af_blob_metadata_row list" where
  "insert_blob_metadata q now f w file_type n s =
     (case q of
        Some err \<Rightarrow> Inl (app_error_of_sqlx err)
      | None \<Rightarrow>
          if w \<notin> set (fs_workspaces s) then Inl (app_error_of_sqlx foreign_key_violation)
          else if \<exists>r \<in> set (fs_rows s). blob_at w f r then
            Inr (map (\<lambda>r. if blob_at w f r then r\<lparr>bm_file_type := file_type, bm_file_size := as_i64 n\<rparr> else r) (fs_rows s))
          else Inr (fs_rows s @ [\<lparr>bm_workspace_id = w, bm_file_id = f, bm_file_type = file_type,
                                  bm_file_size = as_i64 n, bm_modified_at = now\<rparr>]))"

definition delete_blob_metadata ::
    "sqlx_error option \<Rightarrow> string \<Rightarrow> string \<Rightarrow> af_blob_metadata_row list \<Rightarrow> af_blob_metadata_row list served" where
  "delete_blob_metadata q w f rows =
     (case q of
        Some err \<Rightarrow> Served (Inl (app_error_of_sqlx err))
      | None \<Rightarrow>
          if length (filter (blob_at w f) rows) = 1 then Served (Inr (filter (\<lambda>r. \<not> blob_at w f r) rows))
          else Panicked)"

definition get_blob_metadata ::
    "sqlx_error option \<Rightarrow> string \<Rightarrow> string \<Rightarrow> af_blob_metadata_row list \<Rightarrow> app_error + af_blob_metadata_row" where
  "get_blob_metadata q w f rows =
     (case q of
        Some err \<Rightarrow> Inl (app_error_of_sqlx err)
      | None \<Rightarrow> (case find (blob_at w f) rows of None \<Rightarrow> Inl (app_error_of_sqlx SqlRowNotFound) | Some r \<Rightarrow> Inr r))"

definition get_all_workspace_blob_metadata ::
    "sqlx_error option \<Rightarrow> string \<Rightarrow> af_blob_metadata_row list \<Rightarrow> app_error + af_blob_metadata_row list" where
  "get_all_workspace_blob_metadata q w rows =
     (case q of Some err \<Rightarrow> Inl (app_error_of_sqlx err) | None \<Rightarrow> Inr (filter (\<lambda>r. bm_workspace_id r = w) rows))"

definition get_all_workspace_blob_ids ::
    "sqlx_error option \<Rightarrow> string \<Rightarrow> af_blob_metadata_row list \<Rightarrow> app_error + string list" where
  "get_all_workspace_blob_ids q w rows =
     (case q of Some err \<Rightarrow> Inl (app_error_of_sqlx err)
      | None \<Rightarrow> Inr (map bm_file_id (filter (\<lambda>r. bm_workspace_id r = w) rows)))"

text \<open>The sum is a decimal of any size, which \<open>to_u64().unwrap_or(0)\<close> turns into a number.\<close>

definition file_sizes :: "string \<Rightarrow> af_blob_metadata_row list \<Rightarrow> int" where
  "file_sizes w rows = sum_list (map bm_file_size (filter (\<lambda>r. bm_workspace_id r = w) rows))"

definition get_workspace_usage_size ::
    "sqlx_error option \<Rightarrow> string \<Rightarrow> af_blob_metadata_row list \<Rightarrow> app_error + nat" where
  "get_workspace_usage_size q w rows =
     (case q of
        Some err \<Rightarrow> Inl (app_error_of_sqlx err)
      | None \<Rightarrow> let n = file_sizes w rows in Inr (if 0 \<le> n \<and> n < 2 ^ 64 then nat n else 0))"

subsection \<open>The bucket\<close>

text \<open>Each operation answers with a status code or fails; \<open>bk_text\<close> is \<open>from_utf8_lossy\<close>.\<close>

record 'b bucket_api =
  bk_put :: "string \<Rightarrow> bytes \<Rightarrow> 'b \<Rightarrow> 'b \<times> (string + nat)"
  bk_delete :: "string \<Rightarrow> 'b \<Rightarrow> 'b \<times> (string + nat \<times> bytes)"
  bk_get :: "string \<Rightarrow> 'b \<Rightarrow> string + nat \<times> bytes"
  bk_text :: "bytes \<Rightarrow> string"

definition success_code :: "nat \<Rightarrow> bool" where
  "success_code c \<longleftrightarrow> 200 \<le> c \<and> c \<le> 299"

text \<open>
  \<open>objs\<close> reads the objects off the state. A success has stored, deleted or found the object; without one the object
  is the old one or the new one, and other objects never change.
\<close>

definition bucket_ok :: "'b bucket_api \<Rightarrow> ('b \<Rightarrow> string \<Rightarrow> bytes option) \<Rightarrow> bool" where
  "bucket_ok bk objs \<longleftrightarrow>
     (\<forall>k c b. objs (fst (bk_put bk k c b)) \<in> {objs b, (objs b)(k \<mapsto> c)} \<and>
        (\<forall>code. snd (bk_put bk k c b) = Inr code \<and> success_code code \<longrightarrow> objs (fst (bk_put bk k c b)) k = Some c)) \<and>
     (\<forall>k b. objs (fst (bk_delete bk k b)) \<in> {objs b, (objs b)(k := None)} \<and>
        (\<forall>code body. snd (bk_delete bk k b) = Inr (code, body) \<and> success_code code \<longrightarrow>
           objs (fst (bk_delete bk k b)) k = None)) \<and>
     (\<forall>k b code body. bk_get bk k b = Inr (code, body) \<and> success_code code \<longrightarrow> objs b k = Some body)"

definition check_s3_status_code :: "nat \<Rightarrow> app_error + unit" where
  "check_s3_status_code code = (if success_code code then Inr () else Inl (S3ResponseError (show_nat code)))"

definition check_s3_response_data :: "(bytes \<Rightarrow> string) \<Rightarrow> nat \<times> bytes \<Rightarrow> app_error + unit" where
  "check_s3_response_data txt resp =
     (if success_code (fst resp) then Inr ()
      else Inl (S3ResponseError (''S3 error: '' @ txt (snd resp) @ '', code: '' @ show_nat (fst resp))))"

definition client_pub_blob :: "'b bucket_api \<Rightarrow> string \<Rightarrow> bytes \<Rightarrow> 'b \<Rightarrow> 'b \<times> (app_error + unit)" where
  "client_pub_blob bk key content b =
     (let (b1, r) = bk_put bk key content b in (b1, res_bind (res_map_err S3Error r) check_s3_status_code))"

definition client_delete_blob :: "'b bucket_api \<Rightarrow> string \<Rightarrow> 'b \<Rightarrow> 'b \<times> (app_error + bytes)" where
  "client_delete_blob bk key b =
     (let (b1, r) = bk_delete bk key b
      in (b1, res_bind (res_map_err S3Error r) (\<lambda>resp.
              res_bind (check_s3_response_data (bk_text bk) resp) (\<lambda>_. Inr (snd resp)))))"

definition client_get_blob :: "'b bucket_api \<Rightarrow> string \<Rightarrow> 'b \<Rightarrow> app_error + bytes" where
  "client_get_blob bk key b = res_bind (res_map_err S3Error (bk_get bk key b)) (\<lambda>resp. Inr (snd resp))"

subsection \<open>The storage\<close>

definition MAX_BLOB_SIZE :: nat where "MAX_BLOB_SIZE = 6 * 1024 * 1024"
definition MAX_USAGE :: nat where "MAX_USAGE = 10 * 1024 * 1024 * 1024"

definition obj_key :: "string \<Rightarrow> string \<Rightarrow> string" where
  "obj_key w f = w @ ''/'' @ f"

text \<open>What a call meets: the errors of its statements, of \<open>begin\<close> and of \<open>commit\<close>.\<close>

record file_faults =
  ff_stmt :: "nat \<Rightarrow> sqlx_error option"
  ff_begin :: "sqlx_error option"
  ff_commit :: "sqlx_error option"

definition no_file_faults :: file_faults where
  "no_file_faults = \<lparr>ff_stmt = \<lambda>_. None, ff_begin = None, ff_commit = None\<rparr>"

definition sql_done :: "sqlx_error option \<Rightarrow> app_error + unit" where
  "sql_done q = (case q of Some err \<Rightarrow> Inl (app_error_of_sqlx err) | None \<Rightarrow> Inr ())"

text \<open>
  \<open>put_blob\<close> in its parts, between which other calls run: the checks, and the transaction, which holds the row of the
  file until it ends. Its rollback takes the row back, not the object.
\<close>

definition put_blob_check :: "file_faults \<Rightarrow> string \<Rightarrow> string \<Rightarrow> af_blob_metadata_row list \<Rightarrow> app_error + bool" where
  "put_blob_check q w f rows =
     res_bind (is_blob_metadata_exists (ff_stmt q 0) w f rows) (\<lambda>there.
     if there then Inr False
     else res_bind (get_workspace_usage_size (ff_stmt q 1) w rows) (\<lambda>usage.
          if usage > MAX_USAGE then Inl StorageSpaceNotEnough else Inr True))"

definition put_blob_store ::
    "'b bucket_api \<Rightarrow> file_faults \<Rightarrow> nat \<Rightarrow> string \<Rightarrow> string \<Rightarrow> bytes \<Rightarrow> string \<Rightarrow> 'b file_store \<Rightarrow>
     'b file_store \<times> (app_error + unit)" where
  "put_blob_store bk q now w f file_data file_type s =
     (case res_bind (sql_done (ff_begin q)) (\<lambda>_.
           insert_blob_metadata (ff_stmt q 2) now f w file_type (length file_data) s) of
        Inl err \<Rightarrow> (s, Inl err)
      | Inr rows \<Rightarrow>
          let (b1, r) = client_pub_blob bk (obj_key w f) file_data (fs_bucket s) in
          case res_bind r (\<lambda>_. sql_done (ff_commit q)) of
            Inl err \<Rightarrow> (s\<lparr>fs_bucket := b1\<rparr>, Inl err)
          | Inr _ \<Rightarrow> (s\<lparr>fs_bucket := b1, fs_rows := rows\<rparr>, Inr ()))"

definition put_blob ::
    "'b bucket_api \<Rightarrow> file_faults \<Rightarrow> nat \<Rightarrow> string \<Rightarrow> string \<Rightarrow> bytes \<Rightarrow> string \<Rightarrow> 'b file_store \<Rightarrow>
     'b file_store \<times> (app_error + unit)" where
  "put_blob bk q now w f file_data file_type s =
     (case put_blob_check q w f (fs_rows s) of
        Inl err \<Rightarrow> (s, Inl err)
      | Inr go \<Rightarrow> if go then put_blob_store bk q now w f file_data file_type s else (s, Inr ()))"

definition delete_blob ::
    "'b bucket_api \<Rightarrow> file_faults \<Rightarrow> string \<Rightarrow> string \<Rightarrow> 'b file_store \<Rightarrow> 'b file_store \<times> unit served" where
  "delete_blob bk q w f s =
     (case sql_done (ff_begin q) of
        Inl err \<Rightarrow> (s, Served (Inl err))
      | Inr _ \<Rightarrow>
          (case delete_blob_metadata (ff_stmt q 0) w f (fs_rows s) of
             Panicked \<Rightarrow> (s, Panicked)
           | Served (Inl err) \<Rightarrow> (s, Served (Inl err))
           | Served (Inr rows) \<Rightarrow>
               let (b1, r) = client_delete_blob bk (obj_key w f) (fs_bucket s) in
               case res_bind r (\<lambda>_. sql_done (ff_commit q)) of
                 Inl err \<Rightarrow> (s\<lparr>fs_bucket := b1\<rparr>, Served (Inl err))
               | Inr _ \<Rightarrow> (s\<lparr>fs_bucket := b1, fs_rows := rows\<rparr>, Served (Inr ()))))"

definition get_blob :: "'b bucket_api \<Rightarrow> string \<Rightarrow> string \<Rightarrow> 'b file_store \<Rightarrow> app_error + bytes" where
  "get_blob bk w f s = client_get_blob bk (obj_key w f) (fs_bucket s)"

end
