(* ===== verification/FileApi.thy ===== *)
theory FileApi
  imports FileStore
begin

section \<open>Uploads and downloads\<close>

text \<open>
  The handlers of \<open>src/api/file_storage.rs\<close> and the methods of \<open>libs/client-api/src/http.rs\<close> that talk to them. The
  body of an upload is a list of chunks, each of which may be an error of the connection; \<open>mime_texts\<close> and
  \<open>time_texts\<close> stand for the libraries that read and write mime types and dates.
\<close>

datatype io_error = UnexpectedEof | IoOther string

record time_texts =
  tt_rfc2822 :: "nat \<Rightarrow> string"
  tt_parse_rfc2822 :: "string \<Rightarrow> nat option"

text \<open>A date has no fractions of a second.\<close>

definition time_texts_ok :: "time_texts \<Rightarrow> bool" where
  "time_texts_ok tt \<longleftrightarrow>
     (\<forall>t. tt_parse_rfc2822 tt (tt_rfc2822 tt t) = Some (t div 1000000 * 1000000))"

subsection \<open>Reading the body\<close>

fun read_exact :: "nat \<Rightarrow> (string + bytes) list \<Rightarrow> io_error + bytes \<times> (string + bytes) list" where
  "read_exact 0 chunks = Inr ([], chunks)"
| "read_exact (Suc n) [] = Inl UnexpectedEof"
| "read_exact (Suc n) (Inl err # chunks) = Inl (IoOther err)"
| "read_exact (Suc n) (Inr b # chunks) =
     (if length b \<le> Suc n
      then res_bind (read_exact (Suc n - length b) chunks) (\<lambda>(c, rest). Inr (b @ c, rest))
      else Inr (take (Suc n) b, Inr (drop (Suc n) b) # chunks))"

definition read_u8 :: "(string + bytes) list \<Rightarrow> io_error + u8" where
  "read_u8 chunks = res_bind (read_exact 1 chunks) (\<lambda>(c, _). Inr (hd c))"

text \<open>
  How a handler ends: with an answer or a refusal, with an error of the connection, which the framework renders itself,
  or by a panic.
\<close>

datatype 'a outcome = Handled "'a handled" | IoFailed io_error | Aborted

definition refused :: "(string list \<Rightarrow> string) \<Rightarrow> app_error \<Rightarrow> 'a handled" where
  "refused vd err = Refused (response_error_of vd err)"

definition put_blob_content ::
    "(string list \<Rightarrow> string) \<Rightarrow> nat \<Rightarrow> (string + bytes) list \<Rightarrow> unit outcome + bytes" where
  "put_blob_content vd content_length payload =
     (if content_length > MAX_BLOB_SIZE then
        Inl (Handled (Answer (app_response_of_error (response_error_of vd
          (PayloadTooLarge ''The uploading file is too large'')))))
      else
        case read_exact content_length payload of
          Inl err \<Rightarrow> Inl (IoFailed err)
        | Inr (content, rest) \<Rightarrow>
            (case read_u8 rest of
               Inr _ \<Rightarrow> Inl (Handled (Answer (app_response_of_error (response_error_of vd
                 (PayloadTooLarge ''Content length is {}, but the actual content is larger'')))))
             | Inl UnexpectedEof \<Rightarrow> Inr content
             | Inl (IoOther err) \<Rightarrow> Inl (Handled (refused vd (Internal err)))))"

subsection \<open>The handlers\<close>

definition put_blob_handler ::
    "(string list \<Rightarrow> string) \<Rightarrow> 'b bucket_api \<Rightarrow> file_faults \<Rightarrow> nat \<Rightarrow> string \<Rightarrow> string \<Rightarrow> string \<Rightarrow> nat \<Rightarrow>
     (string + bytes) list \<Rightarrow> 'b file_store \<Rightarrow> 'b file_store \<times> unit outcome" where
  "put_blob_handler vd bk q now workspace_id file_id content_type content_length payload s =
     (case put_blob_content vd content_length payload of
        Inl out \<Rightarrow> (s, out)
      | Inr content \<Rightarrow>
          let (s1, r) = put_blob bk q now workspace_id file_id content content_type s
          in (s1, Handled (handled_unit vd r)))"

definition delete_blob_handler ::
    "(string list \<Rightarrow> string) \<Rightarrow> 'b bucket_api \<Rightarrow> file_faults \<Rightarrow> string \<Rightarrow> string \<Rightarrow> 'b file_store \<Rightarrow>
     'b file_store \<times> unit outcome" where
  "delete_blob_handler vd bk q workspace_id file_id s =
     (let (s1, r) = delete_blob bk q workspace_id file_id s
      in (s1, case r of Panicked \<Rightarrow> Aborted | Served x \<Rightarrow> Handled (handled_unit vd x)))"

definition empty_response :: "nat \<Rightarrow> http_response" where
  "empty_response status = \<lparr>hr_status = status, hr_headers = [], hr_body = []\<rparr>"

definition get_blob_handler ::
    "(string list \<Rightarrow> string) \<Rightarrow> time_texts \<Rightarrow> 'b bucket_api \<Rightarrow> sqlx_error option \<Rightarrow> string \<Rightarrow> string \<Rightarrow>
     (string \<times> string) list \<Rightarrow> 'b file_store \<Rightarrow> app_response_error + http_response" where
  "get_blob_handler vd tt bk q workspace_id file_id headers s =
     (case get_blob_metadata q workspace_id file_id (fs_rows s) of
        Inl err \<Rightarrow> Inr (if is_record_not_found err then empty_response 404 else empty_response 500)
      | Inr metadata \<Rightarrow>
          (let unchanged = (case Option.bind (map_of headers ''if-modified-since'') (tt_parse_rfc2822 tt) of
             Some modified_since \<Rightarrow> bm_modified_at metadata \<le> modified_since
           | None \<Rightarrow> False) in
             if unchanged then Inr (empty_response 304)
             else
               case get_blob bk workspace_id file_id s of
                 Inl err \<Rightarrow> Inl (response_error_of vd err)
               | Inr blob \<Rightarrow>
                   Inr \<lparr>hr_status = 200,
                        hr_headers = [(''etag'', file_id), (''content-type'', bm_file_type metadata),
                          (''last-modified'', tt_rfc2822 tt (bm_modified_at metadata)),
                          (''content-length'', show_nat (length blob)),
                          (''cache-control'', ''public, immutable, max-age=31536000'')],
                        hr_body = blob\<rparr>))"

record blob_metadata =
  bd_workspace_id :: string
  bd_file_id :: string
  bd_file_type :: string
  bd_file_size :: i64
  bd_modified_at :: nat

definition blob_metadata_of :: "af_blob_metadata_row \<Rightarrow> blob_metadata" where
  "blob_metadata_of meta =
     \<lparr>bd_workspace_id = bm_workspace_id meta, bd_file_id = bm_file_id meta, bd_file_type = bm_file_type meta,
      bd_file_size = bm_file_size meta, bd_modified_at = bm_modified_at meta\<rparr>"

definition get_blob_metadata_handler ::
    "(string list \<Rightarrow> string) \<Rightarrow> sqlx_error option \<Rightarrow> string \<Rightarrow> string \<Rightarrow> 'b file_store \<Rightarrow> blob_metadata handled" where
  "get_blob_metadata_handler vd q workspace_id file_id s =
     handled_of vd (res_bind (get_blob_metadata q workspace_id file_id (fs_rows s)) (\<lambda>meta. Inr (blob_metadata_of meta)))"

record workspace_space_usage =
  wu_total_capacity :: nat
  wu_consumed_capacity :: nat

definition get_workspace_usage_handler ::
    "(string list \<Rightarrow> string) \<Rightarrow> sqlx_error option \<Rightarrow> string \<Rightarrow> 'b file_store \<Rightarrow> workspace_space_usage handled" where
  "get_workspace_usage_handler vd q workspace_id s =
     handled_of vd (res_bind (get_workspace_usage_size q workspace_id (fs_rows s)) (\<lambda>current.
       Inr \<lparr>wu_total_capacity = MAX_USAGE, wu_consumed_capacity = current\<rparr>))"

definition get_all_workspace_blob_metadata_handler ::
    "(string list \<Rightarrow> string) \<Rightarrow> sqlx_error option \<Rightarrow> string \<Rightarrow> 'b file_store \<Rightarrow> blob_metadata list handled" where
  "get_all_workspace_blob_metadata_handler vd q workspace_id s =
     handled_of vd (res_bind (get_all_workspace_blob_metadata q workspace_id (fs_rows s)) (\<lambda>metas.
       Inr (map blob_metadata_of metas)))"

subsection \<open>On the wire\<close>

text \<open>An error of the connection is answered with status 500 and its text; after a panic there is no answer.\<close>

definition outcome_response ::
    "unit json_api \<Rightarrow> (io_error \<Rightarrow> bytes) \<Rightarrow> unit outcome \<Rightarrow> http_response option" where
  "outcome_response js io_text out =
     (case out of
        Handled h \<Rightarrow> Some (rendered js h)
      | IoFailed err \<Rightarrow> Some \<lparr>hr_status = 500, hr_headers = [], hr_body = io_text err\<rparr>
      | Aborted \<Rightarrow> None)"

definition download_response :: "unit json_api \<Rightarrow> app_response_error + http_response \<Rightarrow> http_response" where
  "download_response js r = (case r of Inl err \<Rightarrow> error_response js err | Inr resp \<Rightarrow> resp)"

text \<open>
  The client: \<open>put_blob\<close> reads the answer, \<open>get_blob\<close> takes the body of any response with status 200 for the file.
  \<open>mime\<close> reads a mime type, which is known by its text.
\<close>

definition put_blob_answer ::
    "(string list \<Rightarrow> string) \<Rightarrow> http_text \<Rightarrow> unit json_api \<Rightarrow> http_response \<Rightarrow> app_response_error + unit" where
  "put_blob_answer vd ht js resp =
     (if hr_status resp = 413 then Inl (response_error_of vd (PayloadTooLarge (ht_status ht 413)))
      else answer_error vd ht js resp)"

definition get_blob_answer ::
    "(string list \<Rightarrow> string) \<Rightarrow> http_text \<Rightarrow> (string \<Rightarrow> string option) \<Rightarrow> string \<Rightarrow> http_response \<Rightarrow>
     app_response_error + string \<times> bytes" where
  "get_blob_answer vd ht mime url resp =
     (if hr_status resp = 200 then
        Inr (case Option.bind (map_of (hr_headers resp) ''content-type'') mime of
               Some m \<Rightarrow> m | None \<Rightarrow> ''text/plain'',
             hr_body resp)
      else if hr_status resp = 404 then Inl (response_error_of vd (RecordNotFound url))
      else Inl (response_error_of vd (Unhandled
        (''status code: '' @ ht_status ht (hr_status resp) @ '', message: '' @ ht_body ht (hr_body resp)))))"

end
