(* ===== verification/FileProps.thy ===== *)
theory FileProps
  imports FileApi
begin

section \<open>What the file storage keeps\<close>

text \<open>
  The file storage as a system: uploads that passed their checks and have not been stored yet, deletions and the
  workspaces that come and go, interleaved in any order.
\<close>

record upload =
  up_workspace :: string
  up_file :: string
  up_data :: bytes
  up_type :: string

record 'b file_service =
  sv_store :: "'b file_store"
  sv_pending :: "upload list"

text \<open>
  \<open>EvUpload\<close> runs the checks of an upload whose body was read, \<open>EvStore\<close> the transaction of one that passed them.
\<close>

datatype file_event =
    EvUpload file_faults upload
  | EvStore nat file_faults nat
  | EvDelete file_faults string string
  | EvWorkspaceAdded string
  | EvWorkspaceDeleted string

fun file_step :: "'b bucket_api \<Rightarrow> 'b file_service \<Rightarrow> file_event \<Rightarrow> 'b file_service" where
  "file_step bk sv (EvUpload q u) =
     (if length (up_data u) \<le> MAX_BLOB_SIZE \<and>
         put_blob_check q (up_workspace u) (up_file u) (fs_rows (sv_store sv)) = Inr True
      then sv\<lparr>sv_pending := sv_pending sv @ [u]\<rparr> else sv)"
| "file_step bk sv (EvStore i q now) =
     (if i < length (sv_pending sv)
      then let u = sv_pending sv ! i in
           \<lparr>sv_store = fst (put_blob_store bk q now (up_workspace u) (up_file u) (up_data u) (up_type u) (sv_store sv)),
            sv_pending = take i (sv_pending sv) @ drop (Suc i) (sv_pending sv)\<rparr>
      else sv)"
| "file_step bk sv (EvDelete q w f) = sv\<lparr>sv_store := fst (delete_blob bk q w f (sv_store sv))\<rparr>"
| "file_step bk sv (EvWorkspaceAdded w) =
     sv\<lparr>sv_store := (sv_store sv)\<lparr>fs_workspaces := List.insert w (fs_workspaces (sv_store sv))\<rparr>\<rparr>"
| "file_step bk sv (EvWorkspaceDeleted w) =
     sv\<lparr>sv_store := (sv_store sv)\<lparr>fs_workspaces := removeAll w (fs_workspaces (sv_store sv)),
                                 fs_rows := filter (\<lambda>r. bm_workspace_id r \<noteq> w) (fs_rows (sv_store sv))\<rparr>\<rparr>"

subsection \<open>Rows\<close>

definition row_key :: "af_blob_metadata_row \<Rightarrow> string \<times> string" where
  "row_key r = (bm_workspace_id r, bm_file_id r)"

definition rows_ok :: "af_blob_metadata_row list \<Rightarrow> bool" where
  "rows_ok rows \<longleftrightarrow> distinct (map row_key rows) \<and> (\<forall>r \<in> set rows. 0 \<le> bm_file_size r)"

lemma blob_at_key: "blob_at w f r \<longleftrightarrow> row_key r = (w, f)"
  by (auto simp: blob_at_def row_key_def)

lemma as_i64_small [simp]: "n \<le> MAX_BLOB_SIZE \<Longrightarrow> as_i64 n = int n"
  by (simp add: as_i64_def MAX_BLOB_SIZE_def Let_def)

lemma insert_blob_metadata_cases:
  assumes "insert_blob_metadata q now f w ty n s = Inr rows"
  obtains (new) "\<not> (\<exists>r \<in> set (fs_rows s). blob_at w f r)" "w \<in> set (fs_workspaces s)"
      "rows = fs_rows s @ [\<lparr>bm_workspace_id = w, bm_file_id = f, bm_file_type = ty,
                            bm_file_size = as_i64 n, bm_modified_at = now\<rparr>]"
    | (old) "\<exists>r \<in> set (fs_rows s). blob_at w f r" "w \<in> set (fs_workspaces s)"
      "rows = map (\<lambda>r. if blob_at w f r then r\<lparr>bm_file_type := ty, bm_file_size := as_i64 n\<rparr> else r) (fs_rows s)"
  using assms by (auto simp: insert_blob_metadata_def split: option.splits if_splits)

lemma replaced_keys:
  "row_key \<circ> (\<lambda>r. if blob_at w f r then r\<lparr>bm_file_type := ty, bm_file_size := n\<rparr> else r) = row_key"
  by (auto simp: row_key_def)

lemma insert_rows_ok:
  assumes "insert_blob_metadata q now f w ty n s = Inr rows" and "rows_ok (fs_rows s)" and "n \<le> MAX_BLOB_SIZE"
  shows "rows_ok rows"
  using assms(1)
proof (cases rule: insert_blob_metadata_cases)
  case new
  then show ?thesis using assms(2,3) by (auto simp: rows_ok_def blob_at_key row_key_def)
next
  case old
  then show ?thesis using assms(2,3) by (auto simp: rows_ok_def replaced_keys)
qed

lemma file_sizes_Cons [simp]:
  "file_sizes w (r # rows) = (if bm_workspace_id r = w then bm_file_size r else 0) + file_sizes w rows"
  by (simp add: file_sizes_def)

lemma file_sizes_Nil [simp]: "file_sizes w [] = 0"
  by (simp add: file_sizes_def)

lemma file_sizes_append [simp]: "file_sizes w (xs @ ys) = file_sizes w xs + file_sizes w ys"
  by (simp add: file_sizes_def)

lemma file_sizes_nonneg: "rows_ok rows \<Longrightarrow> 0 \<le> file_sizes w rows"
  by (induction rows) (auto simp: rows_ok_def)

lemma file_sizes_filter: "rows_ok rows \<Longrightarrow> file_sizes w (filter P rows) \<le> file_sizes w rows"
  by (induction rows) (auto simp: rows_ok_def)

lemma rows_ok_filter: "rows_ok rows \<Longrightarrow> rows_ok (filter P rows)"
  by (auto simp: rows_ok_def distinct_map_filter)

lemma file_sizes_replaced:
  assumes "rows_ok rows" and "0 \<le> n"
  shows "file_sizes v (map (\<lambda>r. if blob_at w f r then r\<lparr>bm_file_type := ty, bm_file_size := n\<rparr> else r) rows)
    \<le> file_sizes v rows + (if v = w then n else 0)"
  using assms
proof (induction rows)
  case (Cons r rows)
  let ?g = "\<lambda>r. if blob_at w f r then r\<lparr>bm_file_type := ty, bm_file_size := n\<rparr> else r"
  from Cons.prems have rest: "rows_ok rows" and r: "0 \<le> bm_file_size r" "row_key r \<notin> row_key ` set rows"
    by (auto simp: rows_ok_def)
  show ?case
  proof (cases "blob_at w f r")
    case True
    with r(2) have "map ?g rows = rows"
      by (intro map_idI) (auto simp: blob_at_key image_iff)
    then show ?thesis using True r(1) Cons.prems(2) by (auto simp: blob_at_def)
  next
    case False
    then show ?thesis using Cons.IH [OF rest Cons.prems(2)] by auto
  qed
qed simp

lemma insert_file_sizes:
  assumes "insert_blob_metadata q now f w ty n s = Inr rows" and "rows_ok (fs_rows s)" and "n \<le> MAX_BLOB_SIZE"
  shows "file_sizes v rows \<le> file_sizes v (fs_rows s) + (if v = w then int n else 0)"
  using assms(1)
proof (cases rule: insert_blob_metadata_cases)
  case new
  then show ?thesis using assms(3) by simp
next
  case old
  then show ?thesis
    using file_sizes_replaced [OF assms(2), of "as_i64 n" v w f ty] assms(3) by (cases "v = w") simp_all
qed

lemma put_blob_store_rows:
  "fs_rows (fst (put_blob_store bk q now w f d ty s)) = fs_rows s \<or>
   insert_blob_metadata (ff_stmt q 2) now f w ty (length d) s = Inr (fs_rows (fst (put_blob_store bk q now w f d ty s)))"
  by (auto simp: put_blob_store_def Let_def elim!: res_bind_InrE split: sum.split prod.split)

lemma delete_blob_rows:
  "fs_rows (fst (delete_blob bk q w f s)) = fs_rows s \<or>
   fs_rows (fst (delete_blob bk q w f s)) = filter (\<lambda>r. \<not> blob_at w f r) (fs_rows s)"
  by (auto simp: delete_blob_def delete_blob_metadata_def Let_def split: sum.split prod.split option.split served.split
      if_splits)

subsection \<open>The space of a workspace\<close>

definition pending_size :: "string \<Rightarrow> upload list \<Rightarrow> int" where
  "pending_size w us = sum_list (map (\<lambda>u. if up_workspace u = w then int (length (up_data u)) else 0) us)"

definition usage_bound :: "nat \<Rightarrow> int" where
  "usage_bound n = int MAX_USAGE + int n * int MAX_BLOB_SIZE"

definition usage_inv :: "nat \<Rightarrow> 'b file_service \<Rightarrow> bool" where
  "usage_inv n sv \<longleftrightarrow>
     n \<le> 2 ^ 40 \<and> rows_ok (fs_rows (sv_store sv)) \<and> length (sv_pending sv) \<le> n \<and>
     (\<forall>u \<in> set (sv_pending sv). length (up_data u) \<le> MAX_BLOB_SIZE) \<and>
     (\<forall>w. file_sizes w (fs_rows (sv_store sv)) + pending_size w (sv_pending sv) \<le> usage_bound n)"

text \<open>At most \<open>n\<close> uploads are between their checks and their end.\<close>

fun room_for :: "nat \<Rightarrow> 'b file_service \<Rightarrow> file_event \<Rightarrow> bool" where
  "room_for n sv (EvUpload q u) \<longleftrightarrow> length (sv_pending sv) < n"
| "room_for n sv _ \<longleftrightarrow> True"

lemma pending_size_append [simp]: "pending_size w (xs @ ys) = pending_size w xs + pending_size w ys"
  by (simp add: pending_size_def)

lemma pending_size_bound:
  assumes "\<forall>u \<in> set us. length (up_data u) \<le> MAX_BLOB_SIZE"
  shows "pending_size w us \<le> int (length us) * int MAX_BLOB_SIZE"
  using assms by (induction us) (auto simp: pending_size_def algebra_simps)

lemma pending_size_remove:
  assumes "i < length us"
  shows "pending_size w us = pending_size w (take i us @ drop (Suc i) us) +
    (if up_workspace (us ! i) = w then int (length (up_data (us ! i))) else 0)"
  by (subst id_take_nth_drop [OF assms]) (simp add: pending_size_def)

lemma usage_inv_upload:
  assumes "usage_inv n sv" and "length (sv_pending sv) < n"
    and "length (up_data u) \<le> MAX_BLOB_SIZE" and "put_blob_check q (up_workspace u) (up_file u) (fs_rows (sv_store sv)) = Inr True"
  shows "usage_inv n (sv\<lparr>sv_pending := sv_pending sv @ [u]\<rparr>)"
proof -
  let ?rows = "fs_rows (sv_store sv)" let ?w = "up_workspace u"
  have ok: "rows_ok ?rows" and n: "n \<le> 2 ^ 40" and pend: "\<forall>u \<in> set (sv_pending sv). length (up_data u) \<le> MAX_BLOB_SIZE"
    and bound: "\<And>w. file_sizes w ?rows + pending_size w (sv_pending sv) \<le> usage_bound n"
    using assms(1) by (auto simp: usage_inv_def)
  have "int n * int MAX_BLOB_SIZE \<le> 2 ^ 40 * int MAX_BLOB_SIZE" using n by (intro mult_right_mono) simp_all
  moreover have "0 \<le> pending_size ?w (sv_pending sv)"
    by (auto simp: pending_size_def intro!: sum_list_nonneg)
  ultimately have "file_sizes ?w ?rows < 2 ^ 64"
    using bound [of ?w] by (simp add: usage_bound_def MAX_USAGE_def MAX_BLOB_SIZE_def)
  then have "file_sizes ?w ?rows \<le> int MAX_USAGE"
    using assms(4) file_sizes_nonneg [OF ok, of ?w]
    by (auto simp: put_blob_check_def is_blob_metadata_exists_def get_workspace_usage_size_def Let_def
        split: option.splits if_splits elim!: res_bind_InrE)
  moreover have "pending_size ?w (sv_pending sv @ [u]) \<le> int n * int MAX_BLOB_SIZE"
  proof -
    have "pending_size ?w (sv_pending sv @ [u]) \<le> int (length (sv_pending sv @ [u])) * int MAX_BLOB_SIZE"
      using pend assms(3) by (intro pending_size_bound) auto
    also have "\<dots> \<le> int n * int MAX_BLOB_SIZE" using assms(2) by (intro mult_right_mono) simp_all
    finally show ?thesis .
  qed
  ultimately have "file_sizes ?w ?rows + pending_size ?w (sv_pending sv @ [u]) \<le> usage_bound n"
    by (simp add: usage_bound_def)
  then have "file_sizes w ?rows + pending_size w (sv_pending sv @ [u]) \<le> usage_bound n" for w
    using bound [of w] by (cases "w = ?w") (simp_all add: pending_size_def)
  with ok n pend assms(2,3) show ?thesis by (auto simp: usage_inv_def)
qed

lemma usage_inv_store:
  assumes inv: "usage_inv n sv" and i: "i < length (sv_pending sv)"
  shows "usage_inv n (file_step bk sv (EvStore i q now))"
proof -
  let ?u = "sv_pending sv ! i" let ?s = "sv_store sv" let ?ps = "take i (sv_pending sv) @ drop (Suc i) (sv_pending sv)"
  define s1 where "s1 = fst (put_blob_store bk q now (up_workspace ?u) (up_file ?u) (up_data ?u) (up_type ?u) ?s)"
  have ok: "rows_ok (fs_rows ?s)" and small: "\<forall>u \<in> set (sv_pending sv). length (up_data u) \<le> MAX_BLOB_SIZE"
    using inv by (simp_all add: usage_inv_def)
  have u: "length (up_data ?u) \<le> MAX_BLOB_SIZE" using small i by simp
  have rows: "rows_ok (fs_rows s1) \<and> file_sizes w (fs_rows s1) \<le>
      file_sizes w (fs_rows ?s) + (if w = up_workspace ?u then int (length (up_data ?u)) else 0)" for w
    using put_blob_store_rows [of bk q now "up_workspace ?u" "up_file ?u" "up_data ?u" "up_type ?u" ?s]
      insert_rows_ok [OF _ ok u] insert_file_sizes [OF _ ok u] ok
    unfolding s1_def [symmetric] by fastforce
  have "file_sizes w (fs_rows s1) + pending_size w ?ps \<le> usage_bound n" for w
  proof -
    have "file_sizes w (fs_rows ?s) + pending_size w (sv_pending sv) \<le> usage_bound n"
      using inv by (simp add: usage_inv_def)
    then show ?thesis using rows [of w] pending_size_remove [OF i, of w] by (auto split: if_splits)
  qed
  moreover have "\<forall>u \<in> set ?ps. length (up_data u) \<le> MAX_BLOB_SIZE"
    using small by (auto dest: in_set_takeD in_set_dropD)
  moreover have "length ?ps \<le> n" using inv i by (auto simp: usage_inv_def)
  ultimately show ?thesis using inv i rows
    by (simp add: usage_inv_def Let_def s1_def)
qed

lemma usage_inv_rows_subset:
  assumes "usage_inv n sv" and "fs_rows s1 = filter P (fs_rows (sv_store sv))"
  shows "usage_inv n (sv\<lparr>sv_store := s1\<rparr>)"
proof -
  have ok: "rows_ok (fs_rows (sv_store sv))" using assms(1) by (simp add: usage_inv_def)
  have "file_sizes w (fs_rows s1) + pending_size w (sv_pending sv) \<le> usage_bound n" for w
  proof -
    have "file_sizes w (fs_rows (sv_store sv)) + pending_size w (sv_pending sv) \<le> usage_bound n"
      using assms(1) by (simp add: usage_inv_def)
    then show ?thesis using file_sizes_filter [OF ok, of w P] assms(2) by simp
  qed
  then show ?thesis using assms ok rows_ok_filter [OF ok] by (simp add: usage_inv_def)
qed

lemma usage_inv_step:
  assumes "usage_inv n sv" and "room_for n sv e"
  shows "usage_inv n (file_step bk sv e)"
proof (cases e)
  case (EvUpload q u)
  then show ?thesis using usage_inv_upload [OF assms(1)] assms by auto
next
  case (EvStore i q now)
  then show ?thesis using usage_inv_store [OF assms(1)] assms(1) by (cases "i < length (sv_pending sv)") simp_all
next
  case (EvDelete q w f)
  have "\<exists>P. fs_rows (fst (delete_blob bk q w f (sv_store sv))) = filter P (fs_rows (sv_store sv))"
    using delete_blob_rows [of bk q w f "sv_store sv"]
  proof
    assume "fs_rows (fst (delete_blob bk q w f (sv_store sv))) = fs_rows (sv_store sv)"
    then show ?thesis by (intro exI [of _ "\<lambda>_. True"]) simp
  qed blast
  then show ?thesis using usage_inv_rows_subset [OF assms(1)] EvDelete by auto
next
  case (EvWorkspaceAdded w)
  then show ?thesis using usage_inv_rows_subset [OF assms(1), of _ "\<lambda>_. True"] by simp
next
  case (EvWorkspaceDeleted w)
  then show ?thesis using usage_inv_rows_subset [OF assms(1)] by simp
qed

interpretation usage: step_invariant "file_step bk" "room_for n" "usage_inv n" for bk n
  by unfold_locales (rule usage_inv_step)

definition empty_service :: "'b \<Rightarrow> 'b file_service" where
  "empty_service b = \<lparr>sv_store = \<lparr>fs_workspaces = [], fs_rows = [], fs_bucket = b\<rparr>, sv_pending = []\<rparr>"

lemma usage_inv_empty: "n \<le> 2 ^ 40 \<Longrightarrow> usage_inv n (empty_service b)"
  by (simp add: usage_inv_def empty_service_def rows_ok_def pending_size_def usage_bound_def)

text \<open>C34: No workspace gets more than 10 GiB and 6 MiB for every upload that is under way at the same time: the check
  of an upload compares the space that is taken without the file itself, and uploads that are checked together all see
  the same space. Deletions, failing statements and failing buckets in any order do not change that.\<close>

theorem workspace_usage_is_bounded:
  assumes "n \<le> 2 ^ 40" and "admissible (room_for n) (file_step bk) (empty_service b) es"
  shows "\<exists>size. get_workspace_usage_size None w (fs_rows (sv_store (run (file_step bk) (empty_service b) es))) = Inr size \<and>
    size \<le> MAX_USAGE + n * MAX_BLOB_SIZE"
proof -
  let ?rows = "fs_rows (sv_store (run (file_step bk) (empty_service b) es))"
  have inv: "usage_inv n (run (file_step bk) (empty_service b) es)"
    by (rule usage.run_inv [OF usage_inv_empty [OF assms(1)] assms(2)])
  have "0 \<le> pending_size w us" for us
    by (auto simp: pending_size_def intro!: sum_list_nonneg)
  moreover have "file_sizes w ?rows + pending_size w (sv_pending (run (file_step bk) (empty_service b) es)) \<le> usage_bound n"
    using inv by (simp add: usage_inv_def)
  ultimately have "file_sizes w ?rows \<le> usage_bound n" by (smt (verit))
  then have "nat (file_sizes w ?rows) \<le> MAX_USAGE + n * MAX_BLOB_SIZE"
    by (simp add: usage_bound_def nat_le_iff)
  then show ?thesis by (auto simp: get_workspace_usage_size_def Let_def)
qed

subsection \<open>A stored file\<close>

lemma read_exact_short:
  "length (concat bs) < n \<Longrightarrow> read_exact n (map Inr bs) = Inl UnexpectedEof"
proof (induction bs arbitrary: n)
  case Nil
  then show ?case by (cases n) simp_all
next
  case (Cons b bs)
  then obtain k where n: "n = Suc k" by (cases n) simp_all
  have "length (concat bs) < Suc k - length b" using Cons.prems n by simp
  from Cons.IH [OF this] show ?case using Cons.prems n by simp
qed

lemma read_exact_long:
  "n \<le> length (concat bs) \<Longrightarrow>
     \<exists>cs. read_exact n (map Inr bs) = Inr (take n (concat bs), map Inr cs) \<and> concat cs = drop n (concat bs)"
proof (induction bs arbitrary: n)
  case Nil
  then show ?case by (auto intro: exI [of _ "[]"])
next
  case (Cons b bs)
  show ?case
  proof (cases n)
    case 0
    then show ?thesis by (intro exI [of _ "b # bs"]) simp
  next
    case (Suc k)
    show ?thesis
    proof (cases "length b \<le> Suc k")
      case True
      then have "Suc k - length b \<le> length (concat bs)" using Cons.prems Suc by simp
      from Cons.IH [OF this] obtain cs where
        "read_exact (Suc k - length b) (map Inr bs) = Inr (take (Suc k - length b) (concat bs), map Inr cs)"
        "concat cs = drop (Suc k - length b) (concat bs)" by blast
      then show ?thesis using True Suc by (intro exI [of _ cs]) simp
    next
      case False
      then show ?thesis using Suc by (intro exI [of _ "drop (Suc k) b # bs"]) simp
    qed
  qed
qed

lemma put_blob_content_exact:
  assumes "length (concat bs) \<le> MAX_BLOB_SIZE"
  shows "put_blob_content vd (length (concat bs)) (map Inr bs) = Inr (concat bs)"
proof -
  obtain cs where cs: "read_exact (length (concat bs)) (map Inr bs) = Inr (concat bs, map Inr cs)" "concat cs = []"
    using read_exact_long [of "length (concat bs)" bs] by auto
  have "read_exact 1 (map Inr cs) = Inl UnexpectedEof" using cs(2) by (intro read_exact_short) simp
  then show ?thesis using assms cs(1) by (simp add: put_blob_content_def read_u8_def)
qed

definition file_kept ::
    "'b bucket_api \<Rightarrow> ('b \<Rightarrow> string \<Rightarrow> bytes option) \<Rightarrow> string \<Rightarrow> string \<Rightarrow> string \<Rightarrow> bytes \<Rightarrow> 'b file_service \<Rightarrow> bool" where
  "file_kept bk objs w f m data sv \<longleftrightarrow>
     bucket_ok bk objs \<and> CHR ''/'' \<notin> set w \<and>
     filter (blob_at w f) (fs_rows (sv_store sv)) \<noteq> [] \<and>
     (\<forall>r \<in> set (filter (blob_at w f) (fs_rows (sv_store sv))). bm_file_type r = m) \<and>
     objs (fs_bucket (sv_store sv)) (obj_key w f) = Some data \<and>
     (\<forall>u \<in> set (sv_pending sv). CHR ''/'' \<notin> set (up_workspace u) \<and> (up_workspace u, up_file u) \<noteq> (w, f))"

text \<open>The calls that leave the file alone: anything but its deletion and that of its workspace.\<close>

fun spares :: "string \<Rightarrow> string \<Rightarrow> 'b file_service \<Rightarrow> file_event \<Rightarrow> bool" where
  "spares w f sv (EvUpload q u) \<longleftrightarrow> CHR ''/'' \<notin> set (up_workspace u)"
| "spares w f sv (EvStore i q now) \<longleftrightarrow> True"
| "spares w f sv (EvDelete q w' f') \<longleftrightarrow> CHR ''/'' \<notin> set w' \<and> (w', f') \<noteq> (w, f)"
| "spares w f sv (EvWorkspaceAdded w') \<longleftrightarrow> True"
| "spares w f sv (EvWorkspaceDeleted w') \<longleftrightarrow> w' \<noteq> w"

lemma obj_key_inject:
  "CHR ''/'' \<notin> set w \<Longrightarrow> CHR ''/'' \<notin> set w' \<Longrightarrow> obj_key w f = obj_key w' f' \<Longrightarrow> w = w' \<and> f = f'"
  unfolding obj_key_def
proof (induction w arbitrary: w')
  case Nil
  then show ?case by (cases w') auto
next
  case (Cons x w)
  then show ?case by (cases w') auto
qed

lemma bucket_get:
  "bucket_ok bk objs \<Longrightarrow> bk_get bk k b = Inr (code, body) \<Longrightarrow> success_code code \<Longrightarrow> objs b k = Some body"
  unfolding bucket_ok_def by blast

lemma bucket_put:
  "bucket_ok bk objs \<Longrightarrow> snd (bk_put bk k c b) = Inr code \<Longrightarrow> success_code code \<Longrightarrow>
     objs (fst (bk_put bk k c b)) k = Some c"
  unfolding bucket_ok_def by blast

lemma bucket_delete:
  "bucket_ok bk objs \<Longrightarrow> snd (bk_delete bk k b) = Inr (code, body) \<Longrightarrow> success_code code \<Longrightarrow>
     objs (fst (bk_delete bk k b)) k = None"
  unfolding bucket_ok_def by blast

lemma put_other_object:
  assumes "bucket_ok bk objs" and "k' \<noteq> k"
  shows "objs (fst (client_pub_blob bk k c b)) k' = objs b k'"
proof -
  have "objs (fst (bk_put bk k c b)) \<in> {objs b, (objs b)(k \<mapsto> c)}" using assms(1) by (simp add: bucket_ok_def)
  then show ?thesis using assms(2) by (auto simp: client_pub_blob_def split: prod.split)
qed

lemma delete_other_object:
  assumes "bucket_ok bk objs" and "k' \<noteq> k"
  shows "objs (fst (client_delete_blob bk k b)) k' = objs b k'"
proof -
  have "objs (fst (bk_delete bk k b)) \<in> {objs b, (objs b)(k := None)}" using assms(1) by (simp add: bucket_ok_def)
  then show ?thesis using assms(2) by (auto simp: client_delete_blob_def split: prod.split)
qed

lemma put_blob_store_bucket:
  "fs_bucket (fst (put_blob_store bk q now w f d ty s)) \<in>
     {fs_bucket s, fst (client_pub_blob bk (obj_key w f) d (fs_bucket s))}"
  by (auto simp: put_blob_store_def Let_def split: sum.split prod.split)

lemma delete_blob_bucket:
  "fs_bucket (fst (delete_blob bk q w f s)) \<in> {fs_bucket s, fst (client_delete_blob bk (obj_key w f) (fs_bucket s))}"
  by (auto simp: delete_blob_def Let_def split: sum.split prod.split served.split)

lemma insert_other_row:
  assumes "insert_blob_metadata q now f' w' ty n s = Inr rows" and "(w', f') \<noteq> (w, f)"
  shows "filter (blob_at w f) rows = filter (blob_at w f) (fs_rows s)"
  using assms(1)
proof (cases rule: insert_blob_metadata_cases)
  case new
  then show ?thesis using assms(2) by (auto simp: blob_at_def)
next
  case old
  have "filter (blob_at w f) (map (\<lambda>r. if blob_at w' f' r then r\<lparr>bm_file_type := ty, bm_file_size := as_i64 n\<rparr> else r) rs)
    = filter (blob_at w f) rs" for rs
    using assms(2) by (induction rs) (auto simp: blob_at_def)
  with old show ?thesis by simp
qed

lemma file_keptI:
  assumes "file_kept bk objs w f m data sv"
    and "filter (blob_at w f) (fs_rows (sv_store sv')) = filter (blob_at w f) (fs_rows (sv_store sv))"
    and "objs (fs_bucket (sv_store sv')) (obj_key w f) = objs (fs_bucket (sv_store sv)) (obj_key w f)"
    and "\<And>u. u \<in> set (sv_pending sv') \<Longrightarrow> u \<in> set (sv_pending sv) \<or>
      CHR ''/'' \<notin> set (up_workspace u) \<and> (up_workspace u, up_file u) \<noteq> (w, f)"
  shows "file_kept bk objs w f m data sv'"
  using assms unfolding file_kept_def by metis

lemma check_existing:
  assumes "filter (blob_at w f) rows \<noteq> []"
  shows "put_blob_check q w f rows \<noteq> Inr True"
  using assms by (auto simp: put_blob_check_def is_blob_metadata_exists_def filter_empty_conv split: option.split)

lemma file_kept_step:
  assumes kept: "file_kept bk objs w f m data sv" and "spares w f sv e"
  shows "file_kept bk objs w f m data (file_step bk sv e)"
proof -
  have ok: "bucket_ok bk objs" and w: "CHR ''/'' \<notin> set w" and rows: "filter (blob_at w f) (fs_rows (sv_store sv)) \<noteq> []"
    and pend: "\<And>u. u \<in> set (sv_pending sv) \<Longrightarrow> CHR ''/'' \<notin> set (up_workspace u) \<and> (up_workspace u, up_file u) \<noteq> (w, f)"
    using kept by (auto simp: file_kept_def)
  show ?thesis
  proof (cases e)
    case (EvUpload q u)
    have "up_workspace u = w \<Longrightarrow> up_file u = f \<Longrightarrow> put_blob_check q w f (fs_rows (sv_store sv)) \<noteq> Inr True"
      using check_existing [OF rows] by simp
    then show ?thesis using EvUpload kept assms(2) by (auto intro!: file_keptI [OF kept])
  next
    case (EvStore i q now)
    show ?thesis
    proof (cases "i < length (sv_pending sv)")
      case True
      let ?u = "sv_pending sv ! i" let ?s = "sv_store sv"
      let ?r = "put_blob_store bk q now (up_workspace ?u) (up_file ?u) (up_data ?u) (up_type ?u) ?s"
      have u: "CHR ''/'' \<notin> set (up_workspace ?u)" "(up_workspace ?u, up_file ?u) \<noteq> (w, f)"
        using pend [of ?u] True by simp_all
      have "filter (blob_at w f) (fs_rows (fst ?r)) = filter (blob_at w f) (fs_rows ?s)"
        using put_blob_store_rows [of bk q now "up_workspace ?u" "up_file ?u" "up_data ?u" "up_type ?u" ?s]
          insert_other_row [OF _ u(2)] by metis
      moreover have "obj_key w f \<noteq> obj_key (up_workspace ?u) (up_file ?u)"
        using obj_key_inject [OF w u(1)] u(2) by auto
      then have "objs (fs_bucket (fst ?r)) (obj_key w f) = objs (fs_bucket ?s) (obj_key w f)"
        using put_blob_store_bucket [of bk q now "up_workspace ?u" "up_file ?u" "up_data ?u" "up_type ?u" ?s]
          put_other_object [OF ok] by (metis insertE singletonD)
      ultimately show ?thesis using EvStore True
        by (auto simp: Let_def intro!: file_keptI [OF kept] dest: in_set_takeD in_set_dropD)
    next
      case False
      then show ?thesis using EvStore kept by simp
    qed
  next
    case (EvDelete q w' f')
    let ?r = "delete_blob bk q w' f' (sv_store sv)"
    have ne: "CHR ''/'' \<notin> set w'" "(w', f') \<noteq> (w, f)" using assms(2) EvDelete by simp_all
    have "filter (blob_at w f) (filter (\<lambda>r. \<not> blob_at w' f' r) rs) = filter (blob_at w f) rs" for rs
      using ne(2) by (induction rs) (auto simp: blob_at_def)
    then have "filter (blob_at w f) (fs_rows (fst ?r)) = filter (blob_at w f) (fs_rows (sv_store sv))"
      using delete_blob_rows [of bk q w' f' "sv_store sv"] by metis
    moreover have "obj_key w f \<noteq> obj_key w' f'" using obj_key_inject [OF w ne(1)] ne(2) by auto
    then have "objs (fs_bucket (fst ?r)) (obj_key w f) = objs (fs_bucket (sv_store sv)) (obj_key w f)"
      using delete_blob_bucket [of bk q w' f' "sv_store sv"] delete_other_object [OF ok] by (metis insertE singletonD)
    ultimately show ?thesis using EvDelete by (auto intro!: file_keptI [OF kept])
  next
    case (EvWorkspaceAdded w')
    then show ?thesis by (auto intro!: file_keptI [OF kept])
  next
    case (EvWorkspaceDeleted w')
    then have "filter (blob_at w f) (filter (\<lambda>r. bm_workspace_id r \<noteq> w') rs) = filter (blob_at w f) rs" for rs
      using assms(2) by (induction rs) (auto simp: blob_at_def)
    then show ?thesis using EvWorkspaceDeleted by (auto intro!: file_keptI [OF kept])
  qed
qed

interpretation kept: step_invariant "file_step bk" "spares w f" "file_kept bk objs w f m data" for bk w f objs m data
  by unfold_locales (rule file_kept_step)

lemma get_blob_handler_kept:
  assumes "file_kept bk objs w f m data sv"
    and "bk_get bk (obj_key w f) (fs_bucket (sv_store sv)) = Inr (code, body)" and "success_code code"
  shows "\<exists>hs. get_blob_handler vd tt bk None w f [] (sv_store sv) = Inr \<lparr>hr_status = 200, hr_headers = hs, hr_body = data\<rparr> \<and>
    map_of hs ''content-type'' = Some m"
proof -
  have "objs (fs_bucket (sv_store sv)) (obj_key w f) = Some body"
    by (rule bucket_get [OF _ assms(2,3)]) (use assms(1) in \<open>simp add: file_kept_def\<close>)
  then have body: "body = data" using assms(1) by (simp add: file_kept_def)
  obtain r where r: "find (blob_at w f) (fs_rows (sv_store sv)) = Some r" "r \<in> set (fs_rows (sv_store sv))" "blob_at w f r"
    using assms(1) by (cases "find (blob_at w f) (fs_rows (sv_store sv))")
      (auto simp: file_kept_def find_None_iff filter_empty_conv find_Some_iff)
  then have "bm_file_type r = m" using assms(1) by (simp add: file_kept_def)
  with r(1) body assms(2) show ?thesis
    by (simp add: get_blob_handler_def get_blob_metadata_def get_blob_def client_get_blob_def)
qed

lemma put_blob_new:
  assumes "bucket_ok bk objs" and "snd (bk_put bk (obj_key w f) data (fs_bucket s)) = Inr code" and "success_code code"
    and "rows_ok (fs_rows s)" and "file_sizes w (fs_rows s) \<le> int MAX_USAGE"
    and "filter (blob_at w f) (fs_rows s) = []" and "w \<in> set (fs_workspaces s)"
  shows "\<exists>s1. put_blob bk no_file_faults now w f data m s = (s1, Inr ()) \<and>
    fs_rows s1 = fs_rows s @ [\<lparr>bm_workspace_id = w, bm_file_id = f, bm_file_type = m,
                               bm_file_size = as_i64 (length data), bm_modified_at = now\<rparr>] \<and>
    objs (fs_bucket s1) (obj_key w f) = Some data"
proof -
  obtain b1 where b1: "bk_put bk (obj_key w f) data (fs_bucket s) = (b1, Inr code)"
    using assms(2) by (metis prod.collapse)
  have no_row: "\<not> (\<exists>r \<in> set (fs_rows s). blob_at w f r)" using assms(6) by (auto simp: filter_empty_conv)
  have "put_blob_check no_file_faults w f (fs_rows s) = Inr True"
    using no_row assms(5) file_sizes_nonneg [OF assms(4), of w]
    by (auto simp: put_blob_check_def no_file_faults_def is_blob_metadata_exists_def get_workspace_usage_size_def Let_def
        MAX_USAGE_def)
  then show ?thesis
    using b1 no_row assms(3,7) bucket_put [OF assms(1-3)]
    by (simp add: put_blob_def put_blob_store_def no_file_faults_def sql_done_def insert_blob_metadata_def
        client_pub_blob_def check_s3_status_code_def)
qed

subsection \<open>Properties\<close>


text \<open>A bucket that is a map, and a workspace without files.\<close>

definition sample_bucket :: "(string \<rightharpoonup> bytes) bucket_api" where
  "sample_bucket =
     \<lparr>bk_put = \<lambda>k c b. (b(k \<mapsto> c), Inr 200), bk_delete = \<lambda>k b. (b(k := None), Inr (204, [])),
      bk_get = \<lambda>k b. case b k of None \<Rightarrow> Inr (404, [60]) | Some c \<Rightarrow> Inr (200, c), bk_text = \<lambda>_. []\<rparr>"

lemma sample_bucket_ok: "bucket_ok sample_bucket id"
  by (auto simp: bucket_ok_def sample_bucket_def success_code_def split: option.splits)

definition sample_service :: "(string \<rightharpoonup> bytes) file_service" where
  "sample_service = \<lparr>sv_store = \<lparr>fs_workspaces = [''w''], fs_rows = [], fs_bucket = Map.empty\<rparr>, sv_pending = []\<rparr>"

definition sample_texts :: time_texts where
  "sample_texts = \<lparr>tt_rfc2822 = \<lambda>t. show_nat (t div 1000000), tt_parse_rfc2822 = \<lambda>_. None\<rparr>"

definition sample_http_text :: http_text where
  "sample_http_text = \<lparr>ht_status = show_nat, ht_body = \<lambda>_. []\<rparr>"

definition sample_stored :: "(string \<rightharpoonup> bytes) file_store" where
  "sample_stored =
     \<lparr>fs_workspaces = [''w''],
      fs_rows = [\<lparr>bm_workspace_id = ''w'', bm_file_id = ''f'', bm_file_type = ''text/html'', bm_file_size = 3,
                  bm_modified_at = 5\<rparr>],
      fs_bucket = [''w/f'' \<mapsto> [1, 2, 3]]\<rparr>"

definition sample_chunks :: "bytes list" where
  "sample_chunks = [[1], [2, 3]]"

lemma sample_put:
  "put_blob_handler (\<lambda>_. []) sample_bucket no_file_faults 5 ''w'' ''f'' ''text/html'' (length (concat sample_chunks))
     (map Inr sample_chunks) (sv_store sample_service) = (sample_stored, Handled (Answer app_response_ok))"
proof -
  have "put_blob_content (\<lambda>_. []) (length (concat sample_chunks)) (map Inr sample_chunks) = Inr (concat sample_chunks)"
    by (rule put_blob_content_exact) (simp add: MAX_BLOB_SIZE_def sample_chunks_def)
  then show ?thesis
    by (simp add: put_blob_handler_def put_blob_def put_blob_check_def put_blob_store_def sample_service_def sample_stored_def
        is_blob_metadata_exists_def get_workspace_usage_size_def insert_blob_metadata_def no_file_faults_def sql_done_def
        client_pub_blob_def sample_bucket_def check_s3_status_code_def success_code_def obj_key_def as_i64_def
        handled_unit_def MAX_USAGE_def sample_chunks_def)
qed

definition sample_again :: file_event where
  "sample_again = EvUpload no_file_faults
     \<lparr>up_workspace = ''w'', up_file = ''f'', up_data = [9], up_type = ''text/plain''\<rparr>"

lemma sample_again_step:
  "run (file_step sample_bucket) (sample_service\<lparr>sv_store := sample_stored\<rparr>) [sample_again] =
     sample_service\<lparr>sv_store := sample_stored\<rparr>"
  by (simp add: sample_again_def sample_stored_def put_blob_check_def is_blob_metadata_exists_def blob_at_def
      no_file_faults_def)


definition sample_events :: "file_event list" where
  "sample_events = [EvWorkspaceAdded ''w'', EvUpload no_file_faults
     \<lparr>up_workspace = ''w'', up_file = ''f'', up_data = [9], up_type = ''text/plain''\<rparr>, EvStore 0 no_file_faults 5]"

theorem workspace_usage_is_bounded_witness:
  "\<exists>size. get_workspace_usage_size None ''w''
     (fs_rows (sv_store (run (file_step sample_bucket) (empty_service Map.empty) sample_events))) = Inr size \<and>
     size \<le> 10743709696"
proof -
  have "admissible (room_for 1) (file_step sample_bucket) (empty_service Map.empty) sample_events"
    by (simp add: sample_events_def empty_service_def)
  then show ?thesis
    using workspace_usage_is_bounded [of 1 sample_bucket Map.empty sample_events "''w''"]
    by (simp add: MAX_USAGE_def MAX_BLOB_SIZE_def)
qed

text \<open>A download that fails is taken for a file. When the request to the bucket fails, the server answers with status
  200 and the JSON of an error, which \<open>get_blob\<close> returns as the content of a file; when the bucket answers with another
  status, the server does not look at it and hands the body of the error out as the file, under the file's own type and
  marked as immutable for a year.\<close>

theorem failed_download_is_taken_for_a_file:
  assumes "find (blob_at w f) (fs_rows s) = Some r" and "mime (bm_file_type r) = Some m"
    and "mime ''application/json'' = Some ''application/json''"
    and "case bk_get bk (obj_key w f) (fs_bucket s) of Inl _ \<Rightarrow> True | Inr (code, _) \<Rightarrow> \<not> success_code code"
  shows "get_blob_answer vd ht mime url (download_response js (get_blob_handler vd tt bk None w f [] s)) =
    (case bk_get bk (obj_key w f) (fs_bucket s) of
       Inl err \<Rightarrow> Inr (''application/json'', js_encode js (app_response_of_error (response_error_of vd (S3Error err))))
     | Inr (code, page) \<Rightarrow> Inr (m, page))"
  using assms(1-3)
  by (cases "bk_get bk (obj_key w f) (fs_bucket s)")
    (auto simp: get_blob_handler_def get_blob_metadata_def get_blob_def client_get_blob_def download_response_def
      get_blob_answer_def error_response_def json_response_def)

definition sample_lost :: "(string \<rightharpoonup> bytes) file_store" where
  "sample_lost = sample_stored\<lparr>fs_bucket := Map.empty\<rparr>"

theorem failed_download_is_taken_for_a_file_witness:
  "get_blob_answer (\<lambda>_. []) sample_http_text Some ''u'' (download_response sample_json
     (get_blob_handler (\<lambda>_. []) sample_texts sample_bucket None ''w'' ''f'' [] sample_lost)) = Inr (''text/html'', [60])"
  using failed_download_is_taken_for_a_file [of "''w''" "''f''" sample_lost "hd (fs_rows sample_lost)" Some "''text/html''"
      sample_bucket "\<lambda>_. []" sample_http_text "''u''" sample_json sample_texts]
  by (simp add: sample_lost_def sample_stored_def sample_bucket_def blob_at_def success_code_def)

text \<open>A deletion whose commit fails leaves a file that is lost for good: the object is gone from the bucket, the row
  is still there, so the client is told of an error while every later upload of the same file is answered with success
  and stores nothing, and no download finds the content.\<close>

theorem uncommitted_deletion_loses_the_file:
  assumes "bucket_ok bk objs" and "length (filter (blob_at w f) (fs_rows s)) = 1"
    and "snd (bk_delete bk (obj_key w f) (fs_bucket s)) = Inr (code, page)" and "success_code code"
    and "ff_begin q = None" and "ff_stmt q 0 = None" and "ff_commit q = Some err"
    and "delete_blob_handler vd bk q w f s = (s1, out)"
  shows "out = Handled (refused vd (app_error_of_sqlx err)) \<and> fs_rows s1 = fs_rows s \<and>
    put_blob bk no_file_faults now w f data ty s1 = (s1, Inr ()) \<and>
    (\<forall>code body. bk_get bk (obj_key w f) (fs_bucket s1) = Inr (code, body) \<longrightarrow> \<not> success_code code)"
proof -
  obtain b1 where b1: "bk_delete bk (obj_key w f) (fs_bucket s) = (b1, Inr (code, page))"
    using assms(3) by (metis prod.collapse)
  have s1: "s1 = s\<lparr>fs_bucket := b1\<rparr>" and out: "out = Handled (refused vd (app_error_of_sqlx err))"
    using assms(2,4-8) b1
    by (auto simp: delete_blob_handler_def delete_blob_def delete_blob_metadata_def client_delete_blob_def
        check_s3_response_data_def sql_done_def handled_unit_def refused_def)
  have "objs b1 (obj_key w f) = None" using bucket_delete [OF assms(1,3,4)] b1 by simp
  then have gone: "\<forall>code body. bk_get bk (obj_key w f) b1 = Inr (code, body) \<longrightarrow> \<not> success_code code"
    using bucket_get [OF assms(1)] by fastforce
  have "\<exists>r \<in> set (fs_rows s). blob_at w f r"
    using assms(2) by (metis filter_False length_0_conv one_neq_zero)
  then have "put_blob_check no_file_faults w f (fs_rows s) = Inr False"
    by (simp add: put_blob_check_def is_blob_metadata_exists_def no_file_faults_def)
  then show ?thesis using s1 out gone by (simp add: put_blob_def)
qed

theorem uncommitted_deletion_loses_the_file_witness:
  "put_blob sample_bucket no_file_faults 7 ''w'' ''f'' [1, 2, 3] ''text/html'' sample_lost = (sample_lost, Inr ())"
  using uncommitted_deletion_loses_the_file [OF sample_bucket_ok, of "''w''" "''f''" sample_stored 204 "[]"
      "no_file_faults\<lparr>ff_commit := Some SqlPoolTimedOut\<rparr>" SqlPoolTimedOut "\<lambda>_. []"
      "fst (delete_blob_handler (\<lambda>_. []) sample_bucket (no_file_faults\<lparr>ff_commit := Some SqlPoolTimedOut\<rparr>) ''w'' ''f''
         sample_stored)" _ 7 "[1, 2, 3]" "''text/html''"]
  by (simp add: sample_lost_def sample_stored_def sample_bucket_def blob_at_def success_code_def no_file_faults_def
      delete_blob_handler_def delete_blob_def delete_blob_metadata_def client_delete_blob_def obj_key_def
      check_s3_response_data_def sql_done_def)

text \<open>
  The date of a file that was stored within a second is cut off in \<open>Last-Modified\<close>, so a client that sends it back never
  gets the answer that the file has not changed.
\<close>

lemma echoed_date_is_older:
  assumes "time_texts_ok tt" and "find (blob_at w f) (fs_rows s) = Some r" and "bm_modified_at r mod 1000000 \<noteq> 0"
  shows "get_blob_handler vd tt bk None w f [(''if-modified-since'', tt_rfc2822 tt (bm_modified_at r))] s =
    get_blob_handler vd tt bk None w f [] s"
proof -
  have "bm_modified_at r div 1000000 * 1000000 < bm_modified_at r"
    using assms(3) by (metis div_mult_mod_eq less_add_same_cancel1 neq0_conv)
  then show ?thesis using assms(1,2)
    by (simp add: get_blob_handler_def get_blob_metadata_def time_texts_ok_def)
qed

end
