(* ===== verification/CollabApi.thy ===== *)
theory CollabApi
  imports HttpRequests Server
begin

unbundle bit_operations_syntax

section \<open>The handlers of collabs\<close>

text \<open>
  The handlers of \<open>src/api/workspace.rs\<close> for collabs, snapshots and collab members, with \<open>src/api/util.rs\<close> and
  \<open>src/domain/compression.rs\<close>. The decoders of the payloads and the decompressor are the parameter \<open>server_codecs\<close>;
  the body of a stream is a list of chunks, each of which may be an error of the connection. A handler gives the state
  afterwards and its result, which \<open>handled_of\<close> and \<open>handled_unit\<close> turn into an answer.
\<close>

record server_codecs =
  sc_create_of_json :: "bytes \<Rightarrow> string + create_collab_params"
  sc_create_of_bytes :: "bytes \<Rightarrow> string + create_collab_params"
  sc_params_of_bytes :: "bytes \<Rightarrow> string + collab_params"
  sc_batch_of_bytes :: "bytes \<Rightarrow> string + string \<times> collab_params list"
  sc_decompress :: "nat \<Rightarrow> bytes \<Rightarrow> app_error + bytes"

subsection \<open>Headers\<close>

definition ascii_lower :: "char \<Rightarrow> char" where
  "ascii_lower c = (let n = of_char c :: nat in if 65 \<le> n \<and> n \<le> 90 then char_of (n + 32) else c)"

text \<open>The names of headers are compared without their case; a value with other than visible characters is no text.\<close>

definition header_get :: "(string \<times> string) list \<Rightarrow> string \<Rightarrow> string option" where
  "header_get headers name = map_of (map (\<lambda>(k, v). (map ascii_lower k, v)) headers) (map ascii_lower name)"

definition header_str :: "string \<Rightarrow> string + string" where
  "header_str v =
     (if list_all (\<lambda>c. let n = of_char c :: nat in 32 \<le> n \<and> n < 127 \<or> n = 9) v then Inr v
      else Inl ''failed to convert header to a str'')"

definition parse_usize :: "string \<Rightarrow> string + nat" where
  "parse_usize s =
     (if s = [] then Inl ''cannot parse integer from empty string''
      else
        let t = (if hd s = CHR ''+'' then tl s else s) in
        case (if t = [] then None else parse_digits 0 t) of
          None \<Rightarrow> Inl ''invalid digit found in string''
        | Some n \<Rightarrow> if n < 2 ^ 64 then Inr n else Inl ''number too large to fit in target type'')"

definition header_value :: "string \<Rightarrow> (string \<times> string) list \<Rightarrow> app_error + string" where
  "header_value name headers =
     (case header_get headers name of
        None \<Rightarrow> Inl (InvalidRequest (''Missing '' @ name @ '' header''))
      | Some v \<Rightarrow> res_map_err (\<lambda>err. InvalidRequest (''Failed to parse '' @ name @ '': '' @ err)) (header_str v))"

text \<open>The only compression type is Brotli, given by the size of its buffer.\<close>

definition compress_type_from_header_value :: "(string \<times> string) list \<Rightarrow> app_error + nat" where
  "compress_type_from_header_value headers =
     res_bind (header_value X_COMPRESSION_TYPE headers) (\<lambda>compression_type.
     res_bind (header_value X_COMPRESSION_BUFFER_SIZE headers) (\<lambda>buffer_size_str.
     res_bind (res_map_err (\<lambda>err. InvalidRequest (''X-Compression-Buffer-Size is not a valid usize: '' @ err))
        (parse_usize buffer_size_str)) (\<lambda>buffer_size.
     if compression_type = ''brotli'' then Inr buffer_size
     else Inl (InvalidRequest (''Unknown compression type: '' @ compression_type)))))"

definition device_id_from_headers :: "(string \<times> string) list \<Rightarrow> app_error + string" where
  "device_id_from_headers headers =
     (case header_get headers ''device_id'' of
        None \<Rightarrow> Inl (InvalidRequest ''Missing device_id header'')
      | Some v \<Rightarrow> res_map_err (\<lambda>err. InvalidRequest (''Failed to parse device_id: '' @ err)) (header_str v))"

subsection \<open>Creating collabs\<close>

definition validate_create_collab_params :: "create_collab_params \<Rightarrow> app_error + unit" where
  "validate_create_collab_params p = collect_errors
     [(''workspace_id'', validate_not_empty_str (ccp_workspace_id p)),
      (''object_id'', validate_not_empty_str (ccp_object_id p)),
      (''encoded_collab_v1'', validate_not_empty_payload (ccp_encoded_collab_v1 p))]"

definition validate_batch_create_params :: "string \<times> collab_params list \<Rightarrow> app_error + unit" where
  "validate_batch_create_params p = collect_errors [(''workspace_id'', validate_not_empty_str (fst p))]"

definition validate_delete_collab_params :: "delete_collab_params \<Rightarrow> app_error + unit" where
  "validate_delete_collab_params p = collect_errors
     [(''object_id'', validate_not_empty_str (dcp_object_id p)),
      (''workspace_id'', validate_not_empty_str (dcp_workspace_id p))]"

definition validate_query_collab_members :: "query_collab_members \<Rightarrow> app_error + unit" where
  "validate_query_collab_members p = collect_errors
     [(''workspace_id'', validate_not_empty_str (qcm_workspace_id p)),
      (''object_id'', validate_not_empty_str (qcm_object_id p))]"

definition with_storage :: "'e cloud \<Rightarrow> 'e storage \<times> 'r \<Rightarrow> 'e cloud \<times> 'r" where
  "with_storage s r = (s\<lparr>cd_storage := fst r\<rparr>, snd r)"

definition invalid_payload :: "string \<Rightarrow> string + 'a \<Rightarrow> app_error + 'a" where
  "invalid_payload what r = res_map_err (\<lambda>err. InvalidRequest (what @ err)) r"

definition create_collab_payload ::
    "server_codecs \<Rightarrow> (string \<times> string) list \<Rightarrow> bytes \<Rightarrow> app_error + create_collab_params" where
  "create_collab_payload sc headers payload =
     (case header_get headers X_COMPRESSION_TYPE of
        None \<Rightarrow> invalid_payload ''Failed to parse CreateCollabParams from JSON: '' (sc_create_of_json sc payload)
      | Some _ \<Rightarrow>
          res_bind (compress_type_from_header_value headers) (\<lambda>buffer_size.
          res_bind (sc_decompress sc buffer_size payload) (\<lambda>data.
          invalid_payload ''Failed to parse CreateCollabParams with brotli decompression data: ''
            (sc_create_of_bytes sc data))))"

definition create_collab_handler ::
    "server_codecs \<Rightarrow> collab_api \<Rightarrow> 'e casbin_api \<Rightarrow> sqlx_error option \<Rightarrow> faults \<Rightarrow> string \<Rightarrow> bytes \<Rightarrow>
     (string \<times> string) list \<Rightarrow> 'e cloud \<Rightarrow> 'e cloud \<times> (app_error + unit)" where
  "create_collab_handler sc ce api q f uuid payload headers s =
     (case get_user_uid q uuid s of
        (s1, Inl err) \<Rightarrow> (s1, Inl err)
      | (s1, Inr uid) \<Rightarrow>
          (case res_bind (create_collab_payload sc headers payload) (\<lambda>p.
                 res_bind (validate_create_collab_params p) (\<lambda>_. Inr p)) of
             Inl err \<Rightarrow> (s1, Inl err)
           | Inr p \<Rightarrow> with_storage s1 (upsert_collab ce api f uid p (cd_storage s1))))"

subsection \<open>Batches\<close>

definition u32_of_be :: "bytes \<Rightarrow> u32" where
  "u32_of_be b =
     push_bit 24 (ucast (b ! 0)) OR push_bit 16 (ucast (b ! 1)) OR push_bit 8 (ucast (b ! 2)) OR ucast (b ! 3)"

definition read_frame :: "server_codecs \<Rightarrow> nat \<Rightarrow> bytes \<Rightarrow> app_error + collab_params" where
  "read_frame sc buffer_size compressed_data =
     res_bind (sc_decompress sc buffer_size compressed_data) (\<lambda>data.
     res_bind (invalid_payload ''Failed to parse CollabParams with brotli decompression data: ''
        (sc_params_of_bytes sc data)) (\<lambda>p.
     res_bind (validate_collab_params p) (\<lambda>_. Inr p)))"

function take_frames ::
    "server_codecs \<Rightarrow> nat \<Rightarrow> collab_params list \<Rightarrow> bytes \<Rightarrow> app_error + collab_params list \<times> bytes" where
  "take_frames sc buffer_size acc buffer =
     (if 4 \<le> length buffer then
        let size = unat (u32_of_be (take 4 buffer)) in
        if length buffer < 4 + size then Inr (acc, buffer)
        else
          case read_frame sc buffer_size (take size (drop 4 buffer)) of
            Inl err \<Rightarrow> Inl err
          | Inr p \<Rightarrow> take_frames sc buffer_size (acc @ [p]) (drop (4 + size) buffer)
      else Inr (acc, buffer))"
  by auto
termination by (relation "measure (\<lambda>(_, _, _, b). length b)") auto

declare take_frames.simps [simp del]

text \<open>Chunks that are errors are passed over, and what is left of the buffer in the end is dropped.\<close>

fun read_batch ::
    "server_codecs \<Rightarrow> nat \<Rightarrow> collab_params list \<Rightarrow> bytes \<Rightarrow> (string + bytes) list \<Rightarrow> app_error + collab_params list" where
  "read_batch sc buffer_size acc buffer [] = Inr acc"
| "read_batch sc buffer_size acc buffer (Inl _ # items) = read_batch sc buffer_size acc buffer items"
| "read_batch sc buffer_size acc buffer (Inr b # items) =
     res_bind (take_frames sc buffer_size acc (buffer @ b)) (\<lambda>(acc1, rest).
     read_batch sc buffer_size acc1 rest items)"

text \<open>The loop of the transaction: \<open>f i\<close> are the faults that the params \<open>i\<close> meet.\<close>

fun upsert_all ::
    "collab_api \<Rightarrow> 'e casbin_api \<Rightarrow> (nat \<Rightarrow> faults) \<Rightarrow> string \<Rightarrow> i64 \<Rightarrow> nat \<Rightarrow> collab_params list \<Rightarrow> database \<Rightarrow>
     'e storage \<Rightarrow> 'e storage \<times> (app_error + database)" where
  "upsert_all ce api f w uid i [] txn s = (s, Inr txn)"
| "upsert_all ce api f w uid i (p # ps) txn s =
     (case upsert_collab_with_transaction ce api (f i) w uid p txn s of
        (s1, Inl err) \<Rightarrow> (s1, Inl err)
      | (s1, Inr txn1) \<Rightarrow> upsert_all ce api f w uid (Suc i) ps txn1 s1)"

definition store_batch ::
    "collab_api \<Rightarrow> 'e casbin_api \<Rightarrow> (nat \<Rightarrow> faults) \<Rightarrow> txn \<Rightarrow> string \<Rightarrow> i64 \<Rightarrow> collab_params list \<Rightarrow>
     'e storage \<Rightarrow> 'e storage \<times> (app_error + unit)" where
  "store_batch ce api f tx w uid ps s =
     (if ps = [] then (s, Inl (InvalidRequest ''Empty collab params list''))
      else if \<not> tx_begin tx then (s, Inl (Internal ''acquire transaction to upsert collab''))
      else
        case upsert_all ce api f w uid 0 ps (st_db s) s of
          (s1, Inl err) \<Rightarrow> (s1, Inl err)
        | (s1, Inr txn) \<Rightarrow>
            if tx_commit tx then (s1\<lparr>st_db := txn\<rparr>, Inr ())
            else (s1, Inl (Internal ''fail to commit the transaction to upsert collab'')))"

definition batch_create_collab_handler ::
    "server_codecs \<Rightarrow> collab_api \<Rightarrow> 'e casbin_api \<Rightarrow> sqlx_error option \<Rightarrow> (nat \<Rightarrow> faults) \<Rightarrow> txn \<Rightarrow> string \<Rightarrow> string \<Rightarrow>
     (string + bytes) list \<Rightarrow> (string \<times> string) list \<Rightarrow> 'e cloud \<Rightarrow> 'e cloud \<times> (app_error + unit)" where
  "batch_create_collab_handler sc ce api q f tx uuid workspace_id payload headers s =
     (case get_user_uid q uuid s of
        (s1, Inl err) \<Rightarrow> (s1, Inl err)
      | (s1, Inr uid) \<Rightarrow>
          (case res_bind (compress_type_from_header_value headers) (\<lambda>buffer_size.
                  read_batch sc buffer_size [] [] payload) of
             Inl err \<Rightarrow> (s1, Inl err)
           | Inr ps \<Rightarrow> with_storage s1 (store_batch ce api f tx workspace_id uid ps (cd_storage s1))))"

definition create_collab_list_payload ::
    "server_codecs \<Rightarrow> (string \<times> string) list \<Rightarrow> bytes \<Rightarrow> app_error + string \<times> collab_params list" where
  "create_collab_list_payload sc headers payload =
     (case header_get headers X_COMPRESSION_TYPE of
        None \<Rightarrow> invalid_payload ''Failed to parse batch BatchCreateCollabParams: '' (sc_batch_of_bytes sc payload)
      | Some _ \<Rightarrow>
          res_bind (compress_type_from_header_value headers) (\<lambda>buffer_size.
          res_bind (sc_decompress sc buffer_size payload) (\<lambda>data.
          invalid_payload ''Failed to parse BatchCreateCollabParams with decompression data: ''
            (sc_batch_of_bytes sc data))))"

definition create_collab_list_handler ::
    "server_codecs \<Rightarrow> collab_api \<Rightarrow> 'e casbin_api \<Rightarrow> sqlx_error option \<Rightarrow> (nat \<Rightarrow> faults) \<Rightarrow> txn \<Rightarrow> string \<Rightarrow> bytes \<Rightarrow>
     (string \<times> string) list \<Rightarrow> 'e cloud \<Rightarrow> 'e cloud \<times> (app_error + unit)" where
  "create_collab_list_handler sc ce api q f tx uuid payload headers s =
     (case get_user_uid q uuid s of
        (s1, Inl err) \<Rightarrow> (s1, Inl err)
      | (s1, Inr uid) \<Rightarrow>
          (case res_bind (create_collab_list_payload sc headers payload) (\<lambda>p.
                 res_bind (validate_batch_create_params p) (\<lambda>_. Inr p)) of
             Inl err \<Rightarrow> (s1, Inl err)
           | Inr (w, ps) \<Rightarrow> with_storage s1 (store_batch ce api f tx w uid ps (cd_storage s1))))"

subsection \<open>Reading, changing and deleting\<close>

definition get_collab_handler ::
    "collab_api \<Rightarrow> 'e casbin_api \<Rightarrow> sqlx_error option \<Rightarrow> faults \<Rightarrow> string \<Rightarrow> query_collab_params \<Rightarrow> 'e cloud \<Rightarrow>
     'e cloud \<times> (app_error + encoded_collab)" where
  "get_collab_handler ce api q f uuid payload s =
     (case get_user_uid q uuid s of
        (s1, Inl err) \<Rightarrow> (s1, Inl err)
      | (s1, Inr uid) \<Rightarrow> with_storage s1 (get_collab_encoded ce api f uid payload (cd_storage s1)))"

definition batch_get_collab_handler ::
    "(string list \<Rightarrow> string) \<Rightarrow> collab_api \<Rightarrow> sqlx_error option \<Rightarrow> (collab_type \<Rightarrow> sqlx_error option) \<Rightarrow> collab_type list \<Rightarrow>
     string \<Rightarrow> query_collab list \<Rightarrow> 'e cloud \<Rightarrow> 'e cloud \<times> (app_error + (string \<rightharpoonup> query_collab_result))" where
  "batch_get_collab_handler vd ce q qt types uuid payload s =
     (case get_user_uid q uuid s of
        (s1, Inl err) \<Rightarrow> (s1, Inl err)
      | (s1, Inr uid) \<Rightarrow> (s1, Inr (batch_get_collab vd ce qt types uid payload (cd_storage s1))))"

definition update_collab_handler ::
    "collab_api \<Rightarrow> 'e casbin_api \<Rightarrow> sqlx_error option \<Rightarrow> faults \<Rightarrow> string \<Rightarrow> create_collab_params \<Rightarrow> 'e cloud \<Rightarrow>
     'e cloud \<times> (app_error + unit)" where
  "update_collab_handler ce api q f uuid payload s =
     (let (params, workspace_id) = split_create_params payload in
      case get_user_uid q uuid s of
        (s1, Inl err) \<Rightarrow> (s1, Inl err)
      | (s1, Inr uid) \<Rightarrow>
          with_storage s1 (upsert_collab ce api f uid (create_params_of workspace_id params) (cd_storage s1)))"

text \<open>\<open>biz::collab::ops::delete_collab\<close>, which takes the user and does not look at it.\<close>

definition ops_delete_collab :: "sqlx_error option \<Rightarrow> nat \<Rightarrow> string \<Rightarrow> delete_collab_params \<Rightarrow> database \<Rightarrow> database \<times> (app_error + unit)" where
  "ops_delete_collab q now user_uuid p db =
     (case validate_delete_collab_params p of
        Inl err \<Rightarrow> (db, Inl err)
      | Inr _ \<Rightarrow>
          (case db_delete_collab q now (dcp_object_id p) db of
             Inl err \<Rightarrow> (db, Inl (app_error_of_sqlx err))
           | Inr db1 \<Rightarrow> (db1, Inr ())))"

definition with_database :: "'e cloud \<Rightarrow> database \<times> 'r \<Rightarrow> 'e cloud \<times> 'r" where
  "with_database s r = (s\<lparr>cd_storage := with_db (cd_storage s) r\<rparr>, snd r)"

definition delete_collab_handler ::
    "sqlx_error option \<Rightarrow> nat \<Rightarrow> string \<Rightarrow> delete_collab_params \<Rightarrow> 'e cloud \<Rightarrow> 'e cloud \<times> (app_error + unit)" where
  "delete_collab_handler q now user_uuid payload s =
     with_database s (ops_delete_collab q now user_uuid payload (st_db (cd_storage s)))"

subsection \<open>Snapshots\<close>

record snapshot_data =
  sd_object_id :: string
  sd_encoded_collab_v1 :: bytes
  sd_workspace_id :: string

definition get_collab_snapshot_handler :: "sqlx_error option \<Rightarrow> i64 \<Rightarrow> 'e cloud \<Rightarrow> app_error + snapshot_data" where
  "get_collab_snapshot_handler q snapshot_id s =
     res_bind (get_collab_snapshot q snapshot_id (cd_storage s)) (\<lambda>row.
     Inr \<lparr>sd_object_id = sn_oid row, sd_encoded_collab_v1 = sn_blob row, sd_workspace_id = sn_workspace_id row\<rparr>)"

text \<open>The encoding of the collab is unwrapped.\<close>

definition create_collab_snapshot_handler ::
    "collab_api \<Rightarrow> (snapshot_row list \<Rightarrow> snapshot_row list) \<Rightarrow> 'e casbin_api \<Rightarrow> sqlx_error option \<Rightarrow> faults \<Rightarrow> faults \<Rightarrow> nat \<Rightarrow>
     string \<Rightarrow> string \<Rightarrow> string \<Rightarrow> collab_type \<Rightarrow> 'e cloud \<Rightarrow> 'e cloud \<times> snapshot_row served" where
  "create_collab_snapshot_handler ce newest api q f f2 now uuid workspace_id object_id collab_type s =
     (case get_user_uid q uuid s of
        (s1, Inl err) \<Rightarrow> (s1, Served (Inl err))
      | (s1, Inr uid) \<Rightarrow>
          (case get_collab_encoded ce api f uid
                  \<lparr>qcp_workspace_id = workspace_id,
                   qcp_inner = \<lparr>qc_object_id = object_id, qc_collab_type = collab_type\<rparr>\<rparr> (cd_storage s1) of
             (st1, Inl err) \<Rightarrow> (s1\<lparr>cd_storage := st1\<rparr>, Served (Inl err))
           | (st1, Inr c) \<Rightarrow>
               (case ce_encode ce c of
                  Inl _ \<Rightarrow> (s1\<lparr>cd_storage := st1\<rparr>, Panicked)
                | Inr b \<Rightarrow>
                    let (st2, r) = create_snapshot ce newest f2 now
                          \<lparr>isp_object_id = object_id, isp_encoded_collab_v1 = b, isp_workspace_id = workspace_id\<rparr> st1
                    in (s1\<lparr>cd_storage := st2\<rparr>, Served r))))"

definition get_all_collab_snapshot_list_handler ::
    "(snapshot_row list \<Rightarrow> snapshot_row list) \<Rightarrow> sqlx_error option \<Rightarrow> string \<Rightarrow> string \<Rightarrow> 'e cloud \<Rightarrow>
     app_error + snapshot_row list" where
  "get_all_collab_snapshot_list_handler newest q workspace_id object_id s =
     get_collab_snapshot_list newest q object_id (cd_storage s)"

subsection \<open>Members of a collab\<close>

text \<open>\<open>uids\<close> are the users of the object in the order of the rows.\<close>

definition select_collab_members ::
    "sqlx_error option \<Rightarrow> i64 list \<Rightarrow> string \<Rightarrow> database \<Rightarrow> app_error + af_collab_member list" where
  "select_collab_members q uids oid db =
     (case q of
        Some err \<Rightarrow> Inl (app_error_of_sqlx err)
      | None \<Rightarrow> Inr (concat (map (\<lambda>uid.
          case Option.bind (db_members db (uid, oid)) (\<lambda>pid. find (\<lambda>p. perm_id p = pid) af_permissions) of
            None \<Rightarrow> [] | Some p \<Rightarrow> [\<lparr>acm_uid = uid, acm_oid = oid, acm_permission = p\<rparr>]) uids)))"

definition get_collab_member_list ::
    "sqlx_error option \<Rightarrow> i64 list \<Rightarrow> query_collab_members \<Rightarrow> database \<Rightarrow> app_error + af_collab_member list" where
  "get_collab_member_list q uids p db =
     res_bind (validate_query_collab_members p) (\<lambda>_. select_collab_members q uids (qcm_object_id p) db)"

definition add_collab_member_handler ::
    "'e casbin_api \<Rightarrow> faults \<Rightarrow> insert_collab_member_params \<Rightarrow> 'e cloud \<Rightarrow> 'e cloud \<times> (app_error + unit)" where
  "add_collab_member_handler api f p s =
     (case with_database s (create_collab_member f p (st_db (cd_storage s))) of
        (s1, Inl err) \<Rightarrow> (s1, Inl err)
      | (s1, Inr _) \<Rightarrow>
          (set_enforcer (update_member api (cd_enforcer s1) (icm_uid p) (icm_object_id p) (icm_access_level p)) s1, Inr ()))"

definition update_collab_member_handler ::
    "'e casbin_api \<Rightarrow> faults \<Rightarrow> insert_collab_member_params \<Rightarrow> 'e cloud \<Rightarrow> 'e cloud \<times> (app_error + unit)" where
  "update_collab_member_handler api f p s =
     (case with_database s (upsert_collab_member f p (st_db (cd_storage s))) of
        (s1, Inl err) \<Rightarrow> (s1, Inl err)
      | (s1, Inr _) \<Rightarrow>
          (set_enforcer (update_member api (cd_enforcer s1) (icm_uid p) (icm_object_id p) (icm_access_level p)) s1, Inr ()))"

definition get_collab_member_handler :: "faults \<Rightarrow> collab_member_identify \<Rightarrow> 'e cloud \<Rightarrow> app_error + af_collab_member" where
  "get_collab_member_handler f p s = get_collab_member f p (st_db (cd_storage s))"

definition remove_collab_member_handler ::
    "'e casbin_api \<Rightarrow> faults \<Rightarrow> collab_member_identify \<Rightarrow> 'e cloud \<Rightarrow> 'e cloud \<times> (app_error + unit)" where
  "remove_collab_member_handler api f p s =
     (case with_database s (delete_collab_member f p (st_db (cd_storage s))) of
        (s1, Inl err) \<Rightarrow> (s1, Inl err)
      | (s1, Inr _) \<Rightarrow>
          (set_enforcer (remove_member api (cd_enforcer s1) (cmi_uid p) (cmi_object_id p)) s1, Inr ()))"

definition get_collab_member_list_handler ::
    "sqlx_error option \<Rightarrow> i64 list \<Rightarrow> query_collab_members \<Rightarrow> 'e cloud \<Rightarrow> app_error + af_collab_member list" where
  "get_collab_member_list_handler q uids p s = get_collab_member_list q uids p (st_db (cd_storage s))"

subsection \<open>Realtime messages over HTTP\<close>

text \<open>
  \<open>proto\<close> decodes \<open>HttpRealtimeMessage\<close>, \<open>bc\<close> the message. \<open>accepts n\<close> is whether the mailbox of the server takes the
  message at attempt \<open>n\<close>; two seconds pass between attempts.
\<close>

definition parser_realtime_msg ::
    "(bytes \<Rightarrow> string + string \<times> bytes) \<Rightarrow> bincode \<Rightarrow> (nat \<Rightarrow> bytes \<Rightarrow> app_error + bytes) \<Rightarrow> (string \<times> string) list \<Rightarrow>
     bytes \<Rightarrow> app_error + realtime_message" where
  "parser_realtime_msg proto bc decompress headers body =
     res_bind (res_map_err Internal (proto body)) (\<lambda>(_, payload).
     res_bind (case header_get headers X_COMPRESSION_TYPE of
                 None \<Rightarrow> Inr payload
               | Some _ \<Rightarrow> res_bind (compress_type_from_header_value headers) (\<lambda>buffer_size. decompress buffer_size payload)) (\<lambda>data.
     invalid_payload ''Failed to parse RealtimeMessage: '' (bc_deserialize bc data)))"

function post_attempts :: "(nat \<Rightarrow> bool) \<Rightarrow> (nat \<Rightarrow> string) \<Rightarrow> nat \<Rightarrow> app_error + nat" where
  "post_attempts accepts err attempts =
     (if attempts < 3 then
        if accepts attempts then Inr attempts
        else if attempts < 3 - 1 then post_attempts accepts err (attempts + 1)
        else Inl (Internal (''Failed to send client stream message to websocket server after '' @
               show_nat (attempts + 1) @ '' attempts: '' @ err attempts))
      else Inl (Internal ''Failed to send message to websocket server''))"
  by auto
termination by (relation "measure (\<lambda>(_, _, n). 3 - n)") auto

declare post_attempts.simps [simp del]

fun read_body :: "bytes \<Rightarrow> (string + bytes) list \<Rightarrow> string + bytes" where
  "read_body acc [] = Inr acc"
| "read_body acc (Inl err # items) = Inl err"
| "read_body acc (Inr b # items) = read_body (acc @ b) items"

text \<open>A broken body is an error of the framework, anything else one of the application.\<close>

datatype post_error = BodyBroken string | PostRefused app_error

definition post_realtime_message_stream_handler ::
    "(bytes \<Rightarrow> string + string \<times> bytes) \<Rightarrow> bincode \<Rightarrow> (nat \<Rightarrow> bytes \<Rightarrow> app_error + bytes) \<Rightarrow> (nat \<Rightarrow> bool) \<Rightarrow> (nat \<Rightarrow> string) \<Rightarrow>
     sqlx_error option \<Rightarrow> string \<Rightarrow> (string + bytes) list \<Rightarrow> (string \<times> string) list \<Rightarrow> 'e cloud \<Rightarrow>
     'e cloud \<times> (post_error + nat \<times> client_stream_message)" where
  "post_realtime_message_stream_handler proto bc decompress accepts err q uuid payload headers s =
     (let device_id = (case device_id_from_headers headers of Inr d \<Rightarrow> d | Inl _ \<Rightarrow> []) in
      case get_user_uid q uuid s of
        (s1, Inl e) \<Rightarrow> (s1, Inl (PostRefused e))
      | (s1, Inr uid) \<Rightarrow>
          (s1, res_bind (res_map_err BodyBroken (read_body [] payload)) (\<lambda>body.
               res_bind (res_map_err PostRefused (parser_realtime_msg proto bc decompress headers body)) (\<lambda>m.
               res_bind (res_map_err PostRefused (post_attempts accepts err 0)) (\<lambda>n.
               Inr (n, \<lparr>csm_uid = uid, csm_device_id = device_id, csm_stream = [m]\<rparr>))))))"

end
