(* ===== verification/CollabApiProps.thy ===== *)
theory CollabApiProps
  imports CollabApi HttpProps StorageProps
begin

section \<open>What the collab interface keeps\<close>

text \<open>
  What travels from the client library to the storage: batches in frames, single collabs, members. The codecs of both
  sides belong to each other (\<open>codecs_ok\<close>): what the client packs and compresses the server decompresses and unpacks,
  whatever the size of its buffer is.
\<close>

definition codecs_ok :: "client_codecs \<Rightarrow> server_codecs \<Rightarrow> bool" where
  "codecs_ok k sc \<longleftrightarrow>
     (\<forall>p b. ck_params k p = Inr b \<longrightarrow> sc_params_of_bytes sc b = Inr p) \<and>
     (\<forall>p b. ck_create k p = Inr b \<longrightarrow> sc_create_of_bytes sc b = Inr p) \<and>
     (\<forall>q n m b z. ck_brotli k q n b = Inr z \<longrightarrow> sc_decompress sc m z = Inr b)"

subsection \<open>Headers\<close>

lemma header_str_show_nat: "header_str (show_nat n) = Inr (show_nat n)"
  by (auto simp: header_str_def list_all_iff Let_def dest!: show_nat_char)

lemma parse_usize_show_nat:
  assumes "n < 2 ^ 64"
  shows "parse_usize (show_nat n) = Inr n"
  using assms show_nat_hd_not_sign [of n] by (simp add: parse_usize_def Let_def)

lemma compress_headers_read:
  assumes "cc_compression_buffer_size x < 2 ^ 64"
  shows "compress_type_from_header_value (compress_headers x) = Inr (cc_compression_buffer_size x)"
    and "header_get (compress_headers x) X_COMPRESSION_TYPE \<noteq> None"
proof -
  have "header_get (compress_headers x) X_COMPRESSION_TYPE = Some ''brotli''"
    "header_get (compress_headers x) X_COMPRESSION_BUFFER_SIZE = Some (show_nat (cc_compression_buffer_size x))"
    by (simp_all add: header_get_def compress_headers_def auth_headers_def ascii_lower_def X_COMPRESSION_TYPE_def
        X_COMPRESSION_BUFFER_SIZE_def X_COMPRESSION_TYPE_BROTLI_def)
  moreover have "header_str ''brotli'' = Inr ''brotli''" by (simp add: header_str_def)
  ultimately show "compress_type_from_header_value (compress_headers x) = Inr (cc_compression_buffer_size x)"
    and "header_get (compress_headers x) X_COMPRESSION_TYPE \<noteq> None"
    using parse_usize_show_nat [OF assms]
    by (simp_all add: compress_type_from_header_value_def header_value_def header_str_show_nat)
qed

subsection \<open>Frames\<close>

lemma u32_of_be_bytes: "u32_of_be (be_bytes w) = w"
proof (rule bit_word_eqI)
  fix n assume "n < LENGTH(32)"
  then show "bit (u32_of_be (be_bytes w)) n = bit w n"
    by (cases "n < 8"; cases "n < 16"; cases "n < 24") (auto simp: u32_of_be_def be_bytes_def bit_simps)
qed

lemma length_be_bytes [simp]: "length (be_bytes w) = 4"
  by (simp add: be_bytes_def)

definition frame_of :: "bytes \<Rightarrow> bytes" where
  "frame_of z = be_bytes (word_of_nat (length z)) @ z"

lemma framed_data_results:
  assumes "framed_data tasks = Inr body"
  obtains zs where "tasks = map Inr zs" and "body = concat (map frame_of zs)"
  using assms
proof (induction tasks arbitrary: body thesis)
  case Nil
  then show ?case by simp
next
  case (Cons task tasks)
  from Cons.prems(2) obtain z rest where z: "task = Inr z" "framed_data tasks = Inr rest" "body = frame_of z @ rest"
    by (auto simp: frame_of_def elim!: res_bind_InrE)
  from Cons.IH [OF _ z(2)] obtain zs where "tasks = map Inr zs" "rest = concat (map frame_of zs)" by blast
  with z show ?case by (intro Cons.prems(1) [of "z # zs"]) simp_all
qed

lemma frame_size:
  assumes "length z < 2 ^ 32"
  shows "unat (u32_of_be (take 4 (frame_of z @ rest))) = length z" and "length (frame_of z) = 4 + length z"
proof -
  have "unat (word_of_nat (length z) :: u32) = length z" using assms by (simp add: unat_of_nat)
  then show "unat (u32_of_be (take 4 (frame_of z @ rest))) = length z" by (simp add: frame_of_def u32_of_be_bytes)
qed (simp add: frame_of_def)

lemma frame_parts:
  "take (length z) (drop 4 (frame_of z @ rest)) = z" "drop (4 + length z) (frame_of z @ rest) = rest"
  by (simp_all add: frame_of_def)

lemma take_frame:
  assumes "length z < 2 ^ 32"
  shows "take_frames sc n acc (frame_of z @ rest) =
    (case read_frame sc n z of Inl err \<Rightarrow> Inl err | Inr p \<Rightarrow> take_frames sc n (acc @ [p]) rest)"
proof -
  have "4 \<le> length (frame_of z @ rest)" "\<not> length (frame_of z @ rest) < 4 + length z"
    by (simp_all add: frame_size(2) [OF assms])
  then show ?thesis
    by (subst take_frames.simps) (simp only: Let_def frame_size(1) [OF assms] frame_parts if_True if_False)
qed

text \<open>Taking frames off a buffer does not depend on when the rest of it arrives.\<close>

lemma take_frames_append:
  "take_frames sc n acc (b @ c) =
     res_bind (take_frames sc n acc b) (\<lambda>(acc1, rest). take_frames sc n acc1 (rest @ c))"
proof (induction sc n acc b rule: take_frames.induct)
  case (1 sc n acc b)
  define size where "size = unat (u32_of_be (take 4 b))"
  show ?case
  proof (cases "4 \<le> length b \<and> 4 + size \<le> length b")
    case True
    then have here: "take_frames sc n acc b = (case read_frame sc n (take size (drop 4 b)) of
        Inl err \<Rightarrow> Inl err | Inr p \<Rightarrow> take_frames sc n (acc @ [p]) (drop (4 + size) b))"
      unfolding size_def by (subst take_frames.simps) (simp add: Let_def)
    have longer: "take_frames sc n acc (b @ c) = (case read_frame sc n (take size (drop 4 b)) of
        Inl err \<Rightarrow> Inl err | Inr p \<Rightarrow> take_frames sc n (acc @ [p]) (drop (4 + size) b @ c))"
      using True unfolding size_def by (subst take_frames.simps) (simp add: Let_def split: sum.split)
    show ?thesis
    proof (cases "read_frame sc n (take size (drop 4 b))")
      case (Inr p)
      then show ?thesis using 1 [OF _ size_def, of p] True here longer by simp
    qed (simp add: here longer)
  next
    case False
    then have "take_frames sc n acc b = Inr (acc, b)"
      by (subst take_frames.simps) (auto simp: size_def Let_def)
    then show ?thesis by simp
  qed
qed


text \<open>So the chunks do not matter: those that arrive are read as one, the others are passed over.\<close>

fun arrived :: "(string + bytes) list \<Rightarrow> bytes" where
  "arrived [] = []"
| "arrived (Inl _ # items) = arrived items"
| "arrived (Inr b # items) = b @ arrived items"

lemma arrived_map [simp]: "arrived (map Inr bs) = concat bs"
  by (induction bs) simp_all

lemma arrived_append [simp]: "arrived (xs @ ys) = arrived xs @ arrived ys"
  by (induction xs rule: arrived.induct) simp_all

lemma take_frames_stuck:
  "take_frames sc n acc b = Inr (acc1, rest) \<Longrightarrow> take_frames sc n acc2 rest = Inr (acc2, rest)"
proof (induction sc n acc b rule: take_frames.induct)
  case (1 sc n acc b)
  define size where "size = unat (u32_of_be (take 4 b))"
  show ?case
  proof (cases "4 \<le> length b \<and> 4 + size \<le> length b")
    case True
    then have "take_frames sc n acc b = (case read_frame sc n (take size (drop 4 b)) of
        Inl err \<Rightarrow> Inl err | Inr p \<Rightarrow> take_frames sc n (acc @ [p]) (drop (4 + size) b))"
      unfolding size_def by (subst take_frames.simps) (simp add: Let_def)
    then obtain p where "read_frame sc n (take size (drop 4 b)) = Inr p"
      "take_frames sc n (acc @ [p]) (drop (4 + size) b) = Inr (acc1, rest)"
      using "1.prems" by (auto split: sum.splits)
    then show ?thesis using "1.IH" [OF _ size_def, of p] True by simp
  next
    case False
    then have stuck: "take_frames sc n a b = Inr (a, b)" for a
      by (subst take_frames.simps) (auto simp: size_def Let_def)
    then show ?thesis using "1.prems" by simp
  qed
qed

lemma read_batch_arrived:
  assumes "take_frames sc n acc buffer = Inr (acc, buffer)"
  shows "read_batch sc n acc buffer items =
    res_bind (take_frames sc n acc (buffer @ arrived items)) (\<lambda>(ps, _). Inr ps)"
  using assms
proof (induction sc n acc buffer items rule: read_batch.induct)
  case (3 sc n acc buffer b items)
  show ?case
  proof (cases "take_frames sc n acc (buffer @ b)")
    case (Inl err)
    then show ?thesis using take_frames_append [of sc n acc "buffer @ b" "arrived items"] by simp
  next
    case (Inr r)
    then obtain acc1 rest where r: "take_frames sc n acc (buffer @ b) = Inr (acc1, rest)" by (cases r) simp
    from "3.IH" [OF take_frames_stuck [OF r]] r show ?thesis
      using take_frames_append [of sc n acc "buffer @ b" "arrived items"] by simp
  qed
qed (simp_all add: take_frames.simps)

lemma take_frames_Nil [simp]: "take_frames sc n acc [] = Inr (acc, [])"
  by (simp add: take_frames.simps)

lemma read_batch_all:
  "read_batch sc n [] [] items = res_bind (take_frames sc n [] (arrived items)) (\<lambda>(ps, _). Inr ps)"
  using read_batch_arrived [of sc n "[]" "[]" items] by simp

subsection \<open>Batches\<close>

text \<open>What one task of the client makes of its parameters.\<close>

definition packed :: "client_codecs \<Rightarrow> client_ctx \<Rightarrow> collab_params \<Rightarrow> app_error + bytes" where
  "packed k x p = res_bind (ck_params k p) (ck_brotli k (cc_compression_quality x) (cc_compression_buffer_size x))"

definition batch_ok :: "client_codecs \<Rightarrow> client_ctx \<Rightarrow> collab_params list \<Rightarrow> bool" where
  "batch_ok k x ps \<longleftrightarrow>
     (\<forall>p \<in> set ps. cp_object_id p \<noteq> [] \<and> cp_encoded_collab_v1 p \<noteq> [] \<and>
        (\<forall>z. packed k x p = Inr z \<longrightarrow> length z < 2 ^ 32))"

lemma read_packed:
  assumes "codecs_ok k sc" and "packed k x p = Inr z" and "cp_object_id p \<noteq> []" and "cp_encoded_collab_v1 p \<noteq> []"
  shows "read_frame sc n z = Inr p"
proof -
  from assms(2) obtain b where "ck_params k p = Inr b"
    "ck_brotli k (cc_compression_quality x) (cc_compression_buffer_size x) b = Inr z"
    unfolding packed_def by (rule res_bind_InrE)
  then have "sc_decompress sc n z = Inr b" "sc_params_of_bytes sc b = Inr p"
    using assms(1) unfolding codecs_ok_def by blast+
  moreover have "validate_collab_params p = Inr ()" using assms(3,4) by (simp add: validate_collab_params_ok)
  ultimately show ?thesis by (simp add: read_frame_def invalid_payload_def)
qed

lemma take_all_frames:
  assumes "codecs_ok k sc" and "batch_ok k x ps" and "map (packed k x) ps = map Inr zs"
  shows "take_frames sc n acc (concat (map frame_of zs) @ rest) = take_frames sc n (acc @ ps) rest"
  using assms(2,3)
proof (induction ps arbitrary: zs acc)
  case Nil
  then show ?case by simp
next
  case (Cons p ps)
  then obtain z zs' where zs: "zs = z # zs'" "packed k x p = Inr z" "map (packed k x) ps = map Inr zs'"
    by (cases zs) auto
  have p: "cp_object_id p \<noteq> []" "cp_encoded_collab_v1 p \<noteq> []" "length z < 2 ^ 32" and rest: "batch_ok k x ps"
    using Cons.prems(1) zs(2) by (auto simp: batch_ok_def)
  show ?case using Cons.IH [OF rest zs(3)] take_frame [OF p(3)] read_packed [OF assms(1) zs(2) p(1,2)] zs(1) by simp
qed

lemma batch_request_body:
  assumes "create_collab_list_request (ck_params k) (ck_brotli k) x w ps = Inr r"
  obtains zs where "map (packed k x) ps = map Inr zs" and "cq_payload r = PlBytes (concat (map frame_of zs))"
    and "cq_headers r = compress_headers x"
proof -
  from assms obtain body where body: "framed_data (map (packed k x) ps) = Inr body" "cq_payload r = PlBytes body"
    "cq_headers r = compress_headers x"
    by (auto simp: create_collab_list_request_def packed_def [abs_def] with_auth_compress_def with_auth_def elim!: res_bind_InrE)
  from framed_data_results [OF body(1)] obtain zs where
    "map (packed k x) ps = map Inr zs" "body = concat (map frame_of zs)" by blast
  with body that show ?thesis by simp
qed

lemma batch_handler_parsed:
  assumes "read_batch sc n [] [] payload = Inr ps" and "compress_type_from_header_value headers = Inr n"
  shows "batch_create_collab_handler sc ce api q f tx uuid w payload headers s =
    (case get_user_uid q uuid s of
       (s1, Inl err) \<Rightarrow> (s1, Inl err)
     | (s1, Inr uid) \<Rightarrow> with_storage s1 (store_batch ce api f tx w uid ps (cd_storage s1)))"
  using assms by (auto simp: batch_create_collab_handler_def split: prod.split sum.split)

subsection \<open>Properties\<close>

text \<open>C13: A batch that the client uploads is what the server stores: whatever the network makes of the body, the server
  finds the compression that the client used, takes exactly the frames of the batch off the chunks and stores their
  parameters in the order of the batch.\<close>

theorem batch_upload_is_read_back:
  assumes "codecs_ok k sc" and "batch_ok k x ps" and "cc_compression_buffer_size x < 2 ^ 64"
    and "create_collab_list_request (ck_params k) (ck_brotli k) x w ps = Inr r"
    and "cq_payload r = PlBytes (concat chunks)"
  shows "read_batch sc (cc_compression_buffer_size x) [] [] (map Inr chunks) = Inr ps \<and>
    batch_create_collab_handler sc ce api q f tx uuid w (map Inr chunks) (cq_headers r) s =
      (case get_user_uid q uuid s of
         (s1, Inl err) \<Rightarrow> (s1, Inl err)
       | (s1, Inr uid) \<Rightarrow> with_storage s1 (store_batch ce api f tx w uid ps (cd_storage s1)))"
proof -
  obtain zs where zs: "map (packed k x) ps = map Inr zs" "cq_payload r = PlBytes (concat (map frame_of zs))"
    "cq_headers r = compress_headers x"
    by (rule batch_request_body [OF assms(4)])
  have "read_batch sc (cc_compression_buffer_size x) [] [] (map Inr chunks) = Inr ps"
    using take_all_frames [OF assms(1,2) zs(1), of "cc_compression_buffer_size x" "[]" "[]"] zs(2) assms(5)
    by (simp add: read_batch_all)
  moreover have "compress_type_from_header_value (cq_headers r) = Inr (cc_compression_buffer_size x)"
    using compress_headers_read(1) [OF assms(3)] zs(3) by simp
  ultimately show ?thesis by (simp only: batch_handler_parsed simp_thms)
qed

definition sample_server :: server_codecs where
  "sample_server =
     \<lparr>sc_create_of_json = \<lambda>_. Inl [], sc_create_of_bytes = \<lambda>_. Inl [],
      sc_params_of_bytes = \<lambda>b. Inr \<lparr>cp_object_id = ''a'', cp_encoded_collab_v1 = b, cp_collab_type = Document,
                                    cp_override_if_exist = False\<rparr>,
      sc_batch_of_bytes = \<lambda>_. Inl [], sc_decompress = \<lambda>_ b. Inr b\<rparr>"

text \<open>A client that packs the parameters of one object.\<close>

definition sample_client :: client_codecs where
  "sample_client =
     \<lparr>ck_create = \<lambda>_. Inl [],
      ck_params = \<lambda>p. if cp_object_id p = ''a'' \<and> cp_collab_type p = Document \<and> \<not> cp_override_if_exist p
                      then Inr (cp_encoded_collab_v1 p) else Inl (BincodeError []),
      ck_brotli = \<lambda>_ _ b. Inr b, ck_proto = \<lambda>_ b. b\<rparr>"

lemma sample_codecs_ok: "codecs_ok sample_client sample_server"
  by (auto simp: codecs_ok_def sample_client_def sample_server_def split: if_splits)

definition sample_params :: collab_params where
  "sample_params = \<lparr>cp_object_id = ''a'', cp_encoded_collab_v1 = [7, 8], cp_collab_type = Document, cp_override_if_exist = False\<rparr>"

lemma sample_batch_ok: "batch_ok sample_client sample_ctx [sample_params]"
  by (simp add: batch_ok_def sample_params_def packed_def sample_client_def)

definition sample_batch_request :: client_request where
  "sample_batch_request =
     \<lparr>cq_verb = MPost, cq_url = ''http://h/api/workspace/w/batch/collab'', cq_headers = compress_headers sample_ctx,
      cq_timeout = Some 60, cq_payload = PlBytes [0, 0, 0, 2, 7, 8], cq_end = IntoError\<rparr>"

lemma sample_batch_request:
  "create_collab_list_request (ck_params sample_client) (ck_brotli sample_client) sample_ctx ''w'' [sample_params] =
     Inr sample_batch_request"
  by (simp add: create_collab_list_request_def sample_client_def sample_params_def sample_batch_request_def
      with_auth_compress_def with_auth_def batch_create_collab_url_def sample_ctx_def be_bytes_def)

theorem batch_upload_is_read_back_witness:
  "read_batch sample_server 10240 [] [] (map Inr [[0, 0], [0, 2, 7], [], [8]]) = Inr [sample_params]"
proof -
  have n: "cc_compression_buffer_size sample_ctx = 10240" by (simp add: sample_ctx_def)
  have small: "cc_compression_buffer_size sample_ctx < 2 ^ 64" by (simp add: n)
  have "cq_payload sample_batch_request = PlBytes (concat [[0, 0], [0, 2, 7], [], [8]])"
    by (simp add: sample_batch_request_def)
  from batch_upload_is_read_back [OF sample_codecs_ok sample_batch_ok small sample_batch_request this]
  show ?thesis unfolding n by (rule conjunct1)
qed

text \<open>An upload that breaks off is stored in part and answered like a complete one. When the connection fails inside
  the frames of \<open>others\<close>, the server passes over the error and drops the rest of its buffer: it does for the batch
  \<open>ps @ others\<close> exactly what it does for the batch \<open>ps\<close> alone, success included.\<close>

theorem broken_batch_is_stored_in_part:
  assumes "codecs_ok k sc" and "batch_ok k x ps" and "cc_compression_buffer_size x < 2 ^ 64"
    and "map (packed k x) (ps @ p # others) = map Inr (zs @ z # zs')" and "length zs = length ps"
    and "length z < 2 ^ 32" and "part < length (frame_of z)"
    and "arrived items = concat (map frame_of zs) @ take part (frame_of z)"
  shows "batch_create_collab_handler sc ce api q f tx uuid w items (compress_headers x) s =
      (case get_user_uid q uuid s of
         (s1, Inl err) \<Rightarrow> (s1, Inl err)
       | (s1, Inr uid) \<Rightarrow> with_storage s1 (store_batch ce api f tx w uid ps (cd_storage s1)))"
proof -
  let ?n = "cc_compression_buffer_size x" and ?rest = "take part (frame_of z)"
  have zs: "map (packed k x) ps = map Inr zs" using assms(4,5) by simp
  have "take_frames sc ?n ps ?rest = Inr (ps, ?rest)"
  proof (cases "4 \<le> part")
    case True
    have "unat (u32_of_be (take 4 (frame_of z))) = length z" using frame_size(1) [OF assms(6), of "[]"] by simp
    then show ?thesis using assms(7) True frame_size(2) [OF assms(6)]
      by (subst take_frames.simps) (simp add: Let_def min_absorb1)
  next
    case False
    then show ?thesis by (subst take_frames.simps) simp
  qed
  then have "read_batch sc ?n [] [] items = Inr ps"
    using take_all_frames [OF assms(1,2) zs, of ?n "[]" ?rest] assms(8) by (simp add: read_batch_all)
  from batch_handler_parsed [OF this compress_headers_read(1) [OF assms(3)]] show ?thesis .
qed

definition api_cloud :: "(rule list \<times> rule list) cloud" where
  "api_cloud =
     \<lparr>cd_accounts = \<lparr>ac_users = [], ac_workspaces = [], ac_members = [], ac_member_changes = [], ac_user_changes = []\<rparr>,
      cd_storage = sample_storage, cd_uids = [''u'' \<mapsto> 1]\<rparr>"

theorem broken_batch_is_stored_in_part_witness:
  "batch_create_collab_handler sample_server sample_api sample_casbin None (\<lambda>_. no_faults) tx_free ''u'' ''w''
     [Inr [0, 0, 0, 2, 7], Inr [8, 0, 0, 0, 2], Inl ''reset''] (compress_headers sample_ctx)
     api_cloud =
   with_storage api_cloud
     (store_batch sample_api sample_casbin (\<lambda>_. no_faults) tx_free ''w'' 1 [sample_params] sample_storage)"
proof -
  have small: "cc_compression_buffer_size sample_ctx < 2 ^ 64" by (simp add: sample_ctx_def)
  have packs: "map (packed sample_client sample_ctx) ([sample_params] @ sample_params # []) =
      map Inr ([[7, 8]] @ [7, 8] # [])"
    by (simp add: packed_def sample_client_def sample_params_def)
  have frame: "frame_of [7, 8] = [0, 0, 0, 2, 7, 8]" by (simp add: frame_of_def be_bytes_def)
  show ?thesis
    using broken_batch_is_stored_in_part [OF sample_codecs_ok sample_batch_ok small packs, of 4
        "[Inr [0, 0, 0, 2, 7], Inr [8, 0, 0, 0, 2], Inl ''reset'']" sample_api sample_casbin None "\<lambda>_. no_faults" tx_free
        "''u''" "''w''"]
    by (simp add: frame get_user_uid_def api_cloud_def)
qed

subsection \<open>Collabs\<close>

lemma get_user_uid_storage: "cd_storage (fst (get_user_uid q uuid s)) = cd_storage s"
  by (auto simp: get_user_uid_def split: option.split sum.split)

lemma create_request_payload:
  assumes "codecs_ok k sc" and "create_collab_request (ck_create k) (ck_brotli k) x p = Inr r"
    and "cc_compression_buffer_size x < 2 ^ 64" and "cq_payload r = PlBytes body"
  shows "create_collab_payload sc (cq_headers r) body = Inr p"
proof -
  from assms(2,4) obtain b where b: "ck_create k p = Inr b"
    "ck_brotli k (cc_compression_quality x) (cc_compression_buffer_size x) b = Inr body"
    and h: "cq_headers r = compress_headers x"
    by (auto simp: create_collab_request_def with_auth_compress_def with_auth_def elim!: res_bind_InrE)
  from b have "sc_decompress sc n body = Inr b" "sc_create_of_bytes sc b = Inr p" for n
    using assms(1) unfolding codecs_ok_def by blast+
  then show ?thesis
    using compress_headers_read [OF assms(3)]
    by (auto simp: create_collab_payload_def h invalid_payload_def split: option.split)
qed


definition api_params :: create_collab_params where
  "api_params = \<lparr>ccp_workspace_id = ''w'', ccp_object_id = ''a'', ccp_encoded_collab_v1 = [8], ccp_collab_type = Document,
     ccp_override_if_exist = False\<rparr>"

definition api_client :: client_codecs where
  "api_client = sample_client\<lparr>ck_create := \<lambda>p. if p = api_params then Inr [8] else Inl []\<rparr>"

definition api_server :: server_codecs where
  "api_server = sample_server\<lparr>sc_create_of_bytes := \<lambda>_. Inr api_params\<rparr>"

lemma api_codecs_ok: "codecs_ok api_client api_server"
  using sample_codecs_ok by (auto simp: codecs_ok_def api_client_def api_server_def sample_client_def sample_server_def
      split: if_splits)

definition api_request :: client_request where
  "api_request =
     (with_auth_compress sample_ctx MPost ''http://h/api/workspace/w/collab/a'' (PlBytes [8]) IntoError)\<lparr>cq_timeout := Some 60\<rparr>"

lemma api_request: "create_collab_request (ck_create api_client) (ck_brotli api_client) sample_ctx api_params = Inr api_request"
  by (simp add: create_collab_request_def api_client_def sample_client_def api_request_def api_params_def sample_ctx_def)

lemma api_created:
  "create_collab_handler api_server sample_api sample_casbin None no_faults ''u'' [8] (compress_headers sample_ctx) api_cloud =
     (api_cloud\<lparr>cd_storage := fst (upsert_collab sample_api sample_casbin no_faults 1 sample_upsert sample_storage)\<rparr>, Inr ())"
proof -
  have "create_collab_payload api_server (compress_headers sample_ctx) [8] = Inr sample_upsert"
    using create_request_payload [OF api_codecs_ok api_request, of "[8]"]
    by (simp add: api_request_def with_auth_compress_def with_auth_def api_params_def sample_upsert_def sample_ctx_def)
  then show ?thesis using sample_upsert_ok
    by (simp add: create_collab_handler_def api_cloud_def get_user_uid_def validate_create_collab_params_def
        sample_upsert_def validate_not_empty_str_def validate_not_empty_payload_def with_storage_def prod_eq_iff)
qed


text \<open>C40: The deletion of a collab is not checked. The gate looks at the ids of the path, the handler deletes the object
  of the payload, and the user is looked at by neither: an owner of any workspace gets past the gate with an id that
  nobody has a level on, and deletes every collab of every workspace.\<close>

theorem deletion_is_gated_on_another_id:
  assumes "casbin_ok api pol grp" and "enforcer_ok pol (cd_enforcer s)"
    and "grp (en_casbin (cd_enforcer s)) = grouping_policies" and "en_result_cache (cd_enforcer s) = Map.empty"
    and "permission_of pol (cd_enforcer s) uid (ObjWorkspace w) = Some (role_to_action Owner)" and "parse_uuid wid = Some w"
    and "permission_of pol (cd_enforcer s) uid (ObjCollab unused) = None"
    and "\<not> (\<exists>p \<in> set (pol (en_casbin (cd_enforcer s))). p ! 1 = to_object_id (ObjCollab unused))"
    and "db_collabs (st_db (cd_storage s)) oid \<noteq> None" and "oid \<noteq> []" and "any \<noteq> []"
  shows "is_ok (snd (access_control_call vd parse_uuid api \<lparr>acs_workspace = True, acs_collab = True\<rparr>
        (Some [''workspace_id'' \<mapsto> wid, ''object_id'' \<mapsto> unused]) (Inr uid) MDelete (cd_enforcer s))) \<and>
    snd (delete_collab_handler None now uuid \<lparr>dcp_object_id = oid, dcp_workspace_id = any\<rparr> s) = Inr () \<and>
    deleted oid (st_db (cd_storage (fst (delete_collab_handler None now uuid \<lparr>dcp_object_id = oid, dcp_workspace_id = any\<rparr> s))))"
proof
  show "is_ok (snd (access_control_call vd parse_uuid api \<lparr>acs_workspace = True, acs_collab = True\<rparr>
        (Some [''workspace_id'' \<mapsto> wid, ''object_id'' \<mapsto> unused]) (Inr uid) MDelete (cd_enforcer s)))"
    using request_gate [where ps = "[''workspace_id'' \<mapsto> wid, ''object_id'' \<mapsto> unused]" and role = "Some Owner" and
        level = None and w = w and wid = wid and oid = unused and parse_uuid = parse_uuid and api = api and pol = pol and
        grp = grp and e = "cd_enforcer s" and uid = uid, OF assms(1-4)] assms(5-8)
    by (simp add: mutating_def)
  have "validate_delete_collab_params \<lparr>dcp_object_id = oid, dcp_workspace_id = any\<rparr> = Inr ()"
    using assms(10,11) by (simp add: validate_delete_collab_params_def validate_not_empty_str_def)
  then show "snd (delete_collab_handler None now uuid \<lparr>dcp_object_id = oid, dcp_workspace_id = any\<rparr> s) = Inr () \<and>
    deleted oid (st_db (cd_storage (fst (delete_collab_handler None now uuid \<lparr>dcp_object_id = oid, dcp_workspace_id = any\<rparr> s))))"
    using assms(9)
    by (auto simp: delete_collab_handler_def ops_delete_collab_def db_delete_collab_def with_database_def with_db_def deleted_def)
qed

text \<open>User 2 owns the workspace \<open>v\<close>, the collab \<open>a\<close> belongs to user 1 in the workspace \<open>w\<close>.\<close>

definition attacked_enforcer :: "(rule list \<times> rule list) af_enforcer" where
  "attacked_enforcer =
     af_enforcer_new ([[''1'', ''collab::a'', ''50''], [''2'', ''workspace::v'', ''1'']], grouping_policies)"

definition attacked_cloud :: "(rule list \<times> rule list) cloud" where
  "attacked_cloud = api_cloud\<lparr>cd_storage := sample_storage\<lparr>st_enforcer := attacked_enforcer\<rparr>\<rparr>"

lemma attacked_ok: "enforcer_ok fst attacked_enforcer"
  unfolding attacked_enforcer_def
  by (rule enforcer_ok_new) (auto simp: rules_ok_def user_rules_def dest!: sym [of _ "show_int _"])

theorem deletion_is_gated_on_another_id_witness:
  "permission_of fst attacked_enforcer 2 (ObjCollab ''a'') = None \<and>
   deleted ''a'' (st_db (cd_storage (fst (delete_collab_handler None 9 ''u2''
     \<lparr>dcp_object_id = ''a'', dcp_workspace_id = ''w''\<rparr> attacked_cloud))))"
proof -
  have two: "show_int 2 = ''2''" by code_simp
  have e: "cd_enforcer attacked_cloud = attacked_enforcer"
    by (simp add: cd_enforcer_def attacked_cloud_def)
  have "permission_of fst attacked_enforcer 2 (ObjWorkspace ''v'') = Some (role_to_action Owner)"
    "permission_of fst attacked_enforcer 2 (ObjCollab ''x'') = None"
    "permission_of fst attacked_enforcer 2 (ObjCollab ''a'') = None"
    by (simp_all add: permission_of_def attacked_enforcer_def af_enforcer_new_def user_rules_def two)
  then show ?thesis
    using deletion_is_gated_on_another_id [OF sample_casbin_ok attacked_ok [folded e], of 2 "''v''" Some "''v''" "''x''"
        "''a''" "''w''" _ 9 "''u2''"]
    by (simp add: e) (simp add: attacked_enforcer_def af_enforcer_new_def attacked_cloud_def api_cloud_def
        sample_storage_def sample_db_def)
qed

lemma ac_remove_state: "fst (ac_remove api e uid obj) = fst (en_remove api e uid obj)"
  by (simp add: ac_remove_def split: prod.split sum.split)

lemma upserted_member_level:
  assumes "upsert_collab_member f p db = (db1, Inr ())"
  shows "\<exists>m. select_collab_member None (icm_uid p) (icm_object_id p) db1 = Inr m \<and>
    perm_access_level (acm_permission m) = icm_access_level p"
  using assms
  by (cases "icm_access_level p")
    (auto simp: upsert_collab_member_def db_upsert_collab_member_def select_collab_member_def af_permissions_def
      split: sum.splits bool.splits if_splits option.splits elim!: res_bind_InrE)

lemma update_member_handler_result:
  assumes "update_collab_member_handler api f p s = (s1, Inr ())"
  obtains db1 where "upsert_collab_member f p (st_db (cd_storage s)) = (db1, Inr ())"
    and "s1 = set_enforcer (update_member api (cd_enforcer s) (icm_uid p) (icm_object_id p) (icm_access_level p))
      (s\<lparr>cd_storage := (cd_storage s)\<lparr>st_db := db1\<rparr>\<rparr>)"
  using assms
  by (cases "upsert_collab_member f p (st_db (cd_storage s))")
    (auto simp: update_collab_member_handler_def with_database_def with_db_def cd_enforcer_def split: sum.splits)

lemma remove_member_handler_result:
  assumes "remove_collab_member_handler api f i s = (s1, Inr ())"
  obtains db1 where "delete_collab_member f i (st_db (cd_storage s)) = (db1, Inr ())"
    and "s1 = set_enforcer (remove_member api (cd_enforcer s) (cmi_uid i) (cmi_object_id i))
      (s\<lparr>cd_storage := (cd_storage s)\<lparr>st_db := db1\<rparr>\<rparr>)"
  using assms
  by (cases "delete_collab_member f i (st_db (cd_storage s))")
    (auto simp: remove_collab_member_handler_def with_database_def with_db_def cd_enforcer_def split: sum.splits)

text \<open>C27: The handlers of the members of a collab keep the permissions in line with the table: after a change and a
  removal that succeeded one has the level of the change and the other none, in the table and for the gate, and nobody
  else's level on anything has changed.\<close>

theorem member_handlers_follow_the_table:
  assumes "casbin_ok api pol grp" and "enforcer_ok pol (cd_enforcer s)"
    and "update_collab_member_handler api f p s = (s1, Inr ())"
    and "remove_collab_member_handler api f' i s1 = (s2, Inr ())"
    and "(cmi_uid i, cmi_object_id i) \<noteq> (icm_uid p, icm_object_id p)"
  shows "permission_of pol (cd_enforcer s2) = (\<lambda>u ob.
      if cmi_uid i = u \<and> ObjCollab (cmi_object_id i) = ob then None
      else if icm_uid p = u \<and> ObjCollab (icm_object_id p) = ob then Some (level_to_action (icm_access_level p))
      else permission_of pol (cd_enforcer s) u ob) \<and>
    db_members (st_db (cd_storage s2)) (cmi_uid i, cmi_object_id i) = None \<and>
    (\<exists>m. select_collab_member None (icm_uid p) (icm_object_id p) (st_db (cd_storage s2)) = Inr m \<and>
       perm_access_level (acm_permission m) = icm_access_level p)"
proof -
  obtain db1 where d1: "upsert_collab_member f p (st_db (cd_storage s)) = (db1, Inr ())"
    and s1: "s1 = set_enforcer (update_member api (cd_enforcer s) (icm_uid p) (icm_object_id p) (icm_access_level p))
      (s\<lparr>cd_storage := (cd_storage s)\<lparr>st_db := db1\<rparr>\<rparr>)"
    by (rule update_member_handler_result [OF assms(3)])
  obtain db2 where d2: "delete_collab_member f' i (st_db (cd_storage s1)) = (db2, Inr ())"
    and s2: "s2 = set_enforcer (remove_member api (cd_enforcer s1) (cmi_uid i) (cmi_object_id i))
      (s1\<lparr>cd_storage := (cd_storage s1)\<lparr>st_db := db2\<rparr>\<rparr>)"
    by (rule remove_member_handler_result [OF assms(4)])
  have e1: "cd_enforcer s1 = update_member api (cd_enforcer s) (icm_uid p) (icm_object_id p) (icm_access_level p)"
    and e2: "cd_enforcer s2 = remove_member api (cd_enforcer s1) (cmi_uid i) (cmi_object_id i)"
    by (simp_all add: s1 s2 set_enforcer_def cd_enforcer_def)
  have "permission_of pol (cd_enforcer s2) = (\<lambda>u ob.
      if cmi_uid i = u \<and> ObjCollab (cmi_object_id i) = ob then None
      else if icm_uid p = u \<and> ObjCollab (icm_object_id p) = ob then Some (level_to_action (icm_access_level p))
      else permission_of pol (cd_enforcer s) u ob)"
    by (auto simp: e1 e2 update_member_def remove_member_def ac_remove_state fun_eq_iff
        permission_update [OF assms(1,2)] permission_remove [OF assms(1)])
  moreover have "st_db (cd_storage s1) = db1" "st_db (cd_storage s2) = db2"
    by (simp_all add: s1 s2 set_enforcer_def)
  moreover from this have "db2 = db1\<lparr>db_members := (db_members db1)((cmi_uid i, cmi_object_id i) := None)\<rparr>"
    using d2 by (auto simp: delete_collab_member_def db_delete_collab_member_def split: sum.splits option.splits)
  moreover from this have "select_collab_member None (icm_uid p) (icm_object_id p) db2 =
      select_collab_member None (icm_uid p) (icm_object_id p) db1"
    using assms(5) by (auto simp: select_collab_member_def)
  ultimately show ?thesis using upserted_member_level [OF d1] by simp
qed

definition new_reader :: insert_collab_member_params where
  "new_reader = \<lparr>icm_uid = 3, icm_workspace_id = ''w'', icm_object_id = ''a'', icm_access_level = ReadOnly\<rparr>"

definition old_owner :: collab_member_identify where
  "old_owner = \<lparr>cmi_uid = 1, cmi_workspace_id = ''w'', cmi_object_id = ''a''\<rparr>"

theorem member_handlers_follow_the_table_witness:
  "\<exists>s1 s2. update_collab_member_handler sample_casbin no_faults new_reader api_cloud = (s1, Inr ()) \<and>
     remove_collab_member_handler sample_casbin no_faults old_owner s1 = (s2, Inr ()) \<and>
     permission_of fst (cd_enforcer s2) 3 (ObjCollab ''a'') = Some (level_to_action ReadOnly) \<and>
     permission_of fst (cd_enforcer s2) 1 (ObjCollab ''a'') = None"
proof -
  have ok: "enforcer_ok fst (cd_enforcer api_cloud)"
    using sample_enforcer_ok by (simp add: cd_enforcer_def api_cloud_def sample_storage_def)
  have "snd (update_collab_member_handler sample_casbin no_faults new_reader api_cloud) = Inr ()"
    by (simp add: update_collab_member_handler_def with_database_def upsert_collab_member_def db_upsert_collab_member_def
        validate_insert_collab_member_params_def validate_not_empty_str_def new_reader_def no_faults_def is_collab_exists_def
        transform_record_not_found_error_def api_cloud_def sample_storage_def sample_db_def af_permissions_def stmt_def level_of_i32_def)
  then obtain s1 where s1: "update_collab_member_handler sample_casbin no_faults new_reader api_cloud = (s1, Inr ())"
    by (metis prod.collapse)
  have "snd (remove_collab_member_handler sample_casbin no_faults old_owner s1) = Inr ()"
    by (simp add: remove_collab_member_handler_def with_database_def delete_collab_member_def db_delete_collab_member_def
        validate_collab_member_identify_def validate_not_empty_str_def old_owner_def no_faults_def)
  then obtain s2 where s2: "remove_collab_member_handler sample_casbin no_faults old_owner s1 = (s2, Inr ())"
    by (metis prod.collapse)
  have ne: "(cmi_uid old_owner, cmi_object_id old_owner) \<noteq> (icm_uid new_reader, icm_object_id new_reader)"
    by (simp add: old_owner_def new_reader_def)
  show ?thesis using member_handlers_follow_the_table [OF sample_casbin_ok ok s1 s2 ne] s1 s2
    by (simp add: old_owner_def new_reader_def)
qed

end
