(* ===== verification/GotrueApi.thy ===== *)
theory GotrueApi
  imports HttpApi
begin

section \<open>The client of the GoTrue server\<close>

text \<open>
  \<open>libs/gotrue-entity/src/dto.rs\<close>, \<open>libs/gotrue/src\<close> (\<open>grant.rs\<close>, \<open>params.rs\<close>, \<open>api.rs\<close>) and
  \<open>libs/infra/src/reqwest.rs\<close>: the data exchanged with the authentication server, the request of every method of the
  client and how its answer becomes a value or a \<open>GoTrueError\<close>. The server is an argument \<open>srv\<close>, the outcome it has for
  the request that is sent; the JSON decoders are those of \<open>gotrue_codec\<close>. A \<open>BTreeMap\<close> is the list of its entries in
  the order of the keys.
\<close>

subsection \<open>Providers and settings\<close>

datatype auth_provider =
    PEmail | PPhone
  | PApple | PAzure | PBitbucket | PDiscord | PFacebook | PFigma | PGithub | PGitlab | PGoogle | PKeycloak | PKakao
  | PLinkedin | PNotion | PSpotify | PSlack | PWorkos | PTwitch | PTwitter | PZoom

fun provider_as_str :: "auth_provider \<Rightarrow> string" where
  "provider_as_str PApple = ''apple''"
| "provider_as_str PAzure = ''azure''"
| "provider_as_str PBitbucket = ''bitbucket''"
| "provider_as_str PDiscord = ''discord''"
| "provider_as_str PFacebook = ''facebook''"
| "provider_as_str PFigma = ''figma''"
| "provider_as_str PGithub = ''github''"
| "provider_as_str PGitlab = ''gitlab''"
| "provider_as_str PGoogle = ''google''"
| "provider_as_str PKeycloak = ''keycloak''"
| "provider_as_str PKakao = ''kakao''"
| "provider_as_str PLinkedin = ''linkedin''"
| "provider_as_str PNotion = ''notion''"
| "provider_as_str PSpotify = ''spotify''"
| "provider_as_str PSlack = ''slack''"
| "provider_as_str PWorkos = ''workos''"
| "provider_as_str PTwitch = ''twitch''"
| "provider_as_str PTwitter = ''twitter''"
| "provider_as_str PEmail = ''email''"
| "provider_as_str PPhone = ''phone''"
| "provider_as_str PZoom = ''zoom''"

definition provider_from :: "string \<Rightarrow> auth_provider option" where
  "provider_from v =
     map_of
       [(''apple'', PApple), (''azure'', PAzure), (''bitbucket'', PBitbucket), (''discord'', PDiscord),
        (''facebook'', PFacebook), (''figma'', PFigma), (''github'', PGithub), (''gitlab'', PGitlab),
        (''google'', PGoogle), (''keycloak'', PKeycloak), (''kakao'', PKakao), (''linkedin'', PLinkedin),
        (''notion'', PNotion), (''spotify'', PSpotify), (''slack'', PSlack), (''workos'', PWorkos),
        (''twitch'', PTwitch), (''twitter'', PTwitter), (''email'', PEmail), (''phone'', PPhone), (''zoom'', PZoom)] v"

record gotrue_settings =
  gs_external :: "(string \<times> bool) list"
  gs_disable_signup :: bool
  gs_mailer_autoconfirm :: bool
  gs_phone_autoconfirm :: bool
  gs_sms_provider :: string
  gs_mfa_enabled :: bool
  gs_saml_enabled :: bool

definition has_provider :: "(string \<times> bool) list \<Rightarrow> auth_provider \<Rightarrow> bool" where
  "has_provider ext p = (case map_of ext (provider_as_str p) of Some v \<Rightarrow> v | None \<Rightarrow> False)"

definition oauth_providers :: "(string \<times> bool) list \<Rightarrow> string list" where
  "oauth_providers ext =
     map fst (filter (\<lambda>(key, value). value \<and> key \<noteq> ''email'' \<and> key \<noteq> ''phone'') ext)"

subsection \<open>Users and tokens\<close>

record gotrue_identity =
  gi_id :: string
  gi_user_id :: string
  gi_identity_data :: "json option"
  gi_provider :: string
  gi_last_sign_in_at :: string
  gi_created_at :: string
  gi_updated_at :: string

record gotrue_factor =
  gf_id :: string
  gf_created_at :: string
  gf_updated_at :: string
  gf_status :: string
  gf_friendly_name :: "string option"
  gf_factor_type :: string

record gotrue_user =
  gu_id :: string
  gu_aud :: string
  gu_role :: string
  gu_email :: string
  gu_email_confirmed_at :: "string option"
  gu_invited_at :: "string option"
  gu_phone :: string
  gu_phone_confirmed_at :: "string option"
  gu_confirmation_sent_at :: "string option"
  gu_confirmed_at :: "string option"
  gu_recovery_sent_at :: "string option"
  gu_new_email :: "string option"
  gu_email_change_sent_at :: "string option"
  gu_new_phone :: "string option"
  gu_phone_change_sent_at :: "string option"
  gu_reauthentication_sent_at :: "string option"
  gu_last_sign_in_at :: "string option"
  gu_app_metadata :: json
  gu_user_metadata :: json
  gu_factors :: "gotrue_factor list option"
  gu_identities :: "gotrue_identity list option"
  gu_created_at :: string
  gu_updated_at :: string
  gu_banned_until :: "string option"
  gu_deleted_at :: "string option"

record gotrue_token =
  gk_access_token :: string
  gk_token_type :: string
  gk_expires_in :: int
  gk_expires_at :: int
  gk_refresh_token :: string
  gk_user :: gotrue_user
  gk_provider_access_token :: "string option"
  gk_provider_refresh_token :: "string option"

datatype sign_up_response = Authenticated gotrue_token | NotAuthenticated gotrue_user

subsection \<open>Parameters\<close>

datatype grant = PasswordGrant string string | RefreshTokenGrant string | IdToken | PKCE

fun grant_type_as_str :: "grant \<Rightarrow> string" where
  "grant_type_as_str (PasswordGrant _ _) = ''password''"
| "grant_type_as_str (RefreshTokenGrant _) = ''refresh_token''"
| "grant_type_as_str IdToken = ''id_token''"
| "grant_type_as_str PKCE = ''password''"

fun grant_json_value :: "grant \<Rightarrow> json" where
  "grant_json_value (PasswordGrant email password) =
     JObject [(''email'', JString email), (''password'', JString password)]"
| "grant_json_value (RefreshTokenGrant refresh_token) = JObject [(''refresh_token'', JString refresh_token)]"
| "grant_json_value IdToken = JObject [(''msg'', JString ''id_token grant is not supported'')]"
| "grant_json_value PKCE = JObject [(''msg'', JString ''pcke grant is not supported'')]"

record update_gotrue_user_params =
  ugu_email :: string
  ugu_password :: "string option"
  ugu_nonce :: string
  ugu_data :: "(string \<times> json) list"
  ugu_app_metadata :: "(string \<times> json) list option"
  ugu_phone :: string
  ugu_channel :: string
  ugu_code_challenge :: string
  ugu_code_challenge_method :: string

definition update_gotrue_user_params_new :: update_gotrue_user_params where
  "update_gotrue_user_params_new =
     \<lparr>ugu_email = [], ugu_password = None, ugu_nonce = [], ugu_data = [], ugu_app_metadata = None, ugu_phone = [],
      ugu_channel = [], ugu_code_challenge = [], ugu_code_challenge_method = []\<rparr>"

definition with_opt_email :: "string option \<Rightarrow> update_gotrue_user_params \<Rightarrow> update_gotrue_user_params" where
  "with_opt_email email p = p\<lparr>ugu_email := case email of Some v \<Rightarrow> v | None \<Rightarrow> []\<rparr>"

definition with_opt_password :: "string option \<Rightarrow> update_gotrue_user_params \<Rightarrow> update_gotrue_user_params" where
  "with_opt_password password p = p\<lparr>ugu_password := password\<rparr>"

record admin_user_params =
  aup_aud :: string
  aup_role :: string
  aup_email :: string
  aup_phone :: string
  aup_password :: "string option"
  aup_email_confirm :: bool
  aup_phone_confirm :: bool
  aup_user_metadata :: "(string \<times> json) list"
  aup_app_metadata :: "(string \<times> json) list"
  aup_ban_duration :: string

definition default_admin_user_params :: admin_user_params where
  "default_admin_user_params =
     \<lparr>aup_aud = [], aup_role = [], aup_email = [], aup_phone = [], aup_password = None, aup_email_confirm = False,
      aup_phone_confirm = False, aup_user_metadata = [], aup_app_metadata = [], aup_ban_duration = []\<rparr>"

datatype generate_link_type =
    LinkMagicLink | LinkRecovery | LinkInvite | LinkSignup | LinkEmailChange | LinkPhoneChange | LinkReauthenticate
  | LinkSms | LinkEmail

record generate_link_params =
  glp_type :: generate_link_type
  glp_email :: string
  glp_new_email :: string
  glp_password :: string
  glp_data :: "(string \<times> json) list"
  glp_redirect_to :: string

definition default_generate_link_params :: generate_link_params where
  "default_generate_link_params =
     \<lparr>glp_type = LinkMagicLink, glp_email = [], glp_new_email = [], glp_password = [], glp_data = [],
      glp_redirect_to = ''appflowy-flutter://''\<rparr>"

text \<open>Of the answer to a link request, the fields that are not those of the user.\<close>

record generate_link_response =
  glr_user :: gotrue_user
  glr_action_link :: string
  glr_email_otp :: string
  glr_hashed_token :: string
  glr_verification_type :: string
  glr_redirect_to :: string

record magic_link_params =
  mlp_email :: string
  mlp_data :: "(string \<times> json) list"
  mlp_code_challenge_method :: string
  mlp_code_challenge :: string

definition default_magic_link_params :: magic_link_params where
  "default_magic_link_params =
     \<lparr>mlp_email = [], mlp_data = [], mlp_code_challenge_method = [], mlp_code_challenge = []\<rparr>"

record create_sso_provider_params =
  csp_type :: string
  csp_metadata_url :: string
  csp_metadata_xml :: string
  csp_domains :: "string list"
  csp_attribute_mapping :: json

record saml_attribute =
  sa_name :: "string option"
  sa_names :: "string list option"
  sa_default :: json

record saml_provider =
  sp_entity_id :: string
  sp_metadata_xml :: "string option"
  sp_metadata_url :: "string option"
  sp_attribute_mapping :: "(string \<times> saml_attribute) list option"

record sso_provider =
  sso_id :: string
  sso_saml :: saml_provider
  sso_domains :: "string list"
  sso_created_at :: string
  sso_updated_at :: string

subsection \<open>Requests and answers\<close>

datatype gotrue_payload =
    GpNone
  | GpJson json
  | GpUpdateUser update_gotrue_user_params
  | GpDeleteUser bool
  | GpAdminUser admin_user_params
  | GpLink generate_link_params
  | GpMagicLink magic_link_params
  | GpSso create_sso_provider_params

record gotrue_request =
  gq_verb :: http_method
  gq_url :: string
  gq_bearer :: "string option"
  gq_redirect_to :: "string option"
  gq_payload :: gotrue_payload

type_synonym gotrue_server = "gotrue_request \<Rightarrow> reqwest_error + http_response"

record gotrue_codec =
  gd_wasm :: bool
  gd_text :: http_text
  gd_token :: "bytes \<Rightarrow> string + gotrue_token"
  gd_user :: "bytes \<Rightarrow> string + gotrue_user"
  gd_users :: "bytes \<Rightarrow> string + gotrue_user list \<times> string"
  gd_settings :: "bytes \<Rightarrow> string + gotrue_settings"
  gd_sign_up :: "bytes \<Rightarrow> string + sign_up_response"
  gd_link :: "bytes \<Rightarrow> string + generate_link_response"
  gd_sso :: "bytes \<Rightarrow> string + sso_provider"
  gd_sso_list :: "bytes \<Rightarrow> string + sso_provider list option"
  gd_client_error :: "bytes \<Rightarrow> string + gotrue_client_error"
  gd_error_serde :: "bytes \<Rightarrow> string + gotrue_error_serde"

definition status_is_success :: "nat \<Rightarrow> bool" where
  "status_is_success n \<longleftrightarrow> 200 \<le> n \<and> n < 300"

definition status_is_client_error :: "nat \<Rightarrow> bool" where
  "status_is_client_error n \<longleftrightarrow> 400 \<le> n \<and> n < 500"

text \<open>\<open>infra::reqwest\<close>: the arguments of the message of \<open>from_body\<close> are in this order in the code.\<close>

definition from_body :: "http_text \<Rightarrow> (bytes \<Rightarrow> string + 'a) \<Rightarrow> http_response \<Rightarrow> string + 'a" where
  "from_body ht dec resp =
     res_map_err
       (\<lambda>e. ''deserialize error: '' @ ht_status ht (hr_status resp) @ '', status: '' @ e @ '', body: '' @
            ht_body ht (hr_body resp))
       (dec (hr_body resp))"

definition check_response :: "http_text \<Rightarrow> http_response \<Rightarrow> string + unit" where
  "check_response ht resp =
     (if \<not> status_is_success (hr_status resp)
      then Inl (''got error code: '' @ ht_status ht (hr_status resp) @ '', body: '' @ ht_body ht (hr_body resp))
      else Inr ())"

definition infra_from_response :: "http_text \<Rightarrow> (bytes \<Rightarrow> string + 'a) \<Rightarrow> http_response \<Rightarrow> string + 'a" where
  "infra_from_response ht dec resp =
     (if \<not> status_is_success (hr_status resp)
      then Inl (''got error code: '' @ ht_status ht (hr_status resp) @ '', body: '' @ ht_body ht (hr_body resp))
      else from_body ht dec resp)"

definition to_gotrue_result :: "gotrue_codec \<Rightarrow> (bytes \<Rightarrow> string + 'a) \<Rightarrow> http_response \<Rightarrow> gotrue_error + 'a" where
  "to_gotrue_result gd dec resp =
     (if status_is_success (hr_status resp) then res_map_err GtUnhandled (from_body (gd_text gd) dec resp)
      else case from_body (gd_text gd) (gd_error_serde gd) resp of
             Inl e \<Rightarrow> Inl (GtUnhandled e)
           | Inr err \<Rightarrow> Inl (GtInternal err))"

definition check_gotrue_result :: "gotrue_codec \<Rightarrow> http_response \<Rightarrow> gotrue_error + unit" where
  "check_gotrue_result gd resp =
     (if status_is_success (hr_status resp) then Inr ()
      else case from_body (gd_text gd) (gd_error_serde gd) resp of
             Inl e \<Rightarrow> Inl (GtUnhandled e)
           | Inr err \<Rightarrow> Inl (GtInternal err))"

text \<open>A request that is sent: a failure of the transport is an error by \<open>From<reqwest::Error>\<close>.\<close>

definition gotrue_send ::
    "gotrue_codec \<Rightarrow> gotrue_server \<Rightarrow> gotrue_request \<Rightarrow> (http_response \<Rightarrow> gotrue_error + 'a) \<Rightarrow> gotrue_error + 'a" where
  "gotrue_send gd srv q k =
     (case srv q of Inl e \<Rightarrow> Inl (gotrue_error_of_reqwest (gd_wasm gd) e) | Inr resp \<Rightarrow> k resp)"

definition plain_request :: "http_method \<Rightarrow> string \<Rightarrow> gotrue_payload \<Rightarrow> gotrue_request" where
  "plain_request verb url p =
     \<lparr>gq_verb = verb, gq_url = url, gq_bearer = None, gq_redirect_to = None, gq_payload = p\<rparr>"

definition bearer_request :: "http_method \<Rightarrow> string \<Rightarrow> string \<Rightarrow> gotrue_payload \<Rightarrow> gotrue_request" where
  "bearer_request verb url access_token p = (plain_request verb url p)\<lparr>gq_bearer := Some access_token\<rparr>"

subsection \<open>The methods of the client\<close>

definition oauth_url :: "string \<Rightarrow> auth_provider \<Rightarrow> string" where
  "oauth_url base provider = base @ ''/authorize?provider='' @ provider_as_str provider"

definition gotrue_health :: "gotrue_codec \<Rightarrow> gotrue_server \<Rightarrow> string \<Rightarrow> gotrue_error + unit" where
  "gotrue_health gd srv base =
     (let url = base @ ''/health''
      in case srv (plain_request MGet url GpNone) of
           Inl _ \<Rightarrow> Inl (GtUnhandled (''calling '' @ url @ '' failed''))
         | Inr resp \<Rightarrow> res_map_err GtUnhandled (check_response (gd_text gd) resp))"

definition gotrue_settings_of :: "gotrue_codec \<Rightarrow> gotrue_server \<Rightarrow> string \<Rightarrow> gotrue_error + gotrue_settings" where
  "gotrue_settings_of gd srv base =
     (let url = base @ ''/settings''
      in gotrue_send gd srv (plain_request MGet url GpNone)
           (\<lambda>resp. res_map_err (\<lambda>_. GtUnhandled (''calling '' @ url @ '' failed''))
                     (infra_from_response (gd_text gd) (gd_settings gd) resp)))"

definition gotrue_sign_up ::
    "gotrue_codec \<Rightarrow> gotrue_server \<Rightarrow> string \<Rightarrow> string \<Rightarrow> string \<Rightarrow> string option \<Rightarrow> gotrue_error + sign_up_response" where
  "gotrue_sign_up gd srv base email password redirect_to =
     gotrue_send gd srv
       ((plain_request MPost (base @ ''/signup'')
           (GpJson (JObject [(''email'', JString email), (''password'', JString password)])))\<lparr>gq_redirect_to := redirect_to\<rparr>)
       (to_gotrue_result gd (gd_sign_up gd))"

definition gotrue_token_of :: "gotrue_codec \<Rightarrow> gotrue_server \<Rightarrow> string \<Rightarrow> grant \<Rightarrow> gotrue_error + gotrue_token" where
  "gotrue_token_of gd srv base grant =
     gotrue_send gd srv
       (plain_request MPost (base @ ''/token?grant_type='' @ grant_type_as_str grant) (GpJson (grant_json_value grant)))
       (\<lambda>resp.
          if status_is_success (hr_status resp) then res_map_err GtUnhandled (from_body (gd_text gd) (gd_token gd) resp)
          else if status_is_client_error (hr_status resp)
          then case from_body (gd_text gd) (gd_client_error gd) resp of
                 Inl e \<Rightarrow> Inl (GtUnhandled e)
               | Inr err \<Rightarrow> Inl (GtClientError err)
          else Inl (GtUnhandled (''unexpected response status: '' @ ht_status (gd_text gd) (hr_status resp))))"

definition gotrue_logout :: "gotrue_codec \<Rightarrow> gotrue_server \<Rightarrow> string \<Rightarrow> string \<Rightarrow> gotrue_error + unit" where
  "gotrue_logout gd srv base access_token =
     gotrue_send gd srv (bearer_request MPost (base @ ''/logout'') access_token GpNone)
       (\<lambda>resp. res_map_err GtUnhandled (check_response (gd_text gd) resp))"

definition gotrue_user_info :: "gotrue_codec \<Rightarrow> gotrue_server \<Rightarrow> string \<Rightarrow> string \<Rightarrow> gotrue_error + gotrue_user" where
  "gotrue_user_info gd srv base access_token =
     gotrue_send gd srv (bearer_request MGet (base @ ''/user'') access_token GpNone)
       (to_gotrue_result gd (gd_user gd))"

definition gotrue_update_user ::
    "gotrue_codec \<Rightarrow> gotrue_server \<Rightarrow> string \<Rightarrow> string \<Rightarrow> update_gotrue_user_params \<Rightarrow> gotrue_error + gotrue_user" where
  "gotrue_update_user gd srv base access_token params =
     gotrue_send gd srv (bearer_request MPut (base @ ''/user'') access_token (GpUpdateUser params))
       (to_gotrue_result gd (gd_user gd))"

definition admin_list_user ::
    "gotrue_codec \<Rightarrow> gotrue_server \<Rightarrow> string \<Rightarrow> string \<Rightarrow> gotrue_error + gotrue_user list \<times> string" where
  "admin_list_user gd srv base access_token =
     gotrue_send gd srv (bearer_request MGet (base @ ''/admin/users'') access_token GpNone)
       (to_gotrue_result gd (gd_users gd))"

definition admin_user_details ::
    "gotrue_codec \<Rightarrow> gotrue_server \<Rightarrow> string \<Rightarrow> string \<Rightarrow> string \<Rightarrow> gotrue_error + gotrue_user" where
  "admin_user_details gd srv base access_token user_id =
     gotrue_send gd srv (bearer_request MGet (base @ ''/admin/users/'' @ user_id) access_token GpNone)
       (to_gotrue_result gd (gd_user gd))"

definition admin_delete_user ::
    "gotrue_codec \<Rightarrow> gotrue_server \<Rightarrow> string \<Rightarrow> string \<Rightarrow> string \<Rightarrow> bool \<Rightarrow> gotrue_error + unit" where
  "admin_delete_user gd srv base access_token user_uuid should_soft_delete =
     gotrue_send gd srv
       (bearer_request MDelete (base @ ''/admin/users/'' @ user_uuid) access_token (GpDeleteUser should_soft_delete))
       (check_gotrue_result gd)"

definition admin_update_user ::
    "gotrue_codec \<Rightarrow> gotrue_server \<Rightarrow> string \<Rightarrow> string \<Rightarrow> string \<Rightarrow> admin_user_params \<Rightarrow> gotrue_error + gotrue_user" where
  "admin_update_user gd srv base access_token user_uuid params =
     gotrue_send gd srv
       (bearer_request MPut (base @ ''/admin/users/'' @ user_uuid) access_token (GpAdminUser params))
       (to_gotrue_result gd (gd_user gd))"

definition admin_add_user ::
    "gotrue_codec \<Rightarrow> gotrue_server \<Rightarrow> string \<Rightarrow> string \<Rightarrow> admin_user_params \<Rightarrow> gotrue_error + gotrue_user" where
  "admin_add_user gd srv base access_token params =
     gotrue_send gd srv (bearer_request MPost (base @ ''/admin/users'') access_token (GpAdminUser params))
       (to_gotrue_result gd (gd_user gd))"

definition admin_generate_link ::
    "gotrue_codec \<Rightarrow> gotrue_server \<Rightarrow> string \<Rightarrow> string \<Rightarrow> generate_link_params \<Rightarrow>
     gotrue_error + generate_link_response" where
  "admin_generate_link gd srv base access_token params =
     gotrue_send gd srv (bearer_request MPost (base @ ''/admin/generate_link'') access_token (GpLink params))
       (to_gotrue_result gd (gd_link gd))"

definition magic_link ::
    "gotrue_codec \<Rightarrow> gotrue_server \<Rightarrow> string \<Rightarrow> magic_link_params \<Rightarrow> string option \<Rightarrow> gotrue_error + unit" where
  "magic_link gd srv base params redirect_to =
     gotrue_send gd srv
       ((plain_request MPost (base @ ''/magiclink'') (GpMagicLink params))\<lparr>gq_redirect_to := redirect_to\<rparr>)
       (check_gotrue_result gd)"

definition admin_list_sso_providers ::
    "gotrue_codec \<Rightarrow> gotrue_server \<Rightarrow> string \<Rightarrow> string \<Rightarrow> gotrue_error + sso_provider list option" where
  "admin_list_sso_providers gd srv base access_token =
     gotrue_send gd srv (bearer_request MGet (base @ ''/admin/sso/providers'') access_token GpNone)
       (to_gotrue_result gd (gd_sso_list gd))"

definition admin_create_sso_providers ::
    "gotrue_codec \<Rightarrow> gotrue_server \<Rightarrow> string \<Rightarrow> string \<Rightarrow> create_sso_provider_params \<Rightarrow> gotrue_error + sso_provider" where
  "admin_create_sso_providers gd srv base access_token params =
     gotrue_send gd srv (bearer_request MPost (base @ ''/admin/sso/providers'') access_token (GpSso params))
       (to_gotrue_result gd (gd_sso gd))"

definition admin_get_sso_provider ::
    "gotrue_codec \<Rightarrow> gotrue_server \<Rightarrow> string \<Rightarrow> string \<Rightarrow> string \<Rightarrow> gotrue_error + sso_provider" where
  "admin_get_sso_provider gd srv base access_token idp_id =
     gotrue_send gd srv (bearer_request MGet (base @ ''/admin/sso/providers/'' @ idp_id) access_token GpNone)
       (to_gotrue_result gd (gd_sso gd))"

definition admin_update_sso_provider ::
    "gotrue_codec \<Rightarrow> gotrue_server \<Rightarrow> string \<Rightarrow> string \<Rightarrow> string \<Rightarrow> create_sso_provider_params \<Rightarrow>
     gotrue_error + sso_provider" where
  "admin_update_sso_provider gd srv base access_token idp_id params =
     gotrue_send gd srv (bearer_request MPut (base @ ''/admin/sso/providers/'' @ idp_id) access_token (GpSso params))
       (to_gotrue_result gd (gd_sso gd))"

definition admin_delete_sso_provider ::
    "gotrue_codec \<Rightarrow> gotrue_server \<Rightarrow> string \<Rightarrow> string \<Rightarrow> string \<Rightarrow> gotrue_error + sso_provider" where
  "admin_delete_sso_provider gd srv base access_token idp_id =
     gotrue_send gd srv (bearer_request MDelete (base @ ''/admin/sso/providers/'' @ idp_id) access_token GpNone)
       (to_gotrue_result gd (gd_sso gd))"

subsection \<open>What the errors can be\<close>

text \<open>The names of the providers are a bijection onto the names that are recognised.\<close>

lemma provider_from_as_str [simp]: "provider_from (provider_as_str p) = Some p"
  by (cases p) (simp_all add: provider_from_def)

lemma provider_as_str_inj: "provider_as_str p = provider_as_str q \<Longrightarrow> p = q"
  by (metis option.inject provider_from_as_str)

lemma provider_from_Some: "provider_from v = Some p \<longleftrightarrow> v = provider_as_str p"
proof
  assume "provider_from v = Some p"
  then show "v = provider_as_str p"
    unfolding provider_from_def by (auto split: if_splits)
qed simp

lemma has_provider_listed:
  "distinct (map fst ext) \<Longrightarrow> p \<noteq> PEmail \<Longrightarrow> p \<noteq> PPhone \<Longrightarrow>
   has_provider ext p \<longleftrightarrow> provider_as_str p \<in> set (oauth_providers ext)"
proof -
  assume d: "distinct (map fst ext)" and "p \<noteq> PEmail" "p \<noteq> PPhone"
  then have "provider_as_str p \<noteq> ''email''" and "provider_as_str p \<noteq> ''phone''" by (cases p; simp)+
  then have "provider_as_str p \<in> set (oauth_providers ext) \<longleftrightarrow> (provider_as_str p, True) \<in> set ext"
    by (force simp: oauth_providers_def)
  moreover have "has_provider ext p \<longleftrightarrow> (provider_as_str p, True) \<in> set ext"
    by (simp add: has_provider_def map_of_eq_Some_iff [OF d, symmetric] split: option.split)
  ultimately show "has_provider ext p \<longleftrightarrow> provider_as_str p \<in> set (oauth_providers ext)" by simp
qed

text \<open>An answer of the token endpoint is never an error that counts as unauthorized, whatever its status.\<close>

lemma token_answer_not_unauthorized:
  assumes "srv (plain_request MPost (base @ ''/token?grant_type='' @ grant_type_as_str g) (GpJson (grant_json_value g))) =
      Inr resp"
    and "gotrue_token_of gd srv base g = Inl err"
  shows "\<not> is_unauthorized (app_error_of_gotrue err) \<and> \<not> gotrue_is_network_error err"
  using assms
  by (auto simp: gotrue_token_of_def gotrue_send_def res_map_err_def split: if_splits sum.splits)

end
