(* ===== verification/ClientToken.thy ===== *)
theory ClientToken
  imports GotrueApi HttpRequests HttpRoutes SyncMessage
begin

section \<open>The access token of the client\<close>

text \<open>
  \<open>libs/client-api/src/notify.rs\<close>, the refresh of the token in \<open>native/retry.rs\<close> and \<open>native/http_native.rs\<close>, and the
  methods of \<open>http.rs\<close> that sign in, sign out or look at the token. \<open>ct_sent\<close> is what the broadcast channel of the token
  was given, oldest first: each receiver gets the part after it subscribed.
\<close>

subsection \<open>The token and its notifications\<close>

datatype token_state = TokenRefresh | TokenInvalid

record client_token =
  ct_token :: "gotrue_token option"
  ct_sent :: "token_state list"

definition ct_new :: client_token where
  "ct_new = \<lparr>ct_token = None, ct_sent = []\<rparr>"

definition ct_is_empty :: "client_token \<Rightarrow> bool" where
  "ct_is_empty ct \<longleftrightarrow> ct_token ct = None"

definition ct_try_get :: "(gotrue_token \<Rightarrow> string) \<Rightarrow> client_token \<Rightarrow> string + string" where
  "ct_try_get enc ct = (case ct_token ct of None \<Rightarrow> Inl ''No access token'' | Some t \<Rightarrow> Inr (enc t))"

definition ct_set :: "gotrue_token \<Rightarrow> client_token \<Rightarrow> client_token" where
  "ct_set t ct =
     (case ct_token ct of
        None \<Rightarrow> ct\<lparr>ct_token := Some t, ct_sent := ct_sent ct @ [TokenRefresh]\<rparr>
      | Some old \<Rightarrow>
          if gk_expires_at old > gk_expires_at t then ct
          else ct\<lparr>ct_token := Some t, ct_sent := ct_sent ct @ [TokenRefresh]\<rparr>)"

definition ct_unset :: "client_token \<Rightarrow> client_token" where
  "ct_unset ct =
     (if ct_token ct \<noteq> None then ct\<lparr>ct_token := None, ct_sent := ct_sent ct @ [TokenInvalid]\<rparr> else ct)"

text \<open>\<open>token.write().as_mut()\<close> of \<open>update_user\<close>: the user is replaced in place, without a notification.\<close>

definition ct_put_user :: "gotrue_user \<Rightarrow> client_token \<Rightarrow> client_token" where
  "ct_put_user u ct = ct\<lparr>ct_token := map_option (gk_user_update (\<lambda>_. u)) (ct_token ct)\<rparr>"

subsection \<open>Reading the token\<close>

text \<open>
  The environment of the client: the GoTrue server's address and codecs, the rendering of validation errors, the cloud's
  codec of the answer to the verification, and whether a read lock on the token is obtained in time.
\<close>

record sign_in_token_response =
  sit_is_new :: bool

record token_env =
  te_vd :: "string list \<Rightarrow> string"
  te_gd :: gotrue_codec
  te_gotrue_url :: string
  te_sign_in :: "sign_in_token_response json_api"
  te_readable :: bool
  te_token_enc :: "gotrue_token \<Rightarrow> string"
  te_token_dec :: "string \<Rightarrow> string + gotrue_token"
  te_url_fragment :: "string \<Rightarrow> string + string option"
  te_append_pairs :: "string \<Rightarrow> (string \<times> string) list \<Rightarrow> string + string"

definition fail_app :: "token_env \<Rightarrow> app_error \<Rightarrow> app_response_error + 'a" where
  "fail_app e err = Inl (response_error_of (te_vd e) err)"

definition of_gotrue :: "token_env \<Rightarrow> gotrue_error + 'a \<Rightarrow> app_response_error + 'a" where
  "of_gotrue e = res_map_err (\<lambda>err. response_error_of (te_vd e) (app_error_of_gotrue err))"

definition token_expires_at :: "token_env \<Rightarrow> client_token \<Rightarrow> app_response_error + int" where
  "token_expires_at e ct =
     (if \<not> te_readable e then fail_app e (Unhandled ''Failed to read token'')
      else case ct_token ct of
             None \<Rightarrow> fail_app e (NotLoggedIn ''token is empty'')
           | Some t \<Rightarrow> Inr (gk_expires_at t))"

definition access_token_of :: "token_env \<Rightarrow> client_token \<Rightarrow> app_response_error + string" where
  "access_token_of e ct =
     (if \<not> te_readable e then fail_app e (Unhandled ''Failed to read token'')
      else case ct_token ct of
             None \<Rightarrow> fail_app e (NotLoggedIn ''fail to get access token. Token is empty'')
           | Some t \<Rightarrow> Inr (gk_access_token t))"

definition get_token :: "token_env \<Rightarrow> client_token \<Rightarrow> app_response_error + string" where
  "get_token e ct =
     res_map_err (\<lambda>err. response_error_of (te_vd e) (OAuthError err)) (ct_try_get (te_token_enc e) ct)"

definition restore_token :: "token_env \<Rightarrow> string \<Rightarrow> client_token \<Rightarrow> client_token \<times> (app_response_error + unit)" where
  "restore_token e token ct =
     (case te_token_dec e token of
        Inr t \<Rightarrow> (ct_set t ct, Inr ())
      | Inl err \<Rightarrow> (ct, fail_app e (SerdeError err)))"

subsection \<open>Refreshing\<close>

definition refresh_action ::
    "gotrue_codec \<Rightarrow> gotrue_server \<Rightarrow> string \<Rightarrow> client_token \<Rightarrow> client_token \<times> (gotrue_error + unit)" where
  "refresh_action gd srv base ct =
     (case ct_token ct of
        None \<Rightarrow> (ct, Inl (GtNotLoggedIn ''fail to refresh user token''))
      | Some t \<Rightarrow>
          case gotrue_token_of gd srv base (RefreshTokenGrant (gk_refresh_token t)) of
            Inl err \<Rightarrow> (ct, Inl err)
          | Inr t' \<Rightarrow> (ct_set t' ct, Inr ()))"

text \<open>
  \<open>RetryIf\<close> with a strategy of \<open>n\<close> further delays: \<open>srv i\<close> is what the server answers to attempt \<open>i\<close>. Only errors of
  the network are tried again (\<open>RefreshTokenRetryCondition\<close>).
\<close>

fun retry_refresh ::
    "gotrue_codec \<Rightarrow> (nat \<Rightarrow> gotrue_server) \<Rightarrow> string \<Rightarrow> nat \<Rightarrow> nat \<Rightarrow> client_token \<Rightarrow>
     client_token \<times> (gotrue_error + unit)" where
  "retry_refresh gd srv base i 0 ct = refresh_action gd (srv i) base ct"
| "retry_refresh gd srv base i (Suc n) ct =
     (case refresh_action gd (srv i) base ct of
        (ct', Inr u) \<Rightarrow> (ct', Inr u)
      | (ct', Inl err) \<Rightarrow>
          if gotrue_is_network_error err then retry_refresh gd srv base (Suc i) n ct' else (ct', Inl err))"

fun refresh_ended ::
    "token_env \<Rightarrow> client_token \<times> (gotrue_error + unit) \<Rightarrow> client_token \<times> (app_response_error + unit)" where
  "refresh_ended e (ct, Inr _) = (ct, Inr ())"
| "refresh_ended e (ct, Inl err) =
     (let err' = app_error_of_gotrue err
      in (if is_unauthorized err' then ct_unset ct else ct, fail_app e err'))"

definition inner_refresh_token ::
    "token_env \<Rightarrow> (nat \<Rightarrow> gotrue_server) \<Rightarrow> client_token \<Rightarrow> client_token \<times> (app_response_error + unit)" where
  "inner_refresh_token e srv ct = refresh_ended e (retry_refresh (te_gd e) srv (te_gotrue_url e) 0 4 ct)"

text \<open>
  A caller of \<open>refresh_token\<close> and of \<open>http_client_with_auth\<close> that has no other caller beside it; the interleaving of
  several callers is in theory \<open>TokenRefresh\<close>.
\<close>

definition refresh_if_expired ::
    "token_env \<Rightarrow> (nat \<Rightarrow> gotrue_server) \<Rightarrow> int \<Rightarrow> client_token \<Rightarrow> client_token \<times> (app_response_error + unit)" where
  "refresh_if_expired e srv ts ct =
     (case token_expires_at e ct of
        Inl err \<Rightarrow> (ct, Inl err)
      | Inr expires_at \<Rightarrow>
          if ts + 30 > expires_at then inner_refresh_token e srv ct else (ct, Inr ()))"

text \<open>The context of the request that \<open>http_client_with_auth\<close> prepares; \<open>x\<close> has the configuration of the client.\<close>

definition http_client_with_auth ::
    "token_env \<Rightarrow> (nat \<Rightarrow> gotrue_server) \<Rightarrow> int \<Rightarrow> client_ctx \<Rightarrow> client_token \<Rightarrow>
     client_token \<times> (app_response_error + client_ctx)" where
  "http_client_with_auth e srv ts_now x ct =
     (case refresh_if_expired e srv ts_now ct of
        (ct', Inl err) \<Rightarrow> (ct', Inl err)
      | (ct', Inr _) \<Rightarrow>
          case access_token_of e ct' of
            Inl err \<Rightarrow> (ct', Inl err)
          | Inr token \<Rightarrow> (ct', Inr (x\<lparr>cc_now := ts_now, cc_access_token := token\<rparr>)))"

subsection \<open>Signing in and out\<close>

text \<open>A request to the cloud: \<open>srv\<close> is what the cloud has for it.\<close>

type_synonym cloud_server = "client_request \<Rightarrow> reqwest_error + http_response"

definition verify_token_cloud ::
    "token_env \<Rightarrow> cloud_server \<Rightarrow> client_ctx \<Rightarrow> string \<Rightarrow> app_response_error + bool" where
  "verify_token_cloud e cloud x access_token =
     (case cloud (verify_token_cloud_request x access_token) of
        Inl err \<Rightarrow> fail_app e (app_error_of_reqwest (gd_wasm (te_gd e)) err)
      | Inr resp \<Rightarrow> res_bind (answer_data (te_vd e) (gd_text (te_gd e)) (te_sign_in e) resp) (\<lambda>r. Inr (sit_is_new r)))"

definition verify_token_of ::
    "token_env \<Rightarrow> gotrue_server \<Rightarrow> cloud_server \<Rightarrow> client_ctx \<Rightarrow> string \<Rightarrow> app_response_error + gotrue_user \<times> bool" where
  "verify_token_of e srv cloud x access_token =
     res_bind (of_gotrue e (gotrue_user_info (te_gd e) srv (te_gotrue_url e) access_token))
       (\<lambda>user. res_bind (verify_token_cloud e cloud x access_token) (\<lambda>is_new. Inr (user, is_new)))"

definition sign_in_password ::
    "token_env \<Rightarrow> gotrue_server \<Rightarrow> cloud_server \<Rightarrow> client_ctx \<Rightarrow> string \<Rightarrow> string \<Rightarrow> client_token \<Rightarrow>
     client_token \<times> (app_response_error + bool)" where
  "sign_in_password e srv cloud x email password ct =
     (case of_gotrue e (gotrue_token_of (te_gd e) srv (te_gotrue_url e) (PasswordGrant email password)) of
        Inl err \<Rightarrow> (ct, Inl err)
      | Inr t \<Rightarrow>
          case verify_token_cloud e cloud x (gk_access_token t) of
            Inl err \<Rightarrow> (ct, Inl err)
          | Inr is_new \<Rightarrow> (ct_set t ct, Inr is_new))"

definition sign_up ::
    "token_env \<Rightarrow> gotrue_server \<Rightarrow> string \<Rightarrow> string \<Rightarrow> client_token \<Rightarrow> client_token \<times> (app_response_error + unit)" where
  "sign_up e srv email password ct =
     (case of_gotrue e (gotrue_sign_up (te_gd e) srv (te_gotrue_url e) email password None) of
        Inl err \<Rightarrow> (ct, Inl err)
      | Inr (Authenticated t) \<Rightarrow> (ct_set t ct, Inr ())
      | Inr (NotAuthenticated _) \<Rightarrow> (ct, Inr ()))"

definition sign_out :: "token_env \<Rightarrow> gotrue_server \<Rightarrow> client_token \<Rightarrow> client_token \<times> (app_response_error + unit)" where
  "sign_out e srv ct =
     (case access_token_of e ct of
        Inl err \<Rightarrow> (ct, Inl err)
      | Inr token \<Rightarrow>
          case of_gotrue e (gotrue_logout (te_gd e) srv (te_gotrue_url e) token) of
            Inl err \<Rightarrow> (ct, Inl err)
          | Inr _ \<Rightarrow> (ct_unset ct, Inr ()))"

text \<open>The user is updated at GoTrue and in the token before the request to the cloud is prepared.\<close>

definition update_user_of ::
    "token_env \<Rightarrow> gotrue_server \<Rightarrow> (nat \<Rightarrow> gotrue_server) \<Rightarrow> cloud_server \<Rightarrow> unit json_api \<Rightarrow> int \<Rightarrow> client_ctx \<Rightarrow>
     update_user_params \<Rightarrow> client_token \<Rightarrow> client_token \<times> (app_response_error + unit)" where
  "update_user_of e srv refresh cloud js ts_now x params ct =
     (let gotrue_params =
        with_opt_password (uu_password params) (with_opt_email (uu_email params) update_gotrue_user_params_new)
      in case access_token_of e ct of
           Inl err \<Rightarrow> (ct, Inl err)
         | Inr token \<Rightarrow>
             case of_gotrue e (gotrue_update_user (te_gd e) srv (te_gotrue_url e) token gotrue_params) of
               Inl err \<Rightarrow> (ct, Inl err)
             | Inr updated_user \<Rightarrow>
                 case http_client_with_auth e refresh ts_now x (ct_put_user updated_user ct) of
                   (ct', Inl err) \<Rightarrow> (ct', Inl err)
                 | (ct', Inr x') \<Rightarrow>
                     (ct', case cloud (update_user_request x' params) of
                             Inl err \<Rightarrow> fail_app e (app_error_of_reqwest (gd_wasm (te_gd e)) err)
                           | Inr resp \<Rightarrow> answer_error (te_vd e) (gd_text (te_gd e)) js resp))"

subsection \<open>Signing in with a URL\<close>

text \<open>\<open>i64::from_str\<close>, with the range of \<open>i64\<close> in place of that of \<open>parse_i32\<close>.\<close>

definition parse_i64 :: "string \<Rightarrow> int option" where
  "parse_i64 s =
     (let neg = (case s of c # _ \<Rightarrow> c = CHR ''-'' | [] \<Rightarrow> False);
          sign = (case s of c # _ \<Rightarrow> c = CHR ''-'' \<or> c = CHR ''+'' | [] \<Rightarrow> False);
          ds = (if sign then tl s else s)
      in if ds = [] then None
         else case parse_digits 0 ds of
                None \<Rightarrow> None
              | Some n \<Rightarrow> let i = (if neg then - int n else int n) in if in_i64 i then Some i else None)"

fun split_once :: "char \<Rightarrow> string \<Rightarrow> (string \<times> string) option" where
  "split_once c [] = None"
| "split_once c (x # xs) =
     (if x = c then Some ([], xs) else map_option (\<lambda>(k, v). (x # k, v)) (split_once c xs))"

definition url_missing_param :: "token_env \<Rightarrow> string \<Rightarrow> app_response_error + 'a" where
  "url_missing_param e param = fail_app e (InvalidRequest (''Url Missing Parameter:'' @ param))"

record url_params =
  up_access_token :: "string option"
  up_token_type :: "string option"
  up_expires_in :: "int option"
  up_expires_at :: "int option"
  up_refresh_token :: "string option"
  up_provider_access_token :: "string option"
  up_provider_refresh_token :: "string option"

definition no_url_params :: url_params where
  "no_url_params =
     \<lparr>up_access_token = None, up_token_type = None, up_expires_in = None, up_expires_at = None, up_refresh_token = None,
      up_provider_access_token = None, up_provider_refresh_token = None\<rparr>"

definition take_url_param :: "token_env \<Rightarrow> string \<Rightarrow> url_params \<Rightarrow> app_response_error + url_params" where
  "take_url_param e f p =
     (case split_once CHR ''='' f of
        None \<Rightarrow> url_missing_param e ''key=value''
      | Some (k, v) \<Rightarrow>
          if k = ''access_token'' then Inr (p\<lparr>up_access_token := Some v\<rparr>)
          else if k = ''token_type'' then Inr (p\<lparr>up_token_type := Some v\<rparr>)
          else if k = ''expires_in''
          then (case parse_i64 v of
                  None \<Rightarrow> fail_app e (Internal ''parser expires_in failed'')
                | Some i \<Rightarrow> Inr (p\<lparr>up_expires_in := Some i\<rparr>))
          else if k = ''expires_at''
          then (case parse_i64 v of
                  None \<Rightarrow> fail_app e (Internal ''parser expires_at failed'')
                | Some i \<Rightarrow> Inr (p\<lparr>up_expires_at := Some i\<rparr>))
          else if k = ''refresh_token'' then Inr (p\<lparr>up_refresh_token := Some v\<rparr>)
          else if k = ''provider_access_token'' then Inr (p\<lparr>up_provider_access_token := Some v\<rparr>)
          else if k = ''provider_refresh_token'' then Inr (p\<lparr>up_provider_refresh_token := Some v\<rparr>)
          else Inr p)"

fun take_url_params :: "token_env \<Rightarrow> string list \<Rightarrow> url_params \<Rightarrow> app_response_error + url_params" where
  "take_url_params e [] p = Inr p"
| "take_url_params e (f # fs) p = res_bind (take_url_param e f p) (take_url_params e fs)"

definition or_missing :: "token_env \<Rightarrow> string \<Rightarrow> 'a option \<Rightarrow> app_response_error + 'a" where
  "or_missing e param v = (case v of None \<Rightarrow> url_missing_param e param | Some x \<Rightarrow> Inr x)"

definition token_of_params ::
    "token_env \<Rightarrow> url_params \<Rightarrow> string \<Rightarrow> gotrue_user \<Rightarrow> app_response_error + gotrue_token" where
  "token_of_params e p access_token user =
     res_bind (or_missing e ''token_type'' (up_token_type p)) (\<lambda>token_type.
     res_bind (or_missing e ''expires_in'' (up_expires_in p)) (\<lambda>expires_in.
     res_bind (or_missing e ''expires_at'' (up_expires_at p)) (\<lambda>expires_at.
     res_bind (or_missing e ''refresh_token'' (up_refresh_token p)) (\<lambda>refresh_token.
       Inr \<lparr>gk_access_token = access_token, gk_token_type = token_type, gk_expires_in = expires_in,
            gk_expires_at = expires_at, gk_refresh_token = refresh_token, gk_user = user,
            gk_provider_access_token = up_provider_access_token p,
            gk_provider_refresh_token = up_provider_refresh_token p\<rparr>))))"

definition sign_in_params :: "token_env \<Rightarrow> string \<Rightarrow> app_response_error + url_params" where
  "sign_in_params e url =
     (case te_url_fragment e url of
        Inl err \<Rightarrow> fail_app e (UrlError err)
      | Inr None \<Rightarrow> url_missing_param e ''fragment''
      | Inr (Some fragment) \<Rightarrow> take_url_params e (split_on CHR ''&'' fragment) no_url_params)"

definition sign_in_with_url ::
    "token_env \<Rightarrow> gotrue_server \<Rightarrow> cloud_server \<Rightarrow> client_ctx \<Rightarrow> string \<Rightarrow> client_token \<Rightarrow>
     client_token \<times> (app_response_error + bool)" where
  "sign_in_with_url e srv cloud x url ct =
     (case res_bind (sign_in_params e url) (\<lambda>p.
           res_bind (or_missing e ''access_token'' (up_access_token p)) (\<lambda>access_token.
             if access_token = [] then fail_app e (OAuthError ''Empty access token'')
             else res_bind (verify_token_of e srv cloud x access_token) (\<lambda>(user, new).
                  res_bind (token_of_params e p access_token user) (\<lambda>t. Inr (t, new))))) of
        Inl err \<Rightarrow> (ct, Inl err)
      | Inr (t, new) \<Rightarrow> (ct_set t ct, Inr new))"

subsection \<open>Links and administration\<close>

definition DESKTOP_CALLBACK_URL :: string where "DESKTOP_CALLBACK_URL = ''appflowy-flutter://login-callback''"

definition generate_oauth_url_with_provider ::
    "token_env \<Rightarrow> gotrue_server \<Rightarrow> auth_provider \<Rightarrow> app_response_error + string" where
  "generate_oauth_url_with_provider e srv provider =
     res_bind (of_gotrue e (gotrue_settings_of (te_gd e) srv (te_gotrue_url e))) (\<lambda>settings.
       if \<not> has_provider (gs_external settings) provider
       then fail_app e (InvalidOAuthProvider (provider_as_str provider))
       else
         res_map_err (\<lambda>err. response_error_of (te_vd e) (UrlError err))
           (te_append_pairs e (te_gotrue_url e @ ''/authorize'')
              ([(''provider'', provider_as_str provider), (''redirect_to'', DESKTOP_CALLBACK_URL)] @
               (if provider = PGoogle then [(''access_type'', ''offline''), (''prompt'', ''consent'')] else []))))"

text \<open>The assertion on the address in the answer: \<open>None\<close> is its panic.\<close>

definition generate_sign_in_action_link ::
    "token_env \<Rightarrow> gotrue_server \<Rightarrow> string \<Rightarrow> client_token \<Rightarrow> (app_response_error + string) option" where
  "generate_sign_in_action_link e srv email ct =
     (case access_token_of e ct of
        Inl err \<Rightarrow> Some (Inl err)
      | Inr token \<Rightarrow>
          case of_gotrue e (admin_generate_link (te_gd e) srv (te_gotrue_url e) token
                 (default_generate_link_params\<lparr>glp_email := email\<rparr>)) of
            Inl err \<Rightarrow> Some (Inl err)
          | Inr link \<Rightarrow> if gu_email (glr_user link) = email then Some (Inr (glr_action_link link)) else None)"

definition invite :: "token_env \<Rightarrow> gotrue_server \<Rightarrow> string \<Rightarrow> app_response_error + unit" where
  "invite e srv email =
     of_gotrue e (magic_link (te_gd e) srv (te_gotrue_url e) (default_magic_link_params\<lparr>mlp_email := email\<rparr>) None)"

definition create_user_of ::
    "token_env \<Rightarrow> gotrue_server \<Rightarrow> string \<Rightarrow> string \<Rightarrow> client_token \<Rightarrow> app_response_error + gotrue_user" where
  "create_user_of e srv email password ct =
     res_bind (access_token_of e ct) (\<lambda>token.
       of_gotrue e (admin_add_user (te_gd e) srv (te_gotrue_url e) token
         (default_admin_user_params\<lparr>aup_email := email, aup_password := Some password, aup_email_confirm := True\<rparr>)))"

definition create_email_verified_user ::
    "token_env \<Rightarrow> gotrue_server \<Rightarrow> string \<Rightarrow> string \<Rightarrow> client_token \<Rightarrow> app_response_error + gotrue_user" where
  "create_email_verified_user e srv email password ct =
     res_bind (access_token_of e ct) (\<lambda>token.
       of_gotrue e (admin_add_user (te_gd e) srv (te_gotrue_url e) token
         (default_admin_user_params\<lparr>aup_email := email, aup_password := Some password, aup_email_confirm := True\<rparr>)))"

subsection \<open>The token and its notifications agree\<close>

text \<open>
  What a receiver can rely on: the last notification says whether there is a token, and there is one notification for
  every change but that of the user.
\<close>

definition token_inv :: "client_token \<Rightarrow> bool" where
  "token_inv ct \<longleftrightarrow>
     (if ct_sent ct = [] then ct_token ct = None
      else last (ct_sent ct) = (case ct_token ct of None \<Rightarrow> TokenInvalid | Some _ \<Rightarrow> TokenRefresh))"

lemma token_inv_new [simp]: "token_inv ct_new"
  by (simp add: token_inv_def ct_new_def)

lemma token_inv_set [simp, intro]: "token_inv ct \<Longrightarrow> token_inv (ct_set t ct)"
  by (auto simp: token_inv_def ct_set_def split: option.splits if_splits)

lemma token_inv_unset [simp, intro]: "token_inv ct \<Longrightarrow> token_inv (ct_unset ct)"
  by (auto simp: token_inv_def ct_unset_def split: option.splits if_splits)

lemma token_inv_put_user [simp, intro]: "token_inv ct \<Longrightarrow> token_inv (ct_put_user u ct)"
  by (cases "ct_token ct") (auto simp: token_inv_def ct_put_user_def split: if_splits)

text \<open>An unset is never followed by another: the tokens between two of them are refreshed at least once.\<close>

lemma ct_set_token:
  "ct_token (ct_set t ct) =
     (case ct_token ct of Some old \<Rightarrow> if gk_expires_at old > gk_expires_at t then Some old else Some t | None \<Rightarrow> Some t)"
  by (auto simp: ct_set_def split: option.splits)

lemma ct_unset_token [simp]: "ct_token (ct_unset ct) = None"
  by (auto simp: ct_unset_def)

lemma ct_set_not_none [simp]: "ct_token (ct_set t ct) \<noteq> None"
  by (simp add: ct_set_token split: option.splits)

lemma ct_set_expires:
  assumes "ct_token (ct_set t ct) = Some k"
  shows "gk_expires_at t \<le> gk_expires_at k"
    and "ct_token ct = Some old \<Longrightarrow> gk_expires_at old \<le> gk_expires_at k"
  using assms by (auto simp: ct_set_token split: option.splits if_splits)

end
