(* ===== verification/TokenRefresh.thy ===== *)
theory TokenRefresh
  imports ClientToken
begin

section \<open>Callers that refresh the token together\<close>

text \<open>
  \<open>refresh_token\<close> of \<open>native/http_native.rs\<close>, called by several tasks: every caller pushes its sender on
  \<open>refresh_ret_txs\<close>, reads the flag \<open>is_refreshing_token\<close>, and the one that found it false sets it, refreshes, answers
  all senders and resets it. The flag is read and written in two atomic operations, the token is locked for each access
  and not over the request, so an event is one such access; what the events of the callers interleave to is a list.
  \<open>RfOther\<close> is a change of the token by another method (signing in, out, restoring).
\<close>

subsection \<open>The callers\<close>

type_synonym refresh_result = "app_response_error + unit"

datatype refresh_phase =
    RpAsked
  | RpChecked
  | RpLeading nat
  | RpInFlight nat string
  | RpHolding refresh_result
  | RpAnswered
  | RpWaiting

record refresh_state =
  rf_token :: client_token
  rf_flag :: bool
  rf_txs :: "nat list"
  rf_phase :: "nat \<Rightarrow> refresh_phase option"
  rf_answer :: "nat \<Rightarrow> refresh_result option"

datatype refresh_event =
    RfAsk nat
  | RfLoad nat
  | RfStore nat
  | RfSend nat
  | RfAnswer nat "gotrue_error + gotrue_token"
  | RfTake nat
  | RfReset nat
  | RfSignIn gotrue_token
  | RfSignOut

definition rf_start :: "client_token \<Rightarrow> refresh_state" where
  "rf_start ct = \<lparr>rf_token = ct, rf_flag = False, rf_txs = [], rf_phase = (\<lambda>_. None), rf_answer = (\<lambda>_. None)\<rparr>"

definition rf_goto :: "nat \<Rightarrow> refresh_phase \<Rightarrow> refresh_state \<Rightarrow> refresh_state" where
  "rf_goto c p s = s\<lparr>rf_phase := (rf_phase s)(c := Some p)\<rparr>"

text \<open>The end of an attempt: the retry of \<open>RetryIf\<close>, and \<open>inner_refresh_token\<close> after the last attempt.\<close>

definition rf_attempted ::
    "token_env \<Rightarrow> nat \<Rightarrow> nat \<Rightarrow> gotrue_error + unit \<Rightarrow> refresh_state \<Rightarrow> refresh_state" where
  "rf_attempted e c i r s =
     (case r of
        Inr _ \<Rightarrow> rf_goto c (RpHolding (Inr ())) s
      | Inl err \<Rightarrow>
          if gotrue_is_network_error err \<and> i < 4 then rf_goto c (RpLeading (Suc i)) s
          else
            let err' = app_error_of_gotrue err;
                s' = (if is_unauthorized err' then s\<lparr>rf_token := ct_unset (rf_token s)\<rparr> else s)
            in rf_goto c (RpHolding (fail_app e err')) s')"

fun refresh_step :: "token_env \<Rightarrow> refresh_state \<Rightarrow> refresh_event \<Rightarrow> refresh_state" where
  "refresh_step e s (RfAsk c) =
     (if rf_phase s c = None then rf_goto c RpAsked (s\<lparr>rf_txs := rf_txs s @ [c]\<rparr>) else s)"
| "refresh_step e s (RfLoad c) =
     (if rf_phase s c = Some RpAsked then rf_goto c (if rf_flag s then RpWaiting else RpChecked) s else s)"
| "refresh_step e s (RfStore c) =
     (if rf_phase s c = Some RpChecked then rf_goto c (RpLeading 0) (s\<lparr>rf_flag := True\<rparr>) else s)"
| "refresh_step e s (RfSend c) =
     (case rf_phase s c of
        Some (RpLeading i) \<Rightarrow>
          (case ct_token (rf_token s) of
             None \<Rightarrow> rf_attempted e c i (Inl (GtNotLoggedIn ''fail to refresh user token'')) s
           | Some t \<Rightarrow> rf_goto c (RpInFlight i (gk_refresh_token t)) s)
      | _ \<Rightarrow> s)"
| "refresh_step e s (RfAnswer c r) =
     (case rf_phase s c of
        Some (RpInFlight i _) \<Rightarrow>
          (case r of
             Inl err \<Rightarrow> rf_attempted e c i (Inl err) s
           | Inr t \<Rightarrow> rf_attempted e c i (Inr ()) (s\<lparr>rf_token := ct_set t (rf_token s)\<rparr>))
      | _ \<Rightarrow> s)"
| "refresh_step e s (RfTake c) =
     (case rf_phase s c of
        Some (RpHolding r) \<Rightarrow>
          rf_goto c RpAnswered
            (s\<lparr>rf_txs := [], rf_answer := (\<lambda>d. if d \<in> set (rf_txs s) then Some r else rf_answer s d)\<rparr>)
      | _ \<Rightarrow> s)"
| "refresh_step e s (RfReset c) =
     (if rf_phase s c = Some RpAnswered then rf_goto c RpWaiting (s\<lparr>rf_flag := False\<rparr>) else s)"
| "refresh_step e s (RfSignIn t) = s\<lparr>rf_token := ct_set t (rf_token s)\<rparr>"
| "refresh_step e s RfSignOut = s\<lparr>rf_token := ct_unset (rf_token s)\<rparr>"

text \<open>What a caller gets at the end: the answer, or the error of the timeout when none comes within a minute.\<close>

definition refresh_outcome :: "token_env \<Rightarrow> refresh_state \<Rightarrow> nat \<Rightarrow> refresh_result" where
  "refresh_outcome e s c =
     (case rf_answer s c of Some r \<Rightarrow> r | None \<Rightarrow> fail_app e (RequestTimeout ''refresh token timeout''))"

subsection \<open>Every sender is answered by the next result\<close>

text \<open>A caller that has asked is answered or its sender is still in the list, whatever the others did in between.\<close>

definition rf_inv :: "refresh_state \<Rightarrow> bool" where
  "rf_inv s \<longleftrightarrow>
     token_inv (rf_token s) \<and> distinct (rf_txs s) \<and>
     (\<forall>c. (c \<in> set (rf_txs s) \<longleftrightarrow> rf_phase s c \<noteq> None \<and> rf_answer s c = None)) \<and>
     (\<forall>c. rf_phase s c = None \<longrightarrow> rf_answer s c = None)"

lemma rf_goto_simps [simp]:
  "rf_token (rf_goto c p s) = rf_token s" "rf_flag (rf_goto c p s) = rf_flag s"
  "rf_txs (rf_goto c p s) = rf_txs s" "rf_answer (rf_goto c p s) = rf_answer s"
  "rf_phase (rf_goto c p s) = (rf_phase s)(c := Some p)"
  by (simp_all add: rf_goto_def)

lemma rf_attempted_frame [simp]:
  "rf_flag (rf_attempted e c i r s) = rf_flag s"
  "rf_txs (rf_attempted e c i r s) = rf_txs s" "rf_answer (rf_attempted e c i r s) = rf_answer s"
  by (simp_all add: rf_attempted_def Let_def split: sum.split)

lemma rf_attempted_phase:
  "\<exists>p. rf_phase (rf_attempted e c i r s) = (rf_phase s)(c := Some p)"
  by (auto simp: rf_attempted_def Let_def split: sum.split)

lemma rf_attempted_token:
  "token_inv (rf_token s) \<Longrightarrow> token_inv (rf_token (rf_attempted e c i r s))"
  by (auto simp: rf_attempted_def Let_def split: sum.split)

lemma rf_attempted_inv: "rf_inv s \<Longrightarrow> rf_phase s c \<noteq> None \<Longrightarrow> rf_inv (rf_attempted e c i r s)"
  using rf_attempted_phase [of e c i r s] by (auto simp: rf_inv_def rf_attempted_token split: if_splits)

lemma rf_inv_set: "rf_inv s \<Longrightarrow> rf_inv (s\<lparr>rf_token := ct_set t (rf_token s)\<rparr>)"
  and rf_inv_unset: "rf_inv s \<Longrightarrow> rf_inv (s\<lparr>rf_token := ct_unset (rf_token s)\<rparr>)"
  and rf_inv_flag: "rf_inv s \<Longrightarrow> rf_inv (s\<lparr>rf_flag := b\<rparr>)"
  and rf_inv_goto: "rf_inv s \<Longrightarrow> rf_phase s c \<noteq> None \<Longrightarrow> rf_inv (rf_goto c p s)"
  by (auto simp: rf_inv_def)

lemma refresh_step_inv: "rf_inv s \<Longrightarrow> rf_inv (refresh_step e s ev)"
proof (cases ev)
  case (RfAsk c)
  assume "rf_inv s"
  then show ?thesis unfolding RfAsk by (auto simp: rf_inv_def)
next
  case (RfTake c)
  assume "rf_inv s"
  then show ?thesis unfolding RfTake
    by (cases "rf_phase s c") (auto simp: rf_inv_def split: refresh_phase.split)
next
  case (RfStore c)
  assume "rf_inv s"
  then show ?thesis unfolding RfStore by (auto intro!: rf_inv_goto rf_inv_flag)
next
  case (RfReset c)
  assume "rf_inv s"
  then show ?thesis unfolding RfReset by (auto intro!: rf_inv_goto rf_inv_flag)
next
  case (RfSend c)
  assume "rf_inv s"
  then show ?thesis unfolding RfSend
    by (auto intro!: rf_inv_goto rf_attempted_inv split: option.split refresh_phase.split)
next
  case (RfAnswer c r)
  assume "rf_inv s"
  then show ?thesis unfolding RfAnswer
    by (auto intro!: rf_attempted_inv rf_inv_set split: option.split refresh_phase.split sum.split)
qed (auto intro!: rf_inv_goto rf_inv_set rf_inv_unset)

lemma rf_start_inv [simp]: "token_inv ct \<Longrightarrow> rf_inv (rf_start ct)"
  by (simp add: rf_inv_def rf_start_def)

interpretation rf: step_invariant "refresh_step e" "\<lambda>_ _. True" rf_inv for e
  by unfold_locales (rule refresh_step_inv)

lemma admissible_all [simp]: "admissible (\<lambda>_ _. True) step s es"
  by (induction es arbitrary: s) auto

lemma refresh_reachable: "token_inv ct \<Longrightarrow> rf_inv (run (refresh_step e) (rf_start ct) es)"
  by (rule rf.run_inv) simp_all

subsection \<open>When a waiting caller has a leader\<close>

text \<open>
  The schedule under which no caller is forgotten: a caller looks at the flag neither between another's look at it and
  its setting, nor, without an answer, between the answers and the reset.
\<close>

fun rp_active :: "refresh_phase option \<Rightarrow> bool" where
  "rp_active (Some (RpLeading _)) = True"
| "rp_active (Some (RpInFlight _ _)) = True"
| "rp_active (Some (RpHolding _)) = True"
| "rp_active _ = False"

lemma rp_active_Some: "rp_active p \<Longrightarrow> \<exists>q. p = Some q"
  by (cases p) auto

definition rp_leads :: "refresh_phase option \<Rightarrow> bool" where
  "rp_leads p \<longleftrightarrow> rp_active p \<or> p = Some RpChecked \<or> p = Some RpAnswered"

fun undisturbed :: "refresh_state \<Rightarrow> refresh_event \<Rightarrow> bool" where
  "undisturbed s (RfLoad c) \<longleftrightarrow>
     (\<forall>d. rf_phase s d \<noteq> Some RpChecked) \<and> (rf_answer s c = None \<longrightarrow> (\<forall>d. rf_phase s d \<noteq> Some RpAnswered))"
| "undisturbed s _ \<longleftrightarrow> True"

definition leader_inv :: "refresh_state \<Rightarrow> bool" where
  "leader_inv s \<longleftrightarrow>
     rf_inv s \<and>
     (\<forall>c d. rp_leads (rf_phase s c) \<longrightarrow> rp_leads (rf_phase s d) \<longrightarrow> c = d) \<and>
     (rf_flag s \<longleftrightarrow> (\<exists>c. rp_leads (rf_phase s c) \<and> rf_phase s c \<noteq> Some RpChecked)) \<and>
     (\<forall>c. rf_phase s c = Some RpWaiting \<longrightarrow> rf_answer s c = None \<longrightarrow> (\<exists>d. rp_active (rf_phase s d))) \<and>
     (\<forall>c. rf_phase s c = Some RpAnswered \<longrightarrow> rf_answer s c \<noteq> None)"

lemma rp_leads_simps [simp]:
  "rp_leads (Some (RpLeading i))" "rp_leads (Some (RpInFlight i t))" "rp_leads (Some (RpHolding r))"
  "rp_leads (Some RpChecked)" "rp_leads (Some RpAnswered)" "\<not> rp_leads None" "\<not> rp_leads (Some RpAsked)"
  "\<not> rp_leads (Some RpWaiting)"
  by (simp_all add: rp_leads_def)

lemma leader_invD:
  assumes "leader_inv s"
  shows "rf_inv s"
    and "rp_leads (rf_phase s c) \<Longrightarrow> rp_leads (rf_phase s d) \<Longrightarrow> c = d"
    and "rf_flag s \<longleftrightarrow> (\<exists>c. rp_leads (rf_phase s c) \<and> rf_phase s c \<noteq> Some RpChecked)"
    and "rf_phase s c = Some RpWaiting \<Longrightarrow> rf_answer s c = None \<Longrightarrow> \<exists>d. rp_active (rf_phase s d)"
    and "rf_phase s c = Some RpAnswered \<Longrightarrow> rf_answer s c \<noteq> None"
  using assms by (simp_all add: leader_inv_def)

lemma leader_invI:
  assumes "rf_inv s"
    and "\<And>c d. rp_leads (rf_phase s c) \<Longrightarrow> rp_leads (rf_phase s d) \<Longrightarrow> c = d"
    and "rf_flag s \<longleftrightarrow> (\<exists>c. rp_leads (rf_phase s c) \<and> rf_phase s c \<noteq> Some RpChecked)"
    and "\<And>c. rf_phase s c = Some RpWaiting \<Longrightarrow> rf_answer s c = None \<Longrightarrow> \<exists>d. rp_active (rf_phase s d)"
    and "\<And>c. rf_phase s c = Some RpAnswered \<Longrightarrow> rf_answer s c \<noteq> None"
  shows "leader_inv s"
  using assms unfolding leader_inv_def by blast

text \<open>The steps of the leader on its way to the result keep everything but its own phase.\<close>

lemma leader_inv_goto:
  assumes "leader_inv s" and "rp_active (rf_phase s c)" and "rp_active (Some p)"
  shows "leader_inv (rf_goto c p s)"
proof -
  have c: "rp_leads (rf_phase s c)" "rf_phase s c \<noteq> None" "rf_phase s c \<noteq> Some RpChecked"
    and p: "rp_leads (Some p)" "p \<noteq> RpChecked"
    using assms(2,3) by (auto simp: rp_leads_def dest: rp_active_Some)
  have inv: "rf_inv (rf_goto c p s)"
    using leader_invD(1) [OF assms(1)] c(2) by (rule rf_inv_goto)
  have only: "d = c" if "rp_leads (rf_phase (rf_goto c p s) d)" for d
    using leader_invD(2) [OF assms(1) _ c(1), of d] that by (simp split: if_splits)
  have "rf_flag s" using leader_invD(3) [OF assms(1)] c(1,3) by blast
  moreover have "rp_leads (rf_phase (rf_goto c p s) c) \<and> rf_phase (rf_goto c p s) c \<noteq> Some RpChecked"
    using p by simp
  ultimately have flag: "rf_flag (rf_goto c p s) \<longleftrightarrow>
      (\<exists>d. rp_leads (rf_phase (rf_goto c p s) d) \<and> rf_phase (rf_goto c p s) d \<noteq> Some RpChecked)"
    unfolding rf_goto_simps(2) by blast
  have act: "\<exists>d. rp_active (rf_phase (rf_goto c p s) d)"
    using assms(3) by (intro exI [of _ c]) simp
  show ?thesis
    using assms(3) leader_invD(5) [OF assms(1)]
    by (intro leader_invI [OF inv _ flag act]) (metis only, auto split: if_splits)
qed

lemma leader_inv_token:
  "leader_inv s \<Longrightarrow> token_inv ct \<Longrightarrow> leader_inv (s\<lparr>rf_token := ct\<rparr>)"
  by (simp add: leader_inv_def rf_inv_def)

lemma rf_attempted_active:
  "\<exists>p ct. rp_active (Some p) \<and> (token_inv (rf_token s) \<longrightarrow> token_inv ct) \<and>
     rf_attempted e c i r s = rf_goto c p (s\<lparr>rf_token := ct\<rparr>)"
proof (cases r)
  case (Inr u)
  then have "rf_attempted e c i r s = rf_goto c (RpHolding (Inr ())) (s\<lparr>rf_token := rf_token s\<rparr>)"
    by (simp add: rf_attempted_def)
  then show ?thesis by (intro exI [of _ "RpHolding (Inr ())"] exI [of _ "rf_token s"]) simp
next
  case (Inl err)
  show ?thesis
  proof (cases "gotrue_is_network_error err \<and> i < 4")
    case True
    with Inl have "rf_attempted e c i r s = rf_goto c (RpLeading (Suc i)) (s\<lparr>rf_token := rf_token s\<rparr>)"
      by (simp add: rf_attempted_def)
    then show ?thesis by (intro exI [of _ "RpLeading (Suc i)"] exI [of _ "rf_token s"]) simp
  next
    case False
    let ?ct = "if is_unauthorized (app_error_of_gotrue err) then ct_unset (rf_token s) else rf_token s"
    let ?p = "RpHolding (fail_app e (app_error_of_gotrue err))"
    have "rf_attempted e c i r s = rf_goto c ?p (s\<lparr>rf_token := ?ct\<rparr>)"
      using Inl False by (auto simp: rf_attempted_def Let_def)
    then show ?thesis by (intro exI [of _ ?p] exI [of _ ?ct]) auto
  qed
qed

lemma leader_inv_attempted:
  assumes "leader_inv s" and "rp_active (rf_phase s c)"
  shows "leader_inv (rf_attempted e c i r s)"
proof -
  obtain p ct where "rp_active (Some p)" and "token_inv (rf_token s) \<longrightarrow> token_inv ct"
    and "rf_attempted e c i r s = rf_goto c p (s\<lparr>rf_token := ct\<rparr>)"
    using rf_attempted_active by blast
  moreover have "token_inv ct" using calculation(2) assms(1) by (simp add: leader_inv_def rf_inv_def)
  ultimately show ?thesis
    using assms(2) leader_inv_token [OF assms(1), of ct]
      leader_inv_goto [of "s\<lparr>rf_token := ct\<rparr>" c p] by simp
qed

text \<open>A step of a caller that does not lead and does not start to.\<close>

lemma leader_inv_idle:
  assumes "leader_inv s" and "\<not> rp_leads (rf_phase s c)" and "\<not> rp_leads (Some p)" and "rf_inv s'"
    and "rf_phase s' = (rf_phase s)(c := Some p)" and "rf_flag s' = rf_flag s" and "rf_answer s' = rf_answer s"
    and "p = RpWaiting \<Longrightarrow> rf_answer s c = None \<Longrightarrow> \<exists>d. rp_active (rf_phase s d)"
  shows "leader_inv s'"
proof -
  have lead: "rp_leads (rf_phase s' d) \<longleftrightarrow> rp_leads (rf_phase s d)" for d
    using assms(2,3) by (simp add: assms(5))
  have same: "rf_phase s' d = rf_phase s d" if "rp_leads (rf_phase s d)" for d
    using assms(2) that by (auto simp: assms(5))
  have act: "rp_active (rf_phase s' d)" if "rp_active (rf_phase s d)" for d
    using same [of d] that by (simp add: rp_leads_def)
  have "rf_flag s' \<longleftrightarrow> (\<exists>d. rp_leads (rf_phase s' d) \<and> rf_phase s' d \<noteq> Some RpChecked)"
    unfolding assms(6) lead leader_invD(3) [OF assms(1)] using same by metis
  moreover have "\<exists>d. rp_active (rf_phase s' d)" if "rf_phase s' b = Some RpWaiting" "rf_answer s' b = None" for b
  proof -
    have "rf_answer s b = None" using that(2) by (simp add: assms(7))
    then have "\<exists>d. rp_active (rf_phase s d)"
      using that(1) assms(8) leader_invD(4) [OF assms(1), of b] by (auto simp: assms(5) split: if_splits)
    then show ?thesis using act by blast
  qed
  moreover have "rf_answer s' b \<noteq> None" if "rf_phase s' b = Some RpAnswered" for b
    using that assms(3) leader_invD(5) [OF assms(1), of b] by (auto simp: assms(5,7) split: if_splits)
  ultimately show ?thesis
    using leader_invD(2) [OF assms(1)] by (intro leader_invI assms(4)) (simp_all add: lead)
qed

lemma leader_inv_ask: "leader_inv s \<Longrightarrow> leader_inv (refresh_step e s (RfAsk c))"
  using refresh_step_inv [of s e "RfAsk c"]
  by (auto intro!: leader_inv_idle [of s c RpAsked] dest: leader_invD(1))

lemma leader_inv_load:
  assumes "leader_inv s" and "undisturbed s (RfLoad c)"
  shows "leader_inv (refresh_step e s (RfLoad c))"
proof (cases "rf_phase s c = Some RpAsked")
  case True
  have inv: "rf_inv (rf_goto c p s)" for p
    using leader_invD(1) [OF assms(1)] True by (intro rf_inv_goto) simp_all
  have nc: "rf_phase s d \<noteq> Some RpChecked" for d using assms(2) by simp
  show ?thesis
  proof (cases "rf_flag s")
    case flag: True
    then obtain d where "rp_leads (rf_phase s d)" using leader_invD(3) [OF assms(1)] by blast
    then have "rp_active (rf_phase s d) \<or> rf_phase s d = Some RpAnswered" using nc [of d] by (simp add: rp_leads_def)
    then have act: "\<exists>d. rp_active (rf_phase s d)" if "rf_answer s c = None" using assms(2) that by auto
    have step: "refresh_step e s (RfLoad c) = rf_goto c RpWaiting s" using True flag by simp
    show ?thesis
      unfolding step
      by (rule leader_inv_idle [OF assms(1) _ _ inv rf_goto_simps(5,2,4) act, unfolded True]) simp_all
  next
    case flag: False
    then have none: "\<not> rp_leads (rf_phase s d)" for d using leader_invD(3) [OF assms(1)] nc [of d] by blast
    have step: "refresh_step e s (RfLoad c) = rf_goto c RpChecked s" using True flag by simp
    have only: "d = c" if "rp_leads (rf_phase (rf_goto c RpChecked s) d)" for d
      using none [of d] that by (simp split: if_splits)
    have none': "\<not> rp_active (rf_phase s d)" for d using none [of d] by (simp add: rp_leads_def)
    have "\<not> (rp_leads (rf_phase (rf_goto c RpChecked s) d) \<and> rf_phase (rf_goto c RpChecked s) d \<noteq> Some RpChecked)" for d
      using none [of d] by (cases "d = c") simp_all
    then have fl: "rf_flag (rf_goto c RpChecked s) \<longleftrightarrow>
        (\<exists>d. rp_leads (rf_phase (rf_goto c RpChecked s) d) \<and> rf_phase (rf_goto c RpChecked s) d \<noteq> Some RpChecked)"
      unfolding rf_goto_simps(2) using flag by blast
    show ?thesis
      unfolding step
    proof (rule leader_invI [OF inv _ fl])
      show "a = b" if "rp_leads (rf_phase (rf_goto c RpChecked s) a)" "rp_leads (rf_phase (rf_goto c RpChecked s) b)" for a b
        using only [OF that(1)] only [OF that(2)] by simp
      show "\<exists>d. rp_active (rf_phase (rf_goto c RpChecked s) d)"
        if "rf_phase (rf_goto c RpChecked s) b = Some RpWaiting" "rf_answer (rf_goto c RpChecked s) b = None" for b
        using leader_invD(4) [OF assms(1), of b] none' that by (auto split: if_splits)
      show "rf_answer (rf_goto c RpChecked s) b \<noteq> None"
        if "rf_phase (rf_goto c RpChecked s) b = Some RpAnswered" for b
        using that none [of b] by (auto split: if_splits)
    qed
  qed
next
  case False
  then show ?thesis using assms(1) by simp
qed

text \<open>A step of the one caller that leads, or stops to.\<close>

lemma leader_inv_leader:
  assumes "leader_inv s" and "rp_leads (rf_phase s c)" and "rf_inv s'"
    and "rf_phase s' = (rf_phase s)(c := Some p)"
    and "rf_flag s' \<longleftrightarrow> rp_leads (Some p) \<and> p \<noteq> RpChecked"
    and "\<And>b. b \<noteq> c \<Longrightarrow> rf_phase s b = Some RpWaiting \<Longrightarrow> rf_answer s' b = None \<Longrightarrow> rp_active (Some p)"
    and "p = RpWaiting \<or> p = RpAnswered \<Longrightarrow> rf_answer s' c \<noteq> None"
  shows "leader_inv s'"
proof -
  have only: "d = c" if "rp_leads (rf_phase s' d)" for d
    using leader_invD(2) [OF assms(1) _ assms(2), of d] that by (simp add: assms(4) split: if_splits)
  have here: "rf_phase s' c = Some p" by (simp add: assms(4))
  have "rf_flag s' \<longleftrightarrow> (\<exists>d. rp_leads (rf_phase s' d) \<and> rf_phase s' d \<noteq> Some RpChecked)"
    unfolding assms(5) using only here by (metis option.inject)
  moreover have "\<exists>d. rp_active (rf_phase s' d)" if "rf_phase s' b = Some RpWaiting" "rf_answer s' b = None" for b
  proof -
    have "b \<noteq> c" using that here assms(7) by auto
    then have "rp_active (Some p)" using that assms(4,6) by simp
    then show ?thesis by (metis here)
  qed
  moreover have "rf_answer s' b \<noteq> None" if "rf_phase s' b = Some RpAnswered" for b
    using only [of b] that here assms(7) by auto
  ultimately show ?thesis
    by (intro leader_invI assms(3)) (metis only, simp_all)
qed

lemma leader_inv_store:
  assumes "leader_inv s" shows "leader_inv (refresh_step e s (RfStore c))"
proof (cases "rf_phase s c = Some RpChecked")
  case True
  have step: "refresh_step e s (RfStore c) = rf_goto c (RpLeading 0) (s\<lparr>rf_flag := True\<rparr>)" using True by simp
  have inv: "rf_inv (rf_goto c (RpLeading 0) (s\<lparr>rf_flag := True\<rparr>))"
    using refresh_step_inv [OF leader_invD(1) [OF assms], of e "RfStore c"] unfolding step .
  show ?thesis
    unfolding step by (rule leader_inv_leader [OF assms _ inv, of c "RpLeading 0"]) (simp_all add: True)
qed (use assms in simp)

lemma leader_inv_take:
  assumes "leader_inv s" shows "leader_inv (refresh_step e s (RfTake c))"
proof (cases "\<exists>r. rf_phase s c = Some (RpHolding r)")
  case True
  then obtain r where r: "rf_phase s c = Some (RpHolding r)" by blast
  let ?s' = "refresh_step e s (RfTake c)"
  have inv: "rf_inv ?s'" using leader_invD(1) [OF assms] by (rule refresh_step_inv)
  have answered: "rf_answer ?s' b \<noteq> None" if "rf_phase s b \<noteq> None" for b
    using leader_invD(1) [OF assms] that by (auto simp: r rf_inv_def)
  have "rp_leads (rf_phase s c) \<and> rf_phase s c \<noteq> Some RpChecked" by (simp add: r)
  then have flag: "rf_flag s" unfolding leader_invD(3) [OF assms] by blast
  show ?thesis
  proof (rule leader_inv_leader [OF assms _ inv, of c RpAnswered])
    show "rp_active (Some RpAnswered)" if "rf_phase s b = Some RpWaiting" "rf_answer ?s' b = None" for b
      using answered [of b] that by (metis option.distinct(1))
    show "rf_answer ?s' c \<noteq> None" using answered [of c] r by blast
  qed (simp_all add: r flag)
next
  case False
  then have "refresh_step e s (RfTake c) = s" by (auto split: option.split refresh_phase.split)
  then show ?thesis using assms by (simp only:)
qed

lemma leader_inv_reset:
  assumes "leader_inv s" shows "leader_inv (refresh_step e s (RfReset c))"
proof (cases "rf_phase s c = Some RpAnswered")
  case True
  let ?s' = "rf_goto c RpWaiting (s\<lparr>rf_flag := False\<rparr>)"
  have step: "refresh_step e s (RfReset c) = ?s'" using True by simp
  have inv: "rf_inv ?s'"
    using refresh_step_inv [OF leader_invD(1) [OF assms], of e "RfReset c"] unfolding step .
  have wait: "rf_answer s b \<noteq> None" if w: "rf_phase s b = Some RpWaiting" for b
  proof
    assume none: "rf_answer s b = None"
    obtain d where d: "rp_active (rf_phase s d)" using leader_invD(4) [OF assms w none] by blast
    then have "d = c" using leader_invD(2) [OF assms, of d c] True by (simp add: rp_leads_def)
    then show False using d True by simp
  qed
  show ?thesis
    unfolding step
  proof (rule leader_inv_leader [OF assms _ inv, of c RpWaiting])
    show "rp_active (Some RpWaiting)" if "rf_phase s b = Some RpWaiting" "rf_answer ?s' b = None" for b
      using wait [of b] that by simp
    show "rf_answer ?s' c \<noteq> None" using leader_invD(5) [OF assms True] by simp
  qed (simp_all add: True)
qed (use assms in simp)

lemma leader_step_inv:
  assumes "leader_inv s" and "undisturbed s ev" shows "leader_inv (refresh_step e s ev)"
proof (cases ev)
  case (RfAsk c)
  then show ?thesis using assms by (simp only: leader_inv_ask)
next
  case (RfLoad c)
  then show ?thesis using assms leader_inv_load by blast
next
  case (RfStore c)
  then show ?thesis using assms by (simp only: leader_inv_store)
next
  case (RfTake c)
  then show ?thesis using assms by (simp only: leader_inv_take)
next
  case (RfReset c)
  then show ?thesis using assms by (simp only: leader_inv_reset)
next
  case (RfSend c)
  then show ?thesis using assms(1)
    by (auto intro!: leader_inv_goto leader_inv_attempted split: option.split refresh_phase.split)
next
  case (RfAnswer c r)
  have "token_inv (rf_token s)" using leader_invD(1) [OF assms(1)] by (simp add: rf_inv_def)
  then show ?thesis using assms(1) RfAnswer
    by (auto intro!: leader_inv_token leader_inv_attempted split: option.split refresh_phase.split sum.split)
next
  case (RfSignIn t)
  have "token_inv (rf_token s)" using leader_invD(1) [OF assms(1)] by (simp add: rf_inv_def)
  then show ?thesis using assms(1) RfSignIn by (simp add: leader_inv_token token_inv_set)
next
  case RfSignOut
  have "token_inv (rf_token s)" using leader_invD(1) [OF assms(1)] by (simp add: rf_inv_def)
  then show ?thesis using assms(1) RfSignOut by (simp add: leader_inv_token token_inv_unset)
qed

lemma rf_start_leader_inv [simp]: "token_inv ct \<Longrightarrow> leader_inv (rf_start ct)"
  by (simp add: leader_inv_def) (simp add: rf_start_def)

interpretation led: step_invariant "refresh_step e" undisturbed leader_inv for e
  by unfold_locales (rule leader_step_inv)

subsection \<open>A caller without others\<close>

text \<open>The accesses of a leader that nobody interrupts, with the answers of the server to its attempts from \<open>i\<close> on.\<close>

definition attempt_events :: "token_env \<Rightarrow> gotrue_server \<Rightarrow> nat \<Rightarrow> client_token \<Rightarrow> refresh_event list" where
  "attempt_events e srv c ct =
     RfSend c #
     (case ct_token ct of
        None \<Rightarrow> []
      | Some t \<Rightarrow> [RfAnswer c (gotrue_token_of (te_gd e) srv (te_gotrue_url e) (RefreshTokenGrant (gk_refresh_token t)))])"

fun leader_events :: "token_env \<Rightarrow> (nat \<Rightarrow> gotrue_server) \<Rightarrow> nat \<Rightarrow> nat \<Rightarrow> nat \<Rightarrow> client_token \<Rightarrow> refresh_event list" where
  "leader_events e srv c i 0 ct = attempt_events e (srv i) c ct"
| "leader_events e srv c i (Suc n) ct =
     attempt_events e (srv i) c ct @
     (case refresh_action (te_gd e) (srv i) (te_gotrue_url e) ct of
        (ct', Inr _) \<Rightarrow> []
      | (ct', Inl err) \<Rightarrow> if gotrue_is_network_error err then leader_events e srv c (Suc i) n ct' else [])"

lemma rf_goto_goto [simp]: "rf_goto c p (rf_goto c q s) = rf_goto c p s"
  by (simp add: rf_goto_def)

lemma rf_goto_token [simp]: "(rf_goto c p s)\<lparr>rf_token := ct\<rparr> = rf_goto c p (s\<lparr>rf_token := ct\<rparr>)"
  by (simp add: rf_goto_def)

lemma rf_token_same [simp]: "s\<lparr>rf_token := rf_token s\<rparr> = s"
  by (cases s) simp

lemma rf_attempted_goto [simp]: "rf_attempted e c i r (rf_goto c p s) = rf_attempted e c i r s"
  by (auto simp: rf_attempted_def Let_def split: sum.split)

lemma run_attempt:
  assumes "rf_phase s c = Some (RpLeading i)"
    and "refresh_action (te_gd e) srv (te_gotrue_url e) (rf_token s) = (ct', r)"
  shows "run (refresh_step e) s (attempt_events e srv c (rf_token s)) = rf_attempted e c i r (s\<lparr>rf_token := ct'\<rparr>)"
  using assms
  by (auto simp: attempt_events_def refresh_action_def split: option.splits sum.splits)

lemma refresh_action_keeps: "refresh_action gd srv base ct = (ct', Inl err) \<Longrightarrow> ct' = ct"
  by (auto simp: refresh_action_def split: option.splits sum.splits)

lemma rf_attempted_ended:
  assumes "case r of Inl err \<Rightarrow> \<not> gotrue_is_network_error err \<or> i = 4 | Inr _ \<Rightarrow> True"
    and "refresh_ended e (ct, r) = (ct', r')"
  shows "rf_attempted e c i r (s\<lparr>rf_token := ct\<rparr>) = rf_goto c (RpHolding r') (s\<lparr>rf_token := ct'\<rparr>)"
  using assms by (cases r) (auto simp: rf_attempted_def Let_def)

lemma run_leader:
  assumes "rf_phase s c = Some (RpLeading i)" and "i + n = 4"
    and "refresh_ended e (retry_refresh (te_gd e) srv (te_gotrue_url e) i n (rf_token s)) = (ct', r)"
  shows "run (refresh_step e) s (leader_events e srv c i n (rf_token s)) = rf_goto c (RpHolding r) (s\<lparr>rf_token := ct'\<rparr>)"
  using assms
proof (induction n arbitrary: s i)
  case 0
  obtain ct1 r1 where act: "refresh_action (te_gd e) (srv i) (te_gotrue_url e) (rf_token s) = (ct1, r1)" by force
  then show ?case
    using 0 by (simp add: run_attempt rf_attempted_ended split: sum.split)
next
  case (Suc n)
  obtain ct1 r1 where act: "refresh_action (te_gd e) (srv i) (te_gotrue_url e) (rf_token s) = (ct1, r1)" by force
  show ?case
  proof (cases "\<exists>err. r1 = Inl err \<and> gotrue_is_network_error err")
    case True
    then obtain err where err: "r1 = Inl err" "gotrue_is_network_error err" by blast
    have ct1: "ct1 = rf_token s" using act err(1) refresh_action_keeps by blast
    let ?s = "rf_goto c (RpLeading (Suc i)) s"
    have "rf_attempted e c i r1 s = ?s" using err Suc.prems(2) by (simp add: rf_attempted_def)
    then have "run (refresh_step e) s (leader_events e srv c i (Suc n) (rf_token s)) =
        run (refresh_step e) ?s (leader_events e srv c (Suc i) n (rf_token ?s))"
      using run_attempt [OF Suc.prems(1) act] act err ct1 by (simp add: run_append)
    also have "\<dots> = rf_goto c (RpHolding r) (?s\<lparr>rf_token := ct'\<rparr>)"
      using Suc.prems act err ct1 by (intro Suc.IH) simp_all
    finally show ?thesis by simp
  next
    case False
    then have ended: "refresh_ended e (ct1, r1) = (ct', r)"
      and rest: "leader_events e srv c i (Suc n) (rf_token s) = attempt_events e (srv i) c (rf_token s)"
      using Suc.prems(3) act by (auto split: sum.splits)
    show ?thesis
      unfolding rest run_attempt [OF Suc.prems(1) act]
      using False by (intro rf_attempted_ended [OF _ ended]) (auto split: sum.split)
  qed
qed

text \<open>A caller that is alone does what \<open>inner_refresh_token\<close> does, and gets its result.\<close>

definition lone_events :: "token_env \<Rightarrow> (nat \<Rightarrow> gotrue_server) \<Rightarrow> nat \<Rightarrow> client_token \<Rightarrow> refresh_event list" where
  "lone_events e srv c ct =
     [RfAsk c, RfLoad c, RfStore c] @ leader_events e srv c 0 4 ct @ [RfTake c, RfReset c]"

lemma lone_run:
  assumes "inner_refresh_token e srv ct = (ct', r)"
  shows "rf_token (run (refresh_step e) (rf_start ct) (lone_events e srv c ct)) = ct'"
    and "refresh_outcome e (run (refresh_step e) (rf_start ct) (lone_events e srv c ct)) c = r"
    and "\<not> rf_flag (run (refresh_step e) (rf_start ct) (lone_events e srv c ct))"
    and "rf_txs (run (refresh_step e) (rf_start ct) (lone_events e srv c ct)) = []"
proof -
  define s where "s = run (refresh_step e) (rf_start ct) [RfAsk c, RfLoad c, RfStore c]"
  have s': "s = rf_goto c (RpLeading 0) ((rf_start ct)\<lparr>rf_txs := [c], rf_flag := True\<rparr>)"
    by (simp add: s_def rf_start_def rf_goto_def)
  then have tok: "rf_token s = ct" and txs: "rf_txs s = [c]" by (simp_all add: rf_start_def)
  have "run (refresh_step e) s (leader_events e srv c 0 4 (rf_token s)) = rf_goto c (RpHolding r) (s\<lparr>rf_token := ct'\<rparr>)"
    using assms by (intro run_leader) (simp_all add: s' inner_refresh_token_def rf_start_def)
  then have "run (refresh_step e) (rf_start ct) (lone_events e srv c ct) =
      run (refresh_step e) (rf_goto c (RpHolding r) (s\<lparr>rf_token := ct'\<rparr>)) [RfTake c, RfReset c]"
    unfolding lone_events_def run_append s_def [symmetric] tok by (simp only:)
  then show "rf_token (run (refresh_step e) (rf_start ct) (lone_events e srv c ct)) = ct'"
    and "refresh_outcome e (run (refresh_step e) (rf_start ct) (lone_events e srv c ct)) c = r"
    and "\<not> rf_flag (run (refresh_step e) (rf_start ct) (lone_events e srv c ct))"
    and "rf_txs (run (refresh_step e) (rf_start ct) (lone_events e srv c ct)) = []"
    by (simp_all add: txs refresh_outcome_def)
qed

subsection \<open>Callers that nobody answers\<close>

fun is_ask :: "refresh_event \<Rightarrow> bool" where
  "is_ask (RfAsk _) = True"
| "is_ask _ = False"

definition all_wait :: "refresh_state \<Rightarrow> bool" where
  "all_wait s \<longleftrightarrow> (\<forall>c. rf_phase s c = None \<or> rf_phase s c = Some RpWaiting)"

lemma all_wait_step:
  assumes "all_wait s" and "\<not> is_ask ev"
  shows "rf_phase (refresh_step e s ev) = rf_phase s \<and> rf_answer (refresh_step e s ev) = rf_answer s"
proof -
  have "p = RpWaiting" if "rf_phase s c = Some p" for c p
    using assms(1) that unfolding all_wait_def by (metis option.distinct(1) option.inject)
  then show ?thesis using assms(2) by (cases ev) (auto split: option.split refresh_phase.split)
qed

lemma all_wait_run:
  assumes "all_wait s"
  shows "rf_answer (run (refresh_step e) s (filter (\<lambda>ev. \<not> is_ask ev) es)) = rf_answer s"
  using assms
proof (induction es arbitrary: s)
  case (Cons ev es)
  then show ?case
    using all_wait_step [OF Cons.prems, of ev e] by (auto simp: all_wait_def)
qed simp

end
