(* ===== verification/TokenProps.thy ===== *)
theory TokenProps
  imports TokenRefresh
begin

section \<open>Properties of the token of the client\<close>

text \<open>
  The sequences of calls of one client, the notifications that receivers of its token get, what a request is sent with,
  and the callers that refresh the token together.
\<close>

subsection \<open>The calls\<close>

datatype token_call =
    TcRestore string
  | TcSignInPassword gotrue_server cloud_server client_ctx string string
  | TcSignInWithUrl gotrue_server cloud_server client_ctx string
  | TcSignUp gotrue_server string string
  | TcSignOut gotrue_server
  | TcUpdateUser gotrue_server "nat \<Rightarrow> gotrue_server" cloud_server "unit json_api" int client_ctx update_user_params
  | TcRefresh "nat \<Rightarrow> gotrue_server"
  | TcRequest "nat \<Rightarrow> gotrue_server" int client_ctx

fun token_step :: "token_env \<Rightarrow> client_token \<Rightarrow> token_call \<Rightarrow> client_token" where
  "token_step e ct (TcRestore token) = fst (restore_token e token ct)"
| "token_step e ct (TcSignInPassword srv cloud x email pw) = fst (sign_in_password e srv cloud x email pw ct)"
| "token_step e ct (TcSignInWithUrl srv cloud x url) = fst (sign_in_with_url e srv cloud x url ct)"
| "token_step e ct (TcSignUp srv email pw) = fst (sign_up e srv email pw ct)"
| "token_step e ct (TcSignOut srv) = fst (sign_out e srv ct)"
| "token_step e ct (TcUpdateUser srv refresh cloud js now x p) = fst (update_user_of e srv refresh cloud js now x p ct)"
| "token_step e ct (TcRefresh srv) = fst (inner_refresh_token e srv ct)"
| "token_step e ct (TcRequest srv now x) = fst (http_client_with_auth e srv now x ct)"

lemma refresh_action_cases:
  "\<exists>r. refresh_action gd srv base ct = (ct, r) \<or> (\<exists>t. refresh_action gd srv base ct = (ct_set t ct, Inr ()))"
  by (auto simp: refresh_action_def split: option.split sum.split)

lemma retry_refresh_inv: "token_inv ct \<Longrightarrow> token_inv (fst (retry_refresh gd srv base i n ct))"
proof (induction n arbitrary: i ct)
  case 0
  then show ?case using refresh_action_cases [of gd "srv i" base ct] by auto
next
  case (Suc n)
  then show ?case using refresh_action_cases [of gd "srv i" base ct] by (auto split: sum.split)
qed

lemma refresh_ended_inv: "token_inv (fst p) \<Longrightarrow> token_inv (fst (refresh_ended e p))"
  by (cases p; cases "snd p") (auto simp: Let_def)

lemma inner_refresh_inv: "token_inv ct \<Longrightarrow> token_inv (fst (inner_refresh_token e srv ct))"
  by (simp add: inner_refresh_token_def refresh_ended_inv retry_refresh_inv)

lemma refresh_if_expired_inv: "token_inv ct \<Longrightarrow> token_inv (fst (refresh_if_expired e srv ts ct))"
  by (auto simp: refresh_if_expired_def inner_refresh_inv split: sum.split)

lemma http_client_with_auth_fst: "fst (http_client_with_auth e srv ts x ct) = fst (refresh_if_expired e srv ts ct)"
  by (auto simp: http_client_with_auth_def split: prod.split sum.split)

lemma update_user_of_fst:
  "\<exists>u. fst (update_user_of e srv refresh cloud js ts x p ct) = ct \<or>
     fst (update_user_of e srv refresh cloud js ts x p ct) = fst (refresh_if_expired e refresh ts (ct_put_user u ct))"
  unfolding http_client_with_auth_fst [of e refresh ts x, symmetric]
  by (simp add: update_user_of_def Let_def split: prod.split sum.split) (metis fst_conv)

lemma token_step_inv: "token_inv ct \<Longrightarrow> token_inv (token_step e ct c)"
proof (cases c)
  case (TcUpdateUser srv refresh cloud js now x p)
  assume "token_inv ct"
  then show ?thesis
    using update_user_of_fst [of e srv refresh cloud js now x p ct] TcUpdateUser
    by (auto simp: refresh_if_expired_inv)
qed (auto simp: restore_token_def sign_in_password_def sign_in_with_url_def sign_up_def sign_out_def
    inner_refresh_inv http_client_with_auth_fst refresh_if_expired_inv
    split: sum.split prod.split sign_up_response.split)

interpretation tok: step_invariant "token_step e" "\<lambda>_ _. True" token_inv for e
  by unfold_locales (rule token_step_inv)

lemma token_reachable: "token_inv (run (token_step e) ct_new cs)"
  by (rule tok.run_inv) simp_all

text \<open>What was sent is never taken back.\<close>

definition sent_extends :: "client_token \<Rightarrow> client_token \<Rightarrow> bool" where
  "sent_extends a b \<longleftrightarrow> (\<exists>xs. ct_sent b = ct_sent a @ xs)"

lemma sent_extends_refl [simp]: "sent_extends a a"
  by (simp add: sent_extends_def)

lemma sent_extends_trans: "sent_extends a b \<Longrightarrow> sent_extends b c \<Longrightarrow> sent_extends a c"
  by (auto simp: sent_extends_def)

lemma sent_extends_set [simp]: "sent_extends a (ct_set t a)"
  and sent_extends_unset [simp]: "sent_extends a (ct_unset a)"
  and sent_extends_put [simp]: "sent_extends a (ct_put_user u a)"
  by (auto simp: sent_extends_def ct_set_def ct_unset_def ct_put_user_def split: option.split)

lemma refresh_action_extends: "sent_extends ct (fst (refresh_action gd srv base ct))"
  using refresh_action_cases [of gd srv base ct] by auto

lemma retry_refresh_extends: "sent_extends ct (fst (retry_refresh gd srv base i n ct))"
proof (induction n arbitrary: i ct)
  case 0
  then show ?case by (simp add: refresh_action_extends)
next
  case (Suc n)
  obtain ct' r where "refresh_action gd (srv i) base ct = (ct', r)" by force
  then show ?case
    using refresh_action_extends [of ct gd "srv i" base] Suc [of ct' "Suc i"]
    by (auto split: sum.split intro: sent_extends_trans)
qed

lemma inner_refresh_extends: "sent_extends ct (fst (inner_refresh_token e srv ct))"
proof -
  obtain ct' r where "retry_refresh (te_gd e) srv (te_gotrue_url e) 0 4 ct = (ct', r)" by force
  then show ?thesis
    using retry_refresh_extends [of ct "te_gd e" srv "te_gotrue_url e" 0 4]
    by (cases r) (auto simp: inner_refresh_token_def Let_def intro: sent_extends_trans)
qed

lemma refresh_if_expired_extends: "sent_extends ct (fst (refresh_if_expired e srv ts ct))"
  by (auto simp: refresh_if_expired_def inner_refresh_extends split: sum.split)

lemma token_step_extends: "sent_extends ct (token_step e ct c)"
proof (cases c)
  case (TcUpdateUser srv refresh cloud js now x p)
  then show ?thesis
    using update_user_of_fst [of e srv refresh cloud js now x p ct]
      sent_extends_trans [OF sent_extends_put refresh_if_expired_extends]
    by auto
qed (auto simp: restore_token_def sign_in_password_def sign_in_with_url_def sign_up_def sign_out_def
    inner_refresh_extends http_client_with_auth_fst refresh_if_expired_extends
    split: sum.split prod.split sign_up_response.split)

lemma token_run_extends: "sent_extends ct (run (token_step e) ct cs)"
  by (induction cs arbitrary: ct) (auto intro: sent_extends_trans token_step_extends)

subsection \<open>What the server's answers do to the token\<close>

lemma refresh_action_None: "ct_token ct = None \<Longrightarrow> refresh_action gd srv base ct = (ct, Inl (GtNotLoggedIn ''fail to refresh user token''))"
  by (simp add: refresh_action_def)

lemma refresh_action_Some:
  "ct_token ct = Some t \<Longrightarrow> refresh_action gd srv base ct =
     (case gotrue_token_of gd srv base (RefreshTokenGrant (gk_refresh_token t)) of
        Inl err \<Rightarrow> (ct, Inl err) | Inr t' \<Rightarrow> (ct_set t' ct, Inr ()))"
  by (simp add: refresh_action_def)

text \<open>A refresh that succeeds: the attempts before it failed for the network.\<close>

lemma retry_refresh_ok:
  assumes "retry_refresh gd srv base i n ct = (ct', Inr u)"
  shows "\<exists>old k new. ct_token ct = Some old \<and> i \<le> k \<and> k \<le> i + n \<and> ct' = ct_set new ct \<and>
    gotrue_token_of gd (srv k) base (RefreshTokenGrant (gk_refresh_token old)) = Inr new \<and>
    (\<forall>j. i \<le> j \<and> j < k \<longrightarrow>
       (\<exists>err. gotrue_token_of gd (srv j) base (RefreshTokenGrant (gk_refresh_token old)) = Inl err \<and>
          gotrue_is_network_error err))"
  using assms
proof (induction n arbitrary: i)
  case 0
  then show ?case
    by (cases "ct_token ct") (auto simp: refresh_action_def split: sum.splits intro!: exI [of _ i])
next
  case (Suc n)
  obtain old where old: "ct_token ct = Some old"
    using Suc.prems by (cases "ct_token ct") (auto simp: refresh_action_None)
  let ?ask = "\<lambda>j. gotrue_token_of gd (srv j) base (RefreshTokenGrant (gk_refresh_token old))"
  show ?case
  proof (cases "?ask i")
    case (Inr new)
    then have "ct' = ct_set new ct" using Suc.prems by (simp add: refresh_action_Some [OF old])
    then show ?thesis using old Inr by - (rule exI [of _ old], rule exI [of _ i], rule exI [of _ new], auto)
  next
    case (Inl err)
    then have net: "gotrue_is_network_error err" and rest: "retry_refresh gd srv base (Suc i) n ct = (ct', Inr u)"
      using Suc.prems by (auto simp: refresh_action_Some [OF old] split: if_splits)
    obtain k new where k: "Suc i \<le> k" "k \<le> Suc i + n" "ct' = ct_set new ct" "?ask k = Inr new"
      and before: "\<forall>j. Suc i \<le> j \<and> j < k \<longrightarrow> (\<exists>err. ?ask j = Inl err \<and> gotrue_is_network_error err)"
      using Suc.IH [OF rest] old by auto
    have "\<exists>err. ?ask j = Inl err \<and> gotrue_is_network_error err" if "i \<le> j" "j < k" for j
      using that before Inl net by (cases "j = i") auto
    then show ?thesis using old k by - (rule exI [of _ old], rule exI [of _ k], rule exI [of _ new], simp)
  qed
qed

lemma inner_refresh_ok:
  assumes "inner_refresh_token e srv ct = (ct', Inr u)"
  shows "retry_refresh (te_gd e) srv (te_gotrue_url e) 0 4 ct = (ct', Inr ())"
proof -
  obtain c r where cr: "retry_refresh (te_gd e) srv (te_gotrue_url e) 0 4 ct = (c, r)" by force
  then show ?thesis
    using assms by (cases r) (auto simp: inner_refresh_token_def Let_def fail_app_def)
qed

text \<open>An attempt that failed and was not tried again, of a transport that gives no status.\<close>

lemma gotrue_token_not_unauthorized:
  assumes "\<And>q err. srv q = Inl err \<Longrightarrow> rq_status err \<noteq> Some 401"
    and "gotrue_token_of gd srv base g = Inl err"
  shows "\<not> is_unauthorized (app_error_of_gotrue err)"
proof (cases "srv (plain_request MPost (base @ ''/token?grant_type='' @ grant_type_as_str g) (GpJson (grant_json_value g)))")
  case (Inl e)
  then have "err = gotrue_error_of_reqwest (gd_wasm gd) e" and "rq_status e \<noteq> Some 401"
    using assms by (auto simp: gotrue_token_of_def gotrue_send_def)
  then show ?thesis by (auto simp: gotrue_error_of_reqwest_def)
next
  case (Inr resp)
  then show ?thesis using token_answer_not_unauthorized [OF Inr assms(2)] by simp
qed

lemma retry_refresh_failed:
  assumes "\<And>i q err. srv i q = Inl err \<Longrightarrow> rq_status err \<noteq> Some 401"
    and "retry_refresh gd srv base i n ct = (ct', Inl err)"
  shows "ct' = ct \<and> \<not> is_unauthorized (app_error_of_gotrue err)"
  using assms(2)
proof (induction n arbitrary: i)
  case 0
  then show ?case
    using gotrue_token_not_unauthorized [of "srv i", OF assms(1)]
    by (auto simp: refresh_action_def split: option.splits sum.splits)
next
  case (Suc n)
  then show ?case
    using gotrue_token_not_unauthorized [of "srv i", OF assms(1)]
    by (auto simp: refresh_action_def split: option.splits sum.splits if_splits)
qed

subsection \<open>A sample\<close>

text \<open>
  A server whose answers carry their content as one byte: a token answer is the time it expires at, and a body is
  refused with an error of its name.
\<close>

definition sample_user :: gotrue_user where
  "sample_user =
     \<lparr>gu_id = ''u'', gu_aud = [], gu_role = [], gu_email = ''u@x'', gu_email_confirmed_at = None, gu_invited_at = None,
      gu_phone = [], gu_phone_confirmed_at = None, gu_confirmation_sent_at = None, gu_confirmed_at = None,
      gu_recovery_sent_at = None, gu_new_email = None, gu_email_change_sent_at = None, gu_new_phone = None,
      gu_phone_change_sent_at = None, gu_reauthentication_sent_at = None, gu_last_sign_in_at = None,
      gu_app_metadata = JNull, gu_user_metadata = JNull, gu_factors = None, gu_identities = None, gu_created_at = [],
      gu_updated_at = [], gu_banned_until = None, gu_deleted_at = None\<rparr>"

definition sample_token :: "string \<Rightarrow> int \<Rightarrow> gotrue_token" where
  "sample_token access expires =
     \<lparr>gk_access_token = access, gk_token_type = ''bearer'', gk_expires_in = 3600, gk_expires_at = expires,
      gk_refresh_token = ''r'', gk_user = sample_user, gk_provider_access_token = None,
      gk_provider_refresh_token = None\<rparr>"

definition sample_gotrue :: gotrue_codec where
  "sample_gotrue =
     \<lparr>gd_wasm = False, gd_text = \<lparr>ht_status = show_nat, ht_body = \<lambda>_. []\<rparr>,
      gd_token = \<lambda>b. Inr (sample_token ''new'' (uint (b ! 0))), gd_user = \<lambda>_. Inr sample_user, gd_users = \<lambda>_. Inl [],
      gd_settings = \<lambda>_. Inl [], gd_sign_up = \<lambda>_. Inr (NotAuthenticated sample_user), gd_link = \<lambda>_. Inl [],
      gd_sso = \<lambda>_. Inl [], gd_sso_list = \<lambda>_. Inl [],
      gd_client_error = \<lambda>_. Inr \<lparr>gtc_error = ''invalid_grant'', gtc_error_description = None\<rparr>,
      gd_error_serde = \<lambda>_. Inl []\<rparr>"

definition sample_env :: token_env where
  "sample_env =
     \<lparr>te_vd = \<lambda>_. [], te_gd = sample_gotrue, te_gotrue_url = ''http://auth'',
      te_sign_in =
        \<lparr>js_encode = \<lambda>_. [],
         js_decode = \<lambda>_. Inr \<lparr>ar_data = Some \<lparr>sit_is_new = True\<rparr>, ar_code = EcOk, ar_message = []\<rparr>\<rparr>,
      te_readable = True, te_token_enc = \<lambda>_. [], te_token_dec = \<lambda>_. Inl [],
      te_url_fragment = \<lambda>url. Inr (map_option snd (split_once CHR ''#'' url)), te_append_pairs = \<lambda>url _. Inr url\<rparr>"

definition sample_ctx :: client_ctx where
  "sample_ctx =
     \<lparr>cc_base_url = ''http://cloud'', cc_ws_addr = [], cc_device_id = ''d'', cc_client_id = ''c'',
      cc_compression_quality = 8, cc_compression_buffer_size = 10240, cc_now = 0, cc_access_token = []\<rparr>"

definition answers :: "nat \<Rightarrow> bytes \<Rightarrow> 'q \<Rightarrow> reqwest_error + http_response" where
  "answers code body q = Inr \<lparr>hr_status = code, hr_headers = [], hr_body = body\<rparr>"

definition no_connection :: reqwest_error where
  "no_connection =
     \<lparr>rq_is_connect = True, rq_is_timeout = False, rq_is_request = True, rq_status = None, rq_text = ''no route''\<rparr>"

definition sample_client_token :: client_token where
  "sample_client_token = \<lparr>ct_token = Some (sample_token ''old'' 50), ct_sent = [TokenRefresh]\<rparr>"

lemmas sample_defs = sample_client_token_def sample_env_def sample_gotrue_def sample_token_def sample_user_def
  sample_ctx_def answers_def no_connection_def

subsection \<open>Properties of one caller\<close>

text \<open>whatever the client does with its token (restoring it, signing in by password or by URL, signing up or out,
  updating the user, refreshing, sending requests), a receiver that subscribed at some point gets the notifications sent
  since then, in order, and the last one tells whether the client has a token: it has none exactly when the last one is
  \<open>Invalid\<close>, and when none came the client has a token if and only if it had one at the subscription.\<close>

theorem receivers_know_whether_there_is_a_token:
  "let a = run (token_step e) ct_new cs;
       b = run (token_step e) a ds;
       got = drop (length (ct_sent a)) (ct_sent b)
   in ct_sent b = ct_sent a @ got \<and>
      (ct_token b = None) = (if got = [] then ct_token a = None else last got = TokenInvalid)"
proof -
  let ?a = "run (token_step e) ct_new cs"
  let ?b = "run (token_step e) ?a ds"
  have a: "token_inv ?a" by (rule token_reachable)
  have b: "token_inv ?b" using a by (rule tok.run_inv) simp
  obtain got where got: "ct_sent ?b = ct_sent ?a @ got"
    using token_run_extends [of ?a e ds] by (auto simp: sent_extends_def)
  have "(ct_token ?b = None) = (if got = [] then ct_token ?a = None else last got = TokenInvalid)"
    using a b unfolding token_inv_def got by (auto split: option.splits if_splits)
  then show ?thesis using got by (simp add: Let_def)
qed

text \<open>C11: a request is prepared only with a token at hand: it carries the access token the client holds afterwards and
  the time it was prepared at, and either the token still lives for 30 seconds and nothing was refreshed, or the client
  asked GoTrue with its refresh token, at most five times, all but the last attempt failing for the network, got a new
  token and kept the one that expires later.\<close>

theorem request_is_sent_with_a_refreshed_token:
  assumes "http_client_with_auth e srv ts x ct = (ct', Inr x')"
  shows "\<exists>old t. ct_token ct = Some old \<and> ct_token ct' = Some t \<and> gk_expires_at old \<le> gk_expires_at t \<and>
    x' = x\<lparr>cc_now := ts, cc_access_token := gk_access_token t\<rparr> \<and>
    (ts + 30 \<le> gk_expires_at old \<and> ct' = ct \<or>
     ts + 30 > gk_expires_at old \<and>
     (\<exists>k new. k \<le> 4 \<and> ct' = ct_set new ct \<and> gk_expires_at new \<le> gk_expires_at t \<and>
        gotrue_token_of (te_gd e) (srv k) (te_gotrue_url e) (RefreshTokenGrant (gk_refresh_token old)) = Inr new \<and>
        (\<forall>j<k. \<exists>err. gotrue_token_of (te_gd e) (srv j) (te_gotrue_url e) (RefreshTokenGrant (gk_refresh_token old)) = Inl err \<and>
           gotrue_is_network_error err)))"
proof -
  have re: "te_readable e" and "ct_token ct \<noteq> None"
    using assms by (auto simp: http_client_with_auth_def refresh_if_expired_def token_expires_at_def fail_app_def split: if_splits option.splits)
  then obtain old where old: "ct_token ct = Some old" by blast
  have exp: "token_expires_at e ct = Inr (gk_expires_at old)" by (simp add: token_expires_at_def re old)
  show ?thesis
  proof (cases "ts + 30 > gk_expires_at old")
    case True
    then obtain u where u: "inner_refresh_token e srv ct = (ct', Inr u)" and tok: "access_token_of e ct' = Inr (cc_access_token x')"
        "x' = x\<lparr>cc_now := ts, cc_access_token := cc_access_token x'\<rparr>"
      using assms by (auto simp: http_client_with_auth_def refresh_if_expired_def exp split: prod.splits sum.splits)
    obtain k new where k: "k \<le> 4" "ct' = ct_set new ct"
        "gotrue_token_of (te_gd e) (srv k) (te_gotrue_url e) (RefreshTokenGrant (gk_refresh_token old)) = Inr new"
        "\<forall>j<k. \<exists>err. gotrue_token_of (te_gd e) (srv j) (te_gotrue_url e) (RefreshTokenGrant (gk_refresh_token old)) = Inl err \<and>
           gotrue_is_network_error err"
      using retry_refresh_ok [OF inner_refresh_ok [OF u]] old by auto
    obtain t where t: "ct_token ct' = Some t" using ct_set_not_none k(2) by blast
    have "cc_access_token x' = gk_access_token t" using tok(1) t re by (simp add: access_token_of_def)
    moreover have "gk_expires_at new \<le> gk_expires_at t" "gk_expires_at old \<le> gk_expires_at t"
      using ct_set_expires [of new ct t] t k(2) old by auto
    ultimately show ?thesis
      using old t k tok(2) True by - (rule exI [of _ old], rule exI [of _ t], auto)
  next
    case False
    then show ?thesis
      using assms old re by (auto simp: http_client_with_auth_def refresh_if_expired_def exp access_token_of_def)
  qed
qed

theorem request_is_sent_with_a_refreshed_token_witness:
  "\<exists>old t. ct_token sample_client_token = Some old \<and> ct_token (ct_set (sample_token ''new'' 200) sample_client_token) = Some t \<and>
    gk_expires_at old \<le> gk_expires_at t"
proof -
  let ?srv = "\<lambda>i::nat. if i = 0 then (\<lambda>_. Inl no_connection) else answers 200 [200]"
  have "http_client_with_auth sample_env ?srv 40 sample_ctx sample_client_token =
      (ct_set (sample_token ''new'' 200) sample_client_token,
       Inr (sample_ctx\<lparr>cc_now := 40, cc_access_token := ''new''\<rparr>))"
    by code_simp
  from request_is_sent_with_a_refreshed_token [OF this] show ?thesis by blast
qed

text \<open>a refresh that fails leaves the token and its receivers alone, whatever the authentication server answered: the
  error of a refused refresh token is never the one that makes the client unset its token, as long as the transport's
  errors have no status.\<close>

theorem refused_refresh_keeps_the_token:
  assumes "\<And>i q err. srv i q = Inl err \<Longrightarrow> rq_status err \<noteq> Some 401"
    and "inner_refresh_token e srv ct = (ct', Inl err)"
  shows "ct' = ct"
proof -
  obtain c r where cr: "retry_refresh (te_gd e) srv (te_gotrue_url e) 0 4 ct = (c, r)" by force
  with assms(2) obtain err' where r: "r = Inl err'" by (cases r) (auto simp: inner_refresh_token_def)
  have "c = ct \<and> \<not> is_unauthorized (app_error_of_gotrue err')"
    using retry_refresh_failed [OF assms(1) cr [unfolded r]] .
  then show ?thesis using assms(2) by (simp add: inner_refresh_token_def cr r Let_def)
qed

theorem refused_refresh_keeps_the_token_witness:
  "fst (inner_refresh_token sample_env (\<lambda>_. answers 401 []) sample_client_token) = sample_client_token"
proof (rule refused_refresh_keeps_the_token [of "\<lambda>_. answers 401 []" sample_env sample_client_token _
    "\<lparr>re_code = EcOAuthError, re_message = ''error: invalid_grant, description: None''\<rparr>"])
  have "snd (inner_refresh_token sample_env (\<lambda>_. answers 401 []) sample_client_token) =
      Inl \<lparr>re_code = EcOAuthError, re_message = ''error: invalid_grant, description: None''\<rparr>"
    by code_simp
  then show "inner_refresh_token sample_env (\<lambda>_. answers 401 []) sample_client_token =
      (fst (inner_refresh_token sample_env (\<lambda>_. answers 401 []) sample_client_token),
       Inl \<lparr>re_code = EcOAuthError, re_message = ''error: invalid_grant, description: None''\<rparr>)"
    by (metis prod.collapse)
qed (simp add: answers_def)

text \<open>signing in as another user while a token is present that expires later reports success, and the client goes on
  with the old token and user: the new token is dropped and no receiver is notified.\<close>

theorem sign_in_may_keep_the_old_user:
  assumes "ct_token ct = Some old" and "gk_expires_at t < gk_expires_at old"
    and "gotrue_token_of (te_gd e) srv (te_gotrue_url e) (PasswordGrant email password) = Inr t"
    and "verify_token_cloud e cloud x (gk_access_token t) = Inr is_new"
  shows "sign_in_password e srv cloud x email password ct = (ct, Inr is_new)"
  using assms by (simp add: sign_in_password_def of_gotrue_def ct_set_def)

theorem sign_in_may_keep_the_old_user_witness:
  "sign_in_password sample_env (answers 200 [40]) (answers 200 []) sample_ctx ''v@x'' ''pw'' sample_client_token =
    (sample_client_token, Inr True)"
  by (rule sign_in_may_keep_the_old_user [of _ "sample_token ''old'' 50" "sample_token ''new'' 40"])
    (simp add: sample_client_token_def, simp add: sample_token_def, code_simp, code_simp)

lemma split_once_at: "c \<notin> set k \<Longrightarrow> split_once c (k @ c # v) = Some (k, v)"
  by (induction k) auto

definition documented_fragment :: "string \<Rightarrow> string \<Rightarrow> string \<Rightarrow> string" where
  "documented_fragment access provider refresh =
     ''access_token='' @ access @ ''&expires_in=3600&provider_token='' @ provider @ ''&refresh_token='' @ refresh @
     ''&token_type=bearer''"

lemma documented_fragment_split:
  assumes "CHR ''&'' \<notin> set access \<union> set provider \<union> set refresh"
  shows "split_on CHR ''&'' (documented_fragment access provider refresh) =
    [''access_token='' @ access, ''expires_in=3600'', ''provider_token='' @ provider, ''refresh_token='' @ refresh,
     ''token_type=bearer'']"
proof -
  have 1: "split_on CHR ''&'' (documented_fragment access provider refresh) =
      (''access_token='' @ access) # split_on CHR ''&'' (''expires_in=3600'' @ CHR ''&'' # (''provider_token='' @ provider) @
       CHR ''&'' # (''refresh_token='' @ refresh) @ CHR ''&'' # ''token_type=bearer'')"
    using split_on_append [of "CHR ''&''" "''access_token='' @ access"] assms by (simp add: documented_fragment_def)
  show ?thesis
    unfolding 1 using assms by (subst split_on_append; simp)+ 
qed

lemma documented_params:
  assumes "CHR ''&'' \<notin> set access \<union> set provider \<union> set refresh"
  shows "take_url_params e (split_on CHR ''&'' (documented_fragment access provider refresh)) no_url_params =
    Inr (no_url_params\<lparr>up_access_token := Some access, up_token_type := Some ''bearer'', up_expires_in := Some 3600,
      up_refresh_token := Some refresh\<rparr>)"
proof -
  have "parse_i64 ''3600'' = Some 3600" by code_simp
  then show ?thesis
    using split_once_at [of "CHR ''=''" "''access_token''"] split_once_at [of "CHR ''=''" "''provider_token''"]
      split_once_at [of "CHR ''=''" "''refresh_token''"]
    unfolding documented_fragment_split [OF assms] by (simp add: take_url_param_def no_url_params_def)
qed

text \<open>a URL of the form that the documentation of \<open>sign_in_with_url\<close> gives, without \<open>expires_at\<close>, is refused, after
  the user was created by the verification; the client keeps its token.\<close>

theorem documented_url_is_refused:
  assumes "te_url_fragment e url = Inr (Some (documented_fragment access provider refresh))"
    and "CHR ''&'' \<notin> set access \<union> set provider \<union> set refresh" and "access \<noteq> []"
    and "verify_token_of e srv cloud x access = Inr (user, new)"
  shows "sign_in_with_url e srv cloud x url ct = (ct, url_missing_param e ''expires_at'')"
  using assms(1,3,4) documented_params [OF assms(2), of e]
  by (simp add: sign_in_with_url_def sign_in_params_def or_missing_def token_of_params_def no_url_params_def
      url_missing_param_def fail_app_def)

theorem documented_url_is_refused_witness:
  "sign_in_with_url sample_env (answers 200 []) (answers 200 []) sample_ctx
     (''appflowy-flutter://#'' @ documented_fragment ''a'' ''p'' ''r'') ct_new =
   (ct_new, Inl \<lparr>re_code = EcInvalidRequest, re_message = ''Invalid request:Url Missing Parameter:expires_at''\<rparr>)"
proof -
  have v: "verify_token_of sample_env (answers 200 []) (answers 200 []) sample_ctx ''a'' = Inr (sample_user, True)"
    by code_simp
  have f: "te_url_fragment sample_env (''appflowy-flutter://#'' @ documented_fragment ''a'' ''p'' ''r'') =
      Inr (Some (documented_fragment ''a'' ''p'' ''r''))"
    by code_simp
  have e: "(url_missing_param sample_env ''expires_at'' :: app_response_error + bool) =
      Inl \<lparr>re_code = EcInvalidRequest, re_message = ''Invalid request:Url Missing Parameter:expires_at''\<rparr>"
    by code_simp
  show ?thesis using documented_url_is_refused [OF f _ _ v, of ct_new] unfolding e by simp
qed

subsection \<open>Properties of several callers\<close>

text \<open>when the leader of a refresh hands out its result, no caller that has asked before is left without an answer:
  each gets this result or has one already, however the accesses of the callers were interleaved up to then.\<close>

theorem every_sender_gets_the_result:
  assumes "token_inv ct" and "s = run (refresh_step e) (rf_start ct) es" and "rf_phase s l = Some (RpHolding r)"
  shows "rf_txs (refresh_step e s (RfTake l)) = [] \<and>
    (\<forall>c. rf_phase s c \<noteq> None \<longrightarrow>
       rf_answer (refresh_step e s (RfTake l)) c = Some (case rf_answer s c of None \<Rightarrow> r | Some r' \<Rightarrow> r'))"
proof -
  have "rf_inv s" unfolding assms(2) using assms(1) by (rule refresh_reachable)
  then show ?thesis
    using assms(3) by (auto simp: rf_inv_def split: option.split)
qed

theorem every_sender_gets_the_result_witness:
  "let s = run (refresh_step sample_env) (rf_start sample_client_token)
         [RfAsk 0, RfLoad 0, RfAsk 1, RfStore 0, RfSend 0, RfLoad 1, RfAnswer 0 (Inr (sample_token ''new'' 90))]
   in rf_answer (refresh_step sample_env s (RfTake 0)) 1 = Some (Inr ())"
proof -
  let ?s = "run (refresh_step sample_env) (rf_start sample_client_token)
      [RfAsk 0, RfLoad 0, RfAsk 1, RfStore 0, RfSend 0, RfLoad 1, RfAnswer 0 (Inr (sample_token ''new'' 90))]"
  have ct: "ct_token sample_client_token = Some (sample_token ''old'' 50)" "token_inv sample_client_token"
    by (simp_all add: sample_client_token_def token_inv_def)
  have s: "rf_phase ?s 0 = Some (RpHolding (Inr ()))" "rf_phase ?s 1 \<noteq> None" "rf_answer ?s 1 = None"
    by (simp_all add: rf_start_def ct rf_attempted_def)
  show ?thesis
    using every_sender_gets_the_result [OF ct(2) refl s(1)] s(2,3) unfolding Let_def by (metis option.simps(4))
qed



text \<open>a caller that asks after the results were handed out and looks at the flag before it is reset is forgotten: the
  refresh succeeded, nobody refreshes any more, and unless another caller asks it gets the error of the timeout.\<close>

definition forgotten_events :: "gotrue_token \<Rightarrow> refresh_event list" where
  "forgotten_events t =
     [RfAsk 0, RfLoad 0, RfStore 0, RfSend 0, RfAnswer 0 (Inr t), RfTake 0, RfAsk 1, RfLoad 1, RfReset 0]"

theorem late_caller_is_forgotten:
  "let s = run (refresh_step e) (rf_start \<lparr>ct_token = Some old, ct_sent = ns\<rparr>) (forgotten_events t);
       s' = run (refresh_step e) s (filter (\<lambda>ev. \<not> is_ask ev) es)
   in rf_txs s = [1] \<and> \<not> rf_flag s \<and> refresh_outcome e s' 0 = Inr () \<and>
      refresh_outcome e s' 1 = fail_app e (RequestTimeout ''refresh token timeout'')"
proof -
  let ?s = "run (refresh_step e) (rf_start \<lparr>ct_token = Some old, ct_sent = ns\<rparr>) (forgotten_events t)"
  have "rf_phase ?s = (\<lambda>_. None)(0 := Some RpWaiting, 1 := Some RpWaiting)" and ans: "rf_answer ?s 0 = Some (Inr ())" "rf_answer ?s 1 = None"
    and st: "rf_txs ?s = [1]" "\<not> rf_flag ?s"
    by (auto simp: forgotten_events_def rf_start_def rf_attempted_def)
  then have "all_wait ?s" by (simp add: all_wait_def)
  then show ?thesis using ans st unfolding Let_def refresh_outcome_def all_wait_run [OF \<open>all_wait ?s\<close>] by simp
qed

text \<open>C35: a caller without others beside it goes through the accesses of the protocol to the state and the result of the
  sequential \<open>inner_refresh_token\<close>, for every behaviour of the server over its attempts, and leaves the flag and the
  list of senders as they were.\<close>

theorem lone_caller_refreshes_sequentially:
  "let s = run (refresh_step e) (rf_start ct) (lone_events e srv c ct)
   in (rf_token s, refresh_outcome e s c) = inner_refresh_token e srv ct \<and> \<not> rf_flag s \<and> rf_txs s = []"
proof -
  obtain ct' r where "inner_refresh_token e srv ct = (ct', r)" by force
  then show ?thesis using lone_run [of e srv ct ct' r c] by (simp add: Let_def)
qed

text \<open>signing out while a refresh is under way does not last: the answer that arrives afterwards puts its token in
  place, so the client is signed in again and its receivers are told so.\<close>

theorem refresh_undoes_a_sign_out:
  "let s = run (refresh_step e) (rf_start \<lparr>ct_token = Some old, ct_sent = ns\<rparr>)
         [RfAsk c, RfLoad c, RfStore c, RfSend c, RfSignOut, RfAnswer c (Inr t)]
   in ct_token (rf_token s) = Some t \<and> ct_sent (rf_token s) = ns @ [TokenInvalid, TokenRefresh] \<and>
      rf_phase s c = Some (RpHolding (Inr ()))"
  by (simp add: rf_start_def rf_attempted_def ct_set_def ct_unset_def Let_def)

end
