(* ===== verification/WsClient.thy ===== *)
theory WsClient
  imports Realtime ClientSync
begin

section \<open>The websocket of the client\<close>

text \<open>
  \<open>libs/client-api/src/ws\<close> (\<open>client.rs\<close>, \<open>handler.rs\<close>, \<open>state.rs\<close>, \<open>error.rs\<close>) with \<open>native/ping.rs\<close> and
  \<open>retry_connect\<close> of \<open>native/retry.rs\<close>. Every call of \<open>connect\<close> has a number and its own tasks: one that receives, one
  that sends and one that pings. A step is what one of them does between two awaits; what the network does to it (the
  outcome of an attempt or of a write, a frame that arrives) comes with the step. The rate limiter only delays.
\<close>

subsection \<open>State and errors\<close>

record state_notify =
  sn_state :: connect_state
  sn_sent :: "connect_state list"

definition sn_new :: state_notify where
  "sn_new = \<lparr>sn_state = Closed, sn_sent = []\<rparr>"

definition sn_set :: "connect_state \<Rightarrow> state_notify \<Rightarrow> state_notify" where
  "sn_set st n = (if sn_state n \<noteq> st then \<lparr>sn_state = st, sn_sent = sn_sent n @ [st]\<rparr> else n)"

text \<open>The errors of the websocket library as far as they are told apart; the string is their text.\<close>

datatype ws_lib_error = LibConnectionClosed string | LibAlreadyClosed string | LibHttp nat string | LibOther string

datatype ws_error =
    TungsteniteError ws_lib_error
  | LostConnection string
  | AuthError string
  | WsInternal string

fun ws_error_of :: "ws_lib_error \<Rightarrow> ws_error" where
  "ws_error_of (LibConnectionClosed m) = LostConnection m"
| "ws_error_of (LibAlreadyClosed m) = LostConnection m"
| "ws_error_of (LibHttp status m) =
     (if status = 401 \<or> status = 404 then AuthError ''Unauthorized websocket connection''
      else TungsteniteError (LibHttp status m))"
| "ws_error_of (LibOther m) = TungsteniteError (LibOther m)"

fun handle_ws_error :: "ws_error \<Rightarrow> state_notify \<Rightarrow> state_notify" where
  "handle_ws_error (TungsteniteError _) n = n"
| "handle_ws_error (LostConnection _) n = sn_set Closed n"
| "handle_ws_error (AuthError _) n = sn_set Unauthorized n"
| "handle_ws_error (WsInternal _) n = n"

record ws_client_config =
  wf_buffer_capacity :: nat
  wf_ping_per_secs :: nat
  wf_retry_connect_per_pings :: nat

definition default_ws_client_config :: ws_client_config where
  "default_ws_client_config = \<lparr>wf_buffer_capacity = 2000, wf_ping_per_secs = 6, wf_retry_connect_per_pings = 10\<rparr>"

definition gen_rate_limiter :: "nat \<Rightarrow> nat" where
  "gen_rate_limiter times_per_sec = (if times_per_sec = 0 then 1 else times_per_sec)"

subsection \<open>Connections and channels\<close>

text \<open>
  A connection: the stop signal of its sending task, that task with its receiver of the broadcast channel (\<open>cn_queue\<close>;
  \<open>cn_lagged\<close> when older messages were overwritten), what it wrote to the websocket and handed to the HTTP sender, and
  the ping loop with its counter and the channel of capacity 1 that announces pongs.
\<close>

datatype conn_phase = CnConnecting | CnUp | CnFailed

record ws_conn =
  cn_addr :: string
  cn_phase :: conn_phase
  cn_stop :: bool
  cn_sending :: bool
  cn_lagged :: bool
  cn_stuck :: bool
  cn_queue :: "ws_frame list"
  cn_wire :: "ws_frame list"
  cn_posted :: "ws_frame list"
  cn_receiving :: bool
  cn_pinging :: bool
  cn_ping_stop :: bool
  cn_ping_count :: nat
  cn_pong :: bool

definition new_conn :: "string \<Rightarrow> ws_conn" where
  "new_conn addr =
     \<lparr>cn_addr = addr, cn_phase = CnConnecting, cn_stop = False, cn_sending = False, cn_lagged = False, cn_stuck = False,
      cn_queue = [], cn_wire = [], cn_posted = [], cn_receiving = False, cn_pinging = False, cn_ping_stop = False,
      cn_ping_count = 0, cn_pong = False\<rparr>"

record ws_channel =
  wh_object_id :: string
  wh_got :: "collab_message list"

record ws_client =
  wc_config :: ws_client_config
  wc_notify :: state_notify
  wc_addr :: "string option"
  wc_conns :: "nat \<rightharpoonup> ws_conn"
  wc_stop_tx :: "nat option"
  wc_ping :: "nat option"
  wc_next :: nat
  wc_live :: "nat \<rightharpoonup> ws_channel"
  wc_channels :: "string \<rightharpoonup> nat list"
  wc_users :: "user_message list"
  wc_rate :: nat

definition ws_client_new :: "ws_client_config \<Rightarrow> ws_client" where
  "ws_client_new cfg =
     \<lparr>wc_config = cfg, wc_notify = sn_new, wc_addr = None, wc_conns = Map.empty, wc_stop_tx = None, wc_ping = None,
      wc_next = 0, wc_live = Map.empty, wc_channels = Map.empty, wc_users = [], wc_rate = gen_rate_limiter 10\<rparr>"

definition set_ws_state :: "connect_state \<Rightarrow> ws_client \<Rightarrow> ws_client" where
  "set_ws_state st w = w\<lparr>wc_notify := sn_set st (wc_notify w)\<rparr>"

definition on_conn :: "nat \<Rightarrow> (ws_conn \<Rightarrow> ws_conn) \<Rightarrow> ws_client \<Rightarrow> ws_client" where
  "on_conn k f w = w\<lparr>wc_conns := (case wc_conns w k of None \<Rightarrow> wc_conns w | Some c \<Rightarrow> (wc_conns w)(k \<mapsto> f c))\<rparr>"

definition on_conn_opt :: "nat option \<Rightarrow> (ws_conn \<Rightarrow> ws_conn) \<Rightarrow> ws_client \<Rightarrow> ws_client" where
  "on_conn_opt k f w = (case k of None \<Rightarrow> w | Some k \<Rightarrow> on_conn k f w)"

subsection \<open>Sending\<close>

text \<open>
  The broadcast channel: each sending task has a receiver. A receiver that is \<open>buffer_capacity\<close> behind (rounded up to a
  power of two by the library, \<open>cap\<close>) loses the oldest message.
\<close>

definition cn_push :: "nat \<Rightarrow> ws_frame \<Rightarrow> ws_conn \<Rightarrow> ws_conn" where
  "cn_push cap m c =
     (if \<not> cn_sending c then c
      else if length (cn_queue c) < cap then c\<lparr>cn_queue := cn_queue c @ [m]\<rparr>
      else c\<lparr>cn_queue := tl (cn_queue c) @ [m], cn_lagged := True\<rparr>)"

definition ws_broadcast :: "nat \<Rightarrow> ws_frame \<Rightarrow> ws_client \<Rightarrow> ws_client" where
  "ws_broadcast cap m w = w\<lparr>wc_conns := (\<lambda>k. map_option (cn_push cap m) (wc_conns w k))\<rparr>"

text \<open>\<open>WSClient::send\<close> unwraps: without a receiver it panics, which is \<open>None\<close>. \<open>ks\<close> are the numbers of the connections.\<close>

definition ws_send :: "nat \<Rightarrow> nat list \<Rightarrow> ws_frame \<Rightarrow> ws_client \<Rightarrow> ws_client option" where
  "ws_send cap ks m w =
     (if list_ex (\<lambda>k. case wc_conns w k of Some c \<Rightarrow> cn_sending c | None \<Rightarrow> False) ks
      then Some (ws_broadcast cap m w) else None)"

fun frame_len :: "ws_frame \<Rightarrow> nat" where
  "frame_len (FrText s) = length s"
| "frame_len (FrBinary b) = length b"
| "frame_len (FrPing b) = length b"
| "frame_len (FrPong b) = length b"
| "frame_len FrClose = 0"

fun frame_is_binary :: "ws_frame \<Rightarrow> bool" where
  "frame_is_binary (FrBinary _) = True"
| "frame_is_binary _ = False"

definition via_http :: "ws_frame \<Rightarrow> bool" where
  "via_http m \<longleftrightarrow> frame_is_binary m \<and> frame_len m > 40960"

text \<open>
  The sending task takes its next message. \<open>Ok(msg) = rx.recv()\<close> does not match the error of a receiver that lags: the
  branch is disabled and \<open>select!\<close> waits for the stop signal alone (\<open>cn_stuck\<close>).
\<close>

definition send_next :: "nat \<Rightarrow> ws_lib_error option \<Rightarrow> ws_client \<Rightarrow> ws_client" where
  "send_next k fault w =
     (case wc_conns w k of
        None \<Rightarrow> w
      | Some c \<Rightarrow>
          if \<not> cn_sending c \<or> cn_stuck c then w
          else if cn_lagged c then on_conn k (\<lambda>c. c\<lparr>cn_stuck := True, cn_lagged := False\<rparr>) w
          else
            case cn_queue c of
              [] \<Rightarrow> w
            | m # q \<Rightarrow>
                if via_http m then on_conn k (\<lambda>c. c\<lparr>cn_queue := q, cn_posted := cn_posted c @ [m]\<rparr>) w
                else
                  case fault of
                    None \<Rightarrow> on_conn k (\<lambda>c. c\<lparr>cn_queue := q, cn_wire := cn_wire c @ [m]\<rparr>) w
                  | Some e \<Rightarrow>
                      let w' = w\<lparr>wc_notify := handle_ws_error (ws_error_of e) (wc_notify w)\<rparr>
                      in on_conn k (\<lambda>c. c\<lparr>cn_queue := [], cn_sending := False\<rparr>) w')"

definition send_stopped :: "nat \<Rightarrow> ws_client \<Rightarrow> ws_client" where
  "send_stopped k w =
     on_conn k (\<lambda>c. if cn_sending c \<and> cn_stop c then c\<lparr>cn_sending := False, cn_queue := []\<rparr> else c) w"

subsection \<open>Connecting and disconnecting\<close>

text \<open>\<open>connect\<close> up to the first attempt; \<open>k\<close> is the number of the call.\<close>

definition connect_begin :: "nat \<Rightarrow> string \<Rightarrow> ws_client \<Rightarrow> ws_client" where
  "connect_begin k addr w =
     (if wc_conns w k \<noteq> None then w
      else
        let w = set_ws_state Connecting w;
            w = on_conn_opt (wc_stop_tx w) (\<lambda>c. c\<lparr>cn_stop := True\<rparr>) w;
            w = w\<lparr>wc_stop_tx := Some k, wc_addr := Some addr\<rparr>;
            w = on_conn_opt (wc_ping w) (\<lambda>c. c\<lparr>cn_ping_stop := True\<rparr>) w
        in w\<lparr>wc_conns := (wc_conns w)(k \<mapsto> new_conn addr)\<rparr>)"

text \<open>
  \<open>RetryCondition\<close>: an error of the authorisation ends the attempts, the others are followed by another one while the
  address is still the current one; \<open>busy\<close> when the lock on the address is taken.
\<close>

definition should_retry_connect :: "bool \<Rightarrow> string option \<Rightarrow> string \<Rightarrow> ws_error \<Rightarrow> bool" where
  "should_retry_connect busy current addr err \<longleftrightarrow>
     (case err of AuthError _ \<Rightarrow> False | _ \<Rightarrow> \<not> busy \<and> current = Some addr)"

definition connect_attempt :: "nat \<Rightarrow> bool \<Rightarrow> ws_lib_error option \<Rightarrow> ws_client \<Rightarrow> ws_client" where
  "connect_attempt k busy fault w =
     (case wc_conns w k of
        None \<Rightarrow> w
      | Some c \<Rightarrow>
          if cn_phase c \<noteq> CnConnecting then w
          else
            case fault of
              None \<Rightarrow>
                let w = set_ws_state Connected w;
                    w = on_conn_opt (wc_ping w) (\<lambda>c. c\<lparr>cn_ping_stop := True\<rparr>) w
                in (on_conn k (\<lambda>c. c\<lparr>cn_phase := CnUp, cn_sending := True, cn_receiving := True, cn_pinging := True\<rparr>) w)
                     \<lparr>wc_ping := Some k\<rparr>
            | Some e \<Rightarrow>
                let err = ws_error_of e;
                    w = (case err of AuthError _ \<Rightarrow> set_ws_state Unauthorized w | _ \<Rightarrow> w)
                in if should_retry_connect busy (wc_addr w) (cn_addr c) err then w
                   else on_conn k (\<lambda>c. c\<lparr>cn_phase := CnFailed\<rparr>)
                          (w\<lparr>wc_notify := handle_ws_error err (wc_notify w)\<rparr>))"

definition ws_disconnect :: "nat \<Rightarrow> ws_client \<Rightarrow> ws_client" where
  "ws_disconnect cap w =
     (case wc_stop_tx w of
        None \<Rightarrow> w
      | Some k \<Rightarrow>
          let w = w\<lparr>wc_stop_tx := None\<rparr>;
              w = on_conn k (\<lambda>c. c\<lparr>cn_stop := True\<rparr>) w;
              w = ws_broadcast cap FrClose w
          in set_ws_state Closed (w\<lparr>wc_addr := None\<rparr>))"

subsection \<open>Pings\<close>

definition ping_tick :: "nat \<Rightarrow> nat \<Rightarrow> ws_client \<Rightarrow> ws_client" where
  "ping_tick cap k w =
     (case wc_conns w k of
        None \<Rightarrow> w
      | Some c \<Rightarrow>
          if \<not> cn_pinging c then w
          else
            let w = ws_broadcast cap (FrPing []) w
            in if cn_ping_count c \<ge> wf_retry_connect_per_pings (wc_config w) then set_ws_state PingTimeout w
               else on_conn k (\<lambda>c. c\<lparr>cn_ping_count := cn_ping_count c + 1\<rparr>) w)"

definition pong_read :: "nat \<Rightarrow> ws_client \<Rightarrow> ws_client" where
  "pong_read k w =
     (case wc_conns w k of
        None \<Rightarrow> w
      | Some c \<Rightarrow>
          if cn_pinging c \<and> cn_pong c
          then set_ws_state Connected (on_conn k (\<lambda>c. c\<lparr>cn_pong := False, cn_ping_count := 0\<rparr>) w)
          else w)"

definition ping_stopped :: "nat \<Rightarrow> ws_client \<Rightarrow> ws_client" where
  "ping_stopped k w = on_conn k (\<lambda>c. if cn_pinging c \<and> cn_ping_stop c then c\<lparr>cn_pinging := False\<rparr> else c) w"

subsection \<open>Channels and receiving\<close>

text \<open>
  A channel is held by the caller of \<open>subscribe_collab\<close>; the map of the client has weak references to it, by the numbers
  of the channels. \<open>forward_to_stream\<close> passes a message on to the streams of the channel.
\<close>

definition subscribe_collab :: "string \<Rightarrow> ws_client \<Rightarrow> ws_client \<times> nat" where
  "subscribe_collab oid w =
     (let ch = wc_next w;
          kept = (case wc_channels w oid of None \<Rightarrow> [] | Some chs \<Rightarrow> filter (\<lambda>c. wc_live w c \<noteq> None) chs)
      in (w\<lparr>wc_next := Suc ch, wc_live := (wc_live w)(ch \<mapsto> \<lparr>wh_object_id = oid, wh_got = []\<rparr>),
            wc_channels := (wc_channels w)(oid \<mapsto> kept @ [ch])\<rparr>, ch))"

definition drop_channel :: "nat \<Rightarrow> ws_client \<Rightarrow> ws_client" where
  "drop_channel ch w = w\<lparr>wc_live := (wc_live w)(ch := None)\<rparr>"

definition forward_to_stream :: "collab_message \<Rightarrow> nat \<Rightarrow> (nat \<rightharpoonup> ws_channel) \<Rightarrow> (nat \<rightharpoonup> ws_channel)" where
  "forward_to_stream m ch live =
     (case live ch of None \<Rightarrow> live | Some h \<Rightarrow> live(ch \<mapsto> h\<lparr>wh_got := wh_got h @ [m]\<rparr>))"

definition dispatch_collab :: "collab_message \<Rightarrow> ws_client \<Rightarrow> ws_client" where
  "dispatch_collab m w =
     (case wc_channels w (cm_object_id m) of
        None \<Rightarrow> w
      | Some chs \<Rightarrow> w\<lparr>wc_live := fold (forward_to_stream m) chs (wc_live w)\<rparr>)"

definition handle_realtime :: "realtime_message \<Rightarrow> ws_client \<Rightarrow> ws_client" where
  "handle_realtime msg w =
     (case msg of
        RtCollab m \<Rightarrow> dispatch_collab m w
      | RtUser u \<Rightarrow> w\<lparr>wc_users := wc_users w @ [u]\<rparr>
      | RtSystem (RateLimit limit) \<Rightarrow> w\<lparr>wc_rate := gen_rate_limiter (unat limit)\<rparr>
      | RtSystem KickOff \<Rightarrow> w)"

text \<open>A pong waits for the one before it to be taken by the ping loop; the frame is then not taken yet.\<close>

definition ws_receive :: "bincode \<Rightarrow> nat \<Rightarrow> nat \<Rightarrow> ws_frame \<Rightarrow> ws_client \<Rightarrow> ws_client" where
  "ws_receive bc cap k m w =
     (case wc_conns w k of
        None \<Rightarrow> w
      | Some c \<Rightarrow>
          if \<not> cn_receiving c then w
          else
            case m of
              FrBinary _ \<Rightarrow>
                (case realtime_of_frame bc m of Inl _ \<Rightarrow> w | Inr msg \<Rightarrow> handle_realtime msg w)
            | FrPing _ \<Rightarrow> ws_broadcast cap (FrPong []) w
            | FrPong _ \<Rightarrow> on_conn k (\<lambda>c. if cn_pinging c then c\<lparr>cn_pong := True\<rparr> else c) w
            | FrClose \<Rightarrow> w
            | FrText _ \<Rightarrow> w)"

definition receive_ended :: "nat \<Rightarrow> ws_client \<Rightarrow> ws_client" where
  "receive_ended k w = on_conn k (\<lambda>c. c\<lparr>cn_receiving := False\<rparr>) w"

text \<open>The sink of a channel sends to the websocket and passes over the error when nobody receives.\<close>

definition channel_send :: "bincode \<Rightarrow> nat \<Rightarrow> collab_message \<Rightarrow> ws_client \<Rightarrow> ws_client" where
  "channel_send bc cap m w = ws_broadcast cap (frame_of_realtime bc (RtCollab m)) w"

subsection \<open>The steps\<close>

datatype ws_event =
    WsConnect nat string
  | WsAttempt nat bool "ws_lib_error option"
  | WsDisconnect
  | WsSubscribe string
  | WsDrop nat
  | WsChannelSend collab_message
  | WsSendNext nat "ws_lib_error option"
  | WsSendStopped nat
  | WsReceive nat ws_frame
  | WsReceiveEnded nat
  | WsTick nat
  | WsPongRead nat
  | WsPingStopped nat

fun ws_step :: "bincode \<Rightarrow> nat \<Rightarrow> ws_client \<Rightarrow> ws_event \<Rightarrow> ws_client" where
  "ws_step bc cap w (WsConnect k addr) = connect_begin k addr w"
| "ws_step bc cap w (WsAttempt k busy fault) = connect_attempt k busy fault w"
| "ws_step bc cap w WsDisconnect = ws_disconnect cap w"
| "ws_step bc cap w (WsSubscribe oid) = fst (subscribe_collab oid w)"
| "ws_step bc cap w (WsDrop ch) = drop_channel ch w"
| "ws_step bc cap w (WsChannelSend m) = channel_send bc cap m w"
| "ws_step bc cap w (WsSendNext k fault) = send_next k fault w"
| "ws_step bc cap w (WsSendStopped k) = send_stopped k w"
| "ws_step bc cap w (WsReceive k m) = ws_receive bc cap k m w"
| "ws_step bc cap w (WsReceiveEnded k) = receive_ended k w"
| "ws_step bc cap w (WsTick k) = ping_tick cap k w"
| "ws_step bc cap w (WsPongRead k) = pong_read k w"
| "ws_step bc cap w (WsPingStopped k) = ping_stopped k w"

subsection \<open>What a step leaves alone\<close>

lemma set_ws_state_frame [simp]:
  "wc_conns (set_ws_state st w) = wc_conns w" "wc_channels (set_ws_state st w) = wc_channels w"
  "wc_live (set_ws_state st w) = wc_live w" "wc_next (set_ws_state st w) = wc_next w"
  "wc_addr (set_ws_state st w) = wc_addr w" "wc_config (set_ws_state st w) = wc_config w"
  "wc_stop_tx (set_ws_state st w) = wc_stop_tx w" "wc_ping (set_ws_state st w) = wc_ping w"
  "wc_notify (set_ws_state st w) = sn_set st (wc_notify w)"
  by (simp_all add: set_ws_state_def)

lemma on_conn_frame [simp]:
  "wc_notify (on_conn k f w) = wc_notify w" "wc_channels (on_conn k f w) = wc_channels w"
  "wc_live (on_conn k f w) = wc_live w" "wc_next (on_conn k f w) = wc_next w"
  "wc_addr (on_conn k f w) = wc_addr w" "wc_config (on_conn k f w) = wc_config w"
  "wc_stop_tx (on_conn k f w) = wc_stop_tx w" "wc_ping (on_conn k f w) = wc_ping w"
  by (simp_all add: on_conn_def)

lemma on_conn_opt_frame [simp]:
  "wc_notify (on_conn_opt k f w) = wc_notify w" "wc_channels (on_conn_opt k f w) = wc_channels w"
  "wc_live (on_conn_opt k f w) = wc_live w" "wc_next (on_conn_opt k f w) = wc_next w"
  "wc_addr (on_conn_opt k f w) = wc_addr w" "wc_config (on_conn_opt k f w) = wc_config w"
  "wc_stop_tx (on_conn_opt k f w) = wc_stop_tx w" "wc_ping (on_conn_opt k f w) = wc_ping w"
  by (simp_all add: on_conn_opt_def split: option.split)

lemma ws_broadcast_frame [simp]:
  "wc_notify (ws_broadcast cap m w) = wc_notify w" "wc_channels (ws_broadcast cap m w) = wc_channels w"
  "wc_live (ws_broadcast cap m w) = wc_live w" "wc_next (ws_broadcast cap m w) = wc_next w"
  "wc_addr (ws_broadcast cap m w) = wc_addr w" "wc_config (ws_broadcast cap m w) = wc_config w"
  "wc_stop_tx (ws_broadcast cap m w) = wc_stop_tx w" "wc_ping (ws_broadcast cap m w) = wc_ping w"
  by (simp_all add: ws_broadcast_def)

lemma on_conn_conns: "wc_conns (on_conn k f w) j = (if j = k then map_option f (wc_conns w k) else wc_conns w j)"
  by (auto simp: on_conn_def split: option.split)

lemma on_conn_opt_conns:
  "wc_conns (on_conn_opt k f w) j = (if k = Some j then map_option f (wc_conns w j) else wc_conns w j)"
  by (auto simp: on_conn_opt_def on_conn_conns split: option.split)

lemma ws_broadcast_conns [simp]: "wc_conns (ws_broadcast cap m w) j = map_option (cn_push cap m) (wc_conns w j)"
  by (simp add: ws_broadcast_def)

end
