(* ===== verification/WsProps.thy ===== *)
theory WsProps
  imports WsClient
begin

section \<open>Properties of the websocket of the client\<close>

text \<open>
  What the receivers of the connect state see, how a silent server is noticed, which channels a message reaches, what
  becomes of the messages that are sent, and the steps after a disconnection.
\<close>

subsection \<open>The notifications of the state\<close>

definition notify_inv :: "state_notify \<Rightarrow> bool" where
  "notify_inv n \<longleftrightarrow> sn_state n = last (Closed # sn_sent n) \<and> distinct_adj (Closed # sn_sent n)"

lemma notify_inv_new [simp]: "notify_inv sn_new"
  by (simp add: notify_inv_def sn_new_def)

lemma distinct_adj_snoc: "distinct_adj (x # xs) \<Longrightarrow> last (x # xs) \<noteq> y \<Longrightarrow> distinct_adj (x # xs @ [y])"
  by (induction xs arbitrary: x) auto

lemma notify_inv_set [simp, intro]: "notify_inv n \<Longrightarrow> notify_inv (sn_set st n)"
  using distinct_adj_snoc [of Closed "sn_sent n" st] by (auto simp: notify_inv_def sn_set_def)

lemma notify_inv_error [simp, intro]: "notify_inv n \<Longrightarrow> notify_inv (handle_ws_error err n)"
  by (cases err) auto

lemma handle_realtime_notify [simp]: "wc_notify (handle_realtime msg w) = wc_notify w"
  by (auto simp: handle_realtime_def dispatch_collab_def split: realtime_message.split system_message.split option.split)

lemma ws_step_notify: "notify_inv (wc_notify w) \<Longrightarrow> notify_inv (wc_notify (ws_step bc cap w ev))"
  by (cases ev)
    (auto simp: connect_begin_def connect_attempt_def ws_disconnect_def subscribe_collab_def drop_channel_def channel_send_def
      send_next_def send_stopped_def ws_receive_def receive_ended_def ping_tick_def pong_read_def ping_stopped_def Let_def
      split: option.split ws_frame.split sum.split list.split ws_error.split)

subsection \<open>The channels\<close>

definition chan_inv :: "ws_client \<Rightarrow> bool" where
  "chan_inv w \<longleftrightarrow>
     (\<forall>oid chs. wc_channels w oid = Some chs \<longrightarrow>
        distinct chs \<and> (\<forall>ch \<in> set chs. ch < wc_next w) \<and>
        (\<forall>ch \<in> set chs. \<forall>h. wc_live w ch = Some h \<longrightarrow> wh_object_id h = oid)) \<and>
     (\<forall>ch h. wc_live w ch = Some h \<longrightarrow>
        ch < wc_next w \<and> (\<exists>chs. wc_channels w (wh_object_id h) = Some chs \<and> ch \<in> set chs))"

lemma chan_invD:
  assumes "chan_inv w"
  shows "wc_channels w oid = Some chs \<Longrightarrow> distinct chs"
    and "wc_channels w oid = Some chs \<Longrightarrow> ch \<in> set chs \<Longrightarrow> ch < wc_next w"
    and "wc_channels w oid = Some chs \<Longrightarrow> ch \<in> set chs \<Longrightarrow> wc_live w ch = Some h \<Longrightarrow> wh_object_id h = oid"
    and "wc_live w ch = Some h \<Longrightarrow> ch < wc_next w"
    and "wc_live w ch = Some h \<Longrightarrow> \<exists>chs. wc_channels w (wh_object_id h) = Some chs \<and> ch \<in> set chs"
  using assms unfolding chan_inv_def by blast+

lemma chan_invI:
  assumes "\<And>oid chs. wc_channels w oid = Some chs \<Longrightarrow> distinct chs"
    and "\<And>oid chs ch. wc_channels w oid = Some chs \<Longrightarrow> ch \<in> set chs \<Longrightarrow> ch < wc_next w"
    and "\<And>oid chs ch h. wc_channels w oid = Some chs \<Longrightarrow> ch \<in> set chs \<Longrightarrow> wc_live w ch = Some h \<Longrightarrow> wh_object_id h = oid"
    and "\<And>ch h. wc_live w ch = Some h \<Longrightarrow> ch < wc_next w"
    and "\<And>ch h. wc_live w ch = Some h \<Longrightarrow> \<exists>chs. wc_channels w (wh_object_id h) = Some chs \<and> ch \<in> set chs"
  shows "chan_inv w"
  using assms unfolding chan_inv_def by blast

lemma chan_inv_same:
  "wc_channels w' = wc_channels w \<Longrightarrow> wc_live w' = wc_live w \<Longrightarrow> wc_next w' = wc_next w \<Longrightarrow> chan_inv w \<Longrightarrow> chan_inv w'"
  by (simp add: chan_inv_def)

lemma fold_forward:
  "distinct chs \<Longrightarrow> fold (forward_to_stream m) chs live ch =
     (if ch \<in> set chs then map_option (\<lambda>h. h\<lparr>wh_got := wh_got h @ [m]\<rparr>) (live ch) else live ch)"
  by (induction chs arbitrary: live) (auto simp: forward_to_stream_def split: option.split)

lemma dispatch_live:
  assumes "chan_inv w"
  shows "wc_live (dispatch_collab m w) ch =
    map_option (\<lambda>h. if wh_object_id h = cm_object_id m then h\<lparr>wh_got := wh_got h @ [m]\<rparr> else h) (wc_live w ch)"
proof (cases "wc_live w ch")
  case None
  then show ?thesis
    using fold_forward [OF chan_invD(1) [OF assms]] by (auto simp: dispatch_collab_def split: option.split)
next
  case (Some h)
  show ?thesis
  proof (cases "wh_object_id h = cm_object_id m")
    case True
    obtain chs where chs: "wc_channels w (cm_object_id m) = Some chs" "ch \<in> set chs"
      using chan_invD(5) [OF assms Some] True by auto
    then show ?thesis
      using fold_forward [OF chan_invD(1) [OF assms chs(1)]] Some True by (simp add: dispatch_collab_def)
  next
    case False
    then have "ch \<notin> set chs" if "wc_channels w (cm_object_id m) = Some chs" for chs
      using chan_invD(3) [OF assms that _ Some] by blast
    then show ?thesis
      using fold_forward [OF chan_invD(1) [OF assms]] Some False by (auto simp: dispatch_collab_def split: option.split)
  qed
qed

lemma dispatch_frame [simp]:
  "wc_channels (dispatch_collab m w) = wc_channels w" "wc_next (dispatch_collab m w) = wc_next w"
  by (simp_all add: dispatch_collab_def split: option.split)

lemma dispatch_inv:
  assumes "chan_inv w" shows "chan_inv (dispatch_collab m w)"
proof -
  have live: "\<exists>h'. wc_live w ch = Some h' \<and> wh_object_id h' = wh_object_id h"
    if "wc_live (dispatch_collab m w) ch = Some h" for ch h
    using that unfolding dispatch_live [OF assms] by auto
  show ?thesis
  proof (rule chan_invI)
    show "wh_object_id h = oid"
      if c: "wc_channels (dispatch_collab m w) oid = Some chs" "ch \<in> set chs" "wc_live (dispatch_collab m w) ch = Some h"
      for oid chs ch h
    proof -
      obtain h' where "wc_live w ch = Some h'" "wh_object_id h' = wh_object_id h" using live [OF c(3)] by blast
      then show ?thesis using chan_invD(3) [OF assms _ c(2), of oid h'] c(1) by simp
    qed
    show "ch < wc_next (dispatch_collab m w)" if "wc_live (dispatch_collab m w) ch = Some h" for ch h
      using live [OF that] chan_invD(4) [OF assms, of ch] by auto
    show "\<exists>chs. wc_channels (dispatch_collab m w) (wh_object_id h) = Some chs \<and> ch \<in> set chs"
      if "wc_live (dispatch_collab m w) ch = Some h" for ch h
      using live [OF that] chan_invD(5) [OF assms] by (metis dispatch_frame(1))
  qed (use chan_invD(1,2) [OF assms] in auto)
qed

lemma subscribe_inv:
  assumes "chan_inv w" shows "chan_inv (fst (subscribe_collab oid w))"
proof -
  have fresh: "wc_live w (wc_next w) = None" using chan_invD(4) [OF assms, of "wc_next w"] by fastforce
  have old: "ch \<noteq> wc_next w" if "wc_channels w o' = Some chs" "ch \<in> set chs" for o' chs ch
    using chan_invD(2) [OF assms that] by simp
  show ?thesis
  proof (rule chan_invI)
    show "distinct chs" if "wc_channels (fst (subscribe_collab oid w)) o' = Some chs" for o' chs
      using that chan_invD(1) [OF assms, of o'] chan_invD(1) [OF assms, of oid] old
      by (fastforce simp: subscribe_collab_def Let_def split: if_splits option.splits)
    show "ch < wc_next (fst (subscribe_collab oid w))"
      if "wc_channels (fst (subscribe_collab oid w)) o' = Some chs" "ch \<in> set chs" for o' chs ch
      using that chan_invD(2) [OF assms, of o'] chan_invD(2) [OF assms, of oid]
      by (fastforce simp: subscribe_collab_def Let_def split: if_splits option.splits)
    show "wh_object_id h = o'"
      if "wc_channels (fst (subscribe_collab oid w)) o' = Some chs" "ch \<in> set chs"
        "wc_live (fst (subscribe_collab oid w)) ch = Some h" for o' chs ch h
      using that chan_invD(3) [OF assms, of o'] chan_invD(3) [OF assms, of oid] old
      by (fastforce simp: subscribe_collab_def Let_def split: if_splits option.splits)
    show "ch < wc_next (fst (subscribe_collab oid w))" if "wc_live (fst (subscribe_collab oid w)) ch = Some h" for ch h
      using that chan_invD(4) [OF assms, of ch] by (auto simp: subscribe_collab_def Let_def less_SucI split: if_splits)
    show "\<exists>chs. wc_channels (fst (subscribe_collab oid w)) (wh_object_id h) = Some chs \<and> ch \<in> set chs"
      if "wc_live (fst (subscribe_collab oid w)) ch = Some h" for ch h
      using that chan_invD(5) [OF assms, of ch]
      by (fastforce simp: subscribe_collab_def Let_def split: if_splits)
  qed
qed

lemma drop_inv: "chan_inv w \<Longrightarrow> chan_inv (drop_channel ch w)"
  unfolding chan_inv_def drop_channel_def by (simp split: if_splits)

lemma handle_realtime_inv: "chan_inv w \<Longrightarrow> chan_inv (handle_realtime msg w)"
  by (auto simp: handle_realtime_def dispatch_inv split: realtime_message.split system_message.split
      intro: chan_inv_same [of _ w])

lemma ws_step_chan:
  assumes "chan_inv w" shows "chan_inv (ws_step bc cap w ev)"
proof (cases ev)
  case (WsConnect k addr)
  then show ?thesis using assms
    by (auto simp: connect_begin_def Let_def intro: chan_inv_same [of _ w])
next
  case (WsAttempt k busy fault)
  then show ?thesis using assms
    by (auto simp: connect_attempt_def Let_def intro: chan_inv_same [of _ w] split: option.split ws_error.split)
next
  case (WsSubscribe oid)
  then show ?thesis using assms by (simp only: ws_step.simps subscribe_inv)
next
  case (WsDrop ch)
  then show ?thesis using assms by (simp only: ws_step.simps drop_inv)
next
  case (WsReceive k m)
  then show ?thesis using assms
    by (auto simp: ws_receive_def handle_realtime_inv intro: chan_inv_same [of _ w]
        split: option.split ws_frame.split sum.split)
qed (use assms in \<open>auto simp: ws_disconnect_def channel_send_def send_next_def send_stopped_def receive_ended_def
      ping_tick_def pong_read_def ping_stopped_def Let_def intro: chan_inv_same [of _ w] split: option.split list.split\<close>)

definition ws_inv :: "ws_client \<Rightarrow> bool" where
  "ws_inv w \<longleftrightarrow> notify_inv (wc_notify w) \<and> chan_inv w"

lemma ws_inv_new [simp]: "ws_inv (ws_client_new cfg)"
  by (simp add: ws_inv_def ws_client_new_def chan_inv_def)

interpretation ws: step_invariant "ws_step bc cap" "\<lambda>_ _. True" ws_inv for bc cap
  by unfold_locales (simp add: ws_inv_def ws_step_notify ws_step_chan)

lemma ws_admissible: "admissible (\<lambda>_ _. True) step w es"
  by (induction es arbitrary: w) auto

lemma ws_reachable: "ws_inv (run (ws_step bc cap) (ws_client_new cfg) es)"
  by (rule ws.run_inv) (simp_all add: ws_admissible)

subsection \<open>The sending task\<close>

lemma send_next_head:
  assumes "wc_conns w k = Some c" and "cn_sending c" and "\<not> cn_stuck c" and "\<not> cn_lagged c" and "cn_queue c = m # q"
  shows "wc_conns (send_next k None w) k = Some
    (if via_http m then c\<lparr>cn_queue := q, cn_posted := cn_posted c @ [m]\<rparr>
     else c\<lparr>cn_queue := q, cn_wire := cn_wire c @ [m]\<rparr>)"
  using assms by (simp add: send_next_def on_conn_conns)

lemma send_drain:
  assumes "wc_conns w k = Some c" and "cn_sending c" and "\<not> cn_stuck c" and "\<not> cn_lagged c"
  shows "wc_conns (run (ws_step bc cap) w (replicate (length (cn_queue c)) (WsSendNext k None))) k = Some
    (c\<lparr>cn_queue := [], cn_wire := cn_wire c @ filter (\<lambda>m. \<not> via_http m) (cn_queue c),
       cn_posted := cn_posted c @ filter via_http (cn_queue c)\<rparr>)"
  using assms
proof (induction "cn_queue c" arbitrary: c w)
  case Nil
  then show ?case by (cases c) simp
next
  case (Cons m q)
  let ?c = "if via_http m then c\<lparr>cn_queue := q, cn_posted := cn_posted c @ [m]\<rparr>
     else c\<lparr>cn_queue := q, cn_wire := cn_wire c @ [m]\<rparr>"
  have "wc_conns (send_next k None w) k = Some ?c"
    using send_next_head [OF Cons.prems Cons.hyps(2) [symmetric]] .
  then have "wc_conns (run (ws_step bc cap) (send_next k None w) (replicate (length (cn_queue ?c)) (WsSendNext k None))) k = Some
    (?c\<lparr>cn_queue := [], cn_wire := cn_wire ?c @ filter (\<lambda>m. \<not> via_http m) (cn_queue ?c),
       cn_posted := cn_posted ?c @ filter via_http (cn_queue ?c)\<rparr>)"
    by (rule Cons.hyps(1) [rotated]) (use Cons.prems in simp_all)
  then show ?case by (cases "via_http m") (simp_all add: Cons.hyps(2) [symmetric])
qed

lemma push_all:
  assumes "wc_conns w k = Some c" and "cn_sending c" and "length (cn_queue c) + length ms \<le> cap"
  shows "wc_conns (run (ws_step bc cap) w (map WsChannelSend ms)) k = Some
    (c\<lparr>cn_queue := cn_queue c @ map (\<lambda>m. frame_of_realtime bc (RtCollab m)) ms\<rparr>)"
  using assms
proof (induction ms arbitrary: c w)
  case Nil
  then show ?case by (cases c) simp
next
  case (Cons m ms)
  let ?c = "c\<lparr>cn_queue := cn_queue c @ [frame_of_realtime bc (RtCollab m)]\<rparr>"
  have "wc_conns (channel_send bc cap m w) k = Some ?c"
    using Cons.prems by (simp add: channel_send_def cn_push_def)
  then have "wc_conns (run (ws_step bc cap) (channel_send bc cap m w) (map WsChannelSend ms)) k = Some
    (?c\<lparr>cn_queue := cn_queue ?c @ map (\<lambda>m. frame_of_realtime bc (RtCollab m)) ms\<rparr>)"
    by (rule Cons.IH) (use Cons.prems in simp_all)
  then show ?case by simp
qed

subsection \<open>A sending task that lags\<close>

definition quiet_conn :: "ws_frame list \<Rightarrow> ws_frame list \<Rightarrow> ws_conn \<Rightarrow> bool" where
  "quiet_conn wire posted c \<longleftrightarrow>
     cn_wire c = wire \<and> cn_posted c = posted \<and> cn_phase c \<noteq> CnConnecting \<and> (cn_sending c \<longrightarrow> cn_stuck c)"

definition silenced :: "nat \<Rightarrow> ws_frame list \<Rightarrow> ws_frame list \<Rightarrow> ws_client \<Rightarrow> bool" where
  "silenced k wire posted w \<longleftrightarrow> (case wc_conns w k of None \<Rightarrow> False | Some c \<Rightarrow> quiet_conn wire posted c)"

lemma handle_realtime_conns [simp]: "wc_conns (handle_realtime msg w) = wc_conns w"
  by (auto simp: handle_realtime_def dispatch_collab_def split: realtime_message.split system_message.split option.split)

lemma quiet_conn_simps [simp]:
  "quiet_conn wire posted (cn_push cap m c) = quiet_conn wire posted c"
  "quiet_conn wire posted (c\<lparr>cn_stop := b\<rparr>) = quiet_conn wire posted c"
  "quiet_conn wire posted (c\<lparr>cn_ping_stop := b\<rparr>) = quiet_conn wire posted c"
  "quiet_conn wire posted (c\<lparr>cn_pinging := b\<rparr>) = quiet_conn wire posted c"
  "quiet_conn wire posted (c\<lparr>cn_receiving := b\<rparr>) = quiet_conn wire posted c"
  "quiet_conn wire posted (c\<lparr>cn_ping_count := n\<rparr>) = quiet_conn wire posted c"
  "quiet_conn wire posted (c\<lparr>cn_pong := b\<rparr>) = quiet_conn wire posted c"
  "quiet_conn wire posted (c\<lparr>cn_pong := b, cn_ping_count := n\<rparr>) = quiet_conn wire posted c"
  by (simp_all add: quiet_conn_def cn_push_def)

lemma silenced_step:
  assumes "silenced k wire posted w" shows "silenced k wire posted (ws_step bc cap w ev)"
proof -
  obtain c where c: "wc_conns w k = Some c" "quiet_conn wire posted c"
    using assms by (auto simp: silenced_def split: option.splits)
  then have "cn_phase c \<noteq> CnConnecting" and "cn_sending c \<Longrightarrow> cn_stuck c"
    and stop: "quiet_conn wire posted (c\<lparr>cn_sending := False, cn_queue := []\<rparr>)"
    by (simp_all add: quiet_conn_def)
  then show ?thesis
    using c unfolding silenced_def
    by (cases ev)
      (auto simp: connect_begin_def connect_attempt_def ws_disconnect_def subscribe_collab_def drop_channel_def channel_send_def
        send_next_def send_stopped_def ws_receive_def receive_ended_def ping_tick_def pong_read_def ping_stopped_def Let_def
        on_conn_conns on_conn_opt_conns
        split: option.split ws_frame.split sum.split list.split ws_error.split)
qed

lemma silenced_run: "silenced k wire posted w \<Longrightarrow> silenced k wire posted (run (ws_step bc cap) w es)"
  by (induction es arbitrary: w) (simp_all add: silenced_step)

subsection \<open>Pings\<close>

lemma ping_tick_step:
  assumes "wc_conns w k = Some c" and "cn_pinging c"
  shows "\<exists>c'. wc_conns (ping_tick cap k w) k = Some c' \<and> cn_pinging c' \<and>
      cn_ping_count c' = (if cn_ping_count c \<ge> wf_retry_connect_per_pings (wc_config w) then cn_ping_count c else cn_ping_count c + 1)"
    and "wc_config (ping_tick cap k w) = wc_config w"
    and "sn_state (wc_notify (ping_tick cap k w)) =
      (if cn_ping_count c \<ge> wf_retry_connect_per_pings (wc_config w) then PingTimeout else sn_state (wc_notify w))"
  using assms by (simp_all add: ping_tick_def Let_def on_conn_conns cn_push_def sn_set_def)

lemma ping_ticks:
  assumes "wc_conns w k = Some c" and "cn_pinging c" and "cn_ping_count c \<le> wf_retry_connect_per_pings (wc_config w)"
  shows "sn_state (wc_notify (run (ws_step bc cap) w (replicate n (WsTick k)))) =
    (if cn_ping_count c + n > wf_retry_connect_per_pings (wc_config w) then PingTimeout else sn_state (wc_notify w))"
  using assms
proof (induction n arbitrary: c w)
  case (Suc n)
  obtain c' where c': "wc_conns (ping_tick cap k w) k = Some c'" "cn_pinging c'"
      "cn_ping_count c' = (if cn_ping_count c \<ge> wf_retry_connect_per_pings (wc_config w) then cn_ping_count c else cn_ping_count c + 1)"
    using ping_tick_step(1) [OF Suc.prems(1,2)] by blast
  have "cn_ping_count c' \<le> wf_retry_connect_per_pings (wc_config (ping_tick cap k w))"
    using Suc.prems(3) c'(3) ping_tick_step(2) [OF Suc.prems(1,2)] by simp
  from Suc.IH [OF c'(1,2) this] show ?case
    using Suc.prems(3) c'(3) ping_tick_step(2,3) [OF Suc.prems(1,2)] by auto
qed simp

subsection \<open>The properties\<close>

text \<open>whatever happens to the client, its receivers are told of every change of the connection and of nothing else:
  the last notification is the state, the state before the first one is \<open>Closed\<close>, and no two in a row are the same.\<close>

theorem connection_notifications_are_changes:
  "let n = wc_notify (run (ws_step bc cap) (ws_client_new cfg) es)
   in sn_state n = last (Closed # sn_sent n) \<and> distinct_adj (Closed # sn_sent n)"
  using ws_reachable [of bc cap cfg es] by (simp add: ws_inv_def notify_inv_def Let_def)


definition sample_frame_codec :: bincode where
  "sample_frame_codec =
     \<lparr>bc_serialize = \<lambda>_. Inr [7],
      bc_deserialize = \<lambda>_. Inr (RtCollab (AwarenessSync \<lparr>cw_object_id = ''o'', cw_payload = [1]\<rparr>))\<rparr>"

definition sample_up :: ws_client where
  "sample_up = run (ws_step sample_frame_codec 2) (ws_client_new default_ws_client_config)
     [WsConnect 0 ''ws://x'', WsSubscribe ''o'', WsSubscribe ''p'', WsAttempt 0 False None]"

lemma sample_up_conn: "wc_conns sample_up 0 = Some ((new_conn ''ws://x'')\<lparr>cn_phase := CnUp, cn_sending := True,
    cn_receiving := True, cn_pinging := True\<rparr>)"
  by (simp add: sample_up_def ws_client_new_def connect_begin_def connect_attempt_def subscribe_collab_def on_conn_def
      on_conn_opt_def set_ws_state_def new_conn_def Let_def)

lemma sample_up_config: "wc_config sample_up = default_ws_client_config"
  by (simp add: sample_up_def ws_client_new_def connect_begin_def connect_attempt_def subscribe_collab_def on_conn_def
      on_conn_opt_def set_ws_state_def Let_def)


text \<open>what the channels send while the connection has room for it leaves the client completely and in order: the large
  messages over HTTP, all others over the websocket, behind those that waited already.\<close>

theorem sent_messages_leave_in_order:
  assumes "wc_conns w k = Some c" and "cn_sending c" and "\<not> cn_stuck c" and "\<not> cn_lagged c"
    and "length (cn_queue c) + length ms \<le> cap"
    and "frames = cn_queue c @ map (\<lambda>m. frame_of_realtime bc (RtCollab m)) ms"
  shows "wc_conns (run (ws_step bc cap) w (map WsChannelSend ms @ replicate (length frames) (WsSendNext k None))) k = Some
    (c\<lparr>cn_queue := [], cn_wire := cn_wire c @ filter (\<lambda>m. \<not> via_http m) frames,
       cn_posted := cn_posted c @ filter via_http frames\<rparr>)"
proof -
  have "run (ws_step bc cap) w (map WsChannelSend ms @ replicate (length frames) (WsSendNext k None)) =
      run (ws_step bc cap) (run (ws_step bc cap) w (map WsChannelSend ms)) (replicate (length frames) (WsSendNext k None))"
    by (simp add: run_append)
  moreover have "wc_conns (run (ws_step bc cap) w (map WsChannelSend ms)) k = Some (c\<lparr>cn_queue := frames\<rparr>)"
    using push_all [OF assms(1,2,5)] assms(6) by simp
  ultimately show ?thesis
    using send_drain [of "run (ws_step bc cap) w (map WsChannelSend ms)" k "c\<lparr>cn_queue := frames\<rparr>" bc cap] assms(2-4)
    by simp
qed

theorem sent_messages_leave_in_order_witness:
  "map_option cn_wire (wc_conns (run (ws_step sample_frame_codec 2) sample_up
     ([WsChannelSend (AwarenessSync \<lparr>cw_object_id = ''o'', cw_payload = [1]\<rparr>)] @ [WsSendNext 0 None])) 0) =
   Some [FrBinary [7]]"
proof -
  have f: "[FrBinary [7]] = cn_queue ((new_conn ''ws://x'')\<lparr>cn_phase := CnUp, cn_sending := True,
      cn_receiving := True, cn_pinging := True\<rparr>) @ map (\<lambda>m. frame_of_realtime sample_frame_codec (RtCollab m))
      [AwarenessSync \<lparr>cw_object_id = ''o'', cw_payload = [1]\<rparr>]"
    by (simp add: frame_of_realtime_def bytes_of_realtime_def sample_frame_codec_def new_conn_def)
  show ?thesis
    using sent_messages_leave_in_order [OF sample_up_conn _ _ _ _ f, of 2]
    by (simp add: new_conn_def via_http_def del: run.simps ws_step.simps)
qed

text \<open>a server that answers no ping is noticed by the ping after the configured number: up to it the state stays as it
  is, from it on it is \<open>PingTimeout\<close>, and a pong makes it \<open>Connected\<close> again and starts the count over.\<close>

theorem silent_server_times_out:
  assumes "wc_conns w k = Some c" and "cn_pinging c" and "cn_ping_count c \<le> wf_retry_connect_per_pings (wc_config w)"
    and "cn_receiving c"
  shows "sn_state (wc_notify (run (ws_step bc cap) w (replicate n (WsTick k)))) =
      (if cn_ping_count c + n > wf_retry_connect_per_pings (wc_config w) then PingTimeout else sn_state (wc_notify w)) \<and>
      sn_state (wc_notify (run (ws_step bc cap) w [WsReceive k (FrPong []), WsPongRead k])) = Connected \<and>
      map_option cn_ping_count (wc_conns (run (ws_step bc cap) w [WsReceive k (FrPong []), WsPongRead k]) k) = Some 0"
  using assms ping_ticks [OF assms(1-3)]
  by (simp_all add: ws_receive_def pong_read_def on_conn_conns sn_set_def)

theorem silent_server_times_out_witness:
  "sn_state (wc_notify (run (ws_step sample_frame_codec 2) sample_up (replicate 11 (WsTick 0)))) = PingTimeout"
  using silent_server_times_out [OF sample_up_conn, of sample_frame_codec 2 11]
  unfolding sample_up_config by (simp add: new_conn_def default_ws_client_config_def del: run.simps replicate.simps)

text \<open>a sending task that fell behind by more than the capacity of its channel sends nothing any more, over no way and
  whatever happens afterwards, while the client goes on in the state it was in.\<close>

theorem lagging_sender_falls_silent:
  assumes "wc_conns w k = Some c" and "cn_phase c = CnUp" and "cn_sending c" and "cn_lagged c"
    and "w' = ws_step bc cap w (WsSendNext k fault)"
  shows "wc_notify w' = wc_notify w \<and>
    (\<exists>c'. wc_conns (run (ws_step bc cap) w' es) k = Some c' \<and> cn_wire c' = cn_wire c \<and> cn_posted c' = cn_posted c)"
proof (cases "cn_stuck c")
  case True
  then have "w' = w" using assms by (simp add: send_next_def)
  moreover have "silenced k (cn_wire c) (cn_posted c) w"
    using assms(1,2) True by (simp add: silenced_def quiet_conn_def)
  ultimately show ?thesis
    using silenced_run [of k "cn_wire c" "cn_posted c" w bc cap es]
    by (auto simp: silenced_def quiet_conn_def split: option.splits)
next
  case False
  then have w': "w' = on_conn k (\<lambda>c. c\<lparr>cn_stuck := True, cn_lagged := False\<rparr>) w"
    using assms by (simp add: send_next_def)
  then have "silenced k (cn_wire c) (cn_posted c) w'"
    using assms(1,2) by (simp add: silenced_def quiet_conn_def on_conn_conns)
  then show ?thesis
    using silenced_run [of k "cn_wire c" "cn_posted c" w' bc cap es] w'
    by (auto simp: silenced_def quiet_conn_def split: option.splits)
qed

theorem lagging_sender_falls_silent_witness:
  "\<exists>c. wc_conns (ws_step sample_frame_codec 2
       (run (ws_step sample_frame_codec 2) sample_up (replicate 3 (WsTick 0))) (WsSendNext 0 None)) 0 = Some c \<and> cn_wire c = []"
proof -
  let ?w = "run (ws_step sample_frame_codec 2) sample_up (replicate 3 (WsTick 0))"
  have c: "wc_conns ?w 0 = Some ((new_conn ''ws://x'')\<lparr>cn_phase := CnUp, cn_sending := True, cn_receiving := True,
      cn_pinging := True, cn_queue := [FrPing [], FrPing []], cn_lagged := True, cn_ping_count := 3\<rparr>)"
    using sample_up_conn sample_up_config
    by (simp add: numeral_3_eq_3 ping_tick_def Let_def on_conn_conns cn_push_def new_conn_def default_ws_client_config_def)
  show ?thesis
    using lagging_sender_falls_silent [OF c _ _ _ refl, of sample_frame_codec 2 None "[]"]
    by (auto simp add: new_conn_def simp del: replicate.simps)
qed

text \<open>a disconnection does not last: an attempt that succeeds after it, or a pong that was on its way, puts the client
  back to \<open>Connected\<close>, with no address and nothing left to disconnect, and its sending task ends, after which sending
  panics.\<close>

theorem disconnection_is_overridden:
  "let w = run (ws_step bc cap) (ws_client_new cfg) [WsConnect 0 a, WsDisconnect, WsAttempt 0 busy None, WsSendStopped 0];
       v = run (ws_step bc cap) (ws_client_new cfg)
             [WsConnect 0 a, WsAttempt 0 busy None, WsReceive 0 (FrPong []), WsDisconnect, WsSendStopped 0, WsPongRead 0]
   in (sn_state (wc_notify w) = Connected \<and> wc_addr w = None \<and> ws_disconnect cap w = w \<and> ws_send cap [0] m w = None) \<and>
      sn_state (wc_notify v) = Connected \<and> wc_addr v = None \<and> ws_disconnect cap v = v \<and> ws_send cap [0] m v = None"
  by (simp add: ws_client_new_def connect_begin_def ws_disconnect_def connect_attempt_def send_stopped_def ws_receive_def
      pong_read_def on_conn_def on_conn_opt_def set_ws_state_def sn_set_def sn_new_def new_conn_def ws_broadcast_def
      cn_push_def ws_send_def Let_def)

end
