(* ===== verification/Auth.thy ===== *)
theory Auth
  imports CollabApi
begin

section \<open>Authentication of the requests\<close>

text \<open>
  \<open>src/component/auth\<close> (\<open>jwt.rs\<close>, \<open>password.rs\<close>, \<open>user.rs\<close>, \<open>error.rs\<close>), \<open>token_state.rs\<close>, \<open>src/domain\<close>, the tokens of
  \<open>libs/token\<close>, the claims of \<open>libs/gotrue-entity/src/gotrue_jwt.rs\<close> and the handlers of \<open>src/api/user.rs\<close>: who a request
  comes from by the token of the authentication server, and the older registration and login with passwords. The JWT
  libraries, the password hash and the classification of characters are parameters; times are in milliseconds, those of
  a GoTrue token in seconds.
\<close>

subsection \<open>The claims of the authentication server\<close>

record jwt_amr =
  am_method :: string
  am_timestamp :: u64
  am_provider :: "string option"

record gotrue_jwt_claims =
  jc_aud :: "string option"
  jc_exp :: "int option"
  jc_jti :: "string option"
  jc_iat :: "int option"
  jc_iss :: "string option"
  jc_nbf :: "int option"
  jc_sub :: "string option"
  jc_email :: string
  jc_phone :: string
  jc_app_metadata :: json
  jc_user_metadata :: json
  jc_role :: string
  jc_aal :: "string option"
  jc_amr :: "jwt_amr list option"
  jc_session_id :: "string option"

datatype jwt_error = MissingRequiredClaim string | ExpiredSignature | JwtOther string

text \<open>\<open>decode\<close> of the library for a secret and a token (with \<open>VALIDATION\<close>), the text of its errors and of the claims.\<close>

record jwt_api =
  jw_decode :: "string \<Rightarrow> string \<Rightarrow> jwt_error + gotrue_jwt_claims"
  jw_text :: "jwt_error \<Rightarrow> string"
  jw_claims_text :: "gotrue_jwt_claims \<Rightarrow> string"
  jw_parse_uuid :: "string \<Rightarrow> string + string"

definition verify_claim :: "int \<Rightarrow> gotrue_jwt_claims \<Rightarrow> jwt_error + unit" where
  "verify_claim ts_now claims =
     (case jc_exp claims of
        None \<Rightarrow> Inl (MissingRequiredClaim ''expect exp but not found'')
      | Some ts_expiry \<Rightarrow> if ts_now > ts_expiry then Inl ExpiredSignature else Inr ())"

text \<open>The left results here are the texts of \<open>ErrorUnauthorized\<close>.\<close>

definition gotrue_jwt_claims_from_token :: "jwt_api \<Rightarrow> string \<Rightarrow> int \<Rightarrow> string \<Rightarrow> string + gotrue_jwt_claims" where
  "gotrue_jwt_claims_from_token jw secret ts_now token =
     res_bind (res_map_err (\<lambda>err. ''fail to decode token, error:'' @ jw_text jw err) (jw_decode jw secret token)) (\<lambda>claims.
     res_bind (res_map_err (\<lambda>err. ''fail to verify token, claims:'' @ jw_claims_text jw claims @ '', error:'' @ jw_text jw err)
        (verify_claim ts_now claims)) (\<lambda>_. Inr claims))"

record authorization =
  az_token :: string
  az_claims :: gotrue_jwt_claims

definition authorization_from_token :: "jwt_api \<Rightarrow> string \<Rightarrow> int \<Rightarrow> string \<Rightarrow> string + authorization" where
  "authorization_from_token jw secret ts_now token =
     res_bind (gotrue_jwt_claims_from_token jw secret ts_now token) (\<lambda>claims. Inr \<lparr>az_token = token, az_claims = claims\<rparr>)"

text \<open>\<open>str::split_once\<close> with a pattern: around its first occurrence.\<close>

fun split_once_str :: "string \<Rightarrow> string \<Rightarrow> (string \<times> string) option" where
  "split_once_str p [] = (if p = [] then Some ([], []) else None)"
| "split_once_str p (x # xs) =
     (if starts_with (x # xs) p then Some ([], drop (length p) (x # xs))
      else map_option (\<lambda>(a, b). (x # a, b)) (split_once_str p xs))"

definition get_auth_from_request ::
    "jwt_api \<Rightarrow> string \<Rightarrow> int \<Rightarrow> (string \<times> string) list \<Rightarrow> string + authorization" where
  "get_auth_from_request jw secret ts_now headers =
     (case header_get headers ''Authorization'' of
        None \<Rightarrow> Inl ''No Authorization header''
      | Some bearer \<Rightarrow>
          res_bind (header_str bearer) (\<lambda>bearer_str.
            case split_once_str ''Bearer '' bearer_str of
              None \<Rightarrow> Inl ''Invalid Authorization header, missing Bearer''
            | Some (_, token) \<Rightarrow> authorization_from_token jw secret ts_now token))"

definition authorization_uuid :: "jwt_api \<Rightarrow> authorization \<Rightarrow> string + string" where
  "authorization_uuid jw auth =
     (case jc_sub (az_claims auth) of
        None \<Rightarrow> Inl ''Invalid Authorization header, missing sub(uuid)''
      | Some sub \<Rightarrow>
          res_map_err (\<lambda>e. ''Invalid Authorization header, invalid sub(uuid): '' @ e) (jw_parse_uuid jw sub))"

definition user_uuid_from_request ::
    "jwt_api \<Rightarrow> string \<Rightarrow> int \<Rightarrow> (string \<times> string) list \<Rightarrow> string + string" where
  "user_uuid_from_request jw secret ts_now headers =
     res_bind (get_auth_from_request jw secret ts_now headers) (authorization_uuid jw)"

subsection \<open>Errors\<close>

datatype auth_error =
    InvalidCredentials string
  | UserNotExist string
  | UserAlreadyExist string
  | InvalidPassword
  | Unauthorized_user
  | InternalError string
  | InvalidUuid string

fun display_auth_error :: "auth_error \<Rightarrow> string" where
  "display_auth_error (InvalidCredentials _) = ''Credentials is invalid''"
| "display_auth_error (UserNotExist _) = ''User is not exist''"
| "display_auth_error (UserAlreadyExist email) = email @ '' is already used''"
| "display_auth_error InvalidPassword = ''Invalid password''"
| "display_auth_error Unauthorized_user = ''User is unauthorized''"
| "display_auth_error (InternalError _) = ''User internal error''"
| "display_auth_error (InvalidUuid err) = ''Parser uuid failed: '' @ err"

fun auth_error_status :: "auth_error \<Rightarrow> nat" where
  "auth_error_status (InvalidCredentials _) = 401"
| "auth_error_status (UserNotExist _) = 401"
| "auth_error_status (UserAlreadyExist _) = 400"
| "auth_error_status InvalidPassword = 401"
| "auth_error_status Unauthorized_user = 401"
| "auth_error_status (InternalError _) = 500"
| "auth_error_status (InvalidUuid _) = 401"

datatype input_params_error = InvalidNameParam string | InvalidEmailParam string | InvalidPasswordParam string | PasswordNotMatch

fun display_input_params_error :: "input_params_error \<Rightarrow> string" where
  "display_input_params_error (InvalidNameParam _) = ''Invalid name''"
| "display_input_params_error (InvalidEmailParam _) = ''Invalid email format''"
| "display_input_params_error (InvalidPasswordParam _) = ''Invalid password''"
| "display_input_params_error PasswordNotMatch = ''You entered two different new passwords''"

text \<open>How a handler fails: the status and the body of the response.\<close>

datatype handler_error = ErrUnauthorized string | ErrAuth auth_error | ErrParams input_params_error | ErrApp app_error

subsection \<open>Names, emails and passwords\<close>

text \<open>What the code asks of characters: white space, digits and word characters of a pattern, the count of graphemes, and
  the format of an email.\<close>

record char_api =
  ch_white :: "char \<Rightarrow> bool"
  ch_digit :: "char \<Rightarrow> bool"
  ch_word :: "char \<Rightarrow> bool"
  ch_graphemes :: "string \<Rightarrow> nat"
  ch_email :: "string \<Rightarrow> bool"

definition forbidden_characters :: "char set" where
  "forbidden_characters =
     {CHR ''/'', CHR ''('', CHR '')'', CHR 0x22, CHR ''<'', CHR ''>'', CHR 0x5C, CHR ''{'', CHR ''}''}"

definition user_name_parse :: "char_api \<Rightarrow> string \<Rightarrow> string + string" where
  "user_name_parse ca s =
     (if list_all (ch_white ca) s then Inl ''User name can not be empty or whitespace''
      else if ch_graphemes ca s > 256 then Inl ''User name is too long''
      else if list_ex (\<lambda>g. g \<in> forbidden_characters) s then Inl ''User name contains invalid characters''
      else Inr s)"

definition user_email_parse :: "char_api \<Rightarrow> string \<Rightarrow> string + string" where
  "user_email_parse ca s =
     (if list_all (ch_white ca) s then Inl ''Email can not be empty or whitespace''
      else if ch_email ca s then Inr s else Inl ''Invalid email'')"

text \<open>
  The pattern \<open>((?=.*\d)(?=.*[a-z])(?=.*[A-Z])(?=.*[\W]).{6,20})\<close>, tried at every position: a dot is any character but a
  newline, so the character after the dots may be the newline itself for \<open>\W\<close> only.
\<close>

definition password_at :: "char_api \<Rightarrow> string \<Rightarrow> bool" where
  "password_at ca s =
     (let line = takeWhile (\<lambda>c. c \<noteq> CHR 0x0A) s in
      list_ex (ch_digit ca) line \<and>
      list_ex (\<lambda>c. of_char CHR ''a'' \<le> (of_char c :: nat) \<and> (of_char c :: nat) \<le> of_char CHR ''z'') line \<and>
      list_ex (\<lambda>c. of_char CHR ''A'' \<le> (of_char c :: nat) \<and> (of_char c :: nat) \<le> of_char CHR ''Z'') line \<and>
      list_ex (\<lambda>c. \<not> ch_word ca c) (take (length line + 1) s) \<and> 6 \<le> length line)"

definition validate_password :: "char_api \<Rightarrow> string \<Rightarrow> bool" where
  "validate_password ca password \<longleftrightarrow> list_ex (\<lambda>i. password_at ca (drop i password)) [0..<length password]"

definition user_password_parse :: "char_api \<Rightarrow> string \<Rightarrow> string + string" where
  "user_password_parse ca s =
     (if list_all (ch_white ca) s then Inl ''User password can not be empty or whitespace''
      else if ch_graphemes ca s > 100 then Inl ''Password is too long''
      else if list_ex (\<lambda>g. g \<in> forbidden_characters) s then Inl ''Password contains invalid characters''
      else if \<not> validate_password ca s then Inl ''Password format invalid''
      else Inr s)"

subsection \<open>Tokens of the server\<close>

text \<open>\<open>libs/token\<close>: the signature library gives a text for a key, the data and the time it expires, and reads it back.\<close>

datatype token_error = TokenJwt string | TokenExpired

record legacy_claim =
  lc_iss :: string
  lc_uid :: i64

record hmac_api =
  hm_sign :: "string \<Rightarrow> legacy_claim \<times> int \<Rightarrow> string + string"
  hm_verify :: "string \<Rightarrow> string \<Rightarrow> string + legacy_claim \<times> int"

definition hmac_laws :: "hmac_api \<Rightarrow> bool" where
  "hmac_laws hm \<longleftrightarrow> (\<forall>key fields token. hm_sign hm key fields = Inr token \<longrightarrow> hm_verify hm key token = Inr fields)"

definition create_token :: "hmac_api \<Rightarrow> string \<Rightarrow> legacy_claim \<Rightarrow> int \<Rightarrow> int \<Rightarrow> token_error + string" where
  "create_token hm server_key data now expire_duration =
     res_map_err TokenJwt (hm_sign hm server_key (data, now + expire_duration))"

definition parse_token :: "hmac_api \<Rightarrow> string \<Rightarrow> int \<Rightarrow> string \<Rightarrow> token_error + legacy_claim" where
  "parse_token hm server_key now token =
     (case hm_verify hm server_key token of
        Inl e \<Rightarrow> Inl (TokenJwt e)
      | Inr (data, expire_at) \<Rightarrow> if expire_at < now then Inl TokenExpired else Inr data)"

definition EXPIRED_DURATION_DAYS :: int where "EXPIRED_DURATION_DAYS = 30"

definition HEADER_TOKEN :: string where "HEADER_TOKEN = ''token''"

definition claim_with_user_id :: "string \<Rightarrow> i64 \<Rightarrow> legacy_claim" where
  "claim_with_user_id domain uid = \<lparr>lc_iss = domain, lc_uid = uid\<rparr>"

definition token_create :: "hmac_api \<Rightarrow> string \<Rightarrow> string \<Rightarrow> int \<Rightarrow> i64 \<Rightarrow> auth_error + string" where
  "token_create hm domain server_key now uid =
     (case create_token hm server_key (claim_with_user_id domain uid) now (EXPIRED_DURATION_DAYS * 24 * 60 * 60 * 1000) of
        Inl (TokenJwt _) \<Rightarrow> Inl Unauthorized_user
      | Inl TokenExpired \<Rightarrow> Inl Unauthorized_user
      | Inr token \<Rightarrow> Inr token)"

definition decode_token :: "hmac_api \<Rightarrow> string \<Rightarrow> int \<Rightarrow> string \<Rightarrow> auth_error + legacy_claim" where
  "decode_token hm server_key now token = res_map_err (\<lambda>_. Unauthorized_user) (parse_token hm server_key now token)"

definition logged_user_from_token :: "hmac_api \<Rightarrow> string \<Rightarrow> int \<Rightarrow> string \<Rightarrow> auth_error + i64" where
  "logged_user_from_token hm server_key now token =
     res_bind (decode_token hm server_key now token) (\<lambda>c. Inr (lc_uid c))"

definition logged_user_from_request ::
    "hmac_api \<Rightarrow> string \<Rightarrow> int \<Rightarrow> (string \<times> string) list \<Rightarrow> auth_error + i64" where
  "logged_user_from_request hm server_key now headers =
     (case header_get headers HEADER_TOKEN of
        None \<Rightarrow> Inl Unauthorized_user
      | Some header \<Rightarrow>
          (case header_str header of
             Inr token_str \<Rightarrow> logged_user_from_token hm server_key now token_str
           | Inl _ \<Rightarrow> Inl Unauthorized_user))"

subsection \<open>Passwords\<close>

text \<open>
  The password hash: whether a text is a hash at all, whether a password belongs to it, and the hash of a password with
  the salt of that call. A statement of the database fails with its argument \<open>q\<close>.
\<close>

record hash_api =
  ph_valid :: "string \<Rightarrow> bool"
  ph_verify :: "string \<Rightarrow> string \<Rightarrow> bool"
  ph_hash :: "string \<Rightarrow> string + string"

definition dummy_password_hash :: string where
  "dummy_password_hash =
     ''$argon2id$v=19$m=15000,t=2,p=1$'' @ ''gZiV/M1gPc22ElAH/Jh1Hw$'' @ ''CWOrkoo7oJBQ/iyh7uJ0LO2aLEfrHwTWllSAxT0zRno''"

definition get_stored_credentials ::
    "sqlx_error option \<Rightarrow> string \<Rightarrow> accounts \<Rightarrow> auth_error + (i64 \<times> string) option" where
  "get_stored_credentials q email a =
     (case q of
        Some _ \<Rightarrow> Inl (InternalError ''Failed to performed a query to retrieve stored credentials.'')
      | None \<Rightarrow> Inr (map_option (\<lambda>u. (us_uid u, us_password u)) (find (\<lambda>u. us_email u = email) (ac_users a))))"

definition verify_password_hash :: "hash_api \<Rightarrow> string \<Rightarrow> string \<Rightarrow> auth_error + unit" where
  "verify_password_hash ph expected candidate =
     (if \<not> ph_valid ph expected then Inl (InternalError ''Failed to parse hash in PHC string format.'')
      else if ph_verify ph expected candidate then Inr () else Inl InvalidPassword)"

text \<open>\<open>joined\<close> is whether the blocking task of the verification ran to its end.\<close>

definition validate_credentials ::
    "hash_api \<Rightarrow> sqlx_error option \<Rightarrow> bool \<Rightarrow> string \<Rightarrow> string \<Rightarrow> accounts \<Rightarrow> auth_error + i64" where
  "validate_credentials ph q joined email password a =
     res_bind (get_stored_credentials q email a) (\<lambda>stored.
       let (uid, expected) =
             (case stored of Some (stored_uid, hash) \<Rightarrow> (Some stored_uid, hash) | None \<Rightarrow> (None, dummy_password_hash))
       in if \<not> joined then Inl (InternalError ''Failed to spawn blocking task.'')
          else res_bind (verify_password_hash ph expected password) (\<lambda>_.
            case uid of None \<Rightarrow> Inl (InvalidCredentials ''Unknown email.'') | Some u \<Rightarrow> Inr u))"

definition compute_hash_password :: "hash_api \<Rightarrow> string \<Rightarrow> auth_error + string" where
  "compute_hash_password ph password = res_map_err InternalError (ph_hash ph password)"

subsection \<open>Login and registration\<close>

record login_response =
  lr_token :: string
  lr_uid :: string

text \<open>What the handlers of this component need from the state of the server.\<close>

record auth_env =
  ae_chars :: char_api
  ae_hash :: hash_api
  ae_hmac :: hmac_api
  ae_domain :: string
  ae_server_key :: string

definition login ::
    "auth_env \<Rightarrow> sqlx_error option \<Rightarrow> bool \<Rightarrow> int \<Rightarrow> string \<Rightarrow> string \<Rightarrow> accounts \<Rightarrow> auth_error + login_response \<times> string" where
  "login ae q joined now email password a =
     res_bind (validate_credentials (ae_hash ae) q joined email password a) (\<lambda>uid.
     res_bind (token_create (ae_hmac ae) (ae_domain ae) (ae_server_key ae) now uid) (\<lambda>token.
       Inr (\<lparr>lr_token = token, lr_uid = show_int uid\<rparr>, token)))"

text \<open>
  \<open>INSERT INTO af_user (uid, email, name, password)\<close>: the column \<open>uuid\<close> of the table is \<open>NOT NULL\<close> without a default,
  and the statement does not give it.
\<close>

definition insert_user_row ::
    "i64 \<Rightarrow> string option \<Rightarrow> string \<Rightarrow> string \<Rightarrow> string \<Rightarrow> nat \<Rightarrow> accounts \<Rightarrow> sqlx_error + accounts" where
  "insert_user_row uid uuid email name password now a =
     (case uuid of
        None \<Rightarrow> Inl not_null_violation
      | Some u \<Rightarrow>
          if uid \<in> us_uid ` set (ac_users a) \<or> email \<in> us_email ` set (ac_users a) then Inl unique_violation
          else Inr (a\<lparr>ac_users := ac_users a @
                 [\<lparr>us_uid = uid, us_uuid = u, us_email = email, us_password = password, us_name = name,
                   us_metadata = Map.empty, us_encryption_sign = None, us_updated_at = now\<rparr>]\<rparr>))"

definition register ::
    "auth_env \<Rightarrow> txn \<Rightarrow> int \<Rightarrow> nat \<Rightarrow> i64 \<Rightarrow> string \<Rightarrow> string \<Rightarrow> string \<Rightarrow> accounts \<Rightarrow> accounts \<times> (auth_error + string)" where
  "register ae tx now stamp uid username email password a =
     (if \<not> tx_begin tx then (a, Inl (InternalError ''Failed to acquire a Postgres connection to register user''))
      else
        case tx_stmt tx 0 0 of
          Some err \<Rightarrow> (a, Inl (InternalError (display_sqlx_error err)))
        | None \<Rightarrow>
            if email \<in> us_email ` set (ac_users a) then (a, Inl (UserAlreadyExist email))
            else
              case res_bind (token_create (ae_hmac ae) (ae_domain ae) (ae_server_key ae) now uid) (\<lambda>token.
                   res_bind (compute_hash_password (ae_hash ae) password) (\<lambda>hash.
                   res_bind (case tx_stmt tx 0 1 of
                               Some _ \<Rightarrow> Inl (InternalError ''Save user to disk failed'')
                             | None \<Rightarrow>
                                 res_map_err (\<lambda>_. InternalError ''Save user to disk failed'')
                                   (insert_user_row uid None email username hash stamp a)) (\<lambda>a'.
                   if tx_commit tx then Inr (token, a')
                   else Inl (InternalError ''Failed to commit SQL transaction to register user.'')))) of
                Inl err \<Rightarrow> (a, Inl err)
              | Inr (token, a') \<Rightarrow> (a', Inr token))"

definition get_user_email :: "sqlx_error option \<Rightarrow> i64 \<Rightarrow> accounts \<Rightarrow> auth_error + string" where
  "get_user_email q uid a =
     (case q of
        Some _ \<Rightarrow> Inl (InternalError ''Failed to retrieve the user email`'')
      | None \<Rightarrow>
          (case find (\<lambda>u. us_uid u = uid) (ac_users a) of
             None \<Rightarrow> Inl (InternalError ''Failed to retrieve the user email`'')
           | Some u \<Rightarrow> Inr (us_email u)))"

text \<open>The update sets the time of the row by its trigger and notifies, as every update of the table.\<close>

definition set_password :: "i64 \<Rightarrow> string \<Rightarrow> nat \<Rightarrow> accounts \<Rightarrow> accounts" where
  "set_password uid hash stamp a =
     (let users = map (\<lambda>u. if us_uid u = uid then u\<lparr>us_password := hash, us_updated_at := stamp\<rparr> else u) (ac_users a)
      in a\<lparr>ac_users := users, ac_user_changes := ac_user_changes a @ filter (\<lambda>u. us_uid u = uid) users\<rparr>)"

definition change_password ::
    "auth_env \<Rightarrow> txn \<Rightarrow> sqlx_error option \<Rightarrow> bool \<Rightarrow> bool \<Rightarrow> nat \<Rightarrow> i64 \<Rightarrow> string \<Rightarrow> string \<Rightarrow> accounts \<Rightarrow>
     accounts \<times> (auth_error + unit)" where
  "change_password ae tx q joined hashed stamp uid current_password new_password a =
     (if \<not> tx_begin tx then (a, Inl (InternalError ''Failed to acquire a Postgres connection to change password''))
      else
        case res_bind (get_user_email (tx_stmt tx 0 0) uid a) (\<lambda>email.
             res_bind (validate_credentials (ae_hash ae) q joined email current_password a) (\<lambda>_.
             if \<not> hashed then Inl (InternalError ''Failed to hash password'')
             else res_bind (compute_hash_password (ae_hash ae) new_password) (\<lambda>hash.
             case tx_stmt tx 0 1 of
               Some _ \<Rightarrow> Inl (InternalError ''Failed to change user's password in the database.'')
             | None \<Rightarrow>
                 if tx_commit tx then Inr (set_password uid hash stamp a)
                 else Inl (InternalError ''Failed to commit SQL transaction to change user's password'')))) of
          Inl err \<Rightarrow> (a, Inl err)
        | Inr a' \<Rightarrow> (a', Inr ()))"

subsection \<open>The handlers of users\<close>

text \<open>The session of a browser: \<open>renew\<close> keeps its state under a new key, \<open>insert_token\<close> may fail and is then only logged.\<close>

record browser_session =
  bs_renewed :: nat
  bs_token :: "string option"

definition session_renew :: "browser_session \<Rightarrow> browser_session" where
  "session_renew b = b\<lparr>bs_renewed := bs_renewed b + 1\<rparr>"

definition session_insert_token :: "bool \<Rightarrow> string \<Rightarrow> browser_session \<Rightarrow> browser_session" where
  "session_insert_token stored token b = (if stored then b\<lparr>bs_token := Some token\<rparr> else b)"

definition session_log_out :: "browser_session \<Rightarrow> browser_session" where
  "session_log_out b = b\<lparr>bs_token := None\<rparr>"

definition params_error :: "(string \<Rightarrow> input_params_error) \<Rightarrow> string + 'a \<Rightarrow> handler_error + 'a" where
  "params_error h r = res_map_err (\<lambda>m. ErrParams (h m)) r"

definition login_handler ::
    "auth_env \<Rightarrow> sqlx_error option \<Rightarrow> bool \<Rightarrow> bool \<Rightarrow> int \<Rightarrow> string \<Rightarrow> string \<Rightarrow> browser_session \<Rightarrow> accounts \<Rightarrow>
     browser_session \<times> (handler_error + login_response)" where
  "login_handler ae q joined stored now email password b a =
     (case res_bind (params_error InvalidEmailParam (user_email_parse (ae_chars ae) email)) (\<lambda>email.
           res_bind (params_error InvalidPasswordParam (user_password_parse (ae_chars ae) password)) (\<lambda>password.
             res_map_err ErrAuth (login ae q joined now email password a))) of
        Inl err \<Rightarrow> (b, Inl err)
      | Inr (resp, token) \<Rightarrow> (session_insert_token stored token (session_renew b), Inr resp))"

definition register_handler ::
    "auth_env \<Rightarrow> txn \<Rightarrow> int \<Rightarrow> nat \<Rightarrow> i64 \<Rightarrow> string \<Rightarrow> string \<Rightarrow> string \<Rightarrow> accounts \<Rightarrow> accounts \<times> (handler_error + string)" where
  "register_handler ae tx now stamp uid name email password a =
     (case res_bind (params_error InvalidNameParam (user_name_parse (ae_chars ae) name)) (\<lambda>name.
           res_bind (params_error InvalidEmailParam (user_email_parse (ae_chars ae) email)) (\<lambda>email.
           res_bind (params_error InvalidPasswordParam (user_password_parse (ae_chars ae) password)) (\<lambda>password.
             Inr (name, email, password)))) of
        Inl err \<Rightarrow> (a, Inl err)
      | Inr (name, email, password) \<Rightarrow>
          (case register ae tx now stamp uid name email password a of
             (a', r) \<Rightarrow> (a', res_map_err ErrAuth r)))"

record change_password_request =
  cpr_current_password :: string
  cpr_new_password :: string
  cpr_new_password_confirm :: string

definition change_password_handler ::
    "auth_env \<Rightarrow> txn \<Rightarrow> sqlx_error option \<Rightarrow> bool \<Rightarrow> bool \<Rightarrow> int \<Rightarrow> nat \<Rightarrow> (string \<times> string) list \<Rightarrow>
     change_password_request \<Rightarrow> accounts \<Rightarrow> accounts \<times> (handler_error + unit)" where
  "change_password_handler ae tx q joined hashed now stamp headers payload a =
     (case res_map_err ErrAuth (logged_user_from_request (ae_hmac ae) (ae_server_key ae) now headers) of
        Inl err \<Rightarrow> (a, Inl err)
      | Inr logged_user \<Rightarrow>
          if cpr_new_password payload \<noteq> cpr_new_password_confirm payload then (a, Inl (ErrParams PasswordNotMatch))
          else
            case params_error InvalidPasswordParam (user_password_parse (ae_chars ae) (cpr_new_password payload)) of
              Inl err \<Rightarrow> (a, Inl err)
            | Inr new_password \<Rightarrow>
                (case change_password ae tx q joined hashed stamp logged_user (cpr_current_password payload) new_password a of
                   (a', r) \<Rightarrow> (a', res_map_err ErrAuth r)))"

text \<open>The handlers for the users of the authentication server; \<open>secret\<close> and \<open>ts_now\<close> serve to read the token.\<close>

definition verify_user_handler ::
    "collab_api \<Rightarrow> 'e casbin_api \<Rightarrow> (nat \<Rightarrow> faults) \<Rightarrow> txn \<Rightarrow> nat \<Rightarrow> (string \<Rightarrow> app_error + user_info) \<Rightarrow> i64 \<Rightarrow> string \<Rightarrow>
     string \<Rightarrow> app_error + template list \<Rightarrow> string \<Rightarrow> 'e cloud \<Rightarrow> 'e cloud \<times> (handler_error + bool)" where
  "verify_user_handler ce api f tx now info new_uid w sid templates access_token s =
     (case verify_token ce api f tx now (info access_token) new_uid w sid templates s of
        (s', r) \<Rightarrow> (s', res_map_err ErrApp r))"

definition get_user_profile_handler ::
    "jwt_api \<Rightarrow> string \<Rightarrow> int \<Rightarrow> sqlx_error option \<Rightarrow> (string \<times> string) list \<Rightarrow> 'e cloud \<Rightarrow> handler_error + af_user_profile" where
  "get_user_profile_handler jw secret ts_now q headers s =
     res_bind (res_map_err ErrUnauthorized (user_uuid_from_request jw secret ts_now headers)) (\<lambda>uuid.
       res_map_err ErrApp (get_profile q uuid s))"

text \<open>\<open>None\<close> is the panic of the workspace information.\<close>

definition get_user_workspace_info_handler ::
    "jwt_api \<Rightarrow> string \<Rightarrow> int \<Rightarrow> txn \<Rightarrow> nat \<Rightarrow> (string \<times> string) list \<Rightarrow> 'e cloud \<Rightarrow>
     (handler_error + af_user_workspace_info) option" where
  "get_user_workspace_info_handler jw secret ts_now tx now headers s =
     (case user_uuid_from_request jw secret ts_now headers of
        Inl m \<Rightarrow> Some (Inl (ErrUnauthorized m))
      | Inr uuid \<Rightarrow>
          (case get_user_workspace_info tx now uuid s of
             Panicked \<Rightarrow> None
           | Served r \<Rightarrow> Some (res_map_err ErrApp r)))"

definition update_user_handler ::
    "jwt_api \<Rightarrow> string \<Rightarrow> int \<Rightarrow> sqlx_error option \<Rightarrow> nat \<Rightarrow> (string \<times> string) list \<Rightarrow> update_user_params \<Rightarrow> 'e cloud \<Rightarrow>
     'e cloud \<times> (handler_error + unit)" where
  "update_user_handler jw secret ts_now q now headers params s =
     (case res_bind (get_auth_from_request jw secret ts_now headers) (authorization_uuid jw) of
        Inl m \<Rightarrow> (s, Inl (ErrUnauthorized m))
      | Inr uuid \<Rightarrow>
          (case cloud_update_user q now uuid (uu_name params) (uu_email params)
                  (map_option map_of (uu_metadata params)) s of
             (s', r) \<Rightarrow> (s', res_map_err ErrApp r)))"

end
