(* ===== verification/AuthProps.thy ===== *)
theory AuthProps
  imports Auth AccountProps
begin

section \<open>Properties of the authentication\<close>

text \<open>
  What an authenticated request proves, how long the tokens of the server last, and what the login with passwords does on
  the tables that the rest of the server fills.
\<close>

subsection \<open>Requests\<close>

lemma split_once_str_Some: "split_once_str p xs = Some (a, b) \<Longrightarrow> xs = a @ p @ b"
proof (induction xs arbitrary: a)
  case Nil
  then show ?case by (simp split: if_splits)
next
  case (Cons x xs)
  show ?case
  proof (cases "starts_with (x # xs) p")
    case True
    then have "a = []" "b = drop (length p) (x # xs)" using Cons.prems by simp_all
    moreover have "take (length p) (x # xs) = p" using True by (simp add: starts_with_def)
    ultimately show ?thesis by (metis append_Nil append_take_drop_id)
  next
    case False
    then obtain a' where "split_once_str p xs = Some (a', b)" "a = x # a'" using Cons.prems by auto
    then show ?thesis using Cons.IH by simp
  qed
qed

lemma header_str_Inr: "header_str v = Inr s \<Longrightarrow> s = v"
  by (simp add: header_str_def split: if_splits)

lemma get_auth_Inr:
  assumes "get_auth_from_request jw secret now headers = Inr auth"
  shows "\<exists>v before expiry. header_get headers ''Authorization'' = Some v \<and> v = before @ ''Bearer '' @ az_token auth \<and>
    jw_decode jw secret (az_token auth) = Inr (az_claims auth) \<and> jc_exp (az_claims auth) = Some expiry \<and> now \<le> expiry"
proof -
  obtain v where v: "header_get headers ''Authorization'' = Some v"
    using assms by (auto simp: get_auth_from_request_def split: option.splits)
  obtain before token where t: "split_once_str ''Bearer '' v = Some (before, token)"
      "authorization_from_token jw secret now token = Inr auth"
    using assms v by (auto simp: get_auth_from_request_def elim!: res_bind_InrE dest!: header_str_Inr split: option.splits)
  then have "az_token auth = token" "jw_decode jw secret token = Inr (az_claims auth)"
    "verify_claim now (az_claims auth) = Inr ()"
    by (auto simp: authorization_from_token_def gotrue_jwt_claims_from_token_def res_map_err_def elim!: res_bind_InrE
        split: sum.splits)
  then show ?thesis
    using v split_once_str_Some [OF t(1)] by (auto simp: verify_claim_def split: option.splits if_splits)
qed

text \<open>C17: a request is taken to come from a user only when its \<open>Authorization\<close> header holds, after a first ``Bearer '', a
  token that the library verified with the secret, whose claims name the user and expire at a time that is not over.\<close>

theorem authenticated_request_has_a_live_token:
  assumes "user_uuid_from_request jw secret now headers = Inr uuid"
  shows "\<exists>v before token claims sub expiry.
    header_get headers ''Authorization'' = Some v \<and> v = before @ ''Bearer '' @ token \<and>
    jw_decode jw secret token = Inr claims \<and> jc_sub claims = Some sub \<and> jw_parse_uuid jw sub = Inr uuid \<and>
    jc_exp claims = Some expiry \<and> now \<le> expiry"
proof -
  obtain auth where auth: "get_auth_from_request jw secret now headers = Inr auth" "authorization_uuid jw auth = Inr uuid"
    using assms by (auto simp: user_uuid_from_request_def elim: res_bind_InrE)
  then obtain sub where "jc_sub (az_claims auth) = Some sub" "jw_parse_uuid jw sub = Inr uuid"
    by (auto simp: authorization_uuid_def res_map_err_def split: option.splits sum.splits)
  then show ?thesis using get_auth_Inr [OF auth(1)] by blast
qed

definition sample_claims :: gotrue_jwt_claims where
  "sample_claims =
     \<lparr>jc_aud = None, jc_exp = Some 100, jc_jti = None, jc_iat = None, jc_iss = None, jc_nbf = None, jc_sub = Some ''u'',
      jc_email = ''a@x'', jc_phone = [], jc_app_metadata = JNull, jc_user_metadata = JNull, jc_role = [], jc_aal = None,
      jc_amr = None, jc_session_id = None\<rparr>"

definition sample_jwt :: jwt_api where
  "sample_jwt =
     \<lparr>jw_decode = \<lambda>secret token. if token = secret then Inr sample_claims else Inl (JwtOther ''InvalidSignature''),
      jw_text = \<lambda>_. [], jw_claims_text = \<lambda>_. [], jw_parse_uuid = Inr\<rparr>"

theorem authenticated_request_has_a_live_token_witness:
  "\<exists>v before token. header_get [(''authorization'', ''Bearer s'')] ''Authorization'' = Some v \<and> v = before @ ''Bearer '' @ token"
proof -
  have "user_uuid_from_request sample_jwt ''s'' 90 [(''authorization'', ''Bearer s'')] = Inr ''u''" by code_simp
  from authenticated_request_has_a_live_token [OF this] show ?thesis by blast
qed

subsection \<open>Tokens of the server\<close>

text \<open>a token made for a user at some time identifies the user, when it is sent back in the header, for exactly thirty
  days, and nobody afterwards.\<close>

theorem legacy_token_lasts_thirty_days:
  assumes "hmac_laws hm" and "token_create hm domain key now uid = Inr token"
    and "header_get headers ''token'' = Some token" and "header_str token = Inr token"
  shows "logged_user_from_request hm key later headers =
    (if later \<le> now + 30 * 86400000 then Inr uid else Inl Unauthorized_user)"
proof -
  have "hm_sign hm key (claim_with_user_id domain uid, now + 30 * 86400000) = Inr token"
    using assms(2) by (auto simp: token_create_def create_token_def EXPIRED_DURATION_DAYS_def res_map_err_def
        split: sum.splits token_error.splits)
  then have "hm_verify hm key token = Inr (claim_with_user_id domain uid, now + 30 * 86400000)"
    using assms(1) by (simp add: hmac_laws_def)
  then show ?thesis
    using assms(3,4) by (simp add: logged_user_from_request_def HEADER_TOKEN_def logged_user_from_token_def decode_token_def
        parse_token_def claim_with_user_id_def)
qed

definition sample_fields :: "legacy_claim \<times> int" where
  "sample_fields = (\<lparr>lc_iss = ''d'', lc_uid = 7\<rparr>, 2592001000)"

definition sample_hmac :: hmac_api where
  "sample_hmac =
     \<lparr>hm_sign = \<lambda>key fs. if fs = sample_fields then Inr ''tok'' else Inl ''other'',
      hm_verify = \<lambda>key token. if token = ''tok'' then Inr sample_fields else Inl ''signature''\<rparr>"

theorem legacy_token_lasts_thirty_days_witness:
  "logged_user_from_request sample_hmac ''k'' 2592001000 [(''token'', ''tok'')] = Inr 7 \<and>
   logged_user_from_request sample_hmac ''k'' 2592001001 [(''token'', ''tok'')] = Inl Unauthorized_user"
proof -
  have l: "hmac_laws sample_hmac" by (simp add: hmac_laws_def sample_hmac_def)
  have t: "token_create sample_hmac ''d'' ''k'' 1000 7 = Inr ''tok''" by code_simp
  have h: "header_get [(''token'', ''tok'')] ''token'' = Some ''tok''" "header_str ''tok'' = Inr ''tok''" by code_simp+
  from legacy_token_lasts_thirty_days [OF l t h] show ?thesis by simp
qed

subsection \<open>Passwords that nobody has\<close>

definition no_passwords :: "accounts \<Rightarrow> bool" where
  "no_passwords a \<longleftrightarrow> (\<forall>u \<in> set (ac_users a). us_password u = [])"

lemma no_passwords_cong: "ac_users a' = ac_users a \<Longrightarrow> no_passwords a' = no_passwords a"
  by (simp add: no_passwords_def)

lemma users_of_changes [simp]:
  "ac_users (member_inserted m a) = ac_users a" "ac_users (members_updated P f a) = ac_users a"
  "ac_users (members_deleted P a) = ac_users a" "ac_users (fst (workspace_inserted w sid now uid name a)) = ac_users a"
  by (simp_all add: member_inserted_def members_updated_def members_deleted_def workspace_inserted_def Let_def)

lemma insert_user_workspace_users:
  "insert_user_workspace q w sid now uuid name a = Inr (a', r) \<Longrightarrow> ac_users a' = ac_users a"
  by (auto simp: insert_user_workspace_def dest!: arg_cong [of _ _ fst] split: option.splits if_splits)

lemma insert_workspace_member_users:
  "insert_workspace_member_with_txn q now w email role a = Inr a' \<Longrightarrow> ac_users a' = ac_users a"
  by (auto simp: insert_workspace_member_with_txn_def split: option.splits if_splits)

lemma add_members_users: "add_members_loop q now w i ms t roles = Inr (t', rs) \<Longrightarrow> ac_users (fst t') = ac_users (fst t)"
proof (induction ms arbitrary: i t roles)
  case (Cons m ms)
  obtain uid a db where "insert_workspace_member_with_txn (q i 1) now w (cwm_email m) (cwm_role m) (fst t) = Inr a"
      and rest: "add_members_loop q now w (Suc i) ms (a, db) (AList.update uid (cwm_role m) roles) = Inr (t', rs)"
    using Cons.prems by (auto elim!: res_bind_InrE)
  then show ?case using Cons.IH [OF rest] insert_workspace_member_users by simp
qed simp

lemma delete_member_users: "delete_workspace_members q w email a = Inr a' \<Longrightarrow> ac_users a' = ac_users a"
  by (auto simp: delete_workspace_members_def elim!: res_bind_InrE split: if_splits)

lemma remove_members_users: "remove_members_loop q w i es a = Inr a' \<Longrightarrow> ac_users a' = ac_users a"
  by (induction es arbitrary: i a) (auto elim!: res_bind_InrE dest!: delete_member_users)

lemma upsert_member_users: "upsert_workspace_member q w email role a = Inr a' \<Longrightarrow> ac_users a' = ac_users a"
  by (auto simp: upsert_workspace_member_def split: option.splits)

lemma open_users: "update_updated_at_of_workspace q now uuid w a = Inr a' \<Longrightarrow> ac_users a' = ac_users a"
  by (auto simp: update_updated_at_of_workspace_def split: option.splits)

lemma delete_workspace_users: "ac_users (fst (fst (delete_from_workspace q w t))) = ac_users (fst t)"
  by (cases t) (auto simp: delete_from_workspace_def Let_def split: option.split)

lemma update_user_passwords:
  assumes "update_user q now uuid name email md a = Inr a'" and "no_passwords a" shows "no_passwords a'"
  using assms
  by (auto simp: update_user_def no_passwords_def user_set_def Let_def split: option.splits if_splits)

lemma create_user_passwords:
  assumes "create_user q w sid now uid uuid email name t = Inr (t', w')" and "no_passwords (fst t)"
  shows "no_passwords (fst t')"
proof -
  obtain a1 r where "a1 = fst (workspace_inserted w sid now uid ''My Workspace'' ((fst t)\<lparr>ac_users := ac_users (fst t) @
      [\<lparr>us_uid = uid, us_uuid = uuid, us_email = email, us_password = [], us_name = name,
        us_metadata = Map.empty, us_encryption_sign = None, us_updated_at = now\<rparr>]\<rparr>))" "fst t' = a1"
    using assms(1) by (cases t) (auto simp: create_user_def Let_def split: option.splits if_splits prod.splits)
  then show ?thesis using assms(2) by (simp add: no_passwords_def)
qed


lemma cd_accounts_simps [simp]:
  "cd_accounts (set_enforcer e s) = cd_accounts s" "cd_accounts (set_tables t s) = fst t" "fst (cd_tables s) = cd_accounts s"
  by (simp_all add: set_enforcer_def set_tables_def cd_tables_def)

lemma create_new_user_passwords:
  assumes "create_new_user ce api f q now user uuid uid w sid tps s = (s1, r)" and "no_passwords (cd_accounts s)"
  shows "cd_accounts s1 = cd_accounts s" "r = Inr t \<Longrightarrow> no_passwords (fst t)"
  using assms create_user_passwords [of q w sid now uid uuid "ui_email user" _ "cd_tables s"]
  by (auto simp: create_new_user_def split: sum.splits prod.splits)

lemma sign_in_passwords:
  assumes "no_passwords (cd_accounts s)" shows "no_passwords (cd_accounts (fst (verify_token ce api f tx now info uid w sid tps s)))"
  using assms by (auto simp: verify_token_def Let_def dest: create_new_user_passwords split: sum.split prod.split)

lemma member_handlers_users:
  "ac_users (cd_accounts (fst (add_workspace_members_handler api ord tx now w ms s))) = ac_users (cd_accounts s)"
  "ac_users (cd_accounts (fst (remove_workspace_member_handler api tx q w es s))) = ac_users (cd_accounts s)"
  "ac_users (cd_accounts (fst (update_workspace_member_handler api q w c s))) = ac_users (cd_accounts s)"
  by (auto simp: add_workspace_members_handler_def add_workspace_members_def insert_roles_def
      remove_workspace_member_handler_def remove_workspace_members_def update_workspace_member_handler_def
      update_workspace_member_def Let_def dest!: add_members_users remove_members_users upsert_member_users
      split: sum.split prod.split option.split)

lemma workspace_operations_users:
  "ac_users (cd_accounts (fst (create_workspace_for_user q w sid now uuid n s))) = ac_users (cd_accounts s)"
  "ac_users (cd_accounts (fst (delete_workspace_for_user q w s))) = ac_users (cd_accounts s)"
  "ac_users (cd_accounts (fst (open_workspace tx now uuid w s))) = ac_users (cd_accounts s)"
  using delete_workspace_users [of q w "cd_tables s"]
  by (auto simp: create_workspace_for_user_def delete_workspace_for_user_def open_workspace_def
      dest!: insert_user_workspace_users open_users elim!: res_bind_InrE split: sum.split prod.split)

lemma cloud_step_passwords:
  assumes "no_passwords (cd_accounts s)" shows "no_passwords (cd_accounts (cloud_step ce api ord s ev))"
proof (cases ev)
  case (EvSignIn f tx now info uid w sid tps)
  then show ?thesis using sign_in_passwords [OF assms] by simp
next
  case (EvUpdateUser q now uuid n e md)
  then show ?thesis using assms update_user_passwords
    by (auto simp: cloud_update_user_def split: sum.split)
next
  case EvMemberNotified
  then show ?thesis using assms by (auto simp: no_passwords_def split: list.split)
qed (use assms in \<open>simp_all add: no_passwords_def member_handlers_users workspace_operations_users\<close>)

text \<open>The older operations: a registration always fails, and changing a password needs one.\<close>

datatype auth_event =
    AuCloud cloud_event
  | AuRegister txn int nat i64 string string string
  | AuChangePassword txn "sqlx_error option" bool bool int nat "(string \<times> string) list" change_password_request

fun auth_step ::
    "auth_env \<Rightarrow> collab_api \<Rightarrow> 'e casbin_api \<Rightarrow> ((i64 \<times> af_role) list \<Rightarrow> (i64 \<times> af_role) list) \<Rightarrow> 'e cloud \<Rightarrow> auth_event \<Rightarrow>
     'e cloud" where
  "auth_step ae ce api ord s (AuCloud ev) = cloud_step ce api ord s ev"
| "auth_step ae ce api ord s (AuRegister tx now stamp uid name email password) =
     s\<lparr>cd_accounts := fst (register_handler ae tx now stamp uid name email password (cd_accounts s))\<rparr>"
| "auth_step ae ce api ord s (AuChangePassword tx q joined hashed now stamp headers payload) =
     s\<lparr>cd_accounts := fst (change_password_handler ae tx q joined hashed now stamp headers payload (cd_accounts s))\<rparr>"

lemma register_fails: "\<exists>err. register ae tx now stamp uid name email password a = (a, Inl err)"
  proof -
  have "insert_user_row uid None email name hash stamp a = Inl not_null_violation" for hash
    by (simp add: insert_user_row_def)
  then show ?thesis
    by (cases "token_create (ae_hmac ae) (ae_domain ae) (ae_server_key ae) now uid"; cases "compute_hash_password (ae_hash ae) password")
      (auto simp: register_def split: option.split)
qed

lemma register_handler_fails: "fst (register_handler ae tx now stamp uid name email password a) = a"
  by (auto simp: register_handler_def split: sum.split prod.split) (metis register_fails prod.inject)

lemma validate_no_password:
  assumes "\<not> ph_valid ph []" and "no_passwords a" and "email \<in> us_email ` set (ac_users a)"
  shows "\<exists>m. validate_credentials ph q joined email password a = Inl (InternalError m)"
proof -
  have "find (\<lambda>u. us_email u = email) (ac_users a) \<noteq> None" using assms(3) by (auto simp: find_None_iff)
  then obtain u where u: "find (\<lambda>u. us_email u = email) (ac_users a) = Some u" by auto
  then have "us_password u = []" using assms(2) by (auto simp: no_passwords_def find_Some_iff)
  with u assms(1) show ?thesis
    by (cases q) (simp_all add: validate_credentials_def get_stored_credentials_def verify_password_hash_def)
qed

lemma change_password_fails:
  assumes "\<not> ph_valid (ae_hash ae) []" and "no_passwords a"
  shows "fst (change_password ae tx q joined hashed stamp uid current new a) = a"
proof (cases "get_user_email (tx_stmt tx 0 0) uid a")
  case (Inr email)
  then have "email \<in> us_email ` set (ac_users a)"
    by (auto simp: get_user_email_def find_Some_iff split: option.splits)
  from validate_no_password [OF assms this] obtain m where
    "validate_credentials (ae_hash ae) q joined email current a = Inl (InternalError m)" by blast
  with Inr show ?thesis by (simp add: change_password_def)
qed (simp add: change_password_def)

interpretation auth_runs: step_invariant "auth_step ae ce api ord" "\<lambda>_ _. \<not> ph_valid (ae_hash ae) []" "\<lambda>s. no_passwords (cd_accounts s)"
  for ae ce api ord
proof unfold_locales
  fix s :: "'a cloud" and ev
  assume I: "no_passwords (cd_accounts s)" and h: "\<not> ph_valid (ae_hash ae) []"
  have "fst (change_password_handler ae tx q joined hashed now stamp headers payload (cd_accounts s)) = cd_accounts s"
    for tx q joined hashed now stamp headers payload
    using change_password_fails [OF h I] by (auto simp: change_password_handler_def split: sum.split prod.split) (metis fst_conv)
  then show "no_passwords (cd_accounts (auth_step ae ce api ord s ev))"
    by (cases ev) (simp_all add: I cloud_step_passwords [OF I] register_handler_fails)
qed

text \<open>C20: a login with a password never succeeds: starting from tables where no user has one, whatever requests are served,
  the answer is an internal error (500) when the email belongs to a user and ``unauthorized'' (401) when it does not,
  which tells who has an account.\<close>

theorem password_login_never_succeeds:
  assumes "\<not> ph_valid (ae_hash ae) []" and "ph_valid (ae_hash ae) dummy_password_hash" and "no_passwords (cd_accounts s)"
    and "a = cd_accounts (run (auth_step ae ce api ord) s evs)"
  shows "\<exists>err. login ae None True now email password a = Inl err \<and>
    auth_error_status err = (if email \<in> us_email ` set (ac_users a) then 500 else 401)"
proof -
  have "admissible (\<lambda>_ _. \<not> ph_valid (ae_hash ae) []) (auth_step ae ce api ord) s evs" by (rule admissible_const [OF assms(1)])
  from auth_runs.run_inv [OF assms(3) this] have "no_passwords a" by (simp add: assms(4))
  show ?thesis
  proof (cases "email \<in> us_email ` set (ac_users a)")
    case True
    from validate_no_password [OF assms(1) \<open>no_passwords a\<close> this] obtain m where
      "validate_credentials (ae_hash ae) None True email password a = Inl (InternalError m)" by blast
    then show ?thesis using True by (simp add: login_def)
  next
    case False
    then have "find (\<lambda>u. us_email u = email) (ac_users a) = None" by (auto simp: find_None_iff)
    then show ?thesis using False assms(2)
      by (auto simp: login_def validate_credentials_def get_stored_credentials_def verify_password_hash_def)
  qed
qed


definition sample_auth :: auth_env where
  "sample_auth =
     \<lparr>ae_chars = \<lparr>ch_white = \<lambda>c. c = CHR '' '', ch_digit = \<lambda>c. c \<in> set ''0123456789'', ch_word = \<lambda>c. c \<noteq> CHR ''!'',
                 ch_graphemes = length, ch_email = \<lambda>x. CHR ''@'' \<in> set x\<rparr>,
      ae_hash = \<lparr>ph_valid = \<lambda>h. h \<noteq> [], ph_verify = \<lambda>h p. h = p, ph_hash = Inr\<rparr>,
      ae_hmac = sample_hmac, ae_domain = ''d'', ae_server_key = ''k''\<rparr>"

theorem password_login_never_succeeds_witness:
  "\<exists>err. login sample_auth None True 1000 ''ann'' ''Secret1!'' (cd_accounts (run
      (auth_step sample_auth sample_api sample_casbin (\<lambda>rs. rs)) sample_cloud
      [AuRegister tx_free 1000 5 9 ''Zed'' ''z@x'' ''Secret1!''])) = Inl err \<and> auth_error_status err = 500"
proof -
  have p: "\<not> ph_valid (ae_hash sample_auth) []" "ph_valid (ae_hash sample_auth) dummy_password_hash"
    by (simp_all add: sample_auth_def dummy_password_hash_def)
  have n: "no_passwords (cd_accounts sample_cloud)" by (simp add: no_passwords_def sample_cloud_def sample_accounts_def)
  have "fst (register_handler sample_auth tx_free 1000 5 9 ''Zed'' ''z@x'' ''Secret1!'' sample_accounts) = sample_accounts"
    by (rule register_handler_fails)
  moreover define a where "a = cd_accounts (run (auth_step sample_auth sample_api sample_casbin (\<lambda>rs. rs)) sample_cloud
      [AuRegister tx_free 1000 5 9 ''Zed'' ''z@x'' ''Secret1!''])"
  ultimately have "a = sample_accounts" by (simp add: sample_cloud_def)
  then have "''ann'' \<in> us_email ` set (ac_users a)" by (simp add: sample_accounts_def)
  with password_login_never_succeeds [OF p n a_def, of 1000 "''ann''" "''Secret1!''"] show ?thesis
    by (simp only: a_def if_True)
qed

end
