(* ===== verification/AdminWeb.thy ===== *)
theory AdminWeb
  imports ClientToken CollabApi
begin

section \<open>The web frontend\<close>

text \<open>
  \<open>admin_frontend/src\<close>: the sessions that are kept in Redis under the id of a cookie, their extraction from a request
  with the refresh of an expired access token, and the handlers of the API (\<open>web_api.rs\<close>) and of the pages
  (\<open>web_app.rs\<close>), which call the GoTrue server for the user of the session. Redis is a map with the time, in seconds, at
  which an entry expires; \<open>rd n\<close> is the error of the \<open>n\<close>-th command a request sends to it. \<open>srv n\<close> is what the GoTrue
  server has for call \<open>n\<close>. The serialised form \<open>'v\<close> of sessions and its functions, the reading of a token without its
  verification and the templates of the pages are parameters.
\<close>

subsection \<open>Errors and answers\<close>

fun display_gotrue_error :: "gotrue_error \<Rightarrow> string" where
  "display_gotrue_error (GtConnect m) = ''connect error:'' @ m"
| "display_gotrue_error (GtRequestTimeout m) = ''request timeout:'' @ m"
| "display_gotrue_error (GtInvalidRequest m) = ''invalid request:'' @ m"
| "display_gotrue_error (GtClientError e) = display_gotrue_client_error e"
| "display_gotrue_error (GtInternal e) = display_gotrue_error_serde e"
| "display_gotrue_error (GtNotLoggedIn m) = m"
| "display_gotrue_error (GtAuth m) = m"
| "display_gotrue_error (GtUnhandled m) = m"

record 'a web_response =
  wrs_code :: int
  wrs_message :: string
  wrs_data :: 'a

definition web_response_new :: "string \<Rightarrow> 'a \<Rightarrow> 'a web_response" where
  "web_response_new message data = \<lparr>wrs_code = 0, wrs_message = message, wrs_data = data\<rparr>"

definition web_response_from :: "'a \<Rightarrow> 'a web_response" where
  "web_response_from data = web_response_new ''success'' data"

definition web_response_from_str :: "string \<Rightarrow> unit web_response" where
  "web_response_from_str message = web_response_new message ()"

text \<open>A failure has a status and a text, a redirect a status and its location.\<close>

datatype 'a web_result = WebOk 'a | WebFail nat string | WebRedirect nat string | WebPanic

definition web_api_gotrue :: "gotrue_error + 'a \<Rightarrow> ('a \<Rightarrow> 'b web_result) \<Rightarrow> 'b web_result" where
  "web_api_gotrue r k = (case r of Inl err \<Rightarrow> WebFail 401 (display_gotrue_error err) | Inr x \<Rightarrow> k x)"

subsection \<open>Cookies\<close>

record cookie =
  ck_name :: string
  ck_value :: string
  ck_path :: "string option"

text \<open>A jar has the cookies of the request and the changes the response makes, by name: \<open>None\<close> removes the cookie.\<close>

record cookie_jar =
  cj_original :: "string \<rightharpoonup> string"
  cj_delta :: "string \<rightharpoonup> cookie option"

definition jar_new :: cookie_jar where
  "jar_new = \<lparr>cj_original = Map.empty, cj_delta = Map.empty\<rparr>"

definition jar_get :: "cookie_jar \<Rightarrow> string \<Rightarrow> string option" where
  "jar_get j name =
     (case cj_delta j name of
        Some c \<Rightarrow> map_option ck_value c
      | None \<Rightarrow> cj_original j name)"

definition jar_add :: "cookie \<Rightarrow> cookie_jar \<Rightarrow> cookie_jar" where
  "jar_add c j = j\<lparr>cj_delta := (cj_delta j)(ck_name c \<mapsto> Some c)\<rparr>"

definition jar_remove :: "string \<Rightarrow> cookie_jar \<Rightarrow> cookie_jar" where
  "jar_remove name j =
     j\<lparr>cj_delta := (if cj_original j name \<noteq> None then (cj_delta j)(name \<mapsto> None) else (cj_delta j)(name := None))\<rparr>"

definition new_session_cookie :: "string \<Rightarrow> cookie" where
  "new_session_cookie sid = \<lparr>ck_name = ''session_id'', ck_value = sid, ck_path = Some ''/''\<rparr>"

subsection \<open>Sessions\<close>

definition SESSION_EXPIRATION :: nat where "SESSION_EXPIRATION = 60 * 60 * 24"

record user_session =
  ss_session_id :: string
  ss_token :: gotrue_token

record 'v web_env =
  we_gd :: gotrue_codec
  we_base :: string
  we_enc :: "user_session \<Rightarrow> 'v"
  we_dec :: "'v \<Rightarrow> string + user_session"
  we_unverified :: "string \<Rightarrow> string + nat option"

type_synonym 'v web_store = "string \<rightharpoonup> 'v \<times> nat"

definition session_id_key :: "string \<Rightarrow> string" where
  "session_id_key session_id = ''web::session::'' @ session_id"

definition redis_get :: "nat \<Rightarrow> string \<Rightarrow> 'v web_store \<Rightarrow> 'v option" where
  "redis_get now key st = (case st key of None \<Rightarrow> None | Some (v, expiry) \<Rightarrow> if now < expiry then Some v else None)"

text \<open>An absent value is no data, which is an error of the conversion.\<close>

definition get_user_session ::
    "'v web_env \<Rightarrow> string option \<Rightarrow> nat \<Rightarrow> string \<Rightarrow> 'v web_store \<Rightarrow> user_session option" where
  "get_user_session we err now session_id st =
     (case err of
        Some _ \<Rightarrow> None
      | None \<Rightarrow>
          (case redis_get now (session_id_key session_id) st of
             None \<Rightarrow> None
           | Some v \<Rightarrow> (case we_dec we v of Inl _ \<Rightarrow> None | Inr s \<Rightarrow> Some s)))"

definition put_user_session ::
    "'v web_env \<Rightarrow> string option \<Rightarrow> nat \<Rightarrow> user_session \<Rightarrow> 'v web_store \<Rightarrow> 'v web_store \<times> (string + unit)" where
  "put_user_session we err now s st =
     (case err of
        Some e \<Rightarrow> (st, Inl e)
      | None \<Rightarrow> (st(session_id_key (ss_session_id s) \<mapsto> (we_enc we s, now + SESSION_EXPIRATION)), Inr ()))"

definition del_user_session :: "string option \<Rightarrow> string \<Rightarrow> 'v web_store \<Rightarrow> 'v web_store \<times> (string + unit)" where
  "del_user_session err session_id st =
     (case err of
        Some e \<Rightarrow> (st, Inl e)
      | None \<Rightarrow> (st(session_id_key session_id := None), Inr ()))"

datatype session_rejection =
    NoSessionId
  | SessionNotFound
  | CookieError string
  | RefreshTokenError string

fun rejection_response :: "session_rejection \<Rightarrow> 'a web_result" where
  "rejection_response NoSessionId = WebRedirect 307 ''/web/login''"
| "rejection_response (CookieError _) = WebRedirect 307 ''/web/login''"
| "rejection_response SessionNotFound = WebRedirect 307 ''/web/login''"
| "rejection_response (RefreshTokenError _) = WebRedirect 307 ''/web/login''"

definition get_session_expiration :: "'v web_env \<Rightarrow> string \<Rightarrow> nat option" where
  "get_session_expiration we access_token = (case we_unverified we access_token of Inr e \<Rightarrow> e | Inl _ \<Rightarrow> None)"

definition token_has_expired :: "'v web_env \<Rightarrow> nat \<Rightarrow> string \<Rightarrow> bool" where
  "token_has_expired we now access_token =
     (case get_session_expiration we access_token of Some e \<Rightarrow> now > e | None \<Rightarrow> False)"

text \<open>
  The extraction in its two parts: the session of the cookie, and, when its access token has expired, the refresh, which
  is another call with an \<open>await\<close> in between. Only the two tokens are replaced; a failure of the update is logged.
\<close>

definition lookup_session ::
    "'v web_env \<Rightarrow> string option \<Rightarrow> nat \<Rightarrow> cookie_jar \<Rightarrow> 'v web_store \<Rightarrow> session_rejection + user_session" where
  "lookup_session we err now jar st =
     (case jar_get jar ''session_id'' of
        None \<Rightarrow> Inl NoSessionId
      | Some session_id \<Rightarrow>
          (case get_user_session we err now session_id st of
             None \<Rightarrow> Inl SessionNotFound
           | Some session \<Rightarrow> Inr session))"

definition refresh_session ::
    "'v web_env \<Rightarrow> string option \<Rightarrow> gotrue_server \<Rightarrow> nat \<Rightarrow> user_session \<Rightarrow> 'v web_store \<Rightarrow>
     'v web_store \<times> (session_rejection + user_session)" where
  "refresh_session we err srv now session st =
     (case gotrue_token_of (we_gd we) srv (we_base we) (RefreshTokenGrant (gk_refresh_token (ss_token session))) of
        Inl e \<Rightarrow> (st, Inl (RefreshTokenError (display_gotrue_error e)))
      | Inr new_token \<Rightarrow>
          let session' = session\<lparr>ss_token := (ss_token session)\<lparr>gk_access_token := gk_access_token new_token,
                gk_refresh_token := gk_refresh_token new_token\<rparr>\<rparr>
          in (fst (put_user_session we err now session' st), Inr session'))"

definition extract_session ::
    "'v web_env \<Rightarrow> (nat \<Rightarrow> string option) \<Rightarrow> (nat \<Rightarrow> gotrue_server) \<Rightarrow> nat \<Rightarrow> cookie_jar \<Rightarrow> 'v web_store \<Rightarrow>
     'v web_store \<times> (session_rejection + user_session)" where
  "extract_session we rd srv now jar st =
     (case lookup_session we (rd 0) now jar st of
        Inl rej \<Rightarrow> (st, Inl rej)
      | Inr session \<Rightarrow>
          if token_has_expired we now (gk_access_token (ss_token session))
          then refresh_session we (rd 1) (srv 0) now session st
          else (st, Inr session))"

text \<open>A handler with a session: its own call is \<open>srv 1\<close>.\<close>

definition with_session ::
    "'v web_env \<Rightarrow> (nat \<Rightarrow> string option) \<Rightarrow> (nat \<Rightarrow> gotrue_server) \<Rightarrow> nat \<Rightarrow> cookie_jar \<Rightarrow> (user_session \<Rightarrow> 'a web_result) \<Rightarrow>
     'v web_store \<Rightarrow> 'v web_store \<times> 'a web_result" where
  "with_session we rd srv now jar k st =
     (case extract_session we rd srv now jar st of
        (st', Inl rej) \<Rightarrow> (st', rejection_response rej)
      | (st', Inr session) \<Rightarrow> (st', k session))"

definition session_access :: "user_session \<Rightarrow> string" where
  "session_access s = gk_access_token (ss_token s)"

subsection \<open>Headers\<close>

text \<open>The header that makes the page go to \<open>url\<close>; \<open>None\<close> is the panic on a text that is no header.\<close>

definition htmx_redirect :: "string \<Rightarrow> (string \<times> string) list option" where
  "htmx_redirect url = (case header_str url of Inl _ \<Rightarrow> None | Inr v \<Rightarrow> Some [(''HX-Redirect'', v)])"

definition get_header_value_or_default :: "(string \<times> string) list \<Rightarrow> string \<Rightarrow> string \<Rightarrow> string" where
  "get_header_value_or_default headers header_name default_value =
     (case header_get headers header_name of
        Some v \<Rightarrow> (case header_str v of Inr s \<Rightarrow> s | Inl _ \<Rightarrow> default_value)
      | None \<Rightarrow> default_value)"

definition get_base_url :: "(string \<times> string) list \<Rightarrow> string" where
  "get_base_url headers =
     get_header_value_or_default headers ''x-scheme'' ''http'' @ ''://'' @
     get_header_value_or_default headers ''host'' ''localhost''"

subsection \<open>Signing in and out\<close>

type_synonym sign_in_answer = "cookie_jar \<times> (string \<times> string) list \<times> unit web_response"

definition session_login ::
    "'v web_env \<Rightarrow> string option \<Rightarrow> string \<Rightarrow> nat \<Rightarrow> gotrue_token \<Rightarrow> cookie_jar \<Rightarrow> 'v web_store \<Rightarrow>
     'v web_store \<times> sign_in_answer web_result" where
  "session_login we err new_session_id now token jar st =
     (case put_user_session we err now \<lparr>ss_session_id = new_session_id, ss_token = token\<rparr> st of
        (st', Inl e) \<Rightarrow> (st', WebFail 500 e)
      | (st', Inr _) \<Rightarrow>
          (st', case htmx_redirect ''/web/home'' of
                  None \<Rightarrow> WebPanic
                | Some h \<Rightarrow> WebOk (jar_add (new_session_cookie new_session_id) jar, h, web_response_from ())))"

definition send_magic_link :: "'v web_env \<Rightarrow> gotrue_server \<Rightarrow> string \<Rightarrow> unit web_response web_result" where
  "send_magic_link we srv email =
     web_api_gotrue (magic_link (we_gd we) srv (we_base we) (default_magic_link_params\<lparr>mlp_email := email\<rparr>) (Some ''/''))
       (\<lambda>_. WebOk (web_response_from_str ''Magic Link Sent''))"

definition magic_link_answer :: "unit web_response web_result \<Rightarrow> sign_in_answer web_result" where
  "magic_link_answer r =
     (case r of
        WebOk res \<Rightarrow> WebOk (jar_new, [], res)
      | WebFail n m \<Rightarrow> WebFail n m
      | WebRedirect n l \<Rightarrow> WebRedirect n l
      | WebPanic \<Rightarrow> WebPanic)"

definition sign_in_handler ::
    "'v web_env \<Rightarrow> string option \<Rightarrow> gotrue_server \<Rightarrow> string \<Rightarrow> nat \<Rightarrow> cookie_jar \<Rightarrow> string \<Rightarrow> string \<Rightarrow> 'v web_store \<Rightarrow>
     'v web_store \<times> sign_in_answer web_result" where
  "sign_in_handler we err srv new_session_id now jar email password st =
     (if password = [] then (st, magic_link_answer (send_magic_link we srv email))
      else
        case gotrue_token_of (we_gd we) srv (we_base we) (PasswordGrant email password) of
          Inl e \<Rightarrow> (st, WebFail 401 (display_gotrue_error e))
        | Inr token \<Rightarrow> session_login we err new_session_id now token jar st)"

definition sign_up_handler ::
    "'v web_env \<Rightarrow> string option \<Rightarrow> gotrue_server \<Rightarrow> string \<Rightarrow> nat \<Rightarrow> cookie_jar \<Rightarrow> string \<Rightarrow> string \<Rightarrow> 'v web_store \<Rightarrow>
     'v web_store \<times> sign_in_answer web_result" where
  "sign_up_handler we err srv new_session_id now jar email password st =
     (if password = [] then (st, magic_link_answer (send_magic_link we srv email))
      else
        case gotrue_sign_up (we_gd we) srv (we_base we) email password (Some ''/'') of
          Inl e \<Rightarrow> (st, WebFail 401 (display_gotrue_error e))
        | Inr (Authenticated token) \<Rightarrow> session_login we err new_session_id now token jar st
        | Inr (NotAuthenticated user) \<Rightarrow> (st, WebOk (jar, [], web_response_from_str ''Email Verification Sent'')))"

text \<open>The second refresh makes the refresh token of the first one, which was part of a URL, unusable.\<close>

definition login_refresh_handler ::
    "'v web_env \<Rightarrow> string option \<Rightarrow> (nat \<Rightarrow> gotrue_server) \<Rightarrow> string \<Rightarrow> nat \<Rightarrow> cookie_jar \<Rightarrow> string \<Rightarrow> 'v web_store \<Rightarrow>
     'v web_store \<times> cookie_jar web_result" where
  "login_refresh_handler we err srv new_session_id now jar refresh_token st =
     (case res_bind (gotrue_token_of (we_gd we) (srv 0) (we_base we) (RefreshTokenGrant refresh_token)) (\<lambda>token.
             gotrue_token_of (we_gd we) (srv 1) (we_base we) (RefreshTokenGrant (gk_refresh_token token))) of
        Inl e \<Rightarrow> (st, WebFail 401 (display_gotrue_error e))
      | Inr token \<Rightarrow>
          (case put_user_session we err now \<lparr>ss_session_id = new_session_id, ss_token = token\<rparr> st of
             (st', Inl e) \<Rightarrow> (st', WebFail 500 e)
           | (st', Inr _) \<Rightarrow> (st', WebOk (jar_add (new_session_cookie new_session_id) jar))))"

definition logout_handler ::
    "string option \<Rightarrow> cookie_jar \<Rightarrow> 'v web_store \<Rightarrow> 'v web_store \<times> (cookie_jar \<times> (string \<times> string) list) web_result" where
  "logout_handler err jar st =
     (case jar_get jar ''session_id'' of
        None \<Rightarrow> (st, WebFail 400 ''no session_id cookie'')
      | Some session_id \<Rightarrow>
          (case del_user_session err session_id st of
             (st', Inl e) \<Rightarrow> (st', WebFail 500 e)
           | (st', Inr _) \<Rightarrow>
               (st', case htmx_redirect ''/web/login'' of
                       None \<Rightarrow> WebPanic
                     | Some h \<Rightarrow> WebOk (jar_remove ''session_id'' jar, h))))"

subsection \<open>The API for a user\<close>

definition open_app_url :: "user_session \<Rightarrow> string" where
  "open_app_url s =
     ''appflowy-flutter://login-callback#access_token='' @ gk_access_token (ss_token s) @
     ''&expires_at='' @ show_int (gk_expires_at (ss_token s)) @
     ''&expires_in='' @ show_int (gk_expires_in (ss_token s)) @
     ''&refresh_token='' @ gk_refresh_token (ss_token s) @
     ''&token_type='' @ gk_token_type (ss_token s)"

definition open_app_handler ::
    "'v web_env \<Rightarrow> (nat \<Rightarrow> string option) \<Rightarrow> (nat \<Rightarrow> gotrue_server) \<Rightarrow> nat \<Rightarrow> cookie_jar \<Rightarrow> 'v web_store \<Rightarrow>
     'v web_store \<times> (string \<times> string) list web_result" where
  "open_app_handler we rd srv now jar st =
     with_session we rd srv now jar
       (\<lambda>session. case htmx_redirect (open_app_url session) of None \<Rightarrow> WebPanic | Some h \<Rightarrow> WebOk h) st"

definition invite_handler :: "'v web_env \<Rightarrow> gotrue_server \<Rightarrow> string \<Rightarrow> unit web_response web_result" where
  "invite_handler we srv email =
     web_api_gotrue (magic_link (we_gd we) srv (we_base we) (default_magic_link_params\<lparr>mlp_email := email\<rparr>) (Some ''/''))
       (\<lambda>_. WebOk (web_response_from_str ''Invitation sent''))"

definition web_change_password_handler ::
    "'v web_env \<Rightarrow> (nat \<Rightarrow> string option) \<Rightarrow> (nat \<Rightarrow> gotrue_server) \<Rightarrow> nat \<Rightarrow> cookie_jar \<Rightarrow> string \<Rightarrow> string \<Rightarrow> 'v web_store \<Rightarrow>
     'v web_store \<times> unit web_response web_result" where
  "web_change_password_handler we rd srv now jar new_password confirm_password st =
     with_session we rd srv now jar
       (\<lambda>session.
          if new_password \<noteq> confirm_password then WebFail 400 ''passwords do not match''
          else web_api_gotrue
                 (gotrue_update_user (we_gd we) (srv 1) (we_base we) (session_access session)
                    (update_gotrue_user_params_new\<lparr>ugu_password := Some new_password\<rparr>))
                 (\<lambda>_. WebOk (web_response_from_str ''Password changed''))) st"

definition post_oauth_login_handler :: "(string \<times> string) list \<Rightarrow> string \<Rightarrow> string web_response web_result" where
  "post_oauth_login_handler headers provider =
     (let base_url = get_base_url headers;
          redirect_uri = base_url @ ''/web/oauth_login_redirect''
      in WebOk (web_response_from (base_url @ ''/authorize?provider='' @ provider @ ''&redirect_uri='' @ redirect_uri)))"

subsection \<open>The API for an administrator\<close>

definition admin_delete_sso_handler ::
    "'v web_env \<Rightarrow> (nat \<Rightarrow> string option) \<Rightarrow> (nat \<Rightarrow> gotrue_server) \<Rightarrow> nat \<Rightarrow> cookie_jar \<Rightarrow> string \<Rightarrow> 'v web_store \<Rightarrow>
     'v web_store \<times> unit web_response web_result" where
  "admin_delete_sso_handler we rd srv now jar provider_id st =
     with_session we rd srv now jar
       (\<lambda>session. web_api_gotrue
          (admin_delete_sso_provider (we_gd we) (srv 1) (we_base we) (session_access session) provider_id)
          (\<lambda>_. WebOk (web_response_from_str ''SSO Deleted''))) st"

definition default_create_sso_provider_params :: create_sso_provider_params where
  "default_create_sso_provider_params =
     \<lparr>csp_type = [], csp_metadata_url = [], csp_metadata_xml = [], csp_domains = [], csp_attribute_mapping = JNull\<rparr>"

definition admin_create_sso_handler ::
    "'v web_env \<Rightarrow> (nat \<Rightarrow> string option) \<Rightarrow> (nat \<Rightarrow> gotrue_server) \<Rightarrow> nat \<Rightarrow> cookie_jar \<Rightarrow> string \<Rightarrow> string \<Rightarrow> 'v web_store \<Rightarrow>
     'v web_store \<times> unit web_response web_result" where
  "admin_create_sso_handler we rd srv now jar sso_type metadata_url st =
     with_session we rd srv now jar
       (\<lambda>session. web_api_gotrue
          (admin_create_sso_providers (we_gd we) (srv 1) (we_base we) (session_access session)
             (default_create_sso_provider_params\<lparr>csp_type := sso_type, csp_metadata_url := metadata_url\<rparr>))
          (\<lambda>_. WebOk (web_response_from_str ''SSO Added''))) st"

definition admin_update_user_handler ::
    "'v web_env \<Rightarrow> (nat \<Rightarrow> string option) \<Rightarrow> (nat \<Rightarrow> gotrue_server) \<Rightarrow> nat \<Rightarrow> cookie_jar \<Rightarrow> string \<Rightarrow> string \<Rightarrow> 'v web_store \<Rightarrow>
     'v web_store \<times> gotrue_user web_response web_result" where
  "admin_update_user_handler we rd srv now jar user_uuid password st =
     with_session we rd srv now jar
       (\<lambda>session. web_api_gotrue
          (admin_update_user (we_gd we) (srv 1) (we_base we) (session_access session) user_uuid
             (default_admin_user_params\<lparr>aup_password := Some password, aup_email_confirm := True\<rparr>))
          (\<lambda>res. WebOk (web_response_from res))) st"

definition post_user_generate_link_handler ::
    "'v web_env \<Rightarrow> (nat \<Rightarrow> string option) \<Rightarrow> (nat \<Rightarrow> gotrue_server) \<Rightarrow> nat \<Rightarrow> cookie_jar \<Rightarrow> string \<Rightarrow> 'v web_store \<Rightarrow>
     'v web_store \<times> string web_result" where
  "post_user_generate_link_handler we rd srv now jar email st =
     with_session we rd srv now jar
       (\<lambda>session. web_api_gotrue
          (admin_generate_link (we_gd we) (srv 1) (we_base we) (session_access session)
             (default_generate_link_params\<lparr>glp_email := email\<rparr>))
          (\<lambda>res. WebOk (glr_action_link res))) st"

definition admin_delete_user_handler ::
    "'v web_env \<Rightarrow> (nat \<Rightarrow> string option) \<Rightarrow> (nat \<Rightarrow> gotrue_server) \<Rightarrow> nat \<Rightarrow> cookie_jar \<Rightarrow> string \<Rightarrow> 'v web_store \<Rightarrow>
     'v web_store \<times> unit web_response web_result" where
  "admin_delete_user_handler we rd srv now jar user_uuid st =
     with_session we rd srv now jar
       (\<lambda>session. web_api_gotrue
          (admin_delete_user (we_gd we) (srv 1) (we_base we) (session_access session) user_uuid False)
          (\<lambda>_. WebOk (web_response_from ()))) st"

definition admin_add_user_handler ::
    "'v web_env \<Rightarrow> (nat \<Rightarrow> string option) \<Rightarrow> (nat \<Rightarrow> gotrue_server) \<Rightarrow> nat \<Rightarrow> cookie_jar \<Rightarrow> string \<Rightarrow> string \<Rightarrow> bool \<Rightarrow>
     'v web_store \<Rightarrow> 'v web_store \<times> unit web_response web_result" where
  "admin_add_user_handler we rd srv now jar email password require_email_verification st =
     with_session we rd srv now jar
       (\<lambda>session. web_api_gotrue
          (admin_add_user (we_gd we) (srv 1) (we_base we) (session_access session)
             (default_admin_user_params\<lparr>aup_email := email, aup_password := Some password,
                aup_email_confirm := \<not> require_email_verification\<rparr>))
          (\<lambda>_. WebOk (web_response_from_str ''User created''))) st"

subsection \<open>The pages\<close>

datatype web_page =
    SsoDetailPage sso_provider string
  | SsoCreatePage
  | SsoListPage "sso_provider list"
  | ChangePasswordPage
  | LoginPage "string list"
  | HomePage gotrue_user bool
  | CreateUserPage
  | InvitePage
  | AdminNavigatePage
  | NavigatePage
  | AdminHomePage gotrue_user
  | AdminUsersPage "gotrue_user list"
  | UserDetailsPage gotrue_user
  | AdminUserDetailsPage gotrue_user

text \<open>\<open>render\<close> is the template of a page; its errors are internal, those of the GoTrue server a redirect (\<open>WebAppError\<close>).\<close>

type_synonym page_renderer = "web_page \<Rightarrow> string + string"

definition render_template :: "page_renderer \<Rightarrow> web_page \<Rightarrow> string web_result" where
  "render_template render x = (case render x of Inl _ \<Rightarrow> WebFail 500 [] | Inr html \<Rightarrow> WebOk html)"

definition web_app_gotrue :: "gotrue_error + 'a \<Rightarrow> ('a \<Rightarrow> 'b web_result) \<Rightarrow> 'b web_result" where
  "web_app_gotrue r k = (case r of Inl err \<Rightarrow> WebRedirect 303 ''/login'' | Inr x \<Rightarrow> k x)"

definition is_admin :: "gotrue_user \<Rightarrow> bool" where
  "is_admin user \<longleftrightarrow> gu_role user = ''supabase_admin''"

definition page_login_handler :: "'v web_env \<Rightarrow> page_renderer \<Rightarrow> gotrue_server \<Rightarrow> string web_result" where
  "page_login_handler we render srv =
     web_app_gotrue (gotrue_settings_of (we_gd we) srv (we_base we))
       (\<lambda>settings. render_template render (LoginPage (oauth_providers (gs_external settings))))"

definition user_page ::
    "'v web_env \<Rightarrow> page_renderer \<Rightarrow> (gotrue_user \<Rightarrow> web_page) \<Rightarrow> (nat \<Rightarrow> string option) \<Rightarrow> (nat \<Rightarrow> gotrue_server) \<Rightarrow> nat \<Rightarrow>
     cookie_jar \<Rightarrow> 'v web_store \<Rightarrow> 'v web_store \<times> string web_result" where
  "user_page we render page rd srv now jar st =
     with_session we rd srv now jar
       (\<lambda>session. web_app_gotrue (gotrue_user_info (we_gd we) (srv 1) (we_base we) (session_access session))
          (\<lambda>user. render_template render (page user))) st"

definition page_home_handler ::
    "'v web_env \<Rightarrow> page_renderer \<Rightarrow> (nat \<Rightarrow> string option) \<Rightarrow> (nat \<Rightarrow> gotrue_server) \<Rightarrow> nat \<Rightarrow> cookie_jar \<Rightarrow> 'v web_store \<Rightarrow>
     'v web_store \<times> string web_result" where
  "page_home_handler we render = user_page we render (\<lambda>user. HomePage user (is_admin user))"

definition page_admin_home_handler ::
    "'v web_env \<Rightarrow> page_renderer \<Rightarrow> (nat \<Rightarrow> string option) \<Rightarrow> (nat \<Rightarrow> gotrue_server) \<Rightarrow> nat \<Rightarrow> cookie_jar \<Rightarrow> 'v web_store \<Rightarrow>
     'v web_store \<times> string web_result" where
  "page_admin_home_handler we render = user_page we render AdminHomePage"

definition page_user_user_handler ::
    "'v web_env \<Rightarrow> page_renderer \<Rightarrow> (nat \<Rightarrow> string option) \<Rightarrow> (nat \<Rightarrow> gotrue_server) \<Rightarrow> nat \<Rightarrow> cookie_jar \<Rightarrow> 'v web_store \<Rightarrow>
     'v web_store \<times> string web_result" where
  "page_user_user_handler we render = user_page we render UserDetailsPage"

text \<open>An error of the list of users shows no users; deleted users are left out.\<close>

definition page_admin_users_handler ::
    "'v web_env \<Rightarrow> page_renderer \<Rightarrow> (nat \<Rightarrow> string option) \<Rightarrow> (nat \<Rightarrow> gotrue_server) \<Rightarrow> nat \<Rightarrow> cookie_jar \<Rightarrow> 'v web_store \<Rightarrow>
     'v web_store \<times> string web_result" where
  "page_admin_users_handler we render rd srv now jar st =
     with_session we rd srv now jar
       (\<lambda>session.
          let users = (case admin_list_user (we_gd we) (srv 1) (we_base we) (session_access session) of
                         Inl _ \<Rightarrow> [] | Inr (us, _) \<Rightarrow> us)
          in render_template render (AdminUsersPage (filter (\<lambda>u. gu_deleted_at u = None) users))) st"

text \<open>\<open>unwrap\<close> on the answer of the server.\<close>

definition page_admin_user_details_handler ::
    "'v web_env \<Rightarrow> page_renderer \<Rightarrow> (nat \<Rightarrow> string option) \<Rightarrow> (nat \<Rightarrow> gotrue_server) \<Rightarrow> nat \<Rightarrow> cookie_jar \<Rightarrow> string \<Rightarrow> 'v web_store \<Rightarrow>
     'v web_store \<times> string web_result" where
  "page_admin_user_details_handler we render rd srv now jar user_id st =
     with_session we rd srv now jar
       (\<lambda>session.
          case admin_user_details (we_gd we) (srv 1) (we_base we) (session_access session) user_id of
            Inl _ \<Rightarrow> WebPanic
          | Inr user \<Rightarrow> render_template render (AdminUserDetailsPage user)) st"

definition page_admin_sso_handler ::
    "'v web_env \<Rightarrow> page_renderer \<Rightarrow> (nat \<Rightarrow> string option) \<Rightarrow> (nat \<Rightarrow> gotrue_server) \<Rightarrow> nat \<Rightarrow> cookie_jar \<Rightarrow> 'v web_store \<Rightarrow>
     'v web_store \<times> string web_result" where
  "page_admin_sso_handler we render rd srv now jar st =
     with_session we rd srv now jar
       (\<lambda>session. web_app_gotrue (admin_list_sso_providers (we_gd we) (srv 1) (we_base we) (session_access session))
          (\<lambda>items. render_template render (SsoListPage (case items of Some ps \<Rightarrow> ps | None \<Rightarrow> [])))) st"

text \<open>\<open>pretty\<close> is the text of the mapping of attributes.\<close>

definition page_admin_sso_detail_handler ::
    "'v web_env \<Rightarrow> page_renderer \<Rightarrow> ((string \<times> saml_attribute) list option \<Rightarrow> string + string) \<Rightarrow> (nat \<Rightarrow> string option) \<Rightarrow>
     (nat \<Rightarrow> gotrue_server) \<Rightarrow> nat \<Rightarrow> cookie_jar \<Rightarrow> string \<Rightarrow> 'v web_store \<Rightarrow> 'v web_store \<times> string web_result" where
  "page_admin_sso_detail_handler we render pretty rd srv now jar sso_provider_id st =
     with_session we rd srv now jar
       (\<lambda>session. web_app_gotrue
          (admin_get_sso_provider (we_gd we) (srv 1) (we_base we) (session_access session) sso_provider_id)
          (\<lambda>p. render_template render
             (SsoDetailPage p (case pretty (sp_attribute_mapping (sso_saml p)) of Inr m \<Rightarrow> m | Inl _ \<Rightarrow> [])))) st"

text \<open>The pages that show no data.\<close>

definition page_admin_sso_create_handler :: "page_renderer \<Rightarrow> string web_result" where
  "page_admin_sso_create_handler render = render_template render SsoCreatePage"

definition page_user_navigate_handler :: "page_renderer \<Rightarrow> string web_result" where
  "page_user_navigate_handler render = render_template render NavigatePage"

definition page_admin_navigate_handler :: "page_renderer \<Rightarrow> string web_result" where
  "page_admin_navigate_handler render = render_template render AdminNavigatePage"

definition page_user_invite_handler :: "page_renderer \<Rightarrow> string web_result" where
  "page_user_invite_handler render = render_template render InvitePage"

definition page_admin_users_create_handler :: "page_renderer \<Rightarrow> string web_result" where
  "page_admin_users_create_handler render = render_template render CreateUserPage"

definition page_user_change_password_handler :: "page_renderer \<Rightarrow> string web_result" where
  "page_user_change_password_handler render = render_template render ChangePasswordPage"

subsection \<open>Routes\<close>

text \<open>The pages and the parts of pages under \<open>/web\<close>, by their path; a segment that starts with a colon stands for any.\<close>

definition page_routes :: "string list" where
  "page_routes = [''/'', ''/login'', ''/home'', ''/admin/home'']"

definition component_routes :: "string list" where
  "component_routes =
     [''/user/navigate'', ''/user/user'', ''/user/change_password'', ''/user/invite'', ''/admin/navigate'', ''/admin/users'',
      ''/admin/users/:user_id'', ''/admin/users/create'', ''/admin/sso'', ''/admin/sso/create'',
      ''/admin/sso/:sso_provider_id'']"

definition is_page :: "string \<Rightarrow> bool" where
  "is_page path \<longleftrightarrow> path \<in> (\<lambda>p. ''/web'' @ p) ` set page_routes"

end
