(* ===== verification/AdminProps.thy ===== *)
theory AdminProps
  imports AdminWeb TokenProps
begin

section \<open>Properties of the web frontend\<close>

text \<open>
  How long a session of a browser lasts, what a logout ends, alone and beside a request that refreshes the token, and the
  link with which the browser signs the application in.
\<close>

subsection \<open>The store of sessions\<close>

definition session_codec :: "'v web_env \<Rightarrow> bool" where
  "session_codec we \<longleftrightarrow> (\<forall>s. we_dec we (we_enc we s) = Inr s)"

lemma session_id_key_inj [simp]: "session_id_key x = session_id_key y \<longleftrightarrow> x = y"
  by (simp add: session_id_key_def)

text \<open>Every entry is the session of its key.\<close>

definition store_ok :: "'v web_env \<Rightarrow> 'v web_store \<Rightarrow> bool" where
  "store_ok we st \<longleftrightarrow>
     (\<forall>key v t. st key = Some (v, t) \<longrightarrow> (\<exists>s. we_dec we v = Inr s \<and> key = session_id_key (ss_session_id s)))"

lemma store_ok_put: "session_codec we \<Longrightarrow> store_ok we st \<Longrightarrow> store_ok we (fst (put_user_session we err now s st))"
  by (auto simp: put_user_session_def store_ok_def session_codec_def split: option.split)

lemma store_ok_del: "store_ok we st \<Longrightarrow> store_ok we (fst (del_user_session err sid st))"
  by (auto simp: del_user_session_def store_ok_def split: option.split)

lemma put_other: "ss_session_id s \<noteq> sid \<Longrightarrow> fst (put_user_session we err now s st) (session_id_key sid) = st (session_id_key sid)"
  by (auto simp: put_user_session_def split: option.split)

lemma lookup_session_Inr:
  assumes "store_ok we st" and "lookup_session we err now jar st = Inr session"
  shows "jar_get jar ''session_id'' = Some (ss_session_id session)"
proof -
  obtain sid v t where k: "jar_get jar ''session_id'' = Some sid" "st (session_id_key sid) = Some (v, t)" "we_dec we v = Inr session"
    using assms(2) by (auto simp: lookup_session_def get_user_session_def redis_get_def split: option.splits sum.splits if_splits)
  with assms(1) have "session_id_key sid = session_id_key (ss_session_id session)" by (fastforce simp: store_ok_def)
  with k(1) show ?thesis by simp
qed

lemma refreshed_id: "refresh_session we err srv now session st = (st', Inr session') \<Longrightarrow> ss_session_id session' = ss_session_id session"
  by (auto simp: refresh_session_def Let_def split: sum.splits)

subsection \<open>Requests side by side\<close>

text \<open>
  What several requests do to the store: an extraction that has to refresh the token is two steps, the read of the session
  and the update, with the steps of other requests in between; \<open>wb_pending\<close> has the sessions that are being refreshed.
\<close>

record 'v web_state =
  wb_store :: "'v web_store"
  wb_pending :: "nat \<rightharpoonup> user_session"

datatype web_event =
    WebSignIn "string option" gotrue_server string nat cookie_jar string string
  | WebSignUp "string option" gotrue_server string nat cookie_jar string string
  | WebLoginRefresh "string option" "nat \<Rightarrow> gotrue_server" string nat cookie_jar string
  | WebLogout "string option" cookie_jar
  | WebLookup nat "string option" nat cookie_jar
  | WebRefresh nat "string option" gotrue_server nat

fun web_step :: "'v web_env \<Rightarrow> 'v web_state \<Rightarrow> web_event \<Rightarrow> 'v web_state" where
  "web_step we s (WebSignIn err srv new_id now jar email password) =
     s\<lparr>wb_store := fst (sign_in_handler we err srv new_id now jar email password (wb_store s))\<rparr>"
| "web_step we s (WebSignUp err srv new_id now jar email password) =
     s\<lparr>wb_store := fst (sign_up_handler we err srv new_id now jar email password (wb_store s))\<rparr>"
| "web_step we s (WebLoginRefresh err srv new_id now jar refresh_token) =
     s\<lparr>wb_store := fst (login_refresh_handler we err srv new_id now jar refresh_token (wb_store s))\<rparr>"
| "web_step we s (WebLogout err jar) = s\<lparr>wb_store := fst (logout_handler err jar (wb_store s))\<rparr>"
| "web_step we s (WebLookup r err now jar) =
     (case lookup_session we err now jar (wb_store s) of
        Inl _ \<Rightarrow> s
      | Inr session \<Rightarrow>
          if token_has_expired we now (session_access session) then s\<lparr>wb_pending := (wb_pending s)(r \<mapsto> session)\<rparr> else s)"
| "web_step we s (WebRefresh r err srv now) =
     (case wb_pending s r of
        None \<Rightarrow> s
      | Some session \<Rightarrow>
          s\<lparr>wb_store := fst (refresh_session we err srv now session (wb_store s)), wb_pending := (wb_pending s)(r := None)\<rparr>)"

text \<open>The steps of one request, one after the other, are its extraction.\<close>

lemma extraction_is_two_steps:
  "wb_pending s r = None \<Longrightarrow>
   wb_store (run (web_step we) s [WebLookup r (rd 0) now jar, WebRefresh r (rd 1) (srv 0) now]) =
   fst (extract_session we rd srv now jar (wb_store s))"
  by (simp add: extract_session_def session_access_def split: sum.split)

fun issued_id :: "web_event \<Rightarrow> string option" where
  "issued_id (WebSignIn _ _ new_id _ _ _ _) = Some new_id"
| "issued_id (WebSignUp _ _ new_id _ _ _ _) = Some new_id"
| "issued_id (WebLoginRefresh _ _ new_id _ _ _) = Some new_id"
| "issued_id _ = None"

text \<open>A session that is gone, and that no request is refreshing.\<close>

definition session_gone :: "'v web_env \<Rightarrow> string \<Rightarrow> 'v web_state \<Rightarrow> bool" where
  "session_gone we sid s \<longleftrightarrow> store_ok we (wb_store s) \<and> wb_store s (session_id_key sid) = None \<and>
     (\<forall>session \<in> ran (wb_pending s). ss_session_id session \<noteq> sid)"

lemma session_login_keeps:
  assumes "session_codec we" and "store_ok we st" and "new_id \<noteq> sid"
  shows "store_ok we (fst (session_login we err new_id now token jar st))"
    "fst (session_login we err new_id now token jar st) (session_id_key sid) = st (session_id_key sid)"
proof -
  have e: "fst (session_login we err new_id now token jar st) =
      fst (put_user_session we err now \<lparr>ss_session_id = new_id, ss_token = token\<rparr> st)"
    by (auto simp: session_login_def split: prod.split sum.split)
  show "store_ok we (fst (session_login we err new_id now token jar st))" unfolding e by (rule store_ok_put [OF assms(1,2)])
  show "fst (session_login we err new_id now token jar st) (session_id_key sid) = st (session_id_key sid)"
    unfolding e by (rule put_other) (simp add: assms(3))
qed

lemma refresh_session_store:
  "fst (refresh_session we err srv now session st) = st \<or>
   (\<exists>session'. ss_session_id session' = ss_session_id session \<and>
      fst (refresh_session we err srv now session st) = fst (put_user_session we err now session' st))"
proof (cases "gotrue_token_of (we_gd we) srv (we_base we) (RefreshTokenGrant (gk_refresh_token (ss_token session)))")
  case (Inr t)
  let ?s = "session\<lparr>ss_token := (ss_token session)\<lparr>gk_access_token := gk_access_token t, gk_refresh_token := gk_refresh_token t\<rparr>\<rparr>"
  have "ss_session_id ?s = ss_session_id session" "fst (refresh_session we err srv now session st) = fst (put_user_session we err now ?s st)"
    by (simp_all add: refresh_session_def Let_def Inr)
  then show ?thesis by blast
qed (simp add: refresh_session_def)

lemma ran_upd_subset: "x \<in> ran (m(k := v)) \<Longrightarrow> x \<in> ran m \<or> v = Some x"
  by (auto simp: ran_def split: if_splits)

lemma login_refresh_store:
  "fst (login_refresh_handler we err srv new_id now jar rt st) = st \<or>
   (\<exists>t. fst (login_refresh_handler we err srv new_id now jar rt st) =
      fst (put_user_session we err now \<lparr>ss_session_id = new_id, ss_token = t\<rparr> st))"
proof (cases "res_bind (gotrue_token_of (we_gd we) (srv 0) (we_base we) (RefreshTokenGrant rt)) (\<lambda>token.
    gotrue_token_of (we_gd we) (srv 1) (we_base we) (RefreshTokenGrant (gk_refresh_token token)))")
  case (Inr t)
  have "fst (login_refresh_handler we err srv new_id now jar rt st) =
      fst (put_user_session we err now \<lparr>ss_session_id = new_id, ss_token = t\<rparr> st)"
    unfolding login_refresh_handler_def Inr by (simp split: prod.split sum.split)
  then show ?thesis by blast
qed (simp add: login_refresh_handler_def)

interpretation web_runs: step_invariant "web_step we" "\<lambda>_ ev. session_codec we \<and> issued_id ev \<noteq> Some sid" "session_gone we sid"
  for we sid
proof unfold_locales
  fix s ev assume gone: "session_gone we sid s" and ev: "session_codec we \<and> issued_id ev \<noteq> Some sid"
  let ?st = "wb_store s"
  have ok: "store_ok we ?st" and none: "?st (session_id_key sid) = None" using gone by (simp_all add: session_gone_def)
  note login = session_login_keeps [OF conjunct1 [OF ev] ok]
  have step: "session_gone we sid (s\<lparr>wb_store := st\<rparr>)" if "store_ok we st" "st (session_id_key sid) = None" for st
    using gone that by (simp add: session_gone_def)
  show "session_gone we sid (web_step we s ev)"
  proof (cases ev)
    case (WebSignIn err srv new_id now jar email password)
    with ev show ?thesis
      by (auto simp: sign_in_handler_def gone login none intro!: step split: sum.split)
  next
    case (WebSignUp err srv new_id now jar email password)
    with ev show ?thesis
      by (auto simp: sign_up_handler_def gone login none ok intro!: step split: sum.split sign_up_response.split)
  next
    case (WebLoginRefresh err srv new_id now jar rt)
    note e = login_refresh_store [of we err srv new_id now jar rt ?st]
    show ?thesis
      unfolding WebLoginRefresh web_step.simps
      by (rule step) (use e ev WebLoginRefresh ok none in \<open>auto simp: store_ok_put put_other\<close>)
  next
    case (WebLogout err jar)
    have e: "fst (logout_handler err jar ?st) = ?st \<or> (\<exists>x. fst (logout_handler err jar ?st) = fst (del_user_session err x ?st))"
    proof (cases "jar_get jar ''session_id''")
      case (Some x)
      then have "fst (logout_handler err jar ?st) = fst (del_user_session err x ?st)"
        by (simp add: logout_handler_def split: prod.split sum.split)
      then show ?thesis by blast
    qed (simp add: logout_handler_def)
    show ?thesis
      unfolding WebLogout web_step.simps
    proof (rule step)
      show "store_ok we (fst (logout_handler err jar ?st))" using e ok store_ok_del [OF ok] by metis
      show "fst (logout_handler err jar ?st) (session_id_key sid) = None"
        using e none by (auto simp: del_user_session_def split: option.splits)
    qed
  next
    case (WebLookup r err now jar)
    have "ss_session_id session \<noteq> sid" if l: "lookup_session we err now jar ?st = Inr session" for session
    proof
      assume "ss_session_id session = sid"
      with lookup_session_Inr [OF ok l] l none show False
        by (simp add: lookup_session_def get_user_session_def redis_get_def split: option.splits)
    qed
    with gone show ?thesis unfolding WebLookup
      by (auto simp: session_gone_def split: sum.split dest!: ran_upd_subset)
  next
    case (WebRefresh r err srv now)
    show ?thesis
    proof (cases "wb_pending s r")
      case (Some session)
      then have n: "ss_session_id session \<noteq> sid" using gone by (auto simp: session_gone_def ran_def)
      let ?st' = "fst (refresh_session we err srv now session ?st)"
      have "store_ok we ?st'" "?st' (session_id_key sid) = None"
        using refresh_session_store [of we err srv now session ?st] n ev ok none by (auto simp: store_ok_put put_other)
      with gone show ?thesis unfolding WebRefresh by (auto simp: Some session_gone_def dest!: ran_upd_subset)
    qed (simp add: WebRefresh gone)
  qed
qed

subsection \<open>Properties\<close>

text \<open>C15: after a logout the session of the cookie is gone for good: unless a request was refreshing its token at that time,
  no request with the cookie finds it again, whatever other requests are served.\<close>

theorem logged_out_session_stays_gone:
  assumes "session_codec we" and "store_ok we (wb_store s)" and "jar_get jar ''session_id'' = Some sid"
    and "list_all (\<lambda>session. ss_session_id session \<noteq> sid) (map (the \<circ> wb_pending s) refreshing)"
    and "dom (wb_pending s) = set refreshing" and "list_all (\<lambda>ev. issued_id ev \<noteq> Some sid) evs"
    and "jar_get jar' ''session_id'' = Some sid"
  shows "lookup_session we err now jar' (wb_store (run (web_step we) s (WebLogout None jar # evs))) = Inl SessionNotFound"
proof -
  have p: "ss_session_id session \<noteq> sid" if "session \<in> ran (wb_pending s)" for session
  proof -
    from that obtain r where r: "wb_pending s r = Some session" by (auto simp: ran_def)
    then have "r \<in> set refreshing" using assms(5) by auto
    with assms(4) have "ss_session_id (the (wb_pending s r)) \<noteq> sid" by (auto simp: list_all_iff)
    with r show ?thesis by simp
  qed
  have "store_ok we (fst (logout_handler None jar (wb_store s)))" "fst (logout_handler None jar (wb_store s)) (session_id_key sid) = None"
    using store_ok_del [OF assms(2), of None sid]
    by (simp_all add: logout_handler_def assms(3) del_user_session_def)
  then have "session_gone we sid (web_step we s (WebLogout None jar))" using p by (simp add: session_gone_def)
  moreover have "admissible (\<lambda>_ ev. session_codec we \<and> issued_id ev \<noteq> Some sid) (web_step we) s' evs" for s'
    using assms(1,6) by (induction evs arbitrary: s') auto
  ultimately have "session_gone we sid (run (web_step we) s (WebLogout None jar # evs))"
    unfolding run.simps by (rule web_runs.run_inv)
  then show ?thesis
    by (simp add: lookup_session_def assms(7) session_gone_def get_user_session_def redis_get_def split: option.split)
qed

text \<open>a logout while a request refreshes the token of the session is undone: the update stores the session again, with new
  tokens, and the cookie signs in as before.\<close>

theorem logout_is_undone_by_a_refresh:
  assumes "session_codec we" and "store_ok we (wb_store s)" and "lookup_session we None now jar (wb_store s) = Inr session"
    and "token_has_expired we now (session_access session)"
    and "gotrue_token_of (we_gd we) srv (we_base we) (RefreshTokenGrant (gk_refresh_token (ss_token session))) = Inr t"
  shows "lookup_session we None now jar
      (wb_store (run (web_step we) s [WebLookup r None now jar, WebLogout None jar, WebRefresh r None srv now])) =
    Inr (session\<lparr>ss_token := (ss_token session)\<lparr>gk_access_token := gk_access_token t, gk_refresh_token := gk_refresh_token t\<rparr>\<rparr>)"
proof -
  have "jar_get jar ''session_id'' = Some (ss_session_id session)" by (rule lookup_session_Inr [OF assms(2,3)])
  with assms show ?thesis
    by (simp add: refresh_session_def Let_def put_user_session_def lookup_session_def [of _ _ _ _ "_(_ \<mapsto> _)"]
        get_user_session_def redis_get_def SESSION_EXPIRATION_def session_codec_def)
qed

text \<open>a browser that signs in with a password is recognised by the cookie it gets, as the user of the token, for exactly a
  day, when the session in the store expires.\<close>

theorem session_lasts_a_day:
  assumes "session_codec we" and "password \<noteq> []"
    and "gotrue_token_of (we_gd we) srv (we_base we) (PasswordGrant email password) = Inr t"
    and "sign_in_handler we err srv new_id now jar email password st = (st', WebOk (jar', headers, resp))"
    and "jar_get next_jar ''session_id'' = jar_get jar' ''session_id''"
  shows "lookup_session we None later next_jar st' =
    (if later < now + 86400 then Inr \<lparr>ss_session_id = new_id, ss_token = t\<rparr> else Inl SessionNotFound)"
proof -
  have r: "session_login we err new_id now t jar st = (st', WebOk (jar', headers, resp))"
    using assms(2-4) by (simp add: sign_in_handler_def)
  have st': "st' = st(session_id_key new_id \<mapsto> (we_enc we \<lparr>ss_session_id = new_id, ss_token = t\<rparr>, now + 86400))"
    "jar' = jar_add (new_session_cookie new_id) jar"
    using r by (auto simp: session_login_def put_user_session_def SESSION_EXPIRATION_def
        split: option.splits prod.splits sum.splits)
  have "jar_get jar' ''session_id'' = Some new_id" by (simp add: st'(2) jar_get_def jar_add_def new_session_cookie_def)
  with assms(1,5) show ?thesis
    by (simp add: lookup_session_def get_user_session_def redis_get_def st'(1) session_codec_def)
qed

subsection \<open>Opening the application\<close>

lemma show_int_no_amp [simp]: "CHR ''&'' \<notin> set (show_int i)"
  using show_nat_char [of "CHR ''&''" "nat i"] show_nat_char [of "CHR ''&''" "nat (- i)"] by (auto simp: show_int_def)

lemma parse_i64_show_int [simp]: "in_i64 i \<Longrightarrow> parse_i64 (show_int i) = Some i"
proof (cases "i < 0")
  case True
  moreover assume "in_i64 i"
  ultimately show ?thesis by (simp add: parse_i64_def show_int_def Let_def)
next
  case False
  moreover assume "in_i64 i"
  moreover obtain c cs where "show_nat (nat i) = c # cs" by (cases "show_nat (nat i)") auto
  moreover from this have "parse_digits 0 (c # cs) = Some (nat i)" by (metis parse_digits_show_nat)
  ultimately show ?thesis
    using show_nat_hd_not_sign [of "nat i"]
    by (simp add: parse_i64_def show_int_def Let_def del: parse_digits.simps)
qed

definition open_app_fragment :: "gotrue_token \<Rightarrow> string" where
  "open_app_fragment t =
     (''access_token='' @ gk_access_token t) @ CHR ''&'' # (''expires_at='' @ show_int (gk_expires_at t)) @ CHR ''&'' #
     (''expires_in='' @ show_int (gk_expires_in t)) @ CHR ''&'' # (''refresh_token='' @ gk_refresh_token t) @
     CHR ''&'' # (''token_type='' @ gk_token_type t)"

lemma open_app_url_fragment: "open_app_url s = ''appflowy-flutter://login-callback#'' @ open_app_fragment (ss_token s)"
  by (simp add: open_app_url_def open_app_fragment_def)

lemma open_app_split:
  assumes "CHR ''&'' \<notin> set (gk_access_token t) \<union> set (gk_refresh_token t) \<union> set (gk_token_type t)"
  shows "split_on CHR ''&'' (open_app_fragment t) =
    [''access_token='' @ gk_access_token t, ''expires_at='' @ show_int (gk_expires_at t),
     ''expires_in='' @ show_int (gk_expires_in t), ''refresh_token='' @ gk_refresh_token t, ''token_type='' @ gk_token_type t]"
  unfolding open_app_fragment_def
  using assms by (subst split_on_append, simp)+ (simp add: split_on_noc)

lemma open_app_params:
  assumes "CHR ''&'' \<notin> set (gk_access_token t) \<union> set (gk_refresh_token t) \<union> set (gk_token_type t)"
    and "in_i64 (gk_expires_at t)" "in_i64 (gk_expires_in t)"
  shows "take_url_params e (split_on CHR ''&'' (open_app_fragment t)) no_url_params =
    Inr (no_url_params\<lparr>up_access_token := Some (gk_access_token t), up_token_type := Some (gk_token_type t),
      up_expires_in := Some (gk_expires_in t), up_expires_at := Some (gk_expires_at t),
      up_refresh_token := Some (gk_refresh_token t)\<rparr>)"
  using assms(2,3) split_once_at [of "CHR ''=''" "''access_token''"] split_once_at [of "CHR ''=''" "''expires_at''"]
    split_once_at [of "CHR ''=''" "''expires_in''"] split_once_at [of "CHR ''=''" "''refresh_token''"]
    split_once_at [of "CHR ''=''" "''token_type''"]
  unfolding open_app_split [OF assms(1)] by (simp add: take_url_param_def no_url_params_def)


text \<open>A session whose token was refreshed keeps the time at which the first token expired.\<close>

lemma refreshed_session_keeps_its_expiry:
  assumes "refresh_session we err srv now session st = (st', Inr session')"
  shows "gk_expires_at (ss_token session') = gk_expires_at (ss_token session) \<and>
    gk_user (ss_token session') = gk_user (ss_token session)"
  using assms by (auto simp: refresh_session_def Let_def split: sum.splits)

subsection \<open>Samples\<close>

definition sample_web :: "user_session web_env" where
  "sample_web =
     \<lparr>we_gd = sample_gotrue, we_base = ''http://auth'', we_enc = \<lambda>s. s, we_dec = Inr,
      we_unverified = \<lambda>token. Inr (if token = ''old'' then Some 50 else None)\<rparr>"

definition sample_jar :: cookie_jar where
  "sample_jar = \<lparr>cj_original = [''session_id'' \<mapsto> ''s''], cj_delta = Map.empty\<rparr>"

definition sample_user_session :: user_session where
  "sample_user_session = \<lparr>ss_session_id = ''s'', ss_token = sample_token ''old'' 50\<rparr>"

definition sample_web_state :: "user_session web_state" where
  "sample_web_state =
     \<lparr>wb_store = [''web::session::s'' \<mapsto> (sample_user_session, 86400)], wb_pending = Map.empty\<rparr>"

lemma sample_web_ok:
  "session_codec sample_web" "store_ok sample_web (wb_store sample_web_state)" "jar_get sample_jar ''session_id'' = Some ''s''"
  by (simp_all add: session_codec_def store_ok_def sample_web_def sample_web_state_def sample_user_session_def session_id_key_def
      sample_jar_def jar_get_def)

theorem logged_out_session_stays_gone_witness:
  "lookup_session sample_web None 100 sample_jar (wb_store (run (web_step sample_web) sample_web_state
      [WebLogout None sample_jar, WebSignIn None (answers 200 [40]) ''t'' 90 sample_jar ''v@x'' ''pw''])) = Inl SessionNotFound"
proof -
  have m: "list_all (\<lambda>session. ss_session_id session \<noteq> ''s'') (map (the \<circ> wb_pending sample_web_state) [])" by simp
  have d: "dom (wb_pending sample_web_state) = set []" by (simp add: sample_web_state_def)
  have ev: "list_all (\<lambda>ev. issued_id ev \<noteq> Some ''s'')
      [WebSignIn None (answers 200 [40]) ''t'' 90 sample_jar ''v@x'' ''pw'']"
    by simp
  show ?thesis by (rule logged_out_session_stays_gone [OF sample_web_ok m d ev sample_web_ok(3)])
qed

theorem logout_is_undone_by_a_refresh_witness:
  "\<exists>session. lookup_session sample_web None 60 sample_jar
      (wb_store (run (web_step sample_web) sample_web_state
         [WebLookup 1 None 60 sample_jar, WebLogout None sample_jar, WebRefresh 1 None (answers 200 [90]) 60])) = Inr session"
proof -
  have l: "lookup_session sample_web None 60 sample_jar (wb_store sample_web_state) = Inr sample_user_session"
    by (simp add: lookup_session_def sample_web_ok get_user_session_def redis_get_def session_id_key_def)
      (simp add: sample_web_state_def sample_web_def)
  have x: "token_has_expired sample_web 60 (session_access sample_user_session)"
    by (simp add: token_has_expired_def get_session_expiration_def session_access_def sample_web_def sample_user_session_def sample_token_def)
  have t: "gotrue_token_of (we_gd sample_web) (answers 200 [90]) (we_base sample_web)
      (RefreshTokenGrant (gk_refresh_token (ss_token sample_user_session))) = Inr (sample_token ''new'' 90)"
    by (simp add: gotrue_token_of_def gotrue_send_def answers_def sample_web_def sample_gotrue_def status_is_success_def from_body_def res_map_err_def)
  show ?thesis
    by (rule exI, rule logout_is_undone_by_a_refresh [OF sample_web_ok(1,2) l x t])
qed

theorem session_lasts_a_day_witness:
  "\<exists>st jar. lookup_session sample_web None 86490 jar st = Inl SessionNotFound \<and>
    lookup_session sample_web None 86489 jar st = Inr \<lparr>ss_session_id = ''n'', ss_token = sample_token ''new'' 40\<rparr>"
proof -
  have t: "gotrue_token_of (we_gd sample_web) (answers 200 [40]) (we_base sample_web) (PasswordGrant ''v@x'' ''pw'') =
      Inr (sample_token ''new'' 40)"
    by (simp add: gotrue_token_of_def gotrue_send_def answers_def sample_web_def sample_gotrue_def status_is_success_def from_body_def res_map_err_def)
  have h: "htmx_redirect ''/web/home'' = Some [(''HX-Redirect'', ''/web/home'')]" by code_simp
  obtain st jar headers resp where
    s: "sign_in_handler sample_web None (answers 200 [40]) ''n'' 90 jar_new ''v@x'' ''pw'' Map.empty = (st, WebOk (jar, headers, resp))"
    by (simp add: sign_in_handler_def t session_login_def put_user_session_def h)
  show ?thesis
    using session_lasts_a_day [OF sample_web_ok(1) _ t s refl, of 86490] session_lasts_a_day [OF sample_web_ok(1) _ t s refl, of 86489]
    by auto
qed


end
