(* ===== verification/Template.thy ===== *)
theory Template
  imports AccountOps
begin

section \<open>The template of a workspace\<close>

text \<open>
  \<open>libs/workspace-template/src\<close>: the builder of the views of a workspace and their order in its folder
  (\<open>hierarchy_builder.rs\<close>), the reading of a document from JSON (\<open>document/parser.rs\<close>) and the documents of a new
  workspace (\<open>lib.rs\<close>, \<open>document/get_started.rs\<close>). The ids that are drawn are those of a supply: \<open>ti_view n\<close> and
  \<open>ti_block n\<close> are the ids of draw \<open>n\<close>. An \<open>IndexMap\<close> is an association list in the order of the insertions. The encoding
  of documents and folders, and the text of a JSON value, are parameters.
\<close>

subsection \<open>Views\<close>

text \<open>Of the layouts of \<open>collab_folder\<close> the code names one.\<close>

datatype view_layout = DocumentLayout | OtherLayout string

record template_ids =
  ti_view :: "nat \<Rightarrow> string"
  ti_block :: "nat \<Rightarrow> string"

record folder_view =
  fv_id :: string
  fv_parent_view_id :: string
  fv_name :: string
  fv_desc :: string
  fv_created_at :: i64
  fv_is_favorite :: bool
  fv_layout :: view_layout
  fv_icon :: "string option"
  fv_created_by :: "i64 option"
  fv_last_edited_time :: i64
  fv_children :: "string list"
  fv_last_edited_by :: "i64 option"

datatype parent_child_views = ParentChildViews (parent_view: folder_view) (child_views: "parent_child_views list")

record view_builder =
  vb_uid :: i64
  vb_parent_view_id :: string
  vb_view_id :: string
  vb_name :: string
  vb_desc :: string
  vb_layout :: view_layout
  vb_child_views :: "parent_child_views list"
  vb_is_favorite :: bool
  vb_icon :: "string option"

definition view_builder_new :: "template_ids \<Rightarrow> i64 \<Rightarrow> string \<Rightarrow> nat \<Rightarrow> view_builder \<times> nat" where
  "view_builder_new ti uid parent_view_id n =
     (\<lparr>vb_uid = uid, vb_parent_view_id = parent_view_id, vb_view_id = ti_view ti n, vb_name = [], vb_desc = [],
       vb_layout = DocumentLayout, vb_child_views = [], vb_is_favorite = False, vb_icon = None\<rparr>, Suc n)"

definition with_layout :: "view_layout \<Rightarrow> view_builder \<Rightarrow> view_builder" where
  "with_layout layout b = b\<lparr>vb_layout := layout\<rparr>"

definition with_name :: "string \<Rightarrow> view_builder \<Rightarrow> view_builder" where
  "with_name name b = b\<lparr>vb_name := name\<rparr>"

definition with_desc :: "string \<Rightarrow> view_builder \<Rightarrow> view_builder" where
  "with_desc desc b = b\<lparr>vb_desc := desc\<rparr>"

definition with_icon :: "string \<Rightarrow> view_builder \<Rightarrow> view_builder" where
  "with_icon icon b = b\<lparr>vb_icon := Some icon\<rparr>"

text \<open>What a closure does with the builder it is given: a view, after some draws of ids.\<close>

type_synonym view_closure = "view_builder \<Rightarrow> nat \<Rightarrow> parent_child_views \<times> nat"

definition with_child_view_builder ::
    "template_ids \<Rightarrow> view_closure \<Rightarrow> view_builder \<Rightarrow> nat \<Rightarrow> view_builder \<times> nat" where
  "with_child_view_builder ti child_view_builder b n =
     (let (builder, n1) = view_builder_new ti (vb_uid b) (vb_view_id b) n;
          (view, n2) = child_view_builder builder n1
      in (b\<lparr>vb_child_views := vb_child_views b @ [view]\<rparr>, n2))"

definition view_build :: "i64 \<Rightarrow> view_builder \<Rightarrow> parent_child_views" where
  "view_build timestamp b =
     ParentChildViews
       \<lparr>fv_id = vb_view_id b, fv_parent_view_id = vb_parent_view_id b, fv_name = vb_name b, fv_desc = vb_desc b,
        fv_created_at = timestamp, fv_is_favorite = vb_is_favorite b, fv_layout = vb_layout b, fv_icon = vb_icon b,
        fv_created_by = Some (vb_uid b), fv_last_edited_time = 0,
        fv_children = map (\<lambda>v. fv_id (parent_view v)) (vb_child_views b), fv_last_edited_by = Some (vb_uid b)\<rparr>
       (vb_child_views b)"

fun flatten_views :: "parent_child_views list \<Rightarrow> folder_view list" where
  "flatten_views [] = []"
| "flatten_views (ParentChildViews v cs # vs) = v # flatten_views cs @ flatten_views vs"

record workspace_view_builder =
  wv_uid :: i64
  wv_workspace_id :: string
  wv_views :: "parent_child_views list"

definition workspace_view_builder_new :: "string \<Rightarrow> i64 \<Rightarrow> workspace_view_builder" where
  "workspace_view_builder_new workspace_id uid = \<lparr>wv_uid = uid, wv_workspace_id = workspace_id, wv_views = []\<rparr>"

definition with_view_builder ::
    "template_ids \<Rightarrow> view_closure \<Rightarrow> workspace_view_builder \<Rightarrow> nat \<Rightarrow> workspace_view_builder \<times> string \<times> nat" where
  "with_view_builder ti f wb n =
     (let (builder, n1) = view_builder_new ti (wv_uid wb) (wv_workspace_id wb) n;
          (view, n2) = f builder n1
      in (wb\<lparr>wv_views := wv_views wb @ [view]\<rparr>, fv_id (parent_view view), n2))"

definition workspace_views_build :: "workspace_view_builder \<Rightarrow> workspace_view_builder \<times> parent_child_views list" where
  "workspace_views_build wb = (wb\<lparr>wv_views := []\<rparr>, wv_views wb)"

subsection \<open>Documents from JSON\<close>

datatype serde_block =
  SerdeBlock (sb_ty: string) (sb_data: "string \<rightharpoonup> json") (sb_children: "serde_block list")

record doc_block =
  bk_id :: string
  bk_ty :: string
  bk_data :: "string \<rightharpoonup> json"
  bk_parent :: string
  bk_children :: string
  bk_external_id :: "string option"
  bk_external_type :: "string option"

record document_data =
  dd_page_id :: string
  dd_blocks :: "string \<rightharpoonup> doc_block"
  dd_children_map :: "string \<rightharpoonup> string list"
  dd_text_map :: "(string \<rightharpoonup> string) option"

text \<open>The draws are in the order of the code: the id, when none is given, the id of the text and that of the children.\<close>

definition block_to_block_pb ::
    "template_ids \<Rightarrow> (json \<Rightarrow> string) \<Rightarrow> serde_block \<Rightarrow> string option \<Rightarrow> string \<Rightarrow> nat \<Rightarrow> (doc_block \<times> string option) \<times> nat" where
  "block_to_block_pb ti txf b id_opt parent n =
     (let (bid, n1) = (case id_opt of Some i \<Rightarrow> (i, n) | None \<Rightarrow> (ti_block ti n, Suc n));
          delta = map_option txf (sb_data b ''delta'');
          (external_id, external_type, n2) =
            (case delta of None \<Rightarrow> (None, None, n1) | Some _ \<Rightarrow> (Some (ti_block ti n1), Some ''text'', Suc n1))
      in ((\<lparr>bk_id = bid, bk_ty = sb_ty b, bk_data = (sb_data b)(''delta'' := None), bk_parent = parent,
            bk_children = ti_block ti n2, bk_external_id = external_id, bk_external_type = external_type\<rparr>, delta), Suc n2))"

type_synonym 'a index_map = "(string \<times> 'a) list"

definition index_extend :: "'a index_map \<Rightarrow> 'a index_map \<Rightarrow> 'a index_map" where
  "index_extend m new = fold (\<lambda>(k, v). AList.update k v) new m"

text \<open>\<open>generate_blocks\<close>, and its loop over the children of a block.\<close>

fun generate_blocks ::
      "template_ids \<Rightarrow> (json \<Rightarrow> string) \<Rightarrow> serde_block \<Rightarrow> string option \<Rightarrow> string \<Rightarrow> nat \<Rightarrow>
       (doc_block index_map \<times> string index_map) \<times> nat"
  and generate_children ::
      "template_ids \<Rightarrow> (json \<Rightarrow> string) \<Rightarrow> serde_block list \<Rightarrow> string \<Rightarrow> doc_block index_map \<times> string index_map \<Rightarrow> nat \<Rightarrow>
       (doc_block index_map \<times> string index_map) \<times> nat" where
  "generate_blocks ti txf (SerdeBlock ty data children) id_opt parent n =
     (let ((b, delta), n1) = block_to_block_pb ti txf (SerdeBlock ty data children) id_opt parent n;
          ((blocks, text_map), n2) = generate_children ti txf children (bk_id b) ([], []) n1;
          text_map' = (case delta of
                         None \<Rightarrow> text_map
                       | Some d \<Rightarrow> (case bk_external_id b of None \<Rightarrow> text_map | Some e \<Rightarrow> AList.update e d text_map))
      in ((AList.update (bk_id b) b blocks, text_map'), n2))"
| "generate_children ti txf [] parent acc n = (acc, n)"
| "generate_children ti txf (c # cs) parent acc n =
     (let ((child_blocks, child_text_map), n1) = generate_blocks ti txf c None parent n
      in generate_children ti txf cs parent
           (index_extend (fst acc) child_blocks, index_extend (snd acc) child_text_map) n1)"

definition push_child :: "string \<Rightarrow> string \<Rightarrow> (string \<rightharpoonup> string list) \<Rightarrow> (string \<rightharpoonup> string list)" where
  "push_child key child m = m(key \<mapsto> (case m key of None \<Rightarrow> [] | Some xs \<Rightarrow> xs) @ [child])"

definition add_to_parent ::
    "doc_block index_map \<Rightarrow> string \<times> doc_block \<Rightarrow> (string \<rightharpoonup> string list) \<Rightarrow> (string \<rightharpoonup> string list)" where
  "add_to_parent blocks e m =
     (case e of (i, b) \<Rightarrow>
        if bk_parent b = [] then m
        else case map_of blocks (bk_parent b) of
               None \<Rightarrow> m
             | Some p \<Rightarrow>
                 let m1 = push_child (bk_children p) i m
                 in (case m1 (bk_children b) of None \<Rightarrow> m1(bk_children b \<mapsto> []) | Some _ \<Rightarrow> m1))"

definition generate_children_map :: "doc_block index_map \<Rightarrow> (string \<rightharpoonup> string list)" where
  "generate_children_map blocks = fold (add_to_parent blocks) blocks Map.empty"

definition generate_text_map :: "string index_map \<Rightarrow> (string \<rightharpoonup> string)" where
  "generate_text_map text_map = map_of text_map"

definition json_to_document :: "template_ids \<Rightarrow> (json \<Rightarrow> string) \<Rightarrow> serde_block \<Rightarrow> nat \<Rightarrow> document_data \<times> nat" where
  "json_to_document ti txf root n =
     (let page_id = ti_block ti n;
          ((blocks, text_map), n') = generate_blocks ti txf root (Some page_id) [] (Suc n)
      in (\<lparr>dd_page_id = page_id, dd_blocks = map_of blocks, dd_children_map = generate_children_map blocks,
           dd_text_map = Some (generate_text_map text_map)\<rparr>, n'))"

subsection \<open>The documents of a new workspace\<close>

record folder_workspace =
  fw_id :: string
  fw_name :: string
  fw_child_views :: "string list"
  fw_created_at :: i64
  fw_created_by :: "i64 option"
  fw_last_edited_time :: i64
  fw_last_edited_by :: "i64 option"

record folder_data =
  fd_workspace :: folder_workspace
  fd_current_view :: string
  fd_views :: "folder_view list"

text \<open>
  The environment: the ids, the time, the parsed text of the built-in document, and the encodings of a document under an
  id and of a folder.
\<close>

record template_env =
  tv_ids :: template_ids
  tv_now :: i64
  tv_read_me :: "string + serde_block"
  tv_text :: "json \<Rightarrow> string"
  tv_document :: "string \<Rightarrow> document_data \<Rightarrow> string + encoded_collab"
  tv_folder :: "i64 \<Rightarrow> string \<Rightarrow> folder_data \<Rightarrow> encoded_collab"

text \<open>A template has its layout and adds its views to the builder; its document may fail after that.\<close>

record workspace_template =
  wt_layout :: view_layout
  wt_create :: "i64 \<Rightarrow> workspace_view_builder \<Rightarrow> nat \<Rightarrow> workspace_view_builder \<times> (string + template) \<times> nat"

text \<open>A text that is no document is a panic of the blocking task, which is its error here.\<close>

definition get_started_view :: "template_env \<Rightarrow> view_closure" where
  "get_started_view te b n =
     (view_build (tv_now te) (with_icon (map char_of [0xE2, 0xAD, 0x90, 0xEF, 0xB8, 0x8F :: nat]) (with_name ''Getting started'' b)),
      n)"

definition get_started_template :: "template_env \<Rightarrow> workspace_template" where
  "get_started_template te =
     \<lparr>wt_layout = DocumentLayout,
      wt_create = \<lambda>uid wb n.
        let (wb', view_id, n1) = with_view_builder (tv_ids te) (get_started_view te) wb n
        in case tv_read_me te of
             Inl _ \<Rightarrow> (wb', Inl ''panic'', n1)
           | Inr root \<Rightarrow>
               let (d, n2) = json_to_document (tv_ids te) (tv_text te) root n1
               in (wb',
                   res_bind (tv_document te view_id d)
                     (\<lambda>data. Inr \<lparr>tp_object_id = view_id, tp_object_type = Document, tp_object_data = data\<rparr>),
                   n2)\<rparr>"

record workspace_template_builder =
  wtb_uid :: i64
  wtb_workspace_id :: string
  wtb_handlers :: "(view_layout \<times> workspace_template) list"

definition template_builder_new :: "i64 \<Rightarrow> string \<Rightarrow> workspace_template_builder" where
  "template_builder_new uid workspace_id = \<lparr>wtb_uid = uid, wtb_workspace_id = workspace_id, wtb_handlers = []\<rparr>"

definition with_template :: "workspace_template \<Rightarrow> workspace_template_builder \<Rightarrow> workspace_template_builder" where
  "with_template t b = b\<lparr>wtb_handlers := AList.update (wt_layout t) t (wtb_handlers b)\<rparr>"

definition with_templates :: "workspace_template list \<Rightarrow> workspace_template_builder \<Rightarrow> workspace_template_builder" where
  "with_templates ts b = fold with_template ts b"

text \<open>The loop over the handlers, in the order \<open>ord\<close> of the map; a template that fails is left out.\<close>

fun run_handlers ::
    "i64 \<Rightarrow> workspace_template list \<Rightarrow> workspace_view_builder \<Rightarrow> template list \<Rightarrow> nat \<Rightarrow>
     workspace_view_builder \<times> template list \<times> nat" where
  "run_handlers uid [] wb templates n = (wb, templates, n)"
| "run_handlers uid (h # hs) wb templates n =
     (case wt_create h uid wb n of
        (wb', Inr t, n') \<Rightarrow> run_handlers uid hs wb' (templates @ [t]) n'
      | (wb', Inl _, n') \<Rightarrow> run_handlers uid hs wb' templates n')"

definition folder_data_of :: "i64 \<Rightarrow> i64 \<Rightarrow> string \<Rightarrow> parent_child_views list \<Rightarrow> folder_data" where
  "folder_data_of now uid workspace_id views =
     \<lparr>fd_workspace =
        \<lparr>fw_id = workspace_id, fw_name = ''Workspace'', fw_child_views = map (\<lambda>v. fv_id (parent_view v)) views,
         fw_created_at = now, fw_created_by = Some uid, fw_last_edited_time = now, fw_last_edited_by = Some uid\<rparr>,
      fd_current_view = fv_id (parent_view (hd views)), fd_views = flatten_views views\<rparr>"

definition templates_build ::
    "template_env \<Rightarrow> (workspace_template list \<Rightarrow> workspace_template list) \<Rightarrow> workspace_template_builder \<Rightarrow> nat \<Rightarrow>
     template list served" where
  "templates_build te ord b n =
     (let (wb, templates, _) =
            run_handlers (wtb_uid b) (ord (map snd (wtb_handlers b)))
              (workspace_view_builder_new (wtb_workspace_id b) (wtb_uid b)) [] n;
          (_, views) = workspace_views_build wb
      in if views = [] then Panicked
         else Served (Inr (templates @
                [\<lparr>tp_object_id = wtb_workspace_id b, tp_object_type = Folder,
                  tp_object_data = tv_folder te (wtb_uid b) (wtb_workspace_id b)
                    (folder_data_of (tv_now te) (wtb_uid b) (wtb_workspace_id b) views)\<rparr>])))"

text \<open>The templates of the workspace of a new user.\<close>

definition new_user_templates :: "template_env \<Rightarrow> i64 \<Rightarrow> string \<Rightarrow> nat \<Rightarrow> template list served" where
  "new_user_templates te uid workspace_id n =
     templates_build te (\<lambda>hs. hs) (with_templates [get_started_template te] (template_builder_new uid workspace_id)) n"

end
