(* ===== verification/TemplateProps.thy ===== *)
theory TemplateProps
  imports Template
begin

section \<open>Properties of the template of a workspace\<close>

text \<open>
  A document that is made from JSON can be read back through its maps, the views of a folder have the children their
  parents name, and a new workspace gets its first document.
\<close>

subsection \<open>Children by their parents\<close>

text \<open>What a list says about the children of \<open>x\<close>, for the blocks of a document and the views of a folder.\<close>

definition kids :: "('a \<Rightarrow> string) \<Rightarrow> ('a \<Rightarrow> string) \<Rightarrow> 'a list \<Rightarrow> string \<Rightarrow> string list" where
  "kids name parent xs x = map name (filter (\<lambda>e. parent e = x) xs)"

lemma kids_append [simp]: "kids name parent (xs @ ys) x = kids name parent xs x @ kids name parent ys x"
  by (simp add: kids_def)

lemma kids_Nil [simp]: "kids name parent [] x = []"
  by (simp add: kids_def)

lemma kids_Cons [simp]: "kids name parent (e # es) x = (if parent e = x then name e # kids name parent es x else kids name parent es x)"
  by (simp add: kids_def)

lemma kids_none: "x \<notin> parent ` set xs \<Longrightarrow> kids name parent xs x = []"
  by (auto simp: kids_def filter_empty_conv)

lemma kids_subset: "set (kids name parent xs x) \<subseteq> name ` set xs"
  by (auto simp: kids_def)

abbreviation block_kids :: "doc_block index_map \<Rightarrow> string \<Rightarrow> string list" where
  "block_kids \<equiv> kids fst (\<lambda>e. bk_parent (snd e))"

subsection \<open>Blocks with fresh ids\<close>

lemma update_fresh: "k \<notin> fst ` set xs \<Longrightarrow> AList.update k v xs = xs @ [(k, v)]"
  by (induction xs) auto

lemma index_extend_fresh:
  "distinct (map fst new) \<Longrightarrow> fst ` set m \<inter> fst ` set new = {} \<Longrightarrow> index_extend m new = m @ new"
proof (induction new arbitrary: m)
  case (Cons e es)
  obtain k v where e: "e = (k, v)" by fastforce
  have "index_extend m (e # es) = index_extend (m @ [e]) es"
    using Cons.prems(2) by (simp add: index_extend_def e update_fresh)
  also have "\<dots> = m @ e # es" using Cons.IH [of "m @ [e]"] Cons.prems by auto
  finally show ?case .
qed (simp add: index_extend_def)

text \<open>The blocks of a document when no id is drawn twice; \<open>rid\<close> is the id of the first block.\<close>

definition block_of :: "template_ids \<Rightarrow> (json \<Rightarrow> string) \<Rightarrow> serde_block \<Rightarrow> string \<Rightarrow> string \<Rightarrow> nat \<Rightarrow> doc_block" where
  "block_of ti txf b rid parent n = fst (fst (block_to_block_pb ti txf b (Some rid) parent n))"

definition delta_of :: "template_ids \<Rightarrow> (json \<Rightarrow> string) \<Rightarrow> serde_block \<Rightarrow> nat \<Rightarrow> string index_map" where
  "delta_of ti txf b n = (case sb_data b ''delta'' of None \<Rightarrow> [] | Some v \<Rightarrow> [(ti_block ti n, txf v)])"

definition draws_of :: "serde_block \<Rightarrow> nat" where
  "draws_of b = (case sb_data b ''delta'' of None \<Rightarrow> 1 | Some _ \<Rightarrow> 2)"

fun plain_blocks ::
      "template_ids \<Rightarrow> (json \<Rightarrow> string) \<Rightarrow> serde_block \<Rightarrow> string \<Rightarrow> string \<Rightarrow> nat \<Rightarrow> (doc_block index_map \<times> string index_map) \<times> nat"
  and plain_children ::
      "template_ids \<Rightarrow> (json \<Rightarrow> string) \<Rightarrow> serde_block list \<Rightarrow> string \<Rightarrow> nat \<Rightarrow> (doc_block index_map \<times> string index_map) \<times> nat" where
  "plain_blocks ti txf (SerdeBlock ty data cs) rid parent n =
     (let b = SerdeBlock ty data cs;
          ((blocks, text_map), n2) = plain_children ti txf cs rid (n + draws_of b)
      in ((blocks @ [(rid, block_of ti txf b rid parent n)], text_map @ delta_of ti txf b n), n2))"
| "plain_children ti txf [] parent n = (([], []), n)"
| "plain_children ti txf (c # cs) parent n =
     (let ((b1, t1), n1) = plain_blocks ti txf c (ti_block ti n) parent (Suc n);
          ((b2, t2), n2) = plain_children ti txf cs parent n1
      in ((b1 @ b2, t1 @ t2), n2))"

abbreviation drawn :: "template_ids \<Rightarrow> nat \<Rightarrow> nat \<Rightarrow> string set" where
  "drawn ti a b \<equiv> ti_block ti ` {a..<b}"

lemma block_of_simps:
  "bk_id (block_of ti txf b rid parent n) = rid" "bk_parent (block_of ti txf b rid parent n) = parent"
  "bk_ty (block_of ti txf b rid parent n) = sb_ty b" "bk_data (block_of ti txf b rid parent n) = (sb_data b)(''delta'' := None)"
  "bk_children (block_of ti txf b rid parent n) = ti_block ti (n + draws_of b - 1)"
  "bk_external_id (block_of ti txf b rid parent n) = (case sb_data b ''delta'' of None \<Rightarrow> None | Some _ \<Rightarrow> Some (ti_block ti n))"
  by (simp_all add: block_of_def block_to_block_pb_def draws_of_def Let_def split: option.split)

lemma draws_pos: "0 < draws_of b"
  by (simp add: draws_of_def split: option.split)

text \<open>What is drawn from \<open>n\<close> to \<open>n'\<close>: ids of blocks, of their lists of children and of texts are all different.\<close>

definition fresh_parts :: "template_ids \<Rightarrow> doc_block index_map \<Rightarrow> string index_map \<Rightarrow> nat \<Rightarrow> nat \<Rightarrow> string set \<Rightarrow> bool" where
  "fresh_parts ti B T n n' tops \<longleftrightarrow> n \<le> n' \<and>
     fst ` set B \<subseteq> tops \<union> drawn ti n n' \<and> distinct (map fst B) \<and>
     fst ` set T \<subseteq> drawn ti n n' \<and> distinct (map fst T) \<and>
     (\<forall>(i, x) \<in> set B. bk_id x = i \<and> bk_children x \<in> drawn ti n n') \<and> distinct (map (\<lambda>e. bk_children (snd e)) B)"

lemma fresh_partsD:
  assumes "fresh_parts ti B T n n' tops"
  shows "n \<le> n'" "fst ` set B \<subseteq> tops \<union> drawn ti n n'" "distinct (map fst B)" "fst ` set T \<subseteq> drawn ti n n'"
    "distinct (map fst T)" "\<forall>(i, x) \<in> set B. bk_id x = i \<and> bk_children x \<in> drawn ti n n'"
    "distinct (map (\<lambda>e. bk_children (snd e)) B)"
  using assms unfolding fresh_parts_def by blast+

lemma drawn_mono: "a' \<le> a \<Longrightarrow> b \<le> b' \<Longrightarrow> x \<in> drawn ti a b \<Longrightarrow> x \<in> drawn ti a' b'"
  by auto

lemma drawn_disjoint: "inj (ti_block ti) \<Longrightarrow> b \<le> c \<Longrightarrow> x \<in> drawn ti a b \<Longrightarrow> x \<in> drawn ti c d \<Longrightarrow> False"
  by (auto dest: injD)

lemma union_parts:
  assumes "A \<subseteq> t1 \<union> d1" and "B \<subseteq> t2 \<union> d2"
  shows "A \<union> B \<subseteq> t1 \<union> t2 \<union> (d1 \<union> d2)"
    "t1 \<inter> t2 = {} \<Longrightarrow> t1 \<inter> d2 = {} \<Longrightarrow> t2 \<inter> d1 = {} \<Longrightarrow> d1 \<inter> d2 = {} \<Longrightarrow> A \<inter> B = {}"
  using assms by blast+

lemma disjoint_mono: "A \<subseteq> d1 \<Longrightarrow> B \<subseteq> d2 \<Longrightarrow> d1 \<inter> d2 = {} \<Longrightarrow> A \<inter> B = {}"
  by blast

lemma fresh_parts_append:
  assumes i: "inj (ti_block ti)" and a: "fresh_parts ti B1 T1 n m tops1" and b: "fresh_parts ti B2 T2 m n' tops2"
    and t: "tops1 \<inter> tops2 = {}" "tops1 \<inter> drawn ti m n' = {}" "tops2 \<inter> drawn ti n m = {}"
  shows "fresh_parts ti (B1 @ B2) (T1 @ T2) n n' (tops1 \<union> tops2)"
proof -
  note a = fresh_partsD [OF a] and b = fresh_partsD [OF b]
  have un: "drawn ti n n' = drawn ti n m \<union> drawn ti m n'"
    unfolding ivl_disj_un_two(3) [OF a(1) b(1), symmetric] by (rule image_Un)
  have d: "drawn ti n m \<inter> drawn ti m n' = {}" using drawn_disjoint [OF i order_refl, where b = m] by blast
  have B: "fst ` set (B1 @ B2) \<subseteq> tops1 \<union> tops2 \<union> drawn ti n n'" and T: "fst ` set (T1 @ T2) \<subseteq> drawn ti n n'"
    unfolding un set_append image_Un [of fst] by (rule union_parts(1) [OF a(2) b(2)], rule Un_mono [OF a(4) b(4)])
  have D: "fst ` set B1 \<inter> fst ` set B2 = {}" "fst ` set T1 \<inter> fst ` set T2 = {}"
    by (rule union_parts(2) [OF a(2) b(2) t d], rule disjoint_mono [OF a(4) b(4) d])
  have "(\<lambda>e. bk_children (snd e)) ` set B1 \<subseteq> drawn ti n m" "(\<lambda>e. bk_children (snd e)) ` set B2 \<subseteq> drawn ti m n'"
    using a(6) b(6) by auto
  then have C: "(\<lambda>e. bk_children (snd e)) ` set B1 \<inter> (\<lambda>e. bk_children (snd e)) ` set B2 = {}"
    by (rule disjoint_mono) (rule d)
  have X: "\<forall>(i, x) \<in> set (B1 @ B2). bk_id x = i \<and> bk_children x \<in> drawn ti n n'"
    unfolding un set_append ball_Un using a(6) b(6) by auto
  show ?thesis
    unfolding fresh_parts_def map_append distinct_append set_map
    by (intro conjI B T D C X order_trans [OF a(1) b(1)] a(3,5,7) b(3,5,7))
qed

lemma fresh_parts_swap: "fresh_parts ti (B1 @ B2) (T1 @ T2) n n' tops \<Longrightarrow> fresh_parts ti (B2 @ B1) (T2 @ T1) n n' tops"
  by (simp add: fresh_parts_def ball_Un Int_commute Un_commute conj_ac)

lemma fresh_parts_absorb:
  assumes "fresh_parts ti B T (Suc n) m {ti_block ti n}" shows "fresh_parts ti B T n m {}"
proof -
  note f = fresh_partsD [OF assms]
  have "{n..<m} = insert n {Suc n..<m}" using f(1) by auto
  then have "{ti_block ti n} \<union> drawn ti (Suc n) m = drawn ti n m" and s: "drawn ti (Suc n) m \<subseteq> drawn ti n m" by auto
  then have "fst ` set B \<subseteq> {} \<union> drawn ti n m" "fst ` set T \<subseteq> drawn ti n m" using f(2,4) by auto
  moreover have "\<forall>(i, x) \<in> set B. bk_id x = i \<and> bk_children x \<in> drawn ti n m" using f(6) s by blast
  ultimately show ?thesis unfolding fresh_parts_def using f(1,3,5,7) by simp
qed

lemma own_block_fresh:
  assumes "inj (ti_block ti)" and "rid \<notin> ti_block ti ` {n..}"
  shows "fresh_parts ti [(rid, block_of ti txf b rid parent n)] (delta_of ti txf b n) n (n + draws_of b) {rid}"
  unfolding fresh_parts_def using draws_pos [of b]
  by (auto simp: block_of_simps delta_of_def draws_of_def split: option.split)

lemma plain_fresh:
  shows "inj (ti_block ti) \<Longrightarrow> plain_blocks ti txf b rid parent n = ((B, T), n') \<Longrightarrow> rid \<notin> ti_block ti ` {n..} \<Longrightarrow>
      fresh_parts ti B T n n' {rid} \<and> n < n'"
    and "inj (ti_block ti) \<Longrightarrow> plain_children ti txf cs parent n = ((B, T), n') \<Longrightarrow> fresh_parts ti B T n n' {}"
proof (induction ti txf b rid parent n and ti txf cs parent n arbitrary: B T n' and B T n'
    rule: plain_blocks_plain_children.induct)
  case (1 ti txf ty data cs rid parent n)
  let ?b = "SerdeBlock ty data cs"
  obtain B0 T0 where c: "plain_children ti txf cs rid (n + draws_of ?b) = ((B0, T0), n')"
    "B = B0 @ [(rid, block_of ti txf ?b rid parent n)]" "T = T0 @ delta_of ti txf ?b n"
    using "1.prems"(2) by (auto simp: Let_def split: prod.splits)
  have f: "fresh_parts ti B0 T0 (n + draws_of ?b) n' {}" using "1.IH" [OF refl "1.prems"(1) c(1)] .
  have "{rid} \<inter> drawn ti (n + draws_of ?b) n' = {}" using "1.prems"(3) by auto
  then have "fresh_parts ti ([(rid, block_of ti txf ?b rid parent n)] @ B0) (delta_of ti txf ?b n @ T0) n n' ({rid} \<union> {})"
    by (intro fresh_parts_append [OF _ own_block_fresh f] "1.prems"(1,3)) simp_all
  then have "fresh_parts ti B T n n' {rid}" unfolding c(2,3) using fresh_parts_swap by fastforce
  then show ?case using fresh_partsD(1) [OF f] draws_pos [of ?b] by simp
next
  case (3 ti txf c cs parent n)
  obtain B1 T1 n1 B2 T2 where p: "plain_blocks ti txf c (ti_block ti n) parent (Suc n) = ((B1, T1), n1)"
    "plain_children ti txf cs parent n1 = ((B2, T2), n')" "B = B1 @ B2" "T = T1 @ T2"
    using "3.prems"(2) by (auto simp: Let_def split: prod.splits)
  have "ti_block ti n \<notin> ti_block ti ` {Suc n..}" using "3.prems"(1) by (auto dest: injD)
  with "3.IH"(1) [OF "3.prems"(1) p(1)] have "fresh_parts ti B1 T1 n n1 {}" using fresh_parts_absorb by blast
  from fresh_parts_append [OF "3.prems"(1) this "3.IH"(2) [OF p(1) [symmetric] refl refl "3.prems"(1) p(2)]] show ?case
    unfolding p(3,4) by simp
qed (auto simp: fresh_parts_def)

text \<open>Only the first block has a parent that is not among the blocks.\<close>

lemma plain_parents:
  shows "plain_blocks ti txf b rid parent n = ((B, T), n') \<Longrightarrow> \<exists>B0 x. B = B0 @ [(rid, x)] \<and> bk_parent x = parent \<and>
      (\<lambda>e. bk_parent (snd e)) ` set B0 \<subseteq> insert rid (fst ` set B0)"
    and "plain_children ti txf cs parent n = ((B, T), n') \<Longrightarrow>
      (\<lambda>e. bk_parent (snd e)) ` set B \<subseteq> insert parent (fst ` set B)"
proof (induction ti txf b rid parent n and ti txf cs parent n arbitrary: B T n' and B T n'
    rule: plain_blocks_plain_children.induct)
  case (1 ti txf ty data cs rid parent n)
  then show ?case by (auto simp: Let_def block_of_simps split: prod.splits)
next
  case (3 ti txf c cs parent n)
  obtain B1 T1 n1 B2 T2 where p: "plain_blocks ti txf c (ti_block ti n) parent (Suc n) = ((B1, T1), n1)"
    "plain_children ti txf cs parent n1 = ((B2, T2), n')" "B = B1 @ B2" "T = T1 @ T2"
    using "3.prems" by (auto simp: Let_def split: prod.splits)
  obtain B0 x where b: "B1 = B0 @ [(ti_block ti n, x)]" "bk_parent x = parent"
    "(\<lambda>e. bk_parent (snd e)) ` set B0 \<subseteq> insert (ti_block ti n) (fst ` set B0)"
    using "3.IH"(1) [OF p(1)] by blast
  have "(\<lambda>e. bk_parent (snd e)) ` set B1 \<subseteq> insert parent (fst ` set B1)" using b by auto
  moreover have "(\<lambda>e. bk_parent (snd e)) ` set B2 \<subseteq> insert parent (fst ` set B2)"
    using "3.IH"(2) [OF p(1) [symmetric] refl refl p(2)] .
  ultimately show ?case unfolding p(3) by (auto simp: image_Un)
qed auto

text \<open>With fresh ids no insertion replaces an entry.\<close>

lemma generate_plain:
  shows "inj (ti_block ti) \<Longrightarrow> plain_blocks ti txf b rid parent n = r \<Longrightarrow> rid \<notin> ti_block ti ` {n..} \<Longrightarrow>
      generate_blocks ti txf b (Some rid) parent n = r"
    and "inj (ti_block ti) \<Longrightarrow> plain_children ti txf cs parent n = ((B, T), n') \<Longrightarrow> fst ` set A \<inter> ti_block ti ` {n..} = {} \<Longrightarrow>
      fst ` set A' \<inter> ti_block ti ` {n..} = {} \<Longrightarrow>
      generate_children ti txf cs parent (A, A') n = ((A @ B, A' @ T), n')"
proof (induction ti txf b rid parent n and ti txf cs parent n arbitrary: r and A A' B T n'
    rule: plain_blocks_plain_children.induct)
  case (1 ti txf ty data cs rid parent n)
  let ?b = "SerdeBlock ty data cs"
  let ?m = "n + draws_of ?b"
  obtain B0 T0 n' where c: "plain_children ti txf cs rid ?m = ((B0, T0), n')" by (metis prod.collapse)
  have f: "fresh_parts ti B0 T0 ?m n' {}" by (rule plain_fresh(2) [OF "1.prems"(1) c])
  have g: "generate_children ti txf cs rid ([], []) ?m = ((B0, T0), n')" using "1.IH" [OF refl "1.prems"(1) c] by simp
  have p: "block_to_block_pb ti txf ?b (Some rid) parent n = ((block_of ti txf ?b rid parent n, map_option txf (data ''delta'')), ?m)"
    by (auto simp: block_of_def block_to_block_pb_def draws_of_def Let_def split: option.split)
  have k: "rid \<notin> fst ` set B0" using fresh_partsD(2) [OF f] "1.prems"(3) by auto
  have t: "ti_block ti n \<notin> fst ` set T0"
  proof -
    have "ti_block ti n \<notin> drawn ti ?m n'" using draws_pos [of ?b] "1.prems"(1) by (auto dest: injD)
    with fresh_partsD(4) [OF f] show ?thesis by blast
  qed
  show ?case
    using "1.prems"(2) k t
    by (auto simp: c p g Let_def block_of_simps delta_of_def update_fresh split: option.split)
next
  case (3 ti txf c cs parent n)
  obtain B1 T1 n1 B2 T2 where p: "plain_blocks ti txf c (ti_block ti n) parent (Suc n) = ((B1, T1), n1)"
    "plain_children ti txf cs parent n1 = ((B2, T2), n')" "B = B1 @ B2" "T = T1 @ T2"
    using "3.prems"(2) by (auto simp: Let_def split: prod.splits)
  have n: "ti_block ti n \<notin> ti_block ti ` {Suc n..}" using "3.prems"(1) by (auto dest: injD)
  have f1: "fresh_parts ti B1 T1 n n1 {}"
    using plain_fresh(1) [OF "3.prems"(1) p(1) n] fresh_parts_absorb by blast
  have lt: "n < n1" using plain_fresh(1) [OF "3.prems"(1) p(1) n] by simp
  have g: "generate_blocks ti txf c None parent n = ((B1, T1), n1)"
    using "3.IH"(1) [OF "3.prems"(1) p(1) n] by (cases c) (simp add: block_to_block_pb_def)
  have up: "drawn ti n n1 \<subseteq> ti_block ti ` {n..}" "ti_block ti ` {n1..} \<subseteq> ti_block ti ` {n..}" using lt by auto
  have B1: "fst ` set B1 \<subseteq> drawn ti n n1" and T1: "fst ` set T1 \<subseteq> drawn ti n n1" using fresh_partsD(2,4) [OF f1] by simp_all
  have d: "fst ` set A \<inter> fst ` set B1 = {}" "fst ` set A' \<inter> fst ` set T1 = {}"
    by (rule disjoint_mono [OF subset_refl subset_trans [OF B1 up(1)] "3.prems"(3)],
        rule disjoint_mono [OF subset_refl subset_trans [OF T1 up(1)] "3.prems"(4)])
  have x: "drawn ti n n1 \<inter> ti_block ti ` {n1..} = {}" using "3.prems"(1) by (auto dest: injD)
  have e: "fst ` set (A @ B1) \<inter> ti_block ti ` {n1..} = {}" "fst ` set (A' @ T1) \<inter> ti_block ti ` {n1..} = {}"
    using disjoint_mono [OF subset_refl up(2) "3.prems"(3)] disjoint_mono [OF subset_refl up(2) "3.prems"(4)]
      disjoint_mono [OF B1 subset_refl x] disjoint_mono [OF T1 subset_refl x]
    unfolding set_append image_Un Int_Un_distrib2 by blast+
  show ?case
    using "3.IH"(2) [OF p(1) [symmetric] refl refl "3.prems"(1) p(2) e]
    by (simp add: g p(3,4) index_extend_fresh [OF fresh_partsD(3) [OF f1] d(1)] index_extend_fresh [OF fresh_partsD(5) [OF f1] d(2)])
qed simp

subsection \<open>Blocks show their document\<close>

text \<open>Block \<open>i\<close> of a list and its texts show a block of the JSON document, with its children in their order.\<close>

fun shown :: "(json \<Rightarrow> string) \<Rightarrow> doc_block index_map \<Rightarrow> string index_map \<Rightarrow> serde_block \<Rightarrow> string \<Rightarrow> string \<Rightarrow> bool" where
  "shown txf B T (SerdeBlock ty data cs) i parent \<longleftrightarrow>
     (\<exists>x. map_of B i = Some x \<and> bk_ty x = ty \<and> bk_data x = data(''delta'' := None) \<and> bk_parent x = parent \<and>
        Option.bind (bk_external_id x) (map_of T) = map_option txf (data ''delta'') \<and>
        list_all2 (\<lambda>c j. shown txf B T c j i) cs (block_kids B i))"

lemma shown_mono:
  assumes "\<And>i. i \<in> fst ` set B \<Longrightarrow> map_of B' i = map_of B i \<and> block_kids B' i = block_kids B i"
    and "\<And>e v. map_of T e = Some v \<Longrightarrow> map_of T' e = Some v"
  shows "shown txf B T b i parent \<Longrightarrow> i \<in> fst ` set B \<Longrightarrow>
    (\<And>x e. x \<in> snd ` set B \<Longrightarrow> bk_external_id x = Some e \<Longrightarrow> map_of T e \<noteq> None) \<Longrightarrow> shown txf B' T' b i parent"
proof (induction b arbitrary: i parent)
  case (SerdeBlock ty data cs)
  from SerdeBlock.prems(1) obtain x where x: "map_of B i = Some x" "bk_ty x = ty" "bk_data x = data(''delta'' := None)"
    "bk_parent x = parent" "Option.bind (bk_external_id x) (map_of T) = map_option txf (data ''delta'')"
    "list_all2 (\<lambda>c j. shown txf B T c j i) cs (block_kids B i)"
    by auto
  have "list_all2 (\<lambda>c j. shown txf B' T' c j i) cs (block_kids B i)"
  proof (rule list.rel_mono_strong [OF x(6)])
    fix c j assume c: "c \<in> set cs" "j \<in> set (block_kids B i)" "shown txf B T c j i"
    have "j \<in> fst ` set B" using kids_subset c(2) by (rule subsetD)
    from SerdeBlock.IH [OF c(1,3) this SerdeBlock.prems(3)] show "shown txf B' T' c j i" .
  qed
  moreover have "Option.bind (bk_external_id x) (map_of T') = Option.bind (bk_external_id x) (map_of T)"
  proof (cases "bk_external_id x")
    case (Some e)
    have "x \<in> snd ` set B" using map_of_SomeD [OF x(1)] by force
    then obtain v where "map_of T e = Some v" using SerdeBlock.prems(3) Some by blast
    then show ?thesis using assms(2) Some by simp
  qed simp
  ultimately show ?case using x assms(1) [OF SerdeBlock.prems(2)] by simp
qed

text \<open>The ids of texts are in the list of texts.\<close>

definition texts_of :: "doc_block index_map \<Rightarrow> string index_map \<Rightarrow> bool" where
  "texts_of B T \<longleftrightarrow> (\<forall>x \<in> snd ` set B. \<forall>e. bk_external_id x = Some e \<longrightarrow> e \<in> fst ` set T)"

lemma texts_of_append: "texts_of B1 T1 \<Longrightarrow> texts_of B2 T2 \<Longrightarrow> texts_of (B1 @ B2) (T1 @ T2)"
  unfolding texts_of_def set_append image_Un by blast

lemma plain_texts:
  shows "plain_blocks ti txf b rid parent n = ((B, T), n') \<Longrightarrow> texts_of B T"
    and "plain_children ti txf cs parent n = ((B, T), n') \<Longrightarrow> texts_of B T"
proof (induction ti txf b rid parent n and ti txf cs parent n arbitrary: B T n' and B T n'
    rule: plain_blocks_plain_children.induct)
  case (1 ti txf ty data cs rid parent n)
  have "texts_of [(rid, block_of ti txf (SerdeBlock ty data cs) rid parent n)] (delta_of ti txf (SerdeBlock ty data cs) n)"
    by (simp add: texts_of_def block_of_simps delta_of_def split: option.split)
  then show ?case using 1 by (auto simp: Let_def intro!: texts_of_append split: prod.splits)
next
  case (3 ti txf c cs parent n)
  then show ?case by (auto simp: Let_def intro!: texts_of_append split: prod.splits)
qed (simp add: texts_of_def)

lemma map_of_append_left: "i \<in> fst ` set B1 \<Longrightarrow> distinct (map fst (B1 @ B2)) \<Longrightarrow> map_of (B1 @ B2) i = map_of B1 i"
  by (auto simp: map_add_def map_of_eq_None_iff split: option.split)

lemma map_of_append_right:
  assumes "i \<in> fst ` set B2" and "distinct (map fst (B1 @ B2))" shows "map_of (B1 @ B2) i = map_of B2 i"
proof -
  have "i \<notin> fst ` set B1" using assms by auto
  then show ?thesis by (simp add: map_add_def map_of_eq_None_iff [THEN iffD2])
qed

text \<open>Blocks and texts that show a document go on to do so among others, when these have no children there.\<close>

lemma shown_append:
  assumes d: "distinct (map fst (B1 @ B2))" "distinct (map fst (T1 @ T2))" and t: "texts_of B1 T1" "texts_of B2 T2"
  shows "shown txf B1 T1 b i parent \<Longrightarrow> i \<in> fst ` set B1 \<Longrightarrow>
      fst ` set B1 \<inter> (\<lambda>e. bk_parent (snd e)) ` set B2 = {} \<Longrightarrow> shown txf (B1 @ B2) (T1 @ T2) b i parent"
    and "shown txf B2 T2 b i parent \<Longrightarrow> i \<in> fst ` set B2 \<Longrightarrow>
      fst ` set B2 \<inter> (\<lambda>e. bk_parent (snd e)) ` set B1 = {} \<Longrightarrow> shown txf (B1 @ B2) (T1 @ T2) b i parent"
proof -
  have tx: "map_of T e \<noteq> None" if "texts_of B T" "x \<in> snd ` set B" "bk_external_id x = Some e" for B T x e
    using that by (auto simp: texts_of_def map_of_eq_None_iff)
  have T: "map_of T1 e = Some v \<Longrightarrow> map_of (T1 @ T2) e = Some v" "map_of T2 e = Some v \<Longrightarrow> map_of (T1 @ T2) e = Some v" for e v
  proof -
    assume e: "map_of T1 e = Some v"
    then have "e \<in> fst ` set T1" by (metis domI dom_map_of_conv_image_fst)
    with e show "map_of (T1 @ T2) e = Some v" using map_of_append_left [OF _ d(2)] by metis
  next
    assume e: "map_of T2 e = Some v"
    then have "e \<in> fst ` set T2" by (metis domI dom_map_of_conv_image_fst)
    with e show "map_of (T1 @ T2) e = Some v" using map_of_append_right [OF _ d(2)] by metis
  qed
  show "shown txf (B1 @ B2) (T1 @ T2) b i parent"
    if "shown txf B1 T1 b i parent" "i \<in> fst ` set B1" "fst ` set B1 \<inter> (\<lambda>e. bk_parent (snd e)) ` set B2 = {}"
  proof (rule shown_mono [OF _ T(1) that(1,2) tx [OF t(1)]])
    fix i assume i: "i \<in> fst ` set B1"
    then have "i \<notin> (\<lambda>e. bk_parent (snd e)) ` set B2" using that(3) by blast
    with map_of_append_left [OF i d(1)] show "map_of (B1 @ B2) i = map_of B1 i \<and> block_kids (B1 @ B2) i = block_kids B1 i"
      by (simp add: kids_none del: map_of_append)
  qed
  show "shown txf (B1 @ B2) (T1 @ T2) b i parent"
    if "shown txf B2 T2 b i parent" "i \<in> fst ` set B2" "fst ` set B2 \<inter> (\<lambda>e. bk_parent (snd e)) ` set B1 = {}"
  proof (rule shown_mono [OF _ T(2) that(1,2) tx [OF t(2)]])
    fix i assume i: "i \<in> fst ` set B2"
    then have "i \<notin> (\<lambda>e. bk_parent (snd e)) ` set B1" using that(3) by blast
    with map_of_append_right [OF i d(1)] show "map_of (B1 @ B2) i = map_of B2 i \<and> block_kids (B1 @ B2) i = block_kids B2 i"
      by (simp add: kids_none del: map_of_append)
  qed
qed

lemma fresh_not_drawn: "fresh_parts ti B T n n' tops \<Longrightarrow> x \<notin> tops \<Longrightarrow> x \<notin> ti_block ti ` {n..} \<Longrightarrow> x \<notin> fst ` set B"
proof
  assume f: "fresh_parts ti B T n n' tops" and x: "x \<notin> tops" "x \<notin> ti_block ti ` {n..}" "x \<in> fst ` set B"
  have "x \<in> tops \<union> drawn ti n n'" by (rule subsetD [OF fresh_partsD(2) [OF f] x(3)])
  with x(1,2) show False by auto
qed

lemma disjoint_insert: "A \<inter> B = {} \<Longrightarrow> p \<notin> A \<Longrightarrow> X \<subseteq> insert p B \<Longrightarrow> A \<inter> X = {}"
  by blast

lemma plain_shown:
  shows "inj (ti_block ti) \<Longrightarrow> plain_blocks ti txf b rid parent n = ((B, T), n') \<Longrightarrow> rid \<notin> ti_block ti ` {n..} \<Longrightarrow>
      parent \<notin> insert rid (ti_block ti ` {n..}) \<Longrightarrow> shown txf B T b rid parent \<and> block_kids B parent = [rid]"
    and "inj (ti_block ti) \<Longrightarrow> plain_children ti txf cs parent n = ((B, T), n') \<Longrightarrow> parent \<notin> ti_block ti ` {n..} \<Longrightarrow>
      list_all2 (\<lambda>c j. shown txf B T c j parent) cs (block_kids B parent)"
proof (induction ti txf b rid parent n and ti txf cs parent n arbitrary: B T n' and B T n'
    rule: plain_blocks_plain_children.induct)
  case (1 ti txf ty data cs rid parent n)
  let ?b = "SerdeBlock ty data cs" let ?x = "block_of ti txf ?b rid parent n"
  let ?m = "n + draws_of ?b"
  obtain B0 T0 where c: "plain_children ti txf cs rid ?m = ((B0, T0), n')" "B = B0 @ [(rid, ?x)]" "T = T0 @ delta_of ti txf ?b n"
    using "1.prems"(2) by (auto simp: Let_def split: prod.splits)
  note f = plain_fresh(1) [OF "1.prems"(1-3), THEN conjunct1]
  note f0 = plain_fresh(2) [OF "1.prems"(1) c(1)]
  have r: "rid \<notin> ti_block ti ` {?m..}" "parent \<notin> ti_block ti ` {?m..}" using "1.prems"(3,4) by auto
  have IH: "list_all2 (\<lambda>c j. shown txf B0 T0 c j rid) cs (block_kids B0 rid)"
    by (rule "1.IH" [OF refl "1.prems"(1) c(1) r(1)])
  have k: "rid \<notin> fst ` set B0" "parent \<notin> fst ` set B0"
    using fresh_not_drawn [OF f0] r by simp_all
  have pn: "parent \<notin> (\<lambda>e. bk_parent (snd e)) ` set B0"
    using plain_parents(2) [OF c(1)] k "1.prems"(4) by blast
  have tx: "texts_of [(rid, ?x)] (delta_of ti txf ?b n)"
    by (simp add: texts_of_def block_of_simps delta_of_def split: option.split)
  note d = fresh_partsD(3,5) [OF f, unfolded c(2,3)]
  have "list_all2 (\<lambda>c j. shown txf B T c j rid) cs (block_kids B0 rid)"
  proof (rule list.rel_mono_strong [OF IH])
    fix c j assume j: "j \<in> set (block_kids B0 rid)" and s: "shown txf B0 T0 c j rid"
    have "j \<in> fst ` set B0" using kids_subset j by (rule subsetD)
    then show "shown txf B T c j rid"
      unfolding c(2,3) using k(2) by (intro shown_append(1) [OF d plain_texts(2) [OF c(1)] tx s]) (auto simp: block_of_simps)
  qed
  moreover have "block_kids B rid = block_kids B0 rid" using "1.prems"(4) by (simp add: c(2) block_of_simps)
  moreover have "map_of B rid = Some ?x" unfolding c(2) using map_of_append_right [OF _ d(1), of rid] by simp
  moreover have "Option.bind (bk_external_id ?x) (map_of T) = map_option txf (data ''delta'')"
    using map_of_append_right [OF _ d(2), of "ti_block ti n"]
    by (cases "data ''delta''") (simp_all add: c(3) block_of_simps delta_of_def)
  ultimately have "shown txf B T ?b rid parent" by (simp add: block_of_simps)
  moreover have "block_kids B parent = [rid]" by (simp add: c(2) kids_none [OF pn] block_of_simps)
  ultimately show ?case by blast
next
  case (3 ti txf c cs parent n)
  obtain B1 T1 n1 B2 T2 where p: "plain_blocks ti txf c (ti_block ti n) parent (Suc n) = ((B1, T1), n1)"
    "plain_children ti txf cs parent n1 = ((B2, T2), n')" "B = B1 @ B2" "T = T1 @ T2"
    using "3.prems"(2) by (auto simp: Let_def split: prod.splits)
  have n: "ti_block ti n \<notin> ti_block ti ` {Suc n..}" using "3.prems"(1) by (auto dest: injD)
  have lt: "n < n1" using plain_fresh(1) [OF "3.prems"(1) p(1) n] by simp
  have q: "parent \<notin> insert (ti_block ti n) (ti_block ti ` {Suc n..})" "parent \<notin> ti_block ti ` {n1..}"
    using "3.prems"(3) lt by auto
  note f = plain_fresh(2) [OF "3.prems"(1,2)]
  note d = fresh_partsD(3,5) [OF f, unfolded p(3,4)]
  note s1 = "3.IH"(1) [OF "3.prems"(1) p(1) n q(1)]
  note s2 = "3.IH"(2) [OF p(1) [symmetric] refl refl "3.prems"(1) p(2) q(2)]
  have k: "parent \<notin> fst ` set (B1 @ B2)" using fresh_not_drawn [OF f _ "3.prems"(3)] by (simp add: p(3))
  obtain B0 x where b: "B1 = B0 @ [(ti_block ti n, x)]" "bk_parent x = parent"
    "(\<lambda>e. bk_parent (snd e)) ` set B0 \<subseteq> insert (ti_block ti n) (fst ` set B0)"
    using plain_parents(1) [OF p(1)] by blast
  have D: "fst ` set B1 \<inter> fst ` set B2 = {}" "fst ` set B2 \<inter> fst ` set B1 = {}" using d(1) by auto
  have d1: "fst ` set B1 \<inter> (\<lambda>e. bk_parent (snd e)) ` set B2 = {}"
    by (rule disjoint_insert [OF D(1) _ plain_parents(2) [OF p(2)]]) (use k in \<open>simp add: image_Un\<close>)
  have p1: "(\<lambda>e. bk_parent (snd e)) ` set B1 \<subseteq> insert parent (fst ` set B1)" using b by auto
  have d2: "fst ` set B2 \<inter> (\<lambda>e. bk_parent (snd e)) ` set B1 = {}"
    by (rule disjoint_insert [OF D(2) _ p1]) (use k in \<open>simp add: image_Un\<close>)
  note tx = plain_texts(1) [OF p(1)] plain_texts(2) [OF p(2)]
  have "shown txf (B1 @ B2) (T1 @ T2) c (ti_block ti n) parent"
    by (rule shown_append(1) [OF d tx conjunct1 [OF s1] _ d1]) (simp add: b(1))
  moreover have "list_all2 (\<lambda>c j. shown txf (B1 @ B2) (T1 @ T2) c j parent) cs (block_kids B2 parent)"
  proof (rule list.rel_mono_strong [OF s2])
    fix c j assume j: "j \<in> set (block_kids B2 parent)" and s: "shown txf B2 T2 c j parent"
    have "j \<in> fst ` set B2" using kids_subset j by (rule subsetD)
    from shown_append(2) [OF d tx s this d2] show "shown txf (B1 @ B2) (T1 @ T2) c j parent" .
  qed
  ultimately show ?case unfolding p(3,4) by (simp add: conjunct2 [OF s1])
qed simp

subsection \<open>The map of children\<close>

definition listed :: "(string \<rightharpoonup> string list) \<Rightarrow> string \<Rightarrow> string list" where
  "listed m k = (case m k of None \<Rightarrow> [] | Some xs \<Rightarrow> xs)"

lemma listed_add_to_parent:
  assumes d: "distinct (map fst B)" "distinct (map (\<lambda>e. bk_children (snd e)) B)" and e: "(i, x) \<in> set B" "i \<noteq> []"
    and p: "bk_parent (snd c) = [] \<or> bk_parent (snd c) \<in> fst ` set B"
  shows "listed (add_to_parent B c m) (bk_children x) =
    listed m (bk_children x) @ (if bk_parent (snd c) = i then [fst c] else [])"
proof (cases "bk_parent (snd c) = []")
  case True
  then show ?thesis using e(2) by (cases c) (simp add: add_to_parent_def)
next
  case False
  then obtain y where y: "(bk_parent (snd c), y) \<in> set B" using p by auto
  then have m: "map_of B (bk_parent (snd c)) = Some y" by (simp add: d(1))
  have "bk_children y = bk_children x \<longleftrightarrow> bk_parent (snd c) = i"
  proof
    assume "bk_children y = bk_children x"
    then have "(bk_parent (snd c), y) = (i, x)" using inj_onD [OF d(2) [unfolded distinct_map, THEN conjunct2] _ y e(1)] by simp
    then show "bk_parent (snd c) = i" by simp
  next
    assume "bk_parent (snd c) = i"
    then show "bk_children y = bk_children x" using m map_of_is_SomeI [OF d(1) e(1)] by simp
  qed
  then show ?thesis using False m
    by (cases c) (auto simp: add_to_parent_def push_child_def listed_def Let_def split: option.split)
qed

lemma listed_children_map:
  assumes d: "distinct (map fst B)" "distinct (map (\<lambda>e. bk_children (snd e)) B)" and e: "(i, x) \<in> set B" "[] \<notin> fst ` set B"
    and p: "(\<lambda>e. bk_parent (snd e)) ` set B \<subseteq> insert [] (fst ` set B)"
  shows "listed (generate_children_map B) (bk_children x) = block_kids B i"
proof -
  have i: "i \<noteq> []" using e by force
  have "listed (fold (add_to_parent B) es m) (bk_children x) = listed m (bk_children x) @ block_kids es i"
    if "set es \<subseteq> set B" for es m
    using that
  proof (induction es arbitrary: m)
    case (Cons c es)
    then have "bk_parent (snd c) = [] \<or> bk_parent (snd c) \<in> fst ` set B" using p by auto
    from listed_add_to_parent [OF d e(1) i this, of m] Cons show ?case by simp
  qed simp
  from this [of B Map.empty] show ?thesis by (simp add: generate_children_map_def listed_def)
qed

subsection \<open>Reading a document back\<close>

text \<open>
  A reader of the document: the block of an id, the text of its delta, and the blocks its list of children names, down to
  depth \<open>k\<close>.
\<close>

fun read_block :: "(string \<Rightarrow> json) \<Rightarrow> document_data \<Rightarrow> nat \<Rightarrow> string \<Rightarrow> serde_block option" where
  "read_block parse d 0 i = None"
| "read_block parse d (Suc k) i =
     Option.bind (dd_blocks d i) (\<lambda>b.
     Option.bind (those (map (read_block parse d k) (listed (dd_children_map d) (bk_children b)))) (\<lambda>cs.
       Some (SerdeBlock (bk_ty b)
         ((bk_data b)(''delta'' := map_option parse (Option.bind (bk_external_id b) (\<lambda>e. Option.bind (dd_text_map d) (\<lambda>m. m e)))))
         cs)))"

fun block_height :: "serde_block \<Rightarrow> nat" where
  "block_height (SerdeBlock ty data cs) = Suc (foldr max (map block_height cs) 0)"

lemma height_child: "c \<in> set cs \<Longrightarrow> block_height c \<le> foldr max (map block_height cs) 0"
  by (induction cs) (auto simp: le_max_iff_disj)

lemma those_Some: "list_all2 (\<lambda>x y. f y = Some x) xs ys \<Longrightarrow> those (map f ys) = Some xs"
  by (induction xs ys rule: list_all2_induct) simp_all

fun deltas :: "serde_block \<Rightarrow> json list" where
  "deltas (SerdeBlock ty data cs) = (case data ''delta'' of None \<Rightarrow> [] | Some v \<Rightarrow> [v]) @ concat (map deltas cs)"

lemma read_shown:
  assumes "dd_blocks d = map_of B" and "dd_text_map d = Some (map_of T)"
    and "\<And>i x. map_of B i = Some x \<Longrightarrow> listed (dd_children_map d) (bk_children x) = block_kids B i"
  shows "shown txf B T b i parent \<Longrightarrow> block_height b \<le> k \<Longrightarrow> list_all (\<lambda>v. parse (txf v) = v) (deltas b) \<Longrightarrow>
    read_block parse d k i = Some b"
proof (induction b arbitrary: i parent k)
  case (SerdeBlock ty data cs)
  then obtain k' where k: "k = Suc k'" "foldr max (map block_height cs) 0 \<le> k'" by (cases k) auto
  from SerdeBlock.prems(1) obtain x where x: "map_of B i = Some x" "bk_ty x = ty" "bk_data x = data(''delta'' := None)"
    "Option.bind (bk_external_id x) (map_of T) = map_option txf (data ''delta'')"
    "list_all2 (\<lambda>c j. shown txf B T c j i) cs (block_kids B i)"
    by auto
  have "list_all2 (\<lambda>c j. read_block parse d k' j = Some c) cs (block_kids B i)"
  proof (rule list.rel_mono_strong [OF x(5)])
    fix c j assume c: "c \<in> set cs" "shown txf B T c j i"
    show "read_block parse d k' j = Some c"
      by (rule SerdeBlock.IH [OF c le_trans [OF height_child [OF c(1)] k(2)]])
        (use SerdeBlock.prems(3) c(1) in \<open>auto simp: list_all_iff\<close>)
  qed
  then have "those (map (read_block parse d k') (block_kids B i)) = Some cs" by (rule those_Some)
  moreover have "(bk_data x)(''delta'' := map_option parse (Option.bind (bk_external_id x) (map_of T))) = data"
    unfolding x(3,4) using SerdeBlock.prems(3) by (cases "data ''delta''") (auto simp: fun_eq_iff)
  ultimately show ?case by (simp add: k(1) assms(1,2) assms(3) [OF x(1)] x(1,2))
qed

text \<open>C12: a document made from JSON has all of it: with ids that are drawn once, reading the document from its page, by the
  lists of children and the texts, which can be parsed again, gives the JSON document back.\<close>

theorem document_reads_back:
  assumes "inj (ti_block ti)" and "[] \<notin> range (ti_block ti)" and "list_all (\<lambda>v. parse (txf v) = v) (deltas root)"
  shows "read_block parse (fst (json_to_document ti txf root n)) (block_height root)
    (dd_page_id (fst (json_to_document ti txf root n))) = Some root"
proof -
  let ?page = "ti_block ti n"
  obtain B T n' where p: "plain_blocks ti txf root ?page [] (Suc n) = ((B, T), n')" by (metis prod.collapse)
  have r: "?page \<notin> ti_block ti ` {Suc n..}" using assms(1) by (auto dest: injD)
  note f = plain_fresh(1) [OF assms(1) p r, THEN conjunct1]
  have e: "[] \<notin> insert ?page (ti_block ti ` {Suc n..})" using assms(2) by (auto simp: image_iff)
  have g: "generate_blocks ti txf root (Some ?page) [] (Suc n) = ((B, T), n')"
    by (rule generate_plain(1) [OF assms(1) p r])
  have s: "shown txf B T root ?page []" using plain_shown(1) [OF assms(1) p r e] by blast
  have "[] \<notin> fst ` set B" using fresh_not_drawn [OF f] e by simp
  moreover obtain B0 x where "B = B0 @ [(?page, x)]" "bk_parent x = []"
    "(\<lambda>e. bk_parent (snd e)) ` set B0 \<subseteq> insert ?page (fst ` set B0)"
    using plain_parents(1) [OF p] by blast
  then have "(\<lambda>e. bk_parent (snd e)) ` set B \<subseteq> insert [] (fst ` set B)" by auto
  ultimately have c: "listed (generate_children_map B) (bk_children x) = block_kids B i" if "map_of B i = Some x" for i x
    using listed_children_map [OF fresh_partsD(3,7) [OF f] map_of_SomeD [OF that]] by blast
  have d: "fst (json_to_document ti txf root n) = \<lparr>dd_page_id = ?page, dd_blocks = map_of B,
      dd_children_map = generate_children_map B, dd_text_map = Some (map_of T)\<rparr>"
    by (simp add: json_to_document_def g generate_text_map_def)
  show ?thesis unfolding d by (simp add: read_shown [OF _ _ _ s le_refl assms(3)] c)
qed

definition sample_ids :: template_ids where
  "sample_ids = \<lparr>ti_view = \<lambda>n. CHR ''v'' # show_nat n, ti_block = show_nat\<rparr>"

definition sample_root :: serde_block where
  "sample_root =
     SerdeBlock ''page'' Map.empty
       [SerdeBlock ''heading'' [''delta'' \<mapsto> JString ''hi'', ''level'' \<mapsto> JNumber ''1''] [],
        SerdeBlock ''list'' Map.empty [SerdeBlock ''item'' Map.empty [], SerdeBlock ''item'' [''delta'' \<mapsto> JString ''hi''] []]]"

lemma sample_ids_ok: "inj (ti_block sample_ids)" "[] \<notin> range (ti_block sample_ids)"
proof -
  show "inj (ti_block sample_ids)" by (auto simp: sample_ids_def inj_def dest: inj_show_nat)
  show "[] \<notin> range (ti_block sample_ids)" using show_nat_nonempty by (metis rangeE sample_ids_def template_ids.select_convs(2))
qed

theorem document_reads_back_witness:
  "read_block JString (fst (json_to_document sample_ids (\<lambda>_. ''hi'') sample_root 0)) (block_height sample_root)
    (dd_page_id (fst (json_to_document sample_ids (\<lambda>_. ''hi'') sample_root 0))) = Some sample_root"
  by (rule document_reads_back [OF sample_ids_ok]) (simp add: sample_root_def)

subsection \<open>The views of a folder\<close>

text \<open>A view has its parent and the ids of its child views, as do these.\<close>

fun views_ok :: "string \<Rightarrow> parent_child_views \<Rightarrow> bool" where
  "views_ok p (ParentChildViews v cs) \<longleftrightarrow>
     fv_parent_view_id v = p \<and> fv_children v = map (\<lambda>c. fv_id (parent_view c)) cs \<and> list_all (views_ok (fv_id v)) cs"

text \<open>What a builder has so far, and what a closure makes of a builder.\<close>

definition builder_ok :: "view_builder \<Rightarrow> bool" where
  "builder_ok b \<longleftrightarrow> list_all (views_ok (vb_view_id b)) (vb_child_views b)"

definition closure_ok :: "view_closure \<Rightarrow> bool" where
  "closure_ok f \<longleftrightarrow> (\<forall>b n. builder_ok b \<longrightarrow> views_ok (vb_parent_view_id b) (fst (f b n)))"

lemma view_builder_new_ok: "builder_ok (fst (view_builder_new ti uid p n))" "vb_parent_view_id (fst (view_builder_new ti uid p n)) = p"
  by (simp_all add: view_builder_new_def builder_ok_def)

lemma view_build_ok: "builder_ok b \<Longrightarrow> views_ok (vb_parent_view_id b) (view_build now b)"
  by (simp add: view_build_def builder_ok_def)

lemma builder_operations_ok:
  assumes "builder_ok b"
  shows "builder_ok (with_layout l b)" "builder_ok (with_name x b)" "builder_ok (with_desc x b)" "builder_ok (with_icon x b)"
    "vb_parent_view_id (with_layout l b) = vb_parent_view_id b" "vb_parent_view_id (with_name x b) = vb_parent_view_id b"
    "vb_parent_view_id (with_desc x b) = vb_parent_view_id b" "vb_parent_view_id (with_icon x b) = vb_parent_view_id b"
  using assms by (simp_all add: builder_ok_def with_layout_def with_name_def with_desc_def with_icon_def)

lemma with_child_view_builder_ok:
  assumes "builder_ok b" and "closure_ok f"
  shows "builder_ok (fst (with_child_view_builder ti f b n))"
    "vb_parent_view_id (fst (with_child_view_builder ti f b n)) = vb_parent_view_id b"
proof -
  have "views_ok (vb_view_id b) (fst (f (fst (view_builder_new ti (vb_uid b) (vb_view_id b) n)) m))" for m
    using assms(2) view_builder_new_ok [of ti "vb_uid b" "vb_view_id b" n] by (auto simp: closure_ok_def)
  with assms(1) show "builder_ok (fst (with_child_view_builder ti f b n))"
    by (auto simp: with_child_view_builder_def builder_ok_def Let_def split: prod.split) (metis fst_conv)
  show "vb_parent_view_id (fst (with_child_view_builder ti f b n)) = vb_parent_view_id b"
    by (simp add: with_child_view_builder_def Let_def split: prod.split)
qed

lemma with_view_builder_ok:
  assumes "list_all (views_ok (wv_workspace_id wb)) (wv_views wb)" and "closure_ok f"
  shows "list_all (views_ok (wv_workspace_id wb)) (wv_views (fst (with_view_builder ti f wb n)))"
    "wv_workspace_id (fst (with_view_builder ti f wb n)) = wv_workspace_id wb"
proof -
  have "views_ok (wv_workspace_id wb) (fst (f (fst (view_builder_new ti (wv_uid wb) (wv_workspace_id wb) n)) m))" for m
    using assms(2) view_builder_new_ok [of ti "wv_uid wb" "wv_workspace_id wb" n] by (auto simp: closure_ok_def)
  with assms(1) show "list_all (views_ok (wv_workspace_id wb)) (wv_views (fst (with_view_builder ti f wb n)))"
    by (auto simp: with_view_builder_def Let_def split: prod.split) (metis fst_conv)
  show "wv_workspace_id (fst (with_view_builder ti f wb n)) = wv_workspace_id wb"
    by (simp add: with_view_builder_def Let_def split: prod.split)
qed

abbreviation view_kids :: "folder_view list \<Rightarrow> string \<Rightarrow> string list" where
  "view_kids \<equiv> kids fv_id fv_parent_view_id"

lemma not_in_insert: "X \<subseteq> insert a B \<Longrightarrow> x \<noteq> a \<Longrightarrow> x \<notin> B \<Longrightarrow> x \<notin> X"
  by blast

lemma flatten_parents:
  "list_all (views_ok p) ts \<Longrightarrow> fv_parent_view_id ` set (flatten_views ts) \<subseteq> insert p (fv_id ` set (flatten_views ts))"
proof (induction ts arbitrary: p rule: flatten_views.induct)
  case (2 v cs vs)
  then have "fv_parent_view_id v = p" "fv_parent_view_id ` set (flatten_views cs) \<subseteq> insert (fv_id v) (fv_id ` set (flatten_views cs))"
    "fv_parent_view_id ` set (flatten_views vs) \<subseteq> insert p (fv_id ` set (flatten_views vs))"
    by simp_all
  then show ?case by (simp add: image_Un) blast
qed simp

lemma flatten_kids:
  assumes "list_all (views_ok p) ts" and "distinct (map fv_id (flatten_views ts))" and "p \<notin> fv_id ` set (flatten_views ts)"
  shows "view_kids (flatten_views ts) p = map (\<lambda>t. fv_id (parent_view t)) ts \<and>
    (\<forall>v \<in> set (flatten_views ts). view_kids (flatten_views ts) (fv_id v) = fv_children v)"
  using assms
proof (induction ts arbitrary: p rule: flatten_views.induct)
  case (2 v cs vs)
  let ?C = "flatten_views cs" let ?V = "flatten_views vs"
  have v: "fv_parent_view_id v = p" "fv_children v = map (\<lambda>c. fv_id (parent_view c)) cs" "list_all (views_ok (fv_id v)) cs"
    "list_all (views_ok p) vs"
    using "2.prems"(1) by simp_all
  have d: "fv_id v \<notin> fv_id ` set ?C" "fv_id v \<notin> fv_id ` set ?V" "fv_id ` set ?C \<inter> fv_id ` set ?V = {}"
    "p \<noteq> fv_id v" "p \<notin> fv_id ` set ?C" "p \<notin> fv_id ` set ?V"
    using "2.prems"(2,3) by auto
  have C: "view_kids ?C (fv_id v) = fv_children v" "\<forall>u \<in> set ?C. view_kids ?C (fv_id u) = fv_children u"
    using "2.IH"(1) [OF v(3)] "2.prems"(2) d(1) v(2) by auto
  have V: "view_kids ?V p = map (\<lambda>t. fv_id (parent_view t)) vs" "\<forall>u \<in> set ?V. view_kids ?V (fv_id u) = fv_children u"
    using "2.IH"(2) [OF v(4)] "2.prems"(2) d(6) by auto
  have pC: "fv_parent_view_id ` set ?C \<subseteq> insert (fv_id v) (fv_id ` set ?C)" by (rule flatten_parents [OF v(3)])
  have pV: "fv_parent_view_id ` set ?V \<subseteq> insert p (fv_id ` set ?V)" by (rule flatten_parents [OF v(4)])
  have n: "view_kids ?C p = []" "view_kids ?V (fv_id v) = []"
    by (rule kids_none, rule not_in_insert [OF pC d(4,5)], rule kids_none, rule not_in_insert [OF pV d(4) [symmetric] d(2)])
  have m: "view_kids ?V (fv_id u) = []" if "u \<in> set ?C" for u
  proof (rule kids_none, rule not_in_insert [OF pV])
    have "fv_id u \<in> fv_id ` set ?C" using that by simp
    then show "fv_id u \<noteq> p" "fv_id u \<notin> fv_id ` set ?V" using d(3,5) by (metis, metis disjoint_iff)
  qed
  have l: "view_kids ?C (fv_id u) = []" if "u \<in> set ?V" for u
  proof (rule kids_none, rule not_in_insert [OF pC])
    have "fv_id u \<in> fv_id ` set ?V" using that by simp
    then show "fv_id u \<noteq> fv_id v" "fv_id u \<notin> fv_id ` set ?C" using d(2,3) by (metis, metis disjoint_iff)
  qed
  have f: "flatten_views (ParentChildViews v cs # vs) = v # ?C @ ?V" by simp
  have x: "fv_id u \<noteq> p" if "u \<in> set ?C \<or> u \<in> set ?V" for u using that d(5,6) by auto
  have "view_kids (v # ?C @ ?V) p = map (\<lambda>t. fv_id (parent_view t)) (ParentChildViews v cs # vs)" using V(1) n v(1) by simp
  moreover have "view_kids (v # ?C @ ?V) (fv_id v) = fv_children v" using C(1) n d(4) v(1) by simp
  moreover have "view_kids (v # ?C @ ?V) (fv_id u) = fv_children u" if "u \<in> set ?C" for u
    using bspec [OF C(2) that] m [OF that] x [of u] that v(1) by simp
  moreover have "view_kids (v # ?C @ ?V) (fv_id u) = fv_children u" if "u \<in> set ?V" for u
    using bspec [OF V(2) that] l [OF that] x [of u] that v(1) by simp
  ultimately show ?case unfolding f by (auto simp del: kids_Cons kids_append)
qed simp


definition sample_closure :: view_closure where
  "sample_closure b n =
     (let (b', n') = with_child_view_builder sample_ids (\<lambda>c m. (view_build 0 (with_name ''child'' c), m)) b n
      in (view_build 0 (with_desc ''parent'' b'), n'))"

lemma sample_closure_ok: "closure_ok sample_closure"
  unfolding closure_ok_def
proof (intro allI impI)
  fix b n assume b: "builder_ok b"
  have child: "closure_ok (\<lambda>c m. (view_build 0 (with_name ''child'' c), m))"
    unfolding closure_ok_def by (metis builder_operations_ok(2,6) fst_conv view_build_ok)
  obtain b' m where e: "with_child_view_builder sample_ids (\<lambda>c m. (view_build 0 (with_name ''child'' c), m)) b n = (b', m)"
    by (metis prod.collapse)
  note w = with_child_view_builder_ok [OF b child, of sample_ids n, unfolded e fst_conv]
  show "views_ok (vb_parent_view_id b) (fst (sample_closure b n))"
    using view_build_ok [OF builder_operations_ok(3) [OF w(1)]] w(2) builder_operations_ok(7) [OF w(1)]
    by (simp add: sample_closure_def e)
qed


subsection \<open>A new workspace\<close>

text \<open>a new user gets the folder of the workspace with one view, the first and current one, and, when it could be made, the
  document of that view under the id of the view. When the document could not be made the folder has its view nevertheless.\<close>

theorem new_workspace_has_its_first_view:
  "\<exists>v. new_user_templates te uid w n =
      Served (Inr ((case res_bind (tv_read_me te) (\<lambda>root.
                      tv_document te (ti_view (tv_ids te) n) (fst (json_to_document (tv_ids te) (tv_text te) root (Suc n)))) of
                      Inl _ \<Rightarrow> []
                    | Inr data \<Rightarrow> [\<lparr>tp_object_id = fv_id v, tp_object_type = Document, tp_object_data = data\<rparr>]) @
        [\<lparr>tp_object_id = w, tp_object_type = Folder,
          tp_object_data = tv_folder te uid w (folder_data_of (tv_now te) uid w [ParentChildViews v []])\<rparr>])) \<and>
    fv_id v = ti_view (tv_ids te) n \<and> fv_parent_view_id v = w \<and> fv_children v = [] \<and> fv_layout v = DocumentLayout"
  by (intro exI [of _ "parent_view (fst (get_started_view te (fst (view_builder_new (tv_ids te) uid w n)) 0))"])
    (auto simp: new_user_templates_def with_templates_def with_template_def template_builder_new_def templates_build_def
      get_started_template_def with_view_builder_def view_builder_new_def get_started_view_def view_build_def with_icon_def
      with_name_def workspace_view_builder_new_def workspace_views_build_def Let_def split: sum.split prod.split)

end
