(* ===== verification/Transport.thy ===== *)
theory Transport
  imports WsClient
begin

section \<open>The websocket library\<close>

text \<open>
  \<open>libs/websocket/src\<close>: messages and close codes (\<open>message.rs\<close>), errors (\<open>error.rs\<close>), their conversion from and to those
  of \<open>tungstenite\<close> (\<open>native.rs\<close>) and the stream over the websocket of a browser (\<open>web.rs\<close>). The text of a message is the
  list of its bytes in UTF-8; which byte lists are UTF-8 is the parameter \<open>utf8\<close>.
\<close>

subsection \<open>Close codes\<close>

datatype close_code =
    CcNormal | CcAway | CcProtocol | CcUnsupported | CcStatus | CcAbnormal | CcInvalid | CcPolicy | CcSize | CcExtension
  | CcError | CcRestart | CcAgain | CcTls
  | CcReserved "16 word" | CcIana "16 word" | CcLibrary "16 word" | CcBad "16 word"

fun close_is_allowed :: "close_code \<Rightarrow> bool" where
  "close_is_allowed (CcBad _) = False"
| "close_is_allowed (CcReserved _) = False"
| "close_is_allowed CcStatus = False"
| "close_is_allowed CcAbnormal = False"
| "close_is_allowed CcTls = False"
| "close_is_allowed _ = True"

fun u16_of_close_code :: "close_code \<Rightarrow> 16 word" where
  "u16_of_close_code CcNormal = 1000"
| "u16_of_close_code CcAway = 1001"
| "u16_of_close_code CcProtocol = 1002"
| "u16_of_close_code CcUnsupported = 1003"
| "u16_of_close_code CcStatus = 1005"
| "u16_of_close_code CcAbnormal = 1006"
| "u16_of_close_code CcInvalid = 1007"
| "u16_of_close_code CcPolicy = 1008"
| "u16_of_close_code CcSize = 1009"
| "u16_of_close_code CcExtension = 1010"
| "u16_of_close_code CcError = 1011"
| "u16_of_close_code CcRestart = 1012"
| "u16_of_close_code CcAgain = 1013"
| "u16_of_close_code CcTls = 1015"
| "u16_of_close_code (CcReserved code) = code"
| "u16_of_close_code (CcIana code) = code"
| "u16_of_close_code (CcLibrary code) = code"
| "u16_of_close_code (CcBad code) = code"

definition close_code_of_u16 :: "16 word \<Rightarrow> close_code" where
  "close_code_of_u16 code =
     (if code = 1000 then CcNormal else if code = 1001 then CcAway else if code = 1002 then CcProtocol
      else if code = 1003 then CcUnsupported else if code = 1005 then CcStatus else if code = 1006 then CcAbnormal
      else if code = 1007 then CcInvalid else if code = 1008 then CcPolicy else if code = 1009 then CcSize
      else if code = 1010 then CcExtension else if code = 1011 then CcError else if code = 1012 then CcRestart
      else if code = 1013 then CcAgain else if code = 1015 then CcTls
      else if 1 \<le> code \<and> code \<le> 999 then CcBad code
      else if 1016 \<le> code \<and> code \<le> 2999 then CcReserved code
      else if 3000 \<le> code \<and> code \<le> 3999 then CcIana code
      else if 4000 \<le> code \<and> code \<le> 4999 then CcLibrary code
      else CcBad code)"

record close_frame =
  cf_code :: close_code
  cf_reason :: bytes

subsection \<open>Messages\<close>

datatype lib_message = MText bytes | MBinary bytes | MClose "close_frame option" | MPing bytes | MPong bytes

fun msg_len :: "lib_message \<Rightarrow> nat" where
  "msg_len (MText s) = length s"
| "msg_len (MBinary data) = length data"
| "msg_len (MClose f) = (case f of Some d \<Rightarrow> length (cf_reason d) | None \<Rightarrow> 0)"
| "msg_len (MPing data) = length data"
| "msg_len (MPong data) = length data"

definition msg_is_empty :: "lib_message \<Rightarrow> bool" where
  "msg_is_empty m \<longleftrightarrow> msg_len m = 0"

definition msg_is_text :: "lib_message \<Rightarrow> bool" where "msg_is_text m \<longleftrightarrow> (case m of MText _ \<Rightarrow> True | _ \<Rightarrow> False)"
definition msg_is_binary :: "lib_message \<Rightarrow> bool" where "msg_is_binary m \<longleftrightarrow> (case m of MBinary _ \<Rightarrow> True | _ \<Rightarrow> False)"
definition msg_is_ping :: "lib_message \<Rightarrow> bool" where "msg_is_ping m \<longleftrightarrow> (case m of MPing _ \<Rightarrow> True | _ \<Rightarrow> False)"
definition msg_is_pong :: "lib_message \<Rightarrow> bool" where "msg_is_pong m \<longleftrightarrow> (case m of MPong _ \<Rightarrow> True | _ \<Rightarrow> False)"
definition msg_is_close :: "lib_message \<Rightarrow> bool" where "msg_is_close m \<longleftrightarrow> (case m of MClose _ \<Rightarrow> True | _ \<Rightarrow> False)"

fun msg_into_data :: "lib_message \<Rightarrow> bytes" where
  "msg_into_data (MText s) = s"
| "msg_into_data (MBinary data) = data"
| "msg_into_data (MClose None) = []"
| "msg_into_data (MClose (Some frame)) = cf_reason frame"
| "msg_into_data (MPing data) = data"
| "msg_into_data (MPong data) = data"

text \<open>The frames of theory \<open>Realtime\<close> leave out what a close frame says.\<close>

fun frame_of_message :: "lib_message \<Rightarrow> ws_frame" where
  "frame_of_message (MText s) = FrText (map (\<lambda>b. char_of (unat b)) s)"
| "frame_of_message (MBinary data) = FrBinary data"
| "frame_of_message (MClose _) = FrClose"
| "frame_of_message (MPing data) = FrPing data"
| "frame_of_message (MPong data) = FrPong data"

subsection \<open>Errors\<close>

datatype capacity_error = CapTooManyHeaders | CapMessageTooLong nat nat

datatype frame_data = DataContinue | DataText | DataBinary | DataReserved u8

datatype httparse_error = HpTooManyHeaders | HpOther string

datatype lib_protocol_error =
    PeWrongHttpMethod
  | PeWrongHttpVersion
  | PeMissingConnectionUpgradeHeader
  | PeMissingUpgradeWebSocketHeader
  | PeMissingSecWebSocketVersionHeader
  | PeMissingSecWebSocketKey
  | PeSecWebSocketAcceptKeyMismatch
  | PeJunkAfterRequest
  | PeCustomResponseSuccessful
  | PeInvalidHeader string
  | PeHandshakeIncomplete
  | PeHttparseError httparse_error
  | PeSendAfterClosing
  | PeReceivedAfterClosing
  | PeNonZeroReservedBits
  | PeUnmaskedFrameFromClient
  | PeMaskedFrameFromServer
  | PeFragmentedControlFrame
  | PeControlFrameTooBig
  | PeUnknownControlFrameType u8
  | PeUnknownDataFrameType u8
  | PeUnexpectedContinueFrame
  | PeExpectedFragment frame_data
  | PeResetWithoutClosingHandshake
  | PeInvalidOpcode u8
  | PeInvalidCloseSequence

datatype url_error =
    UeTlsFeatureNotEnabled | UeNoHostName | UeUnableToConnect string | UeUnsupportedUrlScheme | UeEmptyHostName
  | UeNoPathOrQuery

datatype transport_error =
    TeConnectionClosed
  | TeAlreadyClosed
  | TeIo string
  | TeTls string
  | TeCapacity capacity_error
  | TeProtocol lib_protocol_error
  | TeWriteBufferFull lib_message
  | TeUtf8
  | TeAttackAttempt
  | TeUrl url_error
  | TeHttp nat "bytes option"
  | TeHttpFormat string
  | TeBlobFormatUnsupported
  | TeUnknownFormat

fun display_capacity_error :: "capacity_error \<Rightarrow> string" where
  "display_capacity_error CapTooManyHeaders = ''Too many headers''"
| "display_capacity_error (CapMessageTooLong n max_n) =
     ''Message too long: '' @ show_nat n @ '' > '' @ show_nat max_n"

fun display_frame_data :: "frame_data \<Rightarrow> string" where
  "display_frame_data DataContinue = ''CONTINUE''"
| "display_frame_data DataText = ''TEXT''"
| "display_frame_data DataBinary = ''BINARY''"
| "display_frame_data (DataReserved x) = ''RESERVED_DATA_'' @ show_nat (unat x)"

definition dq :: string where "dq = [CHR 0x22]"

text \<open>\<open>hp\<close> is the text of the errors of \<open>httparse\<close>.\<close>

fun display_protocol_error :: "(httparse_error \<Rightarrow> string) \<Rightarrow> lib_protocol_error \<Rightarrow> string" where
  "display_protocol_error hp PeWrongHttpMethod = ''Unsupported HTTP method used - only GET is allowed''"
| "display_protocol_error hp PeWrongHttpVersion = ''HTTP version must be 1.1 or higher''"
| "display_protocol_error hp PeMissingConnectionUpgradeHeader = ''No '' @ dq @ ''Connection: upgrade'' @ dq @ '' header''"
| "display_protocol_error hp PeMissingUpgradeWebSocketHeader = ''No '' @ dq @ ''Upgrade: websocket'' @ dq @ '' header''"
| "display_protocol_error hp PeMissingSecWebSocketVersionHeader =
     ''No '' @ dq @ ''Sec-WebSocket-Version: 13'' @ dq @ '' header''"
| "display_protocol_error hp PeMissingSecWebSocketKey = ''No '' @ dq @ ''Sec-WebSocket-Key'' @ dq @ '' header''"
| "display_protocol_error hp PeSecWebSocketAcceptKeyMismatch = ''Key mismatch in '' @ dq @ ''Sec-WebSocket-Accept'' @ dq @ '' header''"
| "display_protocol_error hp PeJunkAfterRequest = ''Junk after client request''"
| "display_protocol_error hp PeCustomResponseSuccessful = ''Custom response must not be successful''"
| "display_protocol_error hp (PeInvalidHeader h) = ''Not allowed to pass overwrite the standard header '' @ h"
| "display_protocol_error hp PeHandshakeIncomplete = ''Handshake not finished''"
| "display_protocol_error hp (PeHttparseError e) = ''httparse error: '' @ hp e"
| "display_protocol_error hp PeSendAfterClosing = ''Sending after closing is not allowed''"
| "display_protocol_error hp PeReceivedAfterClosing = ''Remote sent after having closed''"
| "display_protocol_error hp PeNonZeroReservedBits = ''Reserved bits are non-zero''"
| "display_protocol_error hp PeUnmaskedFrameFromClient = ''Received an unmasked frame from client''"
| "display_protocol_error hp PeMaskedFrameFromServer = ''Received a masked frame from server''"
| "display_protocol_error hp PeFragmentedControlFrame = ''Fragmented control frame''"
| "display_protocol_error hp PeControlFrameTooBig = ''Control frame too big (payload must be 125 bytes or less)''"
| "display_protocol_error hp (PeUnknownControlFrameType n) = ''Unknown control frame type: '' @ show_nat (unat n)"
| "display_protocol_error hp (PeUnknownDataFrameType n) = ''Unknown data frame type: '' @ show_nat (unat n)"
| "display_protocol_error hp PeUnexpectedContinueFrame = ''Continue frame but nothing to continue''"
| "display_protocol_error hp (PeExpectedFragment d) = ''While waiting for more fragments received: '' @ display_frame_data d"
| "display_protocol_error hp PeResetWithoutClosingHandshake = ''Connection reset without closing handshake''"
| "display_protocol_error hp (PeInvalidOpcode n) = ''Encountered invalid opcode: '' @ show_nat (unat n)"
| "display_protocol_error hp PeInvalidCloseSequence = ''Invalid close sequence''"

fun display_url_error :: "url_error \<Rightarrow> string" where
  "display_url_error UeTlsFeatureNotEnabled = ''TLS support not compiled in''"
| "display_url_error UeNoHostName = ''No host name in the URL''"
| "display_url_error (UeUnableToConnect u) = ''Unable to connect to '' @ u"
| "display_url_error UeUnsupportedUrlScheme = ''URL scheme not supported''"
| "display_url_error UeEmptyHostName = ''URL contains empty host name''"
| "display_url_error UeNoPathOrQuery = ''No path/query in URL''"

fun display_transport_error :: "(httparse_error \<Rightarrow> string) \<Rightarrow> (nat \<Rightarrow> string) \<Rightarrow> transport_error \<Rightarrow> string" where
  "display_transport_error hp status TeConnectionClosed = ''Connection closed normally''"
| "display_transport_error hp status TeAlreadyClosed = ''Trying to work with closed connection''"
| "display_transport_error hp status (TeIo e) = ''IO error: '' @ e"
| "display_transport_error hp status (TeTls e) = ''TLS error: '' @ e"
| "display_transport_error hp status (TeCapacity e) = ''Space limit exceeded: '' @ display_capacity_error e"
| "display_transport_error hp status (TeProtocol e) = ''WebSocket protocol error: '' @ display_protocol_error hp e"
| "display_transport_error hp status (TeWriteBufferFull _) = ''Write buffer is full''"
| "display_transport_error hp status TeUtf8 = ''UTF-8 encoding error''"
| "display_transport_error hp status TeAttackAttempt = ''Attack attempt detected''"
| "display_transport_error hp status (TeUrl e) = ''URL error: '' @ display_url_error e"
| "display_transport_error hp status (TeHttp n _) = ''HTTP error: '' @ status n"
| "display_transport_error hp status (TeHttpFormat e) = ''HTTP format error: '' @ e"
| "display_transport_error hp status TeBlobFormatUnsupported = ''Parsing blobs is unsupported''"
| "display_transport_error hp status TeUnknownFormat = ''Unknown data format encountered''"

fun transport_error_of_httparse :: "httparse_error \<Rightarrow> transport_error" where
  "transport_error_of_httparse HpTooManyHeaders = TeCapacity CapTooManyHeaders"
| "transport_error_of_httparse e = TeProtocol (PeHttparseError e)"

text \<open>What the client tells apart of these errors (theory \<open>WsClient\<close>).\<close>

fun lib_error_of :: "(httparse_error \<Rightarrow> string) \<Rightarrow> (nat \<Rightarrow> string) \<Rightarrow> transport_error \<Rightarrow> ws_lib_error" where
  "lib_error_of hp status TeConnectionClosed = LibConnectionClosed (display_transport_error hp status TeConnectionClosed)"
| "lib_error_of hp status TeAlreadyClosed = LibAlreadyClosed (display_transport_error hp status TeAlreadyClosed)"
| "lib_error_of hp status (TeHttp n b) = LibHttp n (display_transport_error hp status (TeHttp n b))"
| "lib_error_of hp status e = LibOther (display_transport_error hp status e)"

text \<open>Reading a message as text.\<close>

fun msg_into_text :: "(bytes \<Rightarrow> bool) \<Rightarrow> lib_message \<Rightarrow> transport_error + bytes" where
  "msg_into_text utf8 (MText s) = Inr s"
| "msg_into_text utf8 (MBinary data) = (if utf8 data then Inr data else Inl TeUtf8)"
| "msg_into_text utf8 (MClose None) = Inr []"
| "msg_into_text utf8 (MClose (Some frame)) = Inr (cf_reason frame)"
| "msg_into_text utf8 (MPing data) = (if utf8 data then Inr data else Inl TeUtf8)"
| "msg_into_text utf8 (MPong data) = (if utf8 data then Inr data else Inl TeUtf8)"

subsection \<open>Tungstenite\<close>

text \<open>Its messages and errors, with its close codes as a type \<open>'c\<close> that converts from and to \<open>u16\<close>.\<close>

record 'c tung_codes =
  ta_u16 :: "'c \<Rightarrow> 16 word"
  ta_code :: "16 word \<Rightarrow> 'c"

record 'c tung_close_frame =
  tc_code :: 'c
  tc_reason :: bytes

datatype 'c tung_message =
    TgText bytes | TgBinary bytes | TgClose "'c tung_close_frame option" | TgPing bytes | TgPong bytes | TgFrame bytes

datatype 'c tung_error =
    TxConnectionClosed
  | TxAlreadyClosed
  | TxIo string
  | TxTls string
  | TxCapacity capacity_error
  | TxProtocol lib_protocol_error
  | TxWriteBufferFull "'c tung_message"
  | TxUtf8
  | TxAttackAttempt
  | TxUrl url_error
  | TxHttp nat "bytes option"
  | TxHttpFormat string

definition close_frame_of_tung :: "'c tung_codes \<Rightarrow> 'c tung_close_frame \<Rightarrow> close_frame" where
  "close_frame_of_tung ta f = \<lparr>cf_code = close_code_of_u16 (ta_u16 ta (tc_code f)), cf_reason = tc_reason f\<rparr>"

definition tung_close_frame_of :: "'c tung_codes \<Rightarrow> close_frame \<Rightarrow> 'c tung_close_frame" where
  "tung_close_frame_of ta f = \<lparr>tc_code = ta_code ta (u16_of_close_code (cf_code f)), tc_reason = cf_reason f\<rparr>"

fun tung_of_message :: "'c tung_codes \<Rightarrow> lib_message \<Rightarrow> 'c tung_message" where
  "tung_of_message ta (MText s) = TgText s"
| "tung_of_message ta (MBinary data) = TgBinary data"
| "tung_of_message ta (MClose f) = TgClose (map_option (tung_close_frame_of ta) f)"
| "tung_of_message ta (MPing data) = TgPing data"
| "tung_of_message ta (MPong data) = TgPong data"

text \<open>\<open>From<Message> for crate::Message\<close>: \<open>None\<close> is \<open>unreachable!\<close>.\<close>

fun message_of_tung :: "'c tung_codes \<Rightarrow> 'c tung_message \<Rightarrow> lib_message option" where
  "message_of_tung ta (TgText s) = Some (MText s)"
| "message_of_tung ta (TgBinary data) = Some (MBinary data)"
| "message_of_tung ta (TgClose f) = Some (MClose (map_option (close_frame_of_tung ta) f))"
| "message_of_tung ta (TgPing _) = None"
| "message_of_tung ta (TgPong _) = None"
| "message_of_tung ta (TgFrame _) = None"

fun transport_error_of_tung :: "'c tung_codes \<Rightarrow> 'c tung_error \<Rightarrow> transport_error option" where
  "transport_error_of_tung ta TxConnectionClosed = Some TeConnectionClosed"
| "transport_error_of_tung ta TxAlreadyClosed = Some TeAlreadyClosed"
| "transport_error_of_tung ta (TxIo e) = Some (TeIo e)"
| "transport_error_of_tung ta (TxTls e) = Some (TeTls e)"
| "transport_error_of_tung ta (TxCapacity e) = Some (TeCapacity e)"
| "transport_error_of_tung ta (TxProtocol e) = Some (TeProtocol e)"
| "transport_error_of_tung ta (TxWriteBufferFull m) = map_option TeWriteBufferFull (message_of_tung ta m)"
| "transport_error_of_tung ta TxUtf8 = Some TeUtf8"
| "transport_error_of_tung ta TxAttackAttempt = Some TeAttackAttempt"
| "transport_error_of_tung ta (TxUrl e) = Some (TeUrl e)"
| "transport_error_of_tung ta (TxHttp n b) = Some (TeHttp n b)"
| "transport_error_of_tung ta (TxHttpFormat e) = Some (TeHttpFormat e)"

text \<open>\<open>to_fut_message\<close>: what the stream yields for a result of tungstenite; the outer option is the panic.\<close>

fun received_message :: "'c tung_codes \<Rightarrow> 'c tung_error + 'c tung_message \<Rightarrow> (transport_error + lib_message) option option" where
  "received_message ta (Inr (TgText s)) = Some (Some (Inr (MText s)))"
| "received_message ta (Inr (TgBinary data)) = Some (Some (Inr (MBinary data)))"
| "received_message ta (Inr (TgClose f)) = Some (Some (Inr (MClose (map_option (close_frame_of_tung ta) f))))"
| "received_message ta (Inr (TgPong data)) = Some (Some (Inr (MPong data)))"
| "received_message ta (Inr (TgPing data)) = Some (Some (Inr (MPing data)))"
| "received_message ta (Inr (TgFrame _)) = Some None"
| "received_message ta (Inl e) = map_option (\<lambda>e. Some (Inl e)) (transport_error_of_tung ta e)"

text \<open>The text of a message and of a close frame, as \<open>Display\<close> writes it.\<close>

definition string_of_bytes :: "bytes \<Rightarrow> string" where
  "string_of_bytes bs = map (\<lambda>b. char_of (unat b)) bs"

definition display_close_code :: "close_code \<Rightarrow> string" where
  "display_close_code c = show_nat (unat (u16_of_close_code c))"

definition display_close_frame :: "close_frame \<Rightarrow> string" where
  "display_close_frame f = string_of_bytes (cf_reason f) @ '' ('' @ display_close_code (cf_code f) @ '')''"

definition display_message :: "(bytes \<Rightarrow> bool) \<Rightarrow> lib_message \<Rightarrow> string" where
  "display_message utf8 m =
     (case msg_into_text utf8 m of
        Inr s \<Rightarrow> string_of_bytes s
      | Inl _ \<Rightarrow> ''Binary Data<length='' @ show_nat (msg_len m) @ ''>'')"

subsection \<open>The websocket of a browser\<close>

datatype ready_state = RsClosed | RsClosing | RsConnecting | RsOpen

text \<open>The constants of \<open>web_sys::WebSocket\<close> are those of the browser's interface: CONNECTING 0, OPEN 1, CLOSING 2, CLOSED 3.\<close>

definition ready_state_of_u16 :: "16 word \<Rightarrow> ready_state option" where
  "ready_state_of_u16 v =
     (if v = 3 then Some RsClosed else if v = 2 then Some RsClosing else if v = 1 then Some RsOpen
      else if v = 0 then Some RsConnecting else None)"

text \<open>The payload of a message event; a string that is not well formed has no \<open>as_string\<close>.\<close>

datatype web_payload = WpBuffer bytes | WpString "bytes option" | WpBlob | WpOther

fun message_of_event :: "web_payload \<Rightarrow> transport_error + lib_message" where
  "message_of_event (WpBuffer v) = Inr (MBinary v)"
| "message_of_event (WpString (Some s)) = Inr (MText s)"
| "message_of_event (WpString None) = Inl TeUtf8"
| "message_of_event WpBlob = Inl TeBlobFormatUnsupported"
| "message_of_event WpOther = Inl TeUnknownFormat"

text \<open>The calls the stream makes on the browser's object, whose result is the browser's.\<close>

datatype browser_call = WcSendStr bytes | WcSendBytes bytes | WcClose | WcCloseWith "16 word" bytes

text \<open>A stream: the browser's ready state, the queue and the waker that the callbacks share with it, the wakers woken so far.\<close>

record web_stream =
  wb_ready :: "16 word"
  wb_queue :: "(transport_error + lib_message) list"
  wb_waker :: "nat option"
  wb_woken :: "nat list"
  wb_calls :: "browser_call list"

text \<open>
  \<open>WebSocketStream::new\<close>: whether the constructor of the browser accepts the url, and which of the two one-shot channels
  is first, the one of \<open>onopen\<close> or the one of \<open>onerror\<close>.
\<close>

datatype open_event = OeOpen | OeError

definition web_connect :: "bool \<Rightarrow> open_event \<Rightarrow> 16 word \<Rightarrow> transport_error + web_stream" where
  "web_connect url_ok first ready =
     (if \<not> url_ok then Inl (TeUrl UeUnsupportedUrlScheme)
      else case first of
          OeOpen \<Rightarrow> Inr \<lparr>wb_ready = ready, wb_queue = [], wb_waker = None, wb_woken = [], wb_calls = []\<rparr>
        | OeError \<Rightarrow> Inl TeConnectionClosed)"

definition take_waker :: "web_stream \<Rightarrow> web_stream" where
  "take_waker s =
     (case wb_waker s of Some w \<Rightarrow> s\<lparr>wb_waker := None, wb_woken := wb_woken s @ [w]\<rparr> | None \<Rightarrow> s)"

definition push_event :: "transport_error + lib_message \<Rightarrow> web_stream \<Rightarrow> web_stream" where
  "push_event x s = take_waker (s\<lparr>wb_queue := wb_queue s @ [x]\<rparr>)"

definition on_message :: "web_payload \<Rightarrow> web_stream \<Rightarrow> web_stream" where
  "on_message p s = push_event (message_of_event p) s"

definition on_error :: "web_stream \<Rightarrow> web_stream" where
  "on_error s = push_event (Inl TeConnectionClosed) s"

definition on_close :: "16 word \<Rightarrow> bytes \<Rightarrow> web_stream \<Rightarrow> web_stream" where
  "on_close code reason s =
     push_event (Inr (MClose (Some \<lparr>cf_code = close_code_of_u16 code, cf_reason = reason\<rparr>))) s"

datatype 'a polled = PollPending | PollReady 'a

definition web_poll_next :: "nat \<Rightarrow> web_stream \<Rightarrow> (transport_error + lib_message) option polled \<times> web_stream" where
  "web_poll_next w s =
     (case wb_queue s of
        [] \<Rightarrow> ((case ready_state_of_u16 (wb_ready s) of Some RsOpen \<Rightarrow> PollPending | _ \<Rightarrow> PollReady None),
               s\<lparr>wb_waker := Some w\<rparr>)
      | x # q \<Rightarrow> (PollReady (Some x), s\<lparr>wb_queue := q\<rparr>))"

definition web_poll_ready :: "web_stream \<Rightarrow> transport_error + unit" where
  "web_poll_ready s =
     (case ready_state_of_u16 (wb_ready s) of Some RsOpen \<Rightarrow> Inr () | _ \<Rightarrow> Inl TeConnectionClosed)"

text \<open>A call on the browser's object: \<open>ok\<close> says whether it returns without an exception, \<open>e\<close> is the error it is mapped to.\<close>

definition web_call :: "(browser_call \<Rightarrow> bool) \<Rightarrow> transport_error \<Rightarrow> browser_call \<Rightarrow> web_stream \<Rightarrow> (transport_error + unit) \<times> web_stream"
where
  "web_call ok e c s = ((if ok c then Inr () else Inl e), s\<lparr>wb_calls := wb_calls s @ [c]\<rparr>)"

fun web_send_item :: "(browser_call \<Rightarrow> bool) \<Rightarrow> lib_message \<Rightarrow> web_stream \<Rightarrow> (transport_error + unit) \<times> web_stream" where
  "web_send_item ok (MText s) st = web_call ok TeUtf8 (WcSendStr s) st"
| "web_send_item ok (MBinary b) st = web_call ok TeUtf8 (WcSendBytes b) st"
| "web_send_item ok (MClose None) st = web_call ok TeAlreadyClosed WcClose st"
| "web_send_item ok (MClose (Some f)) st =
     web_call ok TeAlreadyClosed (WcCloseWith (u16_of_close_code (cf_code f)) (cf_reason f)) st"
| "web_send_item ok (MPing d) st = web_call ok TeUtf8 (WcSendBytes d) st"
| "web_send_item ok (MPong d) st = web_call ok TeUtf8 (WcSendBytes d) st"

definition web_start_send :: "(browser_call \<Rightarrow> bool) \<Rightarrow> lib_message \<Rightarrow> web_stream \<Rightarrow> (transport_error + unit) \<times> web_stream" where
  "web_start_send ok m s =
     (case ready_state_of_u16 (wb_ready s) of
        Some RsOpen \<Rightarrow> web_send_item ok m s
      | _ \<Rightarrow> (Inl TeConnectionClosed, s))"

definition web_poll_flush :: "web_stream \<Rightarrow> transport_error + unit" where
  "web_poll_flush s = Inr ()"

definition web_poll_close :: "(browser_call \<Rightarrow> bool) \<Rightarrow> web_stream \<Rightarrow> (transport_error + unit) \<times> web_stream" where
  "web_poll_close ok s = web_call ok TeAlreadyClosed WcClose s"

subsection \<open>Runs of a browser's stream\<close>

text \<open>What happens to it, in any order: the browser's events, a change of its ready state, polls and sends of the client.\<close>

datatype browser_event =
    WeMessage web_payload | WeError | WeClose "16 word" bytes | WeReady "16 word" | WePoll nat | WeSend lib_message | WeShut

fun browser_step :: "(browser_call \<Rightarrow> bool) \<Rightarrow> browser_event \<Rightarrow> web_stream \<Rightarrow> web_stream" where
  "browser_step ok (WeMessage p) s = on_message p s"
| "browser_step ok WeError s = on_error s"
| "browser_step ok (WeClose c r) s = on_close c r s"
| "browser_step ok (WeReady v) s = s\<lparr>wb_ready := v\<rparr>"
| "browser_step ok (WePoll w) s = snd (web_poll_next w s)"
| "browser_step ok (WeSend m) s = snd (web_start_send ok m s)"
| "browser_step ok WeShut s = snd (web_poll_close ok s)"

fun browser_run :: "(browser_call \<Rightarrow> bool) \<Rightarrow> browser_event list \<Rightarrow> web_stream \<Rightarrow> web_stream" where
  "browser_run ok [] s = s"
| "browser_run ok (e # es) s = browser_run ok es (browser_step ok e s)"

text \<open>What an event brings, and what the polls of a run hand out.\<close>

fun arrivals :: "browser_event list \<Rightarrow> (transport_error + lib_message) list" where
  "arrivals [] = []"
| "arrivals (WeMessage p # es) = message_of_event p # arrivals es"
| "arrivals (WeError # es) = Inl TeConnectionClosed # arrivals es"
| "arrivals (WeClose c r # es) = Inr (MClose (Some \<lparr>cf_code = close_code_of_u16 c, cf_reason = r\<rparr>)) # arrivals es"
| "arrivals (_ # es) = arrivals es"

definition handed_out :: "(transport_error + lib_message) option polled \<Rightarrow> (transport_error + lib_message) list" where
  "handed_out r = (case r of PollReady (Some x) \<Rightarrow> [x] | _ \<Rightarrow> [])"

fun browser_yields :: "(browser_call \<Rightarrow> bool) \<Rightarrow> browser_event list \<Rightarrow> web_stream \<Rightarrow> (transport_error + lib_message) list" where
  "browser_yields ok [] s = []"
| "browser_yields ok (WePoll w # es) s =
     handed_out (fst (web_poll_next w s)) @ browser_yields ok es (browser_step ok (WePoll w) s)"
| "browser_yields ok (e # es) s = browser_yields ok es (browser_step ok e s)"

text \<open>A poll that waits leaves its waker, and the next arrival wakes it.\<close>

definition no_lost_waker :: "web_stream \<Rightarrow> bool" where
  "no_lost_waker s \<longleftrightarrow> (case wb_waker s of Some _ \<Rightarrow> wb_queue s = [] | None \<Rightarrow> True)"

end
