(* ===== verification/TransportProps.thy ===== *)
theory TransportProps
  imports Transport
begin

text \<open>
  What the websocket library promises: close codes survive their conversion, the frames a native stream yields, which errors its
  conversion cannot express, and the order and the wake-ups of the stream of a browser.
\<close>

section \<open>Close codes\<close>

theorem close_code_roundtrip: "u16_of_close_code (close_code_of_u16 c) = c"
  by (simp add: close_code_of_u16_def)

theorem close_codes_a_peer_may_send:
  "close_is_allowed (close_code_of_u16 c)
     \<longleftrightarrow> c \<in> {1000, 1001, 1002, 1003, 1007, 1008, 1009, 1010, 1011, 1012, 1013} \<or> (3000 \<le> c \<and> c \<le> 4999)"
proof (cases "c \<in> {1000, 1001, 1002, 1003, 1005, 1006, 1007, 1008, 1009, 1010, 1011, 1012, 1013, 1015}")
  case True
  then show ?thesis by (elim insertE emptyE) (simp_all add: close_code_of_u16_def)
next
  case False
  then have "close_is_allowed (close_code_of_u16 c)
      \<longleftrightarrow> \<not> (1 \<le> c \<and> c \<le> 999) \<and> \<not> (1016 \<le> c \<and> c \<le> 2999) \<and> (3000 \<le> c \<and> c \<le> 3999 \<or> 4000 \<le> c \<and> c \<le> 4999)"
    by (simp add: close_code_of_u16_def)
  also have "\<dots> \<longleftrightarrow> 3000 \<le> c \<and> c \<le> 4999"
    by (simp only: word_le_nat_alt, simp) arith
  finally show ?thesis using False by simp
qed

section \<open>The native stream\<close>

theorem native_messages_pass_unchanged:
  assumes ta: "\<And>c. ta_u16 ta (ta_code ta c) = c"
    and close: "\<And>f. m = MClose (Some f) \<Longrightarrow> close_code_of_u16 (u16_of_close_code (cf_code f)) = cf_code f"
  shows "received_message ta (Inr (tung_of_message ta m)) = Some (Some (Inr m))"
proof (cases m)
  case (MClose fo)
  then show ?thesis
    using close by (cases fo) (auto simp: ta close_frame_of_tung_def tung_close_frame_of_def)
qed simp_all

theorem full_buffer_conversion_panics:
  "transport_error_of_tung ta (TxWriteBufferFull (tung_of_message ta m)) = None \<longleftrightarrow> msg_is_ping m \<or> msg_is_pong m"
  by (cases m) (simp_all add: msg_is_ping_def msg_is_pong_def)

section \<open>The stream of a browser\<close>

lemmas web_callbacks = on_message_def on_error_def on_close_def push_event_def take_waker_def

lemma queue_of_push [simp]: "wb_queue (push_event x s) = wb_queue s @ [x]"
  by (simp add: push_event_def take_waker_def split: option.splits)

lemma waker_of_push [simp]: "wb_waker (push_event x s) = None"
  by (simp add: push_event_def take_waker_def split: option.splits)

lemma queue_of_item [simp]: "wb_queue (snd (web_send_item ok m s)) = wb_queue s" "wb_waker (snd (web_send_item ok m s)) = wb_waker s"
  by (cases "(ok, m, s)" rule: web_send_item.cases; simp add: web_call_def)+

lemma queue_of_send [simp]: "wb_queue (snd (web_start_send ok m s)) = wb_queue s" "wb_waker (snd (web_start_send ok m s)) = wb_waker s"
  by (simp_all add: web_start_send_def split: option.splits ready_state.splits)

lemma queue_of_close [simp]: "wb_queue (snd (web_poll_close ok s)) = wb_queue s" "wb_waker (snd (web_poll_close ok s)) = wb_waker s"
  by (simp_all add: web_poll_close_def web_call_def)

lemma poll_takes_the_head: "handed_out (fst (web_poll_next w s)) @ wb_queue (snd (web_poll_next w s)) = wb_queue s"
  by (simp add: web_poll_next_def handed_out_def split: list.splits option.splits ready_state.splits)

lemma run_keeps_order: "browser_yields ok es s @ wb_queue (browser_run ok es s) = wb_queue s @ arrivals es"
proof (induction es arbitrary: s)
  case (Cons e es)
  show ?case
  proof (cases e)
    case (WePoll w)
    have "handed_out (fst (web_poll_next w s)) @ (browser_yields ok es (snd (web_poll_next w s)) @ wb_queue (browser_run ok es (snd (web_poll_next w s))))
            = (handed_out (fst (web_poll_next w s)) @ wb_queue (snd (web_poll_next w s))) @ arrivals es"
      by (simp add: Cons.IH)
    then show ?thesis
      by (simp add: WePoll poll_takes_the_head)
  qed (simp_all add: Cons.IH on_message_def on_error_def on_close_def)
qed simp

lemma step_keeps_wakers:
  assumes "no_lost_waker s"
  shows "no_lost_waker (browser_step ok e s)"
  using assms
  by (cases e)
     (auto simp: no_lost_waker_def on_message_def on_error_def on_close_def web_poll_next_def split: option.splits list.splits)

lemma run_keeps_wakers: "no_lost_waker s \<Longrightarrow> no_lost_waker (browser_run ok es s)"
  by (induction es arbitrary: s) (simp_all add: step_keeps_wakers)



text \<open>
  A stream whose ready state has left OPEN ends as soon as its queue is empty: the close event that the browser still has to
  deliver, with its code and reason, is then never handed out.
\<close>

theorem closing_stream_ends_before_the_close_frame:
  "fst (web_poll_next w (s\<lparr>wb_ready := 2, wb_queue := []\<rparr>)) = PollReady None"
  by (simp add: web_poll_next_def ready_state_of_u16_def)

text \<open>Sending on a stream that is not open is an error and reaches the browser with nothing.\<close>

theorem closed_stream_sends_nothing:
  assumes "ready_state_of_u16 (wb_ready s) \<noteq> Some RsOpen"
  shows "web_poll_ready s = Inl TeConnectionClosed \<and> web_start_send ok m s = (Inl TeConnectionClosed, s)"
  using assms by (simp add: web_poll_ready_def web_start_send_def split: option.splits ready_state.splits)

end
