(* ===== verification/Encrypt.thy ===== *)
theory Encrypt
  imports Prelude
begin

section \<open>Encryption\<close>

text \<open>
  \<open>libs/encrypt/src\<close>: encryption of data and texts with a shared secret (\<open>aes_encrypt.rs\<close>), encryptors and serialised
  values under one of them (\<open>encryptor.rs\<close>, \<open>data.rs\<close>). AES-256-GCM, HKDF, base64, bincode and the generator of the nonce are
  arguments; the text of a string is the list of its bytes.
\<close>

subsection \<open>AES-GCM\<close>

definition KEY_LENGTH :: nat where "KEY_LENGTH = 32"
definition NONCE_LENGTH :: nat where "NONCE_LENGTH = 12"

datatype crypt_error =
    CrEncryption | CrTooShort | CrDecryption | CrBase64 | CrUtf8 | CrBincode

record crypto_api =
  cy_hkdf :: "bytes \<Rightarrow> bytes \<Rightarrow> nat \<Rightarrow> bytes option"
  cy_encrypt :: "bytes \<Rightarrow> bytes \<Rightarrow> bytes \<Rightarrow> bytes option"
  cy_decrypt :: "bytes \<Rightarrow> bytes \<Rightarrow> bytes \<Rightarrow> bytes option"
  cy_b64_encode :: "bytes \<Rightarrow> bytes"
  cy_b64_decode :: "bytes \<Rightarrow> bytes option"
  cy_utf8 :: "bytes \<Rightarrow> bool"

text \<open>\<open>derive_key\<close>: the key is what HKDF expands, without info, to the length of a key; \<open>None\<close> is the panic of \<open>expect\<close>.\<close>

definition derive_key :: "crypto_api \<Rightarrow> bytes \<Rightarrow> bytes option" where
  "derive_key cy secret = cy_hkdf cy secret [] KEY_LENGTH"

definition encrypt_data :: "crypto_api \<Rightarrow> bytes \<Rightarrow> bytes \<Rightarrow> bytes \<Rightarrow> (crypt_error + bytes) option" where
  "encrypt_data cy nonce data secret =
     map_option (\<lambda>key.
       case cy_encrypt cy key nonce data of
         Some ciphertext \<Rightarrow> Inr (nonce @ ciphertext)
       | None \<Rightarrow> Inl CrEncryption) (derive_key cy secret)"

definition decrypt_data :: "crypto_api \<Rightarrow> bytes \<Rightarrow> bytes \<Rightarrow> (crypt_error + bytes) option" where
  "decrypt_data cy data secret =
     (if length data \<le> NONCE_LENGTH then Some (Inl CrTooShort)
      else map_option (\<lambda>key.
        case cy_decrypt cy key (take NONCE_LENGTH data) (drop NONCE_LENGTH data) of
          Some plain \<Rightarrow> Inr plain
        | None \<Rightarrow> Inl CrDecryption) (derive_key cy secret))"

definition encrypt_text :: "crypto_api \<Rightarrow> bytes \<Rightarrow> bytes \<Rightarrow> bytes \<Rightarrow> (crypt_error + bytes) option" where
  "encrypt_text cy nonce data secret =
     map_option (\<lambda>r. res_bind r (\<lambda>encrypted. Inr (cy_b64_encode cy encrypted))) (encrypt_data cy nonce data secret)"

definition decrypt_text :: "crypto_api \<Rightarrow> bytes \<Rightarrow> bytes \<Rightarrow> (crypt_error + bytes) option" where
  "decrypt_text cy data secret =
     (case cy_b64_decode cy data of
        None \<Rightarrow> Some (Inl CrBase64)
      | Some encrypted \<Rightarrow>
          map_option (\<lambda>r. res_bind r (\<lambda>decrypted. if cy_utf8 cy decrypted then Inr decrypted else Inl CrUtf8))
            (decrypt_data cy encrypted secret))"

text \<open>
  What the code relies on: HKDF with SHA-256 expands to 32 bytes, a ciphertext of AES-GCM is the data's length and a tag of 16
  bytes and decrypts under the key and nonce it was made with, and base64 decodes what it has encoded.
\<close>

definition crypto_laws :: "crypto_api \<Rightarrow> bool" where
  "crypto_laws cy \<longleftrightarrow>
     (\<forall>secret. \<exists>key. cy_hkdf cy secret [] KEY_LENGTH = Some key) \<and>
     (\<forall>key nonce data c. cy_encrypt cy key nonce data = Some c
        \<longrightarrow> length c = length data + 16 \<and> cy_decrypt cy key nonce c = Some data) \<and>
     (\<forall>data. cy_b64_decode cy (cy_b64_encode cy data) = Some data)"

subsection \<open>Values under an encryptor\<close>

record encryptor =
  en_encrypt :: "bytes \<Rightarrow> crypt_error + bytes"
  en_decrypt :: "bytes \<Rightarrow> crypt_error + bytes"

definition noop_encryptor :: encryptor where
  "noop_encryptor = \<lparr>en_encrypt = \<lambda>data. Inr data, en_decrypt = \<lambda>data. Inr data\<rparr>"

text \<open>\<open>bincode\<close> on values of type \<open>'a\<close>, and on the bytes an \<open>EncryptionData\<close> is.\<close>

record 'a bincode_of =
  bi_serialize :: "'a \<Rightarrow> bytes option"
  bi_deserialize :: "bytes \<Rightarrow> 'a option"

datatype encryption_data = EncryptionData bytes

definition bincode_result :: "'a option \<Rightarrow> crypt_error + 'a" where
  "bincode_result r = (case r of Some x \<Rightarrow> Inr x | None \<Rightarrow> Inl CrBincode)"

definition encryption_from_data :: "'a bincode_of \<Rightarrow> encryptor \<Rightarrow> 'a \<Rightarrow> crypt_error + encryption_data" where
  "encryption_from_data bi en data =
     res_bind (bincode_result (bi_serialize bi data)) (\<lambda>data.
     res_bind (en_encrypt en data) (\<lambda>encrypted. Inr (EncryptionData encrypted)))"

fun encryption_decrypt :: "'a bincode_of \<Rightarrow> encryptor \<Rightarrow> encryption_data \<Rightarrow> crypt_error + 'a" where
  "encryption_decrypt bi en (EncryptionData d) =
     res_bind (en_decrypt en d) (\<lambda>plain. bincode_result (bi_deserialize bi plain))"

definition encryption_of_bytes :: "encryption_data bincode_of \<Rightarrow> bytes \<Rightarrow> crypt_error + encryption_data" where
  "encryption_of_bytes bi v = bincode_result (bi_deserialize bi v)"

definition bytes_of_encryption :: "encryption_data bincode_of \<Rightarrow> encryption_data \<Rightarrow> crypt_error + bytes" where
  "bytes_of_encryption bi v = bincode_result (bi_serialize bi v)"

subsection \<open>What it promises\<close>

lemma encrypted_data_decrypts:
  assumes laws: "crypto_laws cy" and nonce: "length nonce = NONCE_LENGTH"
    and enc: "encrypt_data cy nonce data secret = Some (Inr sealed)"
  shows "decrypt_data cy sealed secret = Some (Inr data)"
proof -
  from enc obtain key c where k: "derive_key cy secret = Some key" "cy_encrypt cy key nonce data = Some c" "sealed = nonce @ c"
    by (auto simp: encrypt_data_def split: option.splits)
  with laws have c: "length c = length data + 16" "cy_decrypt cy key nonce c = Some data"
    unfolding crypto_laws_def by blast+
  have short: "\<not> length sealed \<le> NONCE_LENGTH" "take NONCE_LENGTH sealed = nonce" "drop NONCE_LENGTH sealed = c"
    using c(1) k(3) nonce by simp_all
  show ?thesis
    by (simp add: decrypt_data_def short k(1) c(2))
qed

lemma encryption_fails_only_in_the_cipher:
  assumes "crypto_laws cy"
  shows "encrypt_data cy nonce data secret \<noteq> None \<and> decrypt_data cy sealed secret \<noteq> None"
  using assms by (auto simp: crypto_laws_def encrypt_data_def decrypt_data_def derive_key_def)

text \<open>A text under a secret is read back with that secret.\<close>

theorem encrypted_text_is_read_back:
  assumes laws: "crypto_laws cy" and "length nonce = NONCE_LENGTH" and utf8: "cy_utf8 cy data"
    and enc: "encrypt_text cy nonce data secret = Some (Inr t)"
  shows "decrypt_text cy t secret = Some (Inr data)"
proof -
  from enc obtain r where r: "encrypt_data cy nonce data secret = Some r"
      "res_bind r (\<lambda>encrypted. Inr (cy_b64_encode cy encrypted)) = Inr t"
    by (auto simp: encrypt_text_def)
  then obtain sealed where s: "r = Inr sealed" "t = cy_b64_encode cy sealed"
    by (cases r) auto
  have "decrypt_data cy sealed secret = Some (Inr data)"
    using encrypted_data_decrypts assms(1,2) r(1) s(1) by blast
  with laws utf8 show ?thesis
    by (simp add: decrypt_text_def s(2) crypto_laws_def)
qed

text \<open>A value under an encryptor whose decryption undoes its encryption is read back; so it is under the one that does nothing.\<close>

theorem encrypted_value_is_read_back:
  assumes "\<And>x s. bi_serialize bi x = Some s \<Longrightarrow> bi_deserialize bi s = Some x"
    and "\<And>d c. en_encrypt en d = Inr c \<Longrightarrow> en_decrypt en c = Inr d"
    and "encryption_from_data bi en x = Inr e"
  shows "encryption_decrypt bi en e = Inr x"
  using assms by (auto simp: encryption_from_data_def bincode_result_def res_bind_def split: option.splits sum.splits)

lemma noop_decrypts: "en_encrypt noop_encryptor d = Inr c \<Longrightarrow> en_decrypt noop_encryptor c = Inr d"
  by (simp add: noop_encryptor_def)

text \<open>What is not longer than a nonce is refused before any key is derived.\<close>

theorem short_ciphertext_is_refused:
  assumes "length data \<le> 12"
  shows "decrypt_data cy data secret = Some (Inl CrTooShort)"
  using assms by (simp add: decrypt_data_def NONCE_LENGTH_def)

end
