(* ===== verification/Entry.thy ===== *)
theory Entry
  imports Auth Session AccountProps
begin

section \<open>Opening a websocket\<close>

text \<open>
  \<open>src/api/ws.rs\<close>: a request for a websocket, its authentication by the token of its path, the user it is opened for and the
  session that is started; \<open>src/biz/pg_listener.rs\<close>: the changes of a user's row that the session hears of;
  \<open>src/middleware/metrics_mw.rs\<close>, \<open>src/api/metrics.rs\<close>, \<open>libs/realtime/src/collaborate/metrics.rs\<close>: what is counted.
\<close>

subsection \<open>The request\<close>

definition MAX_FRAME_SIZE :: nat where "MAX_FRAME_SIZE = 65536"

text \<open>The two settings of websockets, in seconds, as \<open>u8\<close>.\<close>

record ws_setting =
  ws_heartbeat_interval :: u8
  ws_client_timeout :: u8

datatype ws_answer =
    WsUnauthorized string
  | WsUserNotFound
  | WsRefused app_response_error
  | WsHandshakeFailed string
  | WsStarted session nat nat

text \<open>
  \<open>establish_ws_connection\<close>: \<open>q\<close> is the error of the query of the user, \<open>upgrade\<close> what the framework makes of the headers of the
  handshake; the identifiers and the clock are those of the new session. A session is started with its heartbeat interval in
  milliseconds and the largest frame it takes.
\<close>

definition establish_ws_connection ::
  "(string list \<Rightarrow> string) \<Rightarrow> jwt_api \<Rightarrow> string \<Rightarrow> int \<Rightarrow> sqlx_error option \<Rightarrow> string + unit \<Rightarrow> ws_setting
     \<Rightarrow> string \<Rightarrow> string \<Rightarrow> string \<Rightarrow> string \<Rightarrow> nat \<Rightarrow> nat \<Rightarrow> 'e cloud \<Rightarrow> 'e cloud \<times> ws_answer"
where
  "establish_ws_connection vd jw secret ts_now q upgrade setting token device_id connect_id session_id socket clock s =
     (case res_bind (authorization_from_token jw secret ts_now token) (authorization_uuid jw) of
        Inl e \<Rightarrow> (s, WsUnauthorized e)
      | Inr user_uuid \<Rightarrow>
          (case get_user_uid q user_uuid s of
             (s1, Inr uid) \<Rightarrow>
               (s1, case upgrade of
                      Inl e \<Rightarrow> WsHandshakeFailed e
                    | Inr _ \<Rightarrow>
                        WsStarted
                          (session_new session_id socket \<lparr>ru_uid = uid, ru_device_id = device_id, ru_connect_id = connect_id\<rparr>
                             (unat (ws_client_timeout setting) * 1000) clock)
                          (unat (ws_heartbeat_interval setting) * 1000) (MAX_FRAME_SIZE * 2))
           | (s1, Inl err) \<Rightarrow>
               (s1, if is_record_not_found err then WsUserNotFound else WsRefused (response_error_of vd err))))"

subsection \<open>The changes of a user\<close>

text \<open>\<open>subscribe_user_change\<close>: of the notifications of the table, those that have the row of the user.\<close>

definition user_changes_for :: "i64 \<Rightarrow> user_row option list \<Rightarrow> user_row option list" where
  "user_changes_for uid notifications =
     filter (\<lambda>n. case n of Some row \<Rightarrow> ur_uid row = uid | None \<Rightarrow> False) notifications"

text \<open>
  \<open>PostgresDBListener\<close>: the notifications of a channel until the connection to the database fails; a payload that is no value of
  the type is passed over.
\<close>

fun listen_channel :: "(string \<Rightarrow> string + 'a) \<Rightarrow> (string + string) list \<Rightarrow> 'a list" where
  "listen_channel parse [] = []"
| "listen_channel parse (Inl err # ns) = []"
| "listen_channel parse (Inr payload # ns) =
     (case parse payload of
        Inr change \<Rightarrow> change # listen_channel parse ns
      | Inl err \<Rightarrow> listen_channel parse ns)"

subsection \<open>Metrics\<close>

text \<open>Counters are of 64 bits; the exemplars with the id of a request are those of the library.\<close>

record app_metrics =
  mt_requests_count :: "string \<Rightarrow> 64 word"
  mt_requests_latency :: "string \<Rightarrow> 64 word"
  mt_requests_result :: "string \<times> nat \<Rightarrow> 64 word"

definition app_metrics_new :: app_metrics where
  "app_metrics_new = \<lparr>mt_requests_count = \<lambda>_. 0, mt_requests_latency = \<lambda>_. 0, mt_requests_result = \<lambda>_. 0\<rparr>"

definition record_request :: "string \<Rightarrow> 64 word \<Rightarrow> nat \<Rightarrow> app_metrics \<Rightarrow> app_metrics" where
  "record_request path ms status_code m =
     m\<lparr>mt_requests_count := (mt_requests_count m)(path := mt_requests_count m path + 1),
       mt_requests_latency := (mt_requests_latency m)(path := mt_requests_latency m path + ms),
       mt_requests_result := (mt_requests_result m)((path, status_code) := mt_requests_result m (path, status_code) + 1)\<rparr>"

text \<open>
  \<open>MetricsMiddlewareService::call\<close>: the pattern that the path matches, if any, the time in milliseconds and what the service
  answers, a status or an error.
\<close>

definition metrics_call :: "string option \<Rightarrow> 64 word \<Rightarrow> 'e + nat \<Rightarrow> app_metrics \<Rightarrow> app_metrics \<times> ('e + nat)" where
  "metrics_call endpoint ms res m =
     (case res of
        Inl e \<Rightarrow> (m, Inl e)
      | Inr status \<Rightarrow>
          ((case endpoint of Some path \<Rightarrow> record_request path ms status m | None \<Rightarrow> m), Inr status))"

record realtime_metrics =
  rm_connected_users :: int
  rm_mem_cache_usage :: int
  rm_opening_collab_count :: int

definition record_connected_users :: "nat \<Rightarrow> realtime_metrics \<Rightarrow> realtime_metrics" where
  "record_connected_users n m = m\<lparr>rm_connected_users := int n\<rparr>"

definition record_mem_cache_usage :: "nat \<Rightarrow> realtime_metrics \<Rightarrow> realtime_metrics" where
  "record_mem_cache_usage size_in_bytes m = m\<lparr>rm_mem_cache_usage := int (size_in_bytes div (1024 * 1024))\<rparr>"

definition record_opening_collab_count :: "nat \<Rightarrow> realtime_metrics \<Rightarrow> realtime_metrics" where
  "record_opening_collab_count n m = m\<lparr>rm_opening_collab_count := int n\<rparr>"

end
