(* ===== verification/EntryProps.thy ===== *)
theory EntryProps
  imports Entry AuthProps SessionProps
begin

section \<open>Properties of the websocket entry\<close>

text \<open>
  The cache of user ids agrees with the table of users in every state of a run, so a session speaks for the user of the token it
  was opened with; what it hears of users; and what the metrics count.
\<close>

subsection \<open>Users keep their ids\<close>

definition uids_kept :: "accounts \<Rightarrow> accounts \<Rightarrow> bool" where
  "uids_kept a a' \<longleftrightarrow> (\<forall>uuid uid. uid_of_uuid a uuid = Some uid \<longrightarrow> uid_of_uuid a' uuid = Some uid)"

definition cache_ok :: "'e cloud \<Rightarrow> bool" where
  "cache_ok s \<longleftrightarrow> (\<forall>uuid uid. cd_uids s uuid = Some uid \<longrightarrow> uid_of_uuid (cd_accounts s) uuid = Some uid)"

lemma uids_kept_same: "ac_users a' = ac_users a \<Longrightarrow> uids_kept a a'"
  by (simp add: uids_kept_def uid_of_uuid_def)

lemma uids_kept_append:
  assumes "ac_users a' = ac_users a @ us"
  shows "uids_kept a a'"
proof -
  have "find P xs = Some u \<Longrightarrow> find P (xs @ us) = Some u" for P and xs us :: "af_user_row list" and u
    by (induction xs) (auto split: if_splits)
  then show ?thesis unfolding uids_kept_def uid_of_uuid_def assms by fastforce
qed

lemma uids_kept_map:
  assumes "ac_users a' = map f (ac_users a)" and "\<And>u. us_uuid (f u) = us_uuid u" and "\<And>u. us_uid (f u) = us_uid u"
  shows "uids_kept a a'"
proof -
  have "map_option us_uid (find (\<lambda>u. us_uuid u = uuid) (map f xs)) = map_option us_uid (find (\<lambda>u. us_uuid u = uuid) xs)" for uuid xs
    by (induction xs) (simp_all add: assms)
  then show ?thesis by (simp add: uids_kept_def uid_of_uuid_def assms(1))
qed

lemma update_user_uids: "update_user q now uuid name email md a = Inr a' \<Longrightarrow> uids_kept a a'"
  unfolding update_user_def
  by (auto simp: Let_def uids_kept_same user_set_def split: option.splits if_splits
      intro!: uids_kept_map [where f = "\<lambda>u. if us_uuid u = uuid then user_set name email md now u else u"])

lemma create_user_uids:
  assumes "create_user q w sid now uid uuid email name t = Inr (t', w')"
  shows "uids_kept (fst t) (fst t')"
proof -
  let ?us = "[\<lparr>us_uid = uid, us_uuid = uuid, us_email = email, us_password = [], us_name = name,
        us_metadata = Map.empty, us_encryption_sign = None, us_updated_at = now\<rparr>]"
  have "fst t' = fst (workspace_inserted w sid now uid ''My Workspace'' ((fst t)\<lparr>ac_users := ac_users (fst t) @ ?us\<rparr>))"
    using assms by (cases t) (auto simp: create_user_def Let_def split: option.splits if_splits prod.splits)
  then have "ac_users (fst t') = ac_users (fst t) @ ?us" by simp
  then show ?thesis by (rule uids_kept_append)
qed

lemma create_new_user_uids:
  assumes "create_new_user ce api f q now user uuid uid w sid tps s = (s1, r)"
  shows "cd_uids s1 = cd_uids s" "cd_accounts s1 = cd_accounts s" "r = Inr t \<Longrightarrow> uids_kept (cd_accounts s) (fst t)"
  using assms create_user_uids [of q w sid now uid uuid "ui_email user" _ "cd_tables s"]
  by (auto simp: create_new_user_def set_enforcer_def split: sum.splits prod.splits)

lemma sign_in_uids:
  "uids_kept (cd_accounts s) (cd_accounts (fst (verify_token ce api f tx now info uid w sid tps s)))"
  "cd_uids (fst (verify_token ce api f tx now info uid w sid tps s)) = cd_uids s"
  by (auto simp: verify_token_def Let_def uids_kept_same set_tables_def dest: create_new_user_uids split: sum.split prod.split)

lemma cloud_step_uids: "uids_kept (cd_accounts s) (cd_accounts (cloud_step ce api ord s ev))"
proof (cases ev)
  case (EvSignIn f tx now info uid w sid tps)
  then show ?thesis using sign_in_uids(1) by simp
next
  case (EvUpdateUser q now uuid n e md)
  then show ?thesis using update_user_uids
    by (auto simp: cloud_update_user_def uids_kept_same split: sum.split)
next
  case EvMemberNotified
  then show ?thesis by (auto simp: uids_kept_same split: list.split)
qed (simp_all add: uids_kept_same member_handlers_users workspace_operations_users)

lemma cloud_step_cache: "cd_uids (cloud_step ce api ord s ev) = cd_uids s"
  by (cases ev)
     (auto simp: sign_in_uids(2) cloud_update_user_def create_workspace_for_user_def delete_workspace_for_user_def open_workspace_def
       add_workspace_members_handler_def add_workspace_members_def insert_roles_def remove_workspace_member_handler_def
       remove_workspace_members_def update_workspace_member_handler_def update_workspace_member_def Let_def set_tables_def
       set_enforcer_def split: sum.split prod.split option.split list.split)

text \<open>Requests that look up the id of their user, between the operations on the accounts.\<close>

datatype entry_event = EnCloud cloud_event | EnUid "sqlx_error option" string

fun entry_step ::
  "collab_api \<Rightarrow> 'e casbin_api \<Rightarrow> ((i64 \<times> af_role) list \<Rightarrow> (i64 \<times> af_role) list) \<Rightarrow> 'e cloud \<Rightarrow> entry_event \<Rightarrow> 'e cloud" where
  "entry_step ce api ord s (EnCloud ev) = cloud_step ce api ord s ev"
| "entry_step ce api ord s (EnUid q uuid) = fst (get_user_uid q uuid s)"

lemma fetch_one_Inr: "fetch_one q r = Inr x \<Longrightarrow> r = Some x" "Inr x = fetch_one q r \<Longrightarrow> r = Some x"
  by (auto simp: fetch_one_def split: option.splits)

lemma get_user_uid_cache:
  assumes "cache_ok s" and "get_user_uid q uuid s = (s', r)"
  shows "cache_ok s'" "r = Inr uid \<Longrightarrow> uid_of_uuid (cd_accounts s) uuid = Some uid"
  using assms
  by (auto simp: get_user_uid_def cache_ok_def select_uid_from_uuid_def dest: fetch_one_Inr split: option.splits sum.splits if_splits)

interpretation entry_runs: step_invariant "entry_step ce api ord" "\<lambda>_ _. True" cache_ok
  for ce api ord
proof unfold_locales
  fix s :: "'a cloud" and ev
  assume I: "cache_ok s"
  show "cache_ok (entry_step ce api ord s ev)"
  proof (cases ev)
    case (EnCloud e)
    then show ?thesis
      using I cloud_step_uids [of s ce api ord e] by (simp add: cache_ok_def uids_kept_def cloud_step_cache)
  next
    case (EnUid q uuid)
    then show ?thesis
      using get_user_uid_cache(1) [OF I prod.collapse [symmetric]] by simp
  qed
qed

subsection \<open>A session speaks for one user\<close>

fun speaker :: "session_output \<Rightarrow> rt_user option" where
  "speaker (ToSocket _) = None"
| "speaker (ServerConnect c) = Some (cn_user c)"
| "speaker (ServerDisconnect d) = Some (dc_user d)"
| "speaker (ToServer _ u _) = Some u"

definition speaks_for :: "rt_user \<Rightarrow> session \<times> session_output list \<Rightarrow> bool" where
  "speaks_for u = (\<lambda>(ss, outs). ss_user ss = u \<and> (\<forall>out \<in> set outs. speaker out \<in> {None, Some u}))"

lemma rate_limited_user: "rate_limited now s = (s1, b) \<Longrightarrow> ss_user s1 = ss_user s"
  by (auto simp: rate_limited_def Let_def split: if_splits)

lemma forward_binary_speaks: "out \<in> set (snd (forward_binary bc accepts err now u b)) \<Longrightarrow> speaker out = Some u"
  by (auto simp: forward_binary_def split: sum.splits option.splits)

lemma handle_ws_speaks:
  assumes "handle_ws bc accepts err now msg ss = (ss', outs)"
  shows "ss_user ss' = ss_user ss \<and> (\<forall>out \<in> set outs. speaker out \<in> {None, Some (ss_user ss)})"
proof -
  obtain s1 limited where r: "rate_limited now ss = (s1, limited)" by (cases "rate_limited now ss")
  note u = rate_limited_user [OF r]
  show ?thesis
  proof (cases limited)
    case False
    with assms r u forward_binary_speaks [of _ bc accepts err now "ss_user ss"] show ?thesis
      by (auto simp: handle_ws_def ctx_stop_def session_stopping_def disconnect_msg_def Let_def
          split: sum.splits protocol_error.splits ws_message.splits)
  qed (use assms r u in \<open>simp add: handle_ws_def\<close>)
qed

lemma session_step_speaks:
  assumes "session_step bc ss ev = (ss', outs)"
  shows "ss_user ss' = ss_user ss" "\<forall>out \<in> set outs. speaker out \<in> {None, Some (ss_user ss)}"
  using assms
  by (auto simp: session_step.simps session_started_def ctx_stop_def session_stopping_def disconnect_msg_def
      Let_def session_hb_def session_message_def dest!: handle_ws_speaks split: if_splits session_event.splits option.splits)

interpretation speech: step_invariant "trace_step bc" "\<lambda>_ _. True" "speaks_for u" for bc u
proof unfold_locales
  fix s ev assume I: "speaks_for u s"
  obtain ss outs where s: "s = (ss, outs)" by (cases s)
  obtain ss' outs' where step: "session_step bc ss ev = (ss', outs')" by (cases "session_step bc ss ev")
  show "speaks_for u (trace_step bc s ev)"
    using I session_step_speaks [OF step] by (auto simp: s speaks_for_def trace_step_def step)
qed

lemma started_session:
  assumes "establish_ws_connection vd jw secret now q upgrade setting token device connect sid socket clock s
             = (s', WsStarted ss hb frame)"
  obtains auth uuid uid where "authorization_from_token jw secret now token = Inr auth" "authorization_uuid jw auth = Inr uuid"
    "get_user_uid q uuid s = (s', Inr uid)" "ss_user ss = \<lparr>ru_uid = uid, ru_device_id = device, ru_connect_id = connect\<rparr>"
  using assms
  by (auto simp: establish_ws_connection_def session_new_def res_bind_def split: sum.splits prod.splits if_splits)

lemma live_token:
  assumes "authorization_from_token jw secret now token = Inr auth" and "authorization_uuid jw auth = Inr uuid"
  shows "\<exists>claims sub expiry. jw_decode jw secret token = Inr claims \<and> jc_sub claims = Some sub \<and> jw_parse_uuid jw sub = Inr uuid \<and>
    jc_exp claims = Some expiry \<and> now \<le> expiry"
  using assms
  by (auto simp: authorization_from_token_def gotrue_jwt_claims_from_token_def authorization_uuid_def verify_claim_def res_map_err_def
      elim!: res_bind_InrE split: sum.splits option.splits if_splits)

text \<open>C18: whatever a connection does and whatever happened to the accounts before it was opened, all that reaches the
  collaboration server from it is in the name of the user with the uuid of a verified token that had not expired, and of the device
  of its request: the id is the one that the table of users has for that uuid.\<close>

theorem socket_speaks_for_the_user_of_its_token:
  assumes cache: "cache_ok s0" and s: "s = run (entry_step ce api ord) s0 evs"
    and opened: "establish_ws_connection vd jw secret now q upgrade setting token device connect sid socket clock s
                   = (s', WsStarted ss hb frame)"
    and out: "out \<in> set (snd (run (trace_step bc) (ss, []) sevs))" and speaks: "speaker out = Some u"
  shows "\<exists>claims sub uuid expiry. jw_decode jw secret token = Inr claims \<and> jc_exp claims = Some expiry \<and> now \<le> expiry \<and>
    jc_sub claims = Some sub \<and> jw_parse_uuid jw sub = Inr uuid \<and> uid_of_uuid (cd_accounts s) uuid = Some (ru_uid u) \<and>
    ru_device_id u = device"
proof -
  obtain auth uuid uid where a: "authorization_from_token jw secret now token = Inr auth" "authorization_uuid jw auth = Inr uuid"
    and g: "get_user_uid q uuid s = (s', Inr uid)"
    and ss: "ss_user ss = \<lparr>ru_uid = uid, ru_device_id = device, ru_connect_id = connect\<rparr>"
    using started_session [OF opened] .
  have "cache_ok s"
    unfolding s by (rule entry_runs.run_inv [OF cache admissible_True])
  then have id: "uid_of_uuid (cd_accounts s) uuid = Some uid"
    using get_user_uid_cache(2) [OF _ g] by blast
  have "speaks_for (ss_user ss) (run (trace_step bc) (ss, []) sevs)"
    by (rule speech.run_inv [OF _ admissible_True]) (simp add: speaks_for_def)
  then have "speaker out \<in> {None, Some (ss_user ss)}"
    using out by (cases "run (trace_step bc) (ss, []) sevs") (auto simp: speaks_for_def)
  then have "u = ss_user ss"
    using speaks by simp
  then show ?thesis
    using live_token [OF a] id ss by auto
qed

definition sample_setting :: ws_setting where
  "sample_setting = \<lparr>ws_heartbeat_interval = 6, ws_client_timeout = 60\<rparr>"

definition sample_entry_jwt :: jwt_api where
  "sample_entry_jwt = sample_jwt\<lparr>jw_parse_uuid := \<lambda>_. Inr ''u1''\<rparr>"

definition sample_entry_user :: rt_user where
  "sample_entry_user = \<lparr>ru_uid = 1, ru_device_id = ''phone'', ru_connect_id = ''c''\<rparr>"

theorem socket_speaks_for_the_user_of_its_token_witness:
  "\<exists>claims uuid. jw_decode sample_entry_jwt ''s'' ''s'' = Inr claims \<and>
    uid_of_uuid (cd_accounts (run (entry_step sample_api sample_casbin (\<lambda>rs. rs)) sample_cloud [EnUid None ''u1''])) uuid = Some 1"
proof -
  define s where "s = run (entry_step sample_api sample_casbin (\<lambda>rs. rs)) sample_cloud [EnUid None ''u1'']"
  define ss where "ss = session_new ''sid'' 0 sample_entry_user 60000 0"
  have c: "cache_ok sample_cloud" by (simp add: cache_ok_def sample_cloud_def)
  have a: "authorization_from_token sample_entry_jwt ''s'' 90 ''s'' = Inr \<lparr>az_token = ''s'', az_claims = sample_claims\<rparr>"
    by (simp add: authorization_from_token_def gotrue_jwt_claims_from_token_def verify_claim_def sample_entry_jwt_def
        sample_jwt_def sample_claims_def)
  have u: "authorization_uuid sample_entry_jwt \<lparr>az_token = ''s'', az_claims = sample_claims\<rparr> = Inr ''u1''"
    by (simp add: authorization_uuid_def sample_entry_jwt_def sample_claims_def)
  have g: "get_user_uid None ''u1'' s = (s, Inr 1)"
    by (simp add: s_def get_user_uid_def select_uid_from_uuid_def fetch_one_def uid_of_uuid_def sample_cloud_def sample_accounts_def)
  have o: "establish_ws_connection (\<lambda>_. []) sample_entry_jwt ''s'' 90 None (Inr ()) sample_setting ''s'' ''phone'' ''c'' ''sid'' 0 0 s
      = (s, WsStarted ss 6000 131072)"
    by (simp add: establish_ws_connection_def a u g ss_def sample_entry_user_def sample_setting_def MAX_FRAME_SIZE_def)
  have p: "ServerConnect \<lparr>cn_socket = 0, cn_user = sample_entry_user, cn_session_id = ''sid''\<rparr>
      \<in> set (snd (run (trace_step sample_bincode) (ss, []) [SeStarted True]))"
    by (simp add: trace_step_def session_step.simps session_started_def ss_def session_new_def)
  from socket_speaks_for_the_user_of_its_token [OF c s_def o p, of sample_entry_user]
  show ?thesis by (auto simp: s_def sample_entry_user_def)
qed

text \<open>The cache answers for a user whose row is gone, and a connection is opened for it.\<close>

theorem cached_user_is_served_without_a_row:
  assumes "authorization_from_token jw secret now token = Inr auth" and "authorization_uuid jw auth = Inr uuid"
    and "cd_uids s uuid = Some uid"
  shows "snd (establish_ws_connection vd jw secret now q (Inr ()) setting token device connect sid socket clock (s\<lparr>cd_accounts := a\<rparr>))
    = WsStarted (session_new sid socket \<lparr>ru_uid = uid, ru_device_id = device, ru_connect_id = connect\<rparr>
        (unat (ws_client_timeout setting) * 1000) clock) (unat (ws_heartbeat_interval setting) * 1000) 131072"
  using assms by (simp add: establish_ws_connection_def get_user_uid_def MAX_FRAME_SIZE_def)

subsection \<open>What a session hears of users\<close>

theorem session_hears_of_its_user_only:
  assumes "n \<in> set (user_changes_for uid (listen_channel parse ns))"
  shows "\<exists>c. user_change_message json n = Some (RtUser (ProfileChange c)) \<and> auc_uid c = uid"
  using assms by (auto simp: user_changes_for_def user_change_message_def split: option.splits)

subsection \<open>Metrics\<close>

text \<open>Requests with their pattern, time and outcome, in the order of their answers.\<close>

type_synonym request_seen = "string option \<times> 64 word \<times> (string + nat)"

definition metrics_step :: "app_metrics \<Rightarrow> request_seen \<Rightarrow> app_metrics" where
  "metrics_step m = (\<lambda>(endpoint, ms, res). fst (metrics_call endpoint ms res m))"

text \<open>The count of a path is the number of requests with that pattern that were answered; a request that ended in an error of
  the service, as the refusal of a permission does, is in none of the counts.\<close>

theorem count_is_the_number_of_answers:
  "mt_requests_count (run metrics_step app_metrics_new rs) path
     = of_nat (length (filter (\<lambda>(endpoint, ms, res). endpoint = Some path \<and> is_ok res) rs))"
proof -
  let ?P = "\<lambda>(endpoint, ms, res). endpoint = Some path \<and> is_ok res"
  have step: "mt_requests_count (metrics_step m r) path = mt_requests_count m path + (if ?P r then 1 else 0)" for m and r :: request_seen
    by (auto simp: metrics_step_def metrics_call_def record_request_def split: sum.split option.split prod.split)
  have "mt_requests_count (run metrics_step m rs) path = mt_requests_count m path + of_nat (length (filter ?P rs))" for m
    by (induction rs arbitrary: m) (auto simp: step)
  then show ?thesis by (simp add: app_metrics_new_def)
qed

end
