(* ===== verification/Spec2Isabelle.thy ===== *)
theory Spec2Isabelle
  imports Prelude Dto Snowflake SinkDelivery ServerProps StorageProps PluginProps SessionProps ClientProps AccountProps HttpProps
    FileProps CollabApiProps TokenProps WsProps AuthProps AdminProps TemplateProps TransportProps StartupProps Encrypt EntryProps
begin

section \<open>AppFlowy Cloud: collaboration, permissions and storage\<close>

text \<open>
  A model of the core of AppFlowy Cloud, the server on which clients edit shared documents (\<open>collabs\<close>)
  together. A client keeps a replica of a document and a queue of its unsent changes; its messages travel
  over a websocket to a session, which passes them to the collaboration server; the server subscribes the
  user to the group of the document, integrates the changes into the replica of the group, acknowledges
  them and broadcasts them to the other subscribers; a plugin of the group's replica loads it from and
  flushes it to the storage, which asks the permission enforcer. All paths below are under \<open>src/\<close>.

  Theories, in the order of their imports:
  \<^item> \<open>Prelude\<close>: machine types, the result monad, decimal numbers, runs of step functions with the
    interfaces \<open>step_invariant\<close> and \<open>simulation\<close>, which every stateful component interprets.
  \<^item> \<open>AppErrors\<close>, \<open>Dto\<close>: the error type (\<open>libs/app_error\<close>) and the transfer objects with their
    validation (\<open>libs/database-entity/src/dto.rs\<close>).
  \<^item> \<open>Snowflake\<close>: the id generator (\<open>libs/snowflake\<close>), on 64-bit words.
  \<^item> \<open>SyncMessage\<close>, \<open>SyncProtocol\<close>: the wire format and the handshake of two replicas
    (\<open>libs/realtime-protocol\<close>, \<open>libs/realtime/src/collaborate/sync_protocol.rs\<close>).
  \<^item> \<open>CollabMsg\<close>, \<open>PendingQueue\<close>, \<open>CollabSink\<close>, \<open>SinkDelivery\<close>: the client side, messages
    (\<open>libs/realtime-entity/src/collab_msg.rs\<close>), the priority queue of unsent ones and the task that sends
    them (\<open>libs/client-api/src/collab_sync\<close>), with the delivery properties of its runs.
  \<^item> \<open>Enforcer\<close>, \<open>AccessControl\<close>: the permissions (\<open>src/biz/casbin\<close>), their two caches, and the
    middleware that lets requests through (\<open>src/middleware/access_control_mw.rs\<close>).
  \<^item> \<open>Broadcast\<close>, \<open>Realtime\<close>, \<open>Group\<close>, \<open>Server\<close>, \<open>ServerRuns\<close>, \<open>Channels\<close>,
    \<open>ServerProps\<close>: the collaboration server (\<open>libs/realtime/src/collaborate\<close>), its groups, the subscription
    of users, the messages in and out of a group, and the properties of its runs.
  \<^item> \<open>Session\<close>, \<open>SessionProps\<close>: the websocket session of a client (\<open>libs/realtime/src/client.rs\<close>).
  \<^item> \<open>Storage\<close>, \<open>StorageLaws\<close>, \<open>StorageProps\<close>: tables and statements
    (\<open>libs/database/src/collab\<close>), the storage controller with its caches and permission checks
    (\<open>src/biz/collab\<close>); the locale \<open>level_control\<close> is what it needs of the access control, interpreted on
    the enforcer.
  \<^item> \<open>Plugin\<close>, \<open>PluginProps\<close>: loading, creating and flushing the document of a group
    (\<open>libs/realtime/src/collaborate/plugin.rs\<close>).
  \<^item> \<open>ClientSync\<close>, \<open>ClientProps\<close>: the client's replica, its first synchronisation with the group and
    its reaction to the websocket (\<open>libs/client-api/src/collab_sync/sync.rs\<close>, \<open>plugin.rs\<close>).
  \<^item> \<open>Accounts\<close>, \<open>AccountOps\<close>, \<open>AccountLaws\<close>, \<open>AccountRuns\<close>, \<open>AccountSync\<close>, \<open>AccountProps\<close>: the tables of
    users, workspaces and members with their triggers (\<open>libs/database/src/workspace.rs\<close>, \<open>user.rs\<close>, \<open>migrations\<close>),
    sign-in, workspaces, members and profiles (\<open>src/biz/user.rs\<close>, \<open>src/biz/workspace/ops.rs\<close>,
    \<open>src/api/workspace.rs\<close>). The locale \<open>role_control\<close> is what the handlers need of the access control, interpreted
    on the enforcer; \<open>AccountSync\<close> shows what every operation keeps, so that the roles follow the table.
  \<^item> \<open>HttpApi\<close>, \<open>HttpRequests\<close>, \<open>HttpRoutes\<close>, \<open>HttpProps\<close>: what travels between the client library and the
    handlers: responses (\<open>libs/shared-entity/src/response.rs\<close>), the request of every method of the client
    (\<open>libs/client-api/src/http.rs\<close>, \<open>native/http_native.rs\<close>), the routes of the server (\<open>src/api\<close>). Every call is
    dispatched to its handler and the gate sees the ids of the call.
  \<^item> \<open>FileStore\<close>, \<open>FileApi\<close>, \<open>FileProps\<close>: the files of a workspace (\<open>libs/database/src/file\<close>,
    \<open>resource_usage.rs\<close>, \<open>src/api/file_storage.rs\<close>) over a bucket, with uploads, deletions and workspaces interleaved.
  \<^item> \<open>CollabApi\<close>, \<open>CollabApiProps\<close>: the handlers of collabs, batches, snapshots and collab members
    (\<open>src/api/workspace.rs\<close>, \<open>src/api/util.rs\<close>), from the bytes of a request to the storage.
  \<^item> \<open>GotrueApi\<close>, \<open>ClientToken\<close>, \<open>TokenRefresh\<close>, \<open>TokenProps\<close>: the client of the authentication server
    (\<open>libs/gotrue\<close>, \<open>libs/gotrue-entity\<close>), the token that a client holds (\<open>libs/client-api/src/notify.rs\<close>, the sign-in
    methods of \<open>http.rs\<close>) and its refresh by one caller and by several at once (\<open>native/http_native.rs\<close>): a request
    carries a token that lives on; without two races, which are stated, every waiting caller has one that answers it.
  \<^item> \<open>WsClient\<close>, \<open>WsProps\<close>: the websocket of the client (\<open>libs/client-api/src/ws\<close>, \<open>native/ping.rs\<close>) with its
    connections, tasks and channels; \<open>Transport\<close>, \<open>TransportProps\<close>: the library below it (\<open>libs/websocket\<close>), with close
    codes, errors, the conversions from and to \<open>tungstenite\<close> and the stream over the websocket of a browser.
  \<^item> \<open>Auth\<close>, \<open>AuthProps\<close>: the authentication of requests (\<open>src/component/auth\<close>, \<open>libs/token\<close>), and the login with
    passwords that old clients use (\<open>src/domain\<close>, \<open>src/api/user.rs\<close>); \<open>Entry\<close>, \<open>EntryProps\<close>: the request for a websocket
    (\<open>src/api/ws.rs\<close>), the notifications a session hears (\<open>src/biz/pg_listener.rs\<close>) and the metrics.
  \<^item> \<open>AdminWeb\<close>, \<open>AdminProps\<close>: the web frontend (\<open>admin_frontend/src\<close>), its sessions in Redis and its handlers.
  \<^item> \<open>Template\<close>, \<open>TemplateProps\<close>: the views and documents of a new workspace (\<open>libs/workspace-template\<close>).
    \<open>new_user_templates\<close> gives the templates that \<open>verify_token\<close> of \<open>AccountOps\<close> has as an argument.
  \<^item> \<open>Startup\<close>, \<open>StartupProps\<close>: the configuration (\<open>src/config\<close>), the account of the administrator and the bucket
    (\<open>src/application.rs\<close>), and the ids of requests (\<open>src/middleware/request_id.rs\<close>).
  \<^item> \<open>Encrypt\<close>: encryption with a shared secret (\<open>libs/encrypt\<close>).
  \<^item> This theory: properties that span components.

  How the code is represented. A struct is a record, an enum a datatype, with the names of the code; a
  handler is a function on the state of its component that gives the new state and what it sends or
  returns. \<open>Result\<close> is a sum; errors are values. An asynchronous operation is one step for each stretch
  between its suspension points that the properties tell apart; other tasks act between steps, so the
  properties of runs hold for every interleaving. Locks that are only tried, queue capacity, time-outs and
  failing statements are arguments of the steps, so each property holds for every such behaviour.

  Code outside the repository is a parameter with its documented behaviour as a hypothesis: the document
  type of \<open>yrs\<close> (\<open>crdt_laws\<close>, \<open>format_laws\<close>), its primitive encodings (\<open>yrs_laws\<close>), \<open>bincode\<close>
  (\<open>bincode_ok\<close>), \<open>casbin\<close> (\<open>casbin_ok\<close>), the order of a query (\<open>newest_first\<close>), the dispatch of the web
  framework (\<open>router_ok\<close>), JSON (\<open>json_laws\<close>), the bucket (\<open>bucket_ok\<close>), compressor and codecs (\<open>codecs_ok\<close>),
  signatures (\<open>hmac_laws\<close>), the serialisation of web sessions (\<open>session_codec\<close>), the ids of blocks, which are all different,
  and that the empty text is no password hash. Each of these has an instance (\<open>sample_...\<close>) for which the hypothesis
  is proved; the witnesses use it. Encryption (\<open>crypto_laws\<close>) has hypotheses in theorems of its theory only.

  Bounds and fuel. The reader of the wire format recurses on the rest of the buffer, which gets shorter;
  subscriptions are retried five times, reads three times and forwarded messages three times, as in the
  code, so these loops are structural or end by a measure. Nothing else is cut off.

  Not modelled: how \<open>init_state\<close> and \<open>run\<close> of \<open>src/application.rs\<close> connect to the services and register the components with
  the web server; logging, certificates and CORS; the client for browsers (\<open>libs/client-api/src/wasm\<close>), whose calls are
  stubs or those of the native client; the templates of pages; the readers and the queries of recent collabs that nothing
  uses; traits that only forward to a shared pointer; the utilities for tests. They are input and output, calls of other
  services, or code that nothing runs.
\<close>

subsection \<open>Sessions and the server\<close>

text \<open>
  What a disconnected user leaves in the server: no connection, and no subscription in any group. No event
  but a new connection of the same user brings one back.
\<close>

definition absent :: "rt_user \<Rightarrow> 'doc server \<Rightarrow> bool" where
  "absent u s \<longleftrightarrow> server_ok s \<and> subscribers_ok s \<and> sv_streams s u = None"

fun connects :: "rt_user \<Rightarrow> server_event \<Rightarrow> bool" where
  "connects u (EvConnect l c) \<longleftrightarrow> cn_user c = u"
| "connects u _ \<longleftrightarrow> False"

lemma streams_None_step:
  assumes s: "server_ok s" and u: "sv_streams s u = None" and c: "\<not> connects u ev"
  shows "sv_streams (server_step ld s ev) u = None"
proof -
  have p: "sv_streams (fst (process_realtime_message ld now l v rm s)) u = None" for now l v rm
    using process_realtime_message_keeps [OF server_okD(1) [OF s], of ld now l v rm] u by blast
  show ?thesis
  proof (cases ev)
    case (EvConnect l c')
    then have "cn_user c' \<noteq> u" using c by simp
    then show ?thesis using u EvConnect
      by (cases rule: handle_connect_cases [where s = s and c = c' and l = l]) auto
  next
    case (EvStreamMessage now l m)
    then show ?thesis using p u handle_client_stream_message_cases [of ld now l m s] by auto
  qed (use u p in \<open>auto simp: handle_disconnect_def server_tick_def Let_def\<close>)
qed

interpretation absence: step_invariant "server_step ld" "\<lambda>_ ev. removals_free ev \<and> \<not> connects u ev" "absent u"
  for ld :: "i64 \<Rightarrow> string \<Rightarrow> string \<Rightarrow> collab_type \<Rightarrow> 'doc" and u
  by unfold_locales (auto simp: absent_def streams_None_step preserves)

lemma disconnect_makes_absent:
  assumes "server_ok s" and "subscribers_ok s" and "removal_free l"
    and "sv_session_id_by_user s u = None \<or> sv_session_id_by_user s u = Some sid"
  shows "absent u (handle_disconnect True l True \<lparr>dc_user = u, dc_session_id = sid\<rparr> s)"
proof -
  let ?e = "EvDisconnect True l True \<lparr>dc_user = u, dc_session_id = sid\<rparr>"
  have "server_ok (server_step ld s ?e) \<and> subscribers_ok (server_step ld s ?e)" for ld
    using server_ok_step [OF assms(1), of ld ?e] subscribers_ok_step [OF assms(1,2), of ?e ld] assms(3) by simp
  then show ?thesis using assms(4) by (auto simp: absent_def handle_disconnect_def Let_def)
qed



end
